(* ===== verification/Prelude.thy ===== *)
theory Prelude
  imports Main "HOL-Library.Word"
begin

text \<open>
  Shared vocabulary of the development: the C integer types as words, a flat
  byte-addressed memory with little-endian 32-bit accesses (the targets are aarch64),
  block reads and writes on it, the errno values, C string helpers, and the
  frame and read-over-write lemmas that every memory proof of the other theories uses.
  Addresses are natural numbers with 0 for the null pointer: pointer arithmetic that
  wraps around is undefined in C, whereas every offset the code computes in
  \<open>uint32_t\<close> is computed here on 32-bit words, with the wrap-around.
\<close>

unbundle bit_operations_syntax

named_theorems mem_simps \<open>read-over-write equations of the byte memory\<close>
named_theorems layout \<open>offsets and sizes of the packed structures\<close>
named_theorems errno_defs \<open>values of the error codes\<close>

section \<open>Types\<close>

type_synonym u8 = "8 word"
type_synonym u16 = "16 word"
type_synonym u32 = "32 word"
type_synonym u64 = "64 word"

type_synonym addr = nat
type_synonym mem = "nat \<Rightarrow> u8"

abbreviation (input) NULL :: addr where "NULL \<equiv> 0"

text \<open>The conversion of a \<open>uint32_t\<close> to \<open>int32_t\<close> keeps the bits.\<close>

definition i32 :: "u32 \<Rightarrow> int" where
  "i32 x = sint x"

text \<open>The conversion of a wider unsigned value to \<open>int\<close> keeps the low 32 bits.\<close>

definition int_of_u64 :: "u64 \<Rightarrow> int" where
  "int_of_u64 x = sint (ucast x :: u32)"

lemma i32_small: "unat x < 2 ^ 31 \<Longrightarrow> i32 x = int (unat x)"
proof -
  assume "unat x < 2 ^ 31"
  then have "uint x < 2 ^ 31"
    using of_nat_less_iff [of "unat x" "2 ^ 31", where 'a = int] by simp
  moreover have "- (2 ^ 31) \<le> uint x"
    by (rule order_trans [OF _ uint_ge_0]) simp
  ultimately have "signed_take_bit 31 (uint x) = uint x"
    by (intro signed_take_bit_int_eq_self)
  then show ?thesis
    by (simp add: i32_def sint_uint)
qed

lemma unat_pred: "0 < x \<Longrightarrow> unat (x - 1) = unat x - 1" for x :: "'a::len word"
  by (rule unat_minus_one) (auto simp: word_gt_0)

lemma unat_pred_less: "0 < x \<Longrightarrow> unat (x - 1) < unat x" for x :: "'a::len word"
  by (simp only: unat_pred) (simp add: word_less_nat_alt)

lemma unat_lt: "unat x < 2 ^ LENGTH('a)" for x :: "'a::len word"
  by (rule unsigned_less)

lemma unat_of_nat_small: "n < 2 ^ LENGTH('a) \<Longrightarrow> unat (of_nat n :: 'a::len word) = n"
  by (simp add: unat_of_nat take_bit_nat_eq_self)

text \<open>Word arithmetic that does not wrap around.\<close>

lemma unat_add_small:
  "unat a + unat b < 2 ^ LENGTH('a) \<Longrightarrow> unat (a + b) = unat a + unat b" for a b :: "'a::len word"
  by (simp add: unat_word_ariths)

lemma unat_mult_small:
  "unat a * unat b < 2 ^ LENGTH('a) \<Longrightarrow> unat (a * b) = unat a * unat b" for a b :: "'a::len word"
  by (simp add: unat_word_ariths)

lemma unat_sub_le: "b \<le> a \<Longrightarrow> unat (a - b) = unat a - unat b" for a b :: "'a::len word"
  by (simp add: unat_sub)

lemma unat_add_no_wrap:
  fixes a b :: "'a::len word"
  assumes "a < a + b"
  shows "unat (a + b) = unat a + unat b"
proof -
  have "\<not> 2 ^ LENGTH('a) \<le> unat a + unat b"
  proof
    assume "2 ^ LENGTH('a) \<le> unat a + unat b"
    then have "unat (a + b) = unat a + unat b - 2 ^ LENGTH('a)"
    proof -
      have "unat a + unat b - 2 ^ LENGTH('a) < 2 ^ LENGTH('a)"
        using unat_lt [of a] unat_lt [of b] by linarith
      then show ?thesis
        using \<open>2 ^ LENGTH('a) \<le> unat a + unat b\<close>
        by (simp only: unat_word_ariths le_mod_geq mod_less)
    qed
    then have "unat (a + b) < unat a"
      using unat_lt [of b] unat_lt [of a] \<open>2 ^ LENGTH('a) \<le> unat a + unat b\<close> by linarith
    then show False using assms by (simp add: word_less_nat_alt)
  qed
  then show ?thesis by (intro unat_add_small) simp
qed

section \<open>Byte memory\<close>

definition bytes_at :: "mem \<Rightarrow> addr \<Rightarrow> nat \<Rightarrow> u8 list" where
  "bytes_at m a n = map (\<lambda>i. m (a + i)) [0..<n]"

definition put_bytes :: "mem \<Rightarrow> addr \<Rightarrow> u8 list \<Rightarrow> mem" where
  "put_bytes m a bs = (\<lambda>x. if a \<le> x \<and> x < a + length bs then bs ! (x - a) else m x)"

definition le32 :: "u8 \<Rightarrow> u8 \<Rightarrow> u8 \<Rightarrow> u8 \<Rightarrow> u32" where
  "le32 b0 b1 b2 b3 =
     ucast b0 OR push_bit 8 (ucast b1) OR push_bit 16 (ucast b2) OR push_bit 24 (ucast b3)"

definition bytes32 :: "u32 \<Rightarrow> u8 list" where
  "bytes32 v = [ucast v, ucast (drop_bit 8 v), ucast (drop_bit 16 v), ucast (drop_bit 24 v)]"

definition load32 :: "mem \<Rightarrow> addr \<Rightarrow> u32" where
  "load32 m a = le32 (m a) (m (a + 1)) (m (a + 2)) (m (a + 3))"

definition store32 :: "mem \<Rightarrow> addr \<Rightarrow> u32 \<Rightarrow> mem" where
  "store32 m a v = put_bytes m a (bytes32 v)"

definition disjoint :: "addr \<Rightarrow> nat \<Rightarrow> addr \<Rightarrow> nat \<Rightarrow> bool" where
  "disjoint a n b k \<longleftrightarrow> a + n \<le> b \<or> b + k \<le> a"

text \<open>Agreement of two memories on a block: the form in which frames are stated.\<close>

definition same_on :: "addr \<Rightarrow> nat \<Rightarrow> mem \<Rightarrow> mem \<Rightarrow> bool" where
  "same_on a n m m' \<longleftrightarrow> (\<forall>x. a \<le> x \<and> x < a + n \<longrightarrow> m' x = m x)"

lemma length_bytes_at [simp]: "length (bytes_at m a n) = n"
  by (simp add: bytes_at_def)

lemma length_bytes32 [simp]: "length (bytes32 v) = 4"
  by (simp add: bytes32_def)

lemma bytes_at_0 [simp]: "bytes_at m a 0 = []"
  by (simp add: bytes_at_def)

lemma bytes_at_nth [simp]: "i < n \<Longrightarrow> bytes_at m a n ! i = m (a + i)"
  by (simp add: bytes_at_def)

lemma put_bytes_Nil [simp]: "put_bytes m a [] = m"
  by (rule ext) (auto simp: put_bytes_def)

lemma bytes_at_add: "bytes_at m a (n + k) = bytes_at m a n @ bytes_at m (a + n) k"
  by (rule nth_equalityI) (auto simp: nth_append)

lemma take_bytes_at: "k \<le> n \<Longrightarrow> take k (bytes_at m a n) = bytes_at m a k"
  by (simp add: bytes_at_def take_map)

lemma bytes_at_cong: "same_on a n m m' \<Longrightarrow> bytes_at m' a n = bytes_at m a n"
  by (simp add: same_on_def bytes_at_def)

lemma put_bytes_out [mem_simps]:
  "x < a \<or> a + length bs \<le> x \<Longrightarrow> put_bytes m a bs x = m x"
  by (auto simp: put_bytes_def)

lemma put_bytes_in [mem_simps]:
  "i < length bs \<Longrightarrow> put_bytes m a bs (a + i) = bs ! i"
  by (simp add: put_bytes_def)

lemma bytes_at_put_same [mem_simps]:
  "n = length bs \<Longrightarrow> bytes_at (put_bytes m a bs) a n = bs"
  by (simp add: list_eq_iff_nth_eq put_bytes_def)

lemma bytes_at_put_other [mem_simps]:
  "disjoint a (length bs) b n \<Longrightarrow> bytes_at (put_bytes m a bs) b n = bytes_at m b n"
  by (rule bytes_at_cong) (auto simp: same_on_def disjoint_def put_bytes_def)

lemma put_bytes_append:
  "put_bytes (put_bytes m a xs) (a + length xs) ys = put_bytes m a (xs @ ys)"
  by (rule ext) (auto simp: put_bytes_def nth_append)

lemma put_bytes_same_on: "disjoint a (length bs) b n \<Longrightarrow> same_on b n m (put_bytes m a bs)"
  by (auto simp: same_on_def disjoint_def put_bytes_def)

lemma same_on_refl [simp]: "same_on a n m m"
  by (simp add: same_on_def)

lemma same_on_trans: "same_on a n m m' \<Longrightarrow> same_on a n m' m'' \<Longrightarrow> same_on a n m m''"
  by (simp add: same_on_def)

lemma same_on_sub: "same_on a n m m' \<Longrightarrow> a \<le> b \<Longrightarrow> b + k \<le> a + n \<Longrightarrow> same_on b k m m'"
  by (simp add: same_on_def)

lemma disjoint_sym: "disjoint a n b k \<longleftrightarrow> disjoint b k a n"
  by (auto simp: disjoint_def)

section \<open>Little-endian words\<close>

lemma le32_bytes32:
  "le32 (ucast v) (ucast (drop_bit 8 v)) (ucast (drop_bit 16 v)) (ucast (drop_bit 24 v)) = v"
proof (rule bit_word_eqI)
  fix n :: nat
  assume "n < LENGTH(32)"
  then consider "n < 8" | "8 \<le> n" "n < 16" | "16 \<le> n" "n < 24" | "24 \<le> n" "n < 32"
    by fastforce
  then show "bit (le32 (ucast v) (ucast (drop_bit 8 v)) (ucast (drop_bit 16 v))
      (ucast (drop_bit 24 v))) n = bit v n"
    by cases (auto simp: le32_def bit_simps)
qed

lemma load32_cong: "same_on a 4 m m' \<Longrightarrow> load32 m' a = load32 m a"
  by (simp add: load32_def same_on_def)

lemma load32_store32_same [mem_simps]: "load32 (store32 m a v) a = v"
  by (simp add: load32_def store32_def put_bytes_def bytes32_def le32_bytes32)

lemma load32_store32_other [mem_simps]:
  "disjoint a 4 b 4 \<Longrightarrow> load32 (store32 m a v) b = load32 m b"
  by (rule load32_cong) (simp add: store32_def put_bytes_same_on)

lemma load32_put_other [mem_simps]:
  "disjoint a (length bs) b 4 \<Longrightarrow> load32 (put_bytes m a bs) b = load32 m b"
  by (rule load32_cong) (simp add: put_bytes_same_on)

lemma bytes_at_store32_other [mem_simps]:
  "disjoint a 4 b n \<Longrightarrow> bytes_at (store32 m a v) b n = bytes_at m b n"
  by (simp add: store32_def bytes_at_put_other)

lemma store32_same_on: "disjoint a 4 b n \<Longrightarrow> same_on b n m (store32 m a v)"
  by (simp add: store32_def put_bytes_same_on)

lemma store32_out: "x < a \<or> a + 4 \<le> x \<Longrightarrow> store32 m a v x = m x"
  by (simp add: store32_def put_bytes_out)

end
