(* ===== verification/Copy_Bytes.thy ===== *)
theory Copy_Bytes
  imports Prelude
begin

text \<open>
  The copy routine \<open>libmbcopy_bytes\<close> of
  \<^verbatim>\<open>middleware/safemlib/src/rtss_mailbox_lib.c\<close> (lines 98 to 141) on the byte memory:
  the word loop and the byte loop, each unrolled by four, with the counters kept at 32 bits.
  The theory proves that the routine is a plain block copy whenever source and
  destination do not overlap, whatever the alignment decides, and that it writes nothing
  outside the destination. The locale \<open>block_copy\<close> is the interface the ring buffer uses.
\<close>

section \<open>The interface\<close>

locale block_copy =
  fixes copy :: "mem \<Rightarrow> addr \<Rightarrow> addr \<Rightarrow> u32 \<Rightarrow> mem"
  assumes copy_block: "dest \<noteq> 0 \<Longrightarrow> src \<noteq> 0 \<Longrightarrow> disjoint dest (unat n) src (unat n) \<Longrightarrow>
     copy m dest src n = put_bytes m dest (bytes_at m src (unat n))"
begin

lemma copy_frame:
  "dest \<noteq> 0 \<Longrightarrow> src \<noteq> 0 \<Longrightarrow> disjoint dest (unat n) src (unat n) \<Longrightarrow>
   disjoint dest (unat n) b k \<Longrightarrow> same_on b k m (copy m dest src n)"
  by (simp add: copy_block put_bytes_same_on)

lemma copy_result:
  "dest \<noteq> 0 \<Longrightarrow> src \<noteq> 0 \<Longrightarrow> disjoint dest (unat n) src (unat n) \<Longrightarrow>
   bytes_at (copy m dest src n) dest (unat n) = bytes_at m src (unat n)"
  by (simp add: copy_block mem_simps)

lemma copy_source:
  "dest \<noteq> 0 \<Longrightarrow> src \<noteq> 0 \<Longrightarrow> disjoint dest (unat n) src (unat n) \<Longrightarrow>
   bytes_at (copy m dest src n) src (unat n) = bytes_at m src (unat n)"
  by (rule bytes_at_cong) (rule copy_frame)

end

section \<open>The routine\<close>

text \<open>One assignment \<open>*dest++ = *src++\<close> through the word pointers reads eight bytes
  and then writes eight bytes; the byte pointers move one byte.\<close>

definition copy_unit :: "nat \<Rightarrow> mem \<Rightarrow> addr \<Rightarrow> addr \<Rightarrow> mem" where
  "copy_unit k m d s = put_bytes m d (bytes_at m s k)"

definition copy_four :: "nat \<Rightarrow> mem \<Rightarrow> addr \<Rightarrow> addr \<Rightarrow> mem" where
  "copy_four k m d s =
     (let m1 = copy_unit k m d s;
          m2 = copy_unit k m1 (d + k) (s + k);
          m3 = copy_unit k m2 (d + 2 * k) (s + 2 * k)
      in copy_unit k m3 (d + 3 * k) (s + 3 * k))"

text \<open>The two loops have the same shape for words (unit 8) and bytes (unit 1): a loop that
  copies four units while at least four are left, then a loop that copies single units.\<close>

function copy_loop4 :: "nat \<Rightarrow> mem \<Rightarrow> addr \<Rightarrow> addr \<Rightarrow> u32 \<Rightarrow> mem \<times> addr \<times> addr \<times> u32" where
  "copy_loop4 k m d s cnt =
     (if 4 \<le> cnt then copy_loop4 k (copy_four k m d s) (d + 4 * k) (s + 4 * k) (cnt - 4)
      else (m, d, s, cnt))"
  by pat_completeness auto
termination
  by (relation "measure (\<lambda>(k, m, d, s, cnt). unat cnt)")
    (auto simp: word_le_nat_alt unat_sub)

function copy_loop1 :: "nat \<Rightarrow> mem \<Rightarrow> addr \<Rightarrow> addr \<Rightarrow> u32 \<Rightarrow> mem \<times> addr \<times> addr" where
  "copy_loop1 k m d s cnt =
     (if 0 < cnt then copy_loop1 k (copy_unit k m d s) (d + k) (s + k) (cnt - 1)
      else (m, d, s))"
  by pat_completeness auto
termination
  by (relation "measure (\<lambda>(k, m, d, s, cnt). unat cnt)")
    (simp_all add: unat_pred_less)

declare copy_loop4.simps [simp del] copy_loop1.simps [simp del]

definition libmbcopy_bytes :: "mem \<Rightarrow> addr \<Rightarrow> addr \<Rightarrow> u32 \<Rightarrow> mem" where
  "libmbcopy_bytes m dest src byte_num =
     (if src = NULL \<or> dest = NULL \<or> byte_num = 0 then m
      else
        let (word_count, byte_count) =
              (if dest mod 8 = 0 \<and> src mod 8 = 0
               then (byte_num div 8, byte_num mod 8)
               else (0, byte_num));
            (m1, d1, s1, w1) = copy_loop4 8 m dest src word_count;
            (m2, d2, s2) = copy_loop1 8 m1 d1 s1 w1;
            (m3, d3, s3, b3) = copy_loop4 1 m2 d2 s2 byte_count;
            (m4, d4, s4) = copy_loop1 1 m3 d3 s3 b3
        in m4)"

section \<open>Correctness\<close>

lemma copy_units_append:
  assumes "disjoint d (n + k) s (n + k)"
  shows "copy_unit k (copy_unit n m d s) (d + n) (s + n) = copy_unit (n + k) m d s"
proof -
  have "bytes_at (copy_unit n m d s) (s + n) k = bytes_at m (s + n) k"
    using assms unfolding copy_unit_def
    by (intro bytes_at_put_other) (auto simp: disjoint_def)
  then have "copy_unit k (copy_unit n m d s) (d + n) (s + n) =
      put_bytes (put_bytes m d (bytes_at m s n)) (d + length (bytes_at m s n))
        (bytes_at m (s + n) k)"
    by (simp add: copy_unit_def)
  also have "\<dots> = copy_unit (n + k) m d s"
    by (simp only: put_bytes_append bytes_at_add copy_unit_def)
  finally show ?thesis .
qed

lemma copy_four_unit:
  assumes "disjoint d (4 * k) s (4 * k)"
  shows "copy_four k m d s = copy_unit (4 * k) m d s"
proof -
  have part: "disjoint d n s n" if "n \<le> 4 * k" for n
    using assms that by (auto simp: disjoint_def)
  have "copy_unit k (copy_unit (j * k) m d s) (d + j * k) (s + j * k)
      = copy_unit (Suc j * k) m d s" if "j < 4" for j
    using copy_units_append [of d "j * k" k s m] part [of "j * k + k"] that
    by (simp add: add.commute)
  from this [of 1] this [of 2] this [of 3] show ?thesis
    by (simp add: copy_four_def numeral_eq_Suc)
qed

lemma copy_loop4_unit:
  "disjoint d (unat cnt * k) s (unat cnt * k) \<Longrightarrow>
   copy_loop4 k m d s cnt =
     (copy_unit ((unat cnt - unat cnt mod 4) * k) m d s,
      d + (unat cnt - unat cnt mod 4) * k, s + (unat cnt - unat cnt mod 4) * k, cnt mod 4)"
proof (induction k m d s cnt rule: copy_loop4.induct)
  case (1 k m d s cnt)
  show ?case
  proof (cases "4 \<le> cnt")
    case True
    then have c: "unat (cnt - 4) = unat cnt - 4" and ge: "4 \<le> unat cnt"
      by (simp_all add: word_le_nat_alt unat_sub)
    define q where "q = unat cnt - 4 - (unat cnt - 4) mod 4"
    have q: "unat cnt - unat cnt mod 4 = 4 + q"
      using ge by (simp add: q_def) (metis le_add_diff_inverse mod_add_self1 Nat.add_diff_assoc mod_less_eq_dividend)
    have disj: "disjoint d ((4 + q) * k) s ((4 + q) * k)"
    proof -
      have "(4 + q) * k \<le> unat cnt * k"
        using q by (intro mult_le_mono1) linarith
      then show ?thesis using "1.prems" unfolding disjoint_def by linarith
    qed
    have cm: "(cnt - 4) mod 4 = cnt mod 4"
      using c ge by (simp add: word_unat_eq_iff unat_mod) (metis le_mod_geq)
    have "disjoint (d + 4 * k) (unat (cnt - 4) * k) (s + 4 * k) (unat (cnt - 4) * k)"
      using "1.prems" ge unfolding c disjoint_def
      by (simp add: diff_mult_distrib) linarith
    from "1.IH" [OF True this] have "copy_loop4 k m d s cnt =
        (copy_unit (q * k) (copy_four k m d s) (d + 4 * k) (s + 4 * k),
         d + 4 * k + q * k, s + 4 * k + q * k, cnt mod 4)"
      using True by (simp add: copy_loop4.simps [of k m d s cnt] c q_def cm)
    moreover have "copy_four k m d s = copy_unit (4 * k) m d s"
      using disj by (intro copy_four_unit) (auto simp: disjoint_def distrib_right)
    moreover have "copy_unit (q * k) (copy_unit (4 * k) m d s) (d + 4 * k) (s + 4 * k)
        = copy_unit ((4 + q) * k) m d s"
      using copy_units_append [of d "4 * k" "q * k" s m] disj by (simp add: distrib_right)
    ultimately show ?thesis
      by (simp add: q distrib_right add.assoc)
  next
    case False
    then have "unat cnt < 4" and "cnt < 4"
      by (simp_all add: word_le_nat_alt word_less_nat_alt)
    then show ?thesis
      using False by (simp add: copy_loop4.simps copy_unit_def word_unat_eq_iff unat_mod)
  qed
qed

lemma copy_loop1_unit:
  "disjoint d (unat cnt * k) s (unat cnt * k) \<Longrightarrow>
   copy_loop1 k m d s cnt =
     (copy_unit (unat cnt * k) m d s, d + unat cnt * k, s + unat cnt * k)"
proof (induction k m d s cnt rule: copy_loop1.induct)
  case (1 k m d s cnt)
  show ?case
  proof (cases "0 < cnt")
    case True
    then have "0 < unat cnt" and c: "unat (cnt - 1) = unat cnt - 1"
      by (simp_all only: unat_pred) (simp add: word_less_nat_alt)
    then obtain n where n: "unat cnt = Suc n" and n': "unat (cnt - 1) = n"
      by (metis Suc_pred' diff_Suc_1)
    have d1: "disjoint (d + k) (n * k) (s + k) (n * k)" and d2: "disjoint d (k + n * k) s (k + n * k)"
      using "1.prems" unfolding n by (auto simp: disjoint_def)
    show ?thesis
      using "1.IH" [OF True] True d1 copy_units_append [OF d2, of m]
      by (simp add: copy_loop1.simps [of k m d s cnt] n' n add.assoc)
  next
    case False
    then have "cnt = 0" by (simp add: word_gt_0)
    then show ?thesis
      by (simp add: copy_loop1.simps copy_unit_def)
  qed
qed

lemma copy_loops_unit:
  assumes "disjoint d (unat cnt * k) s (unat cnt * k)"
  shows "(case copy_loop4 k m d s cnt of (m1, d1, s1, c1) \<Rightarrow> copy_loop1 k m1 d1 s1 c1) =
    (copy_unit (unat cnt * k) m d s, d + unat cnt * k, s + unat cnt * k)"
proof -
  define a b where "a = (unat cnt - unat cnt mod 4) * k" and "b = unat cnt mod 4 * k"
  have ab: "unat cnt * k = a + b"
    by (simp add: a_def b_def distrib_right [symmetric])
  have b: "unat (cnt mod 4) * k = b"
    by (simp add: b_def unat_mod)
  have "disjoint (d + a) b (s + a) b"
    using assms unfolding ab by (auto simp: disjoint_def)
  then show ?thesis
    using copy_loop4_unit [OF assms, of m] copy_loop1_unit [of "d + a" "cnt mod 4" k "s + a"]
      copy_units_append [of d a b s m] assms
    by (simp add: a_def [symmetric] b ab add.assoc)
qed

theorem libmbcopy_bytes_put:
  assumes "dest \<noteq> 0" and "src \<noteq> 0" and "disjoint dest (unat n) src (unat n)"
  shows "libmbcopy_bytes m dest src n = put_bytes m dest (bytes_at m src (unat n))"
proof (cases "n = 0")
  case True
  then show ?thesis by (simp add: libmbcopy_bytes_def)
next
  case False
  have step: "libmbcopy_bytes m dest src n = copy_unit (unat n) m dest src"
    if wc: "unat wc * 8 + unat bc = unat n"
      and sel: "(if dest mod 8 = 0 \<and> src mod 8 = 0 then (n div 8, n mod 8) else (0, n)) = (wc, bc)"
    for wc bc
  proof -
    have d1: "disjoint dest (unat wc * 8) src (unat wc * 8)"
      and d2: "disjoint (dest + unat wc * 8) (unat bc * 1) (src + unat wc * 8) (unat bc * 1)"
      using assms(3) wc by (auto simp: disjoint_def)
    show ?thesis
      using False assms(1,2) copy_loops_unit [OF d1, of m]
        copy_loops_unit [OF d2, of "copy_unit (unat wc * 8) m dest src"]
        copy_units_append [of dest "unat wc * 8" "unat bc" src m] assms(3) wc
      by (simp add: libmbcopy_bytes_def sel Let_def split: prod.splits)
  qed
  have "unat (n div 8) * 8 + unat (n mod 8) = unat n"
    by (simp add: unat_div unat_mod)
  then show ?thesis
    using step [of "n div 8" "n mod 8"] step [of 0 n]
    by (cases "dest mod 8 = 0 \<and> src mod 8 = 0") (simp_all add: copy_unit_def)
qed

interpretation lmc: block_copy libmbcopy_bytes
  by unfold_locales (rule libmbcopy_bytes_put)

lemma libmbcopy_bytes_0 [simp]: "libmbcopy_bytes m d s 0 = m"
  by (simp add: libmbcopy_bytes_def)

end
