(* ===== verification/Ring_Buffer.thy ===== *)
theory Ring_Buffer
  imports Copy_Bytes
begin

text \<open>
  The item ring of a mailbox sub-region, from
  \<^verbatim>\<open>middleware/safemlib/src/rtss_mailbox_lib.c\<close> (lines 13 to 96 and 290 to 398) and the
  structure \<open>mbsub_rgn_desc_t\<close> of \<^verbatim>\<open>rtss_mailbox_lib.h\<close>. The sub-region header is read and
  written at its packed offsets in the byte memory; the items follow the header. The
  abstraction is \<open>ring_items\<close>, the list of the items that wait to be read, oldest first:
  a write appends to it and a read takes from its front.
\<close>

section \<open>Registers and the sub-region header\<close>

definition get_reg :: "mem \<Rightarrow> addr \<Rightarrow> u32" where
  "get_reg m a = load32 m a"

definition get_const_reg :: "mem \<Rightarrow> addr \<Rightarrow> u32" where
  "get_const_reg m a = load32 m a"

definition set_reg :: "mem \<Rightarrow> addr \<Rightarrow> u32 \<Rightarrow> mem" where
  "set_reg m a v = store32 m a v"

text \<open>The fields of the packed structure \<open>mbsub_rgn_desc_t\<close> after its 16-byte name, and
  their offsets.\<close>

datatype mbsub_rgn_field =
  Sub_sender | Sub_receiver | Sub_prot | Sub_sig | Sub_mode | Sub_prio
  | Max_item_num | Max_item_size | Item_in_index | Item_out_index

fun mbsub_rgn_desc_t :: "mbsub_rgn_field \<Rightarrow> nat" where
  "mbsub_rgn_desc_t Sub_sender = 16"
| "mbsub_rgn_desc_t Sub_receiver = 20"
| "mbsub_rgn_desc_t Sub_prot = 24"
| "mbsub_rgn_desc_t Sub_sig = 28"
| "mbsub_rgn_desc_t Sub_mode = 32"
| "mbsub_rgn_desc_t Sub_prio = 36"
| "mbsub_rgn_desc_t Max_item_num = 40"
| "mbsub_rgn_desc_t Max_item_size = 44"
| "mbsub_rgn_desc_t Item_in_index = 48"
| "mbsub_rgn_desc_t Item_out_index = 52"

declare mbsub_rgn_desc_t.simps [simp del, layout]

definition MB_NAME_SZ :: u32 where "MB_NAME_SZ = 16"
definition MB_SUB_REGION_HEADER_SZ :: u32 where "MB_SUB_REGION_HEADER_SZ = 56"
definition MB_MAX_ITEM_NUM :: u32 where "MB_MAX_ITEM_NUM = 0x100000"
definition MB_MAX_SIZE :: u32 where "MB_MAX_SIZE = 0x800000"

definition sub_reg :: "mem \<Rightarrow> addr \<Rightarrow> mbsub_rgn_field \<Rightarrow> u32" where
  "sub_reg m base f = get_reg m (base + mbsub_rgn_desc_t f)"

section \<open>Operations\<close>

definition LibMB_Valid_Item :: "mem \<Rightarrow> addr \<Rightarrow> u32" where
  "LibMB_Valid_Item m base =
     (let write_index = sub_reg m base Item_in_index;
          read_index = sub_reg m base Item_out_index
      in if write_index \<ge> read_index then write_index - read_index
         else sub_reg m base Max_item_num - read_index + write_index)"

definition LibMB_Free_Item :: "mem \<Rightarrow> addr \<Rightarrow> u32" where
  "LibMB_Free_Item m base =
     (let write_index = sub_reg m base Item_in_index;
          read_index = sub_reg m base Item_out_index;
          free_num = (if write_index \<ge> read_index
                      then sub_reg m base Max_item_num - write_index + read_index
                      else read_index - write_index)
      in free_num - 1)"

text \<open>The stores of a write: the copies of items into the ring and the write index. Other processors see
  them in their order, so a write is the list of its stores, done one after the other. Offsets such
  as \<open>item_write_index * item_size\<close> are 32-bit products.\<close>

datatype ring_store = Copy_items addr addr u32 | Set_index addr u32

fun do_store :: "ring_store \<Rightarrow> mem \<Rightarrow> mem" where
  "do_store (Copy_items dest_addr src_addr len) m = libmbcopy_bytes m dest_addr src_addr len"
| "do_store (Set_index a v) m = set_reg m a v"

definition write_item_copies :: "mem \<Rightarrow> addr \<Rightarrow> addr \<Rightarrow> u32 \<Rightarrow> ring_store list" where
  "write_item_copies m base source_item_buf item_num =
     (let item_size = sub_reg m base Max_item_size;
          item_write_index = sub_reg m base Item_in_index;
          item_ring_buffer_size = sub_reg m base Max_item_num;
          ring_buffer_base = base + unat MB_SUB_REGION_HEADER_SZ
      in if item_write_index + item_num > item_ring_buffer_size
         then let n1 = item_ring_buffer_size - item_write_index;
                  n2 = (item_write_index + item_num) - item_ring_buffer_size
              in [Copy_items (ring_buffer_base + unat (item_write_index * item_size)) source_item_buf (n1 * item_size),
                  Copy_items ring_buffer_base (source_item_buf + unat (n1 * item_size)) (n2 * item_size)]
         else [Copy_items (ring_buffer_base + unat (item_write_index * item_size)) source_item_buf (item_num * item_size)])"

definition write_item_stores :: "mem \<Rightarrow> addr \<Rightarrow> addr \<Rightarrow> u32 \<Rightarrow> ring_store list" where
  "write_item_stores m base source_item_buf item_num =
     (let item_size = sub_reg m base Max_item_size;
          item_write_index = sub_reg m base Item_in_index;
          item_ring_buffer_size = sub_reg m base Max_item_num
      in if item_ring_buffer_size = 0 \<or> item_size = 0
            \<or> item_write_index \<ge> item_ring_buffer_size
         then []
         else write_item_copies m base source_item_buf item_num
           @ [Set_index (base + mbsub_rgn_desc_t Item_in_index)
                ((item_write_index + item_num) mod item_ring_buffer_size)])"

definition LibMB_Write_Item :: "mem \<Rightarrow> addr \<Rightarrow> addr \<Rightarrow> u32 \<Rightarrow> mem" where
  "LibMB_Write_Item m base source_item_buf item_num =
     fold do_store (write_item_stores m base source_item_buf item_num) m"

text \<open>The copies alone.\<close>

definition write_item_copy :: "mem \<Rightarrow> addr \<Rightarrow> addr \<Rightarrow> u32 \<Rightarrow> mem" where
  "write_item_copy m base source_item_buf item_num =
     fold do_store (write_item_copies m base source_item_buf item_num) m"

definition read_item_copy :: "mem \<Rightarrow> addr \<Rightarrow> addr \<Rightarrow> u32 \<Rightarrow> mem" where
  "read_item_copy m base destination_item_buf item_num =
     (let item_size = sub_reg m base Max_item_size;
          item_read_index = sub_reg m base Item_out_index;
          item_ring_buffer_size = sub_reg m base Max_item_num;
          ring_buffer_base = base + unat MB_SUB_REGION_HEADER_SZ
      in if item_read_index + item_num > item_ring_buffer_size
         then let n1 = item_ring_buffer_size - item_read_index;
                  m1 = libmbcopy_bytes m destination_item_buf
                         (ring_buffer_base + unat (item_read_index * item_size))
                         (n1 * item_size);
                  n2 = (item_read_index + item_num) - item_ring_buffer_size
              in libmbcopy_bytes m1 (destination_item_buf + unat (n1 * item_size))
                   ring_buffer_base (n2 * item_size)
         else libmbcopy_bytes m destination_item_buf
                (ring_buffer_base + unat (item_read_index * item_size))
                (item_num * item_size))"

definition LibMB_Read_Item :: "mem \<Rightarrow> addr \<Rightarrow> addr \<Rightarrow> u32 \<Rightarrow> mem" where
  "LibMB_Read_Item m base destination_item_buf item_num =
     (let item_size = sub_reg m base Max_item_size;
          item_read_index = sub_reg m base Item_out_index;
          item_ring_buffer_size = sub_reg m base Max_item_num
      in if item_ring_buffer_size = 0 \<or> item_size = 0
            \<or> item_read_index \<ge> item_ring_buffer_size
         then m
         else set_reg (read_item_copy m base destination_item_buf item_num)
                (base + mbsub_rgn_desc_t Item_out_index)
                ((item_read_index + item_num) mod item_ring_buffer_size))"

definition LibMB_Mailbox_sanity_check :: "mem \<Rightarrow> addr \<Rightarrow> bool" where
  "LibMB_Mailbox_sanity_check m base =
     (if base \<noteq> NULL
      then let max_item_num = get_const_reg m (base + mbsub_rgn_desc_t Max_item_num);
               max_item_size = get_const_reg m (base + mbsub_rgn_desc_t Max_item_size);
               write_index = get_const_reg m (base + mbsub_rgn_desc_t Item_in_index);
               read_index = get_const_reg m (base + mbsub_rgn_desc_t Item_out_index)
           in \<not> (max_item_num > MB_MAX_ITEM_NUM \<or> max_item_size > MB_MAX_SIZE
                 \<or> write_index \<ge> max_item_num \<or> read_index \<ge> max_item_num)
      else False)"

section \<open>The abstract ring\<close>

text \<open>The geometry of a ring, its slots and the list of waiting items.\<close>

definition ring_N :: "mem \<Rightarrow> addr \<Rightarrow> nat" where
  "ring_N m b = unat (sub_reg m b Max_item_num)"

definition ring_sz :: "mem \<Rightarrow> addr \<Rightarrow> nat" where
  "ring_sz m b = unat (sub_reg m b Max_item_size)"

definition ring_w :: "mem \<Rightarrow> addr \<Rightarrow> nat" where
  "ring_w m b = unat (sub_reg m b Item_in_index)"

definition ring_r :: "mem \<Rightarrow> addr \<Rightarrow> nat" where
  "ring_r m b = unat (sub_reg m b Item_out_index)"

definition ring_size :: "mem \<Rightarrow> addr \<Rightarrow> nat" where
  "ring_size m b = 56 + ring_N m b * ring_sz m b"

definition slot_at :: "addr \<Rightarrow> nat \<Rightarrow> nat \<Rightarrow> mem \<Rightarrow> u8 list" where
  "slot_at rb sz i m = bytes_at m (rb + i * sz) sz"

definition ring_slot :: "mem \<Rightarrow> addr \<Rightarrow> nat \<Rightarrow> u8 list" where
  "ring_slot m b i = slot_at (b + 56) (ring_sz m b) i m"

definition ring_cnt :: "mem \<Rightarrow> addr \<Rightarrow> nat" where
  "ring_cnt m b = (ring_w m b + ring_N m b - ring_r m b) mod ring_N m b"

definition ring_items :: "mem \<Rightarrow> addr \<Rightarrow> u8 list list" where
  "ring_items m b =
     map (\<lambda>j. ring_slot m b ((ring_r m b + j) mod ring_N m b)) [0..<ring_cnt m b]"

text \<open>A usable ring: the sanity check of the code passes, the items are not empty and the
  32-bit offset computations of the code cannot wrap around.\<close>

definition ring_ok :: "mem \<Rightarrow> addr \<Rightarrow> bool" where
  "ring_ok m b \<longleftrightarrow> LibMB_Mailbox_sanity_check m b \<and> 0 < ring_sz m b
     \<and> ring_N m b * ring_sz m b < 2 ^ 32"

lemma sanity_iff:
  "LibMB_Mailbox_sanity_check m b \<longleftrightarrow> b \<noteq> 0 \<and> ring_N m b \<le> 2 ^ 20 \<and> ring_sz m b \<le> 2 ^ 23
     \<and> ring_w m b < ring_N m b \<and> ring_r m b < ring_N m b"
  by (auto simp: LibMB_Mailbox_sanity_check_def Let_def ring_w_def ring_N_def ring_r_def
      ring_sz_def sub_reg_def get_reg_def get_const_reg_def MB_MAX_ITEM_NUM_def MB_MAX_SIZE_def
      word_le_nat_alt word_less_nat_alt)

lemma sanity_bounds:
  assumes "LibMB_Mailbox_sanity_check m b"
  shows "b \<noteq> 0" "ring_w m b < ring_N m b" "ring_r m b < ring_N m b" "ring_N m b \<le> 2 ^ 20"
    "ring_sz m b \<le> 2 ^ 23"
  using assms unfolding sanity_iff by simp_all

lemma ring_cnt_alt:
  assumes "ring_w m b < ring_N m b" "ring_r m b < ring_N m b"
  shows "ring_cnt m b = (if ring_r m b \<le> ring_w m b then ring_w m b - ring_r m b
     else ring_N m b - ring_r m b + ring_w m b)"
  using assms by (auto simp: ring_cnt_def mod_if)

lemma ring_cnt_less: "0 < ring_N m b \<Longrightarrow> ring_cnt m b < ring_N m b"
  by (simp add: ring_cnt_def)

lemma unat_Valid_Item:
  assumes "LibMB_Mailbox_sanity_check m b"
  shows "unat (LibMB_Valid_Item m b) = ring_cnt m b"
proof -
  note bd = sanity_bounds [OF assms]
  let ?n = "sub_reg m b Max_item_num" and ?w = "sub_reg m b Item_in_index"
    and ?r = "sub_reg m b Item_out_index"
  have le: "?r \<le> ?n"
    using bd by (simp add: ring_r_def ring_N_def word_le_nat_alt)
  have "unat (?n - ?r + ?w) = unat ?n - unat ?r + unat ?w" if "\<not> ?r \<le> ?w"
    using bd that le
    by (subst unat_add_small)
      (simp_all add: unat_sub_le ring_r_def ring_N_def ring_w_def word_le_nat_alt)
  then show ?thesis
    using bd by (simp add: LibMB_Valid_Item_def Let_def ring_cnt_alt unat_sub_le)
      (simp add: ring_r_def ring_N_def ring_w_def word_le_nat_alt)
qed

lemma unat_Free_Item:
  assumes "LibMB_Mailbox_sanity_check m b"
  shows "unat (LibMB_Free_Item m b) = ring_N m b - 1 - ring_cnt m b"
proof -
  note bd = sanity_bounds [OF assms]
  let ?n = "sub_reg m b Max_item_num" and ?w = "sub_reg m b Item_in_index"
    and ?r = "sub_reg m b Item_out_index"
  define f where "f = (if ?w \<ge> ?r then ?n - ?w + ?r else ?r - ?w)"
  have "unat (?n - ?w + ?r) = unat ?n - unat ?w + unat ?r" if "?r \<le> ?w"
    using bd that
    by (subst unat_add_small)
      (simp_all add: unat_sub_le ring_r_def ring_N_def ring_w_def word_le_nat_alt)
  then have f: "unat f = ring_N m b - ring_cnt m b"
    using bd by (simp add: f_def ring_cnt_alt unat_sub_le)
      (simp add: ring_r_def ring_N_def ring_w_def word_le_nat_alt unat_sub_le)
  moreover have "ring_cnt m b < ring_N m b"
    using bd by (intro ring_cnt_less) simp
  ultimately have "0 < f"
    by (simp add: word_less_nat_alt)
  then show ?thesis
    using f by (simp add: LibMB_Free_Item_def Let_def f_def [symmetric] unat_pred del: unat_sub_le)
qed

section \<open>Copies of whole items\<close>

lemma mult_block_le: "i < k \<Longrightarrow> i * sz + sz \<le> k * sz" for i k sz :: nat
  using mult_le_mono1 [of "Suc i" k sz] by (simp add: add.commute)

lemma take_drop_bytes_at:
  "p + k \<le> n \<Longrightarrow> take k (drop p (bytes_at m a n)) = bytes_at m (a + p) k"
  by (simp add: list_eq_iff_nth_eq add.assoc)

lemma slot_at_put_in:
  assumes "length bs = k * sz" "a \<le> i" "i < a + k"
  shows "slot_at rb sz i (put_bytes m (rb + a * sz) bs) = take sz (drop ((i - a) * sz) bs)"
proof -
  obtain q where i: "i = a + q" and q: "q < k"
    using assms(2,3) by (metis le_add_diff_inverse nat_add_left_cancel_less)
  have le: "q * sz + sz \<le> k * sz"
    using q by (rule mult_block_le)
  then have "drop (q * sz) bs ! j = bs ! (q * sz + j)" for j
    using assms(1) by (intro nth_drop) linarith
  then show ?thesis
    using assms(1) le by (auto simp: list_eq_iff_nth_eq slot_at_def i put_bytes_def distrib_right)
qed

lemma slot_at_put_out:
  assumes "length bs = k * sz" "i < a \<or> a + k \<le> i"
  shows "slot_at rb sz i (put_bytes m (rb + a * sz) bs) = slot_at rb sz i m"
proof -
  have "i * sz + sz \<le> a * sz \<or> a * sz + k * sz \<le> i * sz"
    using assms(2) mult_block_le [of i a sz] mult_le_mono1 [of "a + k" i sz]
    by (auto simp: distrib_right)
  then show ?thesis
    unfolding slot_at_def using assms(1)
    by (intro bytes_at_put_other) (auto simp: disjoint_def)
qed

lemma slot_at_put:
  "slot_at rb sz i (put_bytes m (rb + a * sz) (bytes_at m' s (k * sz))) =
    (if a \<le> i \<and> i < a + k then bytes_at m' (s + (i - a) * sz) sz else slot_at rb sz i m)"
proof (cases "a \<le> i \<and> i < a + k")
  case True
  then have "(i - a) * sz + sz \<le> k * sz"
    by (intro mult_block_le) auto
  then show ?thesis
    using True by (simp add: slot_at_put_in [where k = k] take_drop_bytes_at)
qed (auto simp: slot_at_put_out [where k = k])

lemma bytes_at_items:
  "bytes_at m a (n * sz) = concat (map (\<lambda>j. bytes_at m (a + j * sz) sz) [0..<n])"
  by (induction n) (simp_all add: bytes_at_add add.commute [of sz])

section \<open>The copy phases\<close>

text \<open>The slot that is \<open>d\<close> places after index \<open>w\<close> in a ring of \<open>N\<close> slots.\<close>

definition ring_dist :: "nat \<Rightarrow> nat \<Rightarrow> nat \<Rightarrow> nat" where
  "ring_dist N w i = (i + N - w) mod N"

lemma ring_dist_alt: "w < N \<Longrightarrow> i < N \<Longrightarrow> ring_dist N w i = (if w \<le> i then i - w else i + N - w)"
  by (auto simp: ring_dist_def mod_if)

lemma ring_dist_shift: "w < N \<Longrightarrow> d < N \<Longrightarrow> ring_dist N w ((w + d) mod N) = d"
  by (auto simp: ring_dist_def mod_if)

text \<open>Facts about the 32-bit index computations inside the bounds of a usable ring.\<close>

lemma index_word_facts:
  fixes w n N sz :: u32
  assumes "unat w < unat N" "unat n \<le> unat N" "unat N \<le> 2 ^ 20" "unat N * unat sz < 2 ^ 32"
  shows "unat (w + n) = unat w + unat n"
    and "unat (w * sz) = unat w * unat sz"
    and "unat (n * sz) = unat n * unat sz"
    and "unat ((N - w) * sz) = (unat N - unat w) * unat sz"
    and "w + n > N \<longleftrightarrow> unat w + unat n > unat N"
    and "unat w + unat n > unat N \<Longrightarrow>
      unat ((w + n - N) * sz) = (unat w + unat n - unat N) * unat sz"
    and "unat ((w + n) mod N) = (unat w + unat n) mod unat N"
proof -
  have mul: "unat (x * sz) = unat x * unat sz" if "unat x \<le> unat N" for x
    by (rule unat_mult_small)
      (use order_le_less_trans [OF mult_le_mono1 [OF that] assms(4)] in simp)
  show s: "unat (w + n) = unat w + unat n"
    using assms by (subst unat_add_small) auto
  have d: "unat (N - w) = unat N - unat w"
    using assms by (intro unat_sub_le) (simp add: word_le_nat_alt)
  show g: "w + n > N \<longleftrightarrow> unat w + unat n > unat N"
    by (simp add: word_less_nat_alt s)
  show "unat (w * sz) = unat w * unat sz" "unat (n * sz) = unat n * unat sz"
    using assms by (auto intro: mul)
  show "unat ((N - w) * sz) = (unat N - unat w) * unat sz"
    by (subst mul) (simp_all add: d)
  show "unat ((w + n - N) * sz) = (unat w + unat n - unat N) * unat sz"
    if "unat w + unat n > unat N"
  proof -
    have "unat (w + n - N) = unat w + unat n - unat N"
      using that by (subst unat_sub_le) (simp_all add: word_le_nat_alt s)
    then show ?thesis using assms by (subst mul) auto
  qed
  show "unat ((w + n) mod N) = (unat w + unat n) mod unat N"
    by (simp add: unat_mod s)
qed

lemma ring_index_facts:
  assumes "ring_ok m b" "unat n \<le> ring_N m b" "f = Item_in_index \<or> f = Item_out_index"
  defines "w \<equiv> sub_reg m b f" and "N \<equiv> sub_reg m b Max_item_num"
    and "sz \<equiv> sub_reg m b Max_item_size"
  shows "unat (w + n) = unat w + unat n"
    and "unat (w * sz) = unat w * unat sz"
    and "unat (n * sz) = unat n * unat sz"
    and "unat ((N - w) * sz) = (unat N - unat w) * unat sz"
    and "w + n > N \<longleftrightarrow> unat w + unat n > unat N"
    and "unat w + unat n > unat N \<Longrightarrow>
      unat ((w + n - N) * sz) = (unat w + unat n - unat N) * unat sz"
    and "unat ((w + n) mod N) = (unat w + unat n) mod unat N"
    and "unat w < unat N"
proof -
  have "unat w < unat N" "unat n \<le> unat N" "unat N \<le> 2 ^ 20" "unat N * unat sz < 2 ^ 32"
    using assms(1-3) sanity_bounds [of m b]
    by (auto simp: ring_ok_def w_def N_def sz_def ring_w_def ring_r_def ring_N_def ring_sz_def)
  note * = index_word_facts [OF this] this(1)
  show "unat (w + n) = unat w + unat n" "unat (w * sz) = unat w * unat sz"
    "unat (n * sz) = unat n * unat sz" "unat ((N - w) * sz) = (unat N - unat w) * unat sz"
    "w + n > N \<longleftrightarrow> unat w + unat n > unat N"
    "unat w + unat n > unat N \<Longrightarrow>
      unat ((w + n - N) * sz) = (unat w + unat n - unat N) * unat sz"
    "unat ((w + n) mod N) = (unat w + unat n) mod unat N" "unat w < unat N"
    by (fact *)+
qed

text \<open>The bytes of the ring, as a block.\<close>

lemma ring_block_disjoint:
  assumes "disjoint s (n * sz) b (56 + N * sz)" "i + j \<le> N" "c + l \<le> n"
  shows "disjoint (b + 56 + i * sz) (j * sz) (s + c * sz) (l * sz)"
  using assms(1) mult_le_mono1 [OF assms(2), of sz] mult_le_mono1 [OF assms(3), of sz]
  unfolding disjoint_def distrib_right by linarith

lemma ring_block_disjoint_0:
  assumes "disjoint s (n * sz) b (56 + N * sz)"
  shows "i + j \<le> N \<Longrightarrow> l \<le> n \<Longrightarrow> disjoint (b + 56 + i * sz) (j * sz) s (l * sz)"
    and "j \<le> N \<Longrightarrow> c + l \<le> n \<Longrightarrow> disjoint (b + 56) (j * sz) (s + c * sz) (l * sz)"
  using ring_block_disjoint [OF assms, of i j 0 l] ring_block_disjoint [OF assms, of 0 j c l]
  by simp_all

lemma write_item_copy_wrap:
  assumes ok: "ring_ok m b" and n: "unat n \<le> ring_N m b" and src: "src \<noteq> 0"
    and dj: "disjoint src (unat n * ring_sz m b) b (ring_size m b)"
    and wrap: "ring_w m b + unat n > ring_N m b"
  defines "k \<equiv> ring_N m b - ring_w m b" and "l \<equiv> ring_w m b + unat n - ring_N m b"
  shows "write_item_copy m b src n =
    put_bytes (put_bytes m (b + 56 + ring_w m b * ring_sz m b) (bytes_at m src (k * ring_sz m b)))
      (b + 56) (bytes_at m (src + k * ring_sz m b) (l * ring_sz m b))"
proof -
  note ix = ring_index_facts [OF ok n, of Item_in_index, simplified,
      folded ring_w_def ring_N_def ring_sz_def]
  note dj' = ring_block_disjoint_0 [OF dj [unfolded ring_size_def]]
  let ?sz = "ring_sz m b" and ?d1 = "b + 56 + ring_w m b * ring_sz m b"
  have le: "ring_w m b + k \<le> ring_N m b" "k \<le> unat n" "l \<le> ring_N m b" "k + l \<le> unat n"
    using ix(8) wrap n by (auto simp: k_def l_def)
  have d: "disjoint ?d1 (k * ?sz) src (k * ?sz)"
    "disjoint (b + 56) (l * ?sz) (src + k * ?sz) (l * ?sz)"
    using le by (auto intro!: dj')
  have "disjoint ?d1 (k * ?sz) (src + k * ?sz) (l * ?sz)"
    using ring_block_disjoint [OF dj [unfolded ring_size_def], of "ring_w m b" k k l] le by simp
  with wrap src d show ?thesis
    by (simp add: write_item_copy_def write_item_copies_def Let_def ix(1-5) ix(6) [OF wrap] k_def [symmetric]
        l_def [symmetric] MB_SUB_REGION_HEADER_SZ_def lmc.copy_block bytes_at_put_other)
qed

lemma write_item_copy_nowrap:
  assumes ok: "ring_ok m b" and n: "unat n \<le> ring_N m b" and src: "src \<noteq> 0"
    and dj: "disjoint src (unat n * ring_sz m b) b (ring_size m b)"
    and wrap: "ring_w m b + unat n \<le> ring_N m b"
  shows "write_item_copy m b src n =
    put_bytes m (b + 56 + ring_w m b * ring_sz m b) (bytes_at m src (unat n * ring_sz m b))"
proof -
  note ix = ring_index_facts [OF ok n, of Item_in_index, simplified,
      folded ring_w_def ring_N_def ring_sz_def]
  note dj' = ring_block_disjoint_0 [OF dj [unfolded ring_size_def]]
  have "disjoint (b + 56 + ring_w m b * ring_sz m b) (unat n * ring_sz m b) src
      (unat n * ring_sz m b)"
    using wrap by (auto intro!: dj')
  with wrap src show ?thesis
    by (simp add: write_item_copy_def write_item_copies_def Let_def ix(1-5) MB_SUB_REGION_HEADER_SZ_def lmc.copy_block)
qed

lemma write_item_copy_slot:
  assumes "ring_ok m b" "unat n \<le> ring_N m b" "src \<noteq> 0"
    "disjoint src (unat n * ring_sz m b) b (ring_size m b)" "i < ring_N m b"
  shows "slot_at (b + 56) (ring_sz m b) i (write_item_copy m b src n) =
    (let d = ring_dist (ring_N m b) (ring_w m b) i
     in if d < unat n then bytes_at m (src + d * ring_sz m b) (ring_sz m b) else ring_slot m b i)"
proof -
  have w: "ring_w m b < ring_N m b"
    using assms(1) by (simp add: ring_ok_def sanity_bounds)
  show ?thesis
  proof (cases "ring_w m b + unat n \<le> ring_N m b")
    case True
    then show ?thesis
      using assms w by (auto simp: write_item_copy_nowrap slot_at_put Let_def ring_dist_alt ring_slot_def)
  next
    case False
    note slot0 = slot_at_put [of "b + 56" _ _ _ 0, simplified]
    have "ring_N m b - ring_w m b + i = i + ring_N m b - ring_w m b"
      using w by linarith
    then have "bytes_at m (src + (ring_N m b - ring_w m b) * ring_sz m b + i * ring_sz m b) =
        bytes_at m (src + (i + ring_N m b - ring_w m b) * ring_sz m b)"
      by (simp only: add.assoc distrib_right [symmetric])
    then show ?thesis
      using False assms w
      by (auto simp: write_item_copy_wrap slot_at_put slot0 Let_def ring_dist_alt ring_slot_def)
  qed
qed

text \<open>Frames: what is disjoint from the ring is disjoint from each of its blocks.\<close>

lemma ring_block_frame:
  assumes "disjoint rb (N * sz) a k" "i + j \<le> N"
  shows "disjoint (rb + i * sz) (j * sz) a k"
  using assms(1) mult_le_mono1 [OF assms(2), of sz] unfolding disjoint_def distrib_right by linarith

lemmas ring_block_frame_0 = ring_block_frame [where i = 0, simplified]

lemma write_item_copy_same_on:
  assumes "ring_ok m b" "unat n \<le> ring_N m b" "src \<noteq> 0"
    "disjoint src (unat n * ring_sz m b) b (ring_size m b)"
    "disjoint (b + 56) (ring_N m b * ring_sz m b) a k"
  shows "same_on a k m (write_item_copy m b src n)"
proof -
  have w: "ring_w m b < ring_N m b"
    using assms(1) by (simp add: ring_ok_def sanity_bounds)
  show ?thesis
  proof (cases "ring_w m b + unat n \<le> ring_N m b")
    case True
    then show ?thesis
      using assms by (simp add: write_item_copy_nowrap put_bytes_same_on ring_block_frame)
  next
    case False
    let ?k = "ring_N m b - ring_w m b" and ?l = "ring_w m b + unat n - ring_N m b"
    have "disjoint (b + 56 + ring_w m b * ring_sz m b) (?k * ring_sz m b) a k"
      using w by (intro ring_block_frame [OF assms(5)]) simp
    moreover have "disjoint (b + 56) (?l * ring_sz m b) a k"
      using w assms(2) by (intro ring_block_frame_0 [OF assms(5)]) simp
    ultimately show ?thesis
      using False assms(1-4)
      by (auto simp: write_item_copy_wrap intro!: same_on_trans [OF put_bytes_same_on put_bytes_same_on])
  qed
qed

text \<open>A read copies the oldest items, in order, to the destination and nothing else.\<close>

lemma upt_split: "[0..<k + l] = [0..<k] @ map (\<lambda>j. k + j) [0..<l]"
  by (induction l) simp_all

lemma read_item_copy_put:
  assumes ok: "ring_ok m b" and n: "unat n \<le> ring_N m b" and dest: "dest \<noteq> 0"
    and dj: "disjoint dest (unat n * ring_sz m b) b (ring_size m b)"
  shows "read_item_copy m b dest n = put_bytes m dest
    (concat (map (\<lambda>j. ring_slot m b ((ring_r m b + j) mod ring_N m b)) [0..<unat n]))"
proof -
  note ix = ring_index_facts [OF ok n, of Item_out_index, simplified,
      folded ring_r_def ring_N_def ring_sz_def]
  note dj' = ring_block_disjoint_0 [OF dj [unfolded ring_size_def]]
  let ?sz = "ring_sz m b" and ?r = "ring_r m b" and ?N = "ring_N m b"
  let ?slot = "\<lambda>j. ring_slot m b ((?r + j) mod ?N)"
  have b: "b \<noteq> 0" and r: "?r < ?N"
    using ok ix(8) sanity_bounds(1) [of m b] by (auto simp: ring_ok_def)
  have run: "bytes_at m (b + 56 + ?r * ?sz) (k * ?sz) = concat (map ?slot [0..<k])"
    if "?r + k \<le> ?N" for k
  proof -
    have "bytes_at m (b + 56 + ?r * ?sz + j * ?sz) ?sz = ?slot j" if "j < k" for j
      using \<open>?r + k \<le> ?N\<close> that by (simp add: ring_slot_def slot_at_def distrib_right add.assoc)
    then show ?thesis
      unfolding bytes_at_items by (metis (mono_tags, lifting) atLeastLessThan_iff atLeast_upt map_cong set_upt)
  qed
  show ?thesis
  proof (cases "?r + unat n \<le> ?N")
    case True
    then have "disjoint dest (unat n * ?sz) (b + 56 + ?r * ?sz) (unat n * ?sz)"
      by (subst disjoint_sym) (auto intro!: dj')
    with True dest show ?thesis
      by (simp add: read_item_copy_def Let_def ix(1-5) MB_SUB_REGION_HEADER_SZ_def lmc.copy_block run)
  next
    case False
    let ?k = "?N - ?r" and ?l = "?r + unat n - ?N"
    have le: "?r + ?k \<le> ?N" "?l \<le> ?N" "?k \<le> unat n" "?k + ?l \<le> unat n" "unat n = ?k + ?l"
      using r n False by auto
    have d1: "disjoint dest (?k * ?sz) (b + 56 + ?r * ?sz) (?k * ?sz)"
      using le by (subst disjoint_sym) (auto intro!: dj')
    have d2: "disjoint (dest + ?k * ?sz) (?l * ?sz) (b + 56) (?l * ?sz)"
      using le by (subst disjoint_sym) (auto intro!: dj')
    have d3: "disjoint dest (?k * ?sz) (b + 56) (?l * ?sz)"
      using ring_block_disjoint [OF dj [unfolded ring_size_def], of 0 ?l 0 ?k] le
      by (subst disjoint_sym) simp
    have low: "bytes_at m (b + 56) (?l * ?sz) = concat (map (\<lambda>j. ?slot (?k + j)) [0..<?l])"
    proof -
      have "bytes_at m (b + 56 + j * ?sz) ?sz = ?slot (?k + j)" if "j < ?l" for j
        using that r le by (simp add: ring_slot_def slot_at_def)
      then show ?thesis
        unfolding bytes_at_items by (metis (mono_tags, lifting) atLeastLessThan_iff atLeast_upt map_cong set_upt)
    qed
    have "read_item_copy m b dest n = put_bytes (put_bytes m dest (bytes_at m (b + 56 + ?r * ?sz) (?k * ?sz)))
        (dest + length (bytes_at m (b + 56 + ?r * ?sz) (?k * ?sz))) (bytes_at m (b + 56) (?l * ?sz))"
      using False b d1 d2 d3 dest
      by (simp add: read_item_copy_def Let_def ix(1-5) ix(6) MB_SUB_REGION_HEADER_SZ_def
          lmc.copy_block bytes_at_put_other)
    also have "\<dots> = put_bytes m dest (concat (map ?slot [0..<?k + ?l]))"
      unfolding put_bytes_append upt_split low run [OF le(1)] by (simp add: comp_def)
    finally show ?thesis using le(5) by simp
  qed
qed

section \<open>The header under the operations\<close>

lemma sub_off_le: "mbsub_rgn_desc_t f + 4 \<le> 56"
  by (cases f) (simp_all add: layout)

lemma sub_reg_cong: "same_on b 56 m m' \<Longrightarrow> sub_reg m' b f = sub_reg m b f"
  unfolding sub_reg_def get_reg_def
  by (rule load32_cong, erule same_on_sub) (use sub_off_le [of f] in simp_all)

lemma sub_reg_set [simp]:
  "sub_reg (set_reg m (b + mbsub_rgn_desc_t f) v) b g = (if f = g then v else sub_reg m b g)"
  by (cases f; cases g)
    (simp_all add: sub_reg_def get_reg_def set_reg_def mem_simps disjoint_def layout)

lemma set_reg_same_on:
  "disjoint b 56 a k \<Longrightarrow> same_on a k m (set_reg m (b + mbsub_rgn_desc_t f) v)"
  unfolding set_reg_def
  by (rule store32_same_on) (use sub_off_le [of f] in \<open>auto simp: disjoint_def\<close>)

lemma slot_at_cong: "same_on (rb + i * sz) sz m m' \<Longrightarrow> slot_at rb sz i m' = slot_at rb sz i m"
  unfolding slot_at_def by (rule bytes_at_cong)

lemma slot_at_set_reg [simp]:
  "slot_at (b + 56) sz i (set_reg m (b + mbsub_rgn_desc_t f) v) = slot_at (b + 56) sz i m"
  by (rule slot_at_cong) (rule set_reg_same_on, simp add: disjoint_def)

text \<open>Memories that agree on the header and the slots hold the same ring.\<close>

lemma ring_geometry_cong:
  assumes "\<And>f. sub_reg m' b f = sub_reg m b f"
  shows "ring_N m' b = ring_N m b" "ring_sz m' b = ring_sz m b" "ring_w m' b = ring_w m b"
    "ring_r m' b = ring_r m b" "ring_size m' b = ring_size m b" "ring_cnt m' b = ring_cnt m b"
    "ring_ok m' b = ring_ok m b" "LibMB_Mailbox_sanity_check m' b = LibMB_Mailbox_sanity_check m b"
  by (simp_all add: ring_size_def ring_cnt_def ring_ok_def sanity_iff,
      simp_all add: ring_N_def ring_sz_def ring_w_def ring_r_def assms)

lemma ring_items_cong:
  assumes "same_on b (ring_size m b) m m'" "0 < ring_N m b"
  shows "ring_items m' b = ring_items m b" "ring_ok m' b = ring_ok m b"
    "ring_size m' b = ring_size m b"
proof -
  have "sub_reg m' b f = sub_reg m b f" for f
    by (rule sub_reg_cong, rule same_on_sub [OF assms(1)]) (simp_all add: ring_size_def)
  note g = ring_geometry_cong [OF this]
  show "ring_ok m' b = ring_ok m b" "ring_size m' b = ring_size m b" by (fact g)+
  have "ring_slot m' b i = ring_slot m b i" if "i < ring_N m b" for i
    unfolding ring_slot_def g
    by (rule slot_at_cong, rule same_on_sub [OF assms(1)])
      (use mult_block_le [OF that, of "ring_sz m b"] in \<open>simp_all add: ring_size_def\<close>)
  then show "ring_items m' b = ring_items m b"
    using assms(2) by (simp add: ring_items_def g)
qed

lemma ring_ok_setI:
  assumes "ring_ok m b" "\<And>f. f \<noteq> Item_in_index \<Longrightarrow> f \<noteq> Item_out_index \<Longrightarrow> sub_reg m' b f = sub_reg m b f"
    "ring_w m' b < ring_N m b" "ring_r m' b < ring_N m b"
  shows "ring_ok m' b" "ring_N m' b = ring_N m b" "ring_sz m' b = ring_sz m b"
    "ring_size m' b = ring_size m b"
proof -
  show g: "ring_N m' b = ring_N m b" "ring_sz m' b = ring_sz m b"
    using assms(2) by (simp_all add: ring_N_def ring_sz_def)
  then show "ring_size m' b = ring_size m b" "ring_ok m' b"
    using assms by (simp_all add: ring_size_def ring_ok_def sanity_iff)
qed

section \<open>Writes append and reads take from the front\<close>

lemma ring_cnt_shift: "w < N \<Longrightarrow> r < N \<Longrightarrow> ((w + n) mod N + N - r) mod N = ((w + N - r) + n) mod N"
  for w r n N :: nat
proof -
  assume "w < N" "r < N"
  then have "(w + n) mod N + N - r = (w + n) mod N + (N - r)" "w + N - r + n = (w + n) + (N - r)"
    by auto
  then show ?thesis by (simp only: mod_add_left_eq)
qed

lemma write_item_copy_sub_reg:
  assumes "ring_ok m b" "unat n \<le> ring_N m b" "src \<noteq> 0"
    "disjoint src (unat n * ring_sz m b) b (ring_size m b)"
  shows "sub_reg (write_item_copy m b src n) b f = sub_reg m b f"
  by (rule sub_reg_cong, rule write_item_copy_same_on [OF assms]) (simp add: disjoint_def)

lemma LibMB_Write_Item_alt:
  assumes "ring_ok m b"
  shows "LibMB_Write_Item m b src n = set_reg (write_item_copy m b src n)
    (b + mbsub_rgn_desc_t Item_in_index)
    ((sub_reg m b Item_in_index + n) mod sub_reg m b Max_item_num)"
proof -
  have "sub_reg m b Max_item_size \<noteq> 0" "sub_reg m b Item_in_index < sub_reg m b Max_item_num"
    using assms by (auto simp: ring_ok_def sanity_iff ring_sz_def ring_w_def ring_N_def word_less_nat_alt)
  then show ?thesis
    by (auto simp: LibMB_Write_Item_def write_item_stores_def write_item_copy_def Let_def)
qed

lemma LibMB_Write_Item_geometry:
  assumes "ring_ok m b" "unat n \<le> ring_N m b" "src \<noteq> 0"
    "disjoint src (unat n * ring_sz m b) b (ring_size m b)"
  defines "m' \<equiv> LibMB_Write_Item m b src n"
  shows "ring_ok m' b" "ring_N m' b = ring_N m b" "ring_sz m' b = ring_sz m b"
    "ring_size m' b = ring_size m b" "ring_r m' b = ring_r m b"
    "ring_w m' b = (ring_w m b + unat n) mod ring_N m b"
proof -
  note wr = write_item_copy_sub_reg [OF assms(1-4)]
  note ix = ring_index_facts [OF assms(1,2), of Item_in_index, simplified]
  have m': "sub_reg m' b f = (if f = Item_in_index then
      (sub_reg m b Item_in_index + n) mod sub_reg m b Max_item_num else sub_reg m b f)" for f
    unfolding m'_def LibMB_Write_Item_alt [OF assms(1)] by (simp add: wr)
  show w: "ring_w m' b = (ring_w m b + unat n) mod ring_N m b" and r: "ring_r m' b = ring_r m b"
    by (simp_all add: ring_w_def ring_r_def ring_N_def m' ix(7))
  have bd: "ring_w m' b < ring_N m b" "ring_r m' b < ring_N m b"
    using assms(1) unfolding w r by (auto simp: ring_ok_def sanity_iff)
  note set = ring_ok_setI [OF assms(1) _ bd]
  show "ring_ok m' b" "ring_N m' b = ring_N m b" "ring_sz m' b = ring_sz m b"
    "ring_size m' b = ring_size m b"
    by (rule set, simp add: m')+
qed

lemma LibMB_Write_Item_same_on:
  assumes "ring_ok m b" "unat n \<le> ring_N m b" "src \<noteq> 0"
    "disjoint src (unat n * ring_sz m b) b (ring_size m b)" "disjoint b (ring_size m b) a k"
  shows "same_on a k m (LibMB_Write_Item m b src n)"
  unfolding LibMB_Write_Item_alt [OF assms(1)]
  by (rule same_on_trans [OF write_item_copy_same_on [OF assms(1-4)] set_reg_same_on])
    (use assms(5) in \<open>auto simp: disjoint_def ring_size_def\<close>)

lemma ring_dist_waiting:
  assumes "ring_w m b < ring_N m b" "ring_r m b < ring_N m b" "j < ring_cnt m b"
    "n + ring_cnt m b < ring_N m b"
  shows "\<not> ring_dist (ring_N m b) (ring_w m b) ((ring_r m b + j) mod ring_N m b) < n"
  using assms by (auto simp: ring_dist_def ring_cnt_alt mod_if split: if_splits)

text \<open>The copy phase publishes nothing: until the index is stored, a reader still finds
  exactly the items that were there.\<close>

lemma write_item_copy_items:
  assumes "ring_ok m b" "unat n + ring_cnt m b < ring_N m b" "src \<noteq> 0"
    "disjoint src (unat n * ring_sz m b) b (ring_size m b)"
  shows "ring_items (write_item_copy m b src n) b = ring_items m b"
proof -
  have n: "unat n \<le> ring_N m b" using assms(2) by simp
  note g = ring_geometry_cong [OF write_item_copy_sub_reg [OF assms(1) n assms(3,4)]]
  have w: "ring_w m b < ring_N m b" and r: "ring_r m b < ring_N m b"
    using assms(1) by (simp_all add: ring_ok_def sanity_iff)
  show ?thesis
    using r ring_dist_waiting [OF w r _ assms(2)]
    by (auto simp: ring_items_def g ring_slot_def
        write_item_copy_slot [OF assms(1) n assms(3,4)] Let_def)
qed

lemma LibMB_Write_Item_items:
  assumes "ring_ok m b" "unat n + ring_cnt m b < ring_N m b" "src \<noteq> 0"
    "disjoint src (unat n * ring_sz m b) b (ring_size m b)"
  shows "ring_items (LibMB_Write_Item m b src n) b = ring_items m b @
    map (\<lambda>j. bytes_at m (src + j * ring_sz m b) (ring_sz m b)) [0..<unat n]"
proof -
  let ?m' = "LibMB_Write_Item m b src n"
  have n: "unat n \<le> ring_N m b" using assms(2) by simp
  note g = LibMB_Write_Item_geometry [OF assms(1) n assms(3,4)]
  have w: "ring_w m b < ring_N m b" and r: "ring_r m b < ring_N m b"
    using assms(1) by (simp_all add: ring_ok_def sanity_iff)
  have cnt: "ring_cnt ?m' b = ring_cnt m b + unat n"
    unfolding ring_cnt_def g ring_cnt_shift [OF w r]
    by (subst mod_add_left_eq [symmetric]) (use assms(2) in \<open>simp add: ring_cnt_def add.commute\<close>)
  have slot: "ring_slot ?m' b i = (let d = ring_dist (ring_N m b) (ring_w m b) i
      in if d < unat n then bytes_at m (src + d * ring_sz m b) (ring_sz m b) else ring_slot m b i)"
    if "i < ring_N m b" for i
    using write_item_copy_slot [OF assms(1) n assms(3,4) that]
    by (simp add: ring_slot_def g(3)) (simp add: LibMB_Write_Item_alt [OF assms(1)])
  have new: "ring_dist (ring_N m b) (ring_w m b) ((ring_r m b + (ring_cnt m b + j)) mod ring_N m b) = j"
    if "j < unat n" for j
    using that assms(2) w r by (auto simp: ring_dist_def ring_cnt_alt mod_if split: if_splits)
  show ?thesis
    unfolding ring_items_def cnt upt_split g(2,5) map_append map_map comp_def
    using ring_dist_waiting [OF w r _ assms(2)] new r by (auto simp: slot Let_def)
qed

lemma length_ring_items [simp]: "length (ring_items m b) = ring_cnt m b"
  by (simp add: ring_items_def)

lemma ring_items_size: "xs \<in> set (ring_items m b) \<Longrightarrow> length xs = ring_sz m b"
  by (auto simp: ring_items_def ring_slot_def slot_at_def)

text \<open>Reads.\<close>

lemma read_item_copy_items:
  assumes "ring_ok m b" "unat n \<le> ring_cnt m b" "dest \<noteq> 0"
    "disjoint dest (unat n * ring_sz m b) b (ring_size m b)"
  shows "read_item_copy m b dest n = put_bytes m dest (concat (take (unat n) (ring_items m b)))"
proof -
  have "ring_cnt m b < ring_N m b"
    using assms(1) by (intro ring_cnt_less) (auto simp: ring_ok_def sanity_iff)
  then show ?thesis
    using assms by (simp add: read_item_copy_put ring_items_def take_map)
qed

lemma length_concat_items: "n \<le> ring_cnt m b \<Longrightarrow>
  length (concat (take n (ring_items m b))) = n * ring_sz m b"
  by (simp add: length_concat comp_def ring_items_def ring_slot_def slot_at_def take_map sum_list_triv)

lemma LibMB_Read_Item_alt:
  assumes "ring_ok m b"
  shows "LibMB_Read_Item m b dest n = set_reg (read_item_copy m b dest n)
    (b + mbsub_rgn_desc_t Item_out_index)
    ((sub_reg m b Item_out_index + n) mod sub_reg m b Max_item_num)"
proof -
  have "sub_reg m b Max_item_size \<noteq> 0" "sub_reg m b Item_out_index < sub_reg m b Max_item_num"
    using assms by (auto simp: ring_ok_def sanity_iff ring_sz_def ring_r_def ring_N_def word_less_nat_alt)
  then show ?thesis
    by (auto simp: LibMB_Read_Item_def Let_def)
qed

lemma LibMB_Read_Item_spec:
  assumes ok: "ring_ok m b" and n: "unat n \<le> ring_cnt m b" and dest: "dest \<noteq> 0"
    and dj: "disjoint dest (unat n * ring_sz m b) b (ring_size m b)"
  defines "m' \<equiv> LibMB_Read_Item m b dest n"
  shows "ring_ok m' b" "ring_N m' b = ring_N m b" "ring_sz m' b = ring_sz m b"
    "ring_size m' b = ring_size m b" "ring_items m' b = drop (unat n) (ring_items m b)"
    "bytes_at m' dest (unat n * ring_sz m b) = concat (take (unat n) (ring_items m b))"
    "\<And>a k. disjoint b 56 a k \<Longrightarrow> disjoint dest (unat n * ring_sz m b) a k \<Longrightarrow> same_on a k m m'"
proof -
  let ?m1 = "read_item_copy m b dest n"
  have w: "ring_w m b < ring_N m b" and r: "ring_r m b < ring_N m b"
    using ok by (simp_all add: ring_ok_def sanity_iff)
  have nN: "unat n \<le> ring_N m b" and cN: "ring_cnt m b < ring_N m b"
    using n ring_cnt_less [of m b] r by linarith+
  note m1 = read_item_copy_items [OF ok n dest dj]
  note ix = ring_index_facts [OF ok nN, of Item_out_index, simplified]
  have len: "length (concat (take (unat n) (ring_items m b))) = unat n * ring_sz m b"
    by (rule length_concat_items [OF n])
  have fr: "same_on a k m ?m1" if "disjoint dest (unat n * ring_sz m b) a k" for a k
    unfolding m1 by (rule put_bytes_same_on) (simp only: len that)
  have rb: "same_on b (ring_size m b) m ?m1"
    by (rule fr [OF dj])
  have reg1: "sub_reg ?m1 b f = sub_reg m b f" for f
    by (rule sub_reg_cong, rule same_on_sub [OF rb]) (simp_all add: ring_size_def)
  have reg: "sub_reg m' b f = (if f = Item_out_index then
      (sub_reg m b Item_out_index + n) mod sub_reg m b Max_item_num else sub_reg m b f)" for f
    unfolding m'_def LibMB_Read_Item_alt [OF ok] by (simp add: reg1)
  have r': "ring_r m' b = (ring_r m b + unat n) mod ring_N m b" and w': "ring_w m' b = ring_w m b"
    by (simp_all add: ring_w_def ring_r_def ring_N_def reg ix(7))
  have bd: "ring_w m' b < ring_N m b" "ring_r m' b < ring_N m b"
    using w r by (auto simp: w' r')
  note set = ring_ok_setI [OF ok _ bd]
  show g: "ring_ok m' b" "ring_N m' b = ring_N m b" "ring_sz m' b = ring_sz m b"
    "ring_size m' b = ring_size m b"
    by (rule set, simp add: reg)+
  have cnt: "ring_cnt m' b = ring_cnt m b - unat n"
    using n w r cN bd by (auto simp: ring_cnt_alt g w' r' mod_if split: if_splits)
  have slot: "ring_slot m' b i = ring_slot m b i" if "i < ring_N m b" for i
  proof -
    have "slot_at (b + 56) (ring_sz m b) i ?m1 = slot_at (b + 56) (ring_sz m b) i m"
      by (rule slot_at_cong, rule same_on_sub [OF rb])
        (use mult_block_le [OF that, of "ring_sz m b"] in \<open>simp_all add: ring_size_def\<close>)
    then show ?thesis
      by (simp add: ring_slot_def g(3)) (simp add: m'_def LibMB_Read_Item_alt [OF ok])
  qed
  have "(ring_r m' b + j) mod ring_N m b = (ring_r m b + (unat n + j)) mod ring_N m b" for j
    unfolding r' mod_add_left_eq by (simp add: add.assoc)
  then have "ring_items m' b = map (\<lambda>j. ring_slot m b ((ring_r m b + (unat n + j)) mod ring_N m b))
      [0..<ring_cnt m b - unat n]"
    using r by (simp add: ring_items_def cnt g(2) slot)
  also have "\<dots> = drop (unat n) (ring_items m b)"
    by (simp add: ring_items_def drop_map list_eq_iff_nth_eq)
  finally show "ring_items m' b = drop (unat n) (ring_items m b)" .
  show "same_on a k m m'" if "disjoint b 56 a k" "disjoint dest (unat n * ring_sz m b) a k" for a k
    unfolding m'_def LibMB_Read_Item_alt [OF ok]
    by (rule same_on_trans [OF fr set_reg_same_on]) (fact that)+
  have "disjoint b 56 dest (unat n * ring_sz m b)"
    using dj by (auto simp: disjoint_def ring_size_def)
  then have "bytes_at m' dest (unat n * ring_sz m b) = bytes_at ?m1 dest (unat n * ring_sz m b)"
    unfolding m'_def LibMB_Read_Item_alt [OF ok] by (intro bytes_at_cong set_reg_same_on)
  then show "bytes_at m' dest (unat n * ring_sz m b) = concat (take (unat n) (ring_items m b))"
    unfolding m1 using len by (simp only: bytes_at_put_same [OF len [symmetric]])
qed

end
