(* ===== verification/Safe_MB.thy ===== *)
theory Safe_MB
  imports Ring_Buffer
begin

text \<open>
  The public operations of the mailbox library,
  \<^verbatim>\<open>middleware/safemlib/src/rtss_mailbox_lib.c\<close> (lines 144 to 288 and 400 to 775), on the
  shared mailbox memory. The configuration structures are records; the configuration
  array is a function from the index, so that an index outside the array is an unknown
  element rather than an error. Every operation returns the \<open>int32_t\<close> code of the source,
  with the updated memory where it writes.
\<close>

section \<open>Structures\<close>

datatype mb_field = Mb_magic | Mb_size | Mb_prio | Num_of_sub_region

fun mb_desc_t :: "mb_field \<Rightarrow> nat" where
  "mb_desc_t Mb_magic = 16"
| "mb_desc_t Mb_size = 20"
| "mb_desc_t Mb_prio = 24"
| "mb_desc_t Num_of_sub_region = 28"

text \<open>Offsets of \<open>sub_region[i].sub_region_start_offset\<close> and \<open>sub_region_end_offset\<close>.\<close>

definition sub_region_start_offset :: "u32 \<Rightarrow> nat" where
  "sub_region_start_offset i = 32 + 8 * unat i"

definition sub_region_end_offset :: "u32 \<Rightarrow> nat" where
  "sub_region_end_offset i = 36 + 8 * unat i"

declare mb_desc_t.simps [simp del, layout]
declare sub_region_start_offset_def [layout] sub_region_end_offset_def [layout]

record mbchan_desc_t =
  ch_name :: "u8 list"
  ch_sender :: u32
  ch_receiver :: u32
  ch_prot :: u32
  ch_sig :: u32
  ch_mode :: u32
  ch_prio :: u32
  ch_max_item_num :: u32
  ch_max_item_size :: u32

record mbconfig_t =
  mbc_name :: "u8 list"
  mbc_mb_size :: u32
  mbc_mb_prio :: u32
  mbc_num_sub_regions :: u32
  mbc_mblocator :: u32

record mbsub_rgn_config_t =
  sc_name :: "u8 list"
  sc_sender :: u32
  sc_receiver :: u32
  sc_prot :: u32
  sc_sig :: u32
  sc_mode :: u32
  sc_prio :: u32
  sc_start_addr_offset :: u32
  sc_end_addr_offset :: u32
  sc_item_max_num :: u32
  sc_item_max_size :: u32

type_synonym sub_cfgs = "nat \<Rightarrow> mbsub_rgn_config_t"

definition MB_MAGIC_NUMBER :: u32 where "MB_MAGIC_NUMBER = 0x4D4C3130"
definition MB_MAX_SUB_REGION_NUM :: u32 where "MB_MAX_SUB_REGION_NUM = 253"
definition MB_LIB_OWNER :: int where "MB_LIB_OWNER = 1"
definition MB_LIB_TYPE :: int where "MB_LIB_TYPE = 2"
definition MB_CHAN_RD_MODE :: u32 where "MB_CHAN_RD_MODE = 0"
definition MB_CHAN_WR_MODE :: u32 where "MB_CHAN_WR_MODE = 1"

definition MB_E_SUCCESS :: int where [errno_defs]: "MB_E_SUCCESS = 0"
definition MB_E_NULL_INPUT :: int where [errno_defs]: "MB_E_NULL_INPUT = -11"
definition MB_E_INVALID_CFG :: int where [errno_defs]: "MB_E_INVALID_CFG = -22"
definition MB_E_INVALID_INDEX :: int where [errno_defs]: "MB_E_INVALID_INDEX = -33"
definition MB_E_INVALID_MAILBOX :: int where [errno_defs]: "MB_E_INVALID_MAILBOX = -44"
definition MB_E_NO_ENOUGH_BUF :: int where [errno_defs]: "MB_E_NO_ENOUGH_BUF = -55"
definition MB_E_CORRUPT_MAILBOX :: int where [errno_defs]: "MB_E_CORRUPT_MAILBOX = -66"

section \<open>Creating a mailbox\<close>

definition mb_reg :: "mem \<Rightarrow> addr \<Rightarrow> mb_field \<Rightarrow> u32" where
  "mb_reg m mb f = get_reg m (mb + mb_desc_t f)"

text \<open>Plain stores to members of the two descriptors, and the 16-byte name copies from the
  configuration.\<close>

definition mb_set :: "mem \<Rightarrow> addr \<Rightarrow> mb_field \<Rightarrow> u32 \<Rightarrow> mem" where
  "mb_set m mb f v = store32 m (mb + mb_desc_t f) v"

definition sub_set :: "addr \<Rightarrow> mbsub_rgn_field \<Rightarrow> u32 \<Rightarrow> mem \<Rightarrow> mem" where
  "sub_set base f v m = store32 m (base + mbsub_rgn_desc_t f) v"

definition copy_name :: "mem \<Rightarrow> addr \<Rightarrow> u8 list \<Rightarrow> mem" where
  "copy_name m a name = put_bytes m a (take (unat MB_NAME_SZ) name)"

text \<open>The body of the loop of \<open>LibMB_Init_Mailbox\<close> for sub-region \<open>i\<close>: the start offset is
  stored and read back to find the sub-region.\<close>

definition sub_region_base :: "mem \<Rightarrow> addr \<Rightarrow> u32 \<Rightarrow> addr" where
  "sub_region_base m mb i = mb + unat (get_reg m (mb + sub_region_start_offset i))"

definition init_sub_region :: "addr \<Rightarrow> mbsub_rgn_config_t \<Rightarrow> u32 \<Rightarrow> mem \<Rightarrow> bool \<times> mem" where
  "init_sub_region mb c i m =
     (let m1 = store32 m (mb + sub_region_start_offset i) (sc_start_addr_offset c);
          m2 = store32 m1 (mb + sub_region_end_offset i) (sc_end_addr_offset c);
          base = sub_region_base m2 mb i
      in if base \<noteq> NULL
         then (True,
           sub_set base Sub_prio (sc_prio c)
           (sub_set base Sub_mode (sc_mode c)
           (sub_set base Sub_sig (sc_sig c)
           (sub_set base Sub_prot (sc_prot c)
           (sub_set base Sub_receiver (sc_receiver c)
           (sub_set base Sub_sender (sc_sender c)
           (sub_set base Item_out_index 0
           (sub_set base Item_in_index 0
           (sub_set base Max_item_size (sc_item_max_size c)
           (sub_set base Max_item_num (sc_item_max_num c)
             (copy_name m2 base (sc_name c))))))))))))
         else (False, m2))"

function init_loop :: "addr \<Rightarrow> sub_cfgs \<Rightarrow> u32 \<Rightarrow> mem \<Rightarrow> bool \<times> mem" where
  "init_loop mb cfgs i m =
     (if i < mb_reg m mb Num_of_sub_region
      then case init_sub_region mb (cfgs (unat i)) i m of
             (True, m') \<Rightarrow> init_loop mb cfgs (i + 1) m'
           | (False, m') \<Rightarrow> (False, m')
      else (True, m))"
  by pat_completeness auto
termination
proof (relation "measure (\<lambda>(mb, cfgs, i, m). 2 ^ 32 - unat i)", simp)
  fix mb cfgs m m' r and i :: u32
  assume "i < mb_reg m mb Num_of_sub_region"
  then have "unat i < 2 ^ 32 - 1"
    using unat_lt [of "mb_reg m mb Num_of_sub_region"] by (simp add: word_less_nat_alt)
  then have "unat (i + 1) = unat i + 1"
    by (subst unat_add_small) simp_all
  then show "((mb, cfgs, i + 1, m'), mb, cfgs, i, m) \<in> measure (\<lambda>(mb, cfgs, i, m). 2 ^ 32 - unat i)"
    using unat_lt [of i] by simp
qed

declare init_loop.simps [simp del]

definition LibMB_Init_Mailbox :: "mem \<Rightarrow> addr \<Rightarrow> mbconfig_t \<Rightarrow> sub_cfgs \<Rightarrow> bool \<times> mem" where
  "LibMB_Init_Mailbox m mb mb_cfg subregion_cfg =
     (if mb \<noteq> NULL
      then let m1 = copy_name m mb (mbc_name mb_cfg);
               m2 = mb_set m1 mb Num_of_sub_region (mbc_num_sub_regions mb_cfg);
               m3 = mb_set m2 mb Mb_size (mbc_mb_size mb_cfg);
               m4 = mb_set m3 mb Mb_prio (mbc_mb_prio mb_cfg)
           in init_loop mb subregion_cfg 0 m4
      else (False, m))"

section \<open>Checking a configuration\<close>

text \<open>The size of the mailbox header with \<open>n\<close> sub-regions, rounded up to four bytes.\<close>

definition mb_header_size :: "u32 \<Rightarrow> u32" where
  "mb_header_size n = (40 + 8 * (n - 1) + 3) AND NOT 3"

definition sub_region_fits :: "mbsub_rgn_config_t \<Rightarrow> bool" where
  "sub_region_fits c =
     (let hsz = MB_SUB_REGION_HEADER_SZ - 1;
          start_addr_offset = sc_start_addr_offset c;
          end_addr_offset = sc_end_addr_offset c;
          valid_size = sc_item_max_num c * sc_item_max_size c;
          max_item_num = sc_item_max_num c;
          valid_range = (sc_item_max_num c \<noteq> 0
            \<and> valid_size div sc_item_max_num c \<noteq> sc_item_max_size c)
      in \<not> (max_item_num > MB_MAX_ITEM_NUM \<or> start_addr_offset \<ge> end_addr_offset
            \<or> valid_range \<or> start_addr_offset + hsz + valid_size \<le> start_addr_offset
            \<or> start_addr_offset + hsz + valid_size > end_addr_offset))"

definition region_gap_ok :: "mbconfig_t \<Rightarrow> sub_cfgs \<Rightarrow> nat \<Rightarrow> bool" where
  "region_gap_ok mb_cfg subregion_cfg i =
     (let n = unat (mbc_num_sub_regions mb_cfg);
          current_region_end_offset =
            (if i = 0 then mb_header_size (mbc_num_sub_regions mb_cfg)
             else sc_end_addr_offset (subregion_cfg (i - 1)));
          current_region_end_limit =
            (if i = 0 then sc_start_addr_offset (subregion_cfg 0)
             else if i = n then mbc_mb_size mb_cfg
             else sc_start_addr_offset (subregion_cfg i))
      in \<not> (current_region_end_offset \<ge> current_region_end_limit
            \<or> current_region_end_limit > mbc_mb_size mb_cfg))"

definition LibMB_Boundary_Check :: "mbconfig_t \<Rightarrow> sub_cfgs \<Rightarrow> bool" where
  "LibMB_Boundary_Check mb_cfg subregion_cfg =
     (if mbc_num_sub_regions mb_cfg \<le> MB_MAX_SUB_REGION_NUM \<and> mbc_num_sub_regions mb_cfg > 0
      then (let n = unat (mbc_num_sub_regions mb_cfg)
            in list_all (\<lambda>i. sub_region_fits (subregion_cfg i)) [0..<n]
               \<and> list_all (region_gap_ok mb_cfg subregion_cfg) [0..<n + 1])
      else False)"

text \<open>One round of the loop of \<open>LibMB_ChanMapInit\<close>; the first round also switches \<open>hsz\<close>
  from the mailbox header to the sub-region header.\<close>

definition chan_map_step :: "nat \<Rightarrow> u32 \<times> sub_cfgs \<Rightarrow> u32 \<times> sub_cfgs" where
  "chan_map_step chan st =
     (case st of (hsz, cfgs) \<Rightarrow>
       let c = cfgs chan; sz = sc_item_max_num c * sc_item_max_size c
       in if chan = 0
          then let start = hsz + 4
               in (MB_SUB_REGION_HEADER_SZ - 1,
                   cfgs(chan := c\<lparr>sc_start_addr_offset := start,
                     sc_end_addr_offset := start + (MB_SUB_REGION_HEADER_SZ - 1) + sz\<rparr>))
          else let start = sc_end_addr_offset (cfgs (chan - 1)) + 1
               in (hsz, cfgs(chan := c\<lparr>sc_start_addr_offset := start,
                     sc_end_addr_offset := start + hsz + sz\<rparr>)))"

definition LibMB_ChanMapInit :: "mbconfig_t option \<Rightarrow> sub_cfgs option \<Rightarrow> int \<times> sub_cfgs option" where
  "LibMB_ChanMapInit mb_cfg subregion_cfg =
     (case (mb_cfg, subregion_cfg) of
        (Some mc, Some sc) \<Rightarrow>
          if mbc_num_sub_regions mc \<le> MB_MAX_SUB_REGION_NUM
          then let n = mbc_num_sub_regions mc;
                   (hsz, pcfgset) = fold chan_map_step [0..<unat n] (mb_header_size n, sc)
               in (if mbc_mb_size mc < sc_end_addr_offset (pcfgset (unat (n - 1)))
                   then MB_E_INVALID_CFG else MB_E_SUCCESS, Some pcfgset)
          else (MB_E_NULL_INPUT, subregion_cfg)
      | _ \<Rightarrow> (MB_E_NULL_INPUT, subregion_cfg))"

definition LibMB_Create :: "mem \<Rightarrow> addr \<Rightarrow> mbconfig_t option \<Rightarrow> sub_cfgs option \<Rightarrow> int \<times> mem" where
  "LibMB_Create m mb mb_cfg subregion_cfg =
     (case (mb_cfg, subregion_cfg) of
        (Some mc, Some sc) \<Rightarrow>
          if mb \<noteq> NULL
          then if LibMB_Boundary_Check mc sc
               then case LibMB_Init_Mailbox m mb mc sc of
                      (True, m') \<Rightarrow> (MB_E_SUCCESS, mb_set m' mb Mb_magic MB_MAGIC_NUMBER)
                    | (False, m') \<Rightarrow> (MB_E_CORRUPT_MAILBOX, m')
               else (MB_E_INVALID_CFG, m)
          else (MB_E_NULL_INPUT, m)
      | _ \<Rightarrow> (MB_E_NULL_INPUT, m))"

definition LibMB_Validate :: "mem \<Rightarrow> addr \<Rightarrow> int" where
  "LibMB_Validate m mb =
     (if mb \<noteq> NULL
      then if mb_reg m mb Mb_magic \<noteq> MB_MAGIC_NUMBER then MB_E_INVALID_MAILBOX else MB_E_SUCCESS
      else MB_E_NULL_INPUT)"

section \<open>Channel operations\<close>

definition LibMB_Write :: "mem \<Rightarrow> addr \<Rightarrow> addr \<Rightarrow> u32 \<Rightarrow> u32 \<Rightarrow> int \<times> mem" where
  "LibMB_Write m mb source_item_buf item_num sub_region_index =
     (if mb \<noteq> NULL \<and> source_item_buf \<noteq> NULL
      then if mb_reg m mb Mb_magic = MB_MAGIC_NUMBER
           then if sub_region_index < mb_reg m mb Num_of_sub_region
                then let base = sub_region_base m mb sub_region_index
                     in if LibMB_Mailbox_sanity_check m base
                        then if item_num \<le> LibMB_Free_Item m base
                             then (i32 item_num, LibMB_Write_Item m base source_item_buf item_num)
                             else (MB_E_NO_ENOUGH_BUF, m)
                        else (MB_E_CORRUPT_MAILBOX, m)
                else (MB_E_INVALID_INDEX, m)
           else (MB_E_INVALID_MAILBOX, m)
      else (MB_E_NULL_INPUT, m))"

definition LibMB_Read :: "mem \<Rightarrow> addr \<Rightarrow> addr \<Rightarrow> u32 \<Rightarrow> u32 \<Rightarrow> int \<times> mem" where
  "LibMB_Read m mb destination_item_buf item_num sub_region_index =
     (if mb \<noteq> NULL \<and> destination_item_buf \<noteq> NULL
      then if mb_reg m mb Mb_magic = MB_MAGIC_NUMBER
           then if sub_region_index < mb_reg m mb Num_of_sub_region
                then let base = sub_region_base m mb sub_region_index
                     in if LibMB_Mailbox_sanity_check m base
                        then let valid_items = LibMB_Valid_Item m base;
                                 read_num = (if valid_items < item_num then valid_items else item_num)
                             in if read_num > 0
                                then (i32 read_num,
                                      LibMB_Read_Item m base destination_item_buf read_num)
                                else (0, m)
                        else (MB_E_CORRUPT_MAILBOX, m)
                else (MB_E_INVALID_INDEX, m)
           else (MB_E_INVALID_MAILBOX, m)
      else (MB_E_NULL_INPUT, m))"

definition LibMB_Get_FreeItemNum :: "mem \<Rightarrow> addr \<Rightarrow> u32 \<Rightarrow> int" where
  "LibMB_Get_FreeItemNum m mb sub_region_index =
     (if mb \<noteq> NULL
      then if mb_reg m mb Mb_magic = MB_MAGIC_NUMBER
           then if sub_region_index < mb_reg m mb Num_of_sub_region
                then let base = sub_region_base m mb sub_region_index
                     in if LibMB_Mailbox_sanity_check m base
                        then i32 (LibMB_Free_Item m base) else MB_E_CORRUPT_MAILBOX
                else MB_E_INVALID_INDEX
           else MB_E_INVALID_MAILBOX
      else MB_E_NULL_INPUT)"

definition LibMB_Get_ValidItemNum :: "mem \<Rightarrow> addr \<Rightarrow> u32 \<Rightarrow> int" where
  "LibMB_Get_ValidItemNum m mb sub_region_index =
     (if mb \<noteq> NULL
      then if mb_reg m mb Mb_magic = MB_MAGIC_NUMBER
           then if sub_region_index < mb_reg m mb Num_of_sub_region
                then let base = sub_region_base m mb sub_region_index
                     in if LibMB_Mailbox_sanity_check m base
                        then i32 (LibMB_Valid_Item m base) else MB_E_CORRUPT_MAILBOX
                else MB_E_INVALID_INDEX
           else MB_E_INVALID_MAILBOX
      else MB_E_NULL_INPUT)"

text \<open>\<open>LibMB_Get_ChanInfo\<close> fills a descriptor of the caller; it is passed as the option of its
  current contents (\<open>None\<close> for a null pointer) and returned updated.\<close>

definition chan_info_of :: "mem \<Rightarrow> addr \<Rightarrow> mbchan_desc_t" where
  "chan_info_of m base =
     (let mode0 = sub_reg m base Sub_mode;
          mode1 = (if MB_LIB_TYPE \<noteq> MB_LIB_OWNER
                   then if MB_CHAN_RD_MODE = mode0 then MB_CHAN_WR_MODE else MB_CHAN_RD_MODE
                   else mode0)
      in \<lparr>ch_name = bytes_at m base (unat MB_NAME_SZ),
          ch_sender = sub_reg m base Sub_sender,
          ch_receiver = sub_reg m base Sub_receiver,
          ch_prot = sub_reg m base Sub_prot,
          ch_sig = sub_reg m base Sub_sig,
          ch_mode = mode1,
          ch_prio = sub_reg m base Sub_prio,
          ch_max_item_num = sub_reg m base Max_item_num,
          ch_max_item_size = sub_reg m base Max_item_size\<rparr>)"

definition LibMB_Get_ChanInfo ::
  "mem \<Rightarrow> addr \<Rightarrow> u32 \<Rightarrow> mbchan_desc_t option \<Rightarrow> int \<times> mbchan_desc_t option" where
  "LibMB_Get_ChanInfo m mb sub_region_index chaninfo =
     (if mb \<noteq> NULL \<and> chaninfo \<noteq> None
      then if mb_reg m mb Mb_magic = MB_MAGIC_NUMBER
           then if sub_region_index < mb_reg m mb Num_of_sub_region
                then let base = sub_region_base m mb sub_region_index
                     in if LibMB_Mailbox_sanity_check m base
                        then (0, Some (chan_info_of m base))
                        else (MB_E_CORRUPT_MAILBOX, chaninfo)
                else (MB_E_INVALID_INDEX, chaninfo)
           else (MB_E_INVALID_MAILBOX, chaninfo)
      else (MB_E_NULL_INPUT, chaninfo))"

definition LibMB_ChanReset :: "mem \<Rightarrow> addr \<Rightarrow> u32 \<Rightarrow> int \<times> mem" where
  "LibMB_ChanReset m mb schan =
     (if mb = NULL then (MB_E_NULL_INPUT, m)
      else if MB_MAGIC_NUMBER \<noteq> mb_reg m mb Mb_magic then (MB_E_INVALID_MAILBOX, m)
      else if schan < mb_reg m mb Num_of_sub_region
           then let base = sub_region_base m mb schan
                in if LibMB_Mailbox_sanity_check m base
                   then if base \<noteq> NULL
                        then (0, set_reg (set_reg m (base + mbsub_rgn_desc_t Item_in_index) 0)
                                   (base + mbsub_rgn_desc_t Item_out_index) 0)
                        else (MB_E_CORRUPT_MAILBOX, m)
                   else (MB_E_CORRUPT_MAILBOX, m)
           else (MB_E_INVALID_INDEX, m))"

section \<open>The abstract channel\<close>

text \<open>A channel is usable when the mailbox is valid, the index names a sub-region whose ring
  is usable, and that ring lies behind the mailbox header. Its abstract state is the list
  of waiting items; its capacity is one less than the number of slots.\<close>

definition mb_header_bytes :: "mem \<Rightarrow> addr \<Rightarrow> nat" where
  "mb_header_bytes m mb = 32 + 8 * unat (mb_reg m mb Num_of_sub_region)"

definition chan_ok :: "mem \<Rightarrow> addr \<Rightarrow> u32 \<Rightarrow> bool" where
  "chan_ok m mb i \<longleftrightarrow> mb \<noteq> 0 \<and> mb_reg m mb Mb_magic = MB_MAGIC_NUMBER
     \<and> i < mb_reg m mb Num_of_sub_region
     \<and> ring_ok m (sub_region_base m mb i)
     \<and> mb + mb_header_bytes m mb \<le> sub_region_base m mb i"

definition chan_items :: "mem \<Rightarrow> addr \<Rightarrow> u32 \<Rightarrow> u8 list list" where
  "chan_items m mb i = ring_items m (sub_region_base m mb i)"

definition chan_N :: "mem \<Rightarrow> addr \<Rightarrow> u32 \<Rightarrow> nat" where
  "chan_N m mb i = ring_N m (sub_region_base m mb i)"

definition chan_sz :: "mem \<Rightarrow> addr \<Rightarrow> u32 \<Rightarrow> nat" where
  "chan_sz m mb i = ring_sz m (sub_region_base m mb i)"

definition chan_free :: "mem \<Rightarrow> addr \<Rightarrow> u32 \<Rightarrow> nat" where
  "chan_free m mb i = chan_N m mb i - 1 - length (chan_items m mb i)"

text \<open>The whole block from the mailbox header to the end of the ring of channel \<open>i\<close>.\<close>

definition chan_extent :: "mem \<Rightarrow> addr \<Rightarrow> u32 \<Rightarrow> nat" where
  "chan_extent m mb i = sub_region_base m mb i - mb + ring_size m (sub_region_base m mb i)"

lemma mb_off_le: "16 \<le> mb_desc_t f" "mb_desc_t f + 4 \<le> 32"
  by (cases f; simp add: layout)+

lemma mb_reg_cong: "same_on mb 32 m m' \<Longrightarrow> mb_reg m' mb f = mb_reg m mb f"
  unfolding mb_reg_def get_reg_def
  by (rule load32_cong, erule same_on_sub) (use mb_off_le [of f] in simp_all)

lemma sub_region_base_cong:
  "same_on mb (mb_header_bytes m mb) m m' \<Longrightarrow> i < mb_reg m mb Num_of_sub_region \<Longrightarrow>
   sub_region_base m' mb i = sub_region_base m mb i"
  unfolding sub_region_base_def get_reg_def
  by (subst load32_cong [of _ m m'], erule same_on_sub)
    (simp_all add: layout mb_header_bytes_def word_less_nat_alt)

lemma chan_ok_ring:
  assumes "chan_ok m mb i"
  shows "ring_ok m (sub_region_base m mb i)" "LibMB_Mailbox_sanity_check m (sub_region_base m mb i)"
    "length (chan_items m mb i) < chan_N m mb i" "chan_N m mb i \<le> 2 ^ 20" "0 < chan_sz m mb i"
  using assms ring_cnt_less [of m "sub_region_base m mb i"]
  by (auto simp: chan_ok_def ring_ok_def chan_items_def chan_N_def chan_sz_def sanity_iff)

lemma i32_le_20: "unat x \<le> 2 ^ 20 \<Longrightarrow> i32 x = int (unat x)"
  by (rule i32_small) simp

text \<open>The header is untouched when only the ring and the caller's buffer change.\<close>

lemma chan_header_cong:
  assumes "chan_ok m mb i" "same_on mb (mb_header_bytes m mb) m m'"
  shows "mb_reg m' mb f = mb_reg m mb f" "sub_region_base m' mb i = sub_region_base m mb i"
    "mb_header_bytes m' mb = mb_header_bytes m mb"
proof -
  have "mb_reg m' mb f = mb_reg m mb f" for f
    by (rule mb_reg_cong, rule same_on_sub [OF assms(2)]) (simp_all add: mb_header_bytes_def)
  then show "mb_reg m' mb f = mb_reg m mb f" "mb_header_bytes m' mb = mb_header_bytes m mb"
    by (simp_all add: mb_header_bytes_def)
  show "sub_region_base m' mb i = sub_region_base m mb i"
    using assms by (intro sub_region_base_cong) (auto simp: chan_ok_def)
qed

lemma chan_ok_cong:
  assumes "chan_ok m mb i" "same_on mb (mb_header_bytes m mb) m m'"
    "ring_ok m' (sub_region_base m mb i)"
  shows "chan_ok m' mb i"
  using assms chan_header_cong [OF assms(1,2)] by (simp add: chan_ok_def)

section \<open>Writing and reading a channel\<close>

lemma LibMB_Write_ok:
  assumes ok: "chan_ok m mb i" and src: "src \<noteq> 0"
    and n: "unat n + length (chan_items m mb i) < chan_N m mb i"
    and dj: "disjoint src (unat n * chan_sz m mb i) mb (chan_extent m mb i)"
  obtains m' where "LibMB_Write m mb src n i = (int (unat n), m')"
    and "chan_items m' mb i = chan_items m mb i @
      map (\<lambda>j. bytes_at m (src + j * chan_sz m mb i) (chan_sz m mb i)) [0..<unat n]"
    and "chan_ok m' mb i" "chan_N m' mb i = chan_N m mb i" "chan_sz m' mb i = chan_sz m mb i"
      "sub_region_base m' mb i = sub_region_base m mb i"
    and "\<And>a k. disjoint (sub_region_base m mb i) (ring_size m (sub_region_base m mb i)) a k \<Longrightarrow>
      same_on a k m m'"
proof -
  let ?b = "sub_region_base m mb i" and ?m' = "LibMB_Write_Item m (sub_region_base m mb i) src n"
  note r = chan_ok_ring [OF ok]
  have nN: "unat n \<le> ring_N m ?b" and nc: "unat n + ring_cnt m ?b < ring_N m ?b"
    using n by (simp_all add: chan_N_def chan_items_def)
  have hdr: "mb + mb_header_bytes m mb \<le> ?b"
    using ok by (simp add: chan_ok_def)
  have dj': "disjoint src (unat n * ring_sz m ?b) ?b (ring_size m ?b)"
    using dj hdr by (auto simp: disjoint_def chan_extent_def chan_sz_def)
  note g = LibMB_Write_Item_geometry [OF r(1) nN src dj']
    and fr = LibMB_Write_Item_same_on [OF r(1) nN src dj']
  have h: "same_on mb (mb_header_bytes m mb) m ?m'"
    by (rule fr) (use hdr in \<open>simp add: disjoint_def\<close>)
  note hc = chan_header_cong [OF ok h]
  have "n \<le> LibMB_Free_Item m ?b"
    using nc unat_Free_Item [OF r(2)] by (simp add: word_le_nat_alt)
  then have "LibMB_Write m mb src n i = (int (unat n), ?m')"
    using ok src r(2,4) nN by (simp add: LibMB_Write_def chan_ok_def Let_def i32_le_20 chan_N_def)
  then show ?thesis
    using LibMB_Write_Item_items [OF r(1) nc src dj'] chan_ok_cong [OF ok h g(1)] fr
    by (intro that [of ?m']) (simp_all add: chan_items_def chan_N_def chan_sz_def hc g)
qed

lemma LibMB_Write_full:
  assumes "chan_ok m mb i" "src \<noteq> 0" "chan_N m mb i \<le> unat n + length (chan_items m mb i)"
  shows "LibMB_Write m mb src n i = (MB_E_NO_ENOUGH_BUF, m)"
proof -
  note r = chan_ok_ring [OF assms(1)]
  have "\<not> n \<le> LibMB_Free_Item m (sub_region_base m mb i)"
    using assms(3) r(3) unat_Free_Item [OF r(2)] by (auto simp: word_le_nat_alt chan_N_def chan_items_def)
  then show ?thesis
    using assms(1,2) r(2) by (simp add: LibMB_Write_def chan_ok_def Let_def)
qed

lemma LibMB_Read_ok:
  assumes ok: "chan_ok m mb i" and dest: "dest \<noteq> 0"
    and dj: "disjoint dest (unat n * chan_sz m mb i) mb (chan_extent m mb i)"
  defines "k \<equiv> min (unat n) (length (chan_items m mb i))"
  obtains m' where "LibMB_Read m mb dest n i = (int k, m')"
    and "chan_items m' mb i = drop k (chan_items m mb i)"
    and "bytes_at m' dest (k * chan_sz m mb i) = concat (take k (chan_items m mb i))"
    and "chan_ok m' mb i" "chan_N m' mb i = chan_N m mb i" "chan_sz m' mb i = chan_sz m mb i"
      "sub_region_base m' mb i = sub_region_base m mb i"
    and "\<And>a j. disjoint (sub_region_base m mb i) 56 a j \<Longrightarrow>
      disjoint dest (k * chan_sz m mb i) a j \<Longrightarrow> same_on a j m m'"
proof -
  let ?b = "sub_region_base m mb i"
  note r = chan_ok_ring [OF ok]
  define w where "w = (if LibMB_Valid_Item m ?b < n then LibMB_Valid_Item m ?b else n)"
  have w: "unat w = k"
    by (auto simp: w_def k_def word_less_nat_alt unat_Valid_Item [OF r(2)] chan_items_def)
  have k: "k \<le> ring_cnt m ?b" "k \<le> unat n"
    by (simp_all add: k_def chan_items_def)
  have read: "LibMB_Read m mb dest n i =
      (int k, if w = 0 then m else LibMB_Read_Item m ?b dest w)"
    using ok dest r(2-4) k(1) w
    by (simp add: LibMB_Read_def chan_ok_def Let_def w_def [symmetric] i32_le_20 chan_N_def
        chan_items_def word_gt_0 unat_eq_zero [symmetric] del: unat_eq_zero)
  show ?thesis
  proof (cases "w = 0")
    case True
    then show ?thesis
      using w ok read by (intro that [of m]) simp_all
  next
    case False
    have hdr: "mb + mb_header_bytes m mb \<le> ?b"
      using ok by (simp add: chan_ok_def)
    have ks: "k * ring_sz m ?b \<le> unat n * ring_sz m ?b"
      using k(2) by (rule mult_le_mono1)
    have d: "disjoint dest (unat w * ring_sz m ?b) ?b (ring_size m ?b)"
      "disjoint dest (unat w * ring_sz m ?b) mb (mb_header_bytes m mb)"
      using dj hdr ks unfolding w disjoint_def chan_extent_def chan_sz_def by linarith+
    note sp = LibMB_Read_Item_spec [OF r(1) _ dest d(1), unfolded w, OF k(1)]
    let ?m' = "LibMB_Read_Item m ?b dest w"
    have h: "same_on mb (mb_header_bytes m mb) m ?m'"
      by (rule sp(7)) (use hdr d(2) w in \<open>simp_all add: disjoint_def\<close>)
    note hc = chan_header_cong [OF ok h]
    show ?thesis
      using sp(1-6) chan_ok_cong [OF ok h sp(1)] read False sp(7)
      by (intro that [of ?m']) (simp_all add: chan_items_def chan_N_def chan_sz_def hc)
  qed
qed

lemma LibMB_counts:
  assumes "chan_ok m mb i"
  shows "LibMB_Get_ValidItemNum m mb i = int (length (chan_items m mb i))"
    and "LibMB_Get_FreeItemNum m mb i = int (chan_free m mb i)"
proof -
  note r = chan_ok_ring [OF assms]
  have "unat (LibMB_Valid_Item m (sub_region_base m mb i)) \<le> 2 ^ 20"
    "unat (LibMB_Free_Item m (sub_region_base m mb i)) \<le> 2 ^ 20"
    using r(3,4) unfolding unat_Valid_Item [OF r(2)] unat_Free_Item [OF r(2)]
    by (simp_all add: chan_N_def chan_items_def)
  then show "LibMB_Get_ValidItemNum m mb i = int (length (chan_items m mb i))"
    "LibMB_Get_FreeItemNum m mb i = int (chan_free m mb i)"
    using assms r(2) unfolding i32_le_20
    by (simp_all add: LibMB_Get_ValidItemNum_def LibMB_Get_FreeItemNum_def chan_ok_def Let_def
        i32_le_20 unat_Valid_Item unat_Free_Item chan_items_def chan_free_def chan_N_def)
qed

lemma LibMB_ChanReset_ok:
  assumes ok: "chan_ok m mb i"
  obtains m' where "LibMB_ChanReset m mb i = (0, m')" "chan_items m' mb i = []" "chan_ok m' mb i"
    "chan_N m' mb i = chan_N m mb i" "chan_sz m' mb i = chan_sz m mb i"
    "\<And>a k. disjoint (sub_region_base m mb i + 48) 8 a k \<Longrightarrow> same_on a k m m'"
proof -
  let ?b = "sub_region_base m mb i"
  let ?m' = "set_reg (set_reg m (?b + mbsub_rgn_desc_t Item_in_index) 0)
      (?b + mbsub_rgn_desc_t Item_out_index) 0"
  note r = chan_ok_ring [OF ok]
  have b: "?b \<noteq> 0" and hdr: "mb + mb_header_bytes m mb \<le> ?b"
    using r(2) ok by (auto simp: sanity_iff chan_ok_def)
  have fr: "same_on a k m ?m'" if "disjoint (?b + 48) 8 a k" for a k
    unfolding set_reg_def layout
    by (rule same_on_trans [OF store32_same_on store32_same_on])
      (use that in \<open>auto simp: disjoint_def\<close>)
  have idx: "ring_w ?m' ?b = 0" "ring_r ?m' ?b = 0"
    by (simp_all add: ring_w_def ring_r_def)
  have "0 < ring_N m ?b"
    using r(2) by (auto simp: sanity_iff)
  then have ring: "ring_ok ?m' ?b" "ring_N ?m' ?b = ring_N m ?b" "ring_sz ?m' ?b = ring_sz m ?b"
    using ring_ok_setI [OF r(1), of ?m'] idx by simp_all
  have h: "same_on mb (mb_header_bytes m mb) m ?m'"
    by (rule fr) (use hdr in \<open>simp add: disjoint_def\<close>)
  note hc = chan_header_cong [OF ok h]
  have "ring_items ?m' ?b = []"
    by (simp add: ring_items_def ring_cnt_def idx)
  moreover have "LibMB_ChanReset m mb i = (0, ?m')"
    using ok b r(2) by (simp add: LibMB_ChanReset_def chan_ok_def Let_def)
  ultimately show ?thesis
    using chan_ok_cong [OF ok h ring(1)] ring fr
    by (intro that [of ?m']) (simp_all add: chan_items_def chan_N_def chan_sz_def hc)
qed

end
