(* ===== verification/Fifo_Channel.thy ===== *)
theory Fifo_Channel
  imports Safe_MB
begin

text \<open>
  The contract a mailbox channel gives to its two ends, as a locale: batches of items go in
  whole or not at all, items come out oldest first, and the channel never holds more than
  its capacity. The client side is a run of arbitrary put and get operations; the lemmas
  proved once inside the locale say that nothing is lost, duplicated or reordered over a
  whole run. The interpretation discharges the contract for \<open>LibMB_Write\<close> and
  \<open>LibMB_Read\<close> on the shared memory.
\<close>

section \<open>The contract\<close>

datatype 'i chan_op = Put "'i list" | Get u32

text \<open>A run of operations over a put and a get: the items accepted, the items delivered and
  the final state.\<close>

fun chan_run :: "('i list \<Rightarrow> 's \<Rightarrow> bool \<times> 's) \<Rightarrow> (u32 \<Rightarrow> 's \<Rightarrow> 'i list \<times> 's) \<Rightarrow>
    'i chan_op list \<Rightarrow> 's \<Rightarrow> 'i list \<times> 'i list \<times> 's" where
  "chan_run put get [] s = ([], [], s)"
| "chan_run put get (Put xs # ops) s =
     (case put xs s of (b, s1) \<Rightarrow>
      case chan_run put get ops s1 of (acc, out, s2) \<Rightarrow> ((if b then xs @ acc else acc), out, s2))"
| "chan_run put get (Get n # ops) s =
     (case get n s of (ys, s1) \<Rightarrow>
      case chan_run put get ops s1 of (acc, out, s2) \<Rightarrow> (acc, ys @ out, s2))"

definition ops_ok :: "('i list \<Rightarrow> bool) \<Rightarrow> 'i chan_op list \<Rightarrow> bool" where
  "ops_ok batch_ok ops \<longleftrightarrow> (\<forall>xs. Put xs \<in> set ops \<longrightarrow> batch_ok xs)"

locale fifo_channel =
  fixes chan_inv :: "'s \<Rightarrow> bool"
    and items :: "'s \<Rightarrow> 'i list"
    and capacity :: nat
    and batch_ok :: "'i list \<Rightarrow> bool"
    and put :: "'i list \<Rightarrow> 's \<Rightarrow> bool \<times> 's"
    and get :: "u32 \<Rightarrow> 's \<Rightarrow> 'i list \<times> 's"
  assumes put_fits: "chan_inv s \<Longrightarrow> batch_ok xs \<Longrightarrow> length (items s) + length xs \<le> capacity \<Longrightarrow>
      put xs s = (b, s') \<Longrightarrow> b \<and> items s' = items s @ xs \<and> chan_inv s'"
    and put_full: "chan_inv s \<Longrightarrow> batch_ok xs \<Longrightarrow> capacity < length (items s) + length xs \<Longrightarrow>
      put xs s = (b, s') \<Longrightarrow> \<not> b \<and> items s' = items s \<and> chan_inv s'"
    and get_front: "chan_inv s \<Longrightarrow> get n s = (ys, s') \<Longrightarrow>
      ys = take (unat n) (items s) \<and> items s' = drop (unat n) (items s) \<and> chan_inv s'"
    and bounded: "chan_inv s \<Longrightarrow> length (items s) \<le> capacity"
begin

lemma put_cases:
  assumes "chan_inv s" "batch_ok xs" "put xs s = (b, s')"
  shows "chan_inv s'" "items s' = (if b then items s @ xs else items s)"
    "b \<longleftrightarrow> length (items s) + length xs \<le> capacity"
  using put_fits [OF assms(1,2) _ assms(3)] put_full [OF assms(1,2) _ assms(3)]
  by (cases "length (items s) + length xs \<le> capacity"; simp)+

theorem stream:
  assumes "chan_inv s" "ops_ok batch_ok ops" "chan_run put get ops s = (acc, out, s')"
  shows "items s @ acc = out @ items s' \<and> chan_inv s'"
  using assms
proof (induction ops arbitrary: s acc out s')
  case (Cons op ops)
  have ok: "ops_ok batch_ok ops"
    using Cons.prems(2) by (auto simp: ops_ok_def)
  show ?case
  proof (cases op)
    case (Put xs)
    obtain b s1 where p: "put xs s = (b, s1)" by (cases "put xs s")
    obtain acc1 out1 s2 where r: "chan_run put get ops s1 = (acc1, out1, s2)"
      by (cases "chan_run put get ops s1")
    have "batch_ok xs"
      using Cons.prems(2) Put by (auto simp: ops_ok_def)
    note c = put_cases [OF Cons.prems(1) this p]
    show ?thesis
      using Cons.IH [OF c(1) ok r] Cons.prems(3) Put p r c(2) by (cases b) auto
  next
    case (Get n)
    obtain ys s1 where g: "get n s = (ys, s1)" by (cases "get n s")
    obtain acc1 out1 s2 where r: "chan_run put get ops s1 = (acc1, out1, s2)"
      by (cases "chan_run put get ops s1")
    note f = get_front [OF Cons.prems(1) g]
    then have "items s1 @ acc1 = out1 @ items s2 \<and> chan_inv s2"
      using Cons.IH [OF _ ok r] by simp
    then show ?thesis
      using Cons.prems(3) Get g r f by auto (metis append_assoc append_take_drop_id)
  qed
qed simp

corollary stream_bounds:
  assumes "chan_inv s" "ops_ok batch_ok ops" "chan_run put get ops s = (acc, out, s')"
  shows "length (items s) + length acc \<le> length out + capacity"
  using stream [OF assms] bounded [of s'] by (metis length_append nat_add_left_cancel_le)

lemma get_all:
  assumes "chan_inv s" "get n s = (ys, s')" "length (items s) \<le> unat n"
  shows "ys = items s" "items s' = []"
  using get_front [OF assms(1,2)] assms(3) by simp_all

end

section \<open>The mailbox channel\<close>

text \<open>The two ends of a channel with item size \<open>sz\<close> and \<open>N\<close> slots: the sender stages a
  batch at \<open>src\<close> and writes it, the receiver reads up to \<open>n\<close> items into \<open>dst\<close>. Both staging
  buffers hold \<open>N\<close> items and lie outside the mailbox.\<close>

definition chan_st :: "addr \<Rightarrow> u32 \<Rightarrow> addr \<Rightarrow> addr \<Rightarrow> nat \<Rightarrow> nat \<Rightarrow> addr \<Rightarrow> mem \<Rightarrow> bool" where
  "chan_st mb i src dst N sz base m \<longleftrightarrow> chan_ok m mb i \<and> src \<noteq> 0 \<and> dst \<noteq> 0
     \<and> chan_N m mb i = N \<and> chan_sz m mb i = sz \<and> sub_region_base m mb i = base
     \<and> disjoint src (N * sz) mb (base - mb + (56 + N * sz))
     \<and> disjoint dst (N * sz) mb (base - mb + (56 + N * sz))"

definition chan_batch_ok :: "nat \<Rightarrow> nat \<Rightarrow> u8 list list \<Rightarrow> bool" where
  "chan_batch_ok N sz xs \<longleftrightarrow> length xs \<le> N \<and> (\<forall>x \<in> set xs. length x = sz) \<and> N \<le> 2 ^ 20"

definition chan_put :: "addr \<Rightarrow> u32 \<Rightarrow> addr \<Rightarrow> u8 list list \<Rightarrow> mem \<Rightarrow> bool \<times> mem" where
  "chan_put mb i src xs m =
     (case LibMB_Write (put_bytes m src (concat xs)) mb src (of_nat (length xs)) i of
        (r, m') \<Rightarrow> (0 \<le> r, m'))"

definition chan_get :: "addr \<Rightarrow> u32 \<Rightarrow> addr \<Rightarrow> nat \<Rightarrow> nat \<Rightarrow> u32 \<Rightarrow> mem \<Rightarrow> u8 list list \<times> mem" where
  "chan_get mb i dst N sz n m =
     (case LibMB_Read m mb dst (min n (of_nat N)) i of
        (r, m') \<Rightarrow> (map (\<lambda>j. bytes_at m' (dst + j * sz) sz) [0..<nat r], m'))"

lemma concat_items_nth:
  assumes "\<forall>x \<in> set xs. length x = sz" "j < length xs"
  shows "take sz (drop (j * sz) (concat xs)) = xs ! j"
  using assms
proof (induction xs arbitrary: j)
  case (Cons x xs)
  then show ?case by (cases j) (auto simp: add.commute)
qed simp

lemma length_concat_const: "\<forall>x \<in> set xs. length x = sz \<Longrightarrow> length (concat xs) = length xs * sz"
  by (induction xs) simp_all

lemma put_bytes_items:
  assumes "\<forall>x \<in> set xs. length x = sz"
  shows "map (\<lambda>j. bytes_at (put_bytes m a (concat xs)) (a + j * sz) sz) [0..<length xs] = xs"
proof (rule nth_equalityI, simp)
  fix j assume "j < length (map (\<lambda>j. bytes_at (put_bytes m a (concat xs)) (a + j * sz) sz) [0..<length xs])"
  then have j: "j < length xs" by simp
  have "bytes_at (put_bytes m a (concat xs)) (a + j * sz) sz =
      take sz (drop (j * sz) (bytes_at (put_bytes m a (concat xs)) a (length xs * sz)))"
    using mult_block_le [OF j, of sz] by (simp add: take_drop_bytes_at)
  also have "\<dots> = xs ! j"
    using concat_items_nth [OF assms j] length_concat_const [OF assms]
    by (simp add: bytes_at_put_same)
  finally show "map (\<lambda>j. bytes_at (put_bytes m a (concat xs)) (a + j * sz) sz) [0..<length xs] ! j = xs ! j"
    using j by simp
qed

text \<open>Staging a batch leaves the channel as it is.\<close>

lemma chan_outside:
  assumes "chan_ok m mb i" "same_on mb (chan_extent m mb i) m m'"
  shows "chan_ok m' mb i" "chan_items m' mb i = chan_items m mb i" "chan_N m' mb i = chan_N m mb i"
    "chan_sz m' mb i = chan_sz m mb i" "sub_region_base m' mb i = sub_region_base m mb i"
proof -
  let ?b = "sub_region_base m mb i"
  have hdr: "mb + mb_header_bytes m mb \<le> ?b" "0 < ring_N m ?b"
    using assms(1) chan_ok_ring(2) [OF assms(1)] by (auto simp: chan_ok_def sanity_iff)
  have h: "same_on mb (mb_header_bytes m mb) m m'" and rb: "same_on ?b (ring_size m ?b) m m'"
    by (rule same_on_sub [OF assms(2)]; use hdr in \<open>simp add: chan_extent_def\<close>)+
  note hc = chan_header_cong [OF assms(1) h] and rc = ring_items_cong [OF rb hdr(2)]
  have reg: "sub_reg m' ?b f = sub_reg m ?b f" for f
    by (rule sub_reg_cong, rule same_on_sub [OF rb]) (simp_all add: ring_size_def)
  show "chan_ok m' mb i"
    using assms(1) by (intro chan_ok_cong [OF assms(1) h]) (simp add: rc chan_ok_def)
  show "chan_items m' mb i = chan_items m mb i" "chan_N m' mb i = chan_N m mb i"
    "chan_sz m' mb i = chan_sz m mb i" "sub_region_base m' mb i = ?b"
    by (simp_all add: chan_items_def chan_N_def chan_sz_def hc rc ring_geometry_cong [OF reg])
qed

lemma chan_st_stage:
  assumes "chan_st mb i src dst N sz base m" "chan_batch_ok N sz xs"
  defines "m1 \<equiv> put_bytes m src (concat xs)"
  shows "chan_st mb i src dst N sz base m1" "chan_items m1 mb i = chan_items m mb i"
proof -
  have ok: "chan_ok m mb i" and b: "sub_region_base m mb i = base"
    and g: "chan_N m mb i = N" "chan_sz m mb i = sz"
    and dj: "disjoint src (N * sz) mb (base - mb + (56 + N * sz))"
    using assms(1) by (simp_all add: chan_st_def)
  have "length (concat xs) \<le> N * sz"
    using assms(2) length_concat_const [of xs sz] by (simp add: chan_batch_ok_def)
  then have "same_on mb (chan_extent m mb i) m m1"
    unfolding m1_def
    by (intro put_bytes_same_on)
      (use dj g b in \<open>auto simp: disjoint_def chan_extent_def ring_size_def chan_N_def chan_sz_def\<close>)
  note o = chan_outside [OF ok this]
  show "chan_st mb i src dst N sz base m1" "chan_items m1 mb i = chan_items m mb i"
    using assms(1) by (simp_all add: chan_st_def o)
qed

lemma chan_put_spec:
  assumes st: "chan_st mb i src dst N sz base m" and xs: "chan_batch_ok N sz xs"
    and put: "chan_put mb i src xs m = (b, m')"
  shows "length (chan_items m mb i) + length xs \<le> N - 1 \<Longrightarrow>
      b \<and> chan_items m' mb i = chan_items m mb i @ xs \<and> chan_st mb i src dst N sz base m'"
    and "N - 1 < length (chan_items m mb i) + length xs \<Longrightarrow>
      \<not> b \<and> chan_items m' mb i = chan_items m mb i \<and> chan_st mb i src dst N sz base m'"
proof -
  define m1 where "m1 = put_bytes m src (concat xs)"
  note s1 = chan_st_stage [OF st xs, folded m1_def]
  have ok: "chan_ok m1 mb i" and src: "src \<noteq> 0" and g: "chan_N m1 mb i = N" "chan_sz m1 mb i = sz"
    and base: "sub_region_base m1 mb i = base"
    and dj: "disjoint src (N * sz) mb (base - mb + (56 + N * sz))"
    using s1(1) by (simp_all add: chan_st_def)
  have len: "length xs \<le> N" "\<forall>x \<in> set xs. length x = sz" and N: "N \<le> 2 ^ 20"
    using xs by (simp_all add: chan_batch_ok_def)
  then have n: "unat (of_nat (length xs) :: u32) = length xs"
    by (intro unat_of_nat_small) simp
  have Npos: "0 < N"
    using chan_ok_ring(3) [OF ok] g by simp
  have put': "chan_put mb i src xs m =
      (case LibMB_Write m1 mb src (of_nat (length xs)) i of (r, m') \<Rightarrow> (0 \<le> r, m'))"
    by (simp add: chan_put_def m1_def)
  have ext: "chan_extent m1 mb i = base - mb + (56 + N * sz)"
    using g base by (simp add: chan_extent_def ring_size_def chan_N_def chan_sz_def)
  show "b \<and> chan_items m' mb i = chan_items m mb i @ xs \<and> chan_st mb i src dst N sz base m'"
    if fit: "length (chan_items m mb i) + length xs \<le> N - 1"
  proof -
    have "unat (of_nat (length xs) :: u32) + length (chan_items m1 mb i) < chan_N m1 mb i"
      using fit Npos by (simp add: n g s1(2))
    moreover have "disjoint src (unat (of_nat (length xs) :: u32) * chan_sz m1 mb i) mb (chan_extent m1 mb i)"
      using dj mult_le_mono1 [OF len(1), of sz] unfolding n g ext disjoint_def by linarith
    ultimately obtain m2 where
      "LibMB_Write m1 mb src (of_nat (length xs)) i = (int (length xs), m2)"
      "chan_items m2 mb i = chan_items m1 mb i @ map (\<lambda>j. bytes_at m1 (src + j * sz) sz) [0..<length xs]"
      "chan_ok m2 mb i" "chan_N m2 mb i = N" "chan_sz m2 mb i = sz" "sub_region_base m2 mb i = base"
      using LibMB_Write_ok [OF ok src, of "of_nat (length xs)"] unfolding n g base by metis
    then show ?thesis
      using st put put_bytes_items [OF len(2), of m src, folded m1_def] s1(2)
      unfolding put' chan_st_def by auto
  qed
  show "\<not> b \<and> chan_items m' mb i = chan_items m mb i \<and> chan_st mb i src dst N sz base m'"
    if full: "N - 1 < length (chan_items m mb i) + length xs"
  proof -
    have "LibMB_Write m1 mb src (of_nat (length xs)) i = (MB_E_NO_ENOUGH_BUF, m1)"
      by (rule LibMB_Write_full [OF ok src]) (use full in \<open>simp add: n g s1(2)\<close>)
    then show ?thesis
      using put s1 by (simp add: put' errno_defs)
  qed
qed

lemma chan_get_spec:
  assumes st: "chan_st mb i src dst N sz base m" and get: "chan_get mb i dst N sz n m = (ys, m')"
  shows "ys = take (unat n) (chan_items m mb i) \<and> chan_items m' mb i = drop (unat n) (chan_items m mb i)
    \<and> chan_st mb i src dst N sz base m'"
proof -
  have ok: "chan_ok m mb i" and dst: "dst \<noteq> 0" and g: "chan_N m mb i = N" "chan_sz m mb i = sz"
    and base: "sub_region_base m mb i = base"
    and dj: "disjoint dst (N * sz) mb (base - mb + (56 + N * sz))"
    using st by (simp_all add: chan_st_def)
  note r = chan_ok_ring [OF ok]
  let ?n = "min n (of_nat N)"
  have "unat (of_nat N :: u32) = N"
    using r(4) g by (intro unat_of_nat_small) simp
  then have n: "unat ?n = min (unat n) N"
    by (auto simp: min_def word_le_nat_alt)
  define k where "k = min (unat n) (length (chan_items m mb i))"
  have k: "min (unat ?n) (length (chan_items m mb i)) = k"
    using r(3) unfolding n k_def g by linarith
  have ext: "chan_extent m mb i = base - mb + (56 + N * sz)"
    using g base by (simp add: chan_extent_def ring_size_def chan_N_def chan_sz_def)
  have "disjoint dst (unat ?n * sz) mb (chan_extent m mb i)"
    using dj mult_le_mono1 [of "unat ?n" N sz] unfolding n ext disjoint_def by linarith
  then obtain m2 where w: "LibMB_Read m mb dst ?n i = (int k, m2)"
    and it: "chan_items m2 mb i = drop k (chan_items m mb i)"
    and byt: "bytes_at m2 dst (k * sz) = concat (take k (chan_items m mb i))"
    and c2: "chan_ok m2 mb i" "chan_N m2 mb i = N" "chan_sz m2 mb i = sz" "sub_region_base m2 mb i = base"
    using LibMB_Read_ok [OF ok dst, of ?n] unfolding k g base by metis
  have "map (\<lambda>j. bytes_at m2 (dst + j * sz) sz) [0..<k] = take k (chan_items m mb i)"
  proof (rule nth_equalityI)
    show "length (map (\<lambda>j. bytes_at m2 (dst + j * sz) sz) [0..<k]) = length (take k (chan_items m mb i))"
      by (simp add: k_def)
    fix j assume "j < length (map (\<lambda>j. bytes_at m2 (dst + j * sz) sz) [0..<k])"
    then have j: "j < k" by simp
    have "\<forall>x \<in> set (take k (chan_items m mb i)). length x = sz"
      using ring_items_size in_set_takeD g by (fastforce simp: chan_items_def chan_sz_def)
    then have "take sz (drop (j * sz) (bytes_at m2 dst (k * sz))) = take k (chan_items m mb i) ! j"
      unfolding byt by (rule concat_items_nth) (use j in \<open>simp add: k_def\<close>)
    then show "map (\<lambda>j. bytes_at m2 (dst + j * sz) sz) [0..<k] ! j = take k (chan_items m mb i) ! j"
      using j mult_block_le [OF j, of sz] by (simp add: take_drop_bytes_at)
  qed
  moreover have "take k (chan_items m mb i) = take (unat n) (chan_items m mb i)"
    "drop k (chan_items m mb i) = drop (unat n) (chan_items m mb i)"
    by (simp_all add: k_def min_def)
  ultimately show ?thesis
    using get st w it c2 by (simp add: chan_get_def chan_st_def)
qed

interpretation mbx: fifo_channel "chan_st mb i src dst N sz base" "\<lambda>m. chan_items m mb i"
  "N - 1" "chan_batch_ok N sz" "chan_put mb i src" "chan_get mb i dst N sz"
  for mb i src dst N sz base
proof unfold_locales
  show "length (chan_items s mb i) \<le> N - 1" if "chan_st mb i src dst N sz base s" for s
    using that chan_ok_ring(3) [of s mb i] by (auto simp: chan_st_def)
qed (rule chan_put_spec chan_get_spec; assumption)+

end
