(* ===== verification/OS_World.thy ===== *)
theory OS_World
  imports Safe_MB "HOL-Library.Multiset"
begin

text \<open>
  The operating system as the programs see it. The kernel driver, its user-space API header
  and the C library are not part of the repository: they are the parameter \<open>platform\<close>,
  whose \<open>answer k\<close> is what the \<open>k\<close>-th system call of a run returns (result, \<open>errno\<close>, output
  values), and what the other processor did to the shared memory meanwhile. The state of a
  run is the memory, the number of calls made and the trace of calls with their results.
  Errno values are those of Linux.
\<close>

section \<open>Calls and answers\<close>

datatype ioctl_req = RTSS_MB_GET_MB_REGION | RTSS_MB_SET_EVENT_FD | RTSS_MB_SEND_INTERRUPT
  | RTSS_MB_DIS_INTERRUPT | RTSS_MB_GET_OTA_REGION

text \<open>The event description \<open>evfdinfo\<close> passed to the driver.\<close>

record evfdinfo =
  ev_signal_num :: u32
  ev_client_id :: u32
  ev_sender :: u32
  ev_prot :: u32
  ev_mode :: u32
  ev_event_fd :: int

datatype syscall =
    Sys_calloc
  | Sys_free
  | Sys_open
  | Sys_close int
  | Sys_ioctl int ioctl_req "evfdinfo option"
  | Sys_mmap nat int
  | Sys_munmap addr nat
  | Sys_eventfd
  | Sys_poll int int
  | Sys_eventfd_read int
  | Sys_stat "u8 list"
  | Sys_file_open "u8 list"
  | Sys_pread int nat
  | Sys_access "u8 list"
  | Sys_fopen "u8 list"
  | Sys_ftell
  | Sys_fread nat
  | Sys_fclose
  | Sys_system "u8 list"
  | Sys_malloc nat
  | Sys_write int "u8 list"
  | Sys_fwrite "u8 list"
  | Sys_fprintf
  | Sys_fflush
  | Sys_usleep nat
  | Sys_clock
  | Sys_clock_gettime

text \<open>The answer to a call: its result, \<open>errno\<close>, the size and the address of the memory
  region (for the two region requests) or the size of the file, the returned events (for poll),
  the mode of the file, the bytes delivered and the change the peer made to memory. For
  \<open>fopen\<close> the bytes are those of the file, which the program then reads from the start; for
  \<open>clock_gettime\<close> the address stands for the seconds and the size for the nanoseconds.\<close>

record sysans =
  a_ret :: int
  a_err :: int
  a_size :: nat
  a_addr :: u64
  a_revents :: u16
  a_mode :: u32
  a_data :: "u8 list"
  a_peer :: "mem \<Rightarrow> mem"

record platform =
  answer :: "nat \<Rightarrow> sysans"
  RTSS_MB_MODE_RX :: u32
  RTSS_MB_MODE_TX :: u32

text \<open>The values documented at the handle's \<open>mode\<close> member in
  \<^verbatim>\<open>include/rtss_mailbox_priv.h\<close>: 0 is RX and 1 is TX.\<close>

definition modes_documented :: "platform \<Rightarrow> bool" where
  "modes_documented p \<longleftrightarrow> RTSS_MB_MODE_RX p = 0 \<and> RTSS_MB_MODE_TX p = 1"

record world =
  w_mem :: mem
  w_now :: nat
  w_trace :: "(syscall \<times> int) list"

definition sys :: "platform \<Rightarrow> syscall \<Rightarrow> world \<Rightarrow> sysans \<times> world" where
  "sys p c w =
     (let a = answer p (w_now w)
      in (a, w\<lparr>w_mem := a_peer a (w_mem w), w_now := Suc (w_now w),
               w_trace := w_trace w @ [(c, a_ret a)]\<rparr>))"

section \<open>Errno\<close>

definition EPERM :: int where [errno_defs]: "EPERM = 1"
definition ENOENT :: int where [errno_defs]: "ENOENT = 2"
definition EINTR :: int where [errno_defs]: "EINTR = 4"
definition EIO :: int where [errno_defs]: "EIO = 5"
definition EBADF :: int where [errno_defs]: "EBADF = 9"
definition EAGAIN :: int where [errno_defs]: "EAGAIN = 11"
definition ENOMEM :: int where [errno_defs]: "ENOMEM = 12"
definition EINVAL :: int where [errno_defs]: "EINVAL = 22"
definition ENAMETOOLONG :: int where [errno_defs]: "ENAMETOOLONG = 36"
definition EMSGSIZE :: int where [errno_defs]: "EMSGSIZE = 90"
definition ECONNRESET :: int where [errno_defs]: "ECONNRESET = 104"
definition ENOBUFS :: int where [errno_defs]: "ENOBUFS = 105"
definition ETIMEDOUT :: int where [errno_defs]: "ETIMEDOUT = 110"

definition POLLIN :: u16 where "POLLIN = 0x001"
definition POLLERR :: u16 where "POLLERR = 0x008"
definition POLLHUP :: u16 where "POLLHUP = 0x010"
definition POLLNVAL :: u16 where "POLLNVAL = 0x020"

section \<open>Resources held\<close>

text \<open>What a trace of calls has acquired and not given back: heap blocks, file descriptors
  and mappings. A failed call acquires nothing.\<close>

datatype resource = Heap | Fd int | Mapping addr nat | Stream

fun acquire :: "syscall \<times> int \<Rightarrow> resource multiset" where
  "acquire (Sys_calloc, r) = (if r \<noteq> 0 then {#Heap#} else {#})"
| "acquire (Sys_open, r) = (if r \<noteq> -1 then {#Fd r#} else {#})"
| "acquire (Sys_eventfd, r) = (if r \<noteq> -1 then {#Fd r#} else {#})"
| "acquire (Sys_mmap n fd, r) = (if r \<noteq> -1 \<and> r \<noteq> 0 then {#Mapping (nat r) n#} else {#})"
| "acquire (Sys_file_open s, r) = (if r \<noteq> -1 then {#Fd r#} else {#})"
| "acquire (Sys_fopen s, r) = (if r \<noteq> 0 then {#Stream#} else {#})"
| "acquire (Sys_malloc n, r) = (if r \<noteq> 0 then {#Heap#} else {#})"
| "acquire _ = {#}"

fun release :: "syscall \<times> int \<Rightarrow> resource multiset" where
  "release (Sys_free, r) = {#Heap#}"
| "release (Sys_close fd, r) = {#Fd fd#}"
| "release (Sys_munmap a n, r) = {#Mapping a n#}"
| "release (Sys_fclose, r) = {#Stream#}"
| "release _ = {#}"

fun held :: "(syscall \<times> int) list \<Rightarrow> resource multiset \<Rightarrow> resource multiset" where
  "held [] R = R"
| "held (e # es) R = held es (R - release e + acquire e)"

lemma held_append [simp]: "held (xs @ ys) R = held ys (held xs R)"
  by (induction xs arbitrary: R) simp_all

section \<open>Outcomes\<close>

text \<open>A function may return, wait for ever, or access memory outside an array of the program.\<close>

datatype 'a run = Returns 'a | Blocks | Faults

section \<open>C strings\<close>

text \<open>A string is the list of its bytes; what follows the list is the terminating zero.\<close>

definition ascii :: "string \<Rightarrow> u8 list" where
  "ascii s = map of_char s"

definition first_char :: "u8 list \<Rightarrow> u8" where
  "first_char s = (case s of [] \<Rightarrow> 0 | c # _ \<Rightarrow> c)"

text \<open>\<open>strncmp s t n == 0\<close>\<close>

fun strncmp_eq :: "nat \<Rightarrow> u8 list \<Rightarrow> u8 list \<Rightarrow> bool" where
  "strncmp_eq 0 s t = True"
| "strncmp_eq (Suc n) s t =
     (if first_char s \<noteq> first_char t then False
      else if first_char s = 0 then True
      else strncmp_eq n (tl s) (tl t))"

text \<open>The string held in a buffer: its bytes up to the first zero.\<close>

definition cstr :: "u8 list \<Rightarrow> u8 list" where
  "cstr s = takeWhile (\<lambda>c. c \<noteq> 0) s"

text \<open>\<open>strlcpy\<close>: what the destination holds as a string, and the length of the source.\<close>

definition strlcpy :: "u8 list \<Rightarrow> nat \<Rightarrow> u8 list \<times> nat" where
  "strlcpy src dsize = (take (dsize - 1) (cstr src), length (cstr src))"

lemma cstr_Nil [simp]: "cstr [] = []"
  by (simp add: cstr_def)

lemma cstr_Cons [simp]: "cstr (c # s) = (if c = 0 then [] else c # cstr s)"
  by (simp add: cstr_def)

lemma strncmp_eq_iff: "strncmp_eq n s t \<longleftrightarrow> take n (cstr s) = take n (cstr t)"
  by (induction n s t rule: strncmp_eq.induct)
    (auto simp: first_char_def split: list.splits)

end
