(* ===== verification/Mailbox_Setup.thy ===== *)
theory Mailbox_Setup
  imports Safe_MB
begin

text \<open>
  Correctness of setting a mailbox up: what the boundary check of a configuration
  guarantees, that the channel map initialisation produces configurations which pass it,
  and that a created mailbox is valid, with every channel usable and empty. The definitions
  are those of the theory \<open>Safe_MB\<close>; the abstract layout below is their specification.
\<close>

section \<open>The layout a configuration should have\<close>

definition cfg_start :: "sub_cfgs \<Rightarrow> nat \<Rightarrow> nat" where
  "cfg_start sc i = unat (sc_start_addr_offset (sc i))"

definition cfg_end :: "sub_cfgs \<Rightarrow> nat \<Rightarrow> nat" where
  "cfg_end sc i = unat (sc_end_addr_offset (sc i))"

definition cfg_bytes :: "sub_cfgs \<Rightarrow> nat \<Rightarrow> nat" where
  "cfg_bytes sc i = unat (sc_item_max_num (sc i)) * unat (sc_item_max_size (sc i))"

definition cfg_n :: "mbconfig_t \<Rightarrow> nat" where
  "cfg_n mc = unat (mbc_num_sub_regions mc)"

text \<open>Regions follow the header and each other without overlap, each holds its header and
  all of its items (its end offset is inclusive), and all lie inside the mailbox.\<close>

definition layout_ok :: "mbconfig_t \<Rightarrow> sub_cfgs \<Rightarrow> bool" where
  "layout_ok mc sc \<longleftrightarrow> 0 < cfg_n mc \<and> cfg_n mc \<le> 253
     \<and> 32 + 8 * cfg_n mc < cfg_start sc 0
     \<and> (\<forall>i < cfg_n mc. cfg_start sc i + 55 + cfg_bytes sc i \<le> cfg_end sc i)
     \<and> (\<forall>i < cfg_n mc. unat (sc_item_max_num (sc i)) \<le> 2 ^ 20)
     \<and> (\<forall>i < cfg_n mc - 1. cfg_end sc i < cfg_start sc (Suc i))
     \<and> (\<forall>i < cfg_n mc. cfg_end sc i < unat (mbc_mb_size mc))"

section \<open>Boundary check\<close>

lemma align4_unat: "unat (x AND NOT 3) = 4 * (unat x div 4)" for x :: u32
proof -
  have m: "(3 :: u32) = mask 2"
    by (simp add: mask_eq_exp_minus_1)
  have "x AND NOT 3 = push_bit 2 (drop_bit 2 x)"
    unfolding m by (intro bit_word_eqI) (auto simp: bit_simps not_less dest!: le_Suc_ex)
  then show ?thesis
    using unat_lt [of x] by (simp add: push_bit_eq_mult unat_word_ariths unat_drop_bit_eq drop_bit_eq_div)
qed

lemma mb_header_size_unat:
  assumes "0 < n" "n \<le> MB_MAX_SUB_REGION_NUM"
  shows "unat (mb_header_size n) = 32 + 8 * unat n"
proof -
  have n: "0 < unat n" "unat n \<le> 253"
    using assms by (simp_all add: word_less_nat_alt word_le_nat_alt MB_MAX_SUB_REGION_NUM_def)
  have "unat (n - 1) = unat n - 1"
    using assms(1) by (rule unat_pred)
  then have "unat (8 * (n - 1)) = 8 * (unat n - 1)"
    using n by (subst unat_mult_small) simp_all
  then have "unat (40 + 8 * (n - 1)) = 40 + 8 * (unat n - 1)"
    using n by (subst unat_add_small) simp_all
  then have "unat (40 + 8 * (n - 1) + 3) = 8 * unat n + 35"
    using n by (subst unat_add_small) simp_all
  then have "unat (mb_header_size n) = 4 * ((8 * unat n + 35) div 4)"
    unfolding mb_header_size_def align4_unat by (simp only:)
  then show ?thesis by presburger
qed

text \<open>The division test of the code detects every overflow of the product.\<close>

lemma div_test_no_overflow:
  fixes n s :: u32
  assumes "n = 0 \<or> (n * s) div n = s"
  shows "unat (n * s) = unat n * unat s"
proof (cases "n = 0")
  case False
  then have "unat (n * s) div unat n = unat s"
    using assms by (metis unat_div)
  then have "unat n * unat s \<le> unat (n * s)"
    by (metis mult.commute div_times_less_eq_dividend)
  then have "unat n * unat s < 2 ^ LENGTH(32)"
    using unat_lt [of "n * s"] by linarith
  then show ?thesis by (rule unat_mult_small)
qed simp

lemma sub_region_fits_sound:
  assumes fit: "sub_region_fits (sc i)" and small: "cfg_bytes sc i + 55 < 2 ^ 32"
  shows "cfg_start sc i + 55 + cfg_bytes sc i \<le> cfg_end sc i"
    "unat (sc_item_max_num (sc i)) \<le> 2 ^ 20"
proof -
  let ?c = "sc i" and ?s = "sc_start_addr_offset (sc i)"
  let ?v = "sc_item_max_num ?c * sc_item_max_size ?c"
  have v: "unat ?v = cfg_bytes sc i"
    unfolding cfg_bytes_def
    by (rule div_test_no_overflow) (use fit in \<open>auto simp: sub_region_fits_def Let_def\<close>)
  have hv: "unat (55 + ?v) = 55 + cfg_bytes sc i"
    using small v by (subst unat_add_small) simp_all
  have gt: "?s < ?s + (55 + ?v)" and le: "?s + (55 + ?v) \<le> sc_end_addr_offset ?c"
    using fit by (auto simp: sub_region_fits_def Let_def MB_SUB_REGION_HEADER_SZ_def add.assoc)
  have "unat (?s + (55 + ?v)) = unat ?s + (55 + cfg_bytes sc i)"
    using unat_add_no_wrap [OF gt] hv by simp
  then show "cfg_start sc i + 55 + cfg_bytes sc i \<le> cfg_end sc i"
    using le by (simp add: word_le_nat_alt cfg_start_def cfg_end_def)
  show "unat (sc_item_max_num (sc i)) \<le> 2 ^ 20"
    using fit by (simp add: sub_region_fits_def Let_def MB_MAX_ITEM_NUM_def word_less_nat_alt)
qed

lemma Boundary_Check_layout:
  assumes ck: "LibMB_Boundary_Check mc sc" and small: "\<forall>i < cfg_n mc. cfg_bytes sc i + 55 < 2 ^ 32"
  shows "layout_ok mc sc"
proof -
  let ?n = "cfg_n mc"
  have n: "0 < mbc_num_sub_regions mc" "mbc_num_sub_regions mc \<le> MB_MAX_SUB_REGION_NUM"
    and fits: "\<And>i. i < ?n \<Longrightarrow> sub_region_fits (sc i)"
    and gaps: "\<And>i. i \<le> ?n \<Longrightarrow> region_gap_ok mc sc i"
    using ck by (auto simp: LibMB_Boundary_Check_def Let_def list_all_iff cfg_n_def le_less split: if_splits)
  have n': "0 < ?n" "?n \<le> 253"
    using n by (simp_all add: cfg_n_def word_less_nat_alt word_le_nat_alt MB_MAX_SUB_REGION_NUM_def)
  have first: "32 + 8 * ?n < cfg_start sc 0"
    using gaps [of 0] mb_header_size_unat [OF n] n'
    by (simp add: region_gap_ok_def Let_def word_le_nat_alt cfg_start_def cfg_n_def)
  have nxt: "cfg_end sc i < cfg_start sc (Suc i)" "cfg_start sc (Suc i) \<le> unat (mbc_mb_size mc)"
    if "Suc i < ?n" for i
    using gaps [of "Suc i"] that
    by (simp_all add: region_gap_ok_def Let_def word_le_nat_alt word_less_nat_alt cfg_start_def cfg_end_def cfg_n_def)
  have last: "cfg_end sc (?n - 1) < unat (mbc_mb_size mc)"
    using gaps [of ?n] n' by (simp add: region_gap_ok_def Let_def word_le_nat_alt cfg_end_def cfg_n_def)
  have "cfg_end sc i < unat (mbc_mb_size mc)" if "i < ?n" for i
  proof (cases "Suc i < ?n")
    case False
    then have "i = ?n - 1" using that by simp
    then show ?thesis using last by simp
  qed (use nxt [of i] in simp)
  then show ?thesis
    using n' first nxt sub_region_fits_sound fits small by (auto simp: layout_ok_def)
qed

section \<open>The channel map\<close>

text \<open>Where the channel map places the regions, as plain sums.\<close>

fun plan_start :: "nat \<Rightarrow> sub_cfgs \<Rightarrow> nat \<Rightarrow> nat" where
  "plan_start n sc 0 = 36 + 8 * n"
| "plan_start n sc (Suc i) = plan_start n sc i + 56 + cfg_bytes sc i"

definition same_items :: "mbsub_rgn_config_t \<Rightarrow> mbsub_rgn_config_t \<Rightarrow> bool" where
  "same_items c d \<longleftrightarrow> sc_name c = sc_name d \<and> sc_sender c = sc_sender d
     \<and> sc_receiver c = sc_receiver d \<and> sc_prot c = sc_prot d \<and> sc_sig c = sc_sig d
     \<and> sc_mode c = sc_mode d \<and> sc_prio c = sc_prio d \<and> sc_item_max_num c = sc_item_max_num d
     \<and> sc_item_max_size c = sc_item_max_size d"

lemma plan_start_mono: "i \<le> j \<Longrightarrow> plan_start n sc i \<le> plan_start n sc j"
  by (rule lift_Suc_mono_le [of "plan_start n sc"]) simp_all

lemma chan_map_fold:
  assumes n: "0 < n" "n \<le> MB_MAX_SUB_REGION_NUM"
    and tot: "plan_start (unat n) sc (unat n) < 2 ^ 32"
  shows "k \<le> unat n \<Longrightarrow> \<exists>hsz pc. fold chan_map_step [0..<k] (mb_header_size n, sc) = (hsz, pc)
    \<and> hsz = (if k = 0 then mb_header_size n else 55)
    \<and> (\<forall>i. same_items (pc i) (sc i))
    \<and> (\<forall>i < k. cfg_start pc i = plan_start (unat n) sc i
          \<and> cfg_end pc i = plan_start (unat n) sc i + 55 + cfg_bytes sc i)"
proof (induction k)
  case 0
  then show ?case by (simp add: same_items_def)
next
  case (Suc k)
  then obtain hsz pc where st: "fold chan_map_step [0..<k] (mb_header_size n, sc) = (hsz, pc)"
    and hsz: "hsz = (if k = 0 then mb_header_size n else 55)"
    and same: "\<And>i. same_items (pc i) (sc i)"
    and pc: "\<And>i. i < k \<Longrightarrow> cfg_start pc i = plan_start (unat n) sc i
      \<and> cfg_end pc i = plan_start (unat n) sc i + 55 + cfg_bytes sc i"
    by auto
  define start where "start = (if k = 0 then hsz + 4 else sc_end_addr_offset (pc (k - 1)) + 1)"
  define v where "v = sc_item_max_num (pc k) * sc_item_max_size (pc k)"
  have lim: "plan_start (unat n) sc k + 56 + cfg_bytes sc k < 2 ^ 32"
    using plan_start_mono [of "Suc k" "unat n" "unat n" sc] Suc.prems tot by simp
  have start: "unat start = plan_start (unat n) sc k"
  proof (cases k)
    case 0
    then show ?thesis
      using mb_header_size_unat [OF n] lim by (simp add: start_def hsz unat_add_small)
  next
    case (Suc j)
    then have "unat (sc_end_addr_offset (pc j)) = plan_start (unat n) sc j + 55 + cfg_bytes sc j"
      using pc [of j] by (simp add: cfg_end_def)
    then show ?thesis
      using lim Suc by (simp add: start_def unat_add_small)
  qed
  have v: "unat v = cfg_bytes sc k"
    using lim same [of k] by (simp add: v_def cfg_bytes_def same_items_def unat_mult_small)
  have e: "unat (start + 55 + v) = plan_start (unat n) sc k + 55 + cfg_bytes sc k"
    using lim start v by (simp add: unat_add_small)
  have step: "chan_map_step k (hsz, pc) = (55, pc(k := pc k\<lparr>sc_start_addr_offset := start,
      sc_end_addr_offset := start + 55 + v\<rparr>))"
    by (simp add: chan_map_step_def Let_def start_def v_def hsz MB_SUB_REGION_HEADER_SZ_def)
  show ?case
    using st step same pc start e
    by (auto simp: same_items_def cfg_start_def cfg_end_def less_Suc_eq)
qed

text \<open>The result of the channel map initialisation: the regions are packed one after the
  other, and the return code says whether the last one still fits.\<close>

lemma LibMB_ChanMapInit_spec:
  assumes n: "0 < cfg_n mc" "cfg_n mc \<le> 253"
    and tot: "plan_start (cfg_n mc) sc (cfg_n mc) < 2 ^ 32"
  obtains pc where "LibMB_ChanMapInit (Some mc) (Some sc) =
      (if unat (mbc_mb_size mc) + 1 < plan_start (cfg_n mc) sc (cfg_n mc)
       then MB_E_INVALID_CFG else MB_E_SUCCESS, Some pc)"
    and "\<And>i. same_items (pc i) (sc i)"
    and "\<And>i. i < cfg_n mc \<Longrightarrow> cfg_start pc i = plan_start (cfg_n mc) sc i
      \<and> cfg_end pc i + 1 = plan_start (cfg_n mc) sc (Suc i)"
proof -
  let ?n = "mbc_num_sub_regions mc"
  have n': "0 < ?n" "?n \<le> MB_MAX_SUB_REGION_NUM"
    using n by (simp_all add: cfg_n_def word_less_nat_alt word_le_nat_alt MB_MAX_SUB_REGION_NUM_def)
  obtain hsz pc where pc: "fold chan_map_step [0..<unat ?n] (mb_header_size ?n, sc) = (hsz, pc)"
    and same: "\<And>i. same_items (pc i) (sc i)"
    and se: "\<And>i. i < cfg_n mc \<Longrightarrow> cfg_start pc i = plan_start (cfg_n mc) sc i
      \<and> cfg_end pc i + 1 = plan_start (cfg_n mc) sc (Suc i)"
    using chan_map_fold [OF n', of sc "unat ?n"] tot unfolding cfg_n_def by auto
  have "cfg_end pc (unat (?n - 1)) + 1 = plan_start (cfg_n mc) sc (cfg_n mc)"
    using se [of "cfg_n mc - 1"] n unat_pred [OF n'(1)] by (simp add: cfg_n_def)
  then have "mbc_mb_size mc < sc_end_addr_offset (pc (unat (?n - 1)))
      \<longleftrightarrow> unat (mbc_mb_size mc) + 1 < plan_start (cfg_n mc) sc (cfg_n mc)"
    by (simp add: cfg_end_def word_less_nat_alt flip: less_diff_conv) linarith
  then show ?thesis
    using n' pc same se by (intro that) (simp_all add: LibMB_ChanMapInit_def Let_def)
qed

lemma sub_region_fitsI:
  assumes "cfg_start sc i + 55 + cfg_bytes sc i \<le> cfg_end sc i"
    "unat (sc_item_max_num (sc i)) \<le> 2 ^ 20"
  shows "sub_region_fits (sc i)"
proof -
  let ?c = "sc i"
  have lt: "cfg_start sc i + 55 + cfg_bytes sc i < 2 ^ 32"
    using assms(1) unat_lt [of "sc_end_addr_offset ?c"] by (simp add: cfg_end_def)
  then have v: "unat (sc_item_max_num ?c * sc_item_max_size ?c) = cfg_bytes sc i"
    by (simp add: cfg_bytes_def unat_mult_small)
  have sum: "unat (sc_start_addr_offset ?c + 55 + sc_item_max_num ?c * sc_item_max_size ?c) =
      cfg_start sc i + 55 + cfg_bytes sc i"
    using lt v by (simp add: unat_add_small cfg_start_def)
  have "(sc_item_max_num ?c * sc_item_max_size ?c) div sc_item_max_num ?c = sc_item_max_size ?c"
    if "sc_item_max_num ?c \<noteq> 0"
    using that v by (intro word_unat_eq_iff [THEN iffD2])
      (simp add: unat_div cfg_bytes_def unat_eq_zero)
  then show ?thesis
    using assms sum
    by (auto simp: sub_region_fits_def Let_def MB_SUB_REGION_HEADER_SZ_def MB_MAX_ITEM_NUM_def
        word_le_nat_alt word_less_nat_alt cfg_start_def cfg_end_def)
qed

lemma Boundary_Check_complete:
  assumes "layout_ok mc sc"
  shows "LibMB_Boundary_Check mc sc"
proof -
  let ?n = "cfg_n mc"
  have n: "0 < ?n" "?n \<le> 253" and l: "32 + 8 * ?n < cfg_start sc 0"
    "\<And>i. i < ?n \<Longrightarrow> cfg_start sc i + 55 + cfg_bytes sc i \<le> cfg_end sc i"
    "\<And>i. i < ?n \<Longrightarrow> unat (sc_item_max_num (sc i)) \<le> 2 ^ 20"
    "\<And>i. Suc i < ?n \<Longrightarrow> cfg_end sc i < cfg_start sc (Suc i)"
    "\<And>i. i < ?n \<Longrightarrow> cfg_end sc i < unat (mbc_mb_size mc)"
    using assms by (auto simp: layout_ok_def)
  have n': "0 < mbc_num_sub_regions mc" "mbc_num_sub_regions mc \<le> MB_MAX_SUB_REGION_NUM"
    using n by (simp_all add: cfg_n_def word_less_nat_alt word_le_nat_alt MB_MAX_SUB_REGION_NUM_def)
  have start: "cfg_start sc i < unat (mbc_mb_size mc)" if "i < ?n" for i
    using l(2,5) [OF that] by linarith
  have "region_gap_ok mc sc i" if "i \<le> ?n" for i
  proof -
    consider "i = 0" | j where "i = Suc j" "i < ?n" | j where "i = Suc j" "i = ?n"
      using \<open>i \<le> ?n\<close> by (metis le_eq_less_or_eq not0_implies_Suc)
    then show ?thesis
    proof cases
      case 1
      then show ?thesis
        using n start [of 0] l(1) mb_header_size_unat [OF n']
        by (simp add: region_gap_ok_def Let_def word_le_nat_alt word_less_nat_alt cfg_start_def cfg_n_def)
    next
      case 2
      then show ?thesis
        using start [of i] l(4) [of j]
        by (simp add: region_gap_ok_def Let_def word_le_nat_alt word_less_nat_alt cfg_start_def
            cfg_end_def cfg_n_def)
    next
      case 3
      then show ?thesis
        using l(5) [of j]
        by (simp add: region_gap_ok_def Let_def word_le_nat_alt word_less_nat_alt cfg_end_def cfg_n_def)
    qed
  qed
  then show ?thesis
    using n' l(2,3) sub_region_fitsI
    by (auto simp: LibMB_Boundary_Check_def Let_def list_all_iff cfg_n_def)
qed

section \<open>Creating\<close>

text \<open>The header fields that a created sub-region takes from its configuration.\<close>

fun cfg_field :: "mbsub_rgn_config_t \<Rightarrow> mbsub_rgn_field \<Rightarrow> u32" where
  "cfg_field c Sub_sender = sc_sender c"
| "cfg_field c Sub_receiver = sc_receiver c"
| "cfg_field c Sub_prot = sc_prot c"
| "cfg_field c Sub_sig = sc_sig c"
| "cfg_field c Sub_mode = sc_mode c"
| "cfg_field c Sub_prio = sc_prio c"
| "cfg_field c Max_item_num = sc_item_max_num c"
| "cfg_field c Max_item_size = sc_item_max_size c"
| "cfg_field c Item_in_index = 0"
| "cfg_field c Item_out_index = 0"

definition region_init :: "mem \<Rightarrow> addr \<Rightarrow> sub_cfgs \<Rightarrow> nat \<Rightarrow> bool" where
  "region_init m mb sc j \<longleftrightarrow>
     get_reg m (mb + (32 + 8 * j)) = sc_start_addr_offset (sc j)
   \<and> get_reg m (mb + (36 + 8 * j)) = sc_end_addr_offset (sc j)
   \<and> bytes_at m (mb + cfg_start sc j) 16 = sc_name (sc j)
   \<and> (\<forall>f. sub_reg m (mb + cfg_start sc j) f = cfg_field (sc j) f)"

lemma region_init_cong:
  assumes "region_init m mb sc j" "same_on (mb + (32 + 8 * j)) 8 m m'"
    "same_on (mb + cfg_start sc j) 56 m m'"
  shows "region_init m' mb sc j"
proof -
  have "get_reg m' (mb + (32 + 8 * j)) = get_reg m (mb + (32 + 8 * j))"
    "get_reg m' (mb + (36 + 8 * j)) = get_reg m (mb + (36 + 8 * j))"
    unfolding get_reg_def by (rule load32_cong, rule same_on_sub [OF assms(2)]; simp)+
  moreover have "bytes_at m' (mb + cfg_start sc j) 16 = bytes_at m (mb + cfg_start sc j) 16"
    by (rule bytes_at_cong, rule same_on_sub [OF assms(3)]) simp_all
  ultimately show ?thesis
    using assms(1) sub_reg_cong [OF assms(3)] by (simp add: region_init_def)
qed

lemma sub_set_reg [simp]:
  "sub_reg (sub_set b f v m) b g = (if f = g then v else sub_reg m b g)"
  unfolding sub_set_def by (rule sub_reg_set [unfolded set_reg_def])

lemma sub_set_same_on: "disjoint b 56 a k \<Longrightarrow> same_on a k m (sub_set b f v m)"
  unfolding sub_set_def by (rule set_reg_same_on [unfolded set_reg_def])

lemma sub_set_name [simp]: "bytes_at (sub_set b f v m) b 16 = bytes_at m b 16"
  unfolding sub_set_def by (rule bytes_at_store32_other) (cases f; simp add: disjoint_def layout)

text \<open>One round of the initialisation loop.\<close>

lemma init_sub_region_spec:
  assumes mb: "mb \<noteq> 0" and name: "length (sc_name (sc (unat i))) = 16"
    and far: "40 + 8 * unat i \<le> cfg_start sc (unat i)"
  obtains m' where "init_sub_region mb (sc (unat i)) i m = (True, m')"
    "region_init m' mb sc (unat i)"
    "\<And>a k. disjoint (mb + (32 + 8 * unat i)) 8 a k \<Longrightarrow>
      disjoint (mb + cfg_start sc (unat i)) 56 a k \<Longrightarrow> same_on a k m m'"
proof -
  let ?c = "sc (unat i)" and ?b = "mb + cfg_start sc (unat i)"
  define m1 where "m1 = store32 m (mb + sub_region_start_offset i) (sc_start_addr_offset ?c)"
  define m2 where "m2 = store32 m1 (mb + sub_region_end_offset i) (sc_end_addr_offset ?c)"
  have start: "get_reg m2 (mb + (32 + 8 * unat i)) = sc_start_addr_offset ?c"
    and "end": "get_reg m2 (mb + (36 + 8 * unat i)) = sc_end_addr_offset ?c"
    by (simp_all add: m1_def m2_def get_reg_def layout mem_simps disjoint_def)
  have base: "sub_region_base m2 mb i = ?b"
    using start by (simp add: sub_region_base_def layout cfg_start_def)
  define m3 where "m3 = copy_name m2 ?b (sc_name ?c)"
  define m' where "m' = snd (init_sub_region mb ?c i m)"
  have run: "init_sub_region mb ?c i m = (True, m')"
    using mb base by (simp add: m'_def init_sub_region_def Let_def m1_def [symmetric] m2_def [symmetric])
  have m': "m' = sub_set ?b Sub_prio (sc_prio ?c) (sub_set ?b Sub_mode (sc_mode ?c)
      (sub_set ?b Sub_sig (sc_sig ?c) (sub_set ?b Sub_prot (sc_prot ?c)
      (sub_set ?b Sub_receiver (sc_receiver ?c) (sub_set ?b Sub_sender (sc_sender ?c)
      (sub_set ?b Item_out_index 0 (sub_set ?b Item_in_index 0
      (sub_set ?b Max_item_size (sc_item_max_size ?c)
      (sub_set ?b Max_item_num (sc_item_max_num ?c) m3)))))))))"
    using mb base by (simp add: m'_def init_sub_region_def Let_def m1_def [symmetric] m2_def [symmetric] m3_def)
  have fr3: "same_on a k m3 m'" if "disjoint ?b 56 a k" for a k
    unfolding m' by (intro same_on_trans [OF _ sub_set_same_on [OF that]]) simp
  have fr2: "same_on a k m2 m3" if "disjoint ?b 56 a k" for a k
    unfolding m3_def copy_name_def
    by (rule put_bytes_same_on) (use that name in \<open>auto simp: disjoint_def MB_NAME_SZ_def\<close>)
  have fr1: "same_on a k m m2" if "disjoint (mb + (32 + 8 * unat i)) 8 a k" for a k
    unfolding m2_def m1_def layout
    by (rule same_on_trans [OF store32_same_on store32_same_on])
      (use that in \<open>auto simp: disjoint_def\<close>)
  have "same_on (mb + (32 + 8 * unat i)) 8 m2 m'"
    by (rule same_on_trans [OF fr2 fr3]) (use far in \<open>auto simp: disjoint_def\<close>)
  then have "get_reg m' (mb + (32 + 8 * unat i)) = sc_start_addr_offset ?c"
    "get_reg m' (mb + (36 + 8 * unat i)) = sc_end_addr_offset ?c"
    unfolding start [symmetric] "end" [symmetric] get_reg_def
    by (rule load32_cong [OF same_on_sub]; simp)+
  moreover have "sub_reg m' ?b f = cfg_field ?c f" for f
    unfolding m' by (cases f) simp_all
  moreover have "bytes_at m' ?b 16 = sc_name ?c"
    unfolding m' by (simp add: m3_def copy_name_def MB_NAME_SZ_def mem_simps name)
  ultimately have "region_init m' mb sc (unat i)"
    by (simp add: region_init_def)
  moreover have "same_on a k m m'"
    if "disjoint (mb + (32 + 8 * unat i)) 8 a k" "disjoint ?b 56 a k" for a k
    by (rule same_on_trans [OF same_on_trans [OF fr1 fr2] fr3]) (fact that)+
  ultimately show ?thesis
    using run by (intro that [of m']) simp_all
qed

lemma layout_room:
  assumes "layout_ok mc sc" "i < cfg_n mc"
  shows "cfg_start sc i + 55 < unat (mbc_mb_size mc)"
proof -
  have "cfg_start sc i + 55 + cfg_bytes sc i \<le> cfg_end sc i" "cfg_end sc i < unat (mbc_mb_size mc)"
    using assms by (simp_all add: layout_ok_def)
  then show ?thesis by linarith
qed

lemma layout_order:
  assumes "layout_ok mc sc" "j < cfg_n mc"
  shows "i < j \<Longrightarrow> cfg_start sc i + 56 + cfg_bytes sc i \<le> cfg_start sc j"
    "32 + 8 * cfg_n mc < cfg_start sc j"
proof -
  have step: "cfg_start sc i + 56 + cfg_bytes sc i \<le> cfg_start sc (Suc i)" if "Suc i < cfg_n mc" for i
  proof -
    have "cfg_end sc i < cfg_start sc (Suc i)" "cfg_start sc i + 55 + cfg_bytes sc i \<le> cfg_end sc i"
      using assms(1) that by (simp_all add: layout_ok_def)
    then show ?thesis by linarith
  qed
  show later: "cfg_start sc i + 56 + cfg_bytes sc i \<le> cfg_start sc j" if "i < j" for i
    using that assms(2)
  proof (induction j)
    case (Suc j)
    show ?case
    proof (cases "i = j")
      case False
      then have "cfg_start sc i + 56 + cfg_bytes sc i \<le> cfg_start sc j"
        using Suc by simp
      then show ?thesis using step [of j] Suc.prems(2) by linarith
    qed (use step [of j] Suc.prems(2) in simp)
  qed simp
  have "32 + 8 * cfg_n mc < cfg_start sc 0"
    using assms(1) by (simp add: layout_ok_def)
  then show "32 + 8 * cfg_n mc < cfg_start sc j"
    using later [of 0] by (cases "j = 0") auto
qed

lemma region_init_other:
  assumes "layout_ok mc sc" "i < cfg_n mc" "j < cfg_n mc" "i \<noteq> j" "region_init m mb sc j"
    "\<And>a k. disjoint (mb + (32 + 8 * i)) 8 a k \<Longrightarrow>
      disjoint (mb + cfg_start sc i) 56 a k \<Longrightarrow> same_on a k m m'"
  shows "region_init m' mb sc j"
proof (rule region_init_cong [OF assms(5)]; rule assms(6))
  note lo = layout_order(2) [OF assms(1,2)] layout_order(2) [OF assms(1,3)]
  show "disjoint (mb + (32 + 8 * i)) 8 (mb + (32 + 8 * j)) 8"
    "disjoint (mb + (32 + 8 * i)) 8 (mb + cfg_start sc j) 56"
    "disjoint (mb + cfg_start sc i) 56 (mb + (32 + 8 * j)) 8"
    using lo assms(2-4) by (auto simp: disjoint_def)
  show "disjoint (mb + cfg_start sc i) 56 (mb + cfg_start sc j) 56"
    using layout_order(1) [OF assms(1,2), of j] layout_order(1) [OF assms(1,3), of i] assms(4)
    by (auto simp: disjoint_def neq_iff)
qed

lemma init_loop_spec:
  assumes lay: "layout_ok mc sc" and mb: "mb \<noteq> 0"
    and names: "\<And>j. j < cfg_n mc \<Longrightarrow> length (sc_name (sc j)) = 16"
  shows "unat i \<le> cfg_n mc \<Longrightarrow> mb_reg m mb Num_of_sub_region = mbc_num_sub_regions mc \<Longrightarrow>
    (\<forall>j < unat i. region_init m mb sc j) \<Longrightarrow>
    \<exists>m'. init_loop mb sc i m = (True, m') \<and> same_on mb 32 m m'
      \<and> (\<forall>j < cfg_n mc. region_init m' mb sc j)
      \<and> (\<forall>a k. disjoint mb (unat (mbc_mb_size mc)) a k \<longrightarrow> same_on a k m m')"
proof (induction "cfg_n mc - unat i" arbitrary: i m)
  case 0
  then have "\<not> i < mb_reg m mb Num_of_sub_region"
    by (simp add: word_less_nat_alt cfg_n_def)
  then show ?case
    using 0 by (simp add: init_loop.simps)
next
  case (Suc d)
  then have i: "unat i < cfg_n mc" and lt: "i < mb_reg m mb Num_of_sub_region"
    by (auto simp: word_less_nat_alt cfg_n_def)
  have n: "cfg_n mc \<le> 253"
    using lay by (simp add: layout_ok_def)
  have inc: "unat (i + 1) = Suc (unat i)"
    using i n by (subst unat_add_small) simp_all
  note lo = layout_order(2) [OF lay i]
  have "40 + 8 * unat i \<le> cfg_start sc (unat i)"
    using lo i by linarith
  then obtain m1 where run: "init_sub_region mb (sc (unat i)) i m = (True, m1)"
    and reg: "region_init m1 mb sc (unat i)"
    and fr: "\<And>a k. disjoint (mb + (32 + 8 * unat i)) 8 a k \<Longrightarrow>
      disjoint (mb + cfg_start sc (unat i)) 56 a k \<Longrightarrow> same_on a k m m1"
    using init_sub_region_spec [of mb sc i m, OF mb names [OF i]] by metis
  have hd: "same_on mb 32 m m1"
    by (rule fr) (use lo in \<open>auto simp: disjoint_def\<close>)
  have "cfg_start sc (unat i) + 55 < unat (mbc_mb_size mc)"
    using layout_room [OF lay i] .
  then have out: "same_on a k m m1" if "disjoint mb (unat (mbc_mb_size mc)) a k" for a k
    using that lo i by (intro fr) (auto simp: disjoint_def)
  have "\<forall>j < unat (i + 1). region_init m1 mb sc j"
  proof (intro allI impI)
    fix j assume "j < unat (i + 1)"
    then consider "j = unat i" | "j < unat i" unfolding inc by linarith
    then show "region_init m1 mb sc j"
      using Suc.prems(3) reg i by cases (auto intro: region_init_other [OF lay i _ _ _ fr])
  qed
  moreover have "d = cfg_n mc - Suc (unat i)"
    using Suc.hyps(2) by simp
  ultimately obtain m' where "init_loop mb sc (i + 1) m1 = (True, m')" "same_on mb 32 m1 m'"
    "\<forall>j < cfg_n mc. region_init m' mb sc j"
    "\<forall>a k. disjoint mb (unat (mbc_mb_size mc)) a k \<longrightarrow> same_on a k m1 m'"
    using Suc.hyps(1) [of "i + 1" m1] Suc.prems(2) i mb_reg_cong [OF hd] unfolding inc
    by (auto simp: Suc_le_eq)
  moreover from this have "init_loop mb sc i m = (True, m')" "same_on mb 32 m m'"
    using lt run hd by (auto simp: init_loop.simps [of mb sc i m] intro: same_on_trans)
  ultimately show ?case
    using out by (blast intro: same_on_trans)
qed

lemma mb_set_reg [simp]:
  "mb_reg (mb_set m mb f v) mb g = (if f = g then v else mb_reg m mb g)"
  by (cases f; cases g) (simp_all add: mb_set_def mb_reg_def get_reg_def mem_simps disjoint_def layout)

lemma mb_set_same_on: "disjoint (mb + 16) 16 a k \<Longrightarrow> same_on a k m (mb_set m mb f v)"
  unfolding mb_set_def by (rule store32_same_on) (cases f; auto simp: disjoint_def layout)

text \<open>The state of a freshly created mailbox.\<close>

definition created :: "mem \<Rightarrow> addr \<Rightarrow> mbconfig_t \<Rightarrow> sub_cfgs \<Rightarrow> bool" where
  "created m mb mc sc \<longleftrightarrow> mb_reg m mb Mb_magic = MB_MAGIC_NUMBER
     \<and> mb_reg m mb Num_of_sub_region = mbc_num_sub_regions mc
     \<and> mb_reg m mb Mb_size = mbc_mb_size mc \<and> mb_reg m mb Mb_prio = mbc_mb_prio mc
     \<and> bytes_at m mb 16 = mbc_name mc \<and> (\<forall>j < cfg_n mc. region_init m mb sc j)"

lemma LibMB_Create_spec:
  assumes lay: "layout_ok mc sc" and mb: "mb \<noteq> 0" and name: "length (mbc_name mc) = 16"
    and names: "\<And>j. j < cfg_n mc \<Longrightarrow> length (sc_name (sc j)) = 16"
  obtains m' where "LibMB_Create m mb (Some mc) (Some sc) = (MB_E_SUCCESS, m')"
    "created m' mb mc sc"
    "\<And>a k. disjoint mb (unat (mbc_mb_size mc)) a k \<Longrightarrow> same_on a k m m'"
proof -
  define m4 where "m4 = mb_set (mb_set (mb_set (copy_name m mb (mbc_name mc)) mb Num_of_sub_region
      (mbc_num_sub_regions mc)) mb Mb_size (mbc_mb_size mc)) mb Mb_prio (mbc_mb_prio mc)"
  have reg4: "mb_reg m4 mb Num_of_sub_region = mbc_num_sub_regions mc"
    "mb_reg m4 mb Mb_size = mbc_mb_size mc" "mb_reg m4 mb Mb_prio = mbc_mb_prio mc"
    by (simp_all add: m4_def)
  have n0: "0 < cfg_n mc" and big: "cfg_start sc 0 + 55 < unat (mbc_mb_size mc)"
    using layout_room [OF lay, of 0] lay by (simp_all add: layout_ok_def)
  have lo: "40 < cfg_start sc 0"
    using layout_order(2) [OF lay n0] n0 by linarith
  have fr4: "same_on a k m m4" if "disjoint mb 32 a k" for a k
    unfolding m4_def copy_name_def
    by (intro same_on_trans [OF _ mb_set_same_on] put_bytes_same_on)
      (use that in \<open>auto simp: disjoint_def MB_NAME_SZ_def name\<close>)
  have name4: "bytes_at m4 mb 16 = mbc_name mc"
    unfolding m4_def mb_set_def layout copy_name_def
    by (simp add: mem_simps disjoint_def MB_NAME_SZ_def name)
  obtain m5 where run: "init_loop mb sc 0 m4 = (True, m5)" and hd: "same_on mb 32 m4 m5"
    and reg: "\<forall>j < cfg_n mc. region_init m5 mb sc j"
    and fr5: "\<forall>a k. disjoint mb (unat (mbc_mb_size mc)) a k \<longrightarrow> same_on a k m4 m5"
    using init_loop_spec [OF lay mb names, of 0 m4] reg4 by auto
  define m' where "m' = mb_set m5 mb Mb_magic MB_MAGIC_NUMBER"
  have mag: "same_on a k m5 m'" if "disjoint (mb + 16) 16 a k" for a k
    unfolding m'_def using that by (rule mb_set_same_on)
  have "region_init m' mb sc j" if "j < cfg_n mc" for j
    by (rule region_init_cong [OF reg [rule_format, OF that]]; rule mag)
      (use layout_order(2) [OF lay that] in \<open>auto simp: disjoint_def\<close>)
  moreover have "bytes_at m' mb 16 = mbc_name mc"
    using bytes_at_cong [OF same_on_sub [OF hd], of mb 16] name4
      bytes_at_cong [OF mag, of mb 16] by (simp add: disjoint_def)
  ultimately have "created m' mb mc sc"
    using reg4 mb_reg_cong [OF hd] by (simp add: created_def m'_def)
  moreover have "LibMB_Create m mb (Some mc) (Some sc) = (MB_E_SUCCESS, m')"
    using mb run Boundary_Check_complete [OF lay]
    by (simp add: LibMB_Create_def LibMB_Init_Mailbox_def m4_def m'_def)
  moreover have "same_on a k m m'" if "disjoint mb (unat (mbc_mb_size mc)) a k" for a k
  proof -
    have "disjoint mb 32 a k" "disjoint (mb + 16) 16 a k"
      using that big by (auto simp: disjoint_def)
    then show ?thesis
      using fr4 fr5 mag that by (meson same_on_trans)
  qed
  ultimately show ?thesis by (intro that [of m'])
qed

text \<open>Every channel of a created mailbox is usable and empty, with the configured geometry.\<close>

lemma created_channel:
  assumes cr: "created m mb mc sc" and lay: "layout_ok mc sc" and mb: "mb \<noteq> 0"
    and i: "unat i < cfg_n mc" and num: "0 < sc_item_max_num (sc (unat i))"
    and sz: "0 < sc_item_max_size (sc (unat i))" "sc_item_max_size (sc (unat i)) \<le> MB_MAX_SIZE"
  shows "chan_ok m mb i" "chan_items m mb i = []"
    "chan_N m mb i = unat (sc_item_max_num (sc (unat i)))"
    "chan_sz m mb i = unat (sc_item_max_size (sc (unat i)))"
    "sub_region_base m mb i = mb + cfg_start sc (unat i)"
proof -
  let ?b = "mb + cfg_start sc (unat i)"
  have reg: "region_init m mb sc (unat i)"
    using cr i by (simp add: created_def)
  show b: "sub_region_base m mb i = ?b"
    using reg by (simp add: region_init_def sub_region_base_def layout cfg_start_def)
  have f: "sub_reg m ?b f = cfg_field (sc (unat i)) f" for f
    using reg by (simp add: region_init_def)
  have bytes: "cfg_bytes sc (unat i) < 2 ^ 32" and N: "unat (sc_item_max_num (sc (unat i))) \<le> 2 ^ 20"
  proof -
    have "cfg_start sc (unat i) + 55 + cfg_bytes sc (unat i) \<le> cfg_end sc (unat i)"
      using lay i by (simp add: layout_ok_def)
    then show "cfg_bytes sc (unat i) < 2 ^ 32"
      using unat_lt [of "sc_end_addr_offset (sc (unat i))"] by (simp add: cfg_end_def)
    show "unat (sc_item_max_num (sc (unat i))) \<le> 2 ^ 20"
      using lay i by (simp add: layout_ok_def)
  qed
  note lo = layout_order(2) [OF lay i]
  have "ring_ok m ?b"
    using bytes N num sz lo
    by (simp add: ring_ok_def sanity_iff ring_N_def ring_sz_def ring_w_def ring_r_def f
        cfg_bytes_def MB_MAX_SIZE_def word_le_nat_alt word_less_nat_alt)
  then show "chan_ok m mb i"
    using cr mb i lo by (simp add: chan_ok_def b created_def mb_header_bytes_def cfg_n_def word_less_nat_alt)
  show "chan_items m mb i = []" "chan_N m mb i = unat (sc_item_max_num (sc (unat i)))"
    "chan_sz m mb i = unat (sc_item_max_size (sc (unat i)))"
    by (simp_all add: chan_items_def chan_N_def chan_sz_def b ring_items_def ring_cnt_def
        ring_N_def ring_sz_def ring_w_def ring_r_def f)
qed

end
