(* ===== verification/Mailbox.thy ===== *)
theory Mailbox
  imports OS_World Mailbox_Setup
begin

text \<open>
  The mailbox client API, \<^verbatim>\<open>middleware/mailbox/src/rtss_mailbox.c\<close>, with the handle of
  \<^verbatim>\<open>include/rtss_mailbox_priv.h\<close> and the channel statistics of \<^verbatim>\<open>api/rtss_mailbox_api.h\<close>.
  A handle pointer is an option (\<open>None\<close> for null). Functions that make system calls take
  the platform and the world and return their code with the new world; the others only
  take the memory. Log output is left out.
\<close>

section \<open>The handle\<close>

record rtss_mb_handle =
  h_fd :: int
  h_p_mb_base_addr :: addr
  h_mb_size :: nat
  h_subregion_index :: u32
  h_signal_id :: u32
  h_mode :: u32
  h_dev :: "u8 list"
  h_event_fd :: int
  h_client_id :: u32
  h_sender :: u32
  h_prot :: u32
  h_priority :: u32
  h_subchan_item_size :: u32

record rtss_mb_chan_info =
  isz :: int
  tsz :: int
  icnt :: int
  evcnt :: int

definition RTSS_MB_RETURN_SUCCESS :: int where [errno_defs]: "RTSS_MB_RETURN_SUCCESS = 0"
definition RTSS_MAILBOX_NAME_SIZE :: nat where "RTSS_MAILBOX_NAME_SIZE = 16"

definition zero_handle :: rtss_mb_handle where
  "zero_handle = \<lparr>h_fd = 0, h_p_mb_base_addr = NULL, h_mb_size = 0, h_subregion_index = 0,
     h_signal_id = 0, h_mode = 0, h_dev = [], h_event_fd = 0, h_client_id = 0, h_sender = 0,
     h_prot = 0, h_priority = 0, h_subchan_item_size = 0\<rparr>"

definition zero_chan_desc :: mbchan_desc_t where
  "zero_chan_desc = \<lparr>ch_name = replicate 16 0, ch_sender = 0, ch_receiver = 0, ch_prot = 0,
     ch_sig = 0, ch_mode = 0, ch_prio = 0, ch_max_item_num = 0, ch_max_item_size = 0\<rparr>"

section \<open>Finding the channel\<close>

text \<open>The loop of \<open>rtssmb_getdevctx\<close> from sub-region \<open>i\<close>; the channel descriptor is the
  local variable that the library call fills.\<close>

definition fill_handle ::
  "rtss_mb_handle \<Rightarrow> addr \<Rightarrow> u32 \<Rightarrow> mbchan_desc_t \<Rightarrow> u8 list \<Rightarrow> rtss_mb_handle" where
  "fill_handle h mb i d dev = h\<lparr>h_dev := dev, h_p_mb_base_addr := mb, h_subregion_index := i,
     h_client_id := ch_receiver d, h_sender := ch_sender d, h_prot := ch_prot d,
     h_signal_id := ch_sig d, h_mode := ch_mode d, h_priority := ch_prio d,
     h_subchan_item_size := ch_max_item_size d\<rparr>"

function getdevctx_loop ::
  "mem \<Rightarrow> addr \<Rightarrow> u8 list \<Rightarrow> u32 \<Rightarrow> mbchan_desc_t \<Rightarrow> rtss_mb_handle \<Rightarrow> int \<times> rtss_mb_handle" where
  "getdevctx_loop m mb dev i d h =
     (if i < mb_reg m mb Num_of_sub_region
      then case LibMB_Get_ChanInfo m mb i (Some d) of (nRet, d') \<Rightarrow>
        if nRet \<noteq> RTSS_MB_RETURN_SUCCESS then (- EIO, h)
        else let SubRegionDesc = the d'
             in if strncmp_eq (unat MB_NAME_SZ) dev (ch_name SubRegionDesc)
                then let (s, len) = strlcpy dev RTSS_MAILBOX_NAME_SIZE
                     in if len \<ge> RTSS_MAILBOX_NAME_SIZE
                        then (- ENAMETOOLONG, h\<lparr>h_dev := s\<rparr>)
                        else (RTSS_MB_RETURN_SUCCESS, fill_handle h mb i SubRegionDesc s)
                else getdevctx_loop m mb dev (i + 1) SubRegionDesc h
      else (- ENOENT, h))"
  by pat_completeness auto
termination
proof (relation "measure (\<lambda>(m, mb, dev, i, d, h). 2 ^ 32 - unat i)", simp)
  fix m mb dev d h x xa ya and i :: u32
  assume "i < mb_reg m mb Num_of_sub_region"
  then have "unat i < 2 ^ 32 - 1"
    using unat_lt [of "mb_reg m mb Num_of_sub_region"] by (simp add: word_less_nat_alt)
  then have "unat (i + 1) = unat i + 1"
    by (subst unat_add_small) simp_all
  then show "((m, mb, dev, i + 1, x, h), m, mb, dev, i, d, h)
      \<in> measure (\<lambda>(m, mb, dev, i, d, h). 2 ^ 32 - unat i)"
    using unat_lt [of i] by simp
qed

declare getdevctx_loop.simps [simp del]

definition rtssmb_getdevctx ::
  "mem \<Rightarrow> addr \<Rightarrow> rtss_mb_handle option \<Rightarrow> u8 list option \<Rightarrow> int \<times> rtss_mb_handle option" where
  "rtssmb_getdevctx m pMbHandle handle dev =
     (case (handle, dev) of
        (Some h, Some d) \<Rightarrow>
          if pMbHandle = NULL then (- EINVAL, handle)
          else (case getdevctx_loop m pMbHandle d 0 zero_chan_desc h of (r, h') \<Rightarrow> (r, Some h'))
      | _ \<Rightarrow> (- EINVAL, handle))"

section \<open>Opening a channel\<close>

definition evfd_of :: "rtss_mb_handle \<Rightarrow> u32 \<Rightarrow> int \<Rightarrow> evfdinfo" where
  "evfd_of h mode evfd = \<lparr>ev_signal_num = h_signal_id h, ev_client_id = h_client_id h,
     ev_sender = h_sender h, ev_prot = h_prot h, ev_mode = mode, ev_event_fd = evfd\<rparr>"

text \<open>The failure exits of \<open>rtss_mb_open\<close> release what has been acquired so far: the handle
  alone, the handle and the device, or the mapping too.\<close>

definition open_undo1 :: "platform \<Rightarrow> world \<Rightarrow> world" where
  "open_undo1 p w = snd (sys p Sys_free w)"

definition open_undo2 :: "platform \<Rightarrow> int \<Rightarrow> world \<Rightarrow> world" where
  "open_undo2 p nFd w = open_undo1 p (snd (sys p (Sys_close nFd) w))"

definition open_undo3 :: "platform \<Rightarrow> addr \<Rightarrow> nat \<Rightarrow> int \<Rightarrow> world \<Rightarrow> world" where
  "open_undo3 p mb sz nFd w = open_undo2 p nFd (snd (sys p (Sys_munmap mb sz) w))"

text \<open>The last part of \<open>rtss_mb_open\<close>, once the handle describes the channel: the event
  file descriptor of an RX channel.\<close>

definition open_finish ::
  "platform \<Rightarrow> rtss_mb_handle \<Rightarrow> addr \<Rightarrow> nat \<Rightarrow> int \<Rightarrow> world \<Rightarrow> (int \<times> rtss_mb_handle option) \<times> world" where
  "open_finish p h mb sz nFd w =
     (if h_mode h = RTSS_MB_MODE_RX p
      then case sys p Sys_eventfd w of (a, w) \<Rightarrow>
        if a_ret a = -1
        then ((- a_err a, None), open_undo3 p mb sz nFd w)
        else let h = h\<lparr>h_event_fd := a_ret a\<rparr>
             in case sys p (Sys_ioctl nFd RTSS_MB_SET_EVENT_FD
                     (Some (evfd_of h (RTSS_MB_MODE_RX p) (h_event_fd h)))) w of (b, w) \<Rightarrow>
                  if a_ret b \<noteq> 0
                  then ((- a_err b, None),
                        open_undo3 p mb sz nFd (snd (sys p (Sys_close (h_event_fd h)) w)))
                  else ((RTSS_MB_RETURN_SUCCESS, Some (h\<lparr>h_fd := nFd\<rparr>)), w)
      else if h_mode h = RTSS_MB_MODE_TX p
      then ((RTSS_MB_RETURN_SUCCESS, Some (h\<lparr>h_event_fd := -1, h_fd := nFd\<rparr>)), w)
      else ((- EIO, None), open_undo3 p mb sz nFd w))"

definition open_mapped ::
  "platform \<Rightarrow> u8 list \<Rightarrow> addr \<Rightarrow> nat \<Rightarrow> int \<Rightarrow> world \<Rightarrow> (int \<times> rtss_mb_handle option) \<times> world" where
  "open_mapped p dev mb sz nFd w =
     (if LibMB_Validate (w_mem w) mb \<noteq> RTSS_MB_RETURN_SUCCESS
      then ((- EAGAIN, None), open_undo3 p mb sz nFd w)
      else case rtssmb_getdevctx (w_mem w) mb
             (Some (zero_handle\<lparr>h_fd := -1, h_event_fd := -1\<rparr>)) (Some dev) of (nRet, h) \<Rightarrow>
        if nRet \<noteq> RTSS_MB_RETURN_SUCCESS
        then ((nRet, None), open_undo3 p mb sz nFd w)
        else open_finish p ((the h)\<lparr>h_mb_size := sz\<rparr>) mb sz nFd w)"

text \<open>The output pointer of the caller is \<open>None\<close> when it is null; the handle is returned
  where the code stores it, which it does on success only.\<close>

definition rtss_mb_open ::
  "platform \<Rightarrow> bool \<Rightarrow> u8 list option \<Rightarrow> world \<Rightarrow> (int \<times> rtss_mb_handle option) \<times> world" where
  "rtss_mb_open p handle_given dev w =
     (if \<not> handle_given then ((- EINVAL, None), w)
      else case dev of None \<Rightarrow> ((- EINVAL, None), w)
      | Some d \<Rightarrow>
        (case sys p Sys_calloc w of (a, w) \<Rightarrow>
         if a_ret a = 0 then ((- ENOMEM, None), w)
         else case sys p Sys_open w of (b, w) \<Rightarrow>
           let nFd = a_ret b
           in if nFd = -1 then ((- a_err b, None), open_undo1 p w)
              else case sys p (Sys_ioctl nFd RTSS_MB_GET_MB_REGION None) w of (c, w) \<Rightarrow>
                if a_ret c \<noteq> 0 then ((- a_err c, None), open_undo2 p nFd w)
                else if a_size c = 0 then ((- EIO, None), open_undo2 p nFd w)
                else case sys p (Sys_mmap (a_size c) nFd) w of (e, w) \<Rightarrow>
                  if a_ret e = -1 \<or> a_ret e = 0
                  then ((- a_err e, None), open_undo2 p nFd w)
                  else open_mapped p d (nat (a_ret e)) (a_size c) nFd w))"

section \<open>Interrupts\<close>

definition rtssmb_trigger_ioctl :: "platform \<Rightarrow> rtss_mb_handle \<Rightarrow> world \<Rightarrow> int \<times> world" where
  "rtssmb_trigger_ioctl p h w =
     (case sys p (Sys_ioctl (h_fd h) RTSS_MB_SEND_INTERRUPT
            (Some (evfd_of h (RTSS_MB_MODE_TX p) 0))) w of (a, w) \<Rightarrow>
        if a_ret a \<noteq> 0 then (- a_err a, w) else (RTSS_MB_RETURN_SUCCESS, w))"

definition rtss_mb_send_trigger ::
  "platform \<Rightarrow> rtss_mb_handle option \<Rightarrow> world \<Rightarrow> int \<times> world" where
  "rtss_mb_send_trigger p handle w =
     (case handle of None \<Rightarrow> (- EINVAL, w)
      | Some h \<Rightarrow>
          if h_fd h < 0 then (- EBADF, w)
          else if h_mode h \<noteq> RTSS_MB_MODE_TX p then (- EPERM, w)
          else rtssmb_trigger_ioctl p h w)"

section \<open>Writing\<close>

text \<open>\<open>(int)((uint64_t)(uint32_t)n * item_size)\<close>\<close>

definition item_bytes :: "int \<Rightarrow> u32 \<Rightarrow> u64" where
  "item_bytes n item_size = ucast (word_of_int n :: u32) * ucast item_size"

definition rtss_mb_write_batch ::
  "platform \<Rightarrow> rtss_mb_handle option \<Rightarrow> addr \<Rightarrow> u64 \<Rightarrow> mem \<Rightarrow> int \<times> mem" where
  "rtss_mb_write_batch p handle buf sz m =
     (case handle of None \<Rightarrow> (- EINVAL, m)
      | Some h \<Rightarrow>
          if buf = NULL then (- EINVAL, m)
          else if sz = 0 then (- EINVAL, m)
          else if h_fd h < 0 then (- EBADF, m)
          else if h_subchan_item_size h = 0 then (- EBADF, m)
          else if h_mode h \<noteq> RTSS_MB_MODE_TX p then (- EPERM, m)
          else let pMbDesc = h_p_mb_base_addr h
          in if LibMB_Validate m pMbDesc \<noteq> RTSS_MB_RETURN_SUCCESS then (- EIO, m)
          else let nFreeItems = LibMB_Get_FreeItemNum m pMbDesc (h_subregion_index h)
          in if nFreeItems < 0 then (- EIO, m)
          else if item_bytes nFreeItems (h_subchan_item_size h) < sz then (- ENOBUFS, m)
          else let n = int_of_u64 (sz div ucast (h_subchan_item_size h))
          in case LibMB_Write m pMbDesc buf (word_of_int n) (h_subregion_index h) of
               (nItemsWritten, m') \<Rightarrow>
                 if nItemsWritten < 0 then (- EIO, m')
                 else (int_of_u64 (item_bytes nItemsWritten (h_subchan_item_size h)), m'))"

definition rtss_mb_write ::
  "platform \<Rightarrow> rtss_mb_handle option \<Rightarrow> addr \<Rightarrow> u64 \<Rightarrow> world \<Rightarrow> int \<times> world" where
  "rtss_mb_write p handle buf sz w =
     (case rtss_mb_write_batch p handle buf sz (w_mem w) of (nBytesWritten, m') \<Rightarrow>
        let w = w\<lparr>w_mem := m'\<rparr>
        in if nBytesWritten \<le> 0 then (nBytesWritten, w)
           else case rtssmb_trigger_ioctl p (the handle) w of (nRet, w) \<Rightarrow>
             if nRet \<noteq> RTSS_MB_RETURN_SUCCESS then (nRet, w) else (nBytesWritten, w))"

section \<open>Reading\<close>

text \<open>The wait loop of \<open>rtss_mb_read_timed\<close>: it returns a code of the function (\<open>Inl\<close>) or
  the number of items available (\<open>Inr\<close>). It may run for ever, so that it is a partial
  function whose value \<open>None\<close> is not returning.\<close>

partial_function (option) read_wait ::
  "platform \<Rightarrow> rtss_mb_handle \<Rightarrow> int \<Rightarrow> int \<Rightarrow> world \<Rightarrow> ((int + int) \<times> world) option" where
  "read_wait p h ms nNumItems w =
     (if nNumItems \<noteq> 0 then Some (Inr nNumItems, w)
      else case sys p (Sys_poll (h_event_fd h) ms) w of (a, w) \<Rightarrow>
        if a_ret a = -1 then Some (Inl (if a_err a = EINTR then - EINTR else - a_err a), w)
        else if a_ret a = 0 then Some (Inl (- ETIMEDOUT), w)
        else case (if a_revents a AND POLLIN \<noteq> 0
                   then (case sys p (Sys_eventfd_read (h_event_fd h)) w of (b, w) \<Rightarrow>
                           (if a_ret b = -1 then Some (- a_err b) else None, w))
                   else if a_revents a AND (POLLNVAL OR POLLERR OR POLLHUP) \<noteq> 0
                   then (Some (- ECONNRESET), w)
                   else (None, w)) of
               (Some e, w) \<Rightarrow> Some (Inl e, w)
             | (None, w) \<Rightarrow>
                 let n = LibMB_Get_ValidItemNum (w_mem w) (h_p_mb_base_addr h) (h_subregion_index h)
                 in if n < 0 then Some (Inl (- EIO), w)
                    else read_wait p h ms n w)"

definition read_items ::
  "rtss_mb_handle \<Rightarrow> addr \<Rightarrow> u64 \<Rightarrow> int \<Rightarrow> mem \<Rightarrow> int \<times> mem" where
  "read_items h buf sz nNumItems m =
     (let n = (if item_bytes nNumItems (h_subchan_item_size h) > sz
               then int_of_u64 (sz div ucast (h_subchan_item_size h)) else nNumItems)
      in case LibMB_Read m (h_p_mb_base_addr h) buf (word_of_int n) (h_subregion_index h) of
           (nItemsRead, m') \<Rightarrow>
             if nItemsRead < 0 then (- EIO, m')
             else (int_of_u64 (item_bytes nItemsRead (h_subchan_item_size h)), m'))"

definition rtss_mb_read_timed ::
  "platform \<Rightarrow> rtss_mb_handle option \<Rightarrow> addr \<Rightarrow> u64 \<Rightarrow> int \<Rightarrow> world \<Rightarrow> (int \<times> world) option" where
  "rtss_mb_read_timed p handle buf sz ms w =
     (case handle of None \<Rightarrow> Some (- EINVAL, w)
      | Some h \<Rightarrow>
          if buf = NULL then Some (- EINVAL, w)
          else if sz = 0 then Some (- EINVAL, w)
          else if ms < -1 then Some (- EINVAL, w)
          else if h_fd h < 0 then Some (- EBADF, w)
          else if h_mode h \<noteq> RTSS_MB_MODE_RX p then Some (- EPERM, w)
          else if h_subchan_item_size h = 0 then Some (- EBADF, w)
          else if sz < ucast (h_subchan_item_size h) then Some (- EMSGSIZE, w)
          else let n = LibMB_Get_ValidItemNum (w_mem w) (h_p_mb_base_addr h) (h_subregion_index h)
          in if n < 0 then Some (- EIO, w)
          else case read_wait p h ms n w of
                 None \<Rightarrow> None
               | Some (Inl e, w) \<Rightarrow> Some (e, w)
               | Some (Inr k, w) \<Rightarrow>
                   (case read_items h buf sz k (w_mem w) of (r, m') \<Rightarrow> Some (r, w\<lparr>w_mem := m'\<rparr>)))"

definition rtss_mb_read ::
  "platform \<Rightarrow> rtss_mb_handle option \<Rightarrow> addr \<Rightarrow> u64 \<Rightarrow> world \<Rightarrow> (int \<times> world) option" where
  "rtss_mb_read p handle buf sz w = rtss_mb_read_timed p handle buf sz (-1) w"

section \<open>Status, reset and close\<close>

definition rtss_mb_get_fd :: "platform \<Rightarrow> rtss_mb_handle option \<Rightarrow> int" where
  "rtss_mb_get_fd p handle =
     (case handle of None \<Rightarrow> - EINVAL
      | Some h \<Rightarrow>
          if h_fd h < 0 then - EBADF
          else if h_mode h \<noteq> RTSS_MB_MODE_RX p then - EPERM
          else h_event_fd h)"

definition rtss_mb_get_chan_stat ::
  "platform \<Rightarrow> rtss_mb_handle option \<Rightarrow> rtss_mb_chan_info option \<Rightarrow> mem \<Rightarrow>
   int \<times> rtss_mb_chan_info option" where
  "rtss_mb_get_chan_stat p handle info m =
     (case (handle, info) of
        (Some h, Some _) \<Rightarrow>
          if h_fd h < 0 then (- EBADF, info)
          else if h_subchan_item_size h = 0 then (- EBADF, info)
          else let pMbDesc = h_p_mb_base_addr h; i = h_subregion_index h
          in if LibMB_Validate m pMbDesc \<noteq> RTSS_MB_RETURN_SUCCESS then (- EIO, info)
          else (case LibMB_Get_ChanInfo m pMbDesc i (Some zero_chan_desc) of (nRet, ChanInfo) \<Rightarrow>
            if nRet \<noteq> RTSS_MB_RETURN_SUCCESS then (- EIO, info)
            else let nItemCnt = (if h_mode h = RTSS_MB_MODE_TX p
                                 then LibMB_Get_FreeItemNum m pMbDesc i
                                 else LibMB_Get_ValidItemNum m pMbDesc i)
            in if nItemCnt < 0 then (- EIO, info)
            else (RTSS_MB_RETURN_SUCCESS, Some
              \<lparr>isz = i32 (h_subchan_item_size h),
               tsz = int_of_u64 (ucast (ch_max_item_num (the ChanInfo)) * ucast (h_subchan_item_size h)),
               icnt = int_of_u64 (item_bytes nItemCnt (h_subchan_item_size h)),
               evcnt = 0\<rparr>))
      | _ \<Rightarrow> (- EINVAL, info))"

definition rtss_mb_chan_reset :: "rtss_mb_handle option \<Rightarrow> mem \<Rightarrow> int \<times> mem" where
  "rtss_mb_chan_reset handle m =
     (case handle of None \<Rightarrow> (- EINVAL, m)
      | Some h \<Rightarrow>
          if h_fd h < 0 then (- EBADF, m)
          else if LibMB_Validate m (h_p_mb_base_addr h) \<noteq> RTSS_MB_RETURN_SUCCESS then (- EIO, m)
          else case LibMB_ChanReset m (h_p_mb_base_addr h) (h_subregion_index h) of (nRet, m') \<Rightarrow>
            if nRet \<noteq> MB_E_SUCCESS then (- EIO, m') else (RTSS_MB_RETURN_SUCCESS, m'))"

text \<open>Closing frees the handle: nothing of it is returned.\<close>

definition rtss_mb_close :: "platform \<Rightarrow> rtss_mb_handle option \<Rightarrow> world \<Rightarrow> int \<times> world" where
  "rtss_mb_close p handle w =
     (case handle of None \<Rightarrow> (- EINVAL, w)
      | Some h \<Rightarrow>
          if h_fd h < 0 then (- EBADF, w)
          else (case (if h_mode h = RTSS_MB_MODE_RX p
              then (case sys p (Sys_ioctl (h_fd h) RTSS_MB_DIS_INTERRUPT
                       (Some (evfd_of h (RTSS_MB_MODE_RX p) 0))) w of (a, w) \<Rightarrow>
                     (if a_ret a \<noteq> 0 then - a_err a else RTSS_MB_RETURN_SUCCESS,
                      if h_event_fd h \<ge> 0 then snd (sys p (Sys_close (h_event_fd h)) w) else w))
              else (RTSS_MB_RETURN_SUCCESS, w)) of (nCloseRet, w) \<Rightarrow>
            (nCloseRet, snd (sys p Sys_free (snd (sys p (Sys_close (h_fd h)) w))))))"

end
