(* ===== verification/Mailbox_Props.thy ===== *)
theory Mailbox_Props
  imports Mailbox Fifo_Channel
begin

text \<open>
  Lemmas on the mailbox client API: resources over a failed or successful open and a close,
  the channel an open selects, what writes and reads do to the ring behind the handle, and
  when a read returns. The lemmas carry the properties of the root theory.
\<close>

section \<open>Resources\<close>

definition wheld :: "world \<Rightarrow> resource multiset" where
  "wheld w = held (w_trace w) {#}"

lemma wheld_sys:
  "sys p c w = (a, w') \<Longrightarrow> wheld w' = wheld w - release (c, a_ret a) + acquire (c, a_ret a)"
  by (auto simp: sys_def wheld_def Let_def)

lemma wheld_snd_sys:
  "wheld (snd (sys p c w)) =
     wheld w - release (c, a_ret (answer p (w_now w))) + acquire (c, a_ret (answer p (w_now w)))"
  by (simp add: sys_def wheld_def Let_def)

lemma wheld_undo [simp]:
  "wheld (open_undo1 p w) = wheld w - {#Heap#}"
  "wheld (open_undo2 p nFd w) = wheld w - {#Fd nFd#} - {#Heap#}"
  "wheld (open_undo3 p mb sz nFd w) = wheld w - {#Mapping mb sz#} - {#Fd nFd#} - {#Heap#}"
  by (simp_all add: open_undo1_def open_undo2_def open_undo3_def wheld_snd_sys)

text \<open>What a successful open keeps.\<close>

definition handle_resources :: "platform \<Rightarrow> rtss_mb_handle \<Rightarrow> resource multiset" where
  "handle_resources p h = {#Heap, Fd (h_fd h), Mapping (h_p_mb_base_addr h) (h_mb_size h)#} +
     (if h_mode h = RTSS_MB_MODE_RX p then {#Fd (h_event_fd h)#} else {#})"

lemma open_finish_held:
  assumes "open_finish p h mb sz nFd w = ((r, res), w')" "h_p_mb_base_addr h = mb" "h_mb_size h = sz"
    "wheld w = R + {#Heap, Fd nFd, Mapping mb sz#}"
  shows "case res of None \<Rightarrow> wheld w' = R | Some h' \<Rightarrow> wheld w' = R + handle_resources p h'"
  using assms
  by (auto simp: open_finish_def Let_def handle_resources_def wheld_snd_sys dest!: wheld_sys
      split: if_splits prod.splits)

lemma getdevctx_base:
  "getdevctx_loop m mb dev i d h = (r, h') \<Longrightarrow> r = RTSS_MB_RETURN_SUCCESS \<Longrightarrow> h_p_mb_base_addr h' = mb"
proof (induction m mb dev i d h rule: getdevctx_loop.induct)
  case (1 m mb dev i d h)
  then show ?case
    by (auto simp: getdevctx_loop.simps [of m mb dev i d h] fill_handle_def Let_def errno_defs
        strlcpy_def split: if_splits prod.splits)
qed

lemma open_mapped_held:
  assumes "open_mapped p dev mb sz nFd w = ((r, res), w')" "wheld w = R + {#Heap, Fd nFd, Mapping mb sz#}"
  shows "case res of None \<Rightarrow> wheld w' = R | Some h' \<Rightarrow> wheld w' = R + handle_resources p h'"
proof -
  obtain nRet ho where g: "rtssmb_getdevctx (w_mem w) mb
      (Some (zero_handle\<lparr>h_fd := -1, h_event_fd := -1\<rparr>)) (Some dev) = (nRet, ho)"
    by fastforce
  show ?thesis
  proof (cases "LibMB_Validate (w_mem w) mb = RTSS_MB_RETURN_SUCCESS \<and> nRet = RTSS_MB_RETURN_SUCCESS")
    case True
    then have "h_p_mb_base_addr (the ho) = mb"
      using g by (auto simp: rtssmb_getdevctx_def errno_defs dest: getdevctx_base
          split: if_splits prod.splits)
    then show ?thesis
      using True assms g open_finish_held [of p "(the ho)\<lparr>h_mb_size := sz\<rparr>" mb sz nFd w r res w' R]
      by (simp add: open_mapped_def)
  next
    case False
    then show ?thesis
      using assms g by (auto simp: open_mapped_def split: if_splits)
  qed
qed

lemma rtss_mb_open_held:
  assumes "rtss_mb_open p g dev w = ((r, res), w')"
  shows "case res of None \<Rightarrow> wheld w' = wheld w | Some h \<Rightarrow> wheld w' = wheld w + handle_resources p h"
  using assms
  by (auto simp: rtss_mb_open_def Let_def dest!: wheld_sys open_mapped_held [where R = "wheld w"]
      split: if_splits prod.splits option.splits)

lemma rtss_mb_close_held:
  assumes "h_fd h \<ge> 0" "h_mode h = RTSS_MB_MODE_RX p \<Longrightarrow> h_event_fd h \<ge> 0"
    "wheld w = R + handle_resources p h" "rtss_mb_close p (Some h) w = (r, w')"
  shows "wheld w' = R + {#Mapping (h_p_mb_base_addr h) (h_mb_size h)#}"
  using assms
  by (auto simp: rtss_mb_close_def handle_resources_def wheld_snd_sys dest!: wheld_sys
      split: if_splits prod.splits)

section \<open>The channel that is opened\<close>

definition chan_named :: "mem \<Rightarrow> addr \<Rightarrow> u32 \<Rightarrow> u8 list \<Rightarrow> bool" where
  "chan_named m mb j dev \<longleftrightarrow>
     take 16 (cstr dev) = take 16 (cstr (ch_name (chan_info_of m (sub_region_base m mb j))))"

lemma Get_ChanInfo_cases:
  assumes "LibMB_Get_ChanInfo m mb i (Some d) = (r, d')" "r = 0"
  shows "d' = Some (chan_info_of m (sub_region_base m mb i))"
    "mb \<noteq> 0" "mb_reg m mb Mb_magic = MB_MAGIC_NUMBER" "i < mb_reg m mb Num_of_sub_region"
    "LibMB_Mailbox_sanity_check m (sub_region_base m mb i)"
  using assms by (auto simp: LibMB_Get_ChanInfo_def Let_def errno_defs split: if_splits)

lemma getdevctx_loop_found:
  "getdevctx_loop m mb dev i d h = (r, h') \<Longrightarrow> r = RTSS_MB_RETURN_SUCCESS \<Longrightarrow>
   \<exists>k. i \<le> k \<and> k < mb_reg m mb Num_of_sub_region
     \<and> chan_named m mb k dev \<and> (\<forall>j. i \<le> j \<longrightarrow> j < k \<longrightarrow> \<not> chan_named m mb j dev)
     \<and> LibMB_Mailbox_sanity_check m (sub_region_base m mb k) \<and> length (cstr dev) < 16
     \<and> h' = fill_handle h mb k (chan_info_of m (sub_region_base m mb k)) (cstr dev)"
proof (induction m mb dev i d h rule: getdevctx_loop.induct)
  case (1 m mb dev i d h)
  let ?info = "chan_info_of m (sub_region_base m mb i)"
  have lt: "i < mb_reg m mb Num_of_sub_region"
    using "1.prems" by (auto simp: getdevctx_loop.simps [of m mb dev i d h] errno_defs split: if_splits)
  obtain nRet d' where get: "LibMB_Get_ChanInfo m mb i (Some d) = (nRet, d')"
    by fastforce
  have ret: "nRet = 0"
    using "1.prems" lt get
    by (auto simp: getdevctx_loop.simps [of m mb dev i d h] errno_defs split: if_splits)
  note gc = Get_ChanInfo_cases [OF get ret]
  have nm: "strncmp_eq (unat MB_NAME_SZ) dev (ch_name ?info) = chan_named m mb i dev"
    by (simp add: strncmp_eq_iff chan_named_def MB_NAME_SZ_def)
  have step: "getdevctx_loop m mb dev i d h =
      (if chan_named m mb i dev
       then if length (cstr dev) \<ge> 16 then (- ENAMETOOLONG, h\<lparr>h_dev := take 15 (cstr dev)\<rparr>)
            else (RTSS_MB_RETURN_SUCCESS, fill_handle h mb i ?info (take 15 (cstr dev)))
       else getdevctx_loop m mb dev (i + 1) ?info h)"
    using lt get ret gc(1)
    by (simp add: getdevctx_loop.simps [of m mb dev i d h] RTSS_MB_RETURN_SUCCESS_def Let_def
        nm strlcpy_def RTSS_MAILBOX_NAME_SIZE_def)
  show ?case
  proof (cases "chan_named m mb i dev")
    case True
    then show ?thesis
      using "1.prems" step lt gc(5) by (intro exI [of _ i]) (auto simp: errno_defs split: if_splits)
  next
    case False
    have inc: "unat (i + 1) = unat i + 1"
      using lt unat_lt [of "mb_reg m mb Num_of_sub_region"]
      by (subst unat_add_small) (simp_all add: word_less_nat_alt)
    have "\<exists>k. i + 1 \<le> k \<and> k < mb_reg m mb Num_of_sub_region
       \<and> chan_named m mb k dev \<and> (\<forall>j. i + 1 \<le> j \<longrightarrow> j < k \<longrightarrow> \<not> chan_named m mb j dev)
       \<and> LibMB_Mailbox_sanity_check m (sub_region_base m mb k) \<and> length (cstr dev) < 16
       \<and> h' = fill_handle h mb k (chan_info_of m (sub_region_base m mb k)) (cstr dev)"
      using "1.IH" [OF lt get [symmetric]] ret gc(1) False step "1.prems" nm
      by (auto simp: RTSS_MB_RETURN_SUCCESS_def)
    moreover have "i + 1 \<le> j \<longleftrightarrow> i < j" for j
      by (simp add: word_le_nat_alt word_less_nat_alt inc Suc_le_eq)
    ultimately show ?thesis
      using False by (metis le_less)
  qed
qed

lemma chan_info_mode:
  "ch_mode (chan_info_of m b) = (if sub_reg m b Sub_mode = 0 then 1 else 0)"
  by (simp add: chan_info_of_def Let_def MB_LIB_TYPE_def MB_LIB_OWNER_def MB_CHAN_RD_MODE_def
      MB_CHAN_WR_MODE_def)

text \<open>The handle a successful open returns describes the first channel of that name.\<close>

definition handle_for :: "platform \<Rightarrow> mem \<Rightarrow> u8 list \<Rightarrow> rtss_mb_handle \<Rightarrow> bool" where
  "handle_for p m dev h \<longleftrightarrow> (let mb = h_p_mb_base_addr h; i = h_subregion_index h;
       d = chan_info_of m (sub_region_base m mb i)
     in i < mb_reg m mb Num_of_sub_region \<and> mb_reg m mb Mb_magic = MB_MAGIC_NUMBER
      \<and> LibMB_Mailbox_sanity_check m (sub_region_base m mb i)
      \<and> chan_named m mb i dev \<and> (\<forall>j < i. \<not> chan_named m mb j dev)
      \<and> h_dev h = cstr dev \<and> length (cstr dev) < 16
      \<and> h_mode h = ch_mode d \<and> h_client_id h = ch_receiver d \<and> h_sender h = ch_sender d
      \<and> h_prot h = ch_prot d \<and> h_signal_id h = ch_sig d
      \<and> h_subchan_item_size h = ch_max_item_size d)"

lemma open_finish_handle:
  assumes "open_finish p h mb sz nFd w = ((r, Some h'), w')"
  shows "r = 0" "h_fd h' = nFd" "h_mode h' = RTSS_MB_MODE_RX p \<or> h_mode h' = RTSS_MB_MODE_TX p"
    "\<exists>e. h' = h\<lparr>h_event_fd := e, h_fd := nFd\<rparr>"
  using assms by (auto simp: open_finish_def Let_def errno_defs split: if_splits prod.splits)

lemma open_mapped_handle:
  assumes "open_mapped p dev mb sz nFd w = ((r, Some h), w')"
  shows "r = 0 \<and> h_fd h = nFd \<and> handle_for p (w_mem w) dev h
    \<and> h_p_mb_base_addr h = mb \<and> h_mb_size h = sz
    \<and> (h_mode h = RTSS_MB_MODE_RX p \<or> h_mode h = RTSS_MB_MODE_TX p)"
proof -
  let ?h0 = "zero_handle\<lparr>h_fd := -1, h_event_fd := -1\<rparr>"
  obtain nRet h1 where g: "getdevctx_loop (w_mem w) mb dev 0 zero_chan_desc ?h0 = (nRet, h1)"
    by fastforce
  have val: "mb \<noteq> 0" "mb_reg (w_mem w) mb Mb_magic = MB_MAGIC_NUMBER"
    using assms by (auto simp: open_mapped_def LibMB_Validate_def errno_defs split: if_splits)
  then have dev: "rtssmb_getdevctx (w_mem w) mb (Some ?h0) (Some dev) = (nRet, Some h1)"
    using g by (simp add: rtssmb_getdevctx_def)
  then have ok: "nRet = RTSS_MB_RETURN_SUCCESS"
    and fin: "open_finish p (h1\<lparr>h_mb_size := sz\<rparr>) mb sz nFd w = ((r, Some h), w')"
    using assms by (auto simp: open_mapped_def split: if_splits)
  obtain k where k: "k < mb_reg (w_mem w) mb Num_of_sub_region" "chan_named (w_mem w) mb k dev"
    "\<forall>j < k. \<not> chan_named (w_mem w) mb j dev" "length (cstr dev) < 16"
    "LibMB_Mailbox_sanity_check (w_mem w) (sub_region_base (w_mem w) mb k)"
    and h1: "h1 = fill_handle ?h0 mb k (chan_info_of (w_mem w) (sub_region_base (w_mem w) mb k)) (cstr dev)"
    using getdevctx_loop_found [OF g ok] by auto
  obtain e where h: "h = h1\<lparr>h_mb_size := sz, h_event_fd := e, h_fd := nFd\<rparr>"
    using open_finish_handle(4) [OF fin] by auto
  show ?thesis
    using open_finish_handle(1-3) [OF fin] k val(2)
    by (simp add: handle_for_def Let_def h h1 fill_handle_def)
qed

text \<open>The memory after the first \<open>n\<close> system calls.\<close>

definition mem_after :: "platform \<Rightarrow> world \<Rightarrow> nat \<Rightarrow> mem" where
  "mem_after p w n = fold (\<lambda>k m. a_peer (answer p (w_now w + k)) m) [0..<n] (w_mem w)"

lemma mem_after_simps:
  "mem_after p w 0 = w_mem w"
  "mem_after p w (Suc n) = a_peer (answer p (w_now w + n)) (mem_after p w n)"
  by (simp_all add: mem_after_def)

lemma rtss_mb_open_Some:
  assumes "rtss_mb_open p g (Some d) w = ((r, Some h), w')"
  obtains w1 where "open_mapped p d (h_p_mb_base_addr h) (h_mb_size h) (h_fd h) w1 = ((r, Some h), w')"
    "h_fd h \<noteq> -1" "w_mem w1 = mem_after p w 4"
proof -
  obtain a wa where a: "sys p Sys_calloc w = (a, wa)" by fastforce
  obtain b wb where b: "sys p Sys_open wa = (b, wb)" by fastforce
  obtain c wc where c: "sys p (Sys_ioctl (a_ret b) RTSS_MB_GET_MB_REGION None) wb = (c, wc)"
    by fastforce
  obtain e we where e: "sys p (Sys_mmap (a_size c) (a_ret b)) wc = (e, we)" by fastforce
  have "open_mapped p d (nat (a_ret e)) (a_size c) (a_ret b) we = ((r, Some h), w')" and "a_ret b \<noteq> -1"
    using assms by (auto simp: rtss_mb_open_def Let_def a b c e split: if_splits)
  moreover from this have "h_p_mb_base_addr h = nat (a_ret e)" "h_mb_size h = a_size c" "h_fd h = a_ret b"
    using open_mapped_handle by blast+
  moreover have "w_mem we = mem_after p w 4"
    using a b c e by (auto simp: sys_def Let_def mem_after_simps numeral_eq_Suc)
  ultimately show ?thesis
    by (intro that [of we]) simp_all
qed

section \<open>Writes and reads through a handle\<close>

text \<open>A handle on a usable channel whose ring is smaller than 2 GiB, so that byte counts fit
  the \<open>int\<close> results.\<close>

definition handle_ok :: "mem \<Rightarrow> rtss_mb_handle \<Rightarrow> bool" where
  "handle_ok m h \<longleftrightarrow> 0 \<le> h_fd h \<and> chan_ok m (h_p_mb_base_addr h) (h_subregion_index h)
     \<and> chan_sz m (h_p_mb_base_addr h) (h_subregion_index h) = unat (h_subchan_item_size h)
     \<and> chan_N m (h_p_mb_base_addr h) (h_subregion_index h) * unat (h_subchan_item_size h) < 2 ^ 31"

definition h_items :: "mem \<Rightarrow> rtss_mb_handle \<Rightarrow> u8 list list" where
  "h_items m h = chan_items m (h_p_mb_base_addr h) (h_subregion_index h)"

definition h_free :: "mem \<Rightarrow> rtss_mb_handle \<Rightarrow> nat" where
  "h_free m h = chan_free m (h_p_mb_base_addr h) (h_subregion_index h)"

definition h_isz :: "rtss_mb_handle \<Rightarrow> nat" where
  "h_isz h = unat (h_subchan_item_size h)"

text \<open>A buffer of the caller lies outside the mailbox of the handle.\<close>

definition buf_ok :: "mem \<Rightarrow> rtss_mb_handle \<Rightarrow> addr \<Rightarrow> nat \<Rightarrow> bool" where
  "buf_ok m h buf n \<longleftrightarrow> buf \<noteq> 0 \<and> disjoint buf n (h_p_mb_base_addr h)
     (chan_extent m (h_p_mb_base_addr h) (h_subregion_index h))"

lemma unat_ucast_u32 [simp]: "unat (ucast x :: u64) = unat x" for x :: u32
proof -
  have "unat x < 2 ^ 64"
    using unat_lt [of x] by simp
  then show ?thesis
    by (simp add: unsigned_ucast_eq unsigned_take_bit_eq take_bit_nat_eq_self)
qed

lemma item_bytes_unat:
  assumes "k * unat s < 2 ^ 31" "k \<le> 2 ^ 20"
  shows "unat (item_bytes (int k) s) = k * unat s"
proof -
  have "unat (word_of_int (int k) :: u32) = k"
    using assms(2) by (simp add: unat_of_nat_small)
  then show ?thesis
    using assms(1) unfolding item_bytes_def by (subst unat_mult_small) simp_all
qed

lemma int_of_u64_small: "unat x < 2 ^ 31 \<Longrightarrow> int_of_u64 x = int (unat x)"
proof -
  assume x: "unat x < 2 ^ 31"
  then have "unat (ucast x :: u32) = unat x"
    by (simp add: unsigned_ucast_eq unsigned_take_bit_eq take_bit_nat_eq_self)
  then show ?thesis
    using x i32_small [of "ucast x"] by (simp add: int_of_u64_def i32_def)
qed

lemma item_bytes_int:
  "k * unat s < 2 ^ 31 \<Longrightarrow> k \<le> 2 ^ 20 \<Longrightarrow> int_of_u64 (item_bytes (int k) s) = int (k * unat s)"
  using item_bytes_unat [of k s] by (simp add: int_of_u64_small)

lemma handle_okD:
  assumes "handle_ok m h"
  shows "chan_ok m (h_p_mb_base_addr h) (h_subregion_index h)" "0 \<le> h_fd h"
    "h_subchan_item_size h \<noteq> 0" "0 < h_isz h"
    "chan_N m (h_p_mb_base_addr h) (h_subregion_index h) \<le> 2 ^ 20"
    "LibMB_Validate m (h_p_mb_base_addr h) = 0"
  using assms chan_ok_ring(4,5) [of m "h_p_mb_base_addr h" "h_subregion_index h"]
  by (auto simp: handle_ok_def h_isz_def LibMB_Validate_def chan_ok_def errno_defs)

lemma handle_count_small:
  assumes "handle_ok m h" "k \<le> chan_N m (h_p_mb_base_addr h) (h_subregion_index h)"
  shows "k \<le> 2 ^ 20" "k * h_isz h < 2 ^ 31" "k * unat (h_subchan_item_size h) < 2 ^ 31"
proof -
  have "chan_N m (h_p_mb_base_addr h) (h_subregion_index h) * h_isz h < 2 ^ 31"
    using assms(1) by (simp add: handle_ok_def h_isz_def)
  then show "k * h_isz h < 2 ^ 31" "k * unat (h_subchan_item_size h) < 2 ^ 31"
    using mult_le_mono1 [OF assms(2), of "h_isz h"] unfolding h_isz_def by linarith+
  show "k \<le> 2 ^ 20"
    using handle_okD(5) [OF assms(1)] assms(2) by linarith
qed

lemma chan_extent_alt:
  "chan_extent m mb i = sub_region_base m mb i - mb + (56 + chan_N m mb i * chan_sz m mb i)"
  by (simp add: chan_extent_def ring_size_def chan_N_def chan_sz_def)

lemma rtss_mb_write_batch_full:
  assumes "handle_ok m h" "h_mode h = RTSS_MB_MODE_TX p" "buf \<noteq> 0" "sz \<noteq> 0"
    "h_free m h * h_isz h < unat sz"
  shows "rtss_mb_write_batch p (Some h) buf sz m = (- ENOBUFS, m)"
proof -
  note hd = handle_okD [OF assms(1)]
  have "h_free m h \<le> chan_N m (h_p_mb_base_addr h) (h_subregion_index h)"
    by (simp add: h_free_def chan_free_def)
  note sm = handle_count_small [OF assms(1) this]
  have "item_bytes (int (h_free m h)) (h_subchan_item_size h) < sz"
    using item_bytes_unat [OF sm(3,1)] assms(5) by (simp add: word_less_nat_alt h_isz_def)
  then show ?thesis
    using assms(2-4) hd LibMB_counts(2) [OF hd(1)]
    by (simp add: rtss_mb_write_batch_def Let_def errno_defs h_free_def)
qed

lemma rtss_mb_write_batch_ok:
  assumes ok: "handle_ok m h" and mode: "h_mode h = RTSS_MB_MODE_TX p" and sz: "sz \<noteq> 0"
    and fit: "unat sz \<le> h_free m h * h_isz h"
    and buf: "buf_ok m h buf (unat sz)"
  obtains m' where
    "rtss_mb_write_batch p (Some h) buf sz m = (int (unat sz div h_isz h * h_isz h), m')"
    "h_items m' h = h_items m h @
      map (\<lambda>j. bytes_at m (buf + j * h_isz h) (h_isz h)) [0..<unat sz div h_isz h]"
    "handle_ok m' h"
    "\<And>a k. disjoint (h_p_mb_base_addr h)
       (chan_extent m (h_p_mb_base_addr h) (h_subregion_index h)) a k \<Longrightarrow> same_on a k m m'"
    "chan_extent m' (h_p_mb_base_addr h) (h_subregion_index h) =
     chan_extent m (h_p_mb_base_addr h) (h_subregion_index h)"
proof -
  let ?mb = "h_p_mb_base_addr h" and ?i = "h_subregion_index h" and ?s = "h_isz h"
  define k where "k = unat sz div ?s"
  note hd = handle_okD [OF ok]
  have N: "h_free m h < chan_N m ?mb ?i"
    using chan_ok_ring(3) [OF hd(1)] by (simp add: h_free_def chan_free_def)
  have k: "k \<le> h_free m h" "k * ?s \<le> unat sz"
    using fit div_le_mono [OF fit, of ?s] hd(4) by (simp_all add: k_def)
  have sm: "h_free m h \<le> 2 ^ 20" "h_free m h * unat (h_subchan_item_size h) < 2 ^ 31"
    "k \<le> 2 ^ 20" "k * unat (h_subchan_item_size h) < 2 ^ 31"
    using handle_count_small [OF ok less_imp_le [OF N]]
      handle_count_small [OF ok order_trans [OF k(1) less_imp_le [OF N]]] by simp_all
  have div: "unat (sz div ucast (h_subchan_item_size h)) = k"
    by (simp add: unat_div k_def h_isz_def)
  then have cnt: "int_of_u64 (sz div ucast (h_subchan_item_size h)) = int k"
    using sm(3) by (simp add: int_of_u64_small)
  have nk: "unat (word_of_int (int k) :: u32) = k"
    using sm(3) by (simp add: unat_of_nat_small)
  have room: "\<not> item_bytes (int (h_free m h)) (h_subchan_item_size h) < sz"
    using item_bytes_unat [OF sm(2,1)] fit by (simp add: word_less_nat_alt h_isz_def)
  have s: "chan_sz m ?mb ?i = ?s"
    using ok by (simp add: handle_ok_def h_isz_def)
  have "disjoint buf (k * ?s) ?mb (chan_extent m ?mb ?i)" "buf \<noteq> 0"
    using buf k(2) by (auto simp: buf_ok_def disjoint_def)
  moreover have "k + length (chan_items m ?mb ?i) < chan_N m ?mb ?i"
    using k(1) chan_ok_ring(3) [OF hd(1)] by (simp add: h_free_def chan_free_def)
  ultimately obtain m' where w: "LibMB_Write m ?mb buf (word_of_int (int k)) ?i = (int k, m')"
    and it: "chan_items m' ?mb ?i = chan_items m ?mb ?i @
      map (\<lambda>j. bytes_at m (buf + j * ?s) ?s) [0..<k]"
    and c: "chan_ok m' ?mb ?i" "chan_N m' ?mb ?i = chan_N m ?mb ?i" "chan_sz m' ?mb ?i = ?s"
      "sub_region_base m' ?mb ?i = sub_region_base m ?mb ?i"
    and fr: "\<And>a k. disjoint (sub_region_base m ?mb ?i) (ring_size m (sub_region_base m ?mb ?i)) a k \<Longrightarrow>
      same_on a k m m'"
    using LibMB_Write_ok [OF hd(1), of buf "word_of_int (int k)"] unfolding nk s by metis
  have "rtss_mb_write_batch p (Some h) buf sz m = (int (k * ?s), m')"
    using mode sz hd \<open>buf \<noteq> 0\<close> LibMB_counts(2) [OF hd(1)] room w item_bytes_int [OF sm(4,3)]
    by (simp add: rtss_mb_write_batch_def Let_def errno_defs h_free_def cnt h_isz_def)
  moreover have "handle_ok m' h"
    using ok c by (simp add: handle_ok_def h_isz_def)
  moreover have "chan_extent m' ?mb ?i = chan_extent m ?mb ?i"
    using c s by (simp add: chan_extent_alt)
  moreover have "same_on a k m m'" if "disjoint ?mb (chan_extent m ?mb ?i) a k" for a k
    using that hd(1) by (intro fr) (auto simp: disjoint_def chan_extent_def chan_ok_def)
  ultimately show ?thesis
    using it by (intro that [of m']) (simp_all add: h_items_def k_def)
qed

lemma read_items_ok:
  assumes ok: "handle_ok m h" and sz: "h_isz h \<le> unat sz" and buf: "buf_ok m h buf (unat sz)"
  defines "k \<equiv> min (unat sz div h_isz h) (length (h_items m h))"
  obtains m' where
    "read_items h buf sz (int (length (h_items m h))) m = (int (k * h_isz h), m')"
    "h_items m' h = drop k (h_items m h)"
    "bytes_at m' buf (k * h_isz h) = concat (take k (h_items m h))"
    "handle_ok m' h" "\<And>a n. buf_ok m' h a n = buf_ok m h a n"
proof -
  let ?mb = "h_p_mb_base_addr h" and ?i = "h_subregion_index h" and ?s = "h_isz h"
  let ?c = "length (h_items m h)"
  note hd = handle_okD [OF ok]
  have cN: "?c \<le> chan_N m ?mb ?i"
    using chan_ok_ring(3) [OF hd(1)] by (simp add: h_items_def)
  note sm = handle_count_small [OF ok cN]
  have kc: "k \<le> ?c" "k * ?s \<le> unat sz"
    by (auto simp: k_def min_le_iff_disj intro: order_trans [OF mult_le_mono1 [OF min.cobounded1]])
  have ks: "k \<le> 2 ^ 20" "k * unat (h_subchan_item_size h) < 2 ^ 31"
    using handle_count_small [OF ok order_trans [OF kc(1) cN]] by simp_all
  define n where "n = (if item_bytes (int ?c) (h_subchan_item_size h) > sz
      then int_of_u64 (sz div ucast (h_subchan_item_size h)) else int ?c)"
  have n: "n = int k"
  proof (cases "item_bytes (int ?c) (h_subchan_item_size h) > sz")
    case True
    then have lt: "unat sz < ?c * ?s"
      using item_bytes_unat [OF sm(3,1)] by (simp add: word_less_nat_alt h_isz_def)
    then have le: "unat sz div ?s \<le> ?c"
      using div_le_mono [of "unat sz" "?c * ?s" ?s] hd(4) by simp
    have "unat (sz div ucast (h_subchan_item_size h)) = unat sz div ?s"
      by (simp add: unat_div h_isz_def)
    then show ?thesis
      using True le sm(1) by (simp add: n_def k_def int_of_u64_small)
  next
    case False
    then have "?c * ?s \<le> unat sz"
      using item_bytes_unat [OF sm(3,1)] by (simp add: word_less_nat_alt h_isz_def)
    then have "?c \<le> unat sz div ?s"
      using hd(4) by (simp add: less_eq_div_iff_mult_less_eq)
    then show ?thesis
      using False by (simp add: n_def k_def)
  qed
  have nk: "unat (word_of_int (int k) :: u32) = k"
    using ks(1) by (simp add: unat_of_nat_small)
  have s: "chan_sz m ?mb ?i = ?s"
    using ok by (simp add: handle_ok_def h_isz_def)
  have mk: "min k (length (chan_items m ?mb ?i)) = k"
    using kc(1) by (simp add: h_items_def)
  have "disjoint buf (k * ?s) ?mb (chan_extent m ?mb ?i)" "buf \<noteq> 0"
    using buf kc(2) by (auto simp: buf_ok_def disjoint_def)
  then obtain m' where r: "LibMB_Read m ?mb buf (word_of_int (int k)) ?i = (int k, m')"
    and it: "chan_items m' ?mb ?i = drop k (chan_items m ?mb ?i)"
    and bt: "bytes_at m' buf (k * ?s) = concat (take k (chan_items m ?mb ?i))"
    and c: "chan_ok m' ?mb ?i" "chan_N m' ?mb ?i = chan_N m ?mb ?i" "chan_sz m' ?mb ?i = ?s"
      "sub_region_base m' ?mb ?i = sub_region_base m ?mb ?i"
    using LibMB_Read_ok [OF hd(1), of buf "word_of_int (int k)"] unfolding nk s mk by metis
  have "read_items h buf sz (int ?c) m = (int (k * ?s), m')"
    using r item_bytes_int [OF ks(2,1)]
    by (simp add: read_items_def Let_def n_def [symmetric] n) (simp add: h_isz_def)
  moreover have "handle_ok m' h"
    using ok c by (simp add: handle_ok_def h_isz_def)
  moreover have "buf_ok m' h a n = buf_ok m h a n" for a n
    using c s by (simp add: buf_ok_def chan_extent_alt)
  ultimately show ?thesis
    using it bt by (intro that [of m']) (simp_all add: h_items_def)
qed

text \<open>A read that finds items returns them at once, without a system call.\<close>

lemma rtss_mb_read_timed_now:
  assumes ok: "handle_ok (w_mem w) h" and mode: "h_mode h = RTSS_MB_MODE_RX p" and ms: "-1 \<le> ms"
    and sz: "h_isz h \<le> unat sz" and buf: "buf_ok (w_mem w) h buf (unat sz)"
    and some: "h_items (w_mem w) h \<noteq> []"
  defines "k \<equiv> min (unat sz div h_isz h) (length (h_items (w_mem w) h))"
  obtains w' where "rtss_mb_read_timed p (Some h) buf sz ms w = Some (int (k * h_isz h), w')"
    "w_trace w' = w_trace w" "h_items (w_mem w') h = drop k (h_items (w_mem w) h)"
    "bytes_at (w_mem w') buf (k * h_isz h) = concat (take k (h_items (w_mem w) h))"
    "handle_ok (w_mem w') h"
proof -
  let ?c = "length (h_items (w_mem w) h)"
  note hd = handle_okD [OF ok]
  obtain m' where r: "read_items h buf sz (int ?c) (w_mem w) = (int (k * h_isz h), m')"
    "h_items m' h = drop k (h_items (w_mem w) h)"
    "bytes_at m' buf (k * h_isz h) = concat (take k (h_items (w_mem w) h))" "handle_ok m' h"
    using read_items_ok [OF ok sz buf] unfolding k_def by metis
  have "unat sz \<noteq> 0"
    using sz hd(4) by linarith
  then have "sz \<noteq> 0" by auto
  moreover have "\<not> sz < ucast (h_subchan_item_size h)" "buf \<noteq> 0"
    using sz buf by (simp_all add: word_less_nat_alt h_isz_def buf_ok_def)
  moreover have "read_wait p h ms (int ?c) w = Some (Inr (int ?c), w)"
    using some by (subst read_wait.simps) simp
  ultimately have "rtss_mb_read_timed p (Some h) buf sz ms w =
      Some (int (k * h_isz h), w\<lparr>w_mem := m'\<rparr>)"
    using hd mode ms r(1) LibMB_counts(1) [OF hd(1)]
    by (simp add: rtss_mb_read_timed_def Let_def h_items_def)
  then show ?thesis
    using r by (intro that [of "w\<lparr>w_mem := m'\<rparr>"]) simp_all
qed

section \<open>Waiting\<close>

lemma sys_now: "sys p c w = (a, w') \<Longrightarrow> w_now w' = Suc (w_now w) \<and> a = answer p (w_now w)"
  by (auto simp: sys_def Let_def)

lemma read_wait_returns:
  assumes "\<forall>k \<ge> K. a_ret (answer p k) \<in> {0, -1}"
  shows "\<exists>r. read_wait p h ms n w = Some r"
proof (induction "K - w_now w" arbitrary: n w rule: less_induct)
  case less
  obtain a w1 where poll: "sys p (Sys_poll (h_event_fd h) ms) w = (a, w1)"
    by fastforce
  obtain b w2 where rd: "sys p (Sys_eventfd_read (h_event_fd h)) w1 = (b, w2)"
    by fastforce
  note now = sys_now [OF poll] sys_now [OF rd]
  show ?case
  proof (cases "n = 0 \<and> a_ret a \<notin> {0, -1}")
    case True
    then have "w_now w < K"
      using assms now by (metis not_le)
    then have IH: "\<exists>r. read_wait p h ms k w1 = Some r" "\<exists>r. read_wait p h ms k w2 = Some r" for k
      using now by (intro less; linarith)+
    show ?thesis
      using True poll rd IH
      by (subst read_wait.simps) (simp add: Let_def)
  next
    case False
    then show ?thesis
      by (subst read_wait.simps) (auto simp: poll)
  qed
qed

lemma rtss_mb_read_timed_returns:
  assumes "\<forall>k \<ge> K. a_ret (answer p k) \<in> {0, -1}"
  shows "\<exists>r. rtss_mb_read_timed p handle buf sz ms w = Some r"
proof -
  have "\<exists>r. rtss_mb_read_timed p (Some h) buf sz ms w = Some r" for h
  proof -
    obtain r where "read_wait p h ms
        (LibMB_Get_ValidItemNum (w_mem w) (h_p_mb_base_addr h) (h_subregion_index h)) w = Some r"
      using read_wait_returns [OF assms] by blast
    then show ?thesis
      by (cases r; cases "fst r") (auto simp: rtss_mb_read_timed_def Let_def split: prod.splits)
  qed
  then show ?thesis
    by (cases handle) (auto simp: rtss_mb_read_timed_def)
qed

text \<open>With an empty ring, a poll that times out ends the read.\<close>

lemma rtss_mb_read_timed_timeout:
  assumes ok: "handle_ok (w_mem w) h" and mode: "h_mode h = RTSS_MB_MODE_RX p" and ms: "-1 \<le> ms"
    and sz: "h_isz h \<le> unat sz" and buf: "buf \<noteq> 0" and empty: "h_items (w_mem w) h = []"
    and poll: "a_ret (answer p (w_now w)) = 0"
  shows "\<exists>w'. rtss_mb_read_timed p (Some h) buf sz ms w = Some (- ETIMEDOUT, w')
    \<and> w_trace w' = w_trace w @ [(Sys_poll (h_event_fd h) ms, 0)]"
proof -
  note hd = handle_okD [OF ok]
  have "unat sz \<noteq> 0"
    using sz hd(4) by linarith
  then have "sz \<noteq> 0" "\<not> sz < ucast (h_subchan_item_size h)"
    using sz by (auto simp: word_less_nat_alt h_isz_def)
  moreover have "read_wait p h ms 0 w = Some (Inl (- ETIMEDOUT), snd (sys p (Sys_poll (h_event_fd h) ms) w))"
    using poll by (subst read_wait.simps) (simp add: sys_def Let_def)
  ultimately show ?thesis
    using hd mode ms buf empty LibMB_counts(1) [OF hd(1)] poll
    by (simp add: rtss_mb_read_timed_def Let_def h_items_def) (simp add: sys_def Let_def)
qed

section \<open>Statistics and reset\<close>

lemma rtss_mb_get_chan_stat_ok:
  assumes ok: "handle_ok m h"
  shows "rtss_mb_get_chan_stat p (Some h) (Some inf0) m = (RTSS_MB_RETURN_SUCCESS, Some
    \<lparr>isz = int (h_isz h),
     tsz = int (chan_N m (h_p_mb_base_addr h) (h_subregion_index h) * h_isz h),
     icnt = int ((if h_mode h = RTSS_MB_MODE_TX p then h_free m h else length (h_items m h)) * h_isz h),
     evcnt = 0\<rparr>)"
proof -
  let ?mb = "h_p_mb_base_addr h" and ?i = "h_subregion_index h"
  note hd = handle_okD [OF ok] and cnt = LibMB_counts [OF handle_okD(1) [OF ok]]
  have le: "h_free m h \<le> chan_N m ?mb ?i" "length (h_items m h) \<le> chan_N m ?mb ?i"
    using chan_ok_ring(3) [OF hd(1)] by (simp_all add: h_free_def chan_free_def h_items_def)
  note sm = handle_count_small [OF ok le(1)] handle_count_small [OF ok le(2)]
    handle_count_small [OF ok order_refl]
  have "0 < chan_N m ?mb ?i"
    using chan_ok_ring(3) [OF hd(1)] by simp
  then have "h_isz h < 2 ^ 31"
    using sm(8) by (metis One_nat_def Suc_leI le_less_trans mult.commute mult_le_mono2 mult.right_neutral)
  then have i1: "i32 (h_subchan_item_size h) = int (h_isz h)"
    by (simp add: i32_small h_isz_def)
  have info: "LibMB_Get_ChanInfo m ?mb ?i (Some zero_chan_desc) =
      (0, Some (chan_info_of m (sub_region_base m ?mb ?i)))"
    using hd(1) chan_ok_ring(2) [OF hd(1)] by (simp add: LibMB_Get_ChanInfo_def chan_ok_def Let_def)
  have "unat (ucast (ch_max_item_num (chan_info_of m (sub_region_base m ?mb ?i))) *
      (ucast (h_subchan_item_size h) :: u64)) = chan_N m ?mb ?i * h_isz h"
    using sm(8) by (subst unat_mult_small)
      (simp_all add: chan_info_of_def Let_def chan_N_def ring_N_def h_isz_def)
  then have i2: "int_of_u64 (ucast (ch_max_item_num (chan_info_of m (sub_region_base m ?mb ?i))) *
      ucast (h_subchan_item_size h)) = int (chan_N m ?mb ?i * h_isz h)"
    using sm(8) by (simp add: int_of_u64_small)
  show ?thesis
    using hd info i1 i2 cnt item_bytes_int [OF sm(3,1)] item_bytes_int [OF sm(6,4)]
    by (simp add: rtss_mb_get_chan_stat_def Let_def errno_defs h_free_def h_items_def h_isz_def)
qed

lemma rtss_mb_chan_reset_ok:
  assumes ok: "handle_ok m h"
  obtains m' where "rtss_mb_chan_reset (Some h) m = (RTSS_MB_RETURN_SUCCESS, m')"
    "h_items m' h = []" "handle_ok m' h"
    "h_free m' h = chan_N m (h_p_mb_base_addr h) (h_subregion_index h) - 1"
proof -
  note hd = handle_okD [OF ok]
  obtain m' where "LibMB_ChanReset m (h_p_mb_base_addr h) (h_subregion_index h) = (0, m')"
    "chan_items m' (h_p_mb_base_addr h) (h_subregion_index h) = []"
    "chan_ok m' (h_p_mb_base_addr h) (h_subregion_index h)"
    "chan_N m' (h_p_mb_base_addr h) (h_subregion_index h) = chan_N m (h_p_mb_base_addr h) (h_subregion_index h)"
    "chan_sz m' (h_p_mb_base_addr h) (h_subregion_index h) = chan_sz m (h_p_mb_base_addr h) (h_subregion_index h)"
    using LibMB_ChanReset_ok [OF hd(1)] by metis
  then show ?thesis
    using hd ok by (intro that [of m'])
      (simp_all add: rtss_mb_chan_reset_def errno_defs h_items_def handle_ok_def h_free_def chan_free_def)
qed

end
