(* ===== verification/Demo_Mailbox.thy ===== *)
theory Demo_Mailbox
  imports Fifo_Channel Mailbox_Props
begin

text \<open>
  A concrete mailbox on which the properties are exercised: one channel of four slots of
  two bytes, created by the library at address 4096 of a zeroed memory, with staging
  buffers below it, and an open handle on each end.
\<close>

definition demo_cfg :: mbconfig_t where
  "demo_cfg = \<lparr>mbc_name = replicate 16 65, mbc_mb_size = 200, mbc_mb_prio = 0,
     mbc_num_sub_regions = 1, mbc_mblocator = 0\<rparr>"

definition demo_sub :: mbsub_rgn_config_t where
  "demo_sub = \<lparr>sc_name = 66 # replicate 15 0, sc_sender = 1, sc_receiver = 2, sc_prot = 3,
     sc_sig = 4, sc_mode = 0, sc_prio = 0, sc_start_addr_offset = 44, sc_end_addr_offset = 107,
     sc_item_max_num = 4, sc_item_max_size = 2\<rparr>"

definition demo_mem :: mem where
  "demo_mem = snd (LibMB_Create (\<lambda>_. 0) 4096 (Some demo_cfg) (Some (\<lambda>_. demo_sub)))"

lemma demo_layout: "layout_ok demo_cfg (\<lambda>_. demo_sub)"
  by (simp add: layout_ok_def cfg_n_def cfg_start_def cfg_end_def cfg_bytes_def demo_cfg_def demo_sub_def)

lemma demo_created: "created demo_mem 4096 demo_cfg (\<lambda>_. demo_sub)"
proof -
  obtain m' where "LibMB_Create (\<lambda>_. 0) 4096 (Some demo_cfg) (Some (\<lambda>_. demo_sub)) = (MB_E_SUCCESS, m')"
    "created m' 4096 demo_cfg (\<lambda>_. demo_sub)"
    by (rule LibMB_Create_spec [OF demo_layout, of 4096 "\<lambda>_. 0"])
      (simp_all add: demo_cfg_def demo_sub_def)
  then show ?thesis by (simp add: demo_mem_def)
qed

lemma demo_chan:
  "chan_ok demo_mem 4096 0" "chan_items demo_mem 4096 0 = []" "chan_N demo_mem 4096 0 = 4"
  "chan_sz demo_mem 4096 0 = 2" "sub_region_base demo_mem 4096 0 = 4140"
proof -
  note c = created_channel [OF demo_created demo_layout, of 0]
  show "chan_ok demo_mem 4096 0" "chan_items demo_mem 4096 0 = []" "chan_N demo_mem 4096 0 = 4"
    "chan_sz demo_mem 4096 0 = 2" "sub_region_base demo_mem 4096 0 = 4140"
    using c by (simp_all add: cfg_n_def demo_cfg_def demo_sub_def MB_MAX_SIZE_def cfg_start_def)
qed

lemma demo_chan_st: "chan_st 4096 0 1024 2048 4 2 4140 demo_mem"
  by (simp add: chan_st_def demo_chan disjoint_def)

lemma demo_extent: "chan_extent demo_mem 4096 0 = 108"
  using demo_chan by (simp add: chan_extent_def ring_size_def chan_N_def chan_sz_def)

text \<open>The same memory after one item has been written.\<close>

definition demo_mem1 :: mem where
  "demo_mem1 = snd (chan_put 4096 0 1024 [[7, 8]] demo_mem)"

lemma demo_chan_st1: "chan_st 4096 0 1024 2048 4 2 4140 demo_mem1"
  and demo_items1: "chan_items demo_mem1 4096 0 = [[7, 8]]"
proof -
  obtain b m' where p: "chan_put 4096 0 1024 [[7, 8]] demo_mem = (b, m')"
    by fastforce
  have "chan_batch_ok 4 2 [[7, 8 :: u8]]"
    by (simp add: chan_batch_ok_def)
  then have "b \<and> chan_items m' 4096 0 = [[7, 8]] \<and> chan_st 4096 0 1024 2048 4 2 4140 m'"
    using chan_put_spec(1) [OF demo_chan_st _ p] by (simp add: demo_chan)
  then show "chan_st 4096 0 1024 2048 4 2 4140 demo_mem1" "chan_items demo_mem1 4096 0 = [[7, 8]]"
    by (simp_all add: demo_mem1_def p)
qed

definition demo_platform :: platform where
  "demo_platform = \<lparr>answer = (\<lambda>k. \<lparr>a_ret = 0, a_err = 0, a_size = 0, a_addr = 0, a_revents = 0, a_mode = 0, a_data = [], a_peer = id\<rparr>),
     RTSS_MB_MODE_RX = 0, RTSS_MB_MODE_TX = 1\<rparr>"

definition demo_tx :: rtss_mb_handle where
  "demo_tx = zero_handle\<lparr>h_fd := 3, h_p_mb_base_addr := 4096, h_mb_size := 200,
     h_mode := 1, h_event_fd := -1, h_subchan_item_size := 2\<rparr>"

definition demo_rx :: rtss_mb_handle where
  "demo_rx = demo_tx\<lparr>h_mode := 0, h_event_fd := 4\<rparr>"

lemma demo_handle_simps [simp]:
  "h_p_mb_base_addr demo_tx = 4096" "h_subregion_index demo_tx = 0" "h_mode demo_tx = 1"
  "h_fd demo_tx = 3" "h_subchan_item_size demo_tx = 2" "h_mb_size demo_tx = 200"
  "h_p_mb_base_addr demo_rx = 4096" "h_subregion_index demo_rx = 0" "h_mode demo_rx = 0"
  "h_fd demo_rx = 3" "h_subchan_item_size demo_rx = 2" "h_mb_size demo_rx = 200" "h_event_fd demo_rx = 4"
  "RTSS_MB_MODE_RX demo_platform = 0" "RTSS_MB_MODE_TX demo_platform = 1"
  "a_ret (answer demo_platform k) = 0" "a_peer (answer demo_platform k) = id"
  by (simp_all add: demo_tx_def demo_rx_def zero_handle_def demo_platform_def)

lemma demo_handle_ok: "handle_ok demo_mem demo_tx" "handle_ok demo_mem demo_rx"
  "handle_ok demo_mem1 demo_tx" "handle_ok demo_mem1 demo_rx"
  using demo_chan_st1 by (simp_all add: handle_ok_def demo_chan chan_st_def)

lemma demo_h [simp]: "h_isz demo_tx = 2" "h_isz demo_rx = 2" "h_items demo_mem h = chan_items demo_mem (h_p_mb_base_addr h) (h_subregion_index h)"
  "h_free demo_mem demo_tx = 3"
  by (simp_all add: h_isz_def h_items_def h_free_def chan_free_def demo_chan)

definition demo_world :: "mem \<Rightarrow> world" where
  "demo_world m = \<lparr>w_mem = m, w_now = 0, w_trace = []\<rparr>"

lemma demo_world_simps [simp]: "w_mem (demo_world m) = m" "w_now (demo_world m) = 0"
  "w_trace (demo_world m) = []"
  by (simp_all add: demo_world_def)

lemma demo_extent1: "chan_extent demo_mem1 4096 0 = 108"
  using demo_chan_st1 by (simp add: chan_st_def chan_extent_alt)

end
