(* ===== verification/Ring_Publish.thy ===== *)
theory Ring_Publish
  imports Ring_Buffer
begin

text \<open>
  What another processor can see of a write while it is going on: the stores of
  \<open>LibMB_Write_Item\<close> in their order, each copy stopped after any number of its bytes. As long as the
  write index has not been stored, the ring holds the items that it held before.
\<close>

section \<open>Interrupted stores\<close>

text \<open>The first \<open>k\<close> stores, and of the next one, if it is a copy, the first \<open>j\<close> bytes.\<close>

fun part_store :: "nat \<Rightarrow> ring_store \<Rightarrow> mem \<Rightarrow> mem" where
  "part_store j (Copy_items d s n) m = put_bytes m d (bytes_at m s (min j (unat n)))"
| "part_store j (Set_index a v) m = m"

definition seen_after :: "nat \<Rightarrow> nat \<Rightarrow> ring_store list \<Rightarrow> mem \<Rightarrow> mem" where
  "seen_after k j ss m = (if k < length ss then part_store j (ss ! k) else id) (fold do_store (take k ss) m)"

lemma seen_after_simps [simp]:
  "seen_after 0 j (s # ss) m = part_store j s m"
  "seen_after (Suc k) j (s # ss) m = seen_after k j ss (do_store s m)"
  by (simp_all add: seen_after_def)

text \<open>The whole write is seen when all stores are done.\<close>

lemma seen_after_all: "seen_after (length (write_item_stores m b src n)) j (write_item_stores m b src n) m = LibMB_Write_Item m b src n"
  by (simp add: seen_after_def LibMB_Write_Item_def)

section \<open>Bytes put into free slots\<close>

text \<open>The slots from \<open>a\<close> to \<open>a + k\<close> hold no waiting item.\<close>

definition slots_free :: "mem \<Rightarrow> addr \<Rightarrow> nat \<Rightarrow> nat \<Rightarrow> bool" where
  "slots_free m b a k \<longleftrightarrow> a + k \<le> ring_N m b
     \<and> (\<forall>j < ring_cnt m b. (ring_r m b + j) mod ring_N m b < a \<or> a + k \<le> (ring_r m b + j) mod ring_N m b)"

lemma put_free:
  assumes "slots_free m b a k" "length bs \<le> k * ring_sz m b"
  defines "m' \<equiv> put_bytes m (b + 56 + a * ring_sz m b) bs"
  shows "sub_reg m' b f = sub_reg m b f" "ring_items m' b = ring_items m b"
proof -
  have hdr: "same_on b 56 m m'"
    unfolding m'_def by (intro put_bytes_same_on) (simp add: disjoint_def)
  show reg: "sub_reg m' b f = sub_reg m b f" for f
    by (rule sub_reg_cong [OF hdr])
  note g = ring_geometry_cong [OF reg]
  have "ring_slot m' b i = ring_slot m b i" if "i < a \<or> a + k \<le> i" for i
  proof -
    have "i * ring_sz m b + ring_sz m b \<le> a * ring_sz m b \<or> a * ring_sz m b + k * ring_sz m b \<le> i * ring_sz m b"
      using that mult_block_le [of i a "ring_sz m b"] mult_le_mono1 [of "a + k" i "ring_sz m b"]
      by (auto simp: distrib_right)
    then show ?thesis
      unfolding ring_slot_def slot_at_def g(2) unfolding m'_def using assms(2)
      by (intro bytes_at_put_other) (auto simp: disjoint_def)
  qed
  then show "ring_items m' b = ring_items m b"
    using assms(1) by (auto simp: ring_items_def g slots_free_def)
qed

lemma slots_free_cong: "(\<And>f. sub_reg m' b f = sub_reg m b f) \<Longrightarrow> slots_free m' b a k = slots_free m b a k"
  by (simp add: slots_free_def ring_geometry_cong [of m' b m])

text \<open>What a reader finds does not change.\<close>

definition unseen :: "mem \<Rightarrow> addr \<Rightarrow> mem \<Rightarrow> bool" where
  "unseen m b m' \<longleftrightarrow> (\<forall>f. sub_reg m' b f = sub_reg m b f) \<and> ring_items m' b = ring_items m b"

lemma unseen_refl: "unseen m b m"
  by (simp add: unseen_def)

lemma unseen_put:
  assumes "unseen m b m1" "slots_free m b a k" "length bs \<le> k * ring_sz m b"
  shows "unseen m b (put_bytes m1 (b + 56 + a * ring_sz m b) bs)"
proof -
  have sz: "ring_sz m1 b = ring_sz m b" and free: "slots_free m1 b a k"
    using assms(1,2) slots_free_cong [of m1 b m] by (simp_all add: unseen_def ring_sz_def)
  show ?thesis
    using put_free [OF free, unfolded sz, OF assms(3)] assms(1) by (simp add: unseen_def)
qed

lemma unseen_ok: "unseen m b m' \<Longrightarrow> ring_ok m b \<Longrightarrow> ring_ok m' b"
  using ring_geometry_cong [of m' b m] by (simp add: unseen_def)

section \<open>The order of the stores\<close>

text \<open>The free slots of a write: behind the write index, and at the start after a wrap.\<close>

lemma write_slots_free:
  assumes "ring_ok m b" "unat n + ring_cnt m b < ring_N m b"
  shows "ring_w m b + unat n \<le> ring_N m b \<Longrightarrow> slots_free m b (ring_w m b) (unat n)"
    "ring_N m b < ring_w m b + unat n \<Longrightarrow> slots_free m b (ring_w m b) (ring_N m b - ring_w m b)"
    "ring_N m b < ring_w m b + unat n \<Longrightarrow> slots_free m b 0 (ring_w m b + unat n - ring_N m b)"
proof -
  have w: "ring_w m b < ring_N m b" "ring_r m b < ring_N m b"
    using assms(1) by (simp_all add: ring_ok_def sanity_iff)
  have far: "unat n \<le> ring_dist (ring_N m b) (ring_w m b) ((ring_r m b + j) mod ring_N m b)" if "j < ring_cnt m b" for j
    using ring_dist_waiting [OF w that assms(2)] by simp
  have small: "(ring_r m b + j) mod ring_N m b < ring_N m b" for j
    using w by simp
  show "ring_w m b + unat n \<le> ring_N m b \<Longrightarrow> slots_free m b (ring_w m b) (unat n)"
    "ring_N m b < ring_w m b + unat n \<Longrightarrow> slots_free m b (ring_w m b) (ring_N m b - ring_w m b)"
    "ring_N m b < ring_w m b + unat n \<Longrightarrow> slots_free m b 0 (ring_w m b + unat n - ring_N m b)"
    using far small w assms(2) unfolding slots_free_def ring_dist_alt [OF w(1) small]
    by (fastforce split: if_splits)+
qed

text \<open>A copy into free slots, stopped anywhere or completed, is not seen.\<close>

lemma unseen_part:
  assumes "unseen m b m1" "slots_free m b a k" "unat len = k * ring_sz m b"
  shows "unseen m b (part_store j (Copy_items (b + 56 + a * ring_sz m b) s len) m1)"
  using unseen_put [OF assms(1,2)] assms(3) by simp

lemma unseen_copy:
  assumes "unseen m b m1" "slots_free m b a k" "unat len = k * ring_sz m b" "0 < b" "0 < s"
    "disjoint (b + 56 + a * ring_sz m b) (k * ring_sz m b) s (k * ring_sz m b)"
  shows "unseen m b (do_store (Copy_items (b + 56 + a * ring_sz m b) s len) m1)"
  using unseen_put [OF assms(1,2)] assms(3-6) by (simp add: lmc.copy_block)

lemma write_item_unseen:
  assumes ok: "ring_ok m b" and fit: "unat n + ring_cnt m b < ring_N m b" and src: "src \<noteq> 0"
    and dj: "disjoint src (unat n * ring_sz m b) b (ring_size m b)"
    and k: "k < length (write_item_stores m b src n)"
  shows "unseen m b (seen_after k j (write_item_stores m b src n) m)"
proof -
  have n: "unat n \<le> ring_N m b" using fit by simp
  have guard: "sub_reg m b Max_item_num \<noteq> 0" "sub_reg m b Max_item_size \<noteq> 0"
    "sub_reg m b Item_in_index < sub_reg m b Max_item_num" "0 < b"
    using ok by (auto simp: ring_ok_def sanity_iff ring_sz_def ring_w_def ring_N_def word_less_nat_alt)
  note ix = ring_index_facts [OF ok n, of Item_in_index, simplified, folded ring_w_def ring_N_def ring_sz_def]
  note dj' = ring_block_disjoint_0 [OF dj [unfolded ring_size_def]]
  note free = write_slots_free [OF ok fit]
  let ?set = "Set_index (b + mbsub_rgn_desc_t Item_in_index) ((sub_reg m b Item_in_index + n) mod sub_reg m b Max_item_num)"
  show ?thesis
  proof (cases "ring_w m b + unat n \<le> ring_N m b")
    case True
    let ?c = "Copy_items (b + 56 + ring_w m b * ring_sz m b) src (n * sub_reg m b Max_item_size)"
    have ss: "write_item_stores m b src n = [?c, ?set]"
      using True guard by (auto simp: write_item_stores_def write_item_copies_def Let_def ix(1-5) MB_SUB_REGION_HEADER_SZ_def)
    have "disjoint (b + 56 + ring_w m b * ring_sz m b) (unat n * ring_sz m b) src (unat n * ring_sz m b)"
      using True by (intro dj'(1)) simp_all
    then have "unseen m b (part_store j ?c m)" "unseen m b (do_store ?c m)"
      using src guard(4) unseen_part [OF unseen_refl free(1) [OF True] ix(3)] unseen_copy [OF unseen_refl free(1) [OF True] ix(3)]
      by auto
    moreover have "k = 0 \<or> k = 1"
      using k unfolding ss by auto
    ultimately show ?thesis
      unfolding ss by auto
  next
    case False
    define k1 where "k1 = ring_N m b - ring_w m b"
    define k2 where "k2 = ring_w m b + unat n - ring_N m b"
    let ?len1 = "(sub_reg m b Max_item_num - sub_reg m b Item_in_index) * sub_reg m b Max_item_size"
    let ?len2 = "(sub_reg m b Item_in_index + n - sub_reg m b Max_item_num) * sub_reg m b Max_item_size"
    let ?c = "Copy_items (b + 56 + ring_w m b * ring_sz m b) src ?len1"
    let ?d = "Copy_items (b + 56 + 0 * ring_sz m b) (src + k1 * ring_sz m b) ?len2"
    have wrap: "ring_N m b < ring_w m b + unat n" using False by simp
    have len: "unat ?len1 = k1 * ring_sz m b" "unat ?len2 = k2 * ring_sz m b"
      using ix(4) ix(6) [OF wrap] by (simp_all add: k1_def k2_def)
    have ss: "write_item_stores m b src n = [?c, ?d, ?set]"
      using wrap guard len(1) by (auto simp: write_item_stores_def write_item_copies_def Let_def ix(1-5) MB_SUB_REGION_HEADER_SZ_def)
    have le: "ring_w m b + k1 \<le> ring_N m b" "k1 \<le> unat n" "k2 \<le> ring_N m b" "k1 + k2 \<le> unat n"
      using ix(8) wrap n by (auto simp: k1_def k2_def)
    have d: "disjoint (b + 56 + ring_w m b * ring_sz m b) (k1 * ring_sz m b) src (k1 * ring_sz m b)"
      "disjoint (b + 56 + 0 * ring_sz m b) (k2 * ring_sz m b) (src + k1 * ring_sz m b) (k2 * ring_sz m b)"
      using dj'(1) [OF le(1,2)] dj'(2) [OF le(3,4)] by simp_all
    have c: "unseen m b (part_store j ?c m)" "unseen m b (do_store ?c m)"
      using src guard(4) d(1) unseen_part [OF unseen_refl free(2) [OF wrap, folded k1_def] len(1)]
        unseen_copy [OF unseen_refl free(2) [OF wrap, folded k1_def] len(1)] by auto
    have e: "unseen m b (part_store j ?d (do_store ?c m))" "unseen m b (do_store ?d (do_store ?c m))"
      using src guard(4) d(2) unseen_part [OF c(2) free(3) [OF wrap, folded k2_def] len(2)]
        unseen_copy [OF c(2) free(3) [OF wrap, folded k2_def] len(2)] by auto
    have "k = 0 \<or> k = 1 \<or> k = 2"
      using k unfolding ss by auto
    then show ?thesis
      unfolding ss using c e by (auto simp: numeral_2_eq_2)
  qed
qed

end
