(* ===== verification/Mailbox_Claims.thy ===== *)
theory Mailbox_Claims
  imports Demo_Mailbox Ring_Publish
begin

text \<open>
  The properties of the mailbox: the ring and the library (\<open>rtss_mailbox_lib.c\<close>), then the
  client API (\<open>rtss_mailbox.c\<close>). Each is applied to the concrete mailbox of
  \<open>Demo_Mailbox\<close> by its witness.
\<close>

section \<open>The library\<close>

text \<open>C2: Over any run of writes and reads on a channel, the items that waited at the start
  followed by the items accepted by \<open>LibMB_Write\<close> are exactly the items delivered by
  \<open>LibMB_Read\<close> followed by those still waiting: nothing is lost, duplicated or reordered,
  and the channel stays usable.\<close>

theorem mailbox_channel_fifo:
  assumes "chan_st mb i src dst N sz base m"
    and "ops_ok (chan_batch_ok N sz) ops"
    and "chan_run (chan_put mb i src) (chan_get mb i dst N sz) ops m = (acc, out, m')"
  shows "chan_items m mb i @ acc = out @ chan_items m' mb i \<and> chan_st mb i src dst N sz base m'"
  using assms by (rule mbx.stream)

theorem mailbox_channel_fifo_witness:
  "\<exists>acc out m'. chan_run (chan_put 4096 0 1024) (chan_get 4096 0 2048 4 2)
      [Put [[1, 2], [3, 4]], Get 1, Put [[5, 6], [7, 8], [9, 10]], Get 4] demo_mem = (acc, out, m')
    \<and> acc = out @ chan_items m' 4096 0"
proof -
  let ?ops = "[Put [[1, 2], [3, 4]], Get 1, Put [[5, 6], [7, 8], [9, 10 :: u8]], Get 4]"
  obtain acc out m' where r: "chan_run (chan_put 4096 0 1024) (chan_get 4096 0 2048 4 2) ?ops demo_mem
      = (acc, out, m')"
    by (metis prod_cases3)
  have "ops_ok (chan_batch_ok 4 2) ?ops"
    by (auto simp: ops_ok_def chan_batch_ok_def)
  then have "acc = out @ chan_items m' 4096 0"
    using mailbox_channel_fifo [OF demo_chan_st _ r] by (simp add: demo_chan)
  then show ?thesis using r by blast
qed

lemma demo_ring: "ring_ok demo_mem1 4140" "ring_N demo_mem1 4140 = 4" "ring_sz demo_mem1 4140 = 2"
  "ring_items demo_mem1 4140 = [[7, 8]]" "ring_cnt demo_mem1 4140 = 1"
proof -
  have "ring_ok demo_mem1 4140" "ring_N demo_mem1 4140 = 4" "ring_sz demo_mem1 4140 = 2"
    "ring_items demo_mem1 4140 = [[7, 8]]"
    using demo_chan_st1 demo_items1
    by (auto simp: chan_st_def chan_ok_def chan_N_def chan_sz_def chan_items_def)
  then show "ring_ok demo_mem1 4140" "ring_N demo_mem1 4140 = 4" "ring_sz demo_mem1 4140 = 2"
    "ring_items demo_mem1 4140 = [[7, 8]]" "ring_cnt demo_mem1 4140 = 1"
    using length_ring_items [of demo_mem1 4140] by simp_all
qed

text \<open>C11: A write stores the write index last. Wherever it is interrupted before that store, after any
  number of its stores and in the middle of any copy, a reader still finds exactly the items that
  were waiting, in a usable ring; once the index is stored it finds them followed by all the new
  ones.\<close>

theorem write_publishes_last:
  assumes "ring_ok m b" and "unat n + ring_cnt m b < ring_N m b" and "src \<noteq> 0"
    and "disjoint src (unat n * ring_sz m b) b (ring_size m b)"
    and "ss = write_item_stores m b src n"
  shows "(\<forall>k < length ss. \<forall>j. ring_items (seen_after k j ss m) b = ring_items m b \<and> ring_ok (seen_after k j ss m) b)
    \<and> ring_items (LibMB_Write_Item m b src n) b = ring_items m b @
        map (\<lambda>j. bytes_at m (src + j * ring_sz m b) (ring_sz m b)) [0..<unat n]
    \<and> seen_after (length ss) 0 ss m = LibMB_Write_Item m b src n"
  using write_item_unseen [OF assms(1-4)] unseen_ok [OF _ assms(1)] LibMB_Write_Item_items [OF assms(1-4)] seen_after_all
  by (auto simp: assms(5) unseen_def)

theorem write_publishes_last_witness:
  "\<exists>ss. ss = write_item_stores demo_mem1 4140 1024 2 \<and> length ss \<ge> 2
    \<and> ring_items (seen_after (length ss - 1) 0 ss demo_mem1) 4140 = [[7, 8]]
    \<and> ring_items (LibMB_Write_Item demo_mem1 4140 1024 2) 4140 = [[7, 8], bytes_at demo_mem1 1024 2, bytes_at demo_mem1 1026 2]"
proof -
  let ?ss = "write_item_stores demo_mem1 4140 1024 2"
  have "sub_reg demo_mem1 4140 Max_item_num \<noteq> 0" "sub_reg demo_mem1 4140 Max_item_size \<noteq> 0"
    "sub_reg demo_mem1 4140 Item_in_index < sub_reg demo_mem1 4140 Max_item_num"
    using demo_ring(1) by (auto simp: ring_ok_def sanity_iff ring_sz_def ring_w_def ring_N_def word_less_nat_alt)
  then have len: "length ?ss \<ge> 2"
    by (auto simp: write_item_stores_def write_item_copies_def Let_def)
  then show ?thesis
    using write_publishes_last [of demo_mem1 4140 2 1024 ?ss]
    by (simp add: demo_ring ring_size_def disjoint_def upt_rec)
qed

text \<open>A write to a usable channel either appends all its items, in order, and returns
  their number, or, when they do not fit into the free slots (one slot is always kept
  free), returns \<open>MB_E_NO_ENOUGH_BUF\<close> and changes nothing.\<close>

theorem LibMB_Write_all_or_nothing:
  assumes "chan_ok m mb i" and "src \<noteq> 0"
    and "disjoint src (unat n * chan_sz m mb i) mb (chan_extent m mb i)"
  shows "if unat n \<le> chan_N m mb i - 1 - length (chan_items m mb i)
    then \<exists>m'. LibMB_Write m mb src n i = (int (unat n), m') \<and> chan_ok m' mb i
      \<and> chan_items m' mb i = chan_items m mb i @
          map (\<lambda>j. bytes_at m (src + j * chan_sz m mb i) (chan_sz m mb i)) [0..<unat n]
    else LibMB_Write m mb src n i = (MB_E_NO_ENOUGH_BUF, m)"
proof (cases "unat n \<le> chan_N m mb i - 1 - length (chan_items m mb i)")
  case True
  then have "unat n + length (chan_items m mb i) < chan_N m mb i"
    using chan_ok_ring(3) [OF assms(1)] by linarith
  then show ?thesis
    using LibMB_Write_ok [OF assms(1,2) _ assms(3)] True by (metis (no_types, lifting))
next
  case False
  then show ?thesis
    by (simp only: if_False) (rule LibMB_Write_full [OF assms(1,2)], linarith)
qed

theorem LibMB_Write_all_or_nothing_witness:
  "(\<exists>m'. LibMB_Write demo_mem 4096 1024 3 0 = (3, m') \<and> length (chan_items m' 4096 0) = 3)
    \<and> LibMB_Write demo_mem 4096 1024 4 0 = (MB_E_NO_ENOUGH_BUF, demo_mem)"
  using LibMB_Write_all_or_nothing [OF demo_chan(1), of 1024 3]
    LibMB_Write_all_or_nothing [OF demo_chan(1), of 1024 4]
  by (auto simp: demo_chan demo_extent disjoint_def)

text \<open>A read from a usable channel returns the number of items it delivers, the smaller
  of the number asked for and the number waiting; it copies the oldest items, in order, to
  the destination, removes exactly them, and writes nothing but the destination and the
  ring header.\<close>

theorem LibMB_Read_oldest:
  assumes "chan_ok m mb i" and "dst \<noteq> 0"
    and "disjoint dst (unat n * chan_sz m mb i) mb (chan_extent m mb i)"
  shows "\<exists>m' k. k = min (unat n) (length (chan_items m mb i))
    \<and> LibMB_Read m mb dst n i = (int k, m') \<and> chan_ok m' mb i
    \<and> bytes_at m' dst (k * chan_sz m mb i) = concat (take k (chan_items m mb i))
    \<and> chan_items m' mb i = drop k (chan_items m mb i)
    \<and> (\<forall>a l. disjoint (sub_region_base m mb i) 56 a l
         \<longrightarrow> disjoint dst (k * chan_sz m mb i) a l \<longrightarrow> same_on a l m m')"
  by (rule LibMB_Read_ok [OF assms]) blast

theorem LibMB_Read_oldest_witness:
  "\<exists>m'. LibMB_Read demo_mem1 4096 2048 5 0 = (1, m') \<and> bytes_at m' 2048 2 = [7, 8]
    \<and> chan_items m' 4096 0 = []"
proof -
  have c: "chan_ok demo_mem1 4096 0" "chan_sz demo_mem1 4096 0 = 2" "chan_N demo_mem1 4096 0 = 4"
    "sub_region_base demo_mem1 4096 0 = 4140"
    using demo_chan_st1 by (auto simp: chan_st_def)
  have "chan_extent demo_mem1 4096 0 = 108"
    using c by (simp add: chan_extent_def ring_size_def chan_N_def chan_sz_def)
  then show ?thesis
    using LibMB_Read_oldest [OF c(1), of 2048 5] c by (auto simp: demo_items1 disjoint_def)
qed

text \<open>Every call of \<open>LibMB_Write\<close>, on any memory whatever, either fails with one of the
  documented error codes and leaves the memory as it was, or returns the number of items
  passed.\<close>

theorem LibMB_Write_codes:
  "case LibMB_Write m mb src n i of (r, m') \<Rightarrow>
     (if r < 0 then m' = m \<and> r \<in> {MB_E_NULL_INPUT, MB_E_INVALID_INDEX, MB_E_INVALID_MAILBOX,
          MB_E_NO_ENOUGH_BUF, MB_E_CORRUPT_MAILBOX}
      else r = int (unat n) \<and> mb \<noteq> 0 \<and> src \<noteq> 0 \<and> i < mb_reg m mb Num_of_sub_region)"
proof -
  have "i32 n = int (unat n)" if "LibMB_Mailbox_sanity_check m b" "n \<le> LibMB_Free_Item m b" for b
    using that unat_Free_Item [OF that(1)] sanity_bounds [OF that(1)]
    by (intro i32_le_20) (simp add: word_le_nat_alt)
  then show ?thesis
    by (simp add: LibMB_Write_def Let_def errno_defs)
qed

text \<open>On a usable channel the free and the waiting items always add up to one less than
  the number of slots, as the two counters of the library report them.\<close>

theorem LibMB_counters_add_up:
  assumes "chan_ok m mb i"
  shows "LibMB_Get_FreeItemNum m mb i + LibMB_Get_ValidItemNum m mb i = int (chan_N m mb i) - 1
    \<and> LibMB_Get_ValidItemNum m mb i = int (length (chan_items m mb i))"
  using LibMB_counts [OF assms] chan_ok_ring(3) [OF assms] by (simp add: chan_free_def)

theorem LibMB_counters_add_up_witness:
  "LibMB_Get_FreeItemNum demo_mem 4096 0 = 3"
  using LibMB_counters_add_up [OF demo_chan(1)] by (simp add: demo_chan)



text \<open>C21: A configuration that the boundary check accepts is well laid out (header and
  regions in order, without overlap, each large enough for its items, all inside the
  mailbox), provided no region needs more than 4 GiB less its header; and every well laid
  out configuration is accepted.\<close>

theorem LibMB_Boundary_Check_iff:
  assumes "\<forall>i < cfg_n mc. cfg_bytes sc i + 55 < 2 ^ 32"
  shows "LibMB_Boundary_Check mc sc \<longleftrightarrow> layout_ok mc sc"
  using Boundary_Check_layout [OF _ assms] Boundary_Check_complete by blast

theorem LibMB_Boundary_Check_iff_witness:
  "LibMB_Boundary_Check demo_cfg (\<lambda>_. demo_sub)"
  using LibMB_Boundary_Check_iff [of demo_cfg "\<lambda>_. demo_sub"] demo_layout
  by (simp add: cfg_bytes_def demo_sub_def)

text \<open>Without that proviso the check is not enough: a configuration is accepted whose
  single item (of almost 4 GiB) is larger than the whole mailbox, because the sum of the
  header and the items wraps around in 32 bits.\<close>

theorem LibMB_Boundary_Check_wraps:
  "\<exists>mc sc. LibMB_Boundary_Check mc sc \<and> unat (mbc_mb_size mc) < cfg_bytes sc 0"
proof -
  let ?mc = "demo_cfg" and ?c = "demo_sub\<lparr>sc_item_max_num := 1, sc_item_max_size := 0xFFFFFFFF\<rparr>"
  have "sub_region_fits ?c"
    by (simp add: sub_region_fits_def demo_sub_def Let_def MB_SUB_REGION_HEADER_SZ_def
        MB_MAX_ITEM_NUM_def)
  moreover have "unat (mb_header_size 1) = 40"
    by (subst mb_header_size_unat) (simp_all add: MB_MAX_SUB_REGION_NUM_def)
  then have "mb_header_size 1 = 40"
    by (simp add: word_unat_eq_iff)
  ultimately have "LibMB_Boundary_Check ?mc (\<lambda>_. ?c)"
    by (simp add: LibMB_Boundary_Check_def region_gap_ok_def demo_cfg_def demo_sub_def
        MB_MAX_SUB_REGION_NUM_def Let_def)
  moreover have "unat (mbc_mb_size ?mc) < cfg_bytes (\<lambda>_. ?c) 0"
    by (simp add: cfg_bytes_def demo_cfg_def demo_sub_def)
  ultimately show ?thesis by (intro exI conjI)
qed

text \<open>What \<open>LibMB_ChanMapInit\<close> produces passes the boundary check: if the packed regions
  end before the end of the mailbox, it returns success, keeps every other member of the
  configuration, and the result is accepted by \<open>LibMB_Boundary_Check\<close>.\<close>

theorem LibMB_ChanMapInit_accepted:
  assumes "0 < cfg_n mc" and "cfg_n mc \<le> 253"
    and "plan_start (cfg_n mc) sc (cfg_n mc) \<le> unat (mbc_mb_size mc)"
    and "\<forall>i < cfg_n mc. unat (sc_item_max_num (sc i)) \<le> 2 ^ 20"
  shows "\<exists>pc. LibMB_ChanMapInit (Some mc) (Some sc) = (MB_E_SUCCESS, Some pc)
    \<and> (\<forall>i. same_items (pc i) (sc i)) \<and> LibMB_Boundary_Check mc pc"
proof -
  let ?n = "cfg_n mc"
  have tot: "plan_start ?n sc ?n < 2 ^ 32"
    using assms(3) unat_lt [of "mbc_mb_size mc"] by simp
  obtain pc where run: "LibMB_ChanMapInit (Some mc) (Some sc) = (MB_E_SUCCESS, Some pc)"
    and same: "\<And>i. same_items (pc i) (sc i)"
    and se: "\<And>i. i < ?n \<Longrightarrow> cfg_start pc i = plan_start ?n sc i \<and> cfg_end pc i + 1 = plan_start ?n sc (Suc i)"
    by (rule LibMB_ChanMapInit_spec [OF assms(1,2) tot]) (use assms(3) in simp)
  have bytes: "cfg_bytes pc i = cfg_bytes sc i" "sc_item_max_num (pc i) = sc_item_max_num (sc i)" for i
    using same [of i] by (simp_all add: cfg_bytes_def same_items_def)
  have last: "plan_start ?n sc (Suc i) \<le> unat (mbc_mb_size mc)" if "i < ?n" for i
    using plan_start_mono [of "Suc i" ?n ?n sc] that assms(3) by simp
  have "layout_ok mc pc"
    unfolding layout_ok_def
  proof (intro conjI allI impI)
    show "32 + 8 * ?n < cfg_start pc 0"
      using se [of 0] assms(1) by simp
    show "cfg_start pc i + 55 + cfg_bytes pc i \<le> cfg_end pc i" if "i < ?n" for i
      using se [OF that] bytes by simp
    show "cfg_end pc i < cfg_start pc (Suc i)" if "i < ?n - 1" for i
      using se [of i] se [of "Suc i"] that by simp
    show "cfg_end pc i < unat (mbc_mb_size mc)" if "i < ?n" for i
      using se [OF that] last [OF that] by linarith
  qed (use assms bytes in simp_all)
  then show ?thesis
    using run same Boundary_Check_complete by blast
qed

theorem LibMB_ChanMapInit_accepted_witness:
  "\<exists>pc. LibMB_ChanMapInit (Some demo_cfg) (Some (\<lambda>_. demo_sub)) = (MB_E_SUCCESS, Some pc)
    \<and> LibMB_Boundary_Check demo_cfg pc"
  using LibMB_ChanMapInit_accepted [of demo_cfg "\<lambda>_. demo_sub"]
  by (auto simp: demo_cfg_def demo_sub_def cfg_n_def cfg_bytes_def)

text \<open>The copy routine, with its alignment test and its two unrolled loops, copies
  exactly the bytes of the source block to the destination block and changes nothing else,
  for blocks that do not overlap.\<close>

theorem libmbcopy_bytes_block:
  assumes "dest \<noteq> 0" and "src \<noteq> 0" and "disjoint dest (unat n) src (unat n)"
  shows "libmbcopy_bytes m dest src n = put_bytes m dest (bytes_at m src (unat n))"
  using assms by (rule lmc.copy_block)

theorem libmbcopy_bytes_block_witness:
  "bytes_at (libmbcopy_bytes (\<lambda>x. of_nat x) 8 64 43) 8 43 = bytes_at (\<lambda>x. of_nat x) 64 43"
  using libmbcopy_bytes_block [of 8 64 43] by (simp add: disjoint_def mem_simps)

section \<open>The client API\<close>

text \<open>C10: Opening never leaks: whatever the system calls answer and at whatever point the
  open fails, the resources held afterwards are those held before; if it succeeds, exactly
  the handle, the device descriptor, the mapping and, for RX, the event descriptor have
  been added.\<close>

theorem rtss_mb_open_balance:
  "case rtss_mb_open p given dev w of ((r, res), w') \<Rightarrow>
     wheld w' = wheld w + (case res of None \<Rightarrow> {#} | Some h \<Rightarrow> handle_resources p h)"
  using rtss_mb_open_held [of p given dev w] by (fastforce split: option.splits prod.splits)

text \<open>A handle returned by an open describes the first channel of the mailbox whose name
  is the one asked for, in the memory as mapped: its index, identifiers, item size and
  direction are those of that channel, which passed the sanity check; the code is then
  success and the direction is RX or TX.\<close>

theorem rtss_mb_open_selects:
  assumes "rtss_mb_open p given (Some dev) w = ((r, Some h), w')"
  shows "r = RTSS_MB_RETURN_SUCCESS \<and> h_fd h \<noteq> -1
    \<and> (h_mode h = RTSS_MB_MODE_RX p \<or> h_mode h = RTSS_MB_MODE_TX p)
    \<and> handle_for p (mem_after p w 4) dev h"
proof -
  obtain w1 where o: "open_mapped p dev (h_p_mb_base_addr h) (h_mb_size h) (h_fd h) w1 = ((r, Some h), w')"
    and "h_fd h \<noteq> -1" "w_mem w1 = mem_after p w 4"
    by (rule rtss_mb_open_Some [OF assms])
  then show ?thesis
    using open_mapped_handle [OF o] by (auto simp: errno_defs)
qed

definition demo_open_platform :: platform where
  "demo_open_platform = demo_platform\<lparr>answer := (\<lambda>k. \<lparr>a_ret = (if k = 3 then 4096 else if k = 2 then 0 else 3),
     a_err = 0, a_size = 200, a_addr = 0, a_revents = 0, a_mode = 0, a_data = [], a_peer = id\<rparr>)\<rparr>"

lemma demo_chan_info: "chan_info_of demo_mem 4140 = \<lparr>ch_name = 66 # replicate 15 0, ch_sender = 1,
    ch_receiver = 2, ch_prot = 3, ch_sig = 4, ch_mode = 1, ch_prio = 0, ch_max_item_num = 4,
    ch_max_item_size = 2\<rparr>"
proof -
  have "region_init demo_mem 4096 (\<lambda>_. demo_sub) 0"
    using demo_created by (simp add: created_def cfg_n_def demo_cfg_def)
  then show ?thesis
    by (simp add: region_init_def cfg_start_def demo_sub_def chan_info_of_def Let_def MB_NAME_SZ_def
        MB_LIB_TYPE_def MB_LIB_OWNER_def MB_CHAN_RD_MODE_def MB_CHAN_WR_MODE_def)
qed

lemma demo_getdevctx: "\<exists>h. getdevctx_loop demo_mem 4096 [66] 0 d h0 = (0, h) \<and> h_mode h = 1"
proof -
  have "mb_reg demo_mem 4096 Num_of_sub_region = 1" "mb_reg demo_mem 4096 Mb_magic = MB_MAGIC_NUMBER"
    using demo_created by (simp_all add: created_def demo_cfg_def)
  then have "LibMB_Get_ChanInfo demo_mem 4096 0 (Some d) = (0, Some (chan_info_of demo_mem 4140))"
    using chan_ok_ring(2) [OF demo_chan(1)] by (simp add: LibMB_Get_ChanInfo_def Let_def demo_chan)
  moreover have "cstr (replicate 15 (0 :: u8)) = []"
    by (simp add: numeral_eq_Suc)
  ultimately show ?thesis
    using \<open>mb_reg demo_mem 4096 Num_of_sub_region = 1\<close>
    by (simp add: Let_def getdevctx_loop.simps [of demo_mem 4096] demo_chan_info strncmp_eq_iff strlcpy_def
        RTSS_MB_RETURN_SUCCESS_def RTSS_MAILBOX_NAME_SIZE_def fill_handle_def MB_NAME_SZ_def)
qed

theorem rtss_mb_open_selects_witness:
  "\<exists>h w'. rtss_mb_open demo_open_platform True (Some [66]) (demo_world demo_mem) = ((0, Some h), w')
    \<and> handle_for demo_open_platform demo_mem [66] h"
proof -
  obtain h1 where g: "getdevctx_loop demo_mem 4096 [66] 0 zero_chan_desc
      (zero_handle\<lparr>h_fd := -1, h_event_fd := -1\<rparr>) = (0, h1)" "h_mode h1 = 1"
    using demo_getdevctx by blast
  have "LibMB_Validate demo_mem 4096 = 0"
    using handle_okD(6) [OF demo_handle_ok(1)] by simp
  then obtain h w' where o: "rtss_mb_open demo_open_platform True (Some [66]) (demo_world demo_mem) = ((0, Some h), w')"
    using g by (auto simp: rtss_mb_open_def Let_def sys_def demo_world_def demo_open_platform_def
        open_mapped_def rtssmb_getdevctx_def open_finish_def RTSS_MB_RETURN_SUCCESS_def)
  have "mem_after demo_open_platform (demo_world demo_mem) 4 = demo_mem"
    by (simp add: mem_after_simps numeral_eq_Suc demo_open_platform_def demo_world_def)
  then show ?thesis
    using o rtss_mb_open_selects [OF o] by auto
qed

text \<open>A write through a TX handle on a usable channel sends as many whole items as the
  buffer holds: they are appended in order, the partial item at the end is dropped and the
  result is the number of bytes sent; if the free items cannot hold the buffer the result
  is \<open>-ENOBUFS\<close> and nothing changes.\<close>

theorem rtss_mb_write_batch_spec:
  assumes "handle_ok m h" and "h_mode h = RTSS_MB_MODE_TX p" and "sz \<noteq> 0"
    and "buf_ok m h buf (unat sz)"
  shows "if unat sz \<le> h_free m h * h_isz h
    then \<exists>m'. rtss_mb_write_batch p (Some h) buf sz m = (int (unat sz div h_isz h * h_isz h), m')
      \<and> h_items m' h = h_items m h @
          map (\<lambda>j. bytes_at m (buf + j * h_isz h) (h_isz h)) [0..<unat sz div h_isz h]
      \<and> handle_ok m' h
    else rtss_mb_write_batch p (Some h) buf sz m = (- ENOBUFS, m)"
proof (cases "unat sz \<le> h_free m h * h_isz h")
  case True
  show ?thesis
    using rtss_mb_write_batch_ok [OF assms(1-3) True assms(4)] True by (metis (no_types, lifting))
next
  case False
  then show ?thesis
    using rtss_mb_write_batch_full [OF assms(1,2) _ assms(3)] assms(4) by (simp add: buf_ok_def)
qed

theorem rtss_mb_write_batch_spec_witness:
  "\<exists>m'. rtss_mb_write_batch demo_platform (Some demo_tx) 1024 5 demo_mem = (4, m')
    \<and> length (h_items m' demo_tx) = 2"
  using rtss_mb_write_batch_spec [OF demo_handle_ok(1), of demo_platform 5 1024]
  by (auto simp: buf_ok_def demo_extent disjoint_def demo_chan)

text \<open>A read through an RX handle whose ring holds items makes no system call: it
  returns the bytes of the oldest items, as many as are waiting and fit into the buffer,
  copies exactly them to the buffer in order and removes them from the ring.\<close>

theorem rtss_mb_read_timed_available:
  assumes "handle_ok (w_mem w) h" and "h_mode h = RTSS_MB_MODE_RX p" and "-1 \<le> ms"
    and "h_isz h \<le> unat sz" and "buf_ok (w_mem w) h buf (unat sz)"
    and "h_items (w_mem w) h \<noteq> []"
  shows "\<exists>w' k. k = min (unat sz div h_isz h) (length (h_items (w_mem w) h))
    \<and> rtss_mb_read_timed p (Some h) buf sz ms w = Some (int (k * h_isz h), w')
    \<and> w_trace w' = w_trace w \<and> handle_ok (w_mem w') h
    \<and> bytes_at (w_mem w') buf (k * h_isz h) = concat (take k (h_items (w_mem w) h))
    \<and> h_items (w_mem w') h = drop k (h_items (w_mem w) h)"
  by (rule rtss_mb_read_timed_now [OF assms]) blast

theorem rtss_mb_read_timed_available_witness:
  "\<exists>w'. rtss_mb_read_timed demo_platform (Some demo_rx) 2048 6 10 (demo_world demo_mem1) = Some (2, w')
    \<and> bytes_at (w_mem w') 2048 2 = [7, 8] \<and> w_trace w' = []"
  using rtss_mb_read_timed_available [of "demo_world demo_mem1" demo_rx demo_platform 10 6 2048]
  by (auto simp: demo_handle_ok buf_ok_def demo_extent1 disjoint_def h_items_def demo_items1)

text \<open>A read with an empty ring returns \<open>-ETIMEDOUT\<close> after exactly one poll when that
  poll times out, having changed nothing.\<close>

theorem rtss_mb_read_timed_times_out:
  assumes "handle_ok (w_mem w) h" and "h_mode h = RTSS_MB_MODE_RX p" and "-1 \<le> ms"
    and "h_isz h \<le> unat sz" and "buf \<noteq> 0" and "h_items (w_mem w) h = []"
    and "a_ret (answer p (w_now w)) = 0"
  shows "\<exists>w'. rtss_mb_read_timed p (Some h) buf sz ms w = Some (- ETIMEDOUT, w')
    \<and> w_trace w' = w_trace w @ [(Sys_poll (h_event_fd h) ms, 0)]"
  using assms by (rule rtss_mb_read_timed_timeout)

theorem rtss_mb_read_timed_times_out_witness:
  "\<exists>w'. rtss_mb_read_timed demo_platform (Some demo_rx) 2048 6 10 (demo_world demo_mem)
      = Some (- 110, w') \<and> w_trace w' = [(Sys_poll 4 10, 0)]"
  using rtss_mb_read_timed_times_out [of "demo_world demo_mem" demo_rx demo_platform 10 6 2048]
  by (simp add: demo_handle_ok demo_chan errno_defs)

text \<open>C29: A read returns, with some code, whenever polls eventually report a time-out or a
  failure; only an endless series of wake-ups without data can keep it waiting.\<close>

theorem rtss_mb_read_timed_terminates:
  assumes "\<forall>k \<ge> K. a_ret (answer p k) \<in> {0, -1}"
  shows "\<exists>r w'. rtss_mb_read_timed p handle buf sz ms w = Some (r, w')"
  using rtss_mb_read_timed_returns [OF assms, of handle buf sz ms w] by auto

theorem rtss_mb_read_timed_terminates_witness:
  "\<exists>r w'. rtss_mb_read_timed demo_platform (Some demo_rx) 2048 6 (-1) (demo_world demo_mem) = Some (r, w')"
  by (rule rtss_mb_read_timed_terminates [of 0]) simp

text \<open>Closing a handle gives back the handle, the device descriptor and the event
  descriptor, but not the mapping, which stays: what is held afterwards is what was held
  before the open plus the mapping, although the API promises that all resources are
  released.\<close>

theorem rtss_mb_close_keeps_mapping:
  assumes "0 \<le> h_fd h" and "h_mode h = RTSS_MB_MODE_RX p \<Longrightarrow> 0 \<le> h_event_fd h"
    and "wheld w = R + handle_resources p h" and "rtss_mb_close p (Some h) w = (r, w')"
  shows "wheld w' = R + {#Mapping (h_p_mb_base_addr h) (h_mb_size h)#}"
  using assms by (rule rtss_mb_close_held)

theorem rtss_mb_close_keeps_mapping_witness:
  "\<exists>w r w'. rtss_mb_close demo_platform (Some demo_rx) w = (r, w') \<and> wheld w' = {#Mapping 4096 200#}"
proof -
  let ?w = "(demo_world demo_mem)\<lparr>w_trace := [(Sys_calloc, 1), (Sys_open, 3), (Sys_mmap 200 3, 4096),
      (Sys_eventfd, 4)]\<rparr>"
  obtain r w' where c: "rtss_mb_close demo_platform (Some demo_rx) ?w = (r, w')"
    by fastforce
  have "wheld ?w = {#} + handle_resources demo_platform demo_rx"
    by (simp add: wheld_def handle_resources_def)
  then have "wheld w' = {#Mapping 4096 200#}"
    using rtss_mb_close_keeps_mapping [OF _ _ _ c, of "{#}"] by simp
  then show ?thesis using c by blast
qed

text \<open>C16: What is written through one end is what is read at the other: after a write of
  whole items to an empty ring, a read into a large enough buffer returns the same number
  of bytes and the same bytes, and leaves the ring empty.\<close>

theorem rtss_mb_write_read_roundtrip:
  assumes "handle_ok m tx" and "h_mode tx = RTSS_MB_MODE_TX p"
    and "rx = tx\<lparr>h_mode := RTSS_MB_MODE_RX p, h_event_fd := e\<rparr>"
    and "h_items m tx = []" and "unat sz = n * h_isz tx" and "0 < n" and "n \<le> h_free m tx"
    and "buf_ok m tx buf (unat sz)" and "buf_ok m tx dst (unat sz)" and "-1 \<le> ms"
    and "rtss_mb_write_batch p (Some tx) buf sz m = (r, m')"
  shows "\<exists>w'. rtss_mb_read_timed p (Some rx) dst sz ms (w\<lparr>w_mem := m'\<rparr>) = Some (r, w')
    \<and> r = int (unat sz) \<and> bytes_at (w_mem w') dst (unat sz) = bytes_at m buf (unat sz)
    \<and> h_items (w_mem w') rx = []"
proof -
  let ?s = "h_isz tx"
  have s: "0 < ?s" by (rule handle_okD(4) [OF assms(1)])
  have sz: "sz \<noteq> 0" "unat sz div ?s = n" "unat sz \<le> h_free m tx * ?s"
    using assms(5-7) s by (auto simp: unat_eq_zero [symmetric] simp del: unat_eq_zero)
  have rx: "h_isz rx = ?s" "h_items m'' rx = h_items m'' tx" "handle_ok m'' rx = handle_ok m'' tx"
    "buf_ok m'' rx b l = buf_ok m'' tx b l" "h_mode rx = RTSS_MB_MODE_RX p" for m'' b l
    by (simp_all add: assms(3) h_isz_def h_items_def handle_ok_def buf_ok_def)
  obtain m2 where w: "rtss_mb_write_batch p (Some tx) buf sz m = (int (n * ?s), m2)"
    and it: "h_items m2 tx = map (\<lambda>j. bytes_at m (buf + j * ?s) ?s) [0..<n]"
    and ok: "handle_ok m2 tx"
    and geo: "chan_extent m2 (h_p_mb_base_addr tx) (h_subregion_index tx) =
      chan_extent m (h_p_mb_base_addr tx) (h_subregion_index tx)"
    using rtss_mb_write_batch_ok [OF assms(1,2) sz(1,3) assms(8)] unfolding sz(2) assms(4) append_Nil
    by metis
  then have m2: "m2 = m'" "r = int (n * ?s)"
    using assms(11) by simp_all
  have "buf_ok m' rx dst (unat sz)"
    using assms(9) geo m2(1) unfolding rx by (simp add: buf_ok_def)
  then obtain w' where
    "rtss_mb_read_timed p (Some rx) dst sz ms (w\<lparr>w_mem := m'\<rparr>) = Some (int (n * ?s), w')"
    "h_items (w_mem w') rx = drop n (h_items m' rx)"
    "bytes_at (w_mem w') dst (n * ?s) = concat (take n (h_items m' rx))"
    using rtss_mb_read_timed_now [of "w\<lparr>w_mem := m'\<rparr>" rx p ms sz dst] ok m2 it assms(5,6,10) s
    by (auto simp: rx sz(2))
  then show ?thesis
    using it assms(5) m2 by (intro exI [of _ w']) (simp add: rx bytes_at_items)
qed

theorem rtss_mb_write_read_roundtrip_witness:
  "\<exists>r m' w'. rtss_mb_write_batch demo_platform (Some demo_tx) 1024 4 demo_mem = (r, m')
    \<and> rtss_mb_read_timed demo_platform (Some demo_rx) 2048 4 5 ((demo_world demo_mem)\<lparr>w_mem := m'\<rparr>)
      = Some (4, w') \<and> bytes_at (w_mem w') 2048 4 = bytes_at demo_mem 1024 4"
proof -
  obtain r m' where w: "rtss_mb_write_batch demo_platform (Some demo_tx) 1024 4 demo_mem = (r, m')"
    by fastforce
  show ?thesis
    using w rtss_mb_write_read_roundtrip [OF demo_handle_ok(1) _ _ _ _ _ _ _ _ _ w, of demo_rx 4 2 2048 5]
    by (auto simp: demo_rx_def demo_chan buf_ok_def demo_extent disjoint_def)
qed

end
