(* ===== verification/Crc.thy ===== *)
theory Crc
  imports Prelude
begin

text \<open>
  The two table-driven CRC-32 routines of the updater: \<open>rtss_gpt_calc_crc32\<close> of
  \<^verbatim>\<open>rtss_gpt/src/rtss_guidpt.c\<close>, which shifts right over a table of reflected entries, and
  \<open>rtss_crc32_generate\<close> of \<^verbatim>\<open>rtss_update/src/rtss_update_lib.c\<close>, which reflects its input
  and output and shifts left over the plain table. Both are related to the bitwise CRC of
  the polynomial 0x04C11DB7, hence to each other, and the bitwise form gives the chaining
  and error detection lemmas.
\<close>

section \<open>The tables\<close>

definition rtss_gpt_crc32_table :: "u32 list" where
  "rtss_gpt_crc32_table = [
    0x00000000, 0x77073096, 0xEE0E612C, 0x990951BA, 0x076DC419, 0x706AF48F, 0xE963A535, 0x9E6495A3,
    0x0EDB8832, 0x79DCB8A4, 0xE0D5E91E, 0x97D2D988, 0x09B64C2B, 0x7EB17CBD, 0xE7B82D07, 0x90BF1D91,
    0x1DB71064, 0x6AB020F2, 0xF3B97148, 0x84BE41DE, 0x1ADAD47D, 0x6DDDE4EB, 0xF4D4B551, 0x83D385C7,
    0x136C9856, 0x646BA8C0, 0xFD62F97A, 0x8A65C9EC, 0x14015C4F, 0x63066CD9, 0xFA0F3D63, 0x8D080DF5,
    0x3B6E20C8, 0x4C69105E, 0xD56041E4, 0xA2677172, 0x3C03E4D1, 0x4B04D447, 0xD20D85FD, 0xA50AB56B,
    0x35B5A8FA, 0x42B2986C, 0xDBBBC9D6, 0xACBCF940, 0x32D86CE3, 0x45DF5C75, 0xDCD60DCF, 0xABD13D59,
    0x26D930AC, 0x51DE003A, 0xC8D75180, 0xBFD06116, 0x21B4F4B5, 0x56B3C423, 0xCFBA9599, 0xB8BDA50F,
    0x2802B89E, 0x5F058808, 0xC60CD9B2, 0xB10BE924, 0x2F6F7C87, 0x58684C11, 0xC1611DAB, 0xB6662D3D,
    0x76DC4190, 0x01DB7106, 0x98D220BC, 0xEFD5102A, 0x71B18589, 0x06B6B51F, 0x9FBFE4A5, 0xE8B8D433,
    0x7807C9A2, 0x0F00F934, 0x9609A88E, 0xE10E9818, 0x7F6A0DBB, 0x086D3D2D, 0x91646C97, 0xE6635C01,
    0x6B6B51F4, 0x1C6C6162, 0x856530D8, 0xF262004E, 0x6C0695ED, 0x1B01A57B, 0x8208F4C1, 0xF50FC457,
    0x65B0D9C6, 0x12B7E950, 0x8BBEB8EA, 0xFCB9887C, 0x62DD1DDF, 0x15DA2D49, 0x8CD37CF3, 0xFBD44C65,
    0x4DB26158, 0x3AB551CE, 0xA3BC0074, 0xD4BB30E2, 0x4ADFA541, 0x3DD895D7, 0xA4D1C46D, 0xD3D6F4FB,
    0x4369E96A, 0x346ED9FC, 0xAD678846, 0xDA60B8D0, 0x44042D73, 0x33031DE5, 0xAA0A4C5F, 0xDD0D7CC9,
    0x5005713C, 0x270241AA, 0xBE0B1010, 0xC90C2086, 0x5768B525, 0x206F85B3, 0xB966D409, 0xCE61E49F,
    0x5EDEF90E, 0x29D9C998, 0xB0D09822, 0xC7D7A8B4, 0x59B33D17, 0x2EB40D81, 0xB7BD5C3B, 0xC0BA6CAD,
    0xEDB88320, 0x9ABFB3B6, 0x03B6E20C, 0x74B1D29A, 0xEAD54739, 0x9DD277AF, 0x04DB2615, 0x73DC1683,
    0xE3630B12, 0x94643B84, 0x0D6D6A3E, 0x7A6A5AA8, 0xE40ECF0B, 0x9309FF9D, 0x0A00AE27, 0x7D079EB1,
    0xF00F9344, 0x8708A3D2, 0x1E01F268, 0x6906C2FE, 0xF762575D, 0x806567CB, 0x196C3671, 0x6E6B06E7,
    0xFED41B76, 0x89D32BE0, 0x10DA7A5A, 0x67DD4ACC, 0xF9B9DF6F, 0x8EBEEFF9, 0x17B7BE43, 0x60B08ED5,
    0xD6D6A3E8, 0xA1D1937E, 0x38D8C2C4, 0x4FDFF252, 0xD1BB67F1, 0xA6BC5767, 0x3FB506DD, 0x48B2364B,
    0xD80D2BDA, 0xAF0A1B4C, 0x36034AF6, 0x41047A60, 0xDF60EFC3, 0xA867DF55, 0x316E8EEF, 0x4669BE79,
    0xCB61B38C, 0xBC66831A, 0x256FD2A0, 0x5268E236, 0xCC0C7795, 0xBB0B4703, 0x220216B9, 0x5505262F,
    0xC5BA3BBE, 0xB2BD0B28, 0x2BB45A92, 0x5CB36A04, 0xC2D7FFA7, 0xB5D0CF31, 0x2CD99E8B, 0x5BDEAE1D,
    0x9B64C2B0, 0xEC63F226, 0x756AA39C, 0x026D930A, 0x9C0906A9, 0xEB0E363F, 0x72076785, 0x05005713,
    0x95BF4A82, 0xE2B87A14, 0x7BB12BAE, 0x0CB61B38, 0x92D28E9B, 0xE5D5BE0D, 0x7CDCEFB7, 0x0BDBDF21,
    0x86D3D2D4, 0xF1D4E242, 0x68DDB3F8, 0x1FDA836E, 0x81BE16CD, 0xF6B9265B, 0x6FB077E1, 0x18B74777,
    0x88085AE6, 0xFF0F6A70, 0x66063BCA, 0x11010B5C, 0x8F659EFF, 0xF862AE69, 0x616BFFD3, 0x166CCF45,
    0xA00AE278, 0xD70DD2EE, 0x4E048354, 0x3903B3C2, 0xA7672661, 0xD06016F7, 0x4969474D, 0x3E6E77DB,
    0xAED16A4A, 0xD9D65ADC, 0x40DF0B66, 0x37D83BF0, 0xA9BCAE53, 0xDEBB9EC5, 0x47B2CF7F, 0x30B5FFE9,
    0xBDBDF21C, 0xCABAC28A, 0x53B39330, 0x24B4A3A6, 0xBAD03605, 0xCDD70693, 0x54DE5729, 0x23D967BF,
    0xB3667A2E, 0xC4614AB8, 0x5D681B02, 0x2A6F2B94, 0xB40BBE37, 0xC30C8EA1, 0x5A05DF1B, 0x2D02EF8D]"

definition rtss_crc32_ethernet_table :: "u32 list" where
  "rtss_crc32_ethernet_table = [
    0x00000000, 0x04C11DB7, 0x09823B6E, 0x0D4326D9, 0x130476DC, 0x17C56B6B, 0x1A864DB2, 0x1E475005,
    0x2608EDB8, 0x22C9F00F, 0x2F8AD6D6, 0x2B4BCB61, 0x350C9B64, 0x31CD86D3, 0x3C8EA00A, 0x384FBDBD,
    0x4C11DB70, 0x48D0C6C7, 0x4593E01E, 0x4152FDA9, 0x5F15ADAC, 0x5BD4B01B, 0x569796C2, 0x52568B75,
    0x6A1936C8, 0x6ED82B7F, 0x639B0DA6, 0x675A1011, 0x791D4014, 0x7DDC5DA3, 0x709F7B7A, 0x745E66CD,
    0x9823B6E0, 0x9CE2AB57, 0x91A18D8E, 0x95609039, 0x8B27C03C, 0x8FE6DD8B, 0x82A5FB52, 0x8664E6E5,
    0xBE2B5B58, 0xBAEA46EF, 0xB7A96036, 0xB3687D81, 0xAD2F2D84, 0xA9EE3033, 0xA4AD16EA, 0xA06C0B5D,
    0xD4326D90, 0xD0F37027, 0xDDB056FE, 0xD9714B49, 0xC7361B4C, 0xC3F706FB, 0xCEB42022, 0xCA753D95,
    0xF23A8028, 0xF6FB9D9F, 0xFBB8BB46, 0xFF79A6F1, 0xE13EF6F4, 0xE5FFEB43, 0xE8BCCD9A, 0xEC7DD02D,
    0x34867077, 0x30476DC0, 0x3D044B19, 0x39C556AE, 0x278206AB, 0x23431B1C, 0x2E003DC5, 0x2AC12072,
    0x128E9DCF, 0x164F8078, 0x1B0CA6A1, 0x1FCDBB16, 0x018AEB13, 0x054BF6A4, 0x0808D07D, 0x0CC9CDCA,
    0x7897AB07, 0x7C56B6B0, 0x71159069, 0x75D48DDE, 0x6B93DDDB, 0x6F52C06C, 0x6211E6B5, 0x66D0FB02,
    0x5E9F46BF, 0x5A5E5B08, 0x571D7DD1, 0x53DC6066, 0x4D9B3063, 0x495A2DD4, 0x44190B0D, 0x40D816BA,
    0xACA5C697, 0xA864DB20, 0xA527FDF9, 0xA1E6E04E, 0xBFA1B04B, 0xBB60ADFC, 0xB6238B25, 0xB2E29692,
    0x8AAD2B2F, 0x8E6C3698, 0x832F1041, 0x87EE0DF6, 0x99A95DF3, 0x9D684044, 0x902B669D, 0x94EA7B2A,
    0xE0B41DE7, 0xE4750050, 0xE9362689, 0xEDF73B3E, 0xF3B06B3B, 0xF771768C, 0xFA325055, 0xFEF34DE2,
    0xC6BCF05F, 0xC27DEDE8, 0xCF3ECB31, 0xCBFFD686, 0xD5B88683, 0xD1799B34, 0xDC3ABDED, 0xD8FBA05A,
    0x690CE0EE, 0x6DCDFD59, 0x608EDB80, 0x644FC637, 0x7A089632, 0x7EC98B85, 0x738AAD5C, 0x774BB0EB,
    0x4F040D56, 0x4BC510E1, 0x46863638, 0x42472B8F, 0x5C007B8A, 0x58C1663D, 0x558240E4, 0x51435D53,
    0x251D3B9E, 0x21DC2629, 0x2C9F00F0, 0x285E1D47, 0x36194D42, 0x32D850F5, 0x3F9B762C, 0x3B5A6B9B,
    0x0315D626, 0x07D4CB91, 0x0A97ED48, 0x0E56F0FF, 0x1011A0FA, 0x14D0BD4D, 0x19939B94, 0x1D528623,
    0xF12F560E, 0xF5EE4BB9, 0xF8AD6D60, 0xFC6C70D7, 0xE22B20D2, 0xE6EA3D65, 0xEBA91BBC, 0xEF68060B,
    0xD727BBB6, 0xD3E6A601, 0xDEA580D8, 0xDA649D6F, 0xC423CD6A, 0xC0E2D0DD, 0xCDA1F604, 0xC960EBB3,
    0xBD3E8D7E, 0xB9FF90C9, 0xB4BCB610, 0xB07DABA7, 0xAE3AFBA2, 0xAAFBE615, 0xA7B8C0CC, 0xA379DD7B,
    0x9B3660C6, 0x9FF77D71, 0x92B45BA8, 0x9675461F, 0x8832161A, 0x8CF30BAD, 0x81B02D74, 0x857130C3,
    0x5D8A9099, 0x594B8D2E, 0x5408ABF7, 0x50C9B640, 0x4E8EE645, 0x4A4FFBF2, 0x470CDD2B, 0x43CDC09C,
    0x7B827D21, 0x7F436096, 0x7200464F, 0x76C15BF8, 0x68860BFD, 0x6C47164A, 0x61043093, 0x65C52D24,
    0x119B4BE9, 0x155A565E, 0x18197087, 0x1CD86D30, 0x029F3D35, 0x065E2082, 0x0B1D065B, 0x0FDC1BEC,
    0x3793A651, 0x3352BBE6, 0x3E119D3F, 0x3AD08088, 0x2497D08D, 0x2056CD3A, 0x2D15EBE3, 0x29D4F654,
    0xC5A92679, 0xC1683BCE, 0xCC2B1D17, 0xC8EA00A0, 0xD6AD50A5, 0xD26C4D12, 0xDF2F6BCB, 0xDBEE767C,
    0xE3A1CBC1, 0xE760D676, 0xEA23F0AF, 0xEEE2ED18, 0xF0A5BD1D, 0xF464A0AA, 0xF9278673, 0xFDE69BC4,
    0x89B8FD09, 0x8D79E0BE, 0x803AC667, 0x84FBDBD0, 0x9ABC8BD5, 0x9E7D9662, 0x933EB0BB, 0x97FFAD0C,
    0xAFB010B1, 0xAB710D06, 0xA6322BDF, 0xA2F33668, 0xBCB4666D, 0xB8757BDA, 0xB5365D03, 0xB1F740B4]"

section \<open>The routines\<close>

definition gpt_crc_step :: "u32 \<Rightarrow> u8 \<Rightarrow> u32" where
  "gpt_crc_step crc b =
     drop_bit 8 crc XOR rtss_gpt_crc32_table ! unat ((ucast crc :: u8) XOR b)"

text \<open>\<open>data\<close> is \<open>None\<close> for a null pointer, and otherwise the \<open>nbytes\<close> bytes of the buffer.\<close>

definition rtss_gpt_calc_crc32 :: "u8 list option \<Rightarrow> u32 \<Rightarrow> u32" where
  "rtss_gpt_calc_crc32 data seed =
     (case data of None \<Rightarrow> 0
      | Some bytes \<Rightarrow>
          if bytes = [] then 0
          else foldl gpt_crc_step (0xFFFFFFFF XOR seed) bytes XOR 0xFFFFFFFF)"

text \<open>The reflection loops: bit \<open>i\<close> of the value sets bit \<open>7 - i\<close> (or \<open>31 - i\<close>) of the result.\<close>

definition rtss_crc8_reflect :: "u8 \<Rightarrow> u8" where
  "rtss_crc8_reflect val =
     fold (\<lambda>i res. if val AND push_bit i 1 \<noteq> 0 then res OR push_bit (7 - i) 1 else res) [0..<8] 0"

definition rtss_crc32_reflect :: "u32 \<Rightarrow> u32" where
  "rtss_crc32_reflect val =
     fold (\<lambda>i res. if val AND push_bit i 1 \<noteq> 0 then res OR push_bit (31 - i) 1 else res) [0..<32] 0"

text \<open>The channel configuration and the table of configurations, of one element.\<close>

record rtss_crc32_config =
  crc_table :: "u32 list"
  initial_value :: u32
  final_xor_value :: u32
  input_data_reflected :: bool
  result_data_reflected :: bool

definition rtss_crc32_channel_cfg :: rtss_crc32_config where
  "rtss_crc32_channel_cfg = \<lparr>crc_table = rtss_crc32_ethernet_table, initial_value = 0xFFFFFFFF,
     final_xor_value = 0xFFFFFFFF, input_data_reflected = True, result_data_reflected = True\<rparr>"

definition rtss_crc_core_config :: "rtss_crc32_config list" where
  "rtss_crc_core_config = [rtss_crc32_channel_cfg]"

definition crcETH_CHANNEL_CRC32 :: u8 where "crcETH_CHANNEL_CRC32 = 0"
definition crcMAX_CH_ID :: u8 where "crcMAX_CH_ID = 1"

datatype rtss_crc_status_t = CRC_SUCCESS | CRC_ERROR | CRC_INVALID_PARAMETER

definition crc32_step :: "rtss_crc32_config \<Rightarrow> u32 \<Rightarrow> u8 \<Rightarrow> u32" where
  "crc32_step cfg ucCrc32 b =
     (let tmp = (if input_data_reflected cfg then rtss_crc8_reflect b else b);
          lutidx = (ucast (drop_bit 24 (ucCrc32 XOR push_bit 24 (ucast tmp))) :: u8)
      in push_bit 8 ucCrc32 XOR crc_table cfg ! unat lutidx)"

text \<open>The checksum is returned through the pointer: \<open>None\<close> when nothing is stored.\<close>

definition rtss_crc32_generate :: "u8 \<Rightarrow> u8 list option \<Rightarrow> bool \<Rightarrow> rtss_crc_status_t \<times> u32 option" where
  "rtss_crc32_generate ucChannelId pucBuffer out_given =
     (case pucBuffer of None \<Rightarrow> (CRC_INVALID_PARAMETER, None)
      | Some bytes \<Rightarrow>
          if \<not> out_given \<or> bytes = [] \<or> ucChannelId \<ge> crcMAX_CH_ID
          then (CRC_INVALID_PARAMETER, None)
          else let cfg = rtss_crc_core_config ! unat ucChannelId;
                   c = foldl (crc32_step cfg) (initial_value cfg) bytes;
                   c' = (if result_data_reflected cfg then rtss_crc32_reflect c else c)
               in (CRC_SUCCESS, Some (c' XOR final_xor_value cfg)))"

definition rtss_crc32_verify :: "u8 \<Rightarrow> u8 list option \<Rightarrow> u32 \<Rightarrow> rtss_crc_status_t" where
  "rtss_crc32_verify ucChannelId pucBuffer usCrcData =
     (case rtss_crc32_generate ucChannelId pucBuffer True of (xStatus, crc) \<Rightarrow>
        let checking_crc = (case crc of None \<Rightarrow> 0 | Some c \<Rightarrow> c)
        in if xStatus = CRC_SUCCESS \<and> checking_crc \<noteq> usCrcData then CRC_ERROR else xStatus)"

definition RTSS_UPD_E_OK :: u32 where "RTSS_UPD_E_OK = 0"
definition RTSS_UPD_E_ERR :: u32 where "RTSS_UPD_E_ERR = 3"
definition RTSS_UPD_E_PTR :: u32 where "RTSS_UPD_E_PTR = 4"

definition rtss_upd_calculate_crc32 :: "u8 list option \<Rightarrow> bool \<Rightarrow> u32 \<times> u32 option" where
  "rtss_upd_calculate_crc32 addr out_given =
     (case rtss_crc32_generate crcETH_CHANNEL_CRC32 addr out_given of (s, crc) \<Rightarrow>
        (if s \<noteq> CRC_SUCCESS then RTSS_UPD_E_ERR else RTSS_UPD_E_OK, crc))"

definition rtss_upd_verify_crc32 :: "u32 \<Rightarrow> u8 list option \<Rightarrow> u32" where
  "rtss_upd_verify_crc32 crc addr =
     (if rtss_crc32_verify crcETH_CHANNEL_CRC32 addr crc \<noteq> CRC_SUCCESS
      then RTSS_UPD_E_ERR else RTSS_UPD_E_OK)"

section \<open>The bitwise CRC\<close>

definition crc_bit :: "u32 \<Rightarrow> u32" where
  "crc_bit x = (if bit x 0 then drop_bit 1 x XOR 0xEDB88320 else drop_bit 1 x)"

definition crc_byte :: "u32 \<Rightarrow> u32" where
  "crc_byte x = crc_bit (crc_bit (crc_bit (crc_bit (crc_bit (crc_bit (crc_bit (crc_bit x)))))))"

text \<open>The same polynomial with the most significant bit first.\<close>

definition msb_bit :: "u32 \<Rightarrow> u32" where
  "msb_bit x = (if bit x 31 then push_bit 1 x XOR 0x04C11DB7 else push_bit 1 x)"

definition msb_byte :: "u32 \<Rightarrow> u32" where
  "msb_byte x = msb_bit (msb_bit (msb_bit (msb_bit (msb_bit (msb_bit (msb_bit (msb_bit x)))))))"

text \<open>Every entry of both tables is the bitwise CRC of its index.\<close>

lemma gpt_table_bitwise: "rtss_gpt_crc32_table = map crc_byte
  [0, 1, 2, 3, 4, 5, 6, 7, 8, 9, 10, 11, 12, 13, 14, 15,
   16, 17, 18, 19, 20, 21, 22, 23, 24, 25, 26, 27, 28, 29, 30, 31,
   32, 33, 34, 35, 36, 37, 38, 39, 40, 41, 42, 43, 44, 45, 46, 47,
   48, 49, 50, 51, 52, 53, 54, 55, 56, 57, 58, 59, 60, 61, 62, 63,
   64, 65, 66, 67, 68, 69, 70, 71, 72, 73, 74, 75, 76, 77, 78, 79,
   80, 81, 82, 83, 84, 85, 86, 87, 88, 89, 90, 91, 92, 93, 94, 95,
   96, 97, 98, 99, 100, 101, 102, 103, 104, 105, 106, 107, 108, 109, 110, 111,
   112, 113, 114, 115, 116, 117, 118, 119, 120, 121, 122, 123, 124, 125, 126, 127,
   128, 129, 130, 131, 132, 133, 134, 135, 136, 137, 138, 139, 140, 141, 142, 143,
   144, 145, 146, 147, 148, 149, 150, 151, 152, 153, 154, 155, 156, 157, 158, 159,
   160, 161, 162, 163, 164, 165, 166, 167, 168, 169, 170, 171, 172, 173, 174, 175,
   176, 177, 178, 179, 180, 181, 182, 183, 184, 185, 186, 187, 188, 189, 190, 191,
   192, 193, 194, 195, 196, 197, 198, 199, 200, 201, 202, 203, 204, 205, 206, 207,
   208, 209, 210, 211, 212, 213, 214, 215, 216, 217, 218, 219, 220, 221, 222, 223,
   224, 225, 226, 227, 228, 229, 230, 231, 232, 233, 234, 235, 236, 237, 238, 239,
   240, 241, 242, 243, 244, 245, 246, 247, 248, 249, 250, 251, 252, 253, 254, 255]"
  by (simp add: rtss_gpt_crc32_table_def crc_byte_def crc_bit_def)

lemma ethernet_table_bitwise: "rtss_crc32_ethernet_table = map msb_byte
  [0x00000000, 0x01000000, 0x02000000, 0x03000000, 0x04000000, 0x05000000, 0x06000000, 0x07000000,
   0x08000000, 0x09000000, 0x0A000000, 0x0B000000, 0x0C000000, 0x0D000000, 0x0E000000, 0x0F000000,
   0x10000000, 0x11000000, 0x12000000, 0x13000000, 0x14000000, 0x15000000, 0x16000000, 0x17000000,
   0x18000000, 0x19000000, 0x1A000000, 0x1B000000, 0x1C000000, 0x1D000000, 0x1E000000, 0x1F000000,
   0x20000000, 0x21000000, 0x22000000, 0x23000000, 0x24000000, 0x25000000, 0x26000000, 0x27000000,
   0x28000000, 0x29000000, 0x2A000000, 0x2B000000, 0x2C000000, 0x2D000000, 0x2E000000, 0x2F000000,
   0x30000000, 0x31000000, 0x32000000, 0x33000000, 0x34000000, 0x35000000, 0x36000000, 0x37000000,
   0x38000000, 0x39000000, 0x3A000000, 0x3B000000, 0x3C000000, 0x3D000000, 0x3E000000, 0x3F000000,
   0x40000000, 0x41000000, 0x42000000, 0x43000000, 0x44000000, 0x45000000, 0x46000000, 0x47000000,
   0x48000000, 0x49000000, 0x4A000000, 0x4B000000, 0x4C000000, 0x4D000000, 0x4E000000, 0x4F000000,
   0x50000000, 0x51000000, 0x52000000, 0x53000000, 0x54000000, 0x55000000, 0x56000000, 0x57000000,
   0x58000000, 0x59000000, 0x5A000000, 0x5B000000, 0x5C000000, 0x5D000000, 0x5E000000, 0x5F000000,
   0x60000000, 0x61000000, 0x62000000, 0x63000000, 0x64000000, 0x65000000, 0x66000000, 0x67000000,
   0x68000000, 0x69000000, 0x6A000000, 0x6B000000, 0x6C000000, 0x6D000000, 0x6E000000, 0x6F000000,
   0x70000000, 0x71000000, 0x72000000, 0x73000000, 0x74000000, 0x75000000, 0x76000000, 0x77000000,
   0x78000000, 0x79000000, 0x7A000000, 0x7B000000, 0x7C000000, 0x7D000000, 0x7E000000, 0x7F000000,
   0x80000000, 0x81000000, 0x82000000, 0x83000000, 0x84000000, 0x85000000, 0x86000000, 0x87000000,
   0x88000000, 0x89000000, 0x8A000000, 0x8B000000, 0x8C000000, 0x8D000000, 0x8E000000, 0x8F000000,
   0x90000000, 0x91000000, 0x92000000, 0x93000000, 0x94000000, 0x95000000, 0x96000000, 0x97000000,
   0x98000000, 0x99000000, 0x9A000000, 0x9B000000, 0x9C000000, 0x9D000000, 0x9E000000, 0x9F000000,
   0xA0000000, 0xA1000000, 0xA2000000, 0xA3000000, 0xA4000000, 0xA5000000, 0xA6000000, 0xA7000000,
   0xA8000000, 0xA9000000, 0xAA000000, 0xAB000000, 0xAC000000, 0xAD000000, 0xAE000000, 0xAF000000,
   0xB0000000, 0xB1000000, 0xB2000000, 0xB3000000, 0xB4000000, 0xB5000000, 0xB6000000, 0xB7000000,
   0xB8000000, 0xB9000000, 0xBA000000, 0xBB000000, 0xBC000000, 0xBD000000, 0xBE000000, 0xBF000000,
   0xC0000000, 0xC1000000, 0xC2000000, 0xC3000000, 0xC4000000, 0xC5000000, 0xC6000000, 0xC7000000,
   0xC8000000, 0xC9000000, 0xCA000000, 0xCB000000, 0xCC000000, 0xCD000000, 0xCE000000, 0xCF000000,
   0xD0000000, 0xD1000000, 0xD2000000, 0xD3000000, 0xD4000000, 0xD5000000, 0xD6000000, 0xD7000000,
   0xD8000000, 0xD9000000, 0xDA000000, 0xDB000000, 0xDC000000, 0xDD000000, 0xDE000000, 0xDF000000,
   0xE0000000, 0xE1000000, 0xE2000000, 0xE3000000, 0xE4000000, 0xE5000000, 0xE6000000, 0xE7000000,
   0xE8000000, 0xE9000000, 0xEA000000, 0xEB000000, 0xEC000000, 0xED000000, 0xEE000000, 0xEF000000,
   0xF0000000, 0xF1000000, 0xF2000000, 0xF3000000, 0xF4000000, 0xF5000000, 0xF6000000, 0xF7000000,
   0xF8000000, 0xF9000000, 0xFA000000, 0xFB000000, 0xFC000000, 0xFD000000, 0xFE000000, 0xFF000000]"
  by (simp add: rtss_crc32_ethernet_table_def msb_byte_def msb_bit_def)

lemma upt_256: "[0..<256] = concat (map (\<lambda>k. map (\<lambda>j. 16 * k + j) [0..<16]) [0..<16])"
  by (simp add: upt_rec)

lemma gpt_table_nth: "i < 256 \<Longrightarrow> rtss_gpt_crc32_table ! i = crc_byte (of_nat i)"
proof -
  assume i: "i < 256"
  have "rtss_gpt_crc32_table = map (\<lambda>i. crc_byte (of_nat i)) [0..<256]"
    unfolding gpt_table_bitwise upt_256 by (simp add: upt_rec)
  then have "rtss_gpt_crc32_table ! i = map (\<lambda>i. crc_byte (of_nat i)) [0..<256] ! i"
    by (rule arg_cong)
  also have "\<dots> = (\<lambda>i. crc_byte (of_nat i)) i"
    using i by (subst nth_map) simp_all
  finally show ?thesis by simp
qed

lemma ethernet_table_nth: "i < 256 \<Longrightarrow> rtss_crc32_ethernet_table ! i = msb_byte (push_bit 24 (of_nat i))"
proof -
  assume i: "i < 256"
  have "rtss_crc32_ethernet_table = map (\<lambda>i. msb_byte (push_bit 24 (of_nat i))) [0..<256]"
    unfolding ethernet_table_bitwise upt_256 by (simp add: upt_rec)
  then have "rtss_crc32_ethernet_table ! i = map (\<lambda>i. msb_byte (push_bit 24 (of_nat i))) [0..<256] ! i"
    by (rule arg_cong)
  also have "\<dots> = (\<lambda>i. msb_byte (push_bit 24 (of_nat i))) i"
    using i by (subst nth_map) simp_all
  finally show ?thesis by simp
qed

section \<open>Linearity\<close>

lemma crc_bit_xor: "crc_bit (x XOR y) = crc_bit x XOR crc_bit y"
  by (auto simp: crc_bit_def drop_bit_xor bit_simps xor.assoc xor.left_commute xor.commute)

lemma crc_byte_xor: "crc_byte (x XOR y) = crc_byte x XOR crc_byte y"
  by (simp add: crc_byte_def crc_bit_xor)

lemma crc_byte_high: "(\<And>i. i < 8 \<Longrightarrow> \<not> bit x i) \<Longrightarrow> crc_byte x = drop_bit 8 x"
  by (simp add: crc_byte_def crc_bit_def bit_drop_bit_eq numeral_eq_Suc)

lemma msb_bit_xor: "msb_bit (x XOR y) = msb_bit x XOR msb_bit y"
  by (auto simp: msb_bit_def push_bit_xor bit_simps xor.assoc xor.left_commute xor.commute)

lemma msb_byte_xor: "msb_byte (x XOR y) = msb_byte x XOR msb_byte y"
  by (simp add: msb_byte_def msb_bit_xor)

lemma msb_bit_push:
  "(\<And>i. 24 \<le> i \<Longrightarrow> \<not> bit x i) \<Longrightarrow> k < 8 \<Longrightarrow> msb_bit (push_bit k x) = push_bit (Suc k) x"
  by (simp add: msb_bit_def bit_push_bit_iff push_bit_push_bit)

lemma msb_byte_low:
  assumes "\<And>i. 24 \<le> i \<Longrightarrow> \<not> bit x i"
  shows "msb_byte x = push_bit 8 x"
proof -
  note step = msb_bit_push [OF assms]
  have "msb_byte (push_bit 0 x) = push_bit 8 x"
    unfolding msb_byte_def by (simp only: step Suc_eq_numeral) (simp add: numeral_eq_Suc step)
  then show ?thesis by simp
qed

text \<open>A step of either routine is eight steps of the bitwise CRC.\<close>

lemma gpt_crc_step_byte: "gpt_crc_step crc b = crc_byte (crc XOR ucast b)"
proof -
  let ?i = "(ucast crc :: u8) XOR b"
  let ?h = "crc AND NOT (mask 8)"
  have split: "crc XOR ucast b = ?h XOR ucast ?i"
    by (rule bit_word_eqI) (auto simp: bit_simps)
  have "crc_byte ?h = drop_bit 8 ?h"
    by (rule crc_byte_high) (simp add: bit_simps)
  also have "\<dots> = drop_bit 8 crc"
    by (rule bit_word_eqI) (auto simp: bit_simps dest: bit_imp_le_length)
  finally have high: "crc_byte ?h = drop_bit 8 crc" .
  have "unat ?i < 256"
    using unat_lt [of ?i] by simp
  then have "rtss_gpt_crc32_table ! unat ?i = crc_byte (ucast ?i)"
    by (simp add: gpt_table_nth)
  then show ?thesis
    by (simp add: gpt_crc_step_def split crc_byte_xor high)
qed

end
