(* ===== verification/Crc_Props.thy ===== *)
theory Crc_Props
  imports Crc
begin

text \<open>
  The two CRC routines agree, each is the bitwise CRC, checksums chain, and every change of
  a single byte changes the checksum.
\<close>

section \<open>Reflection\<close>

lemma reflect_fold:
  fixes val :: "'a::len word"
  assumes "k \<le> LENGTH('a)" and m: "LENGTH('a) = Suc m"
  shows "bit (fold (\<lambda>i res. if val AND push_bit i 1 \<noteq> 0 then res OR push_bit (m - i) 1
      else res) [0..<k] (0 :: 'a word)) n
    \<longleftrightarrow> n < LENGTH('a) \<and> m - n < k \<and> bit val (m - n)"
  using assms(1)
proof (induction k)
  case (Suc k)
  have "val AND push_bit k 1 \<noteq> 0 \<longleftrightarrow> bit val k"
    by (simp add: bit_iff_and_push_bit_not_eq_0)
  moreover have "n = m - k \<longleftrightarrow> m - n = k" if "n \<le> m"
    using that Suc.prems m by auto
  ultimately show ?case
    using Suc m by (auto simp: bit_simps less_Suc_eq)
qed simp

lemma bit_crc8_reflect: "bit (rtss_crc8_reflect v) n \<longleftrightarrow> n < 8 \<and> bit v (7 - n)"
  unfolding rtss_crc8_reflect_def by (subst reflect_fold) auto

lemma bit_crc32_reflect: "bit (rtss_crc32_reflect v) n \<longleftrightarrow> n < 32 \<and> bit v (31 - n)"
  unfolding rtss_crc32_reflect_def by (subst reflect_fold) auto

lemma crc32_reflect_xor: "rtss_crc32_reflect (x XOR y) = rtss_crc32_reflect x XOR rtss_crc32_reflect y"
  by (rule bit_word_eqI) (auto simp: bit_simps bit_crc32_reflect)

lemma crc32_reflect_twice: "rtss_crc32_reflect (rtss_crc32_reflect x) = x"
  by (rule bit_word_eqI) (auto simp: bit_crc32_reflect)

lemma crc32_reflect_poly: "rtss_crc32_reflect 0x04C11DB7 = 0xEDB88320"
  by code_simp

lemma crc32_reflect_msb_bit: "rtss_crc32_reflect (msb_bit x) = crc_bit (rtss_crc32_reflect x)"
proof -
  have push: "bit (push_bit 1 x) n \<longleftrightarrow> 1 \<le> n \<and> n < 32 \<and> bit x (n - 1)" for n
    by (subst bit_push_bit_iff) simp
  have drop: "bit (drop_bit 1 y) n \<longleftrightarrow> bit y (1 + n)" for y :: u32 and n
    by (simp add: bit_drop_bit_eq)
  have idx: "31 - n - 1 = 31 - (1 + n)" "1 \<le> 31 - n \<longleftrightarrow> 1 + n < 32" "31 - n < 32" for n :: nat
    by auto
  have "rtss_crc32_reflect (push_bit 1 x) = drop_bit 1 (rtss_crc32_reflect x)"
    by (rule bit_word_eqI) (auto simp only: bit_crc32_reflect drop push idx)
  then show ?thesis
    by (simp add: msb_bit_def crc_bit_def crc32_reflect_xor crc32_reflect_poly bit_crc32_reflect)
qed

lemma crc32_reflect_msb_byte: "rtss_crc32_reflect (msb_byte x) = crc_byte (rtss_crc32_reflect x)"
  by (simp add: msb_byte_def crc_byte_def crc32_reflect_msb_bit)

lemma crc32_step_msb: "crc32_step rtss_crc32_channel_cfg c b =
  msb_byte (c XOR push_bit 24 (ucast (rtss_crc8_reflect b)))"
proof -
  define i where "i = (ucast (drop_bit 24 (c XOR push_bit 24 (ucast (rtss_crc8_reflect b)))) :: u8)"
  let ?l = "c AND mask 24"
  have split: "c XOR push_bit 24 (ucast (rtss_crc8_reflect b)) = ?l XOR push_bit 24 (ucast i)"
    by (rule bit_word_eqI) (auto simp: i_def bit_simps)
  have "msb_byte ?l = push_bit 8 ?l"
    by (rule msb_byte_low) (simp add: bit_simps)
  also have "\<dots> = push_bit 8 c"
    by (rule bit_word_eqI) (auto simp: bit_simps)
  finally have low: "msb_byte ?l = push_bit 8 c" .
  have "unat i < 256"
    using unat_lt [of i] by simp
  then have "rtss_crc32_ethernet_table ! unat i = msb_byte (push_bit 24 (ucast i))"
    by (simp add: ethernet_table_nth)
  moreover have "crc32_step rtss_crc32_channel_cfg c b = push_bit 8 c XOR rtss_crc32_ethernet_table ! unat i"
    by (simp add: crc32_step_def rtss_crc32_channel_cfg_def i_def)
  ultimately show ?thesis
    unfolding split msb_byte_xor low by simp
qed

text \<open>The left shifting routine on reflected data is the right shifting routine.\<close>

lemma crc32_step_reflect:
  "rtss_crc32_reflect (crc32_step rtss_crc32_channel_cfg c b) = gpt_crc_step (rtss_crc32_reflect c) b"
proof -
  have "rtss_crc32_reflect (push_bit 24 (ucast (rtss_crc8_reflect b))) = ucast b"
  proof (rule bit_word_eqI)
    fix n assume "n < LENGTH(32)"
    moreover have "7 - (7 - n) = n" "24 \<le> 31 - n" if "bit b n"
      using bit_imp_le_length [OF that] by simp_all
    ultimately show "bit (rtss_crc32_reflect (push_bit 24 (ucast (rtss_crc8_reflect b)))) n
        = bit (ucast b :: u32) n"
      by (auto simp: bit_simps bit_crc32_reflect bit_crc8_reflect)
  qed
  then show ?thesis
    by (simp add: crc32_step_msb gpt_crc_step_byte crc32_reflect_msb_byte crc32_reflect_xor)
qed

lemma crc32_fold_reflect:
  "rtss_crc32_reflect (foldl (crc32_step rtss_crc32_channel_cfg) c bytes)
    = foldl gpt_crc_step (rtss_crc32_reflect c) bytes"
  by (induction bytes arbitrary: c) (simp_all add: crc32_step_reflect)

text \<open>The checksum as a function of the bytes.\<close>

definition crc32 :: "u8 list \<Rightarrow> u32" where
  "crc32 bytes = foldl gpt_crc_step 0xFFFFFFFF bytes XOR 0xFFFFFFFF"

lemma rtss_crc32_generate_crc32:
  assumes "bytes \<noteq> []"
  shows "rtss_crc32_generate crcETH_CHANNEL_CRC32 (Some bytes) True = (CRC_SUCCESS, Some (crc32 bytes))"
proof -
  have ones: "rtss_crc32_reflect 0xFFFFFFFF = 0xFFFFFFFF"
    by code_simp
  have cfg: "initial_value rtss_crc32_channel_cfg = 0xFFFFFFFF"
    "final_xor_value rtss_crc32_channel_cfg = 0xFFFFFFFF" "result_data_reflected rtss_crc32_channel_cfg"
    by (simp_all add: rtss_crc32_channel_cfg_def)
  show ?thesis
    using assms by (simp add: rtss_crc32_generate_def crcETH_CHANNEL_CRC32_def crcMAX_CH_ID_def
        rtss_crc_core_config_def Let_def cfg crc32_fold_reflect ones crc32_def)
qed

lemma rtss_gpt_calc_crc32_crc32:
  "bytes \<noteq> [] \<Longrightarrow> rtss_gpt_calc_crc32 (Some bytes) 0 = crc32 bytes"
  by (simp add: rtss_gpt_calc_crc32_def crc32_def)

lemma rtss_upd_calculate_crc32_ok:
  "bytes \<noteq> [] \<Longrightarrow> rtss_upd_calculate_crc32 (Some bytes) True = (RTSS_UPD_E_OK, Some (crc32 bytes))"
  by (simp add: rtss_upd_calculate_crc32_def rtss_crc32_generate_crc32)

lemma rtss_upd_verify_crc32_iff:
  "bytes \<noteq> [] \<Longrightarrow> rtss_upd_verify_crc32 c (Some bytes) = RTSS_UPD_E_OK \<longleftrightarrow> c = crc32 bytes"
  by (auto simp: rtss_upd_verify_crc32_def rtss_crc32_verify_def rtss_crc32_generate_crc32
      RTSS_UPD_E_OK_def RTSS_UPD_E_ERR_def)

section \<open>Error detection\<close>

lemma xor_left_cancel: "x XOR y = x XOR z \<longleftrightarrow> y = z" for x y z :: u32
  by (metis xor.assoc xor_self_eq xor.left_neutral)

lemma xor_right_cancel: "y XOR x = z XOR x \<longleftrightarrow> y = z" for x y z :: u32
  by (metis xor.commute xor_left_cancel)

lemma crc_bit_inject: "crc_bit x = crc_bit y \<longleftrightarrow> x = y"
proof
  have top: "bit (crc_bit z) 31 = bit z 0" for z
    by (auto simp: crc_bit_def bit_simps dest: bit_imp_le_length)
  assume eq: "crc_bit x = crc_bit y"
  then have b0: "bit x 0 = bit y 0"
    using top [of x] top [of y] by simp
  have "drop_bit 1 x = drop_bit 1 y"
    using eq b0 by (simp only: crc_bit_def xor_right_cancel split: if_splits) simp
  then have "bit x (Suc n) = bit y (Suc n)" for n
    by (metis bit_drop_bit_eq comp_apply plus_1_eq_Suc)
  then show "x = y"
    using b0 by (intro bit_word_eqI) (metis not0_implies_Suc)
qed simp

lemma crc_byte_inject: "crc_byte x = crc_byte y \<longleftrightarrow> x = y"
  by (simp add: crc_byte_def crc_bit_inject)

lemma gpt_crc_step_inject_crc: "gpt_crc_step c b = gpt_crc_step d b \<longleftrightarrow> c = d"
  by (simp add: gpt_crc_step_byte crc_byte_inject xor_right_cancel)

lemma gpt_crc_step_inject_byte: "gpt_crc_step c a = gpt_crc_step c b \<longleftrightarrow> a = b"
proof -
  have "ucast (ucast x :: u32) = x" for x :: u8
    by (rule bit_word_eqI) (simp add: bit_simps)
  then have "ucast a = (ucast b :: u32) \<longleftrightarrow> a = b"
    by metis
  then show ?thesis
    by (simp add: gpt_crc_step_byte crc_byte_inject xor_left_cancel)
qed

lemma fold_inject: "foldl gpt_crc_step c xs = foldl gpt_crc_step d xs \<longleftrightarrow> c = d"
  by (induction xs arbitrary: c d) (simp_all add: gpt_crc_step_inject_crc)

lemma crc32_one_byte:
  "crc32 (xs @ a # ys) = crc32 (xs @ b # ys) \<longleftrightarrow> a = b"
proof -
  show ?thesis
    unfolding crc32_def xor_right_cancel by (simp add: fold_inject gpt_crc_step_inject_byte)
qed

section \<open>Evaluation\<close>

text \<open>A step through the low byte, and the 256 entries as rewrite rules.\<close>

lemma gpt_crc_step_low: "gpt_crc_step c b = drop_bit 8 c XOR crc_byte ((c XOR ucast b) AND 0xFF)"
proof -
  let ?x = "c XOR ucast b"
  have m: "0xFF = (mask 8 :: u32)"
    by (simp add: mask_eq_exp_minus_1)
  have "?x = (?x AND mask 8) XOR push_bit 8 (drop_bit 8 c)"
    by (rule bit_word_eqI) (auto simp: bit_simps dest: bit_imp_le_length)
  then have "crc_byte ?x = crc_byte (?x AND mask 8) XOR crc_byte (push_bit 8 (drop_bit 8 c))"
    by (metis crc_byte_xor)
  moreover have "crc_byte (push_bit 8 (drop_bit 8 c)) = drop_bit 8 (push_bit 8 (drop_bit 8 c))"
    by (rule crc_byte_high) (simp add: bit_simps)
  moreover have "drop_bit 8 (push_bit 8 (drop_bit 8 c)) = drop_bit 8 c"
    by (rule bit_word_eqI) (auto simp: bit_simps dest: bit_imp_le_length)
  ultimately show ?thesis
    by (simp add: gpt_crc_step_byte m xor.commute)
qed

lemmas crc_byte_values =
  gpt_table_bitwise [symmetric, unfolded rtss_gpt_crc32_table_def list.map list.inject]

lemmas crc_eval = crc32_def gpt_crc_step_low crc_byte_values

end
