(* ===== verification/Byte_Lists.thy ===== *)
theory Byte_Lists
  imports Prelude
begin

text \<open>
  Packed structures held as byte lists: loads and stores of little-endian members at an
  offset, with their read-over-write laws. The GPT header and the messages of the update
  protocol are such lists.
\<close>

definition get8 :: "nat \<Rightarrow> u8 list \<Rightarrow> u8" where
  "get8 off bs = bs ! off"

definition get16 :: "nat \<Rightarrow> u8 list \<Rightarrow> u16" where
  "get16 off bs = ucast (bs ! off) OR push_bit 8 (ucast (bs ! (off + 1)))"

definition get32 :: "nat \<Rightarrow> u8 list \<Rightarrow> u32" where
  "get32 off bs = le32 (bs ! off) (bs ! (off + 1)) (bs ! (off + 2)) (bs ! (off + 3))"

definition get64 :: "nat \<Rightarrow> u8 list \<Rightarrow> u64" where
  "get64 off bs = ucast (get32 off bs) OR push_bit 32 (ucast (get32 (off + 4) bs))"

text \<open>Overwriting part of a list.\<close>

definition overwrite :: "nat \<Rightarrow> u8 list \<Rightarrow> u8 list \<Rightarrow> u8 list" where
  "overwrite off new bs = take off bs @ new @ drop (off + length new) bs"

definition put8 :: "nat \<Rightarrow> u8 \<Rightarrow> u8 list \<Rightarrow> u8 list" where
  "put8 off v bs = overwrite off [v] bs"

definition put32 :: "nat \<Rightarrow> u32 \<Rightarrow> u8 list \<Rightarrow> u8 list" where
  "put32 off v bs = overwrite off (bytes32 v) bs"

lemma length_overwrite [simp]: "off + length new \<le> length bs \<Longrightarrow> length (overwrite off new bs) = length bs"
  by (simp add: overwrite_def)

lemma overwrite_nth_in: "off + length new \<le> length bs \<Longrightarrow> off \<le> i \<Longrightarrow> i < off + length new \<Longrightarrow>
  overwrite off new bs ! i = new ! (i - off)"
  by (simp add: overwrite_def nth_append less_diff_conv2 add.commute)

lemma overwrite_nth_out: "off + length new \<le> length bs \<Longrightarrow> i < off \<or> off + length new \<le> i \<Longrightarrow>
  overwrite off new bs ! i = bs ! i"
  by (auto simp: overwrite_def nth_append)

lemma overwrite_same: "off + length old = off + length new \<Longrightarrow> off + length new \<le> length bs \<Longrightarrow>
  overwrite off new (overwrite off old bs) = overwrite off new bs"
  by (simp add: overwrite_def)

lemma overwrite_nth:
  "off + length new \<le> length bs \<Longrightarrow>
   overwrite off new bs ! i = (if off \<le> i \<and> i < off + length new then new ! (i - off) else bs ! i)"
  by (auto simp: overwrite_nth_in overwrite_nth_out not_less)

lemma length_put32 [simp]: "off + 4 \<le> length bs \<Longrightarrow> length (put32 off v bs) = length bs"
  by (simp add: put32_def)

lemma length_put8 [simp]: "off < length bs \<Longrightarrow> length (put8 off v bs) = length bs"
  by (simp add: put8_def)

lemma get32_put32_same: "off + 4 \<le> length bs \<Longrightarrow> get32 off (put32 off v bs) = v"
  by (simp add: get32_def put32_def overwrite_nth bytes32_def le32_bytes32)

lemma get32_overwrite_other:
  "off + length new \<le> length bs \<Longrightarrow> o' + 4 \<le> off \<or> off + length new \<le> o' \<Longrightarrow>
   get32 o' (overwrite off new bs) = get32 o' bs"
  by (auto simp: get32_def overwrite_nth)

lemma get32_put32_other:
  "off + 4 \<le> length bs \<Longrightarrow> o' + 4 \<le> off \<or> off + 4 \<le> o' \<Longrightarrow> get32 o' (put32 off v bs) = get32 o' bs"
  by (simp add: put32_def get32_overwrite_other)

lemma put32_put32_same: "off + 4 \<le> length bs \<Longrightarrow> put32 off w (put32 off v bs) = put32 off w bs"
  by (simp add: put32_def overwrite_same)

lemma put32_get32: "off + 4 \<le> length bs \<Longrightarrow> bytes32 (get32 off bs) = take 4 (drop off bs)"
proof -
  assume "off + 4 \<le> length bs"
  moreover have "bytes32 (le32 a b c d) = [a, b, c, d]" for a b c d
  proof -
    have "ucast (le32 a b c d) = a"
      by (rule bit_word_eqI) (auto simp: le32_def bit_simps dest: bit_imp_le_length)
    moreover have "ucast (drop_bit 8 (le32 a b c d)) = b"
      by (rule bit_word_eqI) (auto simp: le32_def bit_simps dest: bit_imp_le_length)
    moreover have "ucast (drop_bit 16 (le32 a b c d)) = c"
      by (rule bit_word_eqI) (auto simp: le32_def bit_simps dest: bit_imp_le_length)
    moreover have "ucast (drop_bit 24 (le32 a b c d)) = d"
      by (rule bit_word_eqI) (auto simp: le32_def bit_simps dest: bit_imp_le_length)
    ultimately show ?thesis by (simp add: bytes32_def)
  qed
  ultimately show ?thesis
    by (simp add: get32_def list_eq_iff_nth_eq All_less_Suc numeral_eq_Suc nth_append)
qed

lemma put32_id: "off + 4 \<le> length bs \<Longrightarrow> put32 off (get32 off bs) bs = bs"
  by (simp add: put32_def overwrite_def put32_get32)
    (metis add.commute append_take_drop_id drop_drop)

end
