(* ===== verification/Guidpt.thy ===== *)
theory Guidpt
  imports Crc_Props Byte_Lists
begin

text \<open>
  The GUID partition table module, \<^verbatim>\<open>rtss_gpt/src/rtss_guidpt.c\<close> with the structures of
  \<^verbatim>\<open>rtss_guidpt.h\<close>. The header and the partition entries are the packed byte lists the C
  code reads; the module's file-scope variables are the record \<open>gpt_state\<close>; the storage is
  reached through the read callback, which is a parameter: from a start address, a size and
  the buffer it returns the number of bytes read and the buffer it leaves.
\<close>

section \<open>Structures\<close>

datatype gpt_hdr_field = Signature | Revision | Header_size | Header_crc32 | Reserved1 | My_lba
  | Alternate_lba | First_usable_lba | Last_usable_lba | Disk_guid | Partition_entry_lba
  | Number_of_partition_entries | Size_of_partition_entry | Partition_entries_crc32

fun rtss_gpt_header_t :: "gpt_hdr_field \<Rightarrow> nat" where
  "rtss_gpt_header_t Signature = 0"
| "rtss_gpt_header_t Revision = 8"
| "rtss_gpt_header_t Header_size = 12"
| "rtss_gpt_header_t Header_crc32 = 16"
| "rtss_gpt_header_t Reserved1 = 20"
| "rtss_gpt_header_t My_lba = 24"
| "rtss_gpt_header_t Alternate_lba = 32"
| "rtss_gpt_header_t First_usable_lba = 40"
| "rtss_gpt_header_t Last_usable_lba = 48"
| "rtss_gpt_header_t Disk_guid = 56"
| "rtss_gpt_header_t Partition_entry_lba = 72"
| "rtss_gpt_header_t Number_of_partition_entries = 80"
| "rtss_gpt_header_t Size_of_partition_entry = 84"
| "rtss_gpt_header_t Partition_entries_crc32 = 88"

datatype gpt_entry_field = Partition_type_guid | Partition_guid | Starting_lba | Ending_lba
  | Attributes | Partition_name

fun rtss_gpt_entry_t :: "gpt_entry_field \<Rightarrow> nat" where
  "rtss_gpt_entry_t Partition_type_guid = 0"
| "rtss_gpt_entry_t Partition_guid = 16"
| "rtss_gpt_entry_t Starting_lba = 32"
| "rtss_gpt_entry_t Ending_lba = 40"
| "rtss_gpt_entry_t Attributes = 48"
| "rtss_gpt_entry_t Partition_name = 56"

definition hdr32 :: "gpt_hdr_field \<Rightarrow> u8 list \<Rightarrow> u32" where
  "hdr32 f h = get32 (rtss_gpt_header_t f) h"

definition hdr64 :: "gpt_hdr_field \<Rightarrow> u8 list \<Rightarrow> u64" where
  "hdr64 f h = get64 (rtss_gpt_header_t f) h"

definition sizeof_gpt_header :: nat where "sizeof_gpt_header = 92"
definition sizeof_gpt_entry :: nat where "sizeof_gpt_entry = 128"

record rtss_gpt_guid_t =
  data1 :: u32
  data2 :: u16
  data3 :: u16
  data4 :: "u8 list"

definition RTSS_GPT_GUID_STRING_SIZE :: nat where "RTSS_GPT_GUID_STRING_SIZE = 36"
definition RTSS_GPT_NOR_LBA_SZ :: u32 where "RTSS_GPT_NOR_LBA_SZ = 4096"
definition RTSS_GPT_CRC32_SEED_DEFAULT :: u32 where "RTSS_GPT_CRC32_SEED_DEFAULT = 0"
definition RTSS_GPT_TABLE_NULL :: u32 where "RTSS_GPT_TABLE_NULL = 0"
definition RTSS_GPT_TABLE_PRIMARY :: u32 where "RTSS_GPT_TABLE_PRIMARY = 1"
definition RTSS_GPT_TABLE_SECONDARY :: u32 where "RTSS_GPT_TABLE_SECONDARY = 2"

text \<open>\<open>"EFI PART"\<close>\<close>

definition RTSS_GPT_SIGNATURE :: "u8 list" where
  "RTSS_GPT_SIGNATURE = [0x45, 0x46, 0x49, 0x20, 0x50, 0x41, 0x52, 0x54]"

type_synonym read_cb = "u32 \<Rightarrow> u32 \<Rightarrow> u8 list \<Rightarrow> u32 \<times> u8 list"

record gpt_state =
  g_hdr :: "u8 list"
  g_init_done :: bool
  g_entry_read_cb :: "read_cb option"
  g_block_count :: u32
  g_work_buf :: "u8 list option"
  g_work_buf_sz :: u32
  g_read_alignment :: u32
  g_gpt_id :: u32

section \<open>Checks of the header\<close>

definition rtss_gpt_is_primary_header :: "u8 list \<Rightarrow> bool" where
  "rtss_gpt_is_primary_header hdr \<longleftrightarrow> hdr64 My_lba hdr = 1"

definition rtss_gpt_get_partition_entry_lba_base :: "u8 list \<Rightarrow> u32 \<Rightarrow> u64" where
  "rtss_gpt_get_partition_entry_lba_base hdr lba_sz = hdr64 Partition_entry_lba hdr * ucast lba_sz"

definition rtss_gpt_get_num_of_partition_entries :: "u8 list \<Rightarrow> u32" where
  "rtss_gpt_get_num_of_partition_entries hdr = hdr32 Number_of_partition_entries hdr"

definition rtss_gpt_get_partition_entry_size :: "u8 list \<Rightarrow> u32" where
  "rtss_gpt_get_partition_entry_size hdr = hdr32 Size_of_partition_entry hdr"

text \<open>The loop over the entries: one read and one run of the CRC per entry. The result is
  \<open>None\<close> when a read is short.\<close>

fun entries_crc :: "read_cb \<Rightarrow> u32 \<Rightarrow> u32 \<Rightarrow> nat list \<Rightarrow> u32 \<Rightarrow> u8 list \<Rightarrow> u32 option \<times> u8 list" where
  "entries_crc cb base sz [] crc buf = (Some crc, buf)"
| "entries_crc cb base sz (i # is) crc buf =
     (case cb (base + of_nat i * sz) sz buf of (nbytes, buf') \<Rightarrow>
        if nbytes \<noteq> sz then (None, buf')
        else entries_crc cb base sz is (foldl gpt_crc_step crc (take (unat nbytes) buf')) buf')"

definition rtss_gpt_verify_partition_entry_crc32 ::
  "u32 \<Rightarrow> u8 list \<Rightarrow> u8 list \<Rightarrow> read_cb \<Rightarrow> u32 \<Rightarrow> u32 \<Rightarrow> bool \<times> u8 list" where
  "rtss_gpt_verify_partition_entry_crc32 work_buf_sz hdr buf cb lba_sz crc32_seed =
     (let num_entries = hdr32 Number_of_partition_entries hdr;
          entry_size = hdr32 Size_of_partition_entry hdr;
          entry_base = ucast (hdr64 Partition_entry_lba hdr * ucast lba_sz) :: u32
      in if entry_size > work_buf_sz then (False, buf)
         else case entries_crc cb entry_base entry_size [0..<unat num_entries]
                     (0xFFFFFFFF XOR crc32_seed) buf of
                (None, buf') \<Rightarrow> (False, buf')
              | (Some crc, buf') \<Rightarrow> (crc XOR 0xFFFFFFFF = hdr32 Partition_entries_crc32 hdr, buf'))"

text \<open>The header's CRC is taken over its first \<open>header_size\<close> bytes with the CRC member zeroed;
  the member is restored afterwards, so the header is unchanged.\<close>

definition rtss_gpt_verify_header_crc32 :: "u8 list \<Rightarrow> u32 \<Rightarrow> bool \<times> u8 list" where
  "rtss_gpt_verify_header_crc32 hdr crc32_seed =
     (let crc = hdr32 Header_crc32 hdr
      in if unat (hdr32 Header_size hdr) > sizeof_gpt_header then (False, hdr)
         else let hdr0 = put32 (rtss_gpt_header_t Header_crc32) 0 hdr;
                  crc2 = rtss_gpt_calc_crc32 (Some (take (unat (hdr32 Header_size hdr0)) hdr0)) crc32_seed
              in (crc = crc2, put32 (rtss_gpt_header_t Header_crc32) crc hdr0))"

section \<open>Partition entries\<close>

definition guid_at :: "nat \<Rightarrow> u8 list \<Rightarrow> rtss_gpt_guid_t" where
  "guid_at off bs = \<lparr>data1 = get32 off bs, data2 = get16 (off + 4) bs, data3 = get16 (off + 6) bs,
     data4 = take 8 (drop (off + 8) bs)\<rparr>"

definition rtss_gpt_get_partition_base :: "u8 list option \<Rightarrow> u32 \<Rightarrow> u64" where
  "rtss_gpt_get_partition_base entry lba_sz =
     (case entry of None \<Rightarrow> 0
      | Some e \<Rightarrow> get64 (rtss_gpt_entry_t Starting_lba) e * ucast lba_sz)"

definition rtss_gpt_get_partition_size :: "u8 list option \<Rightarrow> u32 \<Rightarrow> u64" where
  "rtss_gpt_get_partition_size entry lba_sz =
     (case entry of None \<Rightarrow> 0
      | Some e \<Rightarrow>
          let s = get64 (rtss_gpt_entry_t Starting_lba) e; t = get64 (rtss_gpt_entry_t Ending_lba) e
          in if t < s then 0 else (t - s + 1) * ucast lba_sz)"

definition rtss_gpt_verify_partition_guid :: "u8 list option \<Rightarrow> rtss_gpt_guid_t option \<Rightarrow> bool" where
  "rtss_gpt_verify_partition_guid entry guid =
     (case (entry, guid) of
        (Some e, Some g) \<Rightarrow>
          let t = guid_at (rtss_gpt_entry_t Partition_type_guid) e
          in \<not> (data1 t \<noteq> data1 g \<or> data2 t \<noteq> data2 g \<or> data3 t \<noteq> data3 g
               \<or> data4 t ! 0 \<noteq> data4 g ! 0 \<or> data4 t ! 1 \<noteq> data4 g ! 1
               \<or> data4 t ! 2 \<noteq> data4 g ! 2 \<or> data4 t ! 3 \<noteq> data4 g ! 3
               \<or> data4 t ! 4 \<noteq> data4 g ! 4 \<or> data4 t ! 5 \<noteq> data4 g ! 5
               \<or> data4 t ! 6 \<noteq> data4 g ! 6 \<or> data4 t ! 7 \<noteq> data4 g ! 7)
      | _ \<Rightarrow> False)"

section \<open>GUID strings\<close>

definition rtss_gpt_is_hex_digit :: "u8 \<Rightarrow> bool" where
  "rtss_gpt_is_hex_digit ch \<longleftrightarrow>
     (ch \<le> 0x39 \<and> ch \<ge> 0x30) \<or> (ch \<le> 0x66 \<and> ch \<ge> 0x61) \<or> (ch \<le> 0x46 \<and> ch \<ge> 0x41)"

definition hex_nibble :: "u8 \<Rightarrow> u32" where
  "hex_nibble ch =
     (if ch \<ge> 0x30 \<and> ch \<le> 0x39 then ucast ch - 0x30
      else if ch \<ge> 0x61 \<and> ch \<le> 0x66 then ucast ch - 0x61 + 10
      else ucast ch - 0x41 + 10)"

definition rtss_gpt_hex2dec :: "u8 list \<Rightarrow> nat \<Rightarrow> u32" where
  "rtss_gpt_hex2dec hex count =
     foldl (\<lambda>value ch. push_bit 4 value OR hex_nibble ch) 0 (take count hex)"

definition guid_char_ok :: "u8 list \<Rightarrow> nat \<Rightarrow> bool" where
  "guid_char_ok s i \<longleftrightarrow> rtss_gpt_is_hex_digit (s ! i)
     \<or> ((i = 8 \<or> i = 13 \<or> i = 18 \<or> i = 23) \<and> s ! i = 0x2D)"

text \<open>The string is given without its terminating zero, \<open>None\<close> for a null pointer; the
  result is the GUID stored, if any.\<close>

definition rtss_gpt_decode_guid_string :: "u8 list option \<Rightarrow> rtss_gpt_guid_t option" where
  "rtss_gpt_decode_guid_string guid_string =
     (case guid_string of None \<Rightarrow> None
      | Some s \<Rightarrow>
          if length s \<noteq> RTSS_GPT_GUID_STRING_SIZE then None
          else if \<not> list_all (guid_char_ok s) [0..<RTSS_GPT_GUID_STRING_SIZE] then None
          else Some \<lparr>data1 = rtss_gpt_hex2dec s 8,
                 data2 = ucast (rtss_gpt_hex2dec (drop 9 s) 4),
                 data3 = ucast (rtss_gpt_hex2dec (drop 14 s) 4),
                 data4 = ucast (rtss_gpt_hex2dec (drop 19 s) 2) # ucast (rtss_gpt_hex2dec (drop 21 s) 2)
                   # map (\<lambda>i. ucast (rtss_gpt_hex2dec (drop (24 + i * 2) s) 2)) [0..<6]\<rparr>)"

definition rtss_gpt_partition_decode_guid_string :: "u8 list option \<Rightarrow> rtss_gpt_guid_t option" where
  "rtss_gpt_partition_decode_guid_string guid_string = rtss_gpt_decode_guid_string guid_string"

section \<open>The partition module\<close>

text \<open>The bounded copy returns the number of bytes copied and the new destination.\<close>

definition rtss_gpt_memscpy ::
  "u8 list option \<Rightarrow> nat \<Rightarrow> u8 list option \<Rightarrow> nat \<Rightarrow> nat \<times> u8 list option" where
  "rtss_gpt_memscpy dst dst_size src src_size =
     (let copy_size = (if dst_size \<le> src_size then dst_size else src_size)
      in case (dst, src) of
           (Some d, Some s) \<Rightarrow>
             if copy_size = 0 then (0, dst) else (copy_size, Some (take copy_size s @ drop copy_size d))
         | _ \<Rightarrow> (0, dst))"

text \<open>\<open>rtss_gpt_partition_try\<close> returns its verdict, the address of the alternate header where
  it was reached and asked for, and the new state.\<close>

definition rtss_gpt_partition_try :: "u32 \<Rightarrow> u32 \<Rightarrow> u32 option \<Rightarrow> gpt_state \<Rightarrow> bool \<times> u32 option \<times> gpt_state" where
  "rtss_gpt_partition_try start_addr sz alternate st =
     (let cb = the (g_entry_read_cb st)
      in case cb start_addr sz (the (g_work_buf st)) of (nbytes, buf) \<Rightarrow>
        let st1 = st\<lparr>g_work_buf := Some buf\<rparr>
        in if sz \<noteq> nbytes then (False, alternate, st1)
           else case rtss_gpt_memscpy (Some (g_hdr st1)) sizeof_gpt_header (Some buf) sizeof_gpt_header of
             (result, hdr) \<Rightarrow>
               if result = 0 then (False, alternate, st1)
               else let st2 = st1\<lparr>g_hdr := the hdr\<rparr>
               in if take 8 (g_hdr st2) \<noteq> RTSS_GPT_SIGNATURE then (False, alternate, st2)
               else let alt = (case alternate of None \<Rightarrow> None
                      | Some _ \<Rightarrow> Some (ucast (hdr64 Alternate_lba (g_hdr st2) * ucast RTSS_GPT_NOR_LBA_SZ)))
               in (case rtss_gpt_verify_header_crc32 (g_hdr st2) RTSS_GPT_CRC32_SEED_DEFAULT of
                    (ok, hdr') \<Rightarrow>
                      let st3 = st2\<lparr>g_hdr := hdr'\<rparr>
                      in if \<not> ok then (False, alt, st3)
                         else case rtss_gpt_verify_partition_entry_crc32 (g_work_buf_sz st3) (g_hdr st3)
                                     (the (g_work_buf st3)) cb RTSS_GPT_NOR_LBA_SZ
                                     RTSS_GPT_CRC32_SEED_DEFAULT of
                                (ok2, buf') \<Rightarrow> (ok2, alt, st3\<lparr>g_work_buf := Some buf'\<rparr>)))"

definition align_up :: "u32 \<Rightarrow> u32 \<Rightarrow> u32" where
  "align_up sz a = (if sz mod a \<noteq> 0 then sz + a - sz mod a else sz)"

definition rtss_gpt_partition_init ::
  "u32 \<Rightarrow> read_cb option \<Rightarrow> u8 list option \<Rightarrow> u32 \<Rightarrow> u32 \<Rightarrow> gpt_state \<Rightarrow> bool \<times> gpt_state" where
  "rtss_gpt_partition_init block_count cb work_buf buf_sz alignment st =
     (if cb = None \<or> work_buf = None then (False, st)
      else if alignment = 0 then (False, st)
      else let st1 = st\<lparr>g_entry_read_cb := cb, g_work_buf := work_buf, g_work_buf_sz := buf_sz,
                 g_read_alignment := alignment, g_block_count := block_count\<rparr>;
               sz = align_up (of_nat sizeof_gpt_header) alignment
           in if sz > buf_sz \<or> sizeof_gpt_entry > unat buf_sz then (False, st1)
              else case rtss_gpt_partition_try RTSS_GPT_NOR_LBA_SZ sz (Some 0) st1 of
                (True, _, st2) \<Rightarrow> (True, st2\<lparr>g_gpt_id := RTSS_GPT_TABLE_PRIMARY, g_init_done := True\<rparr>)
              | (False, _, st2) \<Rightarrow>
                 (case rtss_gpt_partition_try ((block_count - 1) * RTSS_GPT_NOR_LBA_SZ) sz None st2 of
                    (True, _, st3) \<Rightarrow>
                      (True, st3\<lparr>g_gpt_id := RTSS_GPT_TABLE_SECONDARY, g_init_done := True\<rparr>)
                  | (False, _, st3) \<Rightarrow>
                      (False, st3\<lparr>g_gpt_id := RTSS_GPT_TABLE_NULL,
                                 g_hdr := replicate sizeof_gpt_header 0\<rparr>)))"

definition rtss_gpt_partition_get_gpt_id :: "gpt_state \<Rightarrow> u32" where
  "rtss_gpt_partition_get_gpt_id st = g_gpt_id st"

definition rtss_gpt_partition_get_read_cb :: "gpt_state \<Rightarrow> read_cb option" where
  "rtss_gpt_partition_get_read_cb st = g_entry_read_cb st"

definition rtss_gpt_partition_get_block_cnt :: "gpt_state \<Rightarrow> u32" where
  "rtss_gpt_partition_get_block_cnt st = g_block_count st"

definition rtss_gpt_partition_deinit :: "gpt_state \<Rightarrow> gpt_state" where
  "rtss_gpt_partition_deinit st = st\<lparr>g_hdr := replicate sizeof_gpt_header 0, g_entry_read_cb := None,
     g_work_buf := None, g_work_buf_sz := 0, g_read_alignment := 0, g_init_done := False\<rparr>"

text \<open>The search loop of \<open>rtss_gpt_get_partition_info\<close>: the verdict, the start address and size
  stored through the pointers when the partition is found, and the buffer left behind.\<close>

fun info_loop :: "read_cb \<Rightarrow> u32 \<Rightarrow> u32 \<Rightarrow> rtss_gpt_guid_t \<Rightarrow> nat list \<Rightarrow> u8 list \<Rightarrow>
    bool \<times> (u32 \<times> u32) option \<times> u8 list" where
  "info_loop cb base entry_sz guid [] buf = (False, None, buf)"
| "info_loop cb base entry_sz guid (i # is) buf =
     (case cb (base + of_nat i * entry_sz) entry_sz buf of (nbytes, buf') \<Rightarrow>
        if entry_sz \<noteq> nbytes then (False, None, buf')
        else if \<not> rtss_gpt_verify_partition_guid (Some buf') (Some guid)
        then info_loop cb base entry_sz guid is buf'
        else let start = ucast (rtss_gpt_get_partition_base (Some buf') RTSS_GPT_NOR_LBA_SZ);
                 psize = ucast (rtss_gpt_get_partition_size (Some buf') RTSS_GPT_NOR_LBA_SZ) :: u32
             in (psize \<noteq> 0, Some (start, psize), buf'))"

definition rtss_gpt_get_partition_info ::
  "rtss_gpt_guid_t option \<Rightarrow> bool \<Rightarrow> bool \<Rightarrow> gpt_state \<Rightarrow> bool \<times> (u32 \<times> u32) option \<times> gpt_state" where
  "rtss_gpt_get_partition_info guid start_given size_given st =
     (if \<not> g_init_done st \<or> guid = None \<or> \<not> start_given \<or> \<not> size_given then (False, None, st)
      else let base = ucast (hdr64 Partition_entry_lba (g_hdr st) AND 0xFFFFFFFF) * RTSS_GPT_NOR_LBA_SZ;
               entry_sz = hdr32 Size_of_partition_entry (g_hdr st)
           in if entry_sz > g_work_buf_sz st then (False, None, st)
              else case info_loop (the (g_entry_read_cb st)) base entry_sz (the guid)
                     [0..<unat (hdr32 Number_of_partition_entries (g_hdr st))] (the (g_work_buf st)) of
                (ok, out, buf) \<Rightarrow> (ok, out, st\<lparr>g_work_buf := Some buf\<rparr>))"

end
