(* ===== verification/Guidpt_Props.thy ===== *)
theory Guidpt_Props
  imports Guidpt
begin

text \<open>
  The partition table module over a storage device: the header check, the CRC of the entry
  array, the acceptance of a table by \<open>rtss_gpt_partition_init\<close> and the search of a partition.
  A read callback serves a device when every read that fits the buffer delivers the device's
  bytes.
\<close>

section \<open>Devices\<close>

definition device_bytes :: "(u32 \<Rightarrow> u8) \<Rightarrow> u32 \<Rightarrow> nat \<Rightarrow> u8 list" where
  "device_bytes d addr n = map (\<lambda>i. d (addr + of_nat i)) [0..<n]"

definition serves :: "(u32 \<Rightarrow> u8) \<Rightarrow> read_cb \<Rightarrow> bool" where
  "serves d cb \<longleftrightarrow> (\<forall>addr sz buf. unat sz \<le> length buf \<longrightarrow>
     cb addr sz buf = (sz, device_bytes d addr (unat sz) @ drop (unat sz) buf))"

lemma servesD: "serves d cb \<Longrightarrow> unat sz \<le> length buf \<Longrightarrow>
    cb addr sz buf = (sz, device_bytes d addr (unat sz) @ drop (unat sz) buf)"
  by (simp add: serves_def)

lemma length_device_bytes [simp]: "length (device_bytes d addr n) = n"
  by (simp add: device_bytes_def)

lemma nth_device_bytes [simp]: "i < n \<Longrightarrow> device_bytes d addr n ! i = d (addr + of_nat i)"
  by (simp add: device_bytes_def)

lemma take_device_bytes [simp]: "take m (device_bytes d addr n) = device_bytes d addr (min m n)"
  by (simp add: device_bytes_def take_map min_def)

lemma device_bytes_append:
  "device_bytes d addr (m + n) = device_bytes d addr m @ device_bytes d (addr + of_nat m) n"
  by (rule nth_equalityI) (auto simp: nth_append of_nat_diff)

definition ram_read_cb :: "(u32 \<Rightarrow> u8) \<Rightarrow> read_cb" where
  "ram_read_cb d addr sz buf = (sz, device_bytes d addr (unat sz) @ drop (unat sz) buf)"

lemma ram_read_cb_serves: "serves d (ram_read_cb d)"
  by (simp add: serves_def ram_read_cb_def)

section \<open>The header\<close>

definition header_crc_bytes :: "u8 list \<Rightarrow> u8 list" where
  "header_crc_bytes hdr = take (unat (hdr32 Header_size hdr)) (put32 (rtss_gpt_header_t Header_crc32) 0 hdr)"

lemma verify_header_unchanged:
  "length hdr = sizeof_gpt_header \<Longrightarrow> snd (rtss_gpt_verify_header_crc32 hdr seed) = hdr"
  by (simp add: rtss_gpt_verify_header_crc32_def sizeof_gpt_header_def Let_def hdr32_def
      put32_put32_same put32_id)

lemma gpt_calc_crc32_crc32: "rtss_gpt_calc_crc32 (Some bytes) 0 = crc32 bytes"
  by (cases "bytes = []") (simp_all add: rtss_gpt_calc_crc32_def crc32_def)

lemma verify_header_iff:
  assumes "length hdr = sizeof_gpt_header"
  shows "rtss_gpt_verify_header_crc32 hdr 0 =
    (unat (hdr32 Header_size hdr) \<le> sizeof_gpt_header \<and> hdr32 Header_crc32 hdr = crc32 (header_crc_bytes hdr), hdr)"
proof -
  have "hdr32 Header_size (put32 (rtss_gpt_header_t Header_crc32) 0 hdr) = hdr32 Header_size hdr"
    using assms by (simp add: hdr32_def get32_put32_other sizeof_gpt_header_def)
  then show ?thesis
    using assms verify_header_unchanged [OF assms(1), of 0]
    by (auto simp: rtss_gpt_verify_header_crc32_def Let_def not_less gpt_calc_crc32_crc32
        header_crc_bytes_def)
qed

lemma crc32_list_update: "i < length xs \<Longrightarrow> crc32 (xs[i := b]) = crc32 xs \<longleftrightarrow> b = xs ! i"
  by (subst (2) id_take_nth_drop, assumption) (simp add: upd_conv_take_nth_drop crc32_one_byte)

text \<open>A changed byte of a valid header is detected unless it is one of the size member.\<close>

lemma header_byte_detected:
  assumes len: "length hdr = sizeof_gpt_header" and valid: "fst (rtss_gpt_verify_header_crc32 hdr 0)"
    and i: "i < unat (hdr32 Header_size hdr)" "\<not> (12 \<le> i \<and> i < 20)" and b: "b \<noteq> hdr ! i"
  shows "\<not> fst (rtss_gpt_verify_header_crc32 (hdr[i := b]) 0)"
proof -
  let ?h = "hdr[i := b]" and ?z = "put32 (rtss_gpt_header_t Header_crc32) 0 hdr"
  have v: "unat (hdr32 Header_size hdr) \<le> 92" "hdr32 Header_crc32 hdr = crc32 (header_crc_bytes hdr)"
    using valid verify_header_iff [OF len] by (auto simp: sizeof_gpt_header_def)
  have size: "hdr32 Header_size ?h = hdr32 Header_size hdr" and crc: "hdr32 Header_crc32 ?h = hdr32 Header_crc32 hdr"
    using i by (auto simp: hdr32_def get32_def nth_list_update)
  have "put32 (rtss_gpt_header_t Header_crc32) 0 ?h = ?z[i := b]"
    using i v len by (intro nth_equalityI)
      (auto simp: put32_def overwrite_nth nth_list_update sizeof_gpt_header_def)
  then have "header_crc_bytes ?h = (header_crc_bytes hdr)[i := b]"
    by (simp add: header_crc_bytes_def size take_update_swap)
  moreover have "header_crc_bytes hdr ! i = hdr ! i" "i < length (header_crc_bytes hdr)"
    using i v len by (auto simp: header_crc_bytes_def put32_def overwrite_nth sizeof_gpt_header_def)
  ultimately have "crc32 (header_crc_bytes ?h) \<noteq> crc32 (header_crc_bytes hdr)"
    using b by (simp add: crc32_list_update)
  then show ?thesis
    using len v verify_header_iff [of ?h] by (simp add: size crc)
qed

text \<open>A changed byte outside the size member decides by its place: the covered bytes and the checksum
  itself are noticed, what lies behind them is not looked at.\<close>

lemma header_crc_byte_detected:
  assumes len: "length hdr = sizeof_gpt_header" and valid: "fst (rtss_gpt_verify_header_crc32 hdr 0)"
    and i: "16 \<le> i" "i < 20" and b: "b \<noteq> hdr ! i"
  shows "\<not> fst (rtss_gpt_verify_header_crc32 (hdr[i := b]) 0)"
proof -
  let ?h = "hdr[i := b]"
  have size: "hdr32 Header_size ?h = hdr32 Header_size hdr"
    using i by (auto simp: hdr32_def get32_def nth_list_update)
  have "put32 (rtss_gpt_header_t Header_crc32) 0 ?h = put32 (rtss_gpt_header_t Header_crc32) 0 hdr"
    using i len by (intro nth_equalityI) (auto simp: put32_def overwrite_nth nth_list_update sizeof_gpt_header_def)
  then have same: "header_crc_bytes ?h = header_crc_bytes hdr"
    by (simp add: header_crc_bytes_def size)
  have "hdr32 Header_crc32 ?h \<noteq> hdr32 Header_crc32 hdr"
  proof
    assume "hdr32 Header_crc32 ?h = hdr32 Header_crc32 hdr"
    then have eq: "take 4 (drop 16 ?h) = take 4 (drop 16 hdr)"
      using len put32_get32 [of 16 hdr] put32_get32 [of 16 ?h] by (simp add: hdr32_def sizeof_gpt_header_def)
    have at: "take 4 (drop 16 xs) ! (i - 16) = xs ! i" if "length xs = 92" for xs :: "u8 list"
      using i that by simp
    have l: "length hdr = 92" "length ?h = 92"
      using len by (simp_all add: sizeof_gpt_header_def)
    have "?h ! i = hdr ! i"
      unfolding at [OF l(1), symmetric] at [OF l(2), symmetric] eq ..
    then show False
      using i b l by simp
  qed
  then show ?thesis
    using len valid verify_header_iff [of hdr] verify_header_iff [of ?h] by (simp add: size same)
qed

lemma header_byte_ignored:
  assumes len: "length hdr = sizeof_gpt_header" and valid: "fst (rtss_gpt_verify_header_crc32 hdr 0)"
    and i: "unat (hdr32 Header_size hdr) \<le> i" "\<not> (12 \<le> i \<and> i < 20)"
  shows "fst (rtss_gpt_verify_header_crc32 (hdr[i := b]) 0)"
proof -
  let ?h = "hdr[i := b]"
  have size: "hdr32 Header_size ?h = hdr32 Header_size hdr" and crc: "hdr32 Header_crc32 ?h = hdr32 Header_crc32 hdr"
    using i(2) by (auto simp: hdr32_def get32_def nth_list_update)
  have "put32 (rtss_gpt_header_t Header_crc32) 0 ?h = (put32 (rtss_gpt_header_t Header_crc32) 0 hdr)[i := b]"
  proof (cases "i < 92")
    case True
    then show ?thesis
      using i(2) len by (intro nth_equalityI) (auto simp: put32_def overwrite_nth nth_list_update sizeof_gpt_header_def)
  next
    case False
    then show ?thesis
      using len by (simp add: list_update_beyond put32_def sizeof_gpt_header_def)
  qed
  then have "header_crc_bytes ?h = header_crc_bytes hdr"
    using i(1) by (simp add: header_crc_bytes_def size)
  then show ?thesis
    using len valid verify_header_iff [of hdr] verify_header_iff [of ?h] by (simp add: size crc)
qed

section \<open>The entry array\<close>

lemma entries_crc_device:
  assumes "serves d cb" "unat sz \<le> length buf"
  shows "entries_crc cb base sz [i..<i + n] crc buf = (Some (foldl gpt_crc_step crc
      (device_bytes d (base + of_nat i * sz) (n * unat sz))),
      (if n = 0 then buf else device_bytes d (base + of_nat (i + n - 1) * sz) (unat sz) @ drop (unat sz) buf))"
  using assms(2)
proof (induction n arbitrary: i crc buf)
  case 0
  then show ?case by (simp add: device_bytes_def)
next
  case (Suc n)
  have "[i..<i + Suc n] = i # [Suc i..<Suc i + n]"
    by (simp add: upt_conv_Cons del: upt_Suc)
  moreover have "entries_crc cb base sz [Suc i..<Suc i + n] crc' buf' = (Some (foldl gpt_crc_step crc'
      (device_bytes d (base + of_nat (Suc i) * sz) (n * unat sz))),
      (if n = 0 then buf' else device_bytes d (base + of_nat (Suc i + n - 1) * sz) (unat sz)
        @ drop (unat sz) buf'))" if "unat sz \<le> length buf'" for crc' buf'
    using Suc.IH that by blast
  moreover have "base + of_nat (Suc i) * sz = base + of_nat i * sz + sz"
    by (simp add: ring_distribs)
  ultimately show ?case
    using Suc.prems servesD [OF assms(1) Suc.prems]
    by (auto simp: device_bytes_append min_def simp del: upt_Suc of_nat_Suc)
qed

lemma verify_entries_device:
  assumes "serves d cb" "unat wsz \<le> length buf"
  shows "fst (rtss_gpt_verify_partition_entry_crc32 wsz hdr buf cb lba 0) \<longleftrightarrow>
    hdr32 Size_of_partition_entry hdr \<le> wsz \<and>
    hdr32 Partition_entries_crc32 hdr = crc32 (device_bytes d (ucast (hdr64 Partition_entry_lba hdr * ucast lba))
      (unat (hdr32 Number_of_partition_entries hdr) * unat (hdr32 Size_of_partition_entry hdr)))"
proof (cases "hdr32 Size_of_partition_entry hdr \<le> wsz")
  case True
  then have le: "unat (hdr32 Size_of_partition_entry hdr) \<le> length buf"
    using assms(2) by (simp add: word_le_nat_alt)
  show ?thesis
    using True entries_crc_device [OF assms(1) le, where i = 0]
    by (auto simp: rtss_gpt_verify_partition_entry_crc32_def Let_def not_less crc32_def)
qed (simp add: rtss_gpt_verify_partition_entry_crc32_def Let_def not_le)

lemma entries_buf_length:
  assumes "serves d cb" "unat wsz \<le> length buf"
  shows "length (snd (rtss_gpt_verify_partition_entry_crc32 wsz hdr buf cb lba seed)) = length buf"
proof (cases "hdr32 Size_of_partition_entry hdr \<le> wsz")
  case True
  then have le: "unat (hdr32 Size_of_partition_entry hdr) \<le> length buf"
    using assms(2) by (simp add: word_le_nat_alt)
  show ?thesis
    using True le entries_crc_device [OF assms(1) le, where i = 0]
    by (auto simp: rtss_gpt_verify_partition_entry_crc32_def Let_def not_less)
qed (simp add: rtss_gpt_verify_partition_entry_crc32_def Let_def not_le)

section \<open>Finding a table\<close>

definition gpt_valid :: "(u32 \<Rightarrow> u8) \<Rightarrow> u32 \<Rightarrow> u32 \<Rightarrow> bool" where
  "gpt_valid d wsz addr \<longleftrightarrow>
     (let h = device_bytes d addr sizeof_gpt_header
      in take 8 h = RTSS_GPT_SIGNATURE
       \<and> unat (hdr32 Header_size h) \<le> sizeof_gpt_header
       \<and> hdr32 Header_crc32 h = crc32 (header_crc_bytes h)
       \<and> hdr32 Size_of_partition_entry h \<le> wsz
       \<and> hdr32 Partition_entries_crc32 h =
           crc32 (device_bytes d (ucast (hdr64 Partition_entry_lba h * 4096))
             (unat (hdr32 Number_of_partition_entries h) * unat (hdr32 Size_of_partition_entry h))))"

definition gpt_ready :: "(u32 \<Rightarrow> u8) \<Rightarrow> gpt_state \<Rightarrow> bool" where
  "gpt_ready d st \<longleftrightarrow> (\<exists>cb buf. g_entry_read_cb st = Some cb \<and> serves d cb \<and> g_work_buf st = Some buf
     \<and> unat (g_work_buf_sz st) \<le> length buf \<and> length (g_hdr st) = sizeof_gpt_header)"

lemma try_memscpy:
  "length hdr = n \<Longrightarrow> n \<le> length buf \<Longrightarrow> 0 < n \<Longrightarrow>
   rtss_gpt_memscpy (Some hdr) n (Some buf) n = (n, Some (take n buf))"
  by (simp add: rtss_gpt_memscpy_def)

lemma partition_try_device:
  assumes "gpt_ready d st" and sz: "sz \<le> g_work_buf_sz st" "sizeof_gpt_header \<le> unat sz"
  obtains alt buf where "rtss_gpt_partition_try addr sz a st =
      (gpt_valid d (g_work_buf_sz st) addr, alt,
       st\<lparr>g_work_buf := Some buf, g_hdr := device_bytes d addr sizeof_gpt_header\<rparr>)"
    "gpt_ready d (st\<lparr>g_work_buf := Some buf, g_hdr := device_bytes d addr sizeof_gpt_header\<rparr>)"
proof -
  obtain cb buf where st: "g_entry_read_cb st = Some cb" "serves d cb" "g_work_buf st = Some buf"
      "unat (g_work_buf_sz st) \<le> length buf" "length (g_hdr st) = sizeof_gpt_header"
    using assms(1) by (auto simp: gpt_ready_def)
  have le: "unat sz \<le> length buf"
    using sz st by (simp add: word_le_nat_alt)
  define buf1 where "buf1 = device_bytes d addr (unat sz) @ drop (unat sz) buf"
  let ?h = "device_bytes d addr sizeof_gpt_header" and ?w = "g_work_buf_sz st"
  have buf1: "length buf1 = length buf" "take sizeof_gpt_header buf1 = ?h"
    using le sz by (simp_all add: buf1_def min_def)
  obtain ok buf2 where v: "rtss_gpt_verify_partition_entry_crc32 ?w ?h buf1 cb RTSS_GPT_NOR_LBA_SZ 0 = (ok, buf2)"
    by fastforce
  have entries: "ok \<longleftrightarrow> hdr32 Size_of_partition_entry ?h \<le> ?w \<and> hdr32 Partition_entries_crc32 ?h =
      crc32 (device_bytes d (ucast (hdr64 Partition_entry_lba ?h * 4096))
        (unat (hdr32 Number_of_partition_entries ?h) * unat (hdr32 Size_of_partition_entry ?h)))"
    using verify_entries_device [OF st(2), of ?w buf1 ?h RTSS_GPT_NOR_LBA_SZ] buf1 st v
    by (simp add: RTSS_GPT_NOR_LBA_SZ_def)
  have len2: "length buf2 = length buf"
    using entries_buf_length [OF st(2), of ?w buf1 ?h RTSS_GPT_NOR_LBA_SZ 0] buf1 st v by simp
  have cpy: "rtss_gpt_memscpy (Some (g_hdr st)) sizeof_gpt_header (Some buf1) sizeof_gpt_header
      = (sizeof_gpt_header, Some ?h)"
    using st sz le buf1 by (subst try_memscpy) (auto simp: sizeof_gpt_header_def)
  have ready: "gpt_ready d (st\<lparr>g_work_buf := Some b, g_hdr := ?h\<rparr>)" if "length b = length buf" for b
    using st that by (auto simp: gpt_ready_def)
  have nz: "sizeof_gpt_header \<noteq> 0"
    by (simp add: sizeof_gpt_header_def)
  have valid: "gpt_valid d ?w addr \<longleftrightarrow> take 8 ?h = RTSS_GPT_SIGNATURE \<and>
      fst (rtss_gpt_verify_header_crc32 ?h 0) \<and> ok"
    by (auto simp: gpt_valid_def Let_def entries verify_header_iff)
  have hdr: "rtss_gpt_verify_header_crc32 ?h 0 = (fst (rtss_gpt_verify_header_crc32 ?h 0), ?h)"
    by (metis prod.collapse verify_header_unchanged length_device_bytes)
  have "\<exists>alt b. rtss_gpt_partition_try addr sz a st = (gpt_valid d ?w addr, alt,
       st\<lparr>g_work_buf := Some b, g_hdr := ?h\<rparr>) \<and> length b = length buf"
  proof (cases "take 8 ?h = RTSS_GPT_SIGNATURE \<and> fst (rtss_gpt_verify_header_crc32 ?h 0)")
    case True
    then have "rtss_gpt_verify_header_crc32 ?h 0 = (True, ?h)"
      using hdr by simp
    then show ?thesis
      using True v len2 st servesD [OF st(2) le] nz
      by (auto simp: rtss_gpt_partition_try_def Let_def valid cpy RTSS_GPT_CRC32_SEED_DEFAULT_def
          simp flip: buf1_def) (rule exI [of _ buf2], cases st, simp)
  next
    case False
    then show ?thesis
      using st servesD [OF st(2) le] nz buf1 hdr
      by (auto simp: rtss_gpt_partition_try_def Let_def valid cpy RTSS_GPT_CRC32_SEED_DEFAULT_def
          simp flip: buf1_def split: prod.splits)
  qed
  then show ?thesis
    using that ready by blast
qed

lemma align_up_ge: "a \<noteq> 0 \<Longrightarrow> sizeof_gpt_header \<le> unat (align_up (of_nat sizeof_gpt_header) a)"
proof -
  assume a: "a \<noteq> 0"
  show ?thesis
  proof (cases "92 < a")
    case True
    then have "(92 :: u32) mod a = 92"
      by (simp add: word_less_nat_alt word_arith_nat_mod)
    then show ?thesis
      using True by (simp add: align_up_def sizeof_gpt_header_def word_less_nat_alt)
  next
    case False
    then have le: "unat a \<le> 92"
      by (simp add: word_less_nat_alt)
    have "unat ((92 :: u32) mod a) < unat a"
      using a by (simp add: unat_mod unat_gt_0)
    moreover have "unat (92 + (a - 92 mod a)) = 92 + (unat a - unat ((92 :: u32) mod a))"
      using calculation(1) le by (subst unat_add_lem [THEN iffD1])
        (simp_all add: unat_sub word_le_nat_alt)
    ultimately have "92 \<le> unat (92 + a - 92 mod a)"
      by (simp only: add_diff_eq)
    then show ?thesis
      by (simp add: align_up_def sizeof_gpt_header_def)
  qed
qed

definition init_params :: "u32 \<Rightarrow> read_cb \<Rightarrow> u8 list \<Rightarrow> u32 \<Rightarrow> u32 \<Rightarrow> gpt_state \<Rightarrow> gpt_state" where
  "init_params bc cb buf wsz align st = st\<lparr>g_entry_read_cb := Some cb, g_work_buf := Some buf,
     g_work_buf_sz := wsz, g_read_alignment := align, g_block_count := bc\<rparr>"

lemma partition_init_unfold:
  assumes "align \<noteq> 0" "align_up (of_nat sizeof_gpt_header) align \<le> wsz" "sizeof_gpt_entry \<le> unat wsz"
  shows "rtss_gpt_partition_init bc (Some cb) (Some buf) wsz align st =
      (case rtss_gpt_partition_try RTSS_GPT_NOR_LBA_SZ (align_up (of_nat sizeof_gpt_header) align) (Some 0)
              (init_params bc cb buf wsz align st) of
         (True, _, st2) \<Rightarrow> (True, st2\<lparr>g_gpt_id := RTSS_GPT_TABLE_PRIMARY, g_init_done := True\<rparr>)
       | (False, _, st2) \<Rightarrow>
          (case rtss_gpt_partition_try ((bc - 1) * RTSS_GPT_NOR_LBA_SZ)
                  (align_up (of_nat sizeof_gpt_header) align) None st2 of
             (True, _, st3) \<Rightarrow> (True, st3\<lparr>g_gpt_id := RTSS_GPT_TABLE_SECONDARY, g_init_done := True\<rparr>)
           | (False, _, st3) \<Rightarrow> (False, st3\<lparr>g_gpt_id := RTSS_GPT_TABLE_NULL,
                                     g_hdr := replicate sizeof_gpt_header 0\<rparr>)))"
  using assms by (simp add: rtss_gpt_partition_init_def init_params_def Let_def not_less leD [OF assms(2)])

lemma gpt_ready_accepted: "gpt_ready d s \<Longrightarrow> gpt_ready d (s\<lparr>g_gpt_id := x, g_init_done := y\<rparr>)"
  by (simp add: gpt_ready_def)

lemma gpt_ready_rejected:
  "gpt_ready d s \<Longrightarrow> gpt_ready d (s\<lparr>g_gpt_id := x, g_hdr := replicate sizeof_gpt_header 0\<rparr>)"
  by (auto simp: gpt_ready_def)

section \<open>Finding a partition\<close>

lemma guid_eq_iff:
  fixes g h :: rtss_gpt_guid_t
  assumes "length (data4 g) = 8" "length (data4 h) = 8"
  shows "g = h \<longleftrightarrow> data1 g = data1 h \<and> data2 g = data2 h \<and> data3 g = data3 h \<and>
    (\<forall>i < 8. data4 g ! i = data4 h ! i)"
  using assms by (cases g; cases h) (auto simp: list_eq_iff_nth_eq)

lemma all_less_8: "(\<forall>i < 8. P i) \<longleftrightarrow> P 0 \<and> P 1 \<and> P 2 \<and> P 3 \<and> P 4 \<and> P 5 \<and> P 6 \<and> P (7 :: nat)"
  by (auto simp: numeral_eq_Suc All_less_Suc)

lemma verify_guid_iff:
  assumes "48 \<le> length e" "length (data4 g) = 8"
  shows "rtss_gpt_verify_partition_guid (Some e) (Some g) \<longleftrightarrow> guid_at (rtss_gpt_entry_t Partition_type_guid) e = g"
  using assms by (subst guid_eq_iff)
    (auto simp: guid_at_def rtss_gpt_verify_partition_guid_def Let_def all_less_8)

lemma entry_prefix:
  assumes "48 \<le> length e"
  shows "guid_at (rtss_gpt_entry_t Partition_type_guid) (e @ r) = guid_at (rtss_gpt_entry_t Partition_type_guid) e"
    "rtss_gpt_get_partition_base (Some (e @ r)) lba = rtss_gpt_get_partition_base (Some e) lba"
    "rtss_gpt_get_partition_size (Some (e @ r)) lba = rtss_gpt_get_partition_size (Some e) lba"
  using assms less_le_trans [OF _ assms, of 0]
  by (simp_all add: guid_at_def rtss_gpt_get_partition_base_def
      rtss_gpt_get_partition_size_def get64_def get32_def get16_def nth_append)

definition partition_extent :: "u8 list \<Rightarrow> u32 \<times> u32" where
  "partition_extent e = (ucast (rtss_gpt_get_partition_base (Some e) RTSS_GPT_NOR_LBA_SZ),
     ucast (rtss_gpt_get_partition_size (Some e) RTSS_GPT_NOR_LBA_SZ))"

definition table_entries :: "(u32 \<Rightarrow> u8) \<Rightarrow> u8 list \<Rightarrow> u8 list list" where
  "table_entries d hdr = map (\<lambda>i. device_bytes d
       (ucast (hdr64 Partition_entry_lba hdr) * RTSS_GPT_NOR_LBA_SZ + of_nat i * hdr32 Size_of_partition_entry hdr)
       (unat (hdr32 Size_of_partition_entry hdr)))
     [0..<unat (hdr32 Number_of_partition_entries hdr)]"

definition lookup_result :: "u8 list option \<Rightarrow> bool \<times> (u32 \<times> u32) option" where
  "lookup_result found = (case found of None \<Rightarrow> (False, None)
     | Some e \<Rightarrow> (snd (partition_extent e) \<noteq> 0, Some (partition_extent e)))"

lemma info_loop_device:
  assumes "serves d cb" "length (data4 g) = 8" "48 \<le> unat sz" "unat sz \<le> length buf"
  shows "\<exists>buf'. info_loop cb base sz g is buf = (fst (lookup_result (find (\<lambda>e. guid_at 0 e = g)
        (map (\<lambda>i. device_bytes d (base + of_nat i * sz) (unat sz)) is))),
      snd (lookup_result (find (\<lambda>e. guid_at 0 e = g)
        (map (\<lambda>i. device_bytes d (base + of_nat i * sz) (unat sz)) is))), buf') \<and> length buf' = length buf"
  using assms(4)
proof (induction "is" arbitrary: buf)
  case Nil
  then show ?case by (simp add: lookup_result_def)
next
  case (Cons i "is")
  define e where "e = device_bytes d (base + of_nat i * sz) (unat sz)"
  have e: "48 \<le> length e" "length e = unat sz"
    using assms by (simp_all add: e_def)
  note read = servesD [OF assms(1) Cons.prems, of "base + of_nat i * sz", folded e_def]
  have v: "rtss_gpt_verify_partition_guid (Some (e @ drop (unat sz) buf)) (Some g) \<longleftrightarrow> guid_at 0 e = g"
    using e assms(2) by (subst verify_guid_iff) (simp_all add: entry_prefix(1) [simplified])
  show ?case
  proof (cases "guid_at 0 e = g")
    case True
    then show ?thesis
      using read v e Cons.prems by (simp add: lookup_result_def partition_extent_def entry_prefix Let_def flip: e_def)
  next
    case False
    then show ?thesis
      using read v e Cons.prems Cons.IH [of "e @ drop (unat sz) buf"] by (simp flip: e_def)
  qed
qed

lemma ucast_mask32: "ucast (x AND 0xFFFFFFFF) = (ucast x :: u32)" for x :: u64
proof -
  have m: "0xFFFFFFFF = (mask 32 :: u64)"
    by (simp add: mask_eq_exp_minus_1)
  show ?thesis
    unfolding m by (rule bit_word_eqI) (simp add: bit_simps)
qed

section \<open>GUID strings\<close>

definition hex_char :: "u32 \<Rightarrow> u8" where
  "hex_char n = (if n < 10 then 0x30 + ucast n else 0x57 + ucast n)"

fun hex_str :: "nat \<Rightarrow> u32 \<Rightarrow> u8 list" where
  "hex_str 0 v = []"
| "hex_str (Suc k) v = hex_str k (drop_bit 4 v) @ [hex_char (v AND 15)]"

text \<open>The textual form of a GUID.\<close>

definition guid_string :: "rtss_gpt_guid_t \<Rightarrow> u8 list" where
  "guid_string g = hex_str 8 (data1 g) @ 0x2D # hex_str 4 (ucast (data2 g)) @ 0x2D # hex_str 4 (ucast (data3 g))
     @ 0x2D # hex_str 2 (ucast (data4 g ! 0)) @ hex_str 2 (ucast (data4 g ! 1)) @ 0x2D
     # concat (map (\<lambda>i. hex_str 2 (ucast (data4 g ! (2 + i)))) [0..<6])"

lemma length_hex_str [simp]: "length (hex_str k v) = k"
  by (induction k arbitrary: v) simp_all

lemma nibble_cases: "(v :: u32) AND 15 \<in> {0, 1, 2, 3, 4, 5, 6, 7, 8, 9, 10, 11, 12, 13, 14, 15}"
proof -
  have "v AND 15 \<le> 15"
    by (rule word_and_le1)
  then have "unat (v AND 15) < 16"
    by (simp add: word_le_nat_alt)
  then have "unat (v AND 15) \<in> set [0..<16]"
    by simp
  also have "[0..<16] = [0, 1, 2, 3, 4, 5, 6, 7, 8, 9, 10, 11, 12, 13, 14, 15 :: nat]"
    by (simp add: upt_rec)
  finally have "(of_nat (unat (v AND 15)) :: u32) \<in> of_nat ` set [0, 1, 2, 3, 4, 5, 6, 7, 8, 9, 10, 11, 12, 13, 14, 15 :: nat]"
    by (rule imageI)
  then show ?thesis
    by simp
qed

lemma hex_char_ok: "rtss_gpt_is_hex_digit (hex_char (v AND 15))" "hex_nibble (hex_char (v AND 15)) = v AND 15"
  using nibble_cases [of v] by (auto simp: rtss_gpt_is_hex_digit_def hex_char_def hex_nibble_def)

lemma hex_str_digits: "list_all rtss_gpt_is_hex_digit (hex_str k v)"
  by (induction k arbitrary: v) (simp_all add: hex_char_ok)

lemma hex2dec_append: "rtss_gpt_hex2dec (hex_str k v @ r) k = v AND mask (4 * k)"
proof -
  have "foldl (\<lambda>value ch. push_bit 4 value OR hex_nibble ch) 0 (hex_str k v) = v AND mask (4 * k)"
  proof (induction k arbitrary: v)
    case (Suc k)
    have m: "15 = (mask 4 :: u32)"
      by (simp add: mask_eq_exp_minus_1)
    have "push_bit 4 (drop_bit 4 v AND mask (4 * k)) OR (v AND 15) = v AND mask (4 * Suc k)"
      unfolding m by (rule bit_word_eqI) (auto simp: bit_simps)
    then show ?case
      by (simp add: Suc hex_char_ok)
  qed simp
  then show ?thesis
    by (simp add: rtss_gpt_hex2dec_def)
qed

lemma hex2dec_whole: "length s = k \<Longrightarrow> rtss_gpt_hex2dec (s @ r) k = rtss_gpt_hex2dec (s @ r') k"
  by (simp add: rtss_gpt_hex2dec_def)

lemma mask_32: "v AND mask 32 = v" for v :: u32
  by (rule bit_word_eqI) (simp add: bit_simps)

lemma ucast_16: "ucast (ucast w AND mask 16 :: u32) = w" for w :: u16
  by (rule bit_word_eqI) (simp add: bit_simps)

lemma ucast_8: "ucast (ucast w AND mask 8 :: u32) = w" for w :: u8
  by (rule bit_word_eqI) (simp add: bit_simps)

lemma hex2dec_fields:
  "rtss_gpt_hex2dec (hex_str 8 v @ r) 8 = v"
  "ucast (rtss_gpt_hex2dec (hex_str 4 (ucast w) @ r) 4) = (w :: u16)"
  "ucast (rtss_gpt_hex2dec (hex_str 2 (ucast b) @ r) 2) = (b :: u8)"
  using hex2dec_append [of 8 v r] hex2dec_append [of 4 "ucast w" r] hex2dec_append [of 2 "ucast b" r]
  by (simp_all add: mask_32 ucast_16 ucast_8)

lemma five_groups_char:
  assumes "length a = 8" "length b = 4" "length c = 4" "length d = 4" "length e = 12"
    and "list_all rtss_gpt_is_hex_digit (a @ b @ c @ d @ e)" and i: "i < 36"
  shows "guid_char_ok (a @ 0x2D # b @ 0x2D # c @ 0x2D # d @ 0x2D # e) i"
proof -
  let ?s = "a @ 0x2D # b @ 0x2D # c @ 0x2D # d @ 0x2D # e"
  have hex: "rtss_gpt_is_hex_digit (x ! k)" if "x \<in> {a, b, c, d, e}" "k < length x" for x k
    using assms(6) that by (auto simp: list_all_iff)
  consider "i < 8" | "8 < i" "i < 13" | "13 < i" "i < 18" | "18 < i" "i < 23" | "23 < i"
    | "i = 8 \<or> i = 13 \<or> i = 18 \<or> i = 23"
    by linarith
  then show ?thesis
  proof cases
    case 1
    then have "?s ! i = a ! i"
      using assms by (simp add: nth_append)
    then show ?thesis
      using 1 assms hex [of a i] by (simp add: guid_char_ok_def)
  next
    case 2
    then have "?s ! i = b ! (i - 9)"
      using assms by (simp add: nth_append nth_Cons' less_diff_conv2)
    moreover have "i - 9 < 4"
      using 2 by linarith
    ultimately show ?thesis
      using assms hex [of b "i - 9"] by (simp add: guid_char_ok_def)
  next
    case 3
    then have "?s ! i = c ! (i - 14)"
      using assms by (simp add: nth_append nth_Cons' less_diff_conv2)
    moreover have "i - 14 < 4"
      using 3 by linarith
    ultimately show ?thesis
      using assms hex [of c "i - 14"] by (simp add: guid_char_ok_def)
  next
    case 4
    then have "?s ! i = d ! (i - 19)"
      using assms by (simp add: nth_append nth_Cons' less_diff_conv2)
    moreover have "i - 19 < 4"
      using 4 by linarith
    ultimately show ?thesis
      using assms hex [of d "i - 19"] by (simp add: guid_char_ok_def)
  next
    case 5
    then have "\<not> i - 9 < 4" "\<not> i - 14 < 4" "\<not> i - 19 < 4"
      by linarith+
    with 5 have "?s ! i = e ! (i - 24)"
      using assms by (simp add: nth_append nth_Cons')
    moreover have "i - 24 < 12"
      using 5 i by linarith
    ultimately show ?thesis
      using assms hex [of e "i - 24"] by (simp add: guid_char_ok_def)
  next
    case 6
    then show ?thesis
      using assms by (auto simp: guid_char_ok_def nth_append nth_Cons')
  qed
qed

lemma upt_6: "[0..<6] = [0, 1, 2, 3, 4, 5 :: nat]"
  by (simp add: upt_rec)

lemma guid_string_chars: "length (guid_string g) = 36" "i < 36 \<Longrightarrow> guid_char_ok (guid_string g) i"
proof -
  show "length (guid_string g) = 36"
    by (simp add: guid_string_def upt_6)
  assume "i < 36"
  then show "guid_char_ok (guid_string g) i"
    using five_groups_char [of "hex_str 8 (data1 g)" "hex_str 4 (ucast (data2 g))" "hex_str 4 (ucast (data3 g))"
        "hex_str 2 (ucast (data4 g ! 0)) @ hex_str 2 (ucast (data4 g ! 1))"
        "concat (map (\<lambda>i. hex_str 2 (ucast (data4 g ! (2 + i)))) [0..<6])" i]
    by (simp add: guid_string_def upt_6 hex_str_digits)
qed

lemma guid_string_decoded:
  assumes "length (data4 g) = 8"
  shows "rtss_gpt_decode_guid_string (Some (guid_string g)) = Some g"
proof -
  obtain a b c d e f x y where d4: "data4 g = [a, b, c, d, e, f, x, y]"
    using assms by (auto simp: numeral_eq_Suc length_Suc_conv)
  have "list_all (guid_char_ok (guid_string g)) [0..<36]"
    using guid_string_chars(2) by (simp add: list_all_iff)
  moreover have "length (guid_string g) = RTSS_GPT_GUID_STRING_SIZE"
    using guid_string_chars(1) by (simp add: RTSS_GPT_GUID_STRING_SIZE_def)
  ultimately show ?thesis
    using d4 by (cases g)
      (simp add: rtss_gpt_decode_guid_string_def RTSS_GPT_GUID_STRING_SIZE_def guid_string_def upt_6
        hex2dec_fields hex2dec_fields(3) [where r = "[]", simplified] del: upt_Suc)
qed

end
