(* ===== verification/Guidpt_Claims.thy ===== *)
theory Guidpt_Claims
  imports Guidpt_Props
begin

text \<open>
  The properties of the checksum and partition table modules, with their witnesses.
\<close>

section \<open>A small device\<close>

text \<open>A table in the second block with one partition, from the third block to the fourth.\<close>

definition demo_header :: "u8 list" where
  "demo_header =
    [0x45, 0x46, 0x49, 0x20, 0x50, 0x41, 0x52, 0x54, 0, 0, 0x01, 0, 0x5C, 0, 0, 0,
     0xE0, 0x04, 0x54, 0xDA, 0, 0, 0, 0, 0x01, 0, 0, 0, 0, 0, 0, 0,
     0x0F, 0, 0, 0, 0, 0, 0, 0, 0x03, 0, 0, 0, 0, 0, 0, 0,
     0x0E, 0, 0, 0, 0, 0, 0, 0, 0, 0, 0, 0, 0, 0, 0, 0,
     0, 0, 0, 0, 0, 0, 0, 0, 0x02, 0, 0, 0, 0, 0, 0, 0,
     0x01, 0, 0, 0, 0x80, 0, 0, 0, 0xA1, 0x1E, 0x93, 0x04]"

definition demo_entry :: "u8 list" where
  "demo_entry =
    [0xA8, 0xFA, 0x01, 0x87, 0xA0, 0xBA, 0xCF, 0x43, 0x9C, 0x90, 0x3B, 0x30, 0x49, 0x5C, 0x55, 0x8E,
     0, 0, 0, 0, 0, 0, 0, 0, 0, 0, 0, 0, 0, 0, 0, 0,
     0x03, 0, 0, 0, 0, 0, 0, 0, 0x04, 0, 0, 0, 0, 0, 0, 0] @ replicate 80 0"

definition demo_disk :: "u32 \<Rightarrow> u8" where
  "demo_disk a = (if 4096 \<le> a \<and> a < 4188 then demo_header ! unat (a - 4096)
     else if 8192 \<le> a \<and> a < 8320 then demo_entry ! unat (a - 8192) else 0)"

definition demo_gpt_state :: gpt_state where
  "demo_gpt_state = \<lparr>g_hdr = replicate 92 0, g_init_done = False, g_entry_read_cb = None, g_block_count = 0,
     g_work_buf = None, g_work_buf_sz = 0, g_read_alignment = 0, g_gpt_id = 0\<rparr>"

definition demo_guid :: rtss_gpt_guid_t where
  "demo_guid = \<lparr>data1 = 0x8701FAA8, data2 = 0xBAA0, data3 = 0x43CF,
     data4 = [0x9C, 0x90, 0x3B, 0x30, 0x49, 0x5C, 0x55, 0x8E]\<rparr>"

lemma demo_disk_entry: "device_bytes demo_disk 8192 128 = demo_entry"
  by code_simp

lemma demo_disk_header: "device_bytes demo_disk 4096 sizeof_gpt_header = demo_header"
  by code_simp

lemma replicate_80: "replicate 80 (0 :: u8) =
    [0, 0, 0, 0, 0, 0, 0, 0, 0, 0, 0, 0, 0, 0, 0, 0, 0, 0, 0, 0, 0, 0, 0, 0, 0, 0, 0, 0, 0, 0, 0, 0, 0, 0, 0, 0, 0, 0, 0, 0,
     0, 0, 0, 0, 0, 0, 0, 0, 0, 0, 0, 0, 0, 0, 0, 0, 0, 0, 0, 0, 0, 0, 0, 0, 0, 0, 0, 0, 0, 0, 0, 0, 0, 0, 0, 0, 0, 0, 0, 0]"
  by (simp add: numeral_eq_Suc)

lemma demo_entry_crc: "crc32 demo_entry = hdr32 Partition_entries_crc32 demo_header"
  by (simp add: demo_entry_def replicate_80 crc_eval hdr32_def get32_def demo_header_def le32_def)

lemma demo_header_crc: "crc32 (header_crc_bytes demo_header) = hdr32 Header_crc32 demo_header"
  by (simp add: header_crc_bytes_def put32_def overwrite_def bytes32_def crc_eval hdr32_def get32_def
      demo_header_def le32_def)

lemma demo_header_values:
  "take 8 demo_header = RTSS_GPT_SIGNATURE"
  "hdr32 Header_size demo_header = 92" "hdr32 Size_of_partition_entry demo_header = 128"
  "hdr32 Number_of_partition_entries demo_header = 1" "hdr64 Partition_entry_lba demo_header = 2"
  by code_simp+

lemma demo_disk_valid: "gpt_valid demo_disk 256 4096"
  by (simp add: gpt_valid_def Let_def demo_disk_header demo_header_values demo_disk_entry
      demo_entry_crc demo_header_crc) (simp add: sizeof_gpt_header_def)

section \<open>Properties\<close>

text \<open>C15: The table driven, left shifting CRC of the message library, which reflects every byte and
  the result, and the right shifting CRC of the partition module compute the same checksum on
  every nonempty buffer, and in both a change of any single byte changes the checksum.\<close>
theorem crc_routines_agree:
  assumes "bytes \<noteq> []"
  shows "rtss_crc32_generate crcETH_CHANNEL_CRC32 (Some bytes) True
      = (CRC_SUCCESS, Some (rtss_gpt_calc_crc32 (Some bytes) 0))
    \<and> (\<forall>i < length bytes. \<forall>b. b \<noteq> bytes ! i \<longrightarrow>
      rtss_gpt_calc_crc32 (Some (bytes[i := b])) 0 \<noteq> rtss_gpt_calc_crc32 (Some bytes) 0)"
  using assms by (simp add: rtss_crc32_generate_crc32 gpt_calc_crc32_crc32 crc32_list_update)

theorem crc_routines_agree_witness:
  "rtss_crc32_generate crcETH_CHANNEL_CRC32 (Some [0x31, 0x32, 0x33]) True
      = (CRC_SUCCESS, Some (rtss_gpt_calc_crc32 (Some [0x31, 0x32, 0x33]) 0)) \<and>
   rtss_gpt_calc_crc32 (Some [0x31, 0xFF, 0x33]) 0 \<noteq> rtss_gpt_calc_crc32 (Some [0x31, 0x32, 0x33]) 0"
  using crc_routines_agree [of "[0x31, 0x32, 0x33]"] by (auto dest!: spec [of _ "1 :: nat"])

text \<open>A checksum may be computed piecewise: running the routine over a second buffer with the
  checksum of the first as its seed gives the checksum of the concatenation.\<close>
theorem rtss_gpt_calc_crc32_chains:
  assumes "ys \<noteq> []" "xs \<noteq> []"
  shows "rtss_gpt_calc_crc32 (Some ys) (rtss_gpt_calc_crc32 (Some xs) seed)
    = rtss_gpt_calc_crc32 (Some (xs @ ys)) seed"
proof -
  have "0xFFFFFFFF XOR (x XOR 0xFFFFFFFF) = x" for x :: u32
    by (rule bit_word_eqI) (auto simp: bit_xor_iff)
  then show ?thesis
    using assms by (simp add: rtss_gpt_calc_crc32_def)
qed

theorem rtss_gpt_calc_crc32_chains_witness:
  "rtss_gpt_calc_crc32 (Some [3]) (rtss_gpt_calc_crc32 (Some [1, 2]) 7) = rtss_gpt_calc_crc32 (Some [1, 2, 3]) 7"
  using rtss_gpt_calc_crc32_chains [of "[3]" "[1, 2]" 7] by simp

text \<open>C14: Once the work buffer holds a header and an entry, \<open>rtss_gpt_partition_init\<close> succeeds exactly
  when the device carries a valid table, signature, header checksum and checksum of the whole
  entry array included, in its second block or, failing that, in its last block. The table
  identifier says which of the two was taken, and the module holds that table's header.\<close>
theorem rtss_gpt_partition_init_device:
  assumes cb: "serves d cb" and buf: "unat wsz \<le> length buf" and al: "align \<noteq> 0"
    and sz: "align_up (of_nat sizeof_gpt_header) align \<le> wsz" "sizeof_gpt_entry \<le> unat wsz"
    and hdr: "length (g_hdr st) = sizeof_gpt_header"
  shows "\<exists>st'. gpt_ready d st' \<and> g_work_buf_sz st' = wsz \<and>
    rtss_gpt_partition_init bc (Some cb) (Some buf) wsz align st =
      (gpt_valid d wsz 4096 \<or> gpt_valid d wsz ((bc - 1) * 4096), st') \<and>
    (if gpt_valid d wsz 4096
     then g_gpt_id st' = RTSS_GPT_TABLE_PRIMARY \<and> g_hdr st' = device_bytes d 4096 sizeof_gpt_header \<and> g_init_done st'
     else if gpt_valid d wsz ((bc - 1) * 4096)
     then g_gpt_id st' = RTSS_GPT_TABLE_SECONDARY
       \<and> g_hdr st' = device_bytes d ((bc - 1) * 4096) sizeof_gpt_header \<and> g_init_done st'
     else g_gpt_id st' = RTSS_GPT_TABLE_NULL)"
proof -
  let ?sz = "align_up (of_nat sizeof_gpt_header) align"
  define st1 where "st1 = init_params bc cb buf wsz align st"
  have st1: "gpt_ready d st1" "g_work_buf_sz st1 = wsz"
    using cb buf hdr by (auto simp: gpt_ready_def st1_def init_params_def)
  have ge: "sizeof_gpt_header \<le> unat ?sz"
    using al by (rule align_up_ge)
  obtain alt buf1 s2 where t1: "rtss_gpt_partition_try RTSS_GPT_NOR_LBA_SZ ?sz (Some 0) st1 = (gpt_valid d wsz 4096, alt, s2)"
    and s2: "s2 = st1\<lparr>g_work_buf := Some buf1, g_hdr := device_bytes d 4096 sizeof_gpt_header\<rparr>" "gpt_ready d s2"
    by (rule partition_try_device [OF st1(1), of ?sz RTSS_GPT_NOR_LBA_SZ "Some 0"])
      (use st1 sz ge in \<open>simp_all add: RTSS_GPT_NOR_LBA_SZ_def\<close>)
  have w2: "g_work_buf_sz s2 = wsz"
    using st1 s2 by simp
  obtain alt2 buf2 s3 where t2: "rtss_gpt_partition_try ((bc - 1) * RTSS_GPT_NOR_LBA_SZ) ?sz None s2 =
      (gpt_valid d wsz ((bc - 1) * 4096), alt2, s3)"
    and s3: "s3 = s2\<lparr>g_work_buf := Some buf2, g_hdr := device_bytes d ((bc - 1) * 4096) sizeof_gpt_header\<rparr>" "gpt_ready d s3"
    by (rule partition_try_device [OF s2(2), of ?sz "(bc - 1) * RTSS_GPT_NOR_LBA_SZ" None])
      (use w2 sz ge in \<open>simp_all add: RTSS_GPT_NOR_LBA_SZ_def\<close>)
  have w3: "g_work_buf_sz s3 = wsz"
    using w2 s3(1) by simp
  note init = partition_init_unfold [OF al sz, of bc cb buf st, folded st1_def]
  consider "gpt_valid d wsz 4096" | "\<not> gpt_valid d wsz 4096" "gpt_valid d wsz ((bc - 1) * 4096)"
    | "\<not> gpt_valid d wsz 4096" "\<not> gpt_valid d wsz ((bc - 1) * 4096)"
    by blast
  then show ?thesis
  proof cases
    case 1
    then show ?thesis
      using t1 s2 w2 by (auto simp: init gpt_ready_accepted)
  next
    case 2
    then show ?thesis
      using t1 t2 s3 w3 by (auto simp: init gpt_ready_accepted)
  next
    case 3
    then show ?thesis
      using t1 t2 s3(2) w3 by (auto simp: init gpt_ready_rejected)
  qed
qed


theorem rtss_gpt_partition_init_device_witness:
  "fst (rtss_gpt_partition_init 16 (Some (ram_read_cb demo_disk)) (Some (replicate 256 0)) 256 4 demo_gpt_state)
   \<and> g_gpt_id (snd (rtss_gpt_partition_init 16 (Some (ram_read_cb demo_disk)) (Some (replicate 256 0)) 256 4
        demo_gpt_state)) = RTSS_GPT_TABLE_PRIMARY"
proof -
  have al: "align_up (of_nat sizeof_gpt_header) 4 \<le> 256" "sizeof_gpt_entry \<le> unat (256 :: u32)"
    "length (g_hdr demo_gpt_state) = sizeof_gpt_header" "unat (256 :: u32) \<le> length (replicate 256 (0 :: u8))"
    "(4 :: u32) \<noteq> 0"
    by (simp_all add: align_up_def sizeof_gpt_header_def sizeof_gpt_entry_def demo_gpt_state_def)
  show ?thesis
    using rtss_gpt_partition_init_device [OF ram_read_cb_serves [of demo_disk] al(4) al(5) al(1-3), of 16]
    by (auto simp: demo_disk_valid)
qed

text \<open>C38: Verifying a header leaves it unchanged. After a change of one byte outside the size member
  (bytes 12 to 15) an accepted header is rejected exactly if the byte is one of the first bytes that
  the size member counts or one of the checksum (bytes 16 to 19); any other byte is not looked at.\<close>

theorem rtss_gpt_header_corruption_detected:
  assumes "length hdr = sizeof_gpt_header" "rtss_gpt_verify_header_crc32 hdr 0 = (True, hdr')"
    and "\<not> (12 \<le> i \<and> i < 16)" "b \<noteq> hdr ! i"
  shows "hdr' = hdr \<and> rtss_gpt_verify_header_crc32 (hdr[i := b]) 0 =
    (\<not> (i < unat (hdr32 Header_size hdr) \<or> 16 \<le> i \<and> i < 20), hdr[i := b])"
proof -
  have "fst (rtss_gpt_verify_header_crc32 (hdr[i := b]) 0) \<longleftrightarrow>
      \<not> (i < unat (hdr32 Header_size hdr) \<or> 16 \<le> i \<and> i < 20)"
    using header_byte_detected [of hdr i b] header_crc_byte_detected [of hdr i b] header_byte_ignored [of hdr i b] assms
    by (cases "16 \<le> i \<and> i < 20") auto
  then show ?thesis
    using verify_header_unchanged [of hdr 0] verify_header_unchanged [of "hdr[i := b]" 0] assms by (simp add: prod_eq_iff)
qed

theorem rtss_gpt_header_corruption_detected_witness:
  "rtss_gpt_verify_header_crc32 (demo_header[24 := 2]) 0 = (False, demo_header[24 := 2])
    \<and> rtss_gpt_verify_header_crc32 (demo_header[16 := demo_header ! 16 + 1]) 0 = (False, demo_header[16 := demo_header ! 16 + 1])"
proof -
  have len: "length demo_header = sizeof_gpt_header"
    by (simp add: demo_header_def sizeof_gpt_header_def)
  then have "rtss_gpt_verify_header_crc32 demo_header 0 = (True, demo_header)"
    by (simp add: verify_header_iff demo_header_values demo_header_crc sizeof_gpt_header_def)
  moreover have "demo_header ! 24 = 1"
    by (simp add: demo_header_def)
  ultimately show ?thesis
    using rtss_gpt_header_corruption_detected [OF len, of demo_header 24 2]
      rtss_gpt_header_corruption_detected [OF len, of demo_header 16 "demo_header ! 16 + 1"]
    by (simp add: demo_header_values)
qed

text \<open>The search returns the extent of the first entry of the table, in table order, whose type is
  the requested identifier, and fails without touching the results when there is none; an entry
  whose extent is empty is reported as not found.\<close>
theorem rtss_gpt_get_partition_info_first:
  assumes "gpt_ready d st" "g_init_done st" "length (data4 g) = 8"
    and "48 \<le> unat (hdr32 Size_of_partition_entry (g_hdr st))"
    and "hdr32 Size_of_partition_entry (g_hdr st) \<le> g_work_buf_sz st"
  shows "\<exists>buf. rtss_gpt_get_partition_info (Some g) True True st =
    (case find (\<lambda>e. guid_at (rtss_gpt_entry_t Partition_type_guid) e = g) (table_entries d (g_hdr st)) of
       None \<Rightarrow> (False, None, st\<lparr>g_work_buf := Some buf\<rparr>)
     | Some e \<Rightarrow> (snd (partition_extent e) \<noteq> 0, Some (partition_extent e), st\<lparr>g_work_buf := Some buf\<rparr>))"
proof -
  obtain cb buf where st: "g_entry_read_cb st = Some cb" "serves d cb" "g_work_buf st = Some buf"
      "unat (g_work_buf_sz st) \<le> length buf"
    using assms(1) by (auto simp: gpt_ready_def)
  have "unat (hdr32 Size_of_partition_entry (g_hdr st)) \<le> length buf"
    using st assms(5) by (simp add: word_le_nat_alt)
  then show ?thesis
    using info_loop_device [OF st(2) assms(3,4), of buf
        "ucast (hdr64 Partition_entry_lba (g_hdr st)) * RTSS_GPT_NOR_LBA_SZ"
        "[0..<unat (hdr32 Number_of_partition_entries (g_hdr st))]"] st assms
    by (auto simp: rtss_gpt_get_partition_info_def Let_def not_less leD ucast_mask32 lookup_result_def
        table_entries_def split: option.splits)
qed

definition demo_gpt_loaded :: gpt_state where
  "demo_gpt_loaded = demo_gpt_state\<lparr>g_hdr := demo_header, g_init_done := True,
     g_entry_read_cb := Some (ram_read_cb demo_disk), g_work_buf := Some (replicate 256 0), g_work_buf_sz := 256\<rparr>"

lemma demo_table: "table_entries demo_disk demo_header = [demo_entry]"
proof -
  have "ucast (hdr64 Partition_entry_lba demo_header) * RTSS_GPT_NOR_LBA_SZ = (8192 :: u32)"
    by code_simp
  then show ?thesis
    by (simp add: table_entries_def demo_header_values demo_disk_entry)
qed

theorem rtss_gpt_get_partition_info_first_witness:
  "\<exists>st'. rtss_gpt_get_partition_info (Some demo_guid) True True demo_gpt_loaded = (True, Some (3 * 4096, 2 * 4096), st')"
proof -
  have "gpt_ready demo_disk demo_gpt_loaded"
    by (auto simp: gpt_ready_def demo_gpt_loaded_def ram_read_cb_serves sizeof_gpt_header_def demo_header_def)
  moreover have "length (data4 demo_guid) = 8"
    by (simp add: demo_guid_def)
  moreover have "guid_at 0 demo_entry = demo_guid"
    by (simp add: guid_at_def demo_entry_def demo_guid_def get32_def get16_def le32_def)
  moreover have "partition_extent demo_entry = (3 * 4096, 2 * 4096)"
    by code_simp
  ultimately show ?thesis
    using rtss_gpt_get_partition_info_first [of demo_disk demo_gpt_loaded demo_guid]
    by (auto simp: demo_gpt_loaded_def demo_header_values demo_table)
qed

text \<open>C39: Decoding the textual form of an identifier gives the identifier back, for every value of its
  members.\<close>
theorem rtss_gpt_decode_guid_string_roundtrip:
  assumes "length (data4 g) = 8"
  shows "rtss_gpt_decode_guid_string (Some (guid_string g)) = Some g"
  by (rule guid_string_decoded [OF assms])

theorem rtss_gpt_decode_guid_string_roundtrip_witness:
  "rtss_gpt_decode_guid_string (Some (guid_string demo_guid)) = Some demo_guid"
  using rtss_gpt_decode_guid_string_roundtrip [of demo_guid] by (simp add: demo_guid_def)

end
