(* ===== verification/Update_Msg.thy ===== *)
theory Update_Msg
  imports Byte_Lists
begin

text \<open>
  The messages of the update protocol, \<^verbatim>\<open>rtss_update_lib.h\<close>. The structures are packed: each
  is the concatenation of its members in the order of the declaration, little endian. A
  message is a header of five words and a union of 52 bytes, the size of its largest member;
  the code clears the message before it stores a member, so that shorter members are followed
  by zeros.
\<close>

section \<open>Packing\<close>

datatype member = W u32 | B u8 | Bs "u8 list"

fun member_bytes :: "member \<Rightarrow> u8 list" where
  "member_bytes (W v) = bytes32 v"
| "member_bytes (B b) = [b]"
| "member_bytes (Bs bs) = bs"

definition pack :: "member list \<Rightarrow> u8 list" where
  "pack ms = concat (map member_bytes ms)"

lemma pack_simps [simp]:
  "pack [] = []" "pack (W v # ms) = bytes32 v @ pack ms" "pack (B b # ms) = b # pack ms"
  "pack (Bs bs # ms) = bs @ pack ms"
  by (simp_all add: pack_def)

definition pad_to :: "nat \<Rightarrow> u8 list \<Rightarrow> u8 list" where
  "pad_to n bs = take n bs @ replicate (n - length bs) 0"

lemma length_pad_to [simp]: "length (pad_to n bs) = n"
  by (simp add: pad_to_def)

section \<open>Constants\<close>

definition RTSS_UPD_IMG_NAME_LEN :: nat where "RTSS_UPD_IMG_NAME_LEN = 32"
definition RTSS_UPD_IMAGE_DIGEST_MAX_LEN :: u32 where "RTSS_UPD_IMAGE_DIGEST_MAX_LEN = 128"
definition RTSS_UPD_MD2RTSS :: u32 where "RTSS_UPD_MD2RTSS = 0"
definition RTSS_UPD_RTSS2MD :: u32 where "RTSS_UPD_RTSS2MD = 1"
definition RTSS_UPD_VER_MAJ :: u32 where "RTSS_UPD_VER_MAJ = 1"
definition RTSS_UPD_VER_MIN :: u32 where "RTSS_UPD_VER_MIN = 0"
definition RTSS_UPD_S_SUCCESS :: u32 where "RTSS_UPD_S_SUCCESS = 0"
definition RTSS_UPD_S_FAIL :: u32 where "RTSS_UPD_S_FAIL = 1"

definition RTSS_UPD_MSG_HELLO :: u32 where "RTSS_UPD_MSG_HELLO = 0"
definition RTSS_UPD_MSG_CHECK_GPT :: u32 where "RTSS_UPD_MSG_CHECK_GPT = 1"
definition RTSS_UPD_MSG_READ_GPT :: u32 where "RTSS_UPD_MSG_READ_GPT = 2"
definition RTSS_UPD_MSG_WRITE_GPT :: u32 where "RTSS_UPD_MSG_WRITE_GPT = 3"
definition RTSS_UPD_MSG_FIX_GPT :: u32 where "RTSS_UPD_MSG_FIX_GPT = 4"
definition RTSS_UPD_MSG_UPDATE_GPT :: u32 where "RTSS_UPD_MSG_UPDATE_GPT = 5"
definition RTSS_UPD_MSG_QUERY_IMAGES :: u32 where "RTSS_UPD_MSG_QUERY_IMAGES = 6"
definition RTSS_UPD_MSG_READ_IMAGE :: u32 where "RTSS_UPD_MSG_READ_IMAGE = 7"
definition RTSS_UPD_MSG_FLASH_IMAGE :: u32 where "RTSS_UPD_MSG_FLASH_IMAGE = 8"
definition RTSS_UPD_MSG_BOOT_IMAGE :: u32 where "RTSS_UPD_MSG_BOOT_IMAGE = 9"
definition RTSS_UPD_MSG_BOOT_CONTINUE :: u32 where "RTSS_UPD_MSG_BOOT_CONTINUE = 10"
definition RTSS_UPD_MSG_GET_BOOTINFO :: u32 where "RTSS_UPD_MSG_GET_BOOTINFO = 11"
definition RTSS_UPD_MSG_GET_OTA_METADATA :: u32 where "RTSS_UPD_MSG_GET_OTA_METADATA = 12"
definition RTSS_UPD_MSG_SET_OTA_METADATA :: u32 where "RTSS_UPD_MSG_SET_OTA_METADATA = 13"
definition RTSS_UPD_MSG_UPDATE_ARB :: u32 where "RTSS_UPD_MSG_UPDATE_ARB = 14"
definition RTSS_UPD_MSG_UPDATE_MRC :: u32 where "RTSS_UPD_MSG_UPDATE_MRC = 15"
definition RTSS_UPD_MSG_READ_OTA_METADATA :: u32 where "RTSS_UPD_MSG_READ_OTA_METADATA = 16"
definition RTSS_UPD_MSG_WRITE_OTA_METADATA :: u32 where "RTSS_UPD_MSG_WRITE_OTA_METADATA = 17"
definition RTSS_UPD_MSG_ERASE_OTA_METADATA :: u32 where "RTSS_UPD_MSG_ERASE_OTA_METADATA = 18"
definition RTSS_UPD_MSG_GET_OTA_METADATAINFO :: u32 where "RTSS_UPD_MSG_GET_OTA_METADATAINFO = 19"
definition RTSS_UPD_MSG_OTA_DONE :: u32 where "RTSS_UPD_MSG_OTA_DONE = 20"
definition RTSS_UPD_MSG_REDUNDANCY_ESTABLISHED :: u32 where "RTSS_UPD_MSG_REDUNDANCY_ESTABLISHED = 21"
definition RTSS_UPD_MSG_GET_IMAGE_DIGEST :: u32 where "RTSS_UPD_MSG_GET_IMAGE_DIGEST = 22"
definition RTSS_UPD_MSG_TEST_ERROR_INJECTION :: u32 where "RTSS_UPD_MSG_TEST_ERROR_INJECTION = 255"

section \<open>The members of the union\<close>

definition rtss_upd_hello_msg_t :: "u8 list \<Rightarrow> u32 \<Rightarrow> u32 \<Rightarrow> u8 list" where
  "rtss_upd_hello_msg_t hello VerMaj VerMin = pack [Bs hello, W VerMaj, W VerMin]"

definition rtss_upd_check_gpt_msg_t ::
  "u32 \<Rightarrow> u32 \<Rightarrow> u32 \<Rightarrow> u32 \<Rightarrow> u32 \<Rightarrow> u32 \<Rightarrow> u32 \<Rightarrow> u32 \<Rightarrow> u8 list" where
  "rtss_upd_check_gpt_msg_t primaryGptHeaderCrcStatus primaryGptEntryCrcStatus primaryGptSize
     secondaryGptHeaderCrcStatus secondaryGptEntryCrcStatus secondaryGptSize
     primaryGptPartitionEntryCrc secondaryGptPartitionEntryCrc =
   pack [W primaryGptHeaderCrcStatus, W primaryGptEntryCrcStatus, W primaryGptSize,
     W secondaryGptHeaderCrcStatus, W secondaryGptEntryCrcStatus, W secondaryGptSize,
     W primaryGptPartitionEntryCrc, W secondaryGptPartitionEntryCrc]"

definition rtss_upd_read_gpt_msg_t :: "u32 \<Rightarrow> u32 \<Rightarrow> u32 \<Rightarrow> u32 \<Rightarrow> u8 list" where
  "rtss_upd_read_gpt_msg_t i bufAddr bufLen bufCrc = pack [W i, W bufAddr, W bufLen, W bufCrc]"

definition rtss_upd_write_gpt_msg_t :: "u32 \<Rightarrow> u32 \<Rightarrow> u32 \<Rightarrow> u32 \<Rightarrow> u8 list" where
  "rtss_upd_write_gpt_msg_t i bufAddr bufLen bufCrc = pack [W i, W bufAddr, W bufLen, W bufCrc]"

definition rtss_upd_fix_gpt_id_ext_t :: "u8 \<Rightarrow> u8 \<Rightarrow> u8 \<Rightarrow> u8 \<Rightarrow> u8 list" where
  "rtss_upd_fix_gpt_id_ext_t i reserved0 reserved1 fixtype = pack [B i, B reserved0, B reserved1, B fixtype]"

definition rtss_upd_fix_gpt_msg_t :: "u8 list \<Rightarrow> u32 \<Rightarrow> u32 \<Rightarrow> u8 list" where
  "rtss_upd_fix_gpt_msg_t ext_id bufAddr bufLen = pack [Bs ext_id, W bufAddr, W bufLen]"

definition rtss_upd_update_gpt_msg_t :: "u32 \<Rightarrow> u32 \<Rightarrow> u32 \<Rightarrow> u32 \<Rightarrow> u32 \<Rightarrow> u8 list" where
  "rtss_upd_update_gpt_msg_t i num bufAddr bufLen bufCrc =
     pack [W i, W num, W bufAddr, W bufLen, W bufCrc]"

definition rtss_upd_img_digest_msg_t :: "u32 \<Rightarrow> u32 \<Rightarrow> u32 \<Rightarrow> u32 \<Rightarrow> u8 list" where
  "rtss_upd_img_digest_msg_t num_images bufAddr bufLen bufCrc =
     pack [W num_images, W bufAddr, W bufLen, W bufCrc]"

definition rtss_upd_query_image_msg_t :: "u32 \<Rightarrow> u32 \<Rightarrow> u32 \<Rightarrow> u32 \<Rightarrow> u8 list" where
  "rtss_upd_query_image_msg_t num_images bufAddr bufLen bufCrc =
     pack [W num_images, W bufAddr, W bufLen, W bufCrc]"

definition rtss_upd_read_img_msg_t :: "u8 list \<Rightarrow> u32 \<Rightarrow> u32 \<Rightarrow> u32 \<Rightarrow> u32 \<Rightarrow> u32 \<Rightarrow> u8 list" where
  "rtss_upd_read_img_msg_t imgName readPartition readGptId bufAddr bufLen bufCrc =
     pack [Bs imgName, W readPartition, W readGptId, W bufAddr, W bufLen, W bufCrc]"

definition rtss_upd_flash_img_partition_ext_t :: "u8 \<Rightarrow> u8 \<Rightarrow> u8 \<Rightarrow> u8 \<Rightarrow> u8 list" where
  "rtss_upd_flash_img_partition_ext_t FlashPartition reserved0 reserved1 flashtype =
     pack [B FlashPartition, B reserved0, B reserved1, B flashtype]"

definition rtss_upd_flash_img_msg_t :: "u8 list \<Rightarrow> u8 list \<Rightarrow> u32 \<Rightarrow> u32 \<Rightarrow> u32 \<Rightarrow> u32 \<Rightarrow> u8 list" where
  "rtss_upd_flash_img_msg_t imgName ext_id FlashGptId bufAddr bufLen bufCrc =
     pack [Bs imgName, Bs ext_id, W FlashGptId, W bufAddr, W bufLen, W bufCrc]"

text \<open>The bit fields \<open>otaState\<close>, \<open>logicGuidASwapped\<close> and \<open>reserved\<close> share the last word.\<close>

definition rtss_upd_get_boot_info_msg_t ::
  "u32 \<Rightarrow> u32 \<Rightarrow> u32 \<Rightarrow> u32 \<Rightarrow> u32 \<Rightarrow> u32 \<Rightarrow> u8 list \<Rightarrow> u32 \<Rightarrow> u32 \<Rightarrow> u32 \<Rightarrow> u8 list" where
  "rtss_upd_get_boot_info_msg_t primaryGptHeaderCrcStatus primaryGptEntryCrcStatus primaryGptSize
     secondaryGptHeaderCrcStatus secondaryGptEntryCrcStatus secondaryGptSize imgInfo
     primaryGptPartitionEntryCrc secondaryGptPartitionEntryCrc bitfields =
   pack [W primaryGptHeaderCrcStatus, W primaryGptEntryCrcStatus, W primaryGptSize,
     W secondaryGptHeaderCrcStatus, W secondaryGptEntryCrcStatus, W secondaryGptSize,
     Bs imgInfo, W primaryGptPartitionEntryCrc, W secondaryGptPartitionEntryCrc, W bitfields]"

definition rtss_upd_get_ota_metadata_msg_t :: "u32 \<Rightarrow> u32 \<Rightarrow> u32 \<Rightarrow> u8 list" where
  "rtss_upd_get_ota_metadata_msg_t bufAddr bufLen bufCrc = pack [W bufAddr, W bufLen, W bufCrc]"

definition rtss_upd_set_ota_metadata_msg_t :: "u32 \<Rightarrow> u32 \<Rightarrow> u32 \<Rightarrow> u8 list" where
  "rtss_upd_set_ota_metadata_msg_t bufAddr bufLen bufCrc = pack [W bufAddr, W bufLen, W bufCrc]"

definition rtss_upd_read_ota_metadata_msg_t :: "u32 \<Rightarrow> u32 \<Rightarrow> u32 \<Rightarrow> u32 \<Rightarrow> u32 \<Rightarrow> u8 list" where
  "rtss_upd_read_ota_metadata_msg_t bufAddr bufLen bufCrc offset sz =
     pack [W bufAddr, W bufLen, W bufCrc, W offset, W sz]"

definition rtss_upd_write_ota_metadata_msg_t :: "u32 \<Rightarrow> u32 \<Rightarrow> u32 \<Rightarrow> u32 \<Rightarrow> u32 \<Rightarrow> u8 list" where
  "rtss_upd_write_ota_metadata_msg_t bufAddr bufLen bufCrc offset sz =
     pack [W bufAddr, W bufLen, W bufCrc, W offset, W sz]"

definition rtss_upd_erase_ota_metadata_msg_t :: "u32 \<Rightarrow> u32 \<Rightarrow> u8 list" where
  "rtss_upd_erase_ota_metadata_msg_t start_block block_cnt = pack [W start_block, W block_cnt]"

definition rtss_upd_boot_img_msg_t :: "u8 list \<Rightarrow> u32 \<Rightarrow> u32 \<Rightarrow> u32 \<Rightarrow> u32 \<Rightarrow> u32 \<Rightarrow> u8 list" where
  "rtss_upd_boot_img_msg_t imgName bootPartition bootGptId bufAddr bufLen bufCrc =
     pack [Bs imgName, W bootPartition, W bootGptId, W bufAddr, W bufLen, W bufCrc]"

definition rtss_upd_ota_done_msg_t :: "u32 \<Rightarrow> u32 \<Rightarrow> u32 \<Rightarrow> u32 \<Rightarrow> u8 list" where
  "rtss_upd_ota_done_msg_t data1 data2 data3 data4 = pack [W data1, W data2, W data3, W data4]"

definition rtss_upd_redundancy_msg_t :: "u32 \<Rightarrow> u32 \<Rightarrow> u32 \<Rightarrow> u32 \<Rightarrow> u8 list" where
  "rtss_upd_redundancy_msg_t data1 data2 data3 data4 = pack [W data1, W data2, W data3, W data4]"

definition rtss_upd_arb_update_msg_t :: "u32 \<Rightarrow> u32 \<Rightarrow> u32 \<Rightarrow> u32 \<Rightarrow> u8 list" where
  "rtss_upd_arb_update_msg_t data1 data2 data3 data4 = pack [W data1, W data2, W data3, W data4]"

definition rtss_upd_mrc_update_msg_t :: "u32 \<Rightarrow> u32 \<Rightarrow> u32 \<Rightarrow> u32 \<Rightarrow> u8 list" where
  "rtss_upd_mrc_update_msg_t data1 data2 data3 data4 = pack [W data1, W data2, W data3, W data4]"

definition rtss_upd_ota_test_trigger_msg_t :: "u32 \<Rightarrow> u32 \<Rightarrow> u8 list" where
  "rtss_upd_ota_test_trigger_msg_t enable triggerID =
     pack [W enable, W triggerID, W 0, W 0, W 0, W 0]"

lemmas upd_struct_defs = rtss_upd_hello_msg_t_def rtss_upd_check_gpt_msg_t_def rtss_upd_read_gpt_msg_t_def
  rtss_upd_write_gpt_msg_t_def rtss_upd_fix_gpt_id_ext_t_def rtss_upd_fix_gpt_msg_t_def
  rtss_upd_update_gpt_msg_t_def rtss_upd_img_digest_msg_t_def rtss_upd_query_image_msg_t_def
  rtss_upd_read_img_msg_t_def rtss_upd_flash_img_partition_ext_t_def rtss_upd_flash_img_msg_t_def
  rtss_upd_get_boot_info_msg_t_def rtss_upd_get_ota_metadata_msg_t_def rtss_upd_set_ota_metadata_msg_t_def
  rtss_upd_read_ota_metadata_msg_t_def rtss_upd_write_ota_metadata_msg_t_def
  rtss_upd_erase_ota_metadata_msg_t_def rtss_upd_boot_img_msg_t_def rtss_upd_ota_done_msg_t_def
  rtss_upd_redundancy_msg_t_def rtss_upd_arb_update_msg_t_def rtss_upd_mrc_update_msg_t_def
  rtss_upd_ota_test_trigger_msg_t_def

section \<open>Messages\<close>

definition sizeof_body :: nat where "sizeof_body = 52"
definition sizeof_msg :: nat where "sizeof_msg = 72"

record rtss_upd_msg_header_t =
  headerCrc :: u32
  headerSize :: u32
  msgId :: u32
  direction :: u32
  status :: u32
  body :: "u8 list"

definition msg_bytes :: "rtss_upd_msg_header_t \<Rightarrow> u8 list" where
  "msg_bytes x = pack [W (headerCrc x), W (headerSize x), W (msgId x), W (direction x), W (status x)] @ body x"

definition msg_of_bytes :: "u8 list \<Rightarrow> rtss_upd_msg_header_t" where
  "msg_of_bytes bs = \<lparr>headerCrc = get32 0 bs, headerSize = get32 4 bs, msgId = get32 8 bs,
     direction = get32 12 bs, status = get32 16 bs, body = take sizeof_body (drop 20 bs)\<rparr>"

definition zero_msg :: rtss_upd_msg_header_t where
  "zero_msg = \<lparr>headerCrc = 0, headerSize = 0, msgId = 0, direction = 0, status = 0,
     body = replicate sizeof_body 0\<rparr>"

definition msg_wf :: "rtss_upd_msg_header_t \<Rightarrow> bool" where
  "msg_wf x \<longleftrightarrow> length (body x) = sizeof_body"

lemma length_msg_bytes: "msg_wf x \<Longrightarrow> length (msg_bytes x) = sizeof_msg"
  by (simp add: msg_wf_def msg_bytes_def sizeof_body_def sizeof_msg_def)

lemma zero_msg_bytes: "msg_bytes zero_msg = replicate sizeof_msg 0"
  by (simp add: msg_bytes_def zero_msg_def sizeof_msg_def sizeof_body_def bytes32_def numeral_eq_Suc)

lemma get32_bytes32: "get32 0 (bytes32 v @ r) = v"
  by (simp add: get32_def bytes32_def le32_bytes32)

lemma get32_skip: "length a \<le> off \<Longrightarrow> get32 off (a @ r) = get32 (off - length a) r"
  by (simp add: get32_def nth_append Suc_diff_le)

lemma msg_of_bytes_msg_bytes: "msg_wf x \<Longrightarrow> msg_of_bytes (msg_bytes x) = x"
  by (cases x) (simp add: msg_of_bytes_def msg_bytes_def msg_wf_def get32_bytes32 get32_skip)

lemma msg_bytes_inject: "msg_wf x \<Longrightarrow> msg_wf y \<Longrightarrow> msg_bytes x = msg_bytes y \<longleftrightarrow> x = y"
  by (metis msg_of_bytes_msg_bytes)

lemma msg_of_bytes_wf: "length bs = sizeof_msg \<Longrightarrow> msg_wf (msg_of_bytes bs)"
  by (simp add: msg_wf_def msg_of_bytes_def sizeof_msg_def sizeof_body_def)

lemma get32_split:
  "length bs = 4 \<Longrightarrow> bytes32 (get32 0 bs) = bs"
  using put32_get32 [of 0 bs] by simp

lemma msg_bytes_msg_of_bytes:
  assumes "length bs = sizeof_msg"
  shows "msg_bytes (msg_of_bytes bs) = bs"
proof -
  have w: "off + 4 \<le> 72 \<Longrightarrow> bytes32 (get32 off bs) = take 4 (drop off bs)" for off
    using assms by (intro put32_get32) (simp add: sizeof_msg_def)
  have j: "take k (drop off bs) @ drop (off + k) bs = drop off bs" for k off
    by (metis append_take_drop_id drop_drop add.commute)
  have "take 52 (drop 20 bs) = drop 20 bs"
    using assms by (simp add: sizeof_msg_def)
  then show ?thesis
    using j [of 4 16] j [of 4 12] j [of 4 8] j [of 4 4] j [of 4 0]
    by (simp add: msg_bytes_def msg_of_bytes_def w sizeof_body_def)
qed

end
