(* ===== verification/Update_Lib.thy ===== *)
theory Update_Lib
  imports Update_Msg Crc_Props Mailbox
begin

text \<open>
  The update library, \<^verbatim>\<open>rtss_update_lib.c\<close>: the reference counted mapping of the OTA buffer,
  the boot handshake and the exchange of messages over the mailbox. The library's file-scope
  variables are the records \<open>rtss_upd_lib_handle\<close> and \<open>rtss_ota_context\<close>.
\<close>

section \<open>The OTA buffer\<close>

record rtss_ota_context =
  base_addr :: addr
  sVA :: u32
  refcount :: int
  csize :: u32

record rtss_upd_ota_mmap_data_t =
  pOtaBaseAddr :: addr
  d_sVA :: u32
  nSizeofBuffer :: u32

definition rtss_ota_ctx_init :: rtss_ota_context where
  "rtss_ota_ctx_init = \<lparr>base_addr = NULL, sVA = 0, refcount = 0, csize = 0\<rparr>"

definition client_view :: "rtss_ota_context \<Rightarrow> rtss_upd_ota_mmap_data_t" where
  "client_view c = \<lparr>pOtaBaseAddr = base_addr c, d_sVA = sVA c, nSizeofBuffer = csize c\<rparr>"

text \<open>The region the driver reports has a 64-bit address and a 32-bit size. The result is the
  code, the client data (changed on success only) and the new context.\<close>

definition map_ota_buffer_locked ::
  "platform \<Rightarrow> rtss_upd_ota_mmap_data_t \<Rightarrow> rtss_ota_context \<Rightarrow> world \<Rightarrow>
   (u32 \<times> rtss_upd_ota_mmap_data_t \<times> rtss_ota_context) \<times> world" where
  "map_ota_buffer_locked p cl c w =
     (case sys p Sys_open w of (a, w) \<Rightarrow>
        let fd = a_ret a
        in if fd = -1 then ((RTSS_UPD_E_ERR, cl, c), w)
           else case sys p (Sys_ioctl fd RTSS_MB_GET_OTA_REGION None) w of (r, w) \<Rightarrow>
             if a_ret r \<noteq> 0 then ((RTSS_UPD_E_ERR, cl, c), snd (sys p (Sys_close fd) w))
             else let region_size = (of_nat (a_size r) :: u32)
             in case sys p (Sys_mmap (unat region_size) fd) w of (e, w) \<Rightarrow>
               if a_ret e = -1 \<or> a_ret e = 0 then ((RTSS_UPD_E_ERR, cl, c), snd (sys p (Sys_close fd) w))
               else let w = snd (sys p (Sys_close fd) w);
                        c = c\<lparr>base_addr := nat (a_ret e), sVA := ucast (a_addr r),
                              csize := region_size, refcount := 1\<rparr>
                    in ((RTSS_UPD_E_OK, client_view c, c), w))"

definition rtss_upd_get_ota_buffer ::
  "platform \<Rightarrow> rtss_upd_ota_mmap_data_t \<Rightarrow> rtss_ota_context \<Rightarrow> world \<Rightarrow>
   (u32 \<times> rtss_upd_ota_mmap_data_t \<times> rtss_ota_context) \<times> world" where
  "rtss_upd_get_ota_buffer p cl c w =
     (if base_addr c \<noteq> NULL
      then ((RTSS_UPD_E_OK, client_view c, c\<lparr>refcount := refcount c + 1\<rparr>), w)
      else case map_ota_buffer_locked p cl c w of ((nRet, cl, c), w) \<Rightarrow>
        ((if nRet \<noteq> RTSS_UPD_E_OK then RTSS_UPD_E_ERR else RTSS_UPD_E_OK, cl, c), w))"

text \<open>The part of the release done under the lock: the code, what is to be unmapped after the
  lock is dropped, and the context.\<close>

definition release_locked :: "rtss_ota_context \<Rightarrow> u32 \<times> (addr \<times> u32) option \<times> rtss_ota_context" where
  "release_locked c =
     (if refcount c \<le> 0 then (RTSS_UPD_E_ERR, None, c)
      else let c = c\<lparr>refcount := refcount c - 1\<rparr>
           in if refcount c = 0
              then (RTSS_UPD_E_OK, if base_addr c \<noteq> NULL then Some (base_addr c, csize c) else None,
                    c\<lparr>base_addr := NULL, sVA := 0, csize := 0\<rparr>)
              else (RTSS_UPD_E_OK, None, c))"

definition rtss_upd_release_ota_buffer ::
  "platform \<Rightarrow> rtss_upd_ota_mmap_data_t option \<Rightarrow> rtss_ota_context \<Rightarrow> world \<Rightarrow>
   (u32 \<times> rtss_upd_ota_mmap_data_t option \<times> rtss_ota_context) \<times> world" where
  "rtss_upd_release_ota_buffer p cl c w =
     (case cl of None \<Rightarrow> ((RTSS_UPD_E_ERR, cl, c), w)
      | Some d \<Rightarrow>
          let d = d\<lparr>pOtaBaseAddr := NULL, nSizeofBuffer := 0\<rparr>
          in case release_locked c of (r, unmap, c) \<Rightarrow>
            ((r, Some d, c),
             case unmap of None \<Rightarrow> w | Some (a, n) \<Rightarrow> snd (sys p (Sys_munmap a (unat n)) w)))"

section \<open>The library state\<close>

definition RTSS_UPD_S_DEINIT :: int where "RTSS_UPD_S_DEINIT = 0"
definition RTSS_UPD_S_INIT :: int where "RTSS_UPD_S_INIT = 1"
definition RTSS_UPD_S_READY :: int where "RTSS_UPD_S_READY = 2"
definition RTSS_UPD_CACHE_LSZ :: u32 where "RTSS_UPD_CACHE_LSZ = 64"
definition RTSS_UPD_PING_RETRY_CNT :: nat where "RTSS_UPD_PING_RETRY_CNT = 3"
definition RTSS_UPD_PING_ERR_CNT :: nat where "RTSS_UPD_PING_ERR_CNT = 10"
definition RTSS_UPD_EV_RETRY_WT_TIME :: int where "RTSS_UPD_EV_RETRY_WT_TIME = 16000"
definition RTSS_UPD_EV_WT_TIME :: int where "RTSS_UPD_EV_WT_TIME = 6000"

datatype rtss_upd_prog_mode_t = RTSS_UPD_MODE_NONE | RTSS_UPD_MODE_SP_SCALL | RTSS_UPD_MODE_EV
  | RTSS_UPD_MODE_MAX

record rtss_upd_lib_handle =
  msgsz :: u32
  libstate :: int
  progmode :: rtss_upd_prog_mode_t

definition rtss_upd_lib_init :: rtss_upd_lib_handle where
  "rtss_upd_lib_init = \<lparr>msgsz = of_nat sizeof_msg, libstate = RTSS_UPD_S_DEINIT, progmode = RTSS_UPD_MODE_NONE\<rparr>"

definition rtss_upd_get_cache_line_sz :: u32 where
  "rtss_upd_get_cache_line_sz = RTSS_UPD_CACHE_LSZ"

section \<open>Sending and receiving\<close>

text \<open>The message is a structure of the caller at the address \<open>frame\<close>, \<open>None\<close> for a null pointer.\<close>

definition rtss_upd_send_msg ::
  "platform \<Rightarrow> rtss_upd_msg_header_t option \<Rightarrow> addr \<Rightarrow> rtss_mb_handle option \<Rightarrow> world \<Rightarrow> u32 \<times> world" where
  "rtss_upd_send_msg p TxMsg frame pTxClientData w =
     (if pTxClientData = None then (RTSS_UPD_E_ERR, w)
      else case TxMsg of None \<Rightarrow> (RTSS_UPD_E_PTR, w)
      | Some x \<Rightarrow>
          let w = w\<lparr>w_mem := put_bytes (w_mem w) frame (msg_bytes x)\<rparr>
          in case rtss_mb_write p pTxClientData frame (of_nat sizeof_msg) w of (ret, w) \<Rightarrow>
            if ret \<le> 0 \<or> ret \<noteq> int sizeof_msg then (RTSS_UPD_E_ERR, w) else (RTSS_UPD_E_OK, w))"

definition rtss_upd_read_msg ::
  "platform \<Rightarrow> rtss_upd_msg_header_t option \<Rightarrow> addr \<Rightarrow> rtss_mb_handle option \<Rightarrow> world \<Rightarrow>
   ((u32 \<times> rtss_upd_msg_header_t option) \<times> world) option" where
  "rtss_upd_read_msg p RxMsg frame pRxClientData w =
     (if pRxClientData = None then Some ((RTSS_UPD_E_ERR, RxMsg), w)
      else case RxMsg of None \<Rightarrow> Some ((RTSS_UPD_E_PTR, None), w)
      | Some x \<Rightarrow>
          let w = w\<lparr>w_mem := put_bytes (w_mem w) frame (msg_bytes x)\<rparr>
          in case rtss_mb_read p pRxClientData frame (of_nat sizeof_msg) w of
               None \<Rightarrow> None
             | Some (ret, w) \<Rightarrow>
                 let x = msg_of_bytes (bytes_at (w_mem w) frame sizeof_msg)
                 in if ret \<le> 0 \<or> ret \<noteq> int sizeof_msg then Some ((RTSS_UPD_E_ERR, Some x), w)
                    else Some ((RTSS_UPD_E_OK, Some x), w))"

section \<open>The handshake\<close>

text \<open>Both messages are changed in place; the result is the code, the two messages and the
  library state.\<close>

definition rtss_upd_verify_handshake ::
  "rtss_upd_prog_mode_t \<Rightarrow> rtss_upd_msg_header_t \<Rightarrow> rtss_upd_msg_header_t \<Rightarrow> rtss_upd_lib_handle \<Rightarrow>
   u32 \<times> rtss_upd_msg_header_t \<times> rtss_upd_msg_header_t \<times> rtss_upd_lib_handle" where
  "rtss_upd_verify_handshake mode pTxMsg pRxMsg s =
     (let rx = pRxMsg\<lparr>headerCrc := 0\<rparr>;
          tx = pTxMsg\<lparr>headerCrc := 0, direction := RTSS_UPD_RTSS2MD\<rparr>
      in if take (unat (msgsz s)) (msg_bytes tx) \<noteq> take (unat (msgsz s)) (msg_bytes rx)
         then (RTSS_UPD_E_ERR, tx, rx, s)
         else if mode = RTSS_UPD_MODE_SP_SCALL
         then (RTSS_UPD_E_OK, tx, rx, s\<lparr>progmode := RTSS_UPD_MODE_SP_SCALL, libstate := RTSS_UPD_S_READY\<rparr>)
         else if mode = RTSS_UPD_MODE_EV
         then (RTSS_UPD_E_OK, tx, rx, s\<lparr>progmode := RTSS_UPD_MODE_EV, libstate := RTSS_UPD_S_INIT\<rparr>)
         else (RTSS_UPD_E_ERR, tx, rx, s))"

text \<open>\<open>HELLO\<close>, padded with the zeros of the cleared message.\<close>

definition HELLO :: "u8 list" where
  "HELLO = pad_to RTSS_UPD_IMG_NAME_LEN [0x48, 0x45, 0x4C, 0x4C, 0x4F]"

definition hello_msg :: "rtss_upd_lib_handle \<Rightarrow> rtss_upd_msg_header_t" where
  "hello_msg s = zero_msg\<lparr>headerSize := msgsz s, msgId := RTSS_UPD_MSG_HELLO, direction := RTSS_UPD_MD2RTSS,
     status := RTSS_UPD_S_SUCCESS,
     body := pad_to sizeof_body (rtss_upd_hello_msg_t HELLO RTSS_UPD_VER_MAJ RTSS_UPD_VER_MIN)\<rparr>"

definition rtss_upd_ping_tx_msg_pack :: "rtss_upd_lib_handle \<Rightarrow> u32 \<times> rtss_upd_msg_header_t" where
  "rtss_upd_ping_tx_msg_pack s =
     (let x = hello_msg s
      in case rtss_upd_calculate_crc32 (Some (take (unat (msgsz s)) (msg_bytes x))) True of
           (r, crc_val) \<Rightarrow> if r \<noteq> RTSS_UPD_E_OK then (RTSS_UPD_E_ERR, x)
             else (RTSS_UPD_E_OK, x\<lparr>headerCrc := the crc_val\<rparr>))"

definition rtss_upd_ping_rx_msg_pack :: rtss_upd_msg_header_t where
  "rtss_upd_ping_rx_msg_pack = zero_msg"

text \<open>The clients of the library: the two handles and the addresses of the message structures.\<close>

record upd_env =
  e_tx :: "rtss_mb_handle option"
  e_rx :: "rtss_mb_handle option"
  e_txmsg :: addr
  e_rxmsg :: addr

definition reset_chan :: "rtss_mb_handle option \<Rightarrow> world \<Rightarrow> world" where
  "reset_chan h w = w\<lparr>w_mem := snd (rtss_mb_chan_reset h (w_mem w))\<rparr>"

text \<open>The two labels of \<open>rtss_upd_hello_ping\<close> and the passes between them. Counters and time-out
  are those of the code; the outer \<open>None\<close> is a read that does not return.\<close>

datatype ping_label = Rtss_upd_ping | Rtss_upd_ping_recovery

definition ping_rank :: "ping_label \<Rightarrow> nat \<Rightarrow> nat" where
  "ping_rank l retry = (if retry < RTSS_UPD_PING_RETRY_CNT
     then 2 * (RTSS_UPD_PING_RETRY_CNT - retry) + (if l = Rtss_upd_ping then 0 else 1)
     else if l = Rtss_upd_ping then 1 else 0)"

function (sequential) ping_loop ::
  "platform \<Rightarrow> upd_env \<Rightarrow> rtss_upd_prog_mode_t \<Rightarrow> ping_label \<Rightarrow> int \<Rightarrow> nat \<Rightarrow> nat \<Rightarrow>
   rtss_upd_msg_header_t \<Rightarrow> rtss_upd_lib_handle \<Rightarrow> world \<Rightarrow> (bool \<times> rtss_upd_lib_handle \<times> world) option" where
  "ping_loop p e mode Rtss_upd_ping timeout retry err tx s w =
     (if err > RTSS_UPD_PING_ERR_CNT then Some (False, s, w)
      else case rtss_upd_ping_tx_msg_pack s of (r, tx) \<Rightarrow>
        if r \<noteq> RTSS_UPD_E_OK then Some (False, s, w)
        else case rtss_upd_send_msg p (Some tx) (e_txmsg e) (e_tx e) w of (r, w) \<Rightarrow>
          if r \<noteq> RTSS_UPD_E_OK
          then ping_loop p e mode Rtss_upd_ping RTSS_UPD_EV_RETRY_WT_TIME 0 (err + 1) tx s
                 (reset_chan (e_rx e) (reset_chan (e_tx e) w))
          else ping_loop p e mode Rtss_upd_ping_recovery timeout (retry + 1) err tx s w)"
| "ping_loop p e mode Rtss_upd_ping_recovery timeout retry err tx s w =
     (if err > RTSS_UPD_PING_ERR_CNT then Some (False, s, w)
      else case rtss_mb_read_timed p (e_rx e) (e_rxmsg e) (of_nat sizeof_msg) timeout w of
        None \<Rightarrow> None
      | Some (ret, w) \<Rightarrow>
          if ret \<le> 0 \<or> ret \<noteq> int sizeof_msg
          then ping_loop p e mode Rtss_upd_ping RTSS_UPD_EV_RETRY_WT_TIME 0 (err + 1) tx s
                 (reset_chan (e_rx e) w)
          else case rtss_upd_verify_handshake mode tx
                      (msg_of_bytes (bytes_at (w_mem w) (e_rxmsg e) sizeof_msg)) s of
            (r, tx, _, s) \<Rightarrow>
              if r \<noteq> RTSS_UPD_E_OK
              then (case rtss_upd_ping_tx_msg_pack s of (r, tx) \<Rightarrow>
                      if r \<noteq> RTSS_UPD_E_OK then Some (False, s, w)
                      else ping_loop p e mode Rtss_upd_ping_recovery RTSS_UPD_EV_RETRY_WT_TIME 0 (err + 1) tx s w)
              else if retry < RTSS_UPD_PING_RETRY_CNT
              then ping_loop p e mode Rtss_upd_ping RTSS_UPD_EV_WT_TIME retry err tx s w
              else Some (True, s, w))"
  by pat_completeness auto
termination
  by (relation "measures [\<lambda>(p, e, mode, l, timeout, retry, err, tx, s, w). RTSS_UPD_PING_ERR_CNT + 1 - err,
      \<lambda>(p, e, mode, l, timeout, retry, err, tx, s, w). ping_rank l retry]")
    (auto simp: ping_rank_def RTSS_UPD_PING_RETRY_CNT_def)

text \<open>The test for too many errors after a failed handshake is the guard at the head of the
  recovery pass: \<open>err\<close> is never above the limit when the pass is entered otherwise.\<close>

definition rtss_upd_hello_ping ::
  "platform \<Rightarrow> upd_env \<Rightarrow> rtss_upd_prog_mode_t \<Rightarrow> rtss_upd_lib_handle \<Rightarrow> world \<Rightarrow>
   (bool \<times> rtss_upd_lib_handle \<times> world) option" where
  "rtss_upd_hello_ping p e mode s w =
     ping_loop p e mode Rtss_upd_ping RTSS_UPD_EV_RETRY_WT_TIME 0 0 zero_msg s w"

definition rtss_upd_is_ready ::
  "platform \<Rightarrow> upd_env \<Rightarrow> rtss_upd_prog_mode_t \<Rightarrow> rtss_upd_lib_handle \<Rightarrow> world \<Rightarrow>
   (bool \<times> rtss_upd_lib_handle \<times> world) option" where
  "rtss_upd_is_ready p e mode s w =
     (if libstate s \<noteq> RTSS_UPD_S_DEINIT then Some (False, s, w)
      else rtss_upd_hello_ping p e mode s w)"

end
