(* ===== verification/Update_Lib_Props.thy ===== *)
theory Update_Lib_Props
  imports Update_Lib Demo_Mailbox
begin

text \<open>
  The update library: what a send puts into the ring, what the handshake accepts, how often it
  sends and when it ends, and the life of the shared OTA buffer under interleaved clients.
\<close>

section \<open>Staging a message\<close>

lemma sizeof_msg_word [simp]: "unat (of_nat sizeof_msg :: u64) = 72" "unat (of_nat sizeof_msg :: u32) = 72"
  by (simp_all add: sizeof_msg_def)

lemma handle_stage:
  assumes ok: "handle_ok m h" and buf: "buf_ok m h a n" and le: "length bs \<le> n"
  shows "handle_ok (put_bytes m a bs) h" "h_items (put_bytes m a bs) h = h_items m h"
    "h_free (put_bytes m a bs) h = h_free m h" "buf_ok (put_bytes m a bs) h b k = buf_ok m h b k"
    "chan_extent (put_bytes m a bs) (h_p_mb_base_addr h) (h_subregion_index h) =
     chan_extent m (h_p_mb_base_addr h) (h_subregion_index h)"
proof -
  note hd = handle_okD [OF ok]
  have "same_on (h_p_mb_base_addr h) (chan_extent m (h_p_mb_base_addr h) (h_subregion_index h)) m (put_bytes m a bs)"
    by (rule put_bytes_same_on) (use buf le in \<open>auto simp: buf_ok_def disjoint_def\<close>)
  note o = chan_outside [OF hd(1) this]
  show "handle_ok (put_bytes m a bs) h" "h_items (put_bytes m a bs) h = h_items m h"
    "h_free (put_bytes m a bs) h = h_free m h"
    using ok o by (simp_all add: handle_ok_def h_items_def h_free_def chan_free_def)
  show e: "chan_extent (put_bytes m a bs) (h_p_mb_base_addr h) (h_subregion_index h) =
     chan_extent m (h_p_mb_base_addr h) (h_subregion_index h)"
    using o by (simp add: chan_extent_alt)
  show "buf_ok (put_bytes m a bs) h b k = buf_ok m h b k"
    by (simp add: buf_ok_def e)
qed

section \<open>Sending\<close>

text \<open>A channel of messages: its items are as large as a message.\<close>

definition msg_channel :: "mem \<Rightarrow> rtss_mb_handle \<Rightarrow> addr \<Rightarrow> bool" where
  "msg_channel m h frame \<longleftrightarrow> handle_ok m h \<and> h_isz h = sizeof_msg \<and> buf_ok m h frame sizeof_msg"

lemma write_msg:
  assumes ch: "msg_channel m h frame" and mode: "h_mode h = RTSS_MB_MODE_TX p" and wf: "msg_wf x"
  defines "m1 \<equiv> put_bytes m frame (msg_bytes x)"
  shows "h_free m h = 0 \<Longrightarrow> rtss_mb_write_batch p (Some h) frame (of_nat sizeof_msg) m1 = (- ENOBUFS, m1)"
    and "0 < h_free m h \<Longrightarrow> \<exists>m2. rtss_mb_write_batch p (Some h) frame (of_nat sizeof_msg) m1 = (72, m2)
      \<and> h_items m2 h = h_items m h @ [msg_bytes x] \<and> msg_channel m2 h frame
      \<and> (\<forall>a k. disjoint (h_p_mb_base_addr h) (chan_extent m (h_p_mb_base_addr h) (h_subregion_index h)) a k \<longrightarrow>
          same_on a k m1 m2)"
proof -
  have len: "length (msg_bytes x) = 72"
    using length_msg_bytes [OF wf] by (simp add: sizeof_msg_def)
  have ok: "handle_ok m h" and isz: "h_isz h = 72" and buf: "buf_ok m h frame 72"
    using ch by (simp_all add: msg_channel_def sizeof_msg_def)
  note st = handle_stage [OF ok buf, of "msg_bytes x", folded m1_def, unfolded len, OF order_refl]
  have nz: "(of_nat sizeof_msg :: u64) \<noteq> 0" "frame \<noteq> 0"
    using buf by (simp_all add: sizeof_msg_def buf_ok_def)
  show "rtss_mb_write_batch p (Some h) frame (of_nat sizeof_msg) m1 = (- ENOBUFS, m1)" if "h_free m h = 0"
    using that st nz by (intro rtss_mb_write_batch_full [OF st(1) mode nz(2,1)]) (simp add: isz)
  assume free: "0 < h_free m h"
  have fit: "unat (of_nat sizeof_msg :: u64) \<le> h_free m1 h * h_isz h"
    using free st(3) by (simp add: isz)
  have b: "buf_ok m1 h frame (unat (of_nat sizeof_msg :: u64))"
    using buf st(4) by simp
  obtain m2 where w: "rtss_mb_write_batch p (Some h) frame (of_nat sizeof_msg) m1 = (72, m2)"
      "h_items m2 h = h_items m1 h @ [bytes_at m1 frame 72]" "handle_ok m2 h"
      "\<And>a k. disjoint (h_p_mb_base_addr h)
         (chan_extent m1 (h_p_mb_base_addr h) (h_subregion_index h)) a k \<Longrightarrow> same_on a k m1 m2"
      "chan_extent m2 (h_p_mb_base_addr h) (h_subregion_index h) =
       chan_extent m1 (h_p_mb_base_addr h) (h_subregion_index h)"
    by (rule rtss_mb_write_batch_ok [OF st(1) mode nz(1) fit b]) (simp_all add: isz)
  moreover have "bytes_at m1 frame 72 = msg_bytes x"
    unfolding m1_def by (metis len bytes_at_put_same)
  ultimately show "\<exists>m2. rtss_mb_write_batch p (Some h) frame (of_nat sizeof_msg) m1 = (72, m2)
      \<and> h_items m2 h = h_items m h @ [msg_bytes x] \<and> msg_channel m2 h frame
      \<and> (\<forall>a k. disjoint (h_p_mb_base_addr h) (chan_extent m (h_p_mb_base_addr h) (h_subregion_index h)) a k \<longrightarrow>
          same_on a k m1 m2)"
    using st isz buf by (intro exI [of _ m2]) (simp add: msg_channel_def sizeof_msg_def buf_ok_def)
qed

text \<open>The world after the interrupt that announces a message.\<close>

definition triggered :: "platform \<Rightarrow> rtss_mb_handle \<Rightarrow> mem \<Rightarrow> world \<Rightarrow> world" where
  "triggered p h m w = snd (sys p (Sys_ioctl (h_fd h) RTSS_MB_SEND_INTERRUPT
     (Some (evfd_of h (RTSS_MB_MODE_TX p) 0))) (w\<lparr>w_mem := m\<rparr>))"

text \<open>A failed call sets \<open>errno\<close> to a positive value.\<close>

definition errno_set :: "platform \<Rightarrow> nat \<Rightarrow> bool" where
  "errno_set p k \<longleftrightarrow> a_ret (answer p k) = 0 \<or> 0 < a_err (answer p k)"

lemma send_msg_cases:
  assumes ch: "msg_channel (w_mem w) h frame" and mode: "h_mode h = RTSS_MB_MODE_TX p" and wf: "msg_wf x"
  shows "h_free (w_mem w) h = 0 \<Longrightarrow> rtss_upd_send_msg p (Some x) frame (Some h) w =
      (RTSS_UPD_E_ERR, w\<lparr>w_mem := put_bytes (w_mem w) frame (msg_bytes x)\<rparr>)"
    and "0 < h_free (w_mem w) h \<Longrightarrow> \<exists>m2. h_items m2 h = h_items (w_mem w) h @ [msg_bytes x]
      \<and> msg_channel m2 h frame \<and> 0 \<le> h_fd h
      \<and> (\<forall>a k. disjoint (h_p_mb_base_addr h) (chan_extent (w_mem w) (h_p_mb_base_addr h) (h_subregion_index h)) a k \<longrightarrow>
          same_on a k (put_bytes (w_mem w) frame (msg_bytes x)) m2)
      \<and> (errno_set p (w_now w) \<longrightarrow> rtss_upd_send_msg p (Some x) frame (Some h) w =
           (if a_ret (answer p (w_now w)) = 0 then RTSS_UPD_E_OK else RTSS_UPD_E_ERR, triggered p h m2 w))"
proof -
  let ?w = "w\<lparr>w_mem := put_bytes (w_mem w) frame (msg_bytes x)\<rparr>"
  note wr = write_msg [OF ch mode wf]
  show "rtss_upd_send_msg p (Some x) frame (Some h) w = (RTSS_UPD_E_ERR, ?w)" if "h_free (w_mem w) h = 0"
    using wr(1) [OF that] by (simp add: rtss_upd_send_msg_def rtss_mb_write_def Let_def errno_defs)
  assume "0 < h_free (w_mem w) h"
  then obtain m2 where m2: "rtss_mb_write_batch p (Some h) frame (of_nat sizeof_msg)
        (put_bytes (w_mem w) frame (msg_bytes x)) = (72, m2)"
      "h_items m2 h = h_items (w_mem w) h @ [msg_bytes x]" "msg_channel m2 h frame"
      "\<forall>a k. disjoint (h_p_mb_base_addr h) (chan_extent (w_mem w) (h_p_mb_base_addr h) (h_subregion_index h)) a k \<longrightarrow>
          same_on a k (put_bytes (w_mem w) frame (msg_bytes x)) m2"
    using wr(2) by blast
  have "errno_set p (w_now w) \<Longrightarrow> rtss_upd_send_msg p (Some x) frame (Some h) w =
      (if a_ret (answer p (w_now w)) = 0 then RTSS_UPD_E_OK else RTSS_UPD_E_ERR, triggered p h m2 w)"
    using m2(1) by (auto simp: rtss_upd_send_msg_def rtss_mb_write_def Let_def rtssmb_trigger_ioctl_def
        triggered_def sys_def RTSS_MB_RETURN_SUCCESS_def sizeof_msg_def errno_set_def
        RTSS_UPD_E_OK_def RTSS_UPD_E_ERR_def split: prod.splits)
  then show "\<exists>m2. h_items m2 h = h_items (w_mem w) h @ [msg_bytes x]
      \<and> msg_channel m2 h frame \<and> 0 \<le> h_fd h
      \<and> (\<forall>a k. disjoint (h_p_mb_base_addr h) (chan_extent (w_mem w) (h_p_mb_base_addr h) (h_subregion_index h)) a k \<longrightarrow>
          same_on a k (put_bytes (w_mem w) frame (msg_bytes x)) m2)
      \<and> (errno_set p (w_now w) \<longrightarrow> rtss_upd_send_msg p (Some x) frame (Some h) w =
           (if a_ret (answer p (w_now w)) = 0 then RTSS_UPD_E_OK else RTSS_UPD_E_ERR, triggered p h m2 w))"
    using m2 ch handle_okD(2) by (intro exI [of _ m2]) (auto simp: msg_channel_def)
qed

section \<open>The handshake\<close>

definition lib_ok :: "rtss_upd_lib_handle \<Rightarrow> bool" where
  "lib_ok s \<longleftrightarrow> msgsz s = of_nat sizeof_msg"

text \<open>The answer the handshake waits for, up to its checksum.\<close>

definition echo_of :: "rtss_upd_msg_header_t \<Rightarrow> rtss_upd_msg_header_t" where
  "echo_of tx = tx\<lparr>headerCrc := 0, direction := RTSS_UPD_RTSS2MD\<rparr>"

lemma verify_handshake_iff:
  assumes "lib_ok s" "msg_wf tx" "msg_wf rx"
  shows "rtss_upd_verify_handshake mode tx rx s =
    (if rx\<lparr>headerCrc := 0\<rparr> = echo_of tx \<and> mode \<in> {RTSS_UPD_MODE_SP_SCALL, RTSS_UPD_MODE_EV}
     then (RTSS_UPD_E_OK, echo_of tx, rx\<lparr>headerCrc := 0\<rparr>, s\<lparr>progmode := mode,
       libstate := if mode = RTSS_UPD_MODE_SP_SCALL then RTSS_UPD_S_READY else RTSS_UPD_S_INIT\<rparr>)
     else (RTSS_UPD_E_ERR, echo_of tx, rx\<lparr>headerCrc := 0\<rparr>, s))"
proof -
  have wf: "msg_wf (echo_of tx)" "msg_wf (rx\<lparr>headerCrc := 0\<rparr>)"
    using assms by (simp_all add: echo_of_def msg_wf_def)
  have "take (unat (msgsz s)) (msg_bytes (echo_of tx)) = msg_bytes (echo_of tx)"
    "take (unat (msgsz s)) (msg_bytes (rx\<lparr>headerCrc := 0\<rparr>)) = msg_bytes (rx\<lparr>headerCrc := 0\<rparr>)"
    using assms(1) length_msg_bytes [OF wf(1)] length_msg_bytes [OF wf(2)]
    by (simp_all add: lib_ok_def sizeof_msg_def)
  then show ?thesis
    by (cases mode)
      (auto simp: rtss_upd_verify_handshake_def Let_def msg_bytes_inject [OF wf] simp flip: echo_of_def)
qed

definition sealed :: "rtss_upd_msg_header_t \<Rightarrow> rtss_upd_msg_header_t" where
  "sealed x = x\<lparr>headerCrc := crc32 (msg_bytes (x\<lparr>headerCrc := 0\<rparr>))\<rparr>"

lemma hello_wf: "msg_wf (hello_msg s)"
  by (simp add: hello_msg_def msg_wf_def)

lemma ping_pack:
  assumes "lib_ok s"
  shows "rtss_upd_ping_tx_msg_pack s = (RTSS_UPD_E_OK, sealed (hello_msg s))"
proof -
  have len: "length (msg_bytes (hello_msg s)) = 72"
    using length_msg_bytes [OF hello_wf] by (simp add: sizeof_msg_def)
  have "(hello_msg s)\<lparr>headerCrc := 0\<rparr> = hello_msg s"
    by (simp add: hello_msg_def zero_msg_def)
  moreover have "msg_bytes (hello_msg s) \<noteq> []"
    using len by auto
  ultimately show ?thesis
    using assms len by (simp add: rtss_upd_ping_tx_msg_pack_def Let_def lib_ok_def
        rtss_upd_calculate_crc32_ok sealed_def)
qed

section \<open>Interrupts sent\<close>

fun is_trigger :: "syscall \<times> int \<Rightarrow> bool" where
  "is_trigger (Sys_ioctl fd RTSS_MB_SEND_INTERRUPT v, r) = True"
| "is_trigger _ = False"

definition triggers :: "world \<Rightarrow> nat" where
  "triggers w = length (filter is_trigger (w_trace w))"

lemma triggers_sys: "triggers (snd (sys p c w)) = triggers w + (if is_trigger (c, a_ret (answer p (w_now w))) then 1 else 0)"
  by (simp add: triggers_def sys_def Let_def)

lemma triggers_mem [simp]: "triggers (w\<lparr>w_mem := m\<rparr>) = triggers w"
  by (simp add: triggers_def)

lemma triggers_poll: "sys p (Sys_poll fd ms) w = (a, w') \<Longrightarrow> triggers w' = triggers w"
  using triggers_sys [of p "Sys_poll fd ms" w] by simp

lemma triggers_eventfd: "sys p (Sys_eventfd_read fd) w = (a, w') \<Longrightarrow> triggers w' = triggers w"
  using triggers_sys [of p "Sys_eventfd_read fd" w] by simp

lemma triggers_ioctl: "sys p (Sys_ioctl fd r v) w = (a, w') \<Longrightarrow> triggers w' \<le> triggers w + 1"
  using triggers_sys [of p "Sys_ioctl fd r v" w] by (cases r) auto

lemma read_wait_triggers:
  assumes "read_wait p h ms n w = Some y"
  shows "triggers (snd y) = triggers w"
proof (rule read_wait.raw_induct [where P = "\<lambda>p h ms n w y. triggers (snd y) = triggers w", OF _ assms])
  fix rec p h ms n w y
  assume IH: "\<And>h ms n w b y. rec h ms n w b = Some y \<Longrightarrow> triggers (snd y) = triggers b"
    and eq: "(if n \<noteq> 0 then Some (Inr n, w)
      else case sys p (Sys_poll (h_event_fd h) ms) w of (a, w) \<Rightarrow>
        if a_ret a = -1 then Some (Inl (if a_err a = EINTR then - EINTR else - a_err a), w)
        else if a_ret a = 0 then Some (Inl (- ETIMEDOUT), w)
        else case (if a_revents a AND POLLIN \<noteq> 0
                   then (case sys p (Sys_eventfd_read (h_event_fd h)) w of (b, w) \<Rightarrow>
                           (if a_ret b = -1 then Some (- a_err b) else None, w))
                   else if a_revents a AND (POLLNVAL OR POLLERR OR POLLHUP) \<noteq> 0
                   then (Some (- ECONNRESET), w)
                   else (None, w)) of
               (None, w) \<Rightarrow>
                 let n = LibMB_Get_ValidItemNum (w_mem w) (h_p_mb_base_addr h) (h_subregion_index h)
                 in if n < 0 then Some (Inl (- EIO), w) else rec p h ms n w
             | (Some e, w) \<Rightarrow> Some (Inl e, w)) = Some y"
  show "triggers (snd y) = triggers w"
    using eq by (auto simp: Let_def dest!: triggers_poll triggers_eventfd IH
        split: if_splits prod.splits option.splits)
qed

lemma read_timed_triggers: "rtss_mb_read_timed p h a n ms w = Some (r, w') \<Longrightarrow> triggers w' = triggers w"
  by (auto simp: rtss_mb_read_timed_def Let_def dest!: read_wait_triggers
      split: option.splits if_splits sum.splits prod.splits)

lemma send_msg_triggers: "triggers (snd (rtss_upd_send_msg p x frame h w)) \<le> triggers w + 1"
  by (auto simp: rtss_upd_send_msg_def rtss_mb_write_def Let_def rtssmb_trigger_ioctl_def
      split: option.splits prod.splits dest!: triggers_ioctl)

section \<open>The ping loop\<close>

lemma triggers_reset [simp]: "triggers (reset_chan h w) = triggers w"
  by (simp add: reset_chan_def)

lemma send_triggers: "rtss_upd_send_msg p x frame h w = (r, w') \<Longrightarrow> triggers w' \<le> triggers w + 1"
  using send_msg_triggers [of p x frame h w] by simp

definition ping_budget :: "nat \<Rightarrow> nat \<Rightarrow> nat" where
  "ping_budget retry err = (if err > RTSS_UPD_PING_ERR_CNT then 0
     else (RTSS_UPD_PING_RETRY_CNT - retry) + RTSS_UPD_PING_RETRY_CNT * (RTSS_UPD_PING_ERR_CNT - err))"

lemmas ping_consts = RTSS_UPD_PING_ERR_CNT_def RTSS_UPD_PING_RETRY_CNT_def

text \<open>An invariant of the passes: it holds when a pass is entered, each way out of a pass
  re-establishes it or the postcondition.\<close>

lemma ping_rule:
  assumes run: "ping_loop p e mode l timeout retry err tx s w = Some (b, s', w')"
    and init: "I l retry err s w"
    and gave_up: "\<And>l retry err s w. I l retry err s w \<Longrightarrow> Q False s w"
    and send_failed: "\<And>retry err tx s w r w1. \<lbrakk>I Rtss_upd_ping retry err s w; err \<le> RTSS_UPD_PING_ERR_CNT;
      rtss_upd_send_msg p (Some tx) (e_txmsg e) (e_tx e) w = (r, w1); r \<noteq> RTSS_UPD_E_OK\<rbrakk> \<Longrightarrow>
      I Rtss_upd_ping 0 (err + 1) s (reset_chan (e_rx e) (reset_chan (e_tx e) w1))"
    and sent: "\<And>retry err tx s w w1. \<lbrakk>I Rtss_upd_ping retry err s w; err \<le> RTSS_UPD_PING_ERR_CNT;
      rtss_upd_send_msg p (Some tx) (e_txmsg e) (e_tx e) w = (RTSS_UPD_E_OK, w1)\<rbrakk> \<Longrightarrow>
      I Rtss_upd_ping_recovery (retry + 1) err s w1"
    and read_failed: "\<And>timeout retry err s w ret w1. \<lbrakk>I Rtss_upd_ping_recovery retry err s w; err \<le> RTSS_UPD_PING_ERR_CNT;
      rtss_mb_read_timed p (e_rx e) (e_rxmsg e) (of_nat sizeof_msg) timeout w = Some (ret, w1)\<rbrakk> \<Longrightarrow>
      I Rtss_upd_ping 0 (err + 1) s (reset_chan (e_rx e) w1)"
    and refused: "\<And>timeout retry err tx s w ret w1 r tx1 rx1 s1. \<lbrakk>I Rtss_upd_ping_recovery retry err s w;
      err \<le> RTSS_UPD_PING_ERR_CNT;
      rtss_mb_read_timed p (e_rx e) (e_rxmsg e) (of_nat sizeof_msg) timeout w = Some (ret, w1);
      rtss_upd_verify_handshake mode tx (msg_of_bytes (bytes_at (w_mem w1) (e_rxmsg e) sizeof_msg)) s
        = (r, tx1, rx1, s1); r \<noteq> RTSS_UPD_E_OK\<rbrakk> \<Longrightarrow> I Rtss_upd_ping_recovery 0 (err + 1) s1 w1"
    and accepted: "\<And>timeout retry err tx s w ret w1 tx1 rx1 s1. \<lbrakk>I Rtss_upd_ping_recovery retry err s w;
      err \<le> RTSS_UPD_PING_ERR_CNT;
      rtss_mb_read_timed p (e_rx e) (e_rxmsg e) (of_nat sizeof_msg) timeout w = Some (ret, w1);
      rtss_upd_verify_handshake mode tx (msg_of_bytes (bytes_at (w_mem w1) (e_rxmsg e) sizeof_msg)) s
        = (RTSS_UPD_E_OK, tx1, rx1, s1)\<rbrakk> \<Longrightarrow>
      if retry < RTSS_UPD_PING_RETRY_CNT then I Rtss_upd_ping retry err s1 w1 else Q True s1 w1"
  shows "Q b s' w'"
proof -
  have "\<lbrakk>p' = p; e' = e; m' = mode; ping_loop p' e' m' l timeout retry err tx s w = Some (b, s', w');
      I l retry err s w\<rbrakk> \<Longrightarrow> Q b s' w'" for p' e' m'
  proof (induction p' e' m' l timeout retry err tx s w rule: ping_loop.induct)
    case (1 p' e' m' timeout retry err tx s w)
    then have eq: "p' = p" "e' = e" "m' = mode" and inv: "I Rtss_upd_ping retry err s w"
      by simp_all
    note IH = 1(1,2)[unfolded eq, OF _ _ _ _ _ refl refl refl] and run = 1(6)[unfolded eq]
    obtain r0 tx0 where pk: "rtss_upd_ping_tx_msg_pack s = (r0, tx0)"
      by fastforce
    obtain r1 w1 where sd: "rtss_upd_send_msg p (Some tx0) (e_txmsg e) (e_tx e) w = (r1, w1)"
      by fastforce
    consider "err > RTSS_UPD_PING_ERR_CNT \<or> r0 \<noteq> RTSS_UPD_E_OK"
      | "\<not> err > RTSS_UPD_PING_ERR_CNT" "r0 = RTSS_UPD_E_OK" "r1 = RTSS_UPD_E_OK"
      | "\<not> err > RTSS_UPD_PING_ERR_CNT" "r0 = RTSS_UPD_E_OK" "r1 \<noteq> RTSS_UPD_E_OK"
      by blast
    then show ?case
    proof cases
      case 1
      then show ?thesis
        using run pk gave_up [OF inv] by (auto split: if_splits)
    next
      case 2
      then show ?thesis
        using IH(2) [OF _ pk [symmetric] _ sd [symmetric]] run pk sd sent [OF inv] by simp
    next
      case 3
      then show ?thesis
        using IH(1) [OF _ pk [symmetric] _ sd [symmetric]] run pk sd send_failed [OF inv _ sd] by simp
    qed
  next
    case (2 p' e' m' timeout retry err tx s w)
    then have eq: "p' = p" "e' = e" "m' = mode" and inv: "I Rtss_upd_ping_recovery retry err s w"
      by simp_all
    note IH = 2(1-3)[unfolded eq] and run = 2(7)[unfolded eq]
    show ?case
    proof (cases "err > RTSS_UPD_PING_ERR_CNT")
      case True
      then show ?thesis
        using run gave_up [OF inv] by auto
    next
      case err: False
      then obtain ret w1 where
        rd: "rtss_mb_read_timed p (e_rx e) (e_rxmsg e) (of_nat sizeof_msg) timeout w = Some (ret, w1)"
        using run by (auto split: option.splits)
      obtain r tx1 rx1 s1 where v: "rtss_upd_verify_handshake mode tx
          (msg_of_bytes (bytes_at (w_mem w1) (e_rxmsg e) sizeof_msg)) s = (r, tx1, rx1, s1)"
        by (metis prod_cases4)
      obtain r0 tx0 where pk: "rtss_upd_ping_tx_msg_pack s1 = (r0, tx0)"
        by fastforce
      consider "ret \<le> 0 \<or> ret \<noteq> int sizeof_msg"
        | "\<not> (ret \<le> 0 \<or> ret \<noteq> int sizeof_msg)" "r \<noteq> RTSS_UPD_E_OK"
        | "\<not> (ret \<le> 0 \<or> ret \<noteq> int sizeof_msg)" "r = RTSS_UPD_E_OK"
        by blast
      then show ?thesis
      proof cases
        case a: 1
        then show ?thesis
          using IH(1) [OF err rd refl a refl refl refl] run err rd read_failed [OF inv _ rd] by simp
      next
        case a: 2
        then have "I Rtss_upd_ping_recovery 0 (err + 1) s1 w1"
          using err by (intro refused [OF inv _ rd v]) auto
        then show ?thesis
          using IH(2) [OF err rd refl a(1) v [symmetric] refl refl a(2) pk [symmetric] _ refl refl refl]
            run err rd v pk a gave_up by (cases "r0 = RTSS_UPD_E_OK") auto
      next
        case a: 3
        then show ?thesis
          using IH(3) [OF err rd refl a(1) v [symmetric] refl refl] run err rd v accepted [OF inv _ rd v [unfolded a(2)]]
          by (cases "retry < RTSS_UPD_PING_RETRY_CNT") auto
      qed
    qed
  qed
  then show ?thesis
    using run init by blast
qed

lemma ping_loop_triggers:
  assumes "ping_loop p e mode Rtss_upd_ping timeout 0 0 tx s w = Some (b, s', w')"
  shows "triggers w' \<le> triggers w + 33"
proof -
  let ?I = "\<lambda>l retry err s w1. (l = Rtss_upd_ping \<longrightarrow> retry < RTSS_UPD_PING_RETRY_CNT)
      \<and> triggers w1 + ping_budget retry err \<le> triggers w + 33"
  show ?thesis
  proof (rule ping_rule [OF assms, where I = ?I and Q = "\<lambda>b s w1. triggers w1 \<le> triggers w + 33"])
    show "?I Rtss_upd_ping_recovery (retry + 1) err s w2"
      if "?I Rtss_upd_ping retry err s w1" "err \<le> RTSS_UPD_PING_ERR_CNT"
        "rtss_upd_send_msg p (Some tx) (e_txmsg e) (e_tx e) w1 = (RTSS_UPD_E_OK, w2)" for retry err tx s w1 w2
      using that send_triggers [OF that(3)] by (auto simp: ping_budget_def)
    show "?I Rtss_upd_ping 0 (err + 1) s (reset_chan (e_rx e) (reset_chan (e_tx e) w2))"
      if "?I Rtss_upd_ping retry err s w1" "err \<le> RTSS_UPD_PING_ERR_CNT"
        "rtss_upd_send_msg p (Some tx) (e_txmsg e) (e_tx e) w1 = (r, w2)" for retry err tx s w1 r w2
      using that send_triggers [OF that(3)] by (auto simp: ping_budget_def ping_consts split: if_splits)
  qed (auto simp: ping_budget_def ping_consts dest!: read_timed_triggers split: if_splits)
qed

text \<open>What a successful handshake leaves in the library state.\<close>

definition ready_state :: "rtss_upd_prog_mode_t \<Rightarrow> rtss_upd_lib_handle \<Rightarrow> rtss_upd_lib_handle" where
  "ready_state mode s = s\<lparr>progmode := mode,
     libstate := if mode = RTSS_UPD_MODE_SP_SCALL then RTSS_UPD_S_READY else RTSS_UPD_S_INIT\<rparr>"

lemma verify_handshake_state:
  assumes "rtss_upd_verify_handshake mode tx rx s = (r, tx1, rx1, s1)"
  shows "if r = RTSS_UPD_E_OK then s1 = ready_state mode s \<and> mode \<in> {RTSS_UPD_MODE_SP_SCALL, RTSS_UPD_MODE_EV}
    else s1 = s"
  using assms by (auto simp: rtss_upd_verify_handshake_def Let_def ready_state_def
      RTSS_UPD_E_OK_def RTSS_UPD_E_ERR_def split: if_splits)

lemma ready_state_twice [simp]: "ready_state mode (ready_state mode s) = ready_state mode s"
  by (simp add: ready_state_def)

lemma ping_loop_state:
  assumes "ping_loop p e mode l timeout retry err tx s w = Some (b, s', w')"
  shows "(b \<longrightarrow> s' = ready_state mode s \<and> mode \<in> {RTSS_UPD_MODE_SP_SCALL, RTSS_UPD_MODE_EV})
    \<and> (s' = s \<or> s' = ready_state mode s)"
  by (rule ping_rule [OF assms, where I = "\<lambda>l retry err s1 w1. s1 = s \<or> s1 = ready_state mode s"
      and Q = "\<lambda>b s1 w1. (b \<longrightarrow> s1 = ready_state mode s \<and> mode \<in> {RTSS_UPD_MODE_SP_SCALL, RTSS_UPD_MODE_EV})
        \<and> (s1 = s \<or> s1 = ready_state mode s)"])
    (auto dest!: verify_handshake_state split: if_splits)

lemma ping_loop_returns:
  assumes polls: "\<forall>k \<ge> K. a_ret (answer p k) \<in> {0, -1}"
  shows "\<exists>b s' w'. ping_loop p e mode l timeout retry err tx s w = Some (b, s', w')"
  using polls
proof (induction p e mode l timeout retry err tx s w rule: ping_loop.induct)
  case (1 p e mode timeout retry err tx s w)
  then show ?case
    by (auto split: prod.splits)
next
  case (2 p e mode timeout retry err tx s w)
  obtain r where "rtss_mb_read_timed p (e_rx e) (e_rxmsg e) (of_nat sizeof_msg) timeout w = Some r"
    using rtss_mb_read_timed_returns [OF 2(4)] by blast
  with 2 show ?case
    by (auto split: prod.splits)
qed

declare ping_loop.simps [simp del]

end
