(* ===== verification/Ota_Buffer.thy ===== *)
theory Ota_Buffer
  imports Update_Lib_Props
begin

text \<open>
  The shared OTA buffer under interleaved clients. Attaching runs under the lock as a whole;
  a release decides under the lock and unmaps after it has dropped it, so that other clients
  may run in between. The state is the context, the number of clients attached, the unmappings
  that are decided and not yet done, and the world.
\<close>

section \<open>Resources of the operations\<close>

text \<open>System calls that return an address or a descriptor return \<open>-1\<close> or a value that is not negative.\<close>

definition results_ok :: "platform \<Rightarrow> bool" where
  "results_ok p \<longleftrightarrow> (\<forall>k. -1 \<le> a_ret (answer p k))"

definition live_mapping :: "rtss_ota_context \<Rightarrow> resource multiset" where
  "live_mapping c = (if base_addr c = NULL then {#} else {#Mapping (base_addr c) (unat (csize c))#})"

lemma wheld_sys_eq: "wheld (snd (sys p c w)) = wheld w - release (c, a_ret (answer p (w_now w)))
    + acquire (c, a_ret (answer p (w_now w)))"
  by (simp add: wheld_def sys_def Let_def)

lemma map_ota_held:
  assumes "map_ota_buffer_locked p cl c w = ((r, cl', c'), w')" "results_ok p" "base_addr c = NULL"
  shows "wheld w' = wheld w + live_mapping c'"
    and "if r = RTSS_UPD_E_OK then base_addr c' \<noteq> NULL \<and> refcount c' = 1 \<and> cl' = client_view c'
      else c' = c \<and> cl' = cl"
proof -
  obtain a w1 where o: "sys p Sys_open w = (a, w1)" by fastforce
  obtain b w2 where i: "sys p (Sys_ioctl (a_ret a) RTSS_MB_GET_OTA_REGION None) w1 = (b, w2)" by fastforce
  obtain e w3 where m: "sys p (Sys_mmap (unat (of_nat (a_size b) :: u32)) (a_ret a)) w2 = (e, w3)" by fastforce
  have ans: "a = answer p (w_now w)" "b = answer p (w_now w1)" "e = answer p (w_now w2)"
    using o i m by (auto simp: sys_def Let_def)
  have h: "wheld w1 = wheld w + acquire (Sys_open, a_ret a)" "wheld w2 = wheld w1"
    "wheld w3 = wheld w2 + acquire (Sys_mmap (unat (of_nat (a_size b) :: u32)) (a_ret a), a_ret e)"
    using wheld_sys_eq [of p Sys_open w] wheld_sys_eq [of p "Sys_ioctl (a_ret a) RTSS_MB_GET_OTA_REGION None" w1]
      wheld_sys_eq [of p "Sys_mmap (unat (of_nat (a_size b) :: u32)) (a_ret a)" w2] o i m ans by simp_all
  have cl: "wheld (snd (sys p (Sys_close f) v)) = wheld v - {#Fd f#}" for f v
    using wheld_sys_eq [of p "Sys_close f" v] by simp
  have nn: "-1 \<le> a_ret e"
    using assms(2) ans by (simp add: results_ok_def)
  show "wheld w' = wheld w + live_mapping c'"
    and "if r = RTSS_UPD_E_OK then base_addr c' \<noteq> NULL \<and> refcount c' = 1 \<and> cl' = client_view c'
      else c' = c \<and> cl' = cl"
    using assms(1,3) nn h
    by (auto simp: map_ota_buffer_locked_def o i m Let_def cl live_mapping_def RTSS_UPD_E_OK_def
        RTSS_UPD_E_ERR_def nat_eq_iff split: if_splits)
qed

section \<open>Interleaved clients\<close>

record ota_sys =
  o_ctx :: rtss_ota_context
  o_clients :: nat
  o_pending :: "(addr \<times> u32) list"
  o_world :: world

text \<open>A mapping gets an address at which nothing is mapped any more, as \<open>mmap\<close> promises.\<close>

inductive ota_step :: "platform \<Rightarrow> ota_sys \<Rightarrow> ota_sys \<Rightarrow> bool" for p where
  attach: "\<lbrakk>rtss_upd_get_ota_buffer p cl (o_ctx s) (o_world s) = ((r, cl', c'), w');
      base_addr (o_ctx s) = NULL \<and> r = RTSS_UPD_E_OK \<Longrightarrow> base_addr c' \<notin> fst ` set (o_pending s)\<rbrakk> \<Longrightarrow>
    ota_step p s (s\<lparr>o_ctx := c', o_world := w',
      o_clients := if r = RTSS_UPD_E_OK then Suc (o_clients s) else o_clients s\<rparr>)"
| detach: "\<lbrakk>0 < o_clients s; release_locked (o_ctx s) = (r, u, c')\<rbrakk> \<Longrightarrow>
    ota_step p s (s\<lparr>o_ctx := c', o_clients := o_clients s - 1,
      o_pending := (case u of None \<Rightarrow> o_pending s | Some x \<Rightarrow> o_pending s @ [x])\<rparr>)"
| unmap: "o_pending s = xs @ (a, n) # ys \<Longrightarrow>
    ota_step p s (s\<lparr>o_pending := xs @ ys, o_world := snd (sys p (Sys_munmap a (unat n)) (o_world s))\<rparr>)"

definition ota_start :: "world \<Rightarrow> ota_sys" where
  "ota_start w = \<lparr>o_ctx = rtss_ota_ctx_init, o_clients = 0, o_pending = [], o_world = w\<rparr>"

inductive ota_reach :: "platform \<Rightarrow> world \<Rightarrow> ota_sys \<Rightarrow> bool" for p w where
  start: "ota_reach p w (ota_start w)"
| step: "\<lbrakk>ota_reach p w s; ota_step p s s'\<rbrakk> \<Longrightarrow> ota_reach p w s'"

definition pending_mappings :: "(addr \<times> u32) list \<Rightarrow> resource multiset" where
  "pending_mappings xs = mset (map (\<lambda>(a, n). Mapping a (unat n)) xs)"

definition ota_inv :: "world \<Rightarrow> ota_sys \<Rightarrow> bool" where
  "ota_inv w s \<longleftrightarrow> refcount (o_ctx s) = int (o_clients s)
     \<and> (o_clients s = 0 \<longleftrightarrow> base_addr (o_ctx s) = NULL)
     \<and> base_addr (o_ctx s) \<notin> fst ` set (o_pending s) \<and> NULL \<notin> fst ` set (o_pending s)
     \<and> wheld (o_world s) = wheld w + live_mapping (o_ctx s) + pending_mappings (o_pending s)"

lemma ota_inv_start: "ota_inv w (ota_start w)"
  by (simp add: ota_inv_def ota_start_def rtss_ota_ctx_init_def live_mapping_def pending_mappings_def)

lemma ota_inv_step:
  assumes "ota_step p s s'" "ota_inv w s" "results_ok p"
  shows "ota_inv w s'"
  using assms(1)
proof cases
  case (attach cl r cl' c' w')
  show ?thesis
  proof (cases "base_addr (o_ctx s) = NULL")
    case False
    then have "c' = o_ctx s\<lparr>refcount := refcount (o_ctx s) + 1\<rparr>" "w' = o_world s" "r = RTSS_UPD_E_OK"
      using attach(2) by (simp_all add: rtss_upd_get_ota_buffer_def)
    then show ?thesis
      using False assms(2) by (simp add: attach(1) ota_inv_def live_mapping_def)
  next
    case True
    then obtain r1 where m: "map_ota_buffer_locked p cl (o_ctx s) (o_world s) = ((r1, cl', c'), w')"
        "r = RTSS_UPD_E_OK \<longleftrightarrow> r1 = RTSS_UPD_E_OK"
      using attach(2) by (auto simp: rtss_upd_get_ota_buffer_def RTSS_UPD_E_OK_def RTSS_UPD_E_ERR_def
          split: prod.splits if_splits)
    then show ?thesis
      using attach assms(2) True map_ota_held [OF m(1) assms(3) True]
      by (auto simp: ota_inv_def live_mapping_def split: if_splits)
  qed
next
  case (detach r u c')
  then show ?thesis
    using assms(2) by (auto simp: release_locked_def ota_inv_def Let_def live_mapping_def pending_mappings_def
        split: if_splits intro: rev_image_eqI)
next
  case (unmap xs a n ys)
  then show ?thesis
    using assms(2) wheld_sys_eq [of p "Sys_munmap a (unat n)" "o_world s"]
    by (auto simp: ota_inv_def pending_mappings_def)
qed

lemma ota_reach_inv: "ota_reach p w s \<Longrightarrow> results_ok p \<Longrightarrow> ota_inv w s"
  by (induction rule: ota_reach.induct) (auto intro: ota_inv_start ota_inv_step)

end
