(* ===== verification/Update_Claims.thy ===== *)
theory Update_Claims
  imports Ota_Buffer Mailbox_Claims
begin

text \<open>
  The properties of the update library, with their witnesses.
\<close>

section \<open>A channel of messages\<close>

text \<open>A mailbox with one channel of four messages at address 4096, the message structures at 1024
  and 2048.\<close>

definition demo_msg_cfg :: mbconfig_t where
  "demo_msg_cfg = demo_cfg\<lparr>mbc_mb_size := 500\<rparr>"

definition demo_msg_sub :: mbsub_rgn_config_t where
  "demo_msg_sub = demo_sub\<lparr>sc_end_addr_offset := 387, sc_item_max_size := 72\<rparr>"

definition demo_msg_mem :: mem where
  "demo_msg_mem = snd (LibMB_Create (\<lambda>_. 0) 4096 (Some demo_msg_cfg) (Some (\<lambda>_. demo_msg_sub)))"

lemma demo_msg_layout: "layout_ok demo_msg_cfg (\<lambda>_. demo_msg_sub)"
  by (simp add: layout_ok_def cfg_n_def cfg_start_def cfg_end_def cfg_bytes_def demo_msg_cfg_def demo_msg_sub_def
      demo_cfg_def demo_sub_def)

lemma demo_msg_created: "created demo_msg_mem 4096 demo_msg_cfg (\<lambda>_. demo_msg_sub)"
proof -
  obtain m' where "LibMB_Create (\<lambda>_. 0) 4096 (Some demo_msg_cfg) (Some (\<lambda>_. demo_msg_sub)) = (MB_E_SUCCESS, m')"
    "created m' 4096 demo_msg_cfg (\<lambda>_. demo_msg_sub)"
    by (rule LibMB_Create_spec [OF demo_msg_layout, of 4096 "\<lambda>_. 0"])
      (simp_all add: demo_msg_cfg_def demo_msg_sub_def demo_cfg_def demo_sub_def)
  then show ?thesis by (simp add: demo_msg_mem_def)
qed

lemma demo_msg_chan:
  "chan_ok demo_msg_mem 4096 0" "chan_items demo_msg_mem 4096 0 = []" "chan_N demo_msg_mem 4096 0 = 4"
  "chan_sz demo_msg_mem 4096 0 = 72" "sub_region_base demo_msg_mem 4096 0 = 4140"
proof -
  note c = created_channel [OF demo_msg_created demo_msg_layout, of 0]
  show "chan_ok demo_msg_mem 4096 0" "chan_items demo_msg_mem 4096 0 = []" "chan_N demo_msg_mem 4096 0 = 4"
    "chan_sz demo_msg_mem 4096 0 = 72" "sub_region_base demo_msg_mem 4096 0 = 4140"
    using c by (simp_all add: cfg_n_def demo_msg_cfg_def demo_msg_sub_def demo_cfg_def demo_sub_def
        MB_MAX_SIZE_def cfg_start_def)
qed

definition demo_msg_tx :: rtss_mb_handle where
  "demo_msg_tx = demo_tx\<lparr>h_mb_size := 500, h_subchan_item_size := 72\<rparr>"

lemma demo_msg_channel: "msg_channel demo_msg_mem demo_msg_tx 1024"
  by (simp add: msg_channel_def handle_ok_def h_isz_def sizeof_msg_def buf_ok_def demo_msg_tx_def demo_msg_chan
      disjoint_def chan_extent_alt)

lemma demo_msg_free: "h_free demo_msg_mem demo_msg_tx = 3" "h_mode demo_msg_tx = 1"
  "h_items demo_msg_mem demo_msg_tx = []"
  by (simp_all add: h_free_def chan_free_def h_items_def demo_msg_tx_def demo_msg_chan)

section \<open>Properties\<close>

text \<open>Sending a message over a channel of messages with a free slot appends exactly the 72 bytes
  of the message to the ring and reports success if the interrupt is accepted; with a full
  ring it fails and leaves the ring alone. If only the interrupt fails an error is reported
  although the message has been queued.\<close>

theorem rtss_upd_send_msg_appends:
  assumes "msg_channel (w_mem w) h frame" "h_mode h = RTSS_MB_MODE_TX p" "msg_wf x" "errno_set p (w_now w)"
  shows "if h_free (w_mem w) h = 0
    then \<exists>w'. rtss_upd_send_msg p (Some x) frame (Some h) w = (RTSS_UPD_E_ERR, w')
      \<and> h_items (w_mem w') h = h_items (w_mem w) h \<and> w_trace w' = w_trace w
    else \<exists>m2. h_items m2 h = h_items (w_mem w) h @ [msg_bytes x] \<and> length (msg_bytes x) = 72
      \<and> rtss_upd_send_msg p (Some x) frame (Some h) w =
        (if a_ret (answer p (w_now w)) = 0 then RTSS_UPD_E_OK else RTSS_UPD_E_ERR, triggered p h m2 w)"
proof (cases "h_free (w_mem w) h = 0")
  case True
  have "buf_ok (w_mem w) h frame 72" "length (msg_bytes x) \<le> 72" "handle_ok (w_mem w) h"
    using assms(1) length_msg_bytes [OF assms(3)] by (simp_all add: msg_channel_def sizeof_msg_def)
  then show ?thesis
    using True send_msg_cases(1) [OF assms(1-3) True] by (simp add: handle_stage(2))
next
  case False
  then show ?thesis
    using send_msg_cases(2) [OF assms(1-3)] assms(4) length_msg_bytes [OF assms(3)]
    by (auto simp: sizeof_msg_def)
qed

theorem rtss_upd_send_msg_appends_witness:
  "\<exists>m2. h_items m2 demo_msg_tx = [msg_bytes zero_msg]
    \<and> rtss_upd_send_msg demo_platform (Some zero_msg) 1024 (Some demo_msg_tx) (demo_world demo_msg_mem)
      = (RTSS_UPD_E_OK, triggered demo_platform demo_msg_tx m2 (demo_world demo_msg_mem))"
  using rtss_upd_send_msg_appends [of "demo_world demo_msg_mem" demo_msg_tx 1024 demo_platform zero_msg]
  by (auto simp: demo_msg_channel demo_msg_free msg_wf_def zero_msg_def errno_set_def)

text \<open>The handshake accepts an answer exactly when it is the message sent with the direction turned
  round, its checksum aside, and the programming mode is one of the two supported ones; only
  then does the library change state, to ready for the polling mode and to initialised for the
  event mode.\<close>

theorem handshake_accepts_echo:
  assumes "lib_ok s" "msg_wf tx" "msg_wf rx"
  shows "\<exists>tx' rx'. rtss_upd_verify_handshake mode tx rx s =
    (if rx\<lparr>headerCrc := 0\<rparr> = echo_of tx \<and> mode \<in> {RTSS_UPD_MODE_SP_SCALL, RTSS_UPD_MODE_EV}
     then (RTSS_UPD_E_OK, tx', rx', ready_state mode s) else (RTSS_UPD_E_ERR, tx', rx', s))"
  using verify_handshake_iff [OF assms, of mode] by (auto simp: ready_state_def)

theorem handshake_accepts_echo_witness:
  "\<exists>tx' rx'. rtss_upd_verify_handshake RTSS_UPD_MODE_SP_SCALL (hello_msg rtss_upd_lib_init)
      (echo_of (hello_msg rtss_upd_lib_init)) rtss_upd_lib_init
    = (RTSS_UPD_E_OK, tx', rx', ready_state RTSS_UPD_MODE_SP_SCALL rtss_upd_lib_init)"
  using handshake_accepts_echo [of rtss_upd_lib_init "hello_msg rtss_upd_lib_init"
      "echo_of (hello_msg rtss_upd_lib_init)" RTSS_UPD_MODE_SP_SCALL]
  by (auto simp: lib_ok_def rtss_upd_lib_init_def hello_wf echo_of_def msg_wf_def hello_msg_def)

text \<open>A handshake announces at most 33 messages to the other processor, three for each of the
  eleven attempts the error limit leaves, whatever the other side and the driver do.\<close>

theorem hello_ping_bounded:
  "case rtss_upd_hello_ping p e mode s w of
     None \<Rightarrow> True
   | Some (b, s', w') \<Rightarrow> triggers w' \<le> triggers w + 33"
  using ping_loop_triggers by (auto simp: rtss_upd_hello_ping_def split: option.splits)

text \<open>The handshake returns whenever polls eventually time out or fail.\<close>

theorem hello_ping_terminates:
  assumes "\<forall>k \<ge> K. a_ret (answer p k) \<in> {0, -1}"
  shows "\<exists>b s' w'. rtss_upd_hello_ping p e mode s w = Some (b, s', w')"
  using ping_loop_returns [OF assms] by (simp add: rtss_upd_hello_ping_def)

theorem hello_ping_terminates_witness:
  "\<exists>b s' w'. rtss_upd_hello_ping demo_platform \<lparr>e_tx = Some demo_msg_tx, e_rx = None, e_txmsg = 1024, e_rxmsg = 2048\<rparr>
     RTSS_UPD_MODE_SP_SCALL rtss_upd_lib_init (demo_world demo_msg_mem) = Some (b, s', w')"
  by (rule hello_ping_terminates [of 0]) simp

text \<open>The library becomes ready once: \<open>rtss_upd_is_ready\<close> can succeed only from the initial state and
  in a supported mode, it leaves the state of that mode, and in the state it leaves, whether it
  succeeded or failed after an accepted answer, every further call fails at once without
  talking to the other side.\<close>

theorem is_ready_once:
  "case rtss_upd_is_ready p e mode s w of
     None \<Rightarrow> True
   | Some (b, s', w') \<Rightarrow>
       (s' = s \<or> s' = ready_state mode s \<and> libstate s = RTSS_UPD_S_DEINIT
          \<and> rtss_upd_is_ready p2 e2 mode2 s' w2 = Some (False, s', w2))
       \<and> (if b then libstate s = RTSS_UPD_S_DEINIT \<and> s' = ready_state mode s
            \<and> mode \<in> {RTSS_UPD_MODE_SP_SCALL, RTSS_UPD_MODE_EV} else True)"
proof -
  have "libstate (ready_state mode s) \<noteq> RTSS_UPD_S_DEINIT"
    by (simp add: ready_state_def RTSS_UPD_S_READY_def RTSS_UPD_S_INIT_def RTSS_UPD_S_DEINIT_def)
  then show ?thesis
    by (auto simp: rtss_upd_is_ready_def rtss_upd_hello_ping_def split: option.splits dest!: ping_loop_state)
qed

text \<open>C12: However clients attach to and detach from the OTA buffer, with the unmapping of a detached
  client delayed past the operations of others: the buffer stays mapped as long as a client is
  attached, the count is the number of clients, no unmapping can hit the mapping in use, and
  when the last client has gone and the unmappings are done nothing is left over.\<close>

theorem ota_buffer_mapped_while_used:
  assumes "ota_reach p w s" "results_ok p"
  shows "refcount (o_ctx s) = int (o_clients s)
    \<and> (if 0 < o_clients s
       then base_addr (o_ctx s) \<noteq> NULL \<and> base_addr (o_ctx s) \<notin> fst ` set (o_pending s)
         \<and> Mapping (base_addr (o_ctx s)) (unat (csize (o_ctx s))) \<in># wheld (o_world s)
       else wheld (o_world s) = wheld w + pending_mappings (o_pending s))"
  using ota_reach_inv [OF assms] by (auto simp: ota_inv_def live_mapping_def)

definition demo_ota_platform :: platform where
  "demo_ota_platform = demo_platform\<lparr>answer := (\<lambda>k. \<lparr>a_ret = (if k = 2 then 8192 else 0), a_err = 0, a_size = 4096,
     a_addr = 0x90E00000, a_revents = 0, a_mode = 0, a_data = [], a_peer = id\<rparr>)\<rparr>"

definition demo_cl :: rtss_upd_ota_mmap_data_t where
  "demo_cl = \<lparr>pOtaBaseAddr = NULL, d_sVA = 0, nSizeofBuffer = 0\<rparr>"

theorem ota_buffer_mapped_while_used_witness:
  "\<exists>s. ota_reach demo_ota_platform (demo_world demo_mem) s \<and> o_clients s = 1
    \<and> Mapping 8192 4096 \<in># wheld (o_world s)"
proof -
  let ?p = demo_ota_platform and ?w = "demo_world demo_mem"
  obtain r cl' c' w' where g: "rtss_upd_get_ota_buffer ?p demo_cl (o_ctx (ota_start ?w)) (o_world (ota_start ?w))
      = ((r, cl', c'), w')"
    by (metis prod_cases4 prod.collapse)
  then have v: "r = RTSS_UPD_E_OK" "base_addr c' = 8192" "csize c' = 4096"
    by (auto simp: rtss_upd_get_ota_buffer_def map_ota_buffer_locked_def ota_start_def rtss_ota_ctx_init_def
        demo_ota_platform_def demo_world_def sys_def Let_def RTSS_UPD_E_OK_def split: if_splits)
  let ?s = "(ota_start ?w)\<lparr>o_ctx := c', o_world := w', o_clients := Suc (o_clients (ota_start ?w))\<rparr>"
  have "ota_step ?p (ota_start ?w) ?s"
    using ota_step.attach [OF g] v by (simp add: ota_start_def)
  then have r: "ota_reach ?p ?w ?s"
    by (rule ota_reach.step [OF ota_reach.start])
  moreover have "results_ok ?p"
    by (simp add: results_ok_def demo_ota_platform_def)
  ultimately show ?thesis
    using ota_buffer_mapped_while_used [OF r] v by (intro exI [of _ ?s]) (simp add: ota_start_def)
qed

end
