(* ===== verification/Updater_Cmd.thy ===== *)
theory Updater_Cmd
  imports Update_Lib
begin

text \<open>
  The commands of the updater, \<^verbatim>\<open>rtss_updater_cmd.c\<close>: each builds one message of the protocol,
  completes its checksums and sends it. The globals of the module are the two mailbox handles
  and the mapped buffer, part of \<open>upd_env\<close>; the message is a local structure at \<open>e_txmsg\<close>. A
  buffer argument \<open>pVa\<close> is an address of the memory, \<open>NULL\<close> for a null pointer.
\<close>

definition EXIT_SUCCESS :: u32 where "EXIT_SUCCESS = 0"
definition EXIT_FAILURE :: u32 where "EXIT_FAILURE = 1"

section \<open>What the commands share\<close>

definition rtss_updater_alignnum :: "u32 \<Rightarrow> u32 \<Rightarrow> u32 \<Rightarrow> u32" where
  "rtss_updater_alignnum item_size alignment num = (item_size * num + alignment - 1) AND NOT (alignment - 1)"

text \<open>The cleared message with the header every command fills in.\<close>

definition new_msg :: "u32 \<Rightarrow> u8 list \<Rightarrow> rtss_upd_msg_header_t" where
  "new_msg i members = \<lparr>headerCrc = 0, headerSize = of_nat sizeof_msg, msgId = i,
     direction = RTSS_UPD_MD2RTSS, status = RTSS_UPD_S_SUCCESS, body = pad_to sizeof_body members\<rparr>"

definition seal_and_send :: "platform \<Rightarrow> upd_env \<Rightarrow> rtss_upd_msg_header_t \<Rightarrow> world \<Rightarrow> u32 \<times> world" where
  "seal_and_send p e TxMsg w =
     (case rtss_upd_calculate_crc32 (Some (msg_bytes TxMsg)) True of (r, crc) \<Rightarrow>
        if r \<noteq> RTSS_UPD_E_OK then (EXIT_FAILURE, w)
        else case rtss_upd_send_msg p (Some (TxMsg\<lparr>headerCrc := the crc\<rparr>)) (e_txmsg e) (e_tx e) w of
          (r, w) \<Rightarrow> if r \<noteq> RTSS_UPD_E_OK then (EXIT_FAILURE, w) else (EXIT_SUCCESS, w))"

text \<open>The checksum of a buffer; \<open>None\<close> when it cannot be computed.\<close>

definition buffer_crc :: "mem \<Rightarrow> addr \<Rightarrow> u32 \<Rightarrow> u32 option" where
  "buffer_crc m pVa n =
     (case rtss_upd_calculate_crc32 (if pVa = NULL then None else Some (bytes_at m pVa (unat n))) True of
        (r, crc) \<Rightarrow> if r \<noteq> RTSS_UPD_E_OK then None else crc)"

text \<open>A nonzero checksum of the caller is used as it is, otherwise it is computed.\<close>

definition chosen_crc :: "mem \<Rightarrow> addr \<Rightarrow> u32 \<Rightarrow> u32 \<Rightarrow> u32 option" where
  "chosen_crc m pVa n bufCrc = (if bufCrc \<noteq> 0 then Some bufCrc else buffer_crc m pVa n)"

text \<open>The bounded copy of a string to a member of a local structure.\<close>

definition mcpy_member :: "u8 list \<Rightarrow> u8 list \<Rightarrow> u8 list" where
  "mcpy_member dst src = (let n = min (length dst) (length src) in take n src @ drop n dst)"

definition img_name :: "u8 list \<Rightarrow> u8 list" where
  "img_name s = mcpy_member (replicate RTSS_UPD_IMG_NAME_LEN 0) (cstr s)"

text \<open>Sizes of the entries passed in the buffers.\<close>

definition sizeof_image_entry :: u32 where "sizeof_image_entry = 52"
definition sizeof_update_gpt_entry :: u32 where "sizeof_update_gpt_entry = 36"
definition sizeof_img_digest_entry :: u32 where "sizeof_img_digest_entry = 172"

section \<open>Partition tables\<close>

definition rtss_updater_chkgpt :: "platform \<Rightarrow> upd_env \<Rightarrow> world \<Rightarrow> u32 \<times> world" where
  "rtss_updater_chkgpt p e w =
     seal_and_send p e (new_msg RTSS_UPD_MSG_CHECK_GPT (rtss_upd_check_gpt_msg_t 0 0 0 0 0 0 0 0)) w"

definition rtss_updater_fixgpt ::
  "platform \<Rightarrow> upd_env \<Rightarrow> u32 \<Rightarrow> u32 \<Rightarrow> u32 \<Rightarrow> u32 \<Rightarrow> world \<Rightarrow> u32 \<times> world" where
  "rtss_updater_fixgpt p e gptId sVa bufLen fixtype w =
     seal_and_send p e (new_msg RTSS_UPD_MSG_FIX_GPT
       (rtss_upd_fix_gpt_msg_t (rtss_upd_fix_gpt_id_ext_t (ucast gptId) 0 0 (ucast fixtype)) sVa bufLen)) w"

definition rtss_updater_readgpt ::
  "platform \<Rightarrow> upd_env \<Rightarrow> u32 \<Rightarrow> u32 \<Rightarrow> u32 \<Rightarrow> addr \<Rightarrow> world \<Rightarrow> u32 \<times> world" where
  "rtss_updater_readgpt p e gptId sVa bufLen pVa w =
     (if pVa = NULL then (EXIT_FAILURE, w)
      else case buffer_crc (w_mem w) pVa bufLen of
        None \<Rightarrow> (EXIT_FAILURE, w)
      | Some crc \<Rightarrow> seal_and_send p e (new_msg RTSS_UPD_MSG_READ_GPT
          (rtss_upd_read_gpt_msg_t gptId sVa bufLen crc)) w)"

text \<open>The checksum covers the entries only, not the work space that follows them.\<close>

definition rtss_updater_updategpt ::
  "platform \<Rightarrow> upd_env \<Rightarrow> u32 \<Rightarrow> u32 \<Rightarrow> u32 \<Rightarrow> u32 \<Rightarrow> u32 \<Rightarrow> addr \<Rightarrow> world \<Rightarrow> u32 \<times> world" where
  "rtss_updater_updategpt p e numImages gpt sVa bufLen bufCrc pVa w =
     (if pVa = NULL then (EXIT_FAILURE, w)
      else case chosen_crc (w_mem w) pVa (numImages * sizeof_update_gpt_entry) bufCrc of
        None \<Rightarrow> (EXIT_FAILURE, w)
      | Some crc \<Rightarrow> seal_and_send p e (new_msg RTSS_UPD_MSG_UPDATE_GPT
          (rtss_upd_update_gpt_msg_t gpt numImages sVa bufLen crc)) w)"

section \<open>Images\<close>

definition rtss_updater_flashimg ::
  "platform \<Rightarrow> upd_env \<Rightarrow> u8 list option \<Rightarrow> u32 \<Rightarrow> u32 \<Rightarrow> u32 \<Rightarrow> u32 \<Rightarrow> u32 \<Rightarrow> u32 \<Rightarrow> addr \<Rightarrow> u32 \<Rightarrow>
   world \<Rightarrow> u32 \<times> world" where
  "rtss_updater_flashimg p e ImageNm gpt part sVa bufLen bufCrc flashtype pVa flashRebootState w =
     (if pVa = NULL then (EXIT_FAILURE, w)
      else case ImageNm of None \<Rightarrow> (EXIT_FAILURE, w)
      | Some s \<Rightarrow>
          case chosen_crc (w_mem w) pVa bufLen bufCrc of
            None \<Rightarrow> (EXIT_FAILURE, w)
          | Some crc \<Rightarrow> seal_and_send p e (new_msg RTSS_UPD_MSG_FLASH_IMAGE
              (rtss_upd_flash_img_msg_t (img_name s)
                (rtss_upd_flash_img_partition_ext_t (ucast part) 0 0 (ucast flashtype))
                gpt sVa bufLen crc)) w)"

definition rtss_updater_readimg ::
  "platform \<Rightarrow> upd_env \<Rightarrow> u8 list option \<Rightarrow> u32 \<Rightarrow> u32 \<Rightarrow> u32 \<Rightarrow> u32 \<Rightarrow> world \<Rightarrow> u32 \<times> world" where
  "rtss_updater_readimg p e ImageNm part gpt sVa bufLen w =
     (case ImageNm of None \<Rightarrow> (EXIT_FAILURE, w)
      | Some s \<Rightarrow> seal_and_send p e (new_msg RTSS_UPD_MSG_READ_IMAGE
          (rtss_upd_read_img_msg_t (img_name s) part gpt sVa bufLen 0)) w)"

definition rtss_updater_bootimg ::
  "platform \<Rightarrow> upd_env \<Rightarrow> u8 list option \<Rightarrow> u32 \<Rightarrow> u32 \<Rightarrow> u32 \<Rightarrow> u32 \<Rightarrow> u32 \<Rightarrow> addr \<Rightarrow> world \<Rightarrow> u32 \<times> world" where
  "rtss_updater_bootimg p e ImageNm gpt part sVa bufLen bufCrc pVa w =
     (if pVa = NULL then (EXIT_FAILURE, w)
      else case ImageNm of None \<Rightarrow> (EXIT_FAILURE, w)
      | Some s \<Rightarrow>
          case chosen_crc (w_mem w) pVa bufLen bufCrc of
            None \<Rightarrow> (EXIT_FAILURE, w)
          | Some crc \<Rightarrow> seal_and_send p e (new_msg RTSS_UPD_MSG_BOOT_IMAGE
              (rtss_upd_boot_img_msg_t (img_name s) part gpt sVa bufLen crc)) w)"

definition rtss_updater_bootcontinue :: "platform \<Rightarrow> upd_env \<Rightarrow> world \<Rightarrow> u32 \<times> world" where
  "rtss_updater_bootcontinue p e w = seal_and_send p e (new_msg RTSS_UPD_MSG_BOOT_CONTINUE []) w"

text \<open>The length in the message is the size of the entries unless the caller gives another one.\<close>

definition entries_len :: "u32 \<Rightarrow> u32 \<Rightarrow> u32" where
  "entries_len numImages bufLen =
     (let n = numImages * sizeof_image_entry in if bufLen \<noteq> 0 \<and> bufLen \<noteq> n then bufLen else n)"

definition rtss_updater_get_bl_info ::
  "platform \<Rightarrow> upd_env \<Rightarrow> u32 \<Rightarrow> u32 \<Rightarrow> u32 \<Rightarrow> u32 \<Rightarrow> addr \<Rightarrow> world \<Rightarrow> u32 \<times> world" where
  "rtss_updater_get_bl_info p e numImages bufLen bufCrc sVa pVa w =
     (if pVa = NULL then (EXIT_FAILURE, w)
      else let n = entries_len numImages bufLen
      in case chosen_crc (w_mem w) pVa n bufCrc of
           None \<Rightarrow> (EXIT_FAILURE, w)
         | Some crc \<Rightarrow> seal_and_send p e (new_msg RTSS_UPD_MSG_GET_BOOTINFO
             (rtss_upd_get_boot_info_msg_t 0 0 0 0 0 0
               (rtss_upd_query_image_msg_t numImages sVa n crc) 0 0 0)) w)"

definition rtss_updater_queryimage ::
  "platform \<Rightarrow> upd_env \<Rightarrow> u32 \<Rightarrow> u32 \<Rightarrow> u32 \<Rightarrow> u32 \<Rightarrow> addr \<Rightarrow> world \<Rightarrow> u32 \<times> world" where
  "rtss_updater_queryimage p e numImages bufLen bufCrc sVa pVa w =
     (if pVa = NULL then (EXIT_FAILURE, w)
      else let n = entries_len numImages bufLen
      in case chosen_crc (w_mem w) pVa n bufCrc of
           None \<Rightarrow> (EXIT_FAILURE, w)
         | Some crc \<Rightarrow> seal_and_send p e (new_msg RTSS_UPD_MSG_QUERY_IMAGES
             (rtss_upd_query_image_msg_t numImages sVa n crc)) w)"

definition rtss_updater_get_image_digest ::
  "platform \<Rightarrow> upd_env \<Rightarrow> u32 \<Rightarrow> u32 \<Rightarrow> u32 \<Rightarrow> u32 \<Rightarrow> addr \<Rightarrow> world \<Rightarrow> u32 \<times> world" where
  "rtss_updater_get_image_digest p e numImages bufLen bufCrc sVa pVa w =
     (if pVa = NULL then (EXIT_FAILURE, w)
      else case chosen_crc (w_mem w) pVa bufLen bufCrc of
        None \<Rightarrow> (EXIT_FAILURE, w)
      | Some crc \<Rightarrow> seal_and_send p e (new_msg RTSS_UPD_MSG_GET_IMAGE_DIGEST
          (rtss_upd_img_digest_msg_t numImages sVa bufLen crc)) w)"

section \<open>Metadata\<close>

definition rtss_updater_get_metadata :: "platform \<Rightarrow> upd_env \<Rightarrow> u32 \<Rightarrow> u32 \<Rightarrow> world \<Rightarrow> u32 \<times> world" where
  "rtss_updater_get_metadata p e sVa bufLen w =
     seal_and_send p e (new_msg RTSS_UPD_MSG_GET_OTA_METADATA
       (rtss_upd_get_ota_metadata_msg_t sVa bufLen 0)) w"

definition rtss_updater_set_metadata ::
  "platform \<Rightarrow> upd_env \<Rightarrow> u32 \<Rightarrow> u32 \<Rightarrow> u32 \<Rightarrow> addr \<Rightarrow> world \<Rightarrow> u32 \<times> world" where
  "rtss_updater_set_metadata p e sVa bufLen bufCrc pVa w =
     (if pVa = NULL then (EXIT_FAILURE, w)
      else case chosen_crc (w_mem w) pVa bufLen bufCrc of
        None \<Rightarrow> (EXIT_FAILURE, w)
      | Some crc \<Rightarrow> seal_and_send p e (new_msg RTSS_UPD_MSG_SET_OTA_METADATA
          (rtss_upd_set_ota_metadata_msg_t sVa bufLen crc)) w)"

definition rtss_updater_read_metadata ::
  "platform \<Rightarrow> upd_env \<Rightarrow> u32 \<Rightarrow> u32 \<Rightarrow> u32 \<Rightarrow> u32 \<Rightarrow> world \<Rightarrow> u32 \<times> world" where
  "rtss_updater_read_metadata p e sVa bufLen offset sz w =
     seal_and_send p e (new_msg RTSS_UPD_MSG_READ_OTA_METADATA
       (rtss_upd_read_ota_metadata_msg_t sVa bufLen 0 offset sz)) w"

text \<open>Here a checksum of the caller is dropped: the message then carries zero.\<close>

definition rtss_updater_write_metadata ::
  "platform \<Rightarrow> upd_env \<Rightarrow> u32 \<Rightarrow> u32 \<Rightarrow> u32 \<Rightarrow> u32 \<Rightarrow> u32 \<Rightarrow> addr \<Rightarrow> world \<Rightarrow> u32 \<times> world" where
  "rtss_updater_write_metadata p e sVa bufLen bufCrc offset sz pVa w =
     (if pVa = NULL then (EXIT_FAILURE, w)
      else case (if bufCrc \<noteq> 0 then Some 0 else buffer_crc (w_mem w) pVa bufLen) of
        None \<Rightarrow> (EXIT_FAILURE, w)
      | Some crc \<Rightarrow> seal_and_send p e (new_msg RTSS_UPD_MSG_WRITE_OTA_METADATA
          (rtss_upd_write_ota_metadata_msg_t sVa bufLen crc offset sz)) w)"

definition rtss_updater_erase_metadata :: "platform \<Rightarrow> upd_env \<Rightarrow> u32 \<Rightarrow> u32 \<Rightarrow> world \<Rightarrow> u32 \<times> world" where
  "rtss_updater_erase_metadata p e start_block block_cnt w =
     seal_and_send p e (new_msg RTSS_UPD_MSG_ERASE_OTA_METADATA
       (rtss_upd_erase_ota_metadata_msg_t start_block block_cnt)) w"

definition rtss_updater_get_metadata_info :: "platform \<Rightarrow> upd_env \<Rightarrow> world \<Rightarrow> u32 \<times> world" where
  "rtss_updater_get_metadata_info p e w = seal_and_send p e (new_msg RTSS_UPD_MSG_GET_OTA_METADATAINFO []) w"

section \<open>States and tests\<close>

definition rtss_updater_update_arb ::
  "platform \<Rightarrow> upd_env \<Rightarrow> u32 \<Rightarrow> u32 \<Rightarrow> u32 \<Rightarrow> u32 \<Rightarrow> world \<Rightarrow> u32 \<times> world" where
  "rtss_updater_update_arb p e d1 d2 d3 d4 w =
     seal_and_send p e (new_msg RTSS_UPD_MSG_UPDATE_ARB (rtss_upd_arb_update_msg_t d1 d2 d3 d4)) w"

definition rtss_updater_update_mrc ::
  "platform \<Rightarrow> upd_env \<Rightarrow> u32 \<Rightarrow> u32 \<Rightarrow> u32 \<Rightarrow> u32 \<Rightarrow> world \<Rightarrow> u32 \<times> world" where
  "rtss_updater_update_mrc p e d1 d2 d3 d4 w =
     seal_and_send p e (new_msg RTSS_UPD_MSG_UPDATE_MRC (rtss_upd_mrc_update_msg_t d1 d2 d3 d4)) w"

definition rtss_updater_injectfault :: "platform \<Rightarrow> upd_env \<Rightarrow> u32 \<Rightarrow> u32 \<Rightarrow> world \<Rightarrow> u32 \<times> world" where
  "rtss_updater_injectfault p e enable trigger w =
     seal_and_send p e (new_msg RTSS_UPD_MSG_TEST_ERROR_INJECTION
       (rtss_upd_ota_test_trigger_msg_t enable trigger)) w"

definition rtss_updater_update_ota_done_state ::
  "platform \<Rightarrow> upd_env \<Rightarrow> u32 \<Rightarrow> u32 \<Rightarrow> u32 \<Rightarrow> u32 \<Rightarrow> world \<Rightarrow> u32 \<times> world" where
  "rtss_updater_update_ota_done_state p e d1 d2 d3 d4 w =
     seal_and_send p e (new_msg RTSS_UPD_MSG_OTA_DONE (rtss_upd_ota_done_msg_t d1 d2 d3 d4)) w"

definition rtss_updater_redundancy_established ::
  "platform \<Rightarrow> upd_env \<Rightarrow> u32 \<Rightarrow> u32 \<Rightarrow> u32 \<Rightarrow> u32 \<Rightarrow> world \<Rightarrow> u32 \<times> world" where
  "rtss_updater_redundancy_established p e d1 d2 d3 d4 w =
     seal_and_send p e (new_msg RTSS_UPD_MSG_REDUNDANCY_ESTABLISHED (rtss_upd_redundancy_msg_t d1 d2 d3 d4)) w"

end
