(* ===== verification/Updater_Util.thy ===== *)
theory Updater_Util
  imports Updater_Cmd
begin

text \<open>
  The utilities of \<^verbatim>\<open>rtss_updater_cmd.c\<close>: the list of images, the entries put into and taken out of
  the shared buffer, the configuration file, loading a file and the set-up of the channels. The
  list of images is a structure of the program (a record here); the buffer is memory.
\<close>

section \<open>Copies\<close>

text \<open>The byte loops; \<open>copy_size\<close> is the smaller of the two sizes.\<close>

fun mcpy_loop :: "mem \<Rightarrow> addr \<Rightarrow> addr \<Rightarrow> nat \<Rightarrow> nat \<Rightarrow> mem" where
  "mcpy_loop m dst src c 0 = m"
| "mcpy_loop m dst src c (Suc n) = mcpy_loop (m(dst + c := m (src + c))) dst src (Suc c) n"

definition rtss_updater_mcpy :: "mem \<Rightarrow> addr \<Rightarrow> nat \<Rightarrow> addr \<Rightarrow> nat \<Rightarrow> nat \<times> mem" where
  "rtss_updater_mcpy m dst dst_size src src_size =
     (let copy_size = (if dst_size < src_size then dst_size else src_size)
      in if dst = NULL \<or> src = NULL then (0, m) else (copy_size, mcpy_loop m dst src 0 copy_size))"

fun mset_loop :: "mem \<Rightarrow> addr \<Rightarrow> u8 \<Rightarrow> nat \<Rightarrow> nat \<Rightarrow> mem" where
  "mset_loop m dst v c 0 = m"
| "mset_loop m dst v c (Suc n) = mset_loop (m(dst + c := v)) dst v (Suc c) n"

definition rtss_updater_mset :: "mem \<Rightarrow> addr \<Rightarrow> u8 \<Rightarrow> nat \<Rightarrow> mem" where
  "rtss_updater_mset m dst v dst_size = (if dst = NULL then m else mset_loop m dst v 0 dst_size)"

text \<open>The same copy from a structure of the program into memory.\<close>

definition mcpy_out :: "mem \<Rightarrow> addr \<Rightarrow> nat \<Rightarrow> u8 list \<Rightarrow> mem" where
  "mcpy_out m dst dst_size src = put_bytes m dst (take dst_size src)"

section \<open>The list of images\<close>

definition RTSS_UPDATER_CFG_MAX_IMAGES :: nat where "RTSS_UPDATER_CFG_MAX_IMAGES = 5"
definition RTSS_UPDATER_CFG_MAX_IMAGEPATH_LEN :: nat where "RTSS_UPDATER_CFG_MAX_IMAGEPATH_LEN = 128"

record rtss_updater_imgconfig_t =
  numberOfImages :: int
  numberOfPaths :: int
  imageNames :: "u8 list list"
  imagePaths :: "u8 list list"

definition imgconfig_zero :: rtss_updater_imgconfig_t where
  "imgconfig_zero = \<lparr>numberOfImages = 0, numberOfPaths = 0,
     imageNames = replicate RTSS_UPDATER_CFG_MAX_IMAGES (replicate RTSS_UPDATER_CFG_MAX_IMAGEPATH_LEN 0),
     imagePaths = replicate RTSS_UPDATER_CFG_MAX_IMAGES (replicate RTSS_UPDATER_CFG_MAX_IMAGEPATH_LEN 0)\<rparr>"

text \<open>A string that starts in a row runs on into the rows that follow it, the paths after the
  names, if it is not terminated.\<close>

definition name_str :: "rtss_updater_imgconfig_t \<Rightarrow> nat \<Rightarrow> u8 list" where
  "name_str c i = cstr (concat (drop i (imageNames c @ imagePaths c)))"

definition path_str :: "rtss_updater_imgconfig_t \<Rightarrow> nat \<Rightarrow> u8 list" where
  "path_str c i = cstr (concat (drop i (imagePaths c)))"

definition rtss_updater_supported_img_names :: "u8 list list" where
  "rtss_updater_supported_img_names =
     [ascii ''SAIL_HYP'', ascii ''SAIL_SW1'', ascii ''SAIL_SW2'', ascii ''SAIL_SW3'', ascii ''SAIL_SW4'']"

definition blank_row :: "u8 list" where
  "blank_row = replicate RTSS_UPDATER_CFG_MAX_IMAGEPATH_LEN 0"

definition rtss_updater_get_img_info_default ::
  "rtss_updater_imgconfig_t option \<Rightarrow> u32 \<times> rtss_updater_imgconfig_t option" where
  "rtss_updater_get_img_info_default pImgConfig =
     (case pImgConfig of None \<Rightarrow> (EXIT_FAILURE, None)
      | Some c \<Rightarrow>
          let names = take RTSS_UPDATER_CFG_MAX_IMAGES rtss_updater_supported_img_names
          in (EXIT_SUCCESS, Some (c\<lparr>
               imageNames := map (mcpy_member blank_row) names @ drop (length names) (imageNames c),
               numberOfImages := int (length names)\<rparr>)))"

section \<open>Entries of the shared buffer\<close>

text \<open>The three functions that fill the buffer differ in the size of the entry and in the members
  set besides the name.\<close>

fun populate_loop ::
  "nat \<Rightarrow> (mem \<Rightarrow> addr \<Rightarrow> mem) \<Rightarrow> rtss_updater_imgconfig_t \<Rightarrow> nat \<Rightarrow> nat \<Rightarrow> addr \<Rightarrow> mem \<Rightarrow> u32 \<times> mem" where
  "populate_loop sz fill c i 0 a m = (EXIT_SUCCESS, m)"
| "populate_loop sz fill c i (Suc n) a m =
     (if name_str c i = [] then (EXIT_FAILURE, m)
      else populate_loop sz fill c (Suc i) n (a + sz)
        (fill (mcpy_out m a RTSS_UPD_IMG_NAME_LEN (name_str c i)) a))"

text \<open>\<open>sizeof(entry) * (size_t)numberOfImages\<close>\<close>

definition entries_size :: "u32 \<Rightarrow> rtss_updater_imgconfig_t \<Rightarrow> nat" where
  "entries_size sz c = unat (ucast sz * word_of_int (numberOfImages c) :: u64)"

definition populate_entries ::
  "u32 \<Rightarrow> (mem \<Rightarrow> addr \<Rightarrow> mem) \<Rightarrow> rtss_updater_imgconfig_t option \<Rightarrow> addr \<Rightarrow> mem \<Rightarrow> u32 \<times> mem" where
  "populate_entries sz fill pImgConfig pVa m =
     (case pImgConfig of None \<Rightarrow> (EXIT_FAILURE, m)
      | Some c \<Rightarrow>
          if pVa = NULL then (EXIT_FAILURE, m)
          else populate_loop (unat sz) fill c 0 (nat (numberOfImages c)) pVa
                 (rtss_updater_mset m pVa 0 (entries_size sz c)))"

definition rtss_updater_populate_bl_info_context ::
  "rtss_updater_imgconfig_t option \<Rightarrow> addr \<Rightarrow> mem \<Rightarrow> u32 \<times> mem" where
  "rtss_updater_populate_bl_info_context = populate_entries sizeof_image_entry (\<lambda>m a. m)"

definition rtss_updater_populate_gpt_update_context ::
  "rtss_updater_imgconfig_t option \<Rightarrow> addr \<Rightarrow> mem \<Rightarrow> u32 \<times> mem" where
  "rtss_updater_populate_gpt_update_context = populate_entries sizeof_update_gpt_entry (\<lambda>m a. m)"

definition rtss_updater_populate_digest_context ::
  "rtss_updater_imgconfig_t option \<Rightarrow> addr \<Rightarrow> u32 \<Rightarrow> mem \<Rightarrow> u32 \<times> mem" where
  "rtss_updater_populate_digest_context pImgConfig pVa part =
     populate_entries sizeof_img_digest_entry
       (\<lambda>m a. store32 (store32 (store32 m (a + 32) part) (a + 36) 0) (a + 40) RTSS_UPD_IMAGE_DIGEST_MAX_LEN)
       pImgConfig pVa"

text \<open>What is read back. An access outside an array of the program is the outcome \<open>Faults\<close>.\<close>

record rtss_upd_img_digest_entry_t =
  de_imgName :: "u8 list"
  de_partitionType :: u32
  de_digestType :: u32
  de_digestLen :: u32
  de_digest :: "u8 list"

definition digest_entry_at :: "mem \<Rightarrow> addr \<Rightarrow> rtss_upd_img_digest_entry_t" where
  "digest_entry_at m a = \<lparr>de_imgName = bytes_at m a 32, de_partitionType = load32 m (a + 32),
     de_digestType = load32 m (a + 36), de_digestLen = load32 m (a + 40),
     de_digest = bytes_at m (a + 44) 128\<rparr>"

fun read_digest_loop ::
  "mem \<Rightarrow> addr \<Rightarrow> nat \<Rightarrow> nat \<Rightarrow> rtss_upd_img_digest_entry_t list \<Rightarrow>
   (u32 \<times> rtss_upd_img_digest_entry_t list) run" where
  "read_digest_loop m a i 0 buf = Returns (EXIT_SUCCESS, buf)"
| "read_digest_loop m a i (Suc n) buf =
     (if i \<ge> length buf then Faults
      else let x = digest_entry_at m a;
               y = x\<lparr>de_digest := replicate 128 0\<rparr>
           in if de_digestLen x > RTSS_UPD_IMAGE_DIGEST_MAX_LEN then Returns (EXIT_FAILURE, buf[i := y])
              else read_digest_loop m (a + unat sizeof_img_digest_entry) (Suc i) n
                (buf[i := y\<lparr>de_digest := mcpy_member (replicate 128 0)
                   (bytes_at m (a + 44) (unat (de_digestLen x)))\<rparr>]))"

definition rtss_updater_read_img_digest_context ::
  "rtss_upd_img_digest_entry_t list option \<Rightarrow> addr \<Rightarrow> u32 \<Rightarrow> mem \<Rightarrow>
   (u32 \<times> rtss_upd_img_digest_entry_t list option) run" where
  "rtss_updater_read_img_digest_context pImgDigestbuf pVa noofimages m =
     (case pImgDigestbuf of None \<Rightarrow> Returns (EXIT_FAILURE, None)
      | Some buf \<Rightarrow>
          if pVa = NULL then Returns (EXIT_FAILURE, Some buf)
          else case read_digest_loop m pVa 0 (nat (min (i32 noofimages) (int RTSS_UPDATER_CFG_MAX_IMAGES))) buf of
                 Returns (r, buf) \<Rightarrow> Returns (r, Some buf) | Blocks \<Rightarrow> Blocks | Faults \<Rightarrow> Faults)"

record rtss_upd_image_entry_t =
  ie_imgName :: "u8 list"
  ie_bootPartition :: u32
  ie_bootGptId :: u32
  ie_partitionSizeA :: u32
  ie_partitionSizeB :: u32
  ie_isTwoGptTableEntriesMatching :: u32

definition image_entry_at :: "mem \<Rightarrow> addr \<Rightarrow> rtss_upd_image_entry_t" where
  "image_entry_at m a = \<lparr>ie_imgName = bytes_at m a 32, ie_bootPartition = load32 m (a + 32),
     ie_bootGptId = load32 m (a + 36), ie_partitionSizeA = load32 m (a + 40),
     ie_partitionSizeB = load32 m (a + 44), ie_isTwoGptTableEntriesMatching = load32 m (a + 48)\<rparr>"

fun bl_info_loop ::
  "mem \<Rightarrow> addr \<Rightarrow> nat \<Rightarrow> nat \<Rightarrow> rtss_upd_image_entry_t list \<Rightarrow> rtss_upd_image_entry_t list run" where
  "bl_info_loop m a k 0 buf = Returns buf"
| "bl_info_loop m a k (Suc n) buf =
     (if k \<ge> length buf then Faults
      else bl_info_loop m (a + unat sizeof_image_entry) (Suc k) n (buf[k := image_entry_at m a]))"

definition rtss_updater_get_bl_info_context ::
  "rtss_upd_image_entry_t list option \<Rightarrow> addr \<Rightarrow> u32 \<Rightarrow> mem \<Rightarrow>
   (u32 \<times> rtss_upd_image_entry_t list option) run" where
  "rtss_updater_get_bl_info_context arr pVa n m =
     (case arr of None \<Rightarrow> Returns (EXIT_FAILURE, None)
      | Some buf \<Rightarrow>
          if pVa = NULL \<or> n = 0 then Returns (EXIT_FAILURE, Some buf)
          else case bl_info_loop m pVa 0 (unat n) buf of
                 Returns buf \<Rightarrow> Returns (EXIT_SUCCESS, Some buf) | Blocks \<Rightarrow> Blocks | Faults \<Rightarrow> Faults)"

end
