(* ===== verification/Updater_Config.thy ===== *)
theory Updater_Config
  imports Updater_Util
begin

text \<open>
  Input and set-up of \<^verbatim>\<open>rtss_updater_cmd.c\<close>: the configuration file with one image per line, loading
  an image into the shared buffer, and opening and closing the channels and the buffer.
\<close>

section \<open>The configuration file\<close>

text \<open>\<open>getline\<close>: a line ends after its newline or at the end of the file.\<close>

fun getlines :: "u8 list \<Rightarrow> u8 list list" where
  "getlines [] = []"
| "getlines (c # s) = (if c = 10 then [c] # getlines s
     else case getlines s of [] \<Rightarrow> [[c]] | l # ls \<Rightarrow> (c # l) # ls)"

text \<open>\<open>strtok_r\<close> with the delimiter blank: the token and what follows its delimiter.\<close>

definition strtok :: "u8 list \<Rightarrow> (u8 list \<times> u8 list) option" where
  "strtok s = (let t = dropWhile (\<lambda>c. c = 32) s
     in if t = [] then None
        else Some (takeWhile (\<lambda>c. c \<noteq> 32) t, drop 1 (dropWhile (\<lambda>c. c \<noteq> 32) t)))"

text \<open>The length of a path without its line end.\<close>

definition path_len :: "u8 list \<Rightarrow> nat" where
  "path_len tok = (let len = length tok
     in if len \<ge> 2 \<and> tok ! (len - 2) = 13 \<and> tok ! (len - 1) = 10 then len - 2
        else if len \<ge> 1 \<and> tok ! (len - 1) = 10 then len - 1 else len)"

text \<open>One line; the structure is changed as far as the line is accepted.\<close>

definition cfg_line ::
  "int \<Rightarrow> u8 list \<Rightarrow> nat \<Rightarrow> rtss_updater_imgconfig_t \<Rightarrow> rtss_updater_imgconfig_t + rtss_updater_imgconfig_t" where
  "cfg_line numSupported otaCfgLine numImages c =
     (case strtok (cstr otaCfgLine) of None \<Rightarrow> Inl c
      | Some (name, rest) \<Rightarrow>
          if int numImages \<ge> numSupported then Inl c
          else if list_ex (\<lambda>i. name = name_str c i) [0..<numImages] then Inl c
          else let c = c\<lparr>imageNames := (imageNames c)[numImages := mcpy_member blank_row name]\<rparr>
          in if length name > RTSS_UPDATER_CFG_MAX_IMAGEPATH_LEN then Inl c
          else case strtok rest of None \<Rightarrow> Inl c
          | Some (path, rest) \<Rightarrow>
              let len = path_len path;
                  c = c\<lparr>imagePaths := (imagePaths c)[numImages := mcpy_member blank_row (take len path)]\<rparr>
              in if len > RTSS_UPDATER_CFG_MAX_IMAGEPATH_LEN then Inl c
                 else if strtok rest \<noteq> None then Inl c else Inr c)"

fun cfg_lines ::
  "int \<Rightarrow> u8 list list \<Rightarrow> nat \<Rightarrow> rtss_updater_imgconfig_t \<Rightarrow>
   rtss_updater_imgconfig_t + (nat \<times> rtss_updater_imgconfig_t)" where
  "cfg_lines numSupported [] numImages c = Inr (numImages, c)"
| "cfg_lines numSupported (l # ls) numImages c =
     (case cfg_line numSupported l numImages c of Inl c \<Rightarrow> Inl c
      | Inr c \<Rightarrow> cfg_lines numSupported ls (Suc numImages) c)"

definition cfg_supported :: "u8 list list \<Rightarrow> nat \<Rightarrow> rtss_updater_imgconfig_t \<Rightarrow> bool" where
  "cfg_supported names numImages c \<longleftrightarrow>
     list_all (\<lambda>i. length (filter (\<lambda>s. name_str c i = s) names) = 1) [0..<numImages]"

definition rtss_updater_cfgfile_read ::
  "platform \<Rightarrow> u8 list \<Rightarrow> rtss_updater_imgconfig_t option \<Rightarrow> u8 list list \<Rightarrow> int \<Rightarrow> world \<Rightarrow>
   (u32 \<times> rtss_updater_imgconfig_t option) \<times> world" where
  "rtss_updater_cfgfile_read p filename ImgParseInf names numSupported w =
     (case ImgParseInf of None \<Rightarrow> ((EXIT_FAILURE, None), w)
      | Some c \<Rightarrow>
          if names = [] then ((EXIT_FAILURE, Some c), w)
          else case sys p (Sys_fopen filename) w of (a, w) \<Rightarrow>
            if a_ret a = 0 then ((EXIT_FAILURE, Some c), w)
            else let w = snd (sys p Sys_fclose w)
            in case cfg_lines numSupported (getlines (a_data a)) 0 c of
                 Inl c \<Rightarrow> ((EXIT_FAILURE, Some c), w)
               | Inr (numImages, c) \<Rightarrow>
                   if \<not> cfg_supported names numImages c then ((EXIT_FAILURE, Some c), w)
                   else let c = c\<lparr>numberOfImages := int numImages, numberOfPaths := int numImages\<rparr>
                   in if numberOfImages c \<le> 0 then ((EXIT_FAILURE, Some c), w)
                      else ((EXIT_SUCCESS, Some c), w))"

definition rtss_updater_get_img_parse_info ::
  "platform \<Rightarrow> rtss_updater_imgconfig_t option \<Rightarrow> u8 list option \<Rightarrow> world \<Rightarrow>
   (u32 \<times> rtss_updater_imgconfig_t option) \<times> world" where
  "rtss_updater_get_img_parse_info p pImgConfig cfgfile w =
     (case (pImgConfig, cfgfile) of
        (Some c, Some f) \<Rightarrow>
          (case rtss_updater_cfgfile_read p f (Some c) rtss_updater_supported_img_names
                 (int RTSS_UPDATER_CFG_MAX_IMAGES) w of
             ((ret, c), w) \<Rightarrow> ((if ret \<noteq> EXIT_SUCCESS then EXIT_FAILURE else EXIT_SUCCESS, c), w))
      | _ \<Rightarrow> ((EXIT_FAILURE, pImgConfig), w))"

section \<open>Loading a file\<close>

text \<open>The result is an \<open>int\<close>: \<open>-1\<close> or the padded size.\<close>

definition rtss_updater_loadfile :: "platform \<Rightarrow> u8 list option \<Rightarrow> addr \<Rightarrow> nat \<Rightarrow> world \<Rightarrow> int \<times> world" where
  "rtss_updater_loadfile p path dst alignment w =
     (case path of None \<Rightarrow> (-1, w)
      | Some f \<Rightarrow>
          if dst = NULL then (-1, w)
          else case sys p (Sys_stat f) w of (sbrec, w) \<Rightarrow>
            if a_ret sbrec = -1 then (-1, w)
            else if a_mode sbrec AND 0x100 = 0 then (-1, w)
            else case sys p (Sys_file_open f) w of (a, w) \<Rightarrow>
              let fd = a_ret a
              in if fd = -1 then (-1, w)
              else let fsize = a_size sbrec;
                       r = fsize mod alignment;
                       psize = (if r = 0 then 0 else alignment - r)
              in case sys p (Sys_pread fd fsize) w of (b, w) \<Rightarrow>
                let w = w\<lparr>w_mem := put_bytes (w_mem w) dst (take (nat (a_ret b)) (a_data b))\<rparr>
                in if a_ret b \<noteq> int fsize then (-1, snd (sys p (Sys_close fd) w))
                else let w = (if psize > 0
                              then w\<lparr>w_mem := rtss_updater_mset ((w_mem w)(dst + fsize := 0)) (dst + fsize) 0 psize\<rparr>
                              else w);
                         w = snd (sys p (Sys_close fd) w)
                     in (sint (of_nat (fsize + psize) :: u32), w))"

section \<open>Channels and buffer\<close>

text \<open>The globals of the module with the context of the library's buffer.\<close>

record upd_globals =
  rtss_updater_mmap_data :: "rtss_upd_ota_mmap_data_t option"
  rtss_updater_tx_client_data :: "rtss_mb_handle option"
  rtss_updater_rx_client_data :: "rtss_mb_handle option"
  rtss_ota_ctx :: rtss_ota_context

text \<open>The members of the memory context that are used.\<close>

record rtss_updater_memctx_t =
  mc_sVa :: u32
  mc_pVa :: addr

definition UPDATER_RX_CHANNEL :: "u8 list" where "UPDATER_RX_CHANNEL = ascii ''/dev/sail/ota1''"
definition UPDATER_TX_CHANNEL :: "u8 list" where "UPDATER_TX_CHANNEL = ascii ''/dev/sail/ota0''"

definition mmap_data_zero :: rtss_upd_ota_mmap_data_t where
  "mmap_data_zero = \<lparr>pOtaBaseAddr = NULL, d_sVA = 0, nSizeofBuffer = 0\<rparr>"

definition stored_handle :: "rtss_mb_handle option \<Rightarrow> rtss_mb_handle option \<Rightarrow> rtss_mb_handle option" where
  "stored_handle old new = (case new of None \<Rightarrow> old | Some h \<Rightarrow> Some h)"

definition rtss_updater_mem_init ::
  "platform \<Rightarrow> rtss_updater_memctx_t option \<Rightarrow> upd_globals \<Rightarrow> world \<Rightarrow>
   (u32 \<times> rtss_updater_memctx_t option \<times> upd_globals) \<times> world" where
  "rtss_updater_mem_init p handle g w =
     (case handle of None \<Rightarrow> ((EXIT_FAILURE, None, g), w)
      | Some c \<Rightarrow>
        (case sys p Sys_calloc w of (a, w) \<Rightarrow>
         if a_ret a = 0 then ((EXIT_FAILURE, Some c, g\<lparr>rtss_updater_mmap_data := None\<rparr>), w)
         else case rtss_mb_open p True (Some UPDATER_TX_CHANNEL) w of ((ret, tx), w) \<Rightarrow>
           let g = g\<lparr>rtss_updater_mmap_data := None,
                     rtss_updater_tx_client_data := stored_handle (rtss_updater_tx_client_data g) tx\<rparr>
           in if ret \<noteq> 0 then ((EXIT_FAILURE, Some c, g), snd (sys p Sys_free w))
           else case rtss_mb_open p True (Some UPDATER_RX_CHANNEL) w of ((ret, rx), w) \<Rightarrow>
             let g = g\<lparr>rtss_updater_rx_client_data := stored_handle (rtss_updater_rx_client_data g) rx\<rparr>
             in if ret \<noteq> 0
             then ((EXIT_FAILURE, Some c, g),
                   snd (sys p Sys_free (snd (rtss_mb_close p (rtss_updater_tx_client_data g) w))))
             else case rtss_upd_get_ota_buffer p mmap_data_zero (rtss_ota_ctx g) w of ((nRet, d, ctx), w) \<Rightarrow>
               let g = g\<lparr>rtss_ota_ctx := ctx\<rparr>
               in if nRet \<noteq> RTSS_UPD_E_OK
               then ((EXIT_FAILURE, Some c, g),
                     snd (sys p Sys_free (snd (rtss_mb_close p (rtss_updater_rx_client_data g)
                       (snd (rtss_mb_close p (rtss_updater_tx_client_data g) w))))))
               else ((EXIT_SUCCESS, Some (c\<lparr>mc_pVa := pOtaBaseAddr d, mc_sVa := d_sVA d\<rparr>),
                      g\<lparr>rtss_updater_mmap_data := Some d\<rparr>), w)))"

definition rtss_updater_mem_deinit ::
  "platform \<Rightarrow> rtss_updater_memctx_t option \<Rightarrow> upd_globals \<Rightarrow> world \<Rightarrow> (u32 \<times> upd_globals) \<times> world" where
  "rtss_updater_mem_deinit p handle g w =
     (case handle of None \<Rightarrow> ((EXIT_FAILURE, g), w)
      | Some c \<Rightarrow>
        (case rtss_mb_close p (rtss_updater_tx_client_data g) w of (ret, w) \<Rightarrow>
         if ret \<noteq> 0 then ((EXIT_FAILURE, g), w)
         else case rtss_mb_close p (rtss_updater_rx_client_data g) w of (ret, w) \<Rightarrow>
           if ret \<noteq> 0 then ((EXIT_FAILURE, g), w)
           else case rtss_upd_release_ota_buffer p (rtss_updater_mmap_data g) (rtss_ota_ctx g) w of
             ((_, d, ctx), w) \<Rightarrow>
               ((EXIT_SUCCESS, g\<lparr>rtss_updater_mmap_data := d, rtss_ota_ctx := ctx\<rparr>), w)))"

end
