(* ===== verification/Updater_Gpt.thy ===== *)
theory Updater_Gpt
  imports Updater_Config Guidpt
begin

text \<open>
  The functions of \<^verbatim>\<open>rtss_updater_cmd.c\<close> that handle a new partition table: taking the current
  header from the shared buffer, reading the table from a file and fixing its header, and
  writing it. The allocated block that holds the file is a list of bytes; an access outside it
  is the outcome \<open>Faults\<close>.
\<close>

definition LBA_SIZE :: nat where "LBA_SIZE = 4096"

definition rtss_updater_get_gpthdr :: "mem \<Rightarrow> addr \<Rightarrow> u8 list option \<Rightarrow> u32 \<times> u8 list option" where
  "rtss_updater_get_gpthdr m pVa g_gpthdr =
     (case g_gpthdr of None \<Rightarrow> (EXIT_FAILURE, None)
      | Some h \<Rightarrow> if pVa = NULL then (EXIT_FAILURE, Some h)
          else (EXIT_SUCCESS, Some (bytes_at m pVa sizeof_gpt_header)))"

section \<open>Reading and fixing the table\<close>

text \<open>\<open>fread\<close> delivers at most what is asked for and what is left of the file. Each pass asks for the
  whole size and stores at the offset given by the count of the previous pass alone.\<close>

function fread_loop ::
  "platform \<Rightarrow> nat \<Rightarrow> u8 list \<Rightarrow> nat \<Rightarrow> u8 list \<Rightarrow> world \<Rightarrow> (u8 list option \<times> world) run" where
  "fread_loop p buf_size rest numBytes buf w =
     (case sys p (Sys_fread buf_size) w of (a, w) \<Rightarrow>
        let n = min (nat (a_ret a)) (min buf_size (length rest))
        in if n = 0 then Returns (None, snd (sys p Sys_free w))
           else if numBytes + n > length buf then Faults
           else let buf = overwrite numBytes (take n rest) buf
                in if n < buf_size then fread_loop p buf_size (drop n rest) n buf w
                   else Returns (Some buf, w))"
  by pat_completeness auto
termination
  by (relation "measure (\<lambda>(p, buf_size, rest, numBytes, buf, w). length rest)") auto

text \<open>The next multiple of the cache line.\<close>

definition cache_aligned :: "nat \<Rightarrow> nat" where
  "cache_aligned n = (let c = unat rtss_upd_get_cache_line_sz
     in if n mod c \<noteq> 0 then n + (c - n mod c) else n)"

definition hdr_member :: "gpt_hdr_field \<Rightarrow> u8 list \<Rightarrow> u8 list" where
  "hdr_member f h = take 8 (drop (rtss_gpt_header_t f) h)"

text \<open>The new header is at \<open>LBA_SIZE\<close> in the block.\<close>

definition fix_gpt_header :: "u8 list \<Rightarrow> u8 list \<Rightarrow> u8 list run" where
  "fix_gpt_header gpt_hdr buf =
     (if LBA_SIZE + sizeof_gpt_header > length buf then Faults
      else let buf = overwrite (LBA_SIZE + rtss_gpt_header_t Alternate_lba) (hdr_member Alternate_lba gpt_hdr) buf;
               buf = overwrite (LBA_SIZE + rtss_gpt_header_t Last_usable_lba) (hdr_member Last_usable_lba gpt_hdr) buf;
               buf = put32 (LBA_SIZE + rtss_gpt_header_t Header_crc32) 0 buf;
               n = unat (get32 (LBA_SIZE + rtss_gpt_header_t Header_size) buf)
           in if LBA_SIZE + n > length buf then Faults
              else Returns (put32 (LBA_SIZE + rtss_gpt_header_t Header_crc32)
                (rtss_gpt_calc_crc32 (Some (take n (drop LBA_SIZE buf))) RTSS_GPT_CRC32_SEED_DEFAULT) buf))"

text \<open>The result is the block and the size of the file, as far as it was determined.\<close>

definition rtss_updater_modifygpt ::
  "platform \<Rightarrow> u8 list option \<Rightarrow> u8 list option \<Rightarrow> world \<Rightarrow>
   ((u8 list option \<times> nat option) \<times> world) run" where
  "rtss_updater_modifygpt p gfile gpt_hdr w =
     (case (gfile, gpt_hdr) of
        (Some f, Some h) \<Rightarrow>
          (case sys p (Sys_access f) w of (a, w) \<Rightarrow>
           if a_ret a \<noteq> 0 then Returns ((None, None), w)
           else case sys p (Sys_fopen f) w of (file, w) \<Rightarrow>
             if a_ret file = 0 then Returns ((None, None), w)
             else case sys p Sys_ftell w of (t, w) \<Rightarrow>
               let buf_size = nat (a_ret t)
               in if a_err t \<noteq> 0 then Returns ((None, Some buf_size), snd (sys p Sys_fclose w))
               else case sys p Sys_calloc w of (b, w) \<Rightarrow>
                 if a_ret b = 0 then Returns ((None, Some buf_size), snd (sys p Sys_fclose w))
                 else case fread_loop p buf_size (a_data file) 0 (replicate (cache_aligned buf_size) 0) w of
                   Faults \<Rightarrow> Faults | Blocks \<Rightarrow> Blocks
                 | Returns (None, w) \<Rightarrow> Returns ((None, Some buf_size), snd (sys p Sys_fclose w))
                 | Returns (Some buf, w) \<Rightarrow>
                     (case fix_gpt_header h buf of Faults \<Rightarrow> Faults | Blocks \<Rightarrow> Blocks
                      | Returns buf \<Rightarrow> Returns ((Some buf, Some buf_size), snd (sys p Sys_fclose w))))
      | _ \<Rightarrow> Returns ((None, None), w))"

section \<open>Writing the table\<close>

text \<open>The header and the entries are copied next to each other into the shared buffer; the zeros
  that align the length go to the block, not to the shared buffer.\<close>

definition gpt_entries_bytes :: "u8 list \<Rightarrow> u64" where
  "gpt_entries_bytes hdr = ucast (hdr32 Number_of_partition_entries hdr) * ucast (hdr32 Size_of_partition_entry hdr)"

definition writegpt_len_ok :: "u8 list \<Rightarrow> u32 \<Rightarrow> bool" where
  "writegpt_len_ok hdr bufLen \<longleftrightarrow>
     gpt_entries_bytes hdr \<le> ucast (0xFFFFFFFF - hdr32 Header_size hdr)
     \<and> ucast (hdr32 Header_size hdr) + gpt_entries_bytes hdr \<le> ucast bufLen"

definition rtss_updater_writegpt ::
  "platform \<Rightarrow> upd_env \<Rightarrow> u8 \<Rightarrow> u8 list option \<Rightarrow> u32 \<Rightarrow> u32 \<Rightarrow> u32 \<Rightarrow> addr \<Rightarrow> world \<Rightarrow>
   ((u32 \<times> u8 list option) \<times> world) run" where
  "rtss_updater_writegpt p e gpt_id buf_gpt sVa bufLen bufCrc pVa w =
     (case buf_gpt of None \<Rightarrow> Returns ((EXIT_FAILURE, None), w)
      | Some buf \<Rightarrow>
        if pVa = NULL then Returns ((EXIT_FAILURE, Some buf), w)
        else if LBA_SIZE + sizeof_gpt_header > length buf then Faults
        else let gpthdr = take sizeof_gpt_header (drop LBA_SIZE buf);
                 entries_bytes = unat (gpt_entries_bytes gpthdr)
        in if \<not> writegpt_len_ok gpthdr bufLen then Returns ((EXIT_FAILURE, Some buf), w)
        else let w = w\<lparr>w_mem := put_bytes (w_mem w) pVa gpthdr\<rparr>
        in if entries_bytes = 0 then Returns ((EXIT_FAILURE, Some buf), w)
        else if 2 * LBA_SIZE + entries_bytes > length buf then Faults
        else let w = w\<lparr>w_mem := put_bytes (w_mem w) (pVa + sizeof_gpt_header)
                       (take entries_bytes (drop (2 * LBA_SIZE) buf))\<rparr>;
                 byteAllign = bufLen mod rtss_upd_get_cache_line_sz;
                 bytesToAllign = rtss_upd_get_cache_line_sz - byteAllign
        in if byteAllign \<noteq> 0 \<and> unat bufLen + unat bytesToAllign > length buf then Faults
        else let buf = (if byteAllign \<noteq> 0
                        then overwrite (unat bufLen) (replicate (unat bytesToAllign) 0) buf else buf);
                 bufLen = (if byteAllign \<noteq> 0 then bufLen + bytesToAllign else bufLen)
        in case chosen_crc (w_mem w) pVa bufLen bufCrc of
             None \<Rightarrow> Returns ((EXIT_FAILURE, Some buf), w)
           | Some crc \<Rightarrow>
               (case seal_and_send p e (new_msg RTSS_UPD_MSG_WRITE_GPT
                  (rtss_upd_write_gpt_msg_t (ucast gpt_id) sVa bufLen crc)) w of
                (r, w) \<Rightarrow> Returns ((r, Some buf), w)))"

end
