(* ===== verification/Updater_Cmd_Props.thy ===== *)
theory Updater_Cmd_Props
  imports Updater_Cmd Update_Lib_Props
begin

text \<open>
  What the commands of the updater send. A request is a call of one of the commands with its
  arguments; \<open>request_msg\<close> is the message it stands for, \<open>announces\<close> what a receiver can rely on.
\<close>

section \<open>Requests\<close>

datatype request =
    Chkgpt
  | Fixgpt u32 u32 u32 u32
  | Readgpt u32 u32 u32 addr
  | Updategpt u32 u32 u32 u32 u32 addr
  | Flashimg "u8 list option" u32 u32 u32 u32 u32 u32 addr u32
  | Readimg "u8 list option" u32 u32 u32 u32
  | Bootimg "u8 list option" u32 u32 u32 u32 u32 addr
  | Bootcontinue
  | Get_bl_info u32 u32 u32 u32 addr
  | Queryimage u32 u32 u32 u32 addr
  | Get_image_digest u32 u32 u32 u32 addr
  | Get_metadata u32 u32
  | Set_metadata u32 u32 u32 addr
  | Read_metadata u32 u32 u32 u32
  | Write_metadata u32 u32 u32 u32 u32 addr
  | Erase_metadata u32 u32
  | Get_metadata_info
  | Update_arb u32 u32 u32 u32
  | Update_mrc u32 u32 u32 u32
  | Injectfault u32 u32
  | Ota_done u32 u32 u32 u32
  | Redundancy_established u32 u32 u32 u32

fun run_request :: "platform \<Rightarrow> upd_env \<Rightarrow> request \<Rightarrow> world \<Rightarrow> u32 \<times> world" where
  "run_request p e Chkgpt w = rtss_updater_chkgpt p e w"
| "run_request p e (Fixgpt g s l f) w = rtss_updater_fixgpt p e g s l f w"
| "run_request p e (Readgpt g s l a) w = rtss_updater_readgpt p e g s l a w"
| "run_request p e (Updategpt n g s l c a) w = rtss_updater_updategpt p e n g s l c a w"
| "run_request p e (Flashimg i g pt s l c f a rs) w = rtss_updater_flashimg p e i g pt s l c f a rs w"
| "run_request p e (Readimg i pt g s l) w = rtss_updater_readimg p e i pt g s l w"
| "run_request p e (Bootimg i g pt s l c a) w = rtss_updater_bootimg p e i g pt s l c a w"
| "run_request p e Bootcontinue w = rtss_updater_bootcontinue p e w"
| "run_request p e (Get_bl_info n l c s a) w = rtss_updater_get_bl_info p e n l c s a w"
| "run_request p e (Queryimage n l c s a) w = rtss_updater_queryimage p e n l c s a w"
| "run_request p e (Get_image_digest n l c s a) w = rtss_updater_get_image_digest p e n l c s a w"
| "run_request p e (Get_metadata s l) w = rtss_updater_get_metadata p e s l w"
| "run_request p e (Set_metadata s l c a) w = rtss_updater_set_metadata p e s l c a w"
| "run_request p e (Read_metadata s l off z) w = rtss_updater_read_metadata p e s l off z w"
| "run_request p e (Write_metadata s l c off z a) w = rtss_updater_write_metadata p e s l c off z a w"
| "run_request p e (Erase_metadata b n) w = rtss_updater_erase_metadata p e b n w"
| "run_request p e Get_metadata_info w = rtss_updater_get_metadata_info p e w"
| "run_request p e (Update_arb d1 d2 d3 d4) w = rtss_updater_update_arb p e d1 d2 d3 d4 w"
| "run_request p e (Update_mrc d1 d2 d3 d4) w = rtss_updater_update_mrc p e d1 d2 d3 d4 w"
| "run_request p e (Injectfault n t) w = rtss_updater_injectfault p e n t w"
| "run_request p e (Ota_done d1 d2 d3 d4) w = rtss_updater_update_ota_done_state p e d1 d2 d3 d4 w"
| "run_request p e (Redundancy_established d1 d2 d3 d4) w = rtss_updater_redundancy_established p e d1 d2 d3 d4 w"

fun request_id :: "request \<Rightarrow> u32" where
  "request_id Chkgpt = 1"
| "request_id (Readgpt _ _ _ _) = 2"
| "request_id (Fixgpt _ _ _ _) = 4"
| "request_id (Updategpt _ _ _ _ _ _) = 5"
| "request_id (Queryimage _ _ _ _ _) = 6"
| "request_id (Readimg _ _ _ _ _) = 7"
| "request_id (Flashimg _ _ _ _ _ _ _ _ _) = 8"
| "request_id (Bootimg _ _ _ _ _ _ _) = 9"
| "request_id Bootcontinue = 10"
| "request_id (Get_bl_info _ _ _ _ _) = 11"
| "request_id (Get_metadata _ _) = 12"
| "request_id (Set_metadata _ _ _ _) = 13"
| "request_id (Update_arb _ _ _ _) = 14"
| "request_id (Update_mrc _ _ _ _) = 15"
| "request_id (Read_metadata _ _ _ _) = 16"
| "request_id (Write_metadata _ _ _ _ _ _) = 17"
| "request_id (Erase_metadata _ _) = 18"
| "request_id Get_metadata_info = 19"
| "request_id (Ota_done _ _ _ _) = 20"
| "request_id (Redundancy_established _ _ _ _) = 21"
| "request_id (Get_image_digest _ _ _ _ _) = 22"
| "request_id (Injectfault _ _) = 255"

text \<open>The buffer a request is about: its address, the number of bytes its checksum covers, the
  checksum given by the caller (zero to have it computed), and the offset of the checksum in
  the union of the message.\<close>

fun request_buffer :: "request \<Rightarrow> (addr \<times> u32 \<times> u32 \<times> nat) option" where
  "request_buffer (Readgpt _ _ l a) = Some (a, l, 0, 12)"
| "request_buffer (Updategpt n _ _ _ c a) = Some (a, n * sizeof_update_gpt_entry, c, 16)"
| "request_buffer (Flashimg _ _ _ _ l c _ a _) = Some (a, l, c, 48)"
| "request_buffer (Bootimg _ _ _ _ l c a) = Some (a, l, c, 48)"
| "request_buffer (Get_bl_info n l c _ a) = Some (a, entries_len n l, c, 36)"
| "request_buffer (Queryimage n l c _ a) = Some (a, entries_len n l, c, 12)"
| "request_buffer (Get_image_digest _ l c _ a) = Some (a, l, c, 12)"
| "request_buffer (Set_metadata _ l c a) = Some (a, l, c, 8)"
| "request_buffer (Write_metadata _ l c _ _ a) = Some (a, l, c, 8)"
| "request_buffer _ = None"

fun request_name :: "request \<Rightarrow> u8 list option option" where
  "request_name (Flashimg i _ _ _ _ _ _ _ _) = Some i"
| "request_name (Readimg i _ _ _ _) = Some i"
| "request_name (Bootimg i _ _ _ _ _ _) = Some i"
| "request_name _ = None"

text \<open>A request is rejected before anything is sent if a pointer is null or there is nothing to
  compute a checksum of.\<close>

definition request_rejected :: "request \<Rightarrow> bool" where
  "request_rejected q \<longleftrightarrow> request_name q = Some None
     \<or> (case request_buffer q of None \<Rightarrow> False | Some (a, n, c, _) \<Rightarrow> a = NULL \<or> (c = 0 \<and> n = 0))"

text \<open>The checksum a receiver finds for the buffer. \<open>rtss_updater_write_metadata\<close> drops the one of its
  caller.\<close>

definition announced_crc :: "mem \<Rightarrow> request \<Rightarrow> addr \<Rightarrow> u32 \<Rightarrow> u32 \<Rightarrow> u32" where
  "announced_crc m q a n c = (if c = 0 then crc32 (bytes_at m a (unat n))
     else case q of Write_metadata _ _ _ _ _ _ \<Rightarrow> 0 | _ \<Rightarrow> c)"

definition request_crc :: "mem \<Rightarrow> request \<Rightarrow> u32" where
  "request_crc m q = (case request_buffer q of None \<Rightarrow> 0 | Some (a, n, c, _) \<Rightarrow> announced_crc m q a n c)"

text \<open>The members of the message of a request.\<close>

fun request_members :: "mem \<Rightarrow> request \<Rightarrow> u8 list" where
  "request_members m Chkgpt = rtss_upd_check_gpt_msg_t 0 0 0 0 0 0 0 0"
| "request_members m (Fixgpt g s l f) = rtss_upd_fix_gpt_msg_t (rtss_upd_fix_gpt_id_ext_t (ucast g) 0 0 (ucast f)) s l"
| "request_members m (Readgpt g s l a) = rtss_upd_read_gpt_msg_t g s l (request_crc m (Readgpt g s l a))"
| "request_members m (Updategpt n g s l c a) =
     rtss_upd_update_gpt_msg_t g n s l (request_crc m (Updategpt n g s l c a))"
| "request_members m (Flashimg i g pt s l c f a rs) = rtss_upd_flash_img_msg_t (img_name (the i))
     (rtss_upd_flash_img_partition_ext_t (ucast pt) 0 0 (ucast f)) g s l (request_crc m (Flashimg i g pt s l c f a rs))"
| "request_members m (Readimg i pt g s l) = rtss_upd_read_img_msg_t (img_name (the i)) pt g s l 0"
| "request_members m (Bootimg i g pt s l c a) =
     rtss_upd_boot_img_msg_t (img_name (the i)) pt g s l (request_crc m (Bootimg i g pt s l c a))"
| "request_members m (Get_bl_info n l c s a) = rtss_upd_get_boot_info_msg_t 0 0 0 0 0 0
     (rtss_upd_query_image_msg_t n s (entries_len n l) (request_crc m (Get_bl_info n l c s a))) 0 0 0"
| "request_members m (Queryimage n l c s a) =
     rtss_upd_query_image_msg_t n s (entries_len n l) (request_crc m (Queryimage n l c s a))"
| "request_members m (Get_image_digest n l c s a) =
     rtss_upd_img_digest_msg_t n s l (request_crc m (Get_image_digest n l c s a))"
| "request_members m (Get_metadata s l) = rtss_upd_get_ota_metadata_msg_t s l 0"
| "request_members m (Set_metadata s l c a) = rtss_upd_set_ota_metadata_msg_t s l (request_crc m (Set_metadata s l c a))"
| "request_members m (Read_metadata s l off z) = rtss_upd_read_ota_metadata_msg_t s l 0 off z"
| "request_members m (Write_metadata s l c off z a) =
     rtss_upd_write_ota_metadata_msg_t s l (request_crc m (Write_metadata s l c off z a)) off z"
| "request_members m (Erase_metadata b n) = rtss_upd_erase_ota_metadata_msg_t b n"
| "request_members m (Update_arb d1 d2 d3 d4) = rtss_upd_arb_update_msg_t d1 d2 d3 d4"
| "request_members m (Update_mrc d1 d2 d3 d4) = rtss_upd_mrc_update_msg_t d1 d2 d3 d4"
| "request_members m (Injectfault n t) = rtss_upd_ota_test_trigger_msg_t n t"
| "request_members m (Ota_done d1 d2 d3 d4) = rtss_upd_ota_done_msg_t d1 d2 d3 d4"
| "request_members m (Redundancy_established d1 d2 d3 d4) = rtss_upd_redundancy_msg_t d1 d2 d3 d4"
| "request_members m _ = []"

definition request_msg :: "mem \<Rightarrow> request \<Rightarrow> rtss_upd_msg_header_t" where
  "request_msg m q = sealed (new_msg (request_id q) (request_members m q))"

definition announces :: "mem \<Rightarrow> request \<Rightarrow> rtss_upd_msg_header_t \<Rightarrow> bool" where
  "announces m q x \<longleftrightarrow> msg_wf x \<and> headerSize x = 72 \<and> msgId x = request_id q
     \<and> direction x = RTSS_UPD_MD2RTSS \<and> status x = RTSS_UPD_S_SUCCESS
     \<and> rtss_upd_verify_crc32 (headerCrc x) (Some (msg_bytes (x\<lparr>headerCrc := 0\<rparr>))) = RTSS_UPD_E_OK
     \<and> (case request_buffer q of None \<Rightarrow> True
         | Some (a, n, c, off) \<Rightarrow> get32 off (body x) = announced_crc m q a n c)"

section \<open>Sealing and sending\<close>

lemma new_msg_wf: "msg_wf (new_msg i ms)"
  by (simp add: msg_wf_def new_msg_def)

lemma seal_and_send_new:
  assumes "e_tx e = Some h"
  shows "seal_and_send p e (new_msg i ms) w =
    (case rtss_upd_send_msg p (Some (sealed (new_msg i ms))) (e_txmsg e) (Some h) w of (r, w') \<Rightarrow>
       (if r \<noteq> RTSS_UPD_E_OK then EXIT_FAILURE else EXIT_SUCCESS, w'))"
proof -
  have "length (msg_bytes (new_msg i ms)) = 72"
    using length_msg_bytes [OF new_msg_wf] by (simp add: sizeof_msg_def)
  then have ne: "msg_bytes (new_msg i ms) \<noteq> []" by auto
  have z: "(new_msg i ms)\<lparr>headerCrc := 0\<rparr> = new_msg i ms"
    by (simp add: new_msg_def)
  show ?thesis
    unfolding seal_and_send_def rtss_upd_calculate_crc32_ok [OF ne] sealed_def z assms
    by (simp split: prod.splits)
qed

lemma buffer_crc_eq: "buffer_crc m a n = (if a = NULL \<or> n = 0 then None else Some (crc32 (bytes_at m a (unat n))))"
proof (cases "a = NULL \<or> n = 0")
  case True
  then show ?thesis
    by (auto simp: buffer_crc_def rtss_upd_calculate_crc32_def rtss_crc32_generate_def RTSS_UPD_E_ERR_def RTSS_UPD_E_OK_def)
next
  case False
  then have "bytes_at m a (unat n) \<noteq> []"
    by (metis length_bytes_at length_0_conv unat_eq_zero)
  then show ?thesis
    using False by (simp add: buffer_crc_def rtss_upd_calculate_crc32_ok)
qed

lemma chosen_crc_eq: "a \<noteq> NULL \<Longrightarrow> chosen_crc m a n c =
  (if c = 0 \<and> n = 0 then None else Some (if c = 0 then crc32 (bytes_at m a (unat n)) else c))"
  by (simp add: chosen_crc_def buffer_crc_eq)


section \<open>The message of a request\<close>

lemma length_mcpy_member [simp]: "length (mcpy_member dst src) = length dst"
  by (auto simp: mcpy_member_def Let_def)

lemma length_img_name [simp]: "length (img_name s) = 32"
  by (simp add: img_name_def RTSS_UPD_IMG_NAME_LEN_def)

lemma get32_pad_to:
  "off + 4 \<le> length ms \<Longrightarrow> length ms \<le> n \<Longrightarrow> get32 off (pad_to n ms) = get32 off ms"
  by (simp add: pad_to_def get32_def nth_append)

lemma get32_bytes32_end: "get32 0 (bytes32 v) = v"
  using get32_bytes32 [of v "[]"] by simp

lemma get32_Cons: "0 < off \<Longrightarrow> get32 off (b # bs) = get32 (off - 1) bs"
  by (simp add: get32_def)

lemmas member_simps = get32_Cons upd_struct_defs get32_skip get32_bytes32 get32_bytes32_end

lemma request_rejected_fails: "request_rejected q \<Longrightarrow> run_request p e q w = (EXIT_FAILURE, w)"
  by (cases q; cases "request_name q")
    (auto simp: request_rejected_def rtss_updater_readgpt_def rtss_updater_updategpt_def rtss_updater_flashimg_def
      rtss_updater_readimg_def rtss_updater_bootimg_def rtss_updater_get_bl_info_def rtss_updater_queryimage_def
      rtss_updater_get_image_digest_def rtss_updater_set_metadata_def rtss_updater_write_metadata_def
      buffer_crc_eq chosen_crc_eq Let_def split: option.splits)

lemmas command_defs = rtss_updater_chkgpt_def rtss_updater_fixgpt_def rtss_updater_readimg_def
  rtss_updater_bootcontinue_def rtss_updater_get_metadata_def rtss_updater_read_metadata_def
  rtss_updater_erase_metadata_def rtss_updater_get_metadata_info_def rtss_updater_update_arb_def
  rtss_updater_update_mrc_def rtss_updater_injectfault_def rtss_updater_update_ota_done_state_def
  rtss_updater_redundancy_established_def rtss_updater_readgpt_def rtss_updater_updategpt_def
  rtss_updater_flashimg_def rtss_updater_bootimg_def rtss_updater_get_bl_info_def rtss_updater_queryimage_def
  rtss_updater_get_image_digest_def rtss_updater_set_metadata_def rtss_updater_write_metadata_def

lemmas msg_id_defs = RTSS_UPD_MSG_CHECK_GPT_def RTSS_UPD_MSG_FIX_GPT_def RTSS_UPD_MSG_READ_IMAGE_def
  RTSS_UPD_MSG_BOOT_CONTINUE_def RTSS_UPD_MSG_GET_OTA_METADATA_def RTSS_UPD_MSG_READ_OTA_METADATA_def
  RTSS_UPD_MSG_ERASE_OTA_METADATA_def RTSS_UPD_MSG_GET_OTA_METADATAINFO_def RTSS_UPD_MSG_UPDATE_ARB_def
  RTSS_UPD_MSG_UPDATE_MRC_def RTSS_UPD_MSG_TEST_ERROR_INJECTION_def RTSS_UPD_MSG_OTA_DONE_def
  RTSS_UPD_MSG_REDUNDANCY_ESTABLISHED_def RTSS_UPD_MSG_READ_GPT_def RTSS_UPD_MSG_UPDATE_GPT_def
  RTSS_UPD_MSG_FLASH_IMAGE_def RTSS_UPD_MSG_BOOT_IMAGE_def RTSS_UPD_MSG_GET_BOOTINFO_def
  RTSS_UPD_MSG_QUERY_IMAGES_def RTSS_UPD_MSG_GET_IMAGE_DIGEST_def RTSS_UPD_MSG_SET_OTA_METADATA_def
  RTSS_UPD_MSG_WRITE_OTA_METADATA_def

lemma run_request_sends: "\<not> request_rejected q \<Longrightarrow> run_request p e q w =
    seal_and_send p e (new_msg (request_id q) (request_members (w_mem w) q)) w"
  by (cases q) (auto simp: request_rejected_def command_defs msg_id_defs buffer_crc_eq chosen_crc_eq Let_def
      request_crc_def announced_crc_def split: option.splits)

lemma length_request_members: "length (request_members m q) \<le> 52"
  by (cases q) (simp_all add: upd_struct_defs)

lemma request_members_crc:
  "case request_buffer q of None \<Rightarrow> True
   | Some (a, n, c, off) \<Rightarrow> off + 4 \<le> length (request_members m q)
       \<and> get32 off (request_members m q) = announced_crc m q a n c"
  by (cases q) (simp_all add: member_simps request_crc_def)

lemma new_msg_announces: "announces m q (request_msg m q)"
proof -
  let ?x = "new_msg (request_id q) (request_members m q)"
  have "length (msg_bytes ?x) = 72"
    using length_msg_bytes [OF new_msg_wf] by (simp add: sizeof_msg_def)
  then have ne: "msg_bytes ?x \<noteq> []" by auto
  have z: "?x\<lparr>headerCrc := 0\<rparr> = ?x"
    by (simp add: new_msg_def)
  have "case request_buffer q of None \<Rightarrow> True
      | Some (a, n, c, off) \<Rightarrow> get32 off (body ?x) = announced_crc m q a n c"
    using request_members_crc [of m q] length_request_members [of m q]
    by (auto simp: new_msg_def get32_pad_to sizeof_body_def split: option.splits)
  then show ?thesis
    using new_msg_wf [of "request_id q" "request_members m q"]
    unfolding announces_def request_msg_def sealed_def z
    by (auto simp: rtss_upd_verify_crc32_iff [OF ne] msg_wf_def z split: option.splits)
      (simp_all add: new_msg_def sizeof_msg_def)
qed

lemma sealed_wf: "msg_wf x \<Longrightarrow> msg_wf (sealed x)"
  by (simp add: msg_wf_def sealed_def)

lemma run_request_cases:
  assumes "\<not> request_rejected q" and tx: "e_tx e = Some h" and ch: "msg_channel (w_mem w) h (e_txmsg e)"
    and mode: "h_mode h = RTSS_MB_MODE_TX p" and err: "errno_set p (w_now w)"
  defines "x \<equiv> request_msg (w_mem w) q"
  shows "h_free (w_mem w) h = 0 \<Longrightarrow> run_request p e q w =
      (EXIT_FAILURE, w\<lparr>w_mem := put_bytes (w_mem w) (e_txmsg e) (msg_bytes x)\<rparr>)"
    and "0 < h_free (w_mem w) h \<Longrightarrow> \<exists>m2. h_items m2 h = h_items (w_mem w) h @ [msg_bytes x]
      \<and> msg_channel m2 h (e_txmsg e)
      \<and> run_request p e q w = (if a_ret (answer p (w_now w)) = 0 then EXIT_SUCCESS else EXIT_FAILURE,
          triggered p h m2 w)"
proof -
  note send = send_msg_cases [OF ch mode sealed_wf [OF new_msg_wf]]
  note run = run_request_sends [OF assms(1), of p e w, unfolded seal_and_send_new [OF tx]]
  note codes = RTSS_UPD_E_ERR_def RTSS_UPD_E_OK_def
  show "run_request p e q w = (EXIT_FAILURE, w\<lparr>w_mem := put_bytes (w_mem w) (e_txmsg e) (msg_bytes x)\<rparr>)"
    if "h_free (w_mem w) h = 0"
    using run send(1) [OF that] by (simp add: codes x_def request_msg_def)
  show "\<exists>m2. h_items m2 h = h_items (w_mem w) h @ [msg_bytes x] \<and> msg_channel m2 h (e_txmsg e)
      \<and> run_request p e q w = (if a_ret (answer p (w_now w)) = 0 then EXIT_SUCCESS else EXIT_FAILURE,
          triggered p h m2 w)" if "0 < h_free (w_mem w) h"
    using run send(2) [OF that, of "request_id q" "request_members (w_mem w) q"] err
    by (auto simp: codes x_def request_msg_def)
qed

section \<open>Alignment\<close>

lemma align_word:
  fixes x a :: u32
  assumes a: "unat a = 2 ^ k" and fits: "unat x + unat a - 1 < 2 ^ 32"
  shows "unat ((x + a - 1) AND NOT (a - 1)) = (unat x + 2 ^ k - 1) div 2 ^ k * 2 ^ k"
proof -
  have pos: "0 < a" using a by (simp add: word_less_nat_alt)
  have m: "unat (a - 1) = 2 ^ k - 1"
    using unat_pred [OF pos] a by simp
  have y: "unat (x + a - 1) = unat x + 2 ^ k - 1"
    using unat_add_small [of x "a - 1"] m a fits by (simp add: add_diff_eq)
  have "a = of_nat (unat a)" by simp
  also have "\<dots> = 2 ^ k" by (simp add: a  del: of_nat_unat)
  finally have p: "a - 1 = mask k" by (simp add: mask_eq_exp_minus_1)
  have "(x + a - 1) AND NOT (a - 1) = push_bit k (drop_bit k (x + a - 1))"
    unfolding p by (intro bit_word_eqI) (auto simp: bit_simps)
  moreover have "push_bit k (drop_bit k v) = v - take_bit k v" for v :: u32
    using bits_ident [of k v] by (simp add: eq_diff_eq)
  moreover have "unat (take_bit k v) = unat v mod 2 ^ k" for v :: u32
    by (subst unsigned_take_bit_eq) (rule take_bit_eq_mod)
  ultimately show ?thesis
    by (simp add: y unat_sub_le word_le_nat_alt minus_mod_eq_div_mult)
qed

end
