(* ===== verification/Updater_Kpi.thy ===== *)
theory Updater_Kpi
  imports Updater_Util "HOL-Library.Signed_Division"
begin

text \<open>
  The time measurement of the updater, \<^verbatim>\<open>rtss_updater.c\<close> and its header: the timers, the elapsed
  times, and the two reports. A report is the list of its lines; what \<open>vfprintf\<close> makes of a line
  is not modelled, whether it fails is. The option \<open>-j\<close> switches the measurement on; the macro that
  compiles it is defined in \<^verbatim>\<open>rtss_updater.h\<close>.
\<close>

section \<open>Timers\<close>

record timespec =
  tv_sec :: int
  tv_nsec :: int

definition no_time :: timespec where
  "no_time = \<lparr>tv_sec = 0, tv_nsec = 0\<rparr>"

text \<open>In milliseconds. Every product and sum is an \<open>int64_t\<close>; the times since the start of the system
  are far from its limits.\<close>

definition Total_elapsedtime :: "timespec \<Rightarrow> timespec \<Rightarrow> int" where
  "Total_elapsedtime TimevarA TimevarB =
     (tv_sec TimevarB * 1000 + tv_nsec TimevarB sdiv 1000000)
     - (tv_sec TimevarA * 1000 + tv_nsec TimevarA sdiv 1000000)"

record rtss_updater_flash_image_timer_t =
  ft_image :: "u8 list"
  ft_Length :: u32
  flash_startTime :: timespec
  flash_EndTime :: timespec
  readImage_startTime :: timespec
  readImage_EndTime :: timespec

record rtss_updater_preboot_image_timer_t =
  pre_checkGPT_startTime :: timespec
  pre_checkGPT_endTime :: timespec
  getMetaInfo_startTime :: timespec
  getMetaInfo_endTime :: timespec
  pre_getMetaData_startTime :: timespec
  pre_getMetaData_endTime :: timespec
  pre_getBootInfo_startTime :: timespec
  pre_getBootInfo_endTime :: timespec
  updateGPT_startTime :: timespec
  updateGPT_endTime :: timespec

record rtss_updater_postboot_image_timer_t =
  setOTAdone_startTime :: timespec
  setOTAdone_endTime :: timespec
  post_getBootInfo_startTime :: timespec
  post_getBootInfo_endTime :: timespec
  post_checkGPT_startTime :: timespec
  post_checkGPT_endTime :: timespec
  fixGPT_startTime :: timespec
  fixGPT_endTime :: timespec
  redudnancy_startTime :: timespec
  redudnancy_endTime :: timespec
  post_getMetaData_startTime :: timespec
  post_getMetaData_endTime :: timespec
  setMetaData_startTime :: timespec
  setMetaData_endTime :: timespec
  updateARB_startTime :: timespec
  updateARB_endTime :: timespec
  updateMRC_startTime :: timespec
  updateMRC_endTime :: timespec

text \<open>The file-scope variables of the measurement.\<close>

record updater_timers =
  flashImagetime :: "rtss_updater_flash_image_timer_t list"
  count_timer :: u32
  preboot_timer :: rtss_updater_preboot_image_timer_t
  postboot_timer :: rtss_updater_postboot_image_timer_t

definition KPI_MAX_IMAGES :: nat where "KPI_MAX_IMAGES = 6"

definition timers_zero :: updater_timers where
  "timers_zero = \<lparr>
     flashImagetime = replicate KPI_MAX_IMAGES \<lparr>ft_image = blank_row, ft_Length = 0, flash_startTime = no_time,
       flash_EndTime = no_time, readImage_startTime = no_time, readImage_EndTime = no_time\<rparr>,
     count_timer = 0,
     preboot_timer = \<lparr>pre_checkGPT_startTime = no_time, pre_checkGPT_endTime = no_time,
       getMetaInfo_startTime = no_time, getMetaInfo_endTime = no_time,
       pre_getMetaData_startTime = no_time, pre_getMetaData_endTime = no_time,
       pre_getBootInfo_startTime = no_time, pre_getBootInfo_endTime = no_time,
       updateGPT_startTime = no_time, updateGPT_endTime = no_time\<rparr>,
     postboot_timer = \<lparr>setOTAdone_startTime = no_time, setOTAdone_endTime = no_time,
       post_getBootInfo_startTime = no_time, post_getBootInfo_endTime = no_time,
       post_checkGPT_startTime = no_time, post_checkGPT_endTime = no_time,
       fixGPT_startTime = no_time, fixGPT_endTime = no_time,
       redudnancy_startTime = no_time, redudnancy_endTime = no_time,
       post_getMetaData_startTime = no_time, post_getMetaData_endTime = no_time,
       setMetaData_startTime = no_time, setMetaData_endTime = no_time,
       updateARB_startTime = no_time, updateARB_endTime = no_time,
       updateMRC_startTime = no_time, updateMRC_endTime = no_time\<rparr>\<rparr>"

section \<open>Lines of a report\<close>

text \<open>A line is a heading, one elapsed time, the flash time of one image, or the row of one image: its
  name, its length, its flash time, its throughput and, after the restart, its read time.\<close>

datatype kpi_line = Heading string | Elapsed string int | Flash_time "u8 list" int
  | Image_row "u8 list" u32 int "int \<times> int" "int option"

text \<open>The throughput is a \<open>float\<close> in the code: here it is the fraction that is rounded there.\<close>

definition rtss_updater_kb_per_sec :: "u32 \<Rightarrow> int \<Rightarrow> int \<times> int" where
  "rtss_updater_kb_per_sec sz elapsed_time =
     (if elapsed_time > 0 then (int (unat sz) * 1000, 1024 * elapsed_time) else (0, 1))"

text \<open>The stream of a report: the status, the lines it has received, and the world. After a failure
  nothing more is written.\<close>

type_synonym report = "int \<times> kpi_line list \<times> world"

fun rtss_updater_fprintf :: "platform \<Rightarrow> kpi_line \<Rightarrow> report \<Rightarrow> report" where
  "rtss_updater_fprintf p l (write_status, ls, w) =
     (if write_status < 0 then (write_status, ls, w)
      else case sys p Sys_fprintf w of (a, w) \<Rightarrow>
        if a_ret a < 0 then (a_ret a, ls, w) else (write_status, ls @ [l], w))"

definition flash_elapsed :: "rtss_updater_flash_image_timer_t \<Rightarrow> int" where
  "flash_elapsed t = Total_elapsedtime (flash_startTime t) (flash_EndTime t)"

definition recorded :: "updater_timers \<Rightarrow> rtss_updater_flash_image_timer_t list" where
  "recorded k = take (unat (count_timer k)) (flashImagetime k)"

definition preboot_report :: "updater_timers \<Rightarrow> kpi_line list" where
  "preboot_report k = (let t = preboot_timer k in
     [Heading ''Pre Boot KPI Value MeasureMent'', Heading ''Preboot Sequence'',
      Elapsed ''Total Preboot'' (Total_elapsedtime (pre_checkGPT_startTime t) (updateGPT_endTime t)),
      Elapsed ''Check GPT'' (Total_elapsedtime (pre_checkGPT_startTime t) (pre_checkGPT_endTime t)),
      Elapsed ''Get Meta Partition Info'' (Total_elapsedtime (getMetaInfo_startTime t) (getMetaInfo_endTime t)),
      Elapsed ''Get Meta Data'' (Total_elapsedtime (pre_getMetaData_startTime t) (pre_getMetaData_endTime t)),
      Elapsed ''Get Boot Info'' (Total_elapsedtime (pre_getBootInfo_startTime t) (pre_getBootInfo_endTime t))]
     @ map (\<lambda>i. Flash_time (cstr (ft_image i)) (flash_elapsed i)) (recorded k)
     @ [Elapsed ''Update GPT'' (Total_elapsedtime (updateGPT_startTime t) (updateGPT_endTime t)), Heading ''Image'']
     @ map (\<lambda>i. Image_row (cstr (ft_image i)) (ft_Length i) (flash_elapsed i)
              (rtss_updater_kb_per_sec (ft_Length i) (flash_elapsed i)) None) (recorded k))"

definition postboot_report :: "updater_timers \<Rightarrow> kpi_line list" where
  "postboot_report k = (let t = postboot_timer k in
     [Heading ''Post Boot KPI Value MeasureMent'', Heading ''Postboot Sequence'',
      Elapsed ''Total Postboot'' (Total_elapsedtime (setOTAdone_startTime t) (updateMRC_endTime t)),
      Elapsed ''Set OTA Done'' (Total_elapsedtime (setOTAdone_startTime t) (setOTAdone_endTime t)),
      Elapsed ''Get Boot Info'' (Total_elapsedtime (post_getBootInfo_startTime t) (post_getBootInfo_endTime t)),
      Elapsed ''Check GPT'' (Total_elapsedtime (post_checkGPT_startTime t) (post_checkGPT_endTime t)),
      Elapsed ''Fix GPT'' (Total_elapsedtime (fixGPT_startTime t) (fixGPT_endTime t)),
      Elapsed ''Redudnancy Establish'' (Total_elapsedtime (redudnancy_startTime t) (redudnancy_endTime t)),
      Elapsed ''Get Meta Data'' (Total_elapsedtime (post_getMetaData_startTime t) (post_getMetaData_endTime t)),
      Elapsed ''Set Meta Data'' (Total_elapsedtime (setMetaData_startTime t) (setMetaData_endTime t)),
      Elapsed ''Update ARB'' (Total_elapsedtime (updateARB_startTime t) (updateARB_endTime t)),
      Elapsed ''Update MRC'' (Total_elapsedtime (updateMRC_startTime t) (updateMRC_endTime t)),
      Heading ''Image'']
     @ map (\<lambda>i. Image_row (cstr (ft_image i)) (ft_Length i) (flash_elapsed i)
              (rtss_updater_kb_per_sec (ft_Length i) (flash_elapsed i))
              (Some (Total_elapsedtime (readImage_startTime i) (readImage_EndTime i)))) (recorded k))"

text \<open>Writing a report to the file at \<open>path\<close>: the lines it has received, if it could be opened. The
  codes of \<open>fflush\<close> and \<open>fclose\<close> are only logged.\<close>

definition write_report :: "platform \<Rightarrow> u8 list \<Rightarrow> kpi_line list \<Rightarrow> world \<Rightarrow> kpi_line list \<times> world" where
  "write_report p path ls w =
     (case sys p (Sys_fopen path) w of (a, w) \<Rightarrow>
        if a_ret a = 0 then ([], w)
        else case fold (rtss_updater_fprintf p) ls (0, [], w) of (write_status, out, w) \<Rightarrow>
          (out, snd (sys p Sys_fclose (snd (sys p Sys_fflush w)))))"

text \<open>The loops index arrays of six elements, one of them local; beyond them the access is outside.\<close>

definition rtss_updater_record_preboot_kpi_values ::
  "platform \<Rightarrow> bool \<Rightarrow> u8 list \<Rightarrow> updater_timers \<Rightarrow> world \<Rightarrow> (kpi_line list \<times> world) run" where
  "rtss_updater_record_preboot_kpi_values p kpiEnable kpipath k w =
     (if \<not> kpiEnable then Returns ([], w)
      else if a_ret (fst (sys p (Sys_fopen kpipath) w)) \<noteq> 0 \<and> KPI_MAX_IMAGES < unat (count_timer k) then Faults
      else Returns (write_report p kpipath (preboot_report k) w))"

definition rtss_updater_record_postboot_kpi_values ::
  "platform \<Rightarrow> bool \<Rightarrow> u8 list \<Rightarrow> updater_timers \<Rightarrow> world \<Rightarrow> (kpi_line list \<times> world) run" where
  "rtss_updater_record_postboot_kpi_values p kpiEnable kpipath k w =
     (if \<not> kpiEnable then Returns ([], w)
      else if a_ret (fst (sys p (Sys_fopen kpipath) w)) \<noteq> 0 \<and> KPI_MAX_IMAGES < unat (count_timer k) then Faults
      else Returns (write_report p kpipath (postboot_report k) w))"

end
