(* ===== verification/Updater_Seq.thy ===== *)
theory Updater_Seq
  imports Updater_Gpt Updater_Cmd_Props Updater_Kpi
begin

text \<open>
  The updater program, \<^verbatim>\<open>rtss_updater.c\<close>: the handler of responses, the checks of the boot
  information and the four command sequences. The file-scope variables are the members of
  \<open>updater\<close>; two members are added that no code reads: \<open>u_log\<close> records which files were loaded and which
  commands were issued, \<open>u_readings\<close> each reading of the clock, with the length of the log at that time
  and the result, if there was one. A sequence that is measured
  records the time around its commands (the timers are those of \<open>Updater_Kpi\<close>). A sequence stops with a failure
  at the first step that fails; it \<open>Blocks\<close> when a response never comes.
\<close>

section \<open>State\<close>

record rtss_updater_handshake_t =
  hs_msgId :: u32
  respStatus :: u32
  numImagesBoot :: u32
  numImagesDigest :: u32
  chkGptPrimSize :: u32
  chkGptSecSize :: u32
  rtssAddr :: u32
  primGptHeaderCrcStatus :: u32
  primGptEntryCrcStatus :: u32
  secGptHeaderCrcStatus :: u32
  secGptEntryCrcStatus :: u32
  primaryGptPartitionEntryCrc :: u32
  secondaryGptPartitionEntryCrc :: u32
  logicGuidASwapped :: u32
  rbtflsbufAddr :: u32
  rbtflsbufLen :: u32
  rbtflsbufCrc :: u32
  bootPartitionPass :: u32
  bootPartitionFail :: u32
  updImgEntryType :: "rtss_upd_image_entry_t list"
  gpthdr :: "u8 list"
  gptbufsz :: nat
  gptbuf :: "u8 list option"
  metadatapartitionsz :: u32

record rtss_updater_argopt_t =
  ImgParseInf :: rtss_updater_imgconfig_t
  imgPath :: "u8 list"
  otaCfgPath :: "u8 list"
  imgIdentifier :: "u8 list"
  kpipath :: "u8 list"
  restart :: u32
  a_partition :: u32
  skipConfigFile :: u32
  gpt_update :: "u8 list"
  ackstate :: u32
  rstskip :: u32
  kpiEnable :: bool

text \<open>The path of the report runs on into the next member if it fills its array.\<close>

definition kpi_file :: "rtss_updater_argopt_t \<Rightarrow> u8 list" where
  "kpi_file a = cstr (kpipath a @ bytes32 (restart a))"

text \<open>What is recorded: a command that was issued, which is one of the requests or the writing of a table,
  and the loading of an image file.\<close>

datatype issued = Request request | Write_gpt u8 | Load_file "u8 list"

record updater =
  u_args :: rtss_updater_argopt_t
  u_hndshk :: rtss_updater_handshake_t
  u_memhandle :: rtss_updater_memctx_t
  u_globals :: upd_globals
  u_lib :: rtss_upd_lib_handle
  u_frames :: "addr \<times> addr"
  u_timers :: updater_timers
  u_world :: world
  u_log :: "issued list"
  u_readings :: "(nat \<times> timespec option) list"

definition env_of :: "updater \<Rightarrow> upd_env" where
  "env_of st = \<lparr>e_tx = rtss_updater_tx_client_data (u_globals st), e_rx = rtss_updater_rx_client_data (u_globals st),
     e_txmsg = fst (u_frames st), e_rxmsg = snd (u_frames st)\<rparr>"

section \<open>Responses\<close>

text \<open>What a response changes, by the identifier of its message.\<close>

definition metadata_members :: "rtss_upd_msg_header_t \<Rightarrow> rtss_updater_handshake_t \<Rightarrow> rtss_updater_handshake_t" where
  "metadata_members x hs =
     (if msgId x = RTSS_UPD_MSG_GET_OTA_METADATAINFO then hs\<lparr>metadatapartitionsz := get32 0 (body x)\<rparr>
      else if msgId x = RTSS_UPD_MSG_GET_IMAGE_DIGEST then hs\<lparr>numImagesDigest := get32 0 (body x)\<rparr>
      else hs)"

definition response_members :: "rtss_upd_msg_header_t \<Rightarrow> rtss_updater_handshake_t \<Rightarrow> rtss_updater_handshake_t" where
  "response_members x hs =
     (let i = msgId x; b = body x
      in if i = RTSS_UPD_MSG_CHECK_GPT
         then hs\<lparr>chkGptPrimSize := get32 8 b, chkGptSecSize := get32 20 b,
                 primaryGptPartitionEntryCrc := get32 24 b, secondaryGptPartitionEntryCrc := get32 28 b\<rparr>
         else if i = RTSS_UPD_MSG_QUERY_IMAGES then hs\<lparr>numImagesBoot := get32 0 b\<rparr>
         else if i = RTSS_UPD_MSG_READ_IMAGE
         then hs\<lparr>rbtflsbufAddr := get32 40 b, rbtflsbufLen := get32 44 b, rbtflsbufCrc := get32 48 b\<rparr>
         else if i = RTSS_UPD_MSG_GET_BOOTINFO
         then hs\<lparr>numImagesBoot := get32 24 b, rtssAddr := get32 28 b,
                 primGptHeaderCrcStatus := get32 0 b, primGptEntryCrcStatus := get32 4 b,
                 secGptHeaderCrcStatus := get32 12 b, secGptEntryCrcStatus := get32 16 b,
                 primaryGptPartitionEntryCrc := get32 40 b, secondaryGptPartitionEntryCrc := get32 44 b,
                 logicGuidASwapped := (if bit (get32 48 b) 7 then 1 else 0)\<rparr>
         else metadata_members x hs)"

text \<open>Status and identifier are taken before the checksum is verified.\<close>

definition accept_response :: "rtss_upd_msg_header_t \<Rightarrow> rtss_updater_handshake_t \<Rightarrow> rtss_updater_handshake_t" where
  "accept_response RxMsg hs =
     (let hs = hs\<lparr>respStatus := status RxMsg, hs_msgId := msgId RxMsg\<rparr>;
          bckCrc = headerCrc RxMsg;
          RxMsg = RxMsg\<lparr>headerCrc := 0\<rparr>
      in if rtss_upd_verify_crc32 bckCrc (Some (msg_bytes RxMsg)) \<noteq> RTSS_UPD_E_OK then hs
         else response_members RxMsg hs)"

definition rtss_updater_cbk_notify_handler :: "platform \<Rightarrow> updater \<Rightarrow> updater run" where
  "rtss_updater_cbk_notify_handler p st =
     (case rtss_upd_read_msg p (Some zero_msg) (e_rxmsg (env_of st)) (e_rx (env_of st)) (u_world st) of
        None \<Rightarrow> Blocks
      | Some ((r, x), w) \<Rightarrow>
          let st = st\<lparr>u_world := w\<rparr>
          in if r \<noteq> RTSS_UPD_E_OK then Returns st
             else Returns (st\<lparr>u_hndshk := accept_response (the x) (u_hndshk st)\<rparr>))"

section \<open>Boot information\<close>

fun partition_status_loop ::
  "nat \<Rightarrow> nat \<Rightarrow> rtss_updater_handshake_t \<Rightarrow> (u32 \<times> rtss_updater_handshake_t) run" where
  "partition_status_loop k 0 hs = Returns (EXIT_SUCCESS, hs)"
| "partition_status_loop k (Suc n) hs =
     (if k \<ge> length (updImgEntryType hs) then Faults
      else let b = ie_bootPartition (updImgEntryType hs ! k)
           in if b = 0 \<or> b = 2
              then partition_status_loop (Suc k) n (hs\<lparr>bootPartitionPass := bootPartitionPass hs + 1\<rparr>)
              else if b = 1
              then partition_status_loop (Suc k) n (hs\<lparr>bootPartitionFail := bootPartitionFail hs + 1\<rparr>)
              else Returns (EXIT_FAILURE, hs))"

definition rtss_updater_get_bl_partition_status ::
  "rtss_updater_handshake_t \<Rightarrow> (u32 \<times> rtss_updater_handshake_t) run" where
  "rtss_updater_get_bl_partition_status hs =
     (if numImagesBoot hs = 0 then Returns (EXIT_FAILURE, hs)
      else partition_status_loop 0 (unat (numImagesBoot hs)) hs)"

definition rtss_updater_validate_boot_info :: "rtss_updater_handshake_t \<Rightarrow> u32" where
  "rtss_updater_validate_boot_info hs =
     (if primGptEntryCrcStatus hs = 1 \<and> primGptHeaderCrcStatus hs = 1
         \<and> secGptEntryCrcStatus hs = 1 \<and> secGptHeaderCrcStatus hs = 1
      then if bootPartitionFail hs > 0 then EXIT_FAILURE
           else if numImagesBoot hs = bootPartitionPass hs then EXIT_SUCCESS else EXIT_FAILURE
      else EXIT_FAILURE)"

section \<open>Steps of a sequence\<close>

type_synonym steps = "updater \<Rightarrow> (u32 \<times> updater) run"

text \<open>Every step that does not succeed makes the sequence fail.\<close>

definition after :: "(u32 \<times> updater) run \<Rightarrow> steps \<Rightarrow> (u32 \<times> updater) run" where
  "after r k = (case r of Blocks \<Rightarrow> Blocks | Faults \<Rightarrow> Faults
     | Returns (ret, st) \<Rightarrow> if ret = EXIT_SUCCESS then k st else Returns (EXIT_FAILURE, st))"

definition await_response :: "platform \<Rightarrow> steps" where
  "await_response p st =
     (case rtss_updater_cbk_notify_handler p st of Blocks \<Rightarrow> Blocks | Faults \<Rightarrow> Faults
      | Returns st \<Rightarrow> Returns (if respStatus (u_hndshk st) \<noteq> 0 then EXIT_FAILURE else EXIT_SUCCESS, st))"

definition exchange :: "platform \<Rightarrow> request \<Rightarrow> steps" where
  "exchange p q st =
     (case run_request p (env_of st) q (u_world st) of (ret, w) \<Rightarrow>
        after (Returns (ret, st\<lparr>u_world := w, u_log := u_log st @ [Request q]\<rparr>)) (await_response p))"

section \<open>Measured exchanges\<close>

text \<open>The time is stored at the place \<open>tp\<close>, a setter, if the clock could be read.\<close>

definition rtss_updater_clock_get_time ::
  "platform \<Rightarrow> ((timespec \<Rightarrow> timespec) \<Rightarrow> updater_timers \<Rightarrow> updater_timers) \<Rightarrow> updater \<Rightarrow> updater" where
  "rtss_updater_clock_get_time p tp st =
     (if kpiEnable (u_args st)
      then case sys p Sys_clock_gettime (u_world st) of (a, w) \<Rightarrow>
        if a_ret a = -1 then st\<lparr>u_world := w, u_readings := u_readings st @ [(length (u_log st), None)]\<rparr>
        else let t = \<lparr>tv_sec = sint (a_addr a), tv_nsec = int (a_size a)\<rparr>
          in st\<lparr>u_world := w, u_timers := tp (\<lambda>_. t) (u_timers st),
               u_readings := u_readings st @ [(length (u_log st), Some t)]\<rparr>
      else st)"

definition preboot_at where
  "preboot_at f t = preboot_timer_update (f t)" for f :: "(timespec \<Rightarrow> timespec) \<Rightarrow>
     rtss_updater_preboot_image_timer_t \<Rightarrow> rtss_updater_preboot_image_timer_t"

definition postboot_at where
  "postboot_at f t = postboot_timer_update (f t)" for f :: "(timespec \<Rightarrow> timespec) \<Rightarrow>
     rtss_updater_postboot_image_timer_t \<Rightarrow> rtss_updater_postboot_image_timer_t"

text \<open>The timer of the image at hand.\<close>

definition image_at where
  "image_at f t k = (let c = unat (count_timer k) in
     k\<lparr>flashImagetime := (flashImagetime k)[c := f t (flashImagetime k ! c)]\<rparr>)" for f :: "(timespec \<Rightarrow> timespec) \<Rightarrow>
     rtss_updater_flash_image_timer_t \<Rightarrow> rtss_updater_flash_image_timer_t"

definition timed ::
  "platform \<Rightarrow> ((timespec \<Rightarrow> timespec) \<Rightarrow> updater_timers \<Rightarrow> updater_timers) \<Rightarrow>
   ((timespec \<Rightarrow> timespec) \<Rightarrow> updater_timers \<Rightarrow> updater_timers) \<Rightarrow> request \<Rightarrow> steps" where
  "timed p start stop q st =
     after (exchange p q (rtss_updater_clock_get_time p start st)) (\<lambda>st.
       Returns (EXIT_SUCCESS, rtss_updater_clock_get_time p stop st))"

text \<open>The name and the length of the image at hand. Beyond the array the access is outside; the times
  stored afterwards go to the same element.\<close>

definition store_image :: "u8 list \<Rightarrow> u32 \<Rightarrow> steps" where
  "store_image img len st =
     (if \<not> kpiEnable (u_args st) then Returns (EXIT_SUCCESS, st)
      else let k = u_timers st; c = unat (count_timer k); t = flashImagetime k ! c
      in if c \<ge> length (flashImagetime k) then Faults
         else Returns (EXIT_SUCCESS, st\<lparr>u_timers := k\<lparr>flashImagetime := (flashImagetime k)[c :=
           t\<lparr>ft_image := mcpy_member (take RTSS_UPD_IMG_NAME_LEN (ft_image t)) img @ drop RTSS_UPD_IMG_NAME_LEN (ft_image t),
              ft_Length := len\<rparr>]\<rparr>\<rparr>))"

definition next_image :: "updater \<Rightarrow> updater" where
  "next_image st = (if kpiEnable (u_args st)
     then st\<lparr>u_timers := (u_timers st)\<lparr>count_timer := count_timer (u_timers st) + 1\<rparr>\<rparr> else st)"

definition timed_flash :: "platform \<Rightarrow> u8 list \<Rightarrow> u32 \<Rightarrow> request \<Rightarrow> steps" where
  "timed_flash p img len q st =
     after (store_image img len st) (\<lambda>st.
     after (timed p (image_at flash_startTime_update) (image_at flash_EndTime_update) q st) (\<lambda>st.
     Returns (EXIT_SUCCESS, next_image st)))"

definition report_step ::
  "(platform \<Rightarrow> bool \<Rightarrow> u8 list \<Rightarrow> updater_timers \<Rightarrow> world \<Rightarrow> (kpi_line list \<times> world) run) \<Rightarrow> platform \<Rightarrow> steps" where
  "report_step f p st =
     (case f p (kpiEnable (u_args st)) (kpi_file (u_args st)) (u_timers st) (u_world st) of
        Blocks \<Rightarrow> Blocks | Faults \<Rightarrow> Faults
      | Returns (_, w) \<Rightarrow> Returns (EXIT_SUCCESS, st\<lparr>u_world := w\<rparr>))"

section \<open>Steps shared by the sequences\<close>

definition on_mem :: "(mem \<Rightarrow> u32 \<times> mem) \<Rightarrow> steps" where
  "on_mem f st = (case f (w_mem (u_world st)) of (ret, m) \<Rightarrow> Returns (ret, st\<lparr>u_world := (u_world st)\<lparr>w_mem := m\<rparr>\<rparr>))"

definition clear_buffer :: "nat \<Rightarrow> updater \<Rightarrow> updater" where
  "clear_buffer n st = st\<lparr>u_world := (u_world st)\<lparr>w_mem :=
     rtss_updater_mset (w_mem (u_world st)) (mc_pVa (u_memhandle st)) 0 n\<rparr>\<rparr>"

definition images :: "updater \<Rightarrow> rtss_updater_imgconfig_t" where
  "images st = ImgParseInf (u_args st)"

text \<open>The boot information: the names are put into the buffer and sent, the answer is taken from the
  buffer and checked. How the command is issued, measured or not, is the argument \<open>issue\<close>.\<close>

definition boot_info_request :: "(request \<Rightarrow> steps) \<Rightarrow> steps" where
  "boot_info_request issue st =
     (let pVa = mc_pVa (u_memhandle st); sVa = mc_sVa (u_memhandle st); bufCrc = 0 in
      after (on_mem (rtss_updater_populate_bl_info_context (Some (images st)) pVa) st) (\<lambda>st.
      let n = word_of_int (numberOfImages (images st)); bufLen = n * sizeof_image_entry in
      issue (Get_bl_info n bufLen bufCrc sVa pVa) st))"

definition boot_info_check :: steps where
  "boot_info_check st =
     (let hs = u_hndshk st in
      after (case rtss_updater_get_bl_info_context (Some (updImgEntryType hs)) (mc_pVa (u_memhandle st))
                    (numImagesBoot hs) (w_mem (u_world st)) of
               Blocks \<Rightarrow> Blocks | Faults \<Rightarrow> Faults
             | Returns (ret, xs) \<Rightarrow> Returns (ret, st\<lparr>u_hndshk := hs\<lparr>updImgEntryType := the xs\<rparr>\<rparr>)) (\<lambda>st.
      after (case rtss_updater_get_bl_partition_status (u_hndshk st) of
               Blocks \<Rightarrow> Blocks | Faults \<Rightarrow> Faults
             | Returns (ret, hs) \<Rightarrow> Returns (ret, st\<lparr>u_hndshk := hs\<rparr>)) (\<lambda>st.
      Returns (rtss_updater_validate_boot_info (u_hndshk st), st))))"

definition boot_info_steps :: "(request \<Rightarrow> steps) \<Rightarrow> steps" where
  "boot_info_steps issue st = after (boot_info_request issue st) boot_info_check"

text \<open>Loading an image and flashing it. The size is stored in a \<open>uint32_t\<close>, so that only the value
  zero is seen as a failure.\<close>

definition flash_file ::
  "platform \<Rightarrow> (u8 list \<Rightarrow> u32 \<Rightarrow> request \<Rightarrow> steps) \<Rightarrow> u8 list \<Rightarrow> u8 list \<Rightarrow> u32 \<Rightarrow> u32 \<Rightarrow> u32 \<Rightarrow> steps" where
  "flash_file p issue img path part flashtype rebootState st =
     (let pVa = mc_pVa (u_memhandle st); sVa = mc_sVa (u_memhandle st); gpt = 0; bufCrc = 0 in
      case rtss_updater_loadfile p (Some path) pVa (unat rtss_upd_get_cache_line_sz) (u_world st) of
        (loaded, w) \<Rightarrow>
          let st = st\<lparr>u_world := w, u_log := u_log st @ [Load_file path]\<rparr>; bufLen = (word_of_int loaded :: u32)
          in if bufLen = 0 then Returns (EXIT_FAILURE, st)
             else issue img bufLen (Flashimg (Some img) gpt part sVa bufLen bufCrc flashtype pVa rebootState) st)"

text \<open>One image after the other, \<open>n\<close> from \<open>i\<close> on.\<close>

fun flash_files ::
  "platform \<Rightarrow> (u8 list \<Rightarrow> u32 \<Rightarrow> request \<Rightarrow> steps) \<Rightarrow> u32 \<Rightarrow> u32 \<Rightarrow> u32 \<Rightarrow> nat \<Rightarrow> nat \<Rightarrow> steps" where
  "flash_files p issue part flashtype rebootState i 0 st = Returns (EXIT_SUCCESS, st)"
| "flash_files p issue part flashtype rebootState i (Suc n) st =
     after (flash_file p issue (name_str (images st) i) (path_str (images st) i) part flashtype rebootState st)
       (flash_files p issue part flashtype rebootState (Suc i) n)"

section \<open>Sequence before the restart\<close>

text \<open>The metadata information and the metadata, read at the start of two sequences. The buffer is
  cleared before the metadata are read into it.\<close>

definition metadata_steps :: "(request \<Rightarrow> steps) \<Rightarrow> (request \<Rightarrow> steps) \<Rightarrow> steps" where
  "metadata_steps issue_info issue_data st =
     after (issue_info Get_metadata_info st) (\<lambda>st.
       let bufLen = rtss_updater_alignnum 1 16 (metadatapartitionsz (u_hndshk st))
       in issue_data (Get_metadata (mc_sVa (u_memhandle st)) bufLen) (clear_buffer (unat bufLen) st))"

definition RTSS_UPDATER_CFG_UPDATEGPT_WORKBUF_SZ :: u32 where "RTSS_UPDATER_CFG_UPDATEGPT_WORKBUF_SZ = 0x6000"

definition update_gpt_steps :: "platform \<Rightarrow> steps" where
  "update_gpt_steps p st =
     (let pVa = mc_pVa (u_memhandle st); sVa = mc_sVa (u_memhandle st); gpt = 0; bufCrc = 0;
          n = word_of_int (numberOfImages (images st));
          bufLen = n * sizeof_update_gpt_entry + RTSS_UPDATER_CFG_UPDATEGPT_WORKBUF_SZ
      in after (on_mem (rtss_updater_populate_gpt_update_context (Some (images st)) pVa) st)
           (timed p (preboot_at updateGPT_startTime_update) (preboot_at updateGPT_endTime_update)
             (Updategpt n gpt sVa bufLen bufCrc pVa)))"

definition preboot_check_steps :: "platform \<Rightarrow> steps" where
  "preboot_check_steps p st =
     after (timed p (preboot_at pre_checkGPT_startTime_update) (preboot_at pre_checkGPT_endTime_update) Chkgpt st)
       (metadata_steps
          (timed p (preboot_at getMetaInfo_startTime_update) (preboot_at getMetaInfo_endTime_update))
          (timed p (preboot_at pre_getMetaData_startTime_update) (preboot_at pre_getMetaData_endTime_update)))"

definition preboot_boot_info :: "platform \<Rightarrow> request \<Rightarrow> steps" where
  "preboot_boot_info p = timed p (preboot_at pre_getBootInfo_startTime_update) (preboot_at pre_getBootInfo_endTime_update)"

definition rtss_updater_preboot_demosequence :: "platform \<Rightarrow> steps" where
  "rtss_updater_preboot_demosequence p st =
     (let flashtype = 2; part = 1 in
      after (preboot_check_steps p st) (\<lambda>st.
      after (boot_info_steps (preboot_boot_info p) st) (\<lambda>st.
      after (flash_files p (timed_flash p) part flashtype (restart (u_args st)) 0 (nat (numberOfPaths (images st))) st) (\<lambda>st.
      after (update_gpt_steps p st) (\<lambda>st.
      after (report_step rtss_updater_record_preboot_kpi_values p st) (\<lambda>st.
      Returns (EXIT_SUCCESS,
        if rstskip (u_args st) = 0
        then st\<lparr>u_world := snd (sys p (Sys_system (ascii ''reboot'')) (u_world st))\<rparr> else st)))))))"

section \<open>Sequence after the restart\<close>

text \<open>Every image is read from the primary partition and written to the secondary one; address,
  length and checksum are those of the response.\<close>

definition copy_image :: "platform \<Rightarrow> nat \<Rightarrow> steps" where
  "copy_image p i st =
     (if i \<ge> length (updImgEntryType (u_hndshk st)) then Faults
      else let pVa = mc_pVa (u_memhandle st); sVa = mc_sVa (u_memhandle st);
               bufLen = ie_partitionSizeA (updImgEntryType (u_hndshk st) ! i);
               rpartition = 0; rgpt = 0; part = 1; gpt = 0; flashtype = 1
      in after (store_image (name_str (images st) i) bufLen st) (\<lambda>st.
         after (timed p (image_at readImage_startTime_update) (image_at readImage_EndTime_update)
                  (Readimg (Some (name_str (images st) i)) rpartition rgpt sVa bufLen) st) (\<lambda>st.
         let hs = u_hndshk st in
         after (timed p (image_at flash_startTime_update) (image_at flash_EndTime_update)
                  (Flashimg (Some (name_str (images st) i)) gpt part (rbtflsbufAddr hs)
                  (rbtflsbufLen hs) (rbtflsbufCrc hs) flashtype pVa (restart (u_args st))) st) (\<lambda>st.
         Returns (EXIT_SUCCESS, next_image st)))))"

fun copy_images :: "platform \<Rightarrow> nat \<Rightarrow> nat \<Rightarrow> steps" where
  "copy_images p i 0 st = Returns (EXIT_SUCCESS, st)"
| "copy_images p i (Suc n) st = after (copy_image p i st) (copy_images p (Suc i) n)"

definition postboot_boot_info :: "platform \<Rightarrow> request \<Rightarrow> steps" where
  "postboot_boot_info p = timed p (postboot_at post_getBootInfo_startTime_update) (postboot_at post_getBootInfo_endTime_update)"

text \<open>What follows the copies: the table, the redundancy, the metadata and the anti-rollback data.\<close>

definition postboot_fix_steps :: "platform \<Rightarrow> steps" where
  "postboot_fix_steps p st =
     (let sVa = mc_sVa (u_memhandle st); gpt = 0; fixtype = 1;
          bufLen = rtss_updater_alignnum 2 16 (chkGptPrimSize (u_hndshk st)) in
      after (timed p (postboot_at fixGPT_startTime_update) (postboot_at fixGPT_endTime_update)
               (Fixgpt gpt sVa bufLen fixtype) st)
        (timed p (postboot_at redudnancy_startTime_update) (postboot_at redudnancy_endTime_update)
               (Redundancy_established 0 0 0 0)))"

definition postboot_metadata_steps :: "platform \<Rightarrow> steps" where
  "postboot_metadata_steps p st =
     (let pVa = mc_pVa (u_memhandle st); sVa = mc_sVa (u_memhandle st); bufCrc = 0 in
      after (timed p (postboot_at post_getMetaData_startTime_update) (postboot_at post_getMetaData_endTime_update)
               Get_metadata_info st) (\<lambda>st.
      let bufLen = rtss_updater_alignnum 1 16 (metadatapartitionsz (u_hndshk st)) in
      after (timed p (postboot_at setMetaData_startTime_update) (postboot_at setMetaData_endTime_update)
               (Set_metadata sVa bufLen bufCrc pVa) st)
        (timed p (postboot_at updateARB_startTime_update) (postboot_at updateARB_endTime_update)
               (Update_arb 0 0 0 0))))"

definition rtss_updater_postboot_demosequence :: "platform \<Rightarrow> steps" where
  "rtss_updater_postboot_demosequence p st =
     after (timed p (postboot_at setOTAdone_startTime_update) (postboot_at setOTAdone_endTime_update)
              (Ota_done 0 0 0 0) st) (\<lambda>st.
     if ackstate (u_args st) = 1 then Returns (EXIT_SUCCESS, st) else
     after (boot_info_steps (postboot_boot_info p) st) (\<lambda>st.
     after (timed p (postboot_at post_checkGPT_startTime_update) (postboot_at post_checkGPT_endTime_update) Chkgpt st) (\<lambda>st.
     after (copy_images p 0 (nat (numberOfImages (images st))) st) (\<lambda>st.
     after (postboot_fix_steps p st) (\<lambda>st.
     after (postboot_metadata_steps p st)
       (report_step rtss_updater_record_postboot_kpi_values p))))))"

section \<open>The flasher\<close>

definition RTSS_UPDATER_ERROR :: u32 where "RTSS_UPDATER_ERROR = 101"

text \<open>The banks to flash: the first one and the one to stop before.\<close>

definition flash_banks :: "u32 \<Rightarrow> (u32 \<times> u32) option" where
  "flash_banks arg = (if arg = RTSS_UPDATER_ERROR then Some (0, 2) else if arg = 0 then Some (0, 1)
     else if arg = 1 then Some (1, 2) else None)"

fun each_bank :: "(u32 \<Rightarrow> steps) \<Rightarrow> u32 \<Rightarrow> nat \<Rightarrow> steps" where
  "each_bank f bank 0 st = Returns (EXIT_SUCCESS, st)"
| "each_bank f bank (Suc n) st = after (f bank st) (each_bank f (bank + 1) n)"

definition use_images :: "rtss_updater_imgconfig_t \<Rightarrow> updater \<Rightarrow> updater" where
  "use_images c st = st\<lparr>u_args := (u_args st)\<lparr>ImgParseInf := c\<rparr>\<rparr>"

definition flash_one_image :: "platform \<Rightarrow> u32 \<Rightarrow> u32 \<Rightarrow> steps" where
  "flash_one_image p startBank stopBank st =
     (if cstr (imgPath (u_args st)) = [] \<or> cstr (imgIdentifier (u_args st)) = [] then Returns (EXIT_FAILURE, st)
      else each_bank (\<lambda>bank. flash_file p (\<lambda>_ _. exchange p) (imgIdentifier (u_args st)) (cstr (imgPath (u_args st))) bank 1 0)
             startBank (unat (stopBank - startBank)) st)"

definition flash_config_images :: "platform \<Rightarrow> u32 \<Rightarrow> u32 \<Rightarrow> steps" where
  "flash_config_images p startBank stopBank st =
     (case rtss_updater_get_img_parse_info p (Some (images st)) (Some (cstr (otaCfgPath (u_args st)))) (u_world st) of
        ((ret, c), w) \<Rightarrow>
          after (Returns (ret, use_images (the c) (st\<lparr>u_world := w\<rparr>))) (\<lambda>st.
            each_bank (\<lambda>bank st. flash_files p (\<lambda>_ _. exchange p) bank 1 0 0 (nat (numberOfPaths (images st))) st)
              startBank (unat (stopBank - startBank)) st))"

definition rtss_updater_devprog_flasher :: "platform \<Rightarrow> steps" where
  "rtss_updater_devprog_flasher p st =
     after (exchange p Chkgpt st) (\<lambda>st.
     after (metadata_steps (exchange p) (exchange p) st) (\<lambda>st.
     after (case rtss_updater_get_img_info_default (Some (images st)) of
              (ret, c) \<Rightarrow> Returns (ret, use_images (the c) st)) (\<lambda>st.
     after (boot_info_steps (exchange p) st) (\<lambda>st.
     case flash_banks (a_partition (u_args st)) of None \<Rightarrow> Returns (EXIT_FAILURE, st)
     | Some (startBank, stopBank) \<Rightarrow>
         if skipConfigFile (u_args st) = 1 then flash_one_image p startBank stopBank st
         else flash_config_images p startBank stopBank st))))"

section \<open>Sequence for a new partition table\<close>

definition gpt_read_steps :: "platform \<Rightarrow> steps" where
  "gpt_read_steps p st =
     (let gpt = 0; pVa = mc_pVa (u_memhandle st); sVa = mc_sVa (u_memhandle st);
          bufLen = rtss_updater_alignnum 1 16 (chkGptPrimSize (u_hndshk st))
      in after (exchange p (Readgpt gpt sVa bufLen pVa) (clear_buffer (unat bufLen) st)) (\<lambda>st.
         case rtss_updater_get_gpthdr (w_mem (u_world st)) pVa (Some (gpthdr (u_hndshk st))) of
           (ret, h) \<Rightarrow> Returns (ret, st\<lparr>u_hndshk := (u_hndshk st)\<lparr>gpthdr := the h\<rparr>\<rparr>)))"

text \<open>The block of an earlier run is freed; the new one is kept for the write.\<close>

definition gpt_modify_step :: "platform \<Rightarrow> steps" where
  "gpt_modify_step p st =
     (let w = (case gptbuf (u_hndshk st) of None \<Rightarrow> u_world st | Some _ \<Rightarrow> snd (sys p Sys_free (u_world st)))
      in case rtss_updater_modifygpt p (Some (cstr (gpt_update (u_args st)))) (Some (gpthdr (u_hndshk st))) w of
           Blocks \<Rightarrow> Blocks | Faults \<Rightarrow> Faults
         | Returns ((buf, sz), w) \<Rightarrow>
             let hs = u_hndshk st;
                 hs = hs\<lparr>gptbuf := buf, gptbufsz := (case sz of None \<Rightarrow> gptbufsz hs | Some n \<Rightarrow> n)\<rparr>
             in Returns (if buf = None then EXIT_FAILURE else EXIT_SUCCESS, st\<lparr>u_world := w, u_hndshk := hs\<rparr>))"

definition gpt_write_step :: "platform \<Rightarrow> steps" where
  "gpt_write_step p st =
     (let gpt = 0; bufCrc = 0; pVa = mc_pVa (u_memhandle st); sVa = mc_sVa (u_memhandle st);
          bufLen = (of_nat (gptbufsz (u_hndshk st)) :: u32);
          st = clear_buffer (unat bufLen) st
      in case rtss_updater_writegpt p (env_of st) gpt (gptbuf (u_hndshk st)) sVa bufLen bufCrc pVa (u_world st) of
           Blocks \<Rightarrow> Blocks | Faults \<Rightarrow> Faults
         | Returns ((ret, buf), w) \<Rightarrow>
             after (Returns (ret, st\<lparr>u_world := w, u_log := u_log st @ [Write_gpt gpt],
                u_hndshk := (u_hndshk st)\<lparr>gptbuf := buf\<rparr>\<rparr>)) (await_response p))"

definition rtss_updater_image_update_gpt :: "platform \<Rightarrow> steps" where
  "rtss_updater_image_update_gpt p st =
     after (exchange p Chkgpt st) (\<lambda>st.
     after (gpt_read_steps p st) (\<lambda>st.
     after (gpt_modify_step p st) (\<lambda>st.
     after (gpt_write_step p st) (\<lambda>st.
     let gpt = 1; fixtype = 1; bufLen = rtss_updater_alignnum 2 16 (chkGptPrimSize (u_hndshk st))
     in exchange p (Fixgpt gpt (mc_sVa (u_memhandle st)) bufLen fixtype) st))))"

section \<open>Set-up and exit\<close>

definition rtss_updater_mem_ctx_init :: "platform \<Rightarrow> steps" where
  "rtss_updater_mem_ctx_init p st =
     (case rtss_updater_mem_init p (Some (u_memhandle st)) (u_globals st) (u_world st) of
        ((ret, c, g), w) \<Rightarrow>
          after (Returns (ret, st\<lparr>u_memhandle := the c, u_globals := g, u_world := w\<rparr>)) (\<lambda>st.
            case rtss_upd_is_ready p (env_of st) RTSS_UPD_MODE_SP_SCALL (u_lib st) (u_world st) of
              None \<Rightarrow> Blocks
            | Some (ok, s, w) \<Rightarrow>
                Returns (if ok then EXIT_SUCCESS else EXIT_FAILURE, st\<lparr>u_lib := s, u_world := w\<rparr>)))"

definition rtss_updater_mem_ctx_deinit :: "platform \<Rightarrow> updater \<Rightarrow> u32 \<times> updater" where
  "rtss_updater_mem_ctx_deinit p st =
     (case rtss_updater_mem_deinit p (Some (u_memhandle st)) (u_globals st) (u_world st) of
        ((ret, g), w) \<Rightarrow> (if ret \<noteq> EXIT_SUCCESS then EXIT_FAILURE else EXIT_SUCCESS,
                          st\<lparr>u_globals := g, u_world := w\<rparr>))"

text \<open>The handler of the two signals; the program ends with the code in the result.\<close>

definition rtss_updater_exit_handler :: "platform \<Rightarrow> updater \<Rightarrow> u32 \<times> updater" where
  "rtss_updater_exit_handler p st =
     (case rtss_upd_release_ota_buffer p (rtss_updater_mmap_data (u_globals st))
             (rtss_ota_ctx (u_globals st)) (u_world st) of
        ((_, d, ctx), w) \<Rightarrow> (EXIT_SUCCESS, st\<lparr>u_world := w,
           u_globals := (u_globals st)\<lparr>rtss_updater_mmap_data := d, rtss_ota_ctx := ctx\<rparr>\<rparr>))"

section \<open>The command line\<close>

text \<open>\<open>atoi\<close> for arguments in the range of \<open>int\<close>.\<close>

fun digits :: "int \<Rightarrow> u8 list \<Rightarrow> int" where
  "digits n [] = n"
| "digits n (c # s) = (if 48 \<le> c \<and> c \<le> 57 then digits (10 * n + uint (c - 48)) s else n)"

definition atoi :: "u8 list \<Rightarrow> int" where
  "atoi s = (case dropWhile (\<lambda>c. c = 32 \<or> (9 \<le> c \<and> c \<le> 13)) (cstr s) of [] \<Rightarrow> 0
     | c # t \<Rightarrow> if c = 45 then - digits 0 t else if c = 43 then digits 0 t else digits 0 (c # t))"

text \<open>What \<open>getopt_long\<close> returns, one after the other: the option and its argument. The option \<open>j\<close>
  names the file of the time measurements, which are made if it can be opened.\<close>

datatype opt = Opt_r "u8 list option" | Opt_p "u8 list option" | Opt_c "u8 list option"
  | Opt_g "u8 list option" | Opt_f "u8 list option" | Opt_i "u8 list option"
  | Opt_ackstate | Opt_rstskip | Opt_kpi "u8 list option" | Opt_help | Opt_unknown

text \<open>The copy of a path; \<open>EXIT_FAILURE\<close> is compared with the number of bytes copied.\<close>

definition copy_arg :: "nat \<Rightarrow> u8 list \<Rightarrow> bool \<times> u8 list" where
  "copy_arg room arg = (let n = min room (length (cstr arg))
     in (int n \<noteq> uint EXIT_FAILURE, take n (cstr arg) @ drop n blank_row))"

definition number_arg :: "u8 list \<Rightarrow> u32" where
  "number_arg arg = word_of_int (atoi arg)"

definition plain_opt :: "opt \<Rightarrow> rtss_updater_argopt_t \<Rightarrow> bool \<times> rtss_updater_argopt_t" where
  "plain_opt x a =
     (case x of
        Opt_r (Some arg) \<Rightarrow> (number_arg arg \<le> 2, a\<lparr>restart := number_arg arg\<rparr>)
      | Opt_p (Some arg) \<Rightarrow> (number_arg arg \<le> 1, a\<lparr>a_partition := number_arg arg\<rparr>)
      | Opt_c (Some arg) \<Rightarrow> (case copy_arg (RTSS_UPDATER_CFG_MAX_IMAGEPATH_LEN - 1) arg of (ok, row) \<Rightarrow> (ok, a\<lparr>otaCfgPath := row\<rparr>))
      | Opt_g (Some arg) \<Rightarrow> (case copy_arg (RTSS_UPDATER_CFG_MAX_IMAGEPATH_LEN - 1) arg of (ok, row) \<Rightarrow> (ok, a\<lparr>gpt_update := row\<rparr>))
      | Opt_f (Some arg) \<Rightarrow> (case copy_arg RTSS_UPDATER_CFG_MAX_IMAGEPATH_LEN arg of (ok, row) \<Rightarrow>
          (ok, a\<lparr>skipConfigFile := 1, imgPath := row\<rparr>))
      | Opt_i (Some arg) \<Rightarrow> (case copy_arg RTSS_UPDATER_CFG_MAX_IMAGEPATH_LEN arg of (ok, row) \<Rightarrow> (ok, a\<lparr>imgIdentifier := row\<rparr>))
      | Opt_ackstate \<Rightarrow> (True, a\<lparr>ackstate := 1\<rparr>)
      | Opt_rstskip \<Rightarrow> (True, a\<lparr>rstskip := 1\<rparr>)
      | _ \<Rightarrow> (False, a))"

definition parse_opt ::
  "platform \<Rightarrow> opt \<Rightarrow> rtss_updater_argopt_t \<Rightarrow> world \<Rightarrow> (bool \<times> rtss_updater_argopt_t) \<times> world" where
  "parse_opt p x a w =
     (case x of
        Opt_kpi (Some arg) \<Rightarrow> (case copy_arg RTSS_UPDATER_CFG_MAX_IMAGEPATH_LEN arg of (ok, row) \<Rightarrow>
          let a = a\<lparr>kpipath := row\<rparr>
          in case sys p (Sys_fopen (kpi_file a)) w of (f, w) \<Rightarrow>
            if a_ret f \<noteq> 0 then ((ok, a\<lparr>kpiEnable := True\<rparr>), snd (sys p Sys_fclose w)) else ((ok, a), w))
      | _ \<Rightarrow> (plain_opt x a, w))"

fun parse_opts ::
  "platform \<Rightarrow> opt list \<Rightarrow> rtss_updater_argopt_t \<Rightarrow> world \<Rightarrow> (u32 \<times> rtss_updater_argopt_t) \<times> world" where
  "parse_opts p [] a w = ((EXIT_SUCCESS, a), w)"
| "parse_opts p (x # xs) a w = (case parse_opt p x a w of ((ok, a), w) \<Rightarrow>
     if ok then parse_opts p xs a w else ((EXIT_FAILURE, a), w))"

definition rtss_updater_getopt_parser ::
  "platform \<Rightarrow> nat \<Rightarrow> opt list \<Rightarrow> rtss_updater_argopt_t \<Rightarrow> world \<Rightarrow> (u32 \<times> rtss_updater_argopt_t) \<times> world" where
  "rtss_updater_getopt_parser p argc opts a w =
     (let a = a\<lparr>restart := RTSS_UPDATER_ERROR, a_partition := RTSS_UPDATER_ERROR,
                gpt_update := (gpt_update a)[0 := 0], skipConfigFile := 0, rstskip := 0\<rparr>
      in if argc = 1 then ((EXIT_FAILURE, a), w) else parse_opts p opts a w)"

section \<open>The program\<close>

text \<open>The configuration file is read unless one image is given for the flasher or only a table is
  to be updated.\<close>

definition read_config :: "platform \<Rightarrow> steps" where
  "read_config p st =
     (let a = u_args st in
      if restart a = 2 \<and> skipConfigFile a = 1 then Returns (EXIT_SUCCESS, st)
      else if gpt_update a ! 0 \<noteq> 0 \<and> restart a = RTSS_UPDATER_ERROR then Returns (EXIT_SUCCESS, st)
      else case rtss_updater_cfgfile_read p (cstr (otaCfgPath a)) (Some (ImgParseInf a))
             rtss_updater_supported_img_names (int RTSS_UPDATER_CFG_MAX_IMAGES) (u_world st) of
        ((ret, c), w) \<Rightarrow> Returns (ret, use_images (the c) (st\<lparr>u_world := w\<rparr>)))"

definition chosen_sequence :: "platform \<Rightarrow> rtss_updater_argopt_t \<Rightarrow> steps" where
  "chosen_sequence p a =
     (if gpt_update a ! 0 \<noteq> 0 then rtss_updater_image_update_gpt p
      else if restart a = 0 then rtss_updater_preboot_demosequence p
      else if restart a = 1 then rtss_updater_postboot_demosequence p
      else if restart a = 2 then rtss_updater_devprog_flasher p
      else (\<lambda>st. Returns (EXIT_SUCCESS, st)))"

text \<open>The code of the sequence and of the de-initialisation are dropped.\<close>

definition updater_main :: "platform \<Rightarrow> nat \<Rightarrow> opt list \<Rightarrow> steps" where
  "updater_main p argc opts st =
     (case rtss_updater_getopt_parser p argc opts (u_args st) (u_world st) of ((r, a), w) \<Rightarrow>
        after (Returns (r, st\<lparr>u_args := a, u_world := w\<rparr>)) (\<lambda>st.
        after (read_config p st) (\<lambda>st.
        after (rtss_updater_mem_ctx_init p st) (\<lambda>st.
        case chosen_sequence p (u_args st) st of Blocks \<Rightarrow> Blocks | Faults \<Rightarrow> Faults
        | Returns (_, st) \<Rightarrow> Returns (EXIT_SUCCESS, snd (rtss_updater_mem_ctx_deinit p st))))))"

end
