(* ===== verification/Updater_Seq_Props.thy ===== *)
theory Updater_Seq_Props
  imports Updater_Seq
begin

text \<open>
  Rules for the sequences of the updater program. \<open>yields Q E r\<close> says that a run ends in \<open>Q\<close> if
  it succeeds and in \<open>E\<close> if it fails. Two interfaces carry the proofs: \<open>updater_relation\<close>, a
  relation that every elementary step respects, and \<open>protocol\<close>, an automaton that reads the
  commands as they are issued.
\<close>

section \<open>Outcomes\<close>

definition yields :: "(updater \<Rightarrow> bool) \<Rightarrow> (updater \<Rightarrow> bool) \<Rightarrow> (u32 \<times> updater) run \<Rightarrow> bool" where
  "yields Q E res \<longleftrightarrow> (case res of Returns (r, st) \<Rightarrow> if r = EXIT_SUCCESS then Q st else E st | _ \<Rightarrow> True)"

lemma yields_simps [simp]:
  "yields Q E Blocks" "yields Q E Faults"
  "yields Q E (Returns (r, st)) = (if r = EXIT_SUCCESS then Q st else E st)"
  by (simp_all add: yields_def)

lemma yieldsD: "yields Q E res \<Longrightarrow> res = Returns (r, st) \<Longrightarrow> if r = EXIT_SUCCESS then Q st else E st"
  by simp

lemma yields_mono: "yields Q E res \<Longrightarrow> (\<And>st. Q st \<Longrightarrow> Q' st) \<Longrightarrow> (\<And>st. E st \<Longrightarrow> E' st) \<Longrightarrow> yields Q' E' res"
  by (auto simp: yields_def split: run.splits prod.splits if_splits)

lemma yields_conj: "yields Q E res \<Longrightarrow> yields Q' E' res \<Longrightarrow> yields (\<lambda>st. Q st \<and> Q' st) E res"
  by (auto simp: yields_def split: run.splits)

lemma yields_after:
  assumes "yields Q E res" "\<And>st. Q st \<Longrightarrow> yields Q' E (k st)"
  shows "yields Q' E (after res k)"
proof (cases res)
  case (Returns x)
  then show ?thesis
    using assms by (cases x) (auto simp: after_def EXIT_FAILURE_def EXIT_SUCCESS_def)
qed (simp_all add: after_def)

lemma yields_each_bank:
  assumes "\<And>b st. P st \<Longrightarrow> b \<in> banks \<Longrightarrow> yields P E (f b st)" "P st" "\<forall>i < n. bank + of_nat i \<in> banks"
  shows "yields P E (each_bank f bank n st)"
  using assms(2,3)
proof (induction n arbitrary: bank st)
  case (Suc n)
  have "bank \<in> banks"
    using Suc.prems(2) [rule_format, of 0] by simp
  moreover have "\<forall>i < n. bank + 1 + of_nat i \<in> banks"
  proof (intro allI impI)
    fix i assume "i < n"
    then show "bank + 1 + of_nat i \<in> banks"
      using Suc.prems(2) [rule_format, of "Suc i"] by (simp add: add.assoc)
  qed
  ultimately show ?case
    using Suc by (auto intro!: yields_after [OF assms(1)])
qed simp

section \<open>One exchange\<close>

text \<open>What an exchange changes besides the world and the log: the handshake, by the response.\<close>

definition answered :: "updater \<Rightarrow> updater \<Rightarrow> bool" where
  "answered st st' \<longleftrightarrow> u_args st' = u_args st
     \<and> (u_hndshk st' = u_hndshk st \<or> (\<exists>x. u_hndshk st' = accept_response x (u_hndshk st)))"

lemma handler_answered: "rtss_updater_cbk_notify_handler p st = Returns st' \<Longrightarrow>
  answered st st' \<and> u_log st' = u_log st"
  by (force simp: rtss_updater_cbk_notify_handler_def answered_def Let_def split: option.splits if_splits)

lemma exchange_answered:
  "yields (\<lambda>st'. answered st st' \<and> u_log st' = u_log st @ [Request q])
     (\<lambda>st'. answered st st' \<and> u_log st' = u_log st @ [Request q]) (exchange p q st)"
proof -
  obtain ret w where run: "run_request p (env_of st) q (u_world st) = (ret, w)" by fastforce
  let ?st = "st\<lparr>u_world := w, u_log := u_log st @ [Request q]\<rparr>"
  have "answered st ?st"
    by (simp add: answered_def)
  moreover have "answered st st'" if "answered ?st st'" for st'
    using that by (simp add: answered_def)
  ultimately show ?thesis
    using handler_answered [of p ?st]
    by (cases "rtss_updater_cbk_notify_handler p ?st")
      (auto simp: exchange_def run after_def await_response_def)
qed

text \<open>Measuring changes nothing but the timers and the world.\<close>

definition silent :: "updater \<Rightarrow> updater \<Rightarrow> bool" where
  "silent st st' \<longleftrightarrow> u_args st' = u_args st \<and> u_hndshk st' = u_hndshk st \<and> u_log st' = u_log st
     \<and> u_memhandle st' = u_memhandle st"

definition sent :: "request \<Rightarrow> updater \<Rightarrow> updater \<Rightarrow> bool" where
  "sent q st st' \<longleftrightarrow> answered st st' \<and> u_log st' = u_log st @ [Request q]"

lemma clock_silent: "silent st (rtss_updater_clock_get_time p tp st)"
  by (simp add: silent_def rtss_updater_clock_get_time_def Let_def split: prod.splits)

lemma next_image_silent: "silent st (next_image st)"
  by (simp add: silent_def next_image_def)

lemma store_image_silent: "yields (silent st) (\<lambda>_. False) (store_image img len st)"
  by (simp add: silent_def store_image_def Let_def)

lemma report_silent: "yields (silent st) (\<lambda>_. False) (report_step f p st)"
  by (simp add: silent_def report_step_def split: run.splits)

lemma sent_silent: "silent st s \<Longrightarrow> sent q s t \<Longrightarrow> silent t u \<Longrightarrow> sent q st u"
  by (simp add: silent_def sent_def answered_def)

lemma silent_refl: "silent st st"
  by (simp add: silent_def)

text \<open>The ways to issue a command: measured or not.\<close>

definition issues :: "(request \<Rightarrow> steps) \<Rightarrow> bool" where
  "issues f \<longleftrightarrow> (\<forall>q st. yields (sent q st) (sent q st) (f q st))"

lemma issuesD: "issues f \<Longrightarrow> yields (sent q st) (sent q st) (f q st)"
  by (simp add: issues_def)

lemma issues_exchange [simp]: "issues (exchange p)"
  unfolding issues_def sent_def using exchange_answered by blast

lemma yields_sent_after:
  assumes "silent st s" "yields (sent q s) (sent q s) (f s)" "\<And>t. silent t (g t)"
  shows "yields (sent q st) (sent q st) (after (f s) (\<lambda>t. Returns (EXIT_SUCCESS, g t)))"
proof (rule yields_after)
  show "yields (sent q st) (sent q st) (f s)"
    using sent_silent [OF assms(1) _ silent_refl] by (intro yields_mono [OF assms(2)])
qed (auto intro: sent_silent [OF silent_refl _ assms(3)])

lemma issues_timed [simp]: "issues (timed p a b)"
  unfolding issues_def timed_def
  by (intro allI yields_sent_after [where f = "exchange p _"] clock_silent issuesD issues_exchange)

lemma issues_timed_flash [simp]: "issues (timed_flash p img len)"
proof -
  have "yields (sent q st) (sent q st) (timed_flash p img len q st)" for q st
    unfolding timed_flash_def
  proof (rule yields_after [where Q = "silent st"])
    show "yields (silent st) (sent q st) (store_image img len st)"
      by (rule yields_mono [OF store_image_silent]) auto
  next
    fix s assume "silent st s"
    then show "yields (sent q st) (sent q st) (after (timed p (image_at flash_startTime_update) (image_at flash_EndTime_update) q s)
        (\<lambda>st. Returns (EXIT_SUCCESS, next_image st)))"
      by (intro yields_sent_after [where f = "timed p _ _ q"] next_image_silent issuesD issues_timed)
  qed
  then show ?thesis
    by (simp add: issues_def)
qed

section \<open>Boot information\<close>

text \<open>The counters are zero when the program starts, and a response does not touch them or the
  entries.\<close>

definition no_counts :: "rtss_updater_handshake_t \<Rightarrow> bool" where
  "no_counts hs \<longleftrightarrow> bootPartitionPass hs = 0 \<and> bootPartitionFail hs = 0"

text \<open>What a successful check of the boot information means: every image has an entry, and each can be
  booted from.\<close>

definition validated :: "rtss_updater_handshake_t \<Rightarrow> bool" where
  "validated hs \<longleftrightarrow> bootPartitionFail hs = 0 \<and> bootPartitionPass hs \<noteq> 0
     \<and> unat (bootPartitionPass hs) \<le> length (updImgEntryType hs)
     \<and> list_all (\<lambda>x. ie_bootPartition x = 0 \<or> ie_bootPartition x = 2)
         (take (unat (bootPartitionPass hs)) (updImgEntryType hs))"

lemma accept_response_kept:
  "bootPartitionPass (accept_response x hs) = bootPartitionPass hs"
  "bootPartitionFail (accept_response x hs) = bootPartitionFail hs"
  "updImgEntryType (accept_response x hs) = updImgEntryType hs"
  "gpthdr (accept_response x hs) = gpthdr hs" "gptbuf (accept_response x hs) = gptbuf hs"
  "gptbufsz (accept_response x hs) = gptbufsz hs"
  by (simp_all add: accept_response_def response_members_def metadata_members_def Let_def)

lemma validated_response: "validated hs \<Longrightarrow> validated (accept_response x hs)"
  by (simp add: validated_def accept_response_kept)

lemma no_counts_answered: "answered st st' \<Longrightarrow> no_counts (u_hndshk st) \<Longrightarrow> no_counts (u_hndshk st')"
  by (auto simp: answered_def no_counts_def accept_response_kept)

text \<open>The count of the entries seen and of those that cannot be booted from.\<close>

lemma partition_status_counts:
  assumes "partition_status_loop k n hs = Returns (EXIT_SUCCESS, hs')" "unat (bootPartitionPass hs) + unat (bootPartitionFail hs) = k"
    "n + k < 2 ^ 32"
  shows "unat (bootPartitionPass hs') + unat (bootPartitionFail hs') = k + n
    \<and> updImgEntryType hs' = updImgEntryType hs \<and> numImagesBoot hs' = numImagesBoot hs \<and> (0 < n \<longrightarrow> k + n \<le> length (updImgEntryType hs))
    \<and> unat (bootPartitionFail hs) \<le> unat (bootPartitionFail hs')
    \<and> (bootPartitionFail hs' = 0 \<longrightarrow> (\<forall>i. k \<le> i \<and> i < k + n \<longrightarrow>
        ie_bootPartition (updImgEntryType hs ! i) = 0 \<or> ie_bootPartition (updImgEntryType hs ! i) = 2))"
  using assms
proof (induction n arbitrary: k hs)
  case (Suc n)
  let ?b = "ie_bootPartition (updImgEntryType hs ! k)"
  define hs1 where "hs1 = (if ?b = 1 then hs\<lparr>bootPartitionFail := bootPartitionFail hs + 1\<rparr>
    else hs\<lparr>bootPartitionPass := bootPartitionPass hs + 1\<rparr>)"
  have k: "k < length (updImgEntryType hs)" and b: "?b = 0 \<or> ?b = 2 \<or> ?b = 1"
    and run: "partition_status_loop (Suc k) n hs1 = Returns (EXIT_SUCCESS, hs')"
    using Suc.prems(1) by (auto simp: Let_def hs1_def EXIT_SUCCESS_def EXIT_FAILURE_def split: if_splits)
  have small: "unat (bootPartitionPass hs) < 2 ^ 32 - 1" "unat (bootPartitionFail hs) < 2 ^ 32 - 1"
    using Suc.prems(2,3) by linarith+
  have inc: "unat (x + 1) = unat x + 1" if "unat x < 2 ^ 32 - 1" for x :: u32
    using that unat_add_small [of x 1] by simp
  have "unat (bootPartitionPass hs1) + unat (bootPartitionFail hs1) = Suc k"
    using Suc.prems(2) inc small by (simp add: hs1_def)
  from Suc.IH [OF run this] Suc.prems(3)
  have IH: "unat (bootPartitionPass hs') + unat (bootPartitionFail hs') = Suc k + n"
    "updImgEntryType hs' = updImgEntryType hs" "numImagesBoot hs' = numImagesBoot hs"
    "0 < n \<longrightarrow> Suc k + n \<le> length (updImgEntryType hs)" "unat (bootPartitionFail hs1) \<le> unat (bootPartitionFail hs')"
    "bootPartitionFail hs' = 0 \<longrightarrow> (\<forall>i. Suc k \<le> i \<and> i < Suc k + n \<longrightarrow>
        ie_bootPartition (updImgEntryType hs ! i) = 0 \<or> ie_bootPartition (updImgEntryType hs ! i) = 2)"
    by (auto simp: hs1_def split: if_splits)
  have "unat (bootPartitionFail hs) \<le> unat (bootPartitionFail hs1)"
    using inc small(2) by (simp add: hs1_def)
  moreover have "?b \<noteq> 1" if "bootPartitionFail hs' = 0"
    using that IH(5) inc small(2) by (auto simp: hs1_def split: if_splits)
  ultimately show ?case
    using IH k b by (auto simp: le_Suc_eq Suc_le_eq) (metis Suc_leI le_neq_implies_less)+
qed auto

text \<open>What the steps of the boot information do to the handshake, besides the response.\<close>

lemma partition_status_validated:
  assumes "rtss_updater_get_bl_partition_status hs = Returns (EXIT_SUCCESS, hs')" "no_counts hs"
    "rtss_updater_validate_boot_info hs' = EXIT_SUCCESS"
  shows "validated hs'"
proof -
  have n: "numImagesBoot hs \<noteq> 0" and run: "partition_status_loop 0 (unat (numImagesBoot hs)) hs = Returns (EXIT_SUCCESS, hs')"
    using assms(1) by (auto simp: rtss_updater_get_bl_partition_status_def EXIT_SUCCESS_def EXIT_FAILURE_def split: if_splits)
  have z: "unat (bootPartitionPass hs) + unat (bootPartitionFail hs) = 0" "unat (numImagesBoot hs) + 0 < 2 ^ 32"
    using assms(2) unsigned_less [of "numImagesBoot hs", where ?'a = nat] by (simp_all add: no_counts_def)
  have v: "bootPartitionFail hs' = 0" "bootPartitionPass hs' = numImagesBoot hs'"
    using assms(3) by (auto simp: rtss_updater_validate_boot_info_def EXIT_SUCCESS_def EXIT_FAILURE_def word_gt_0 split: if_splits)
  have len: "unat (numImagesBoot hs) \<le> length (updImgEntryType hs)"
    using partition_status_counts [OF run z] n by (simp add: unat_gt_0)
  show ?thesis
    using partition_status_counts [OF run z] v n len
    by (auto simp: validated_def list_all_length)
qed

lemma on_mem_answered: "yields (answered st) (answered st) (on_mem f st)"
  by (auto simp: on_mem_def answered_def split: prod.splits)

lemma boot_info_check_validated:
  assumes "no_counts (u_hndshk st)"
  shows "yields (\<lambda>st'. validated (u_hndshk st')) (\<lambda>_. True) (boot_info_check st)"
proof -
  have check: "yields (\<lambda>st'. validated (u_hndshk st')) (\<lambda>_. True)
      (after (case rtss_updater_get_bl_partition_status (u_hndshk st2) of
               Blocks \<Rightarrow> Blocks | Faults \<Rightarrow> Faults
             | Returns (ret, hs) \<Rightarrow> Returns (ret, st2\<lparr>u_hndshk := hs\<rparr>)) (\<lambda>st.
      Returns (rtss_updater_validate_boot_info (u_hndshk st), st)))" if "no_counts (u_hndshk st2)" for st2
    using that partition_status_validated [of "u_hndshk st2"]
    by (cases "rtss_updater_get_bl_partition_status (u_hndshk st2)")
        (auto simp: after_def EXIT_SUCCESS_def EXIT_FAILURE_def)
  have fetch: "yields (\<lambda>st2. no_counts (u_hndshk st2)) (\<lambda>_. True)
      (case rtss_updater_get_bl_info_context (Some (updImgEntryType (u_hndshk st))) pVa n m of
               Blocks \<Rightarrow> Blocks | Faults \<Rightarrow> Faults
             | Returns (ret, xs) \<Rightarrow> Returns (ret, st\<lparr>u_hndshk := (u_hndshk st)\<lparr>updImgEntryType := the xs\<rparr>\<rparr>))"
    for pVa n m
    using assms by (auto simp: no_counts_def split: run.splits prod.splits)
  show ?thesis
    unfolding boot_info_check_def Let_def by (rule yields_after [OF fetch], erule check)
qed

lemma boot_info_request_counts:
  assumes "no_counts (u_hndshk st)" "issues issue"
  shows "yields (\<lambda>s. no_counts (u_hndshk s)) (\<lambda>_. True) (boot_info_request issue st)"
proof -
  have mem: "yields (\<lambda>s. no_counts (u_hndshk s)) (\<lambda>_. True) (on_mem f st)" for f
    using assms(1) no_counts_answered by (intro yields_mono [OF on_mem_answered]) auto
  have "yields (\<lambda>t. no_counts (u_hndshk t)) (\<lambda>_. True) (issue q s)" if "no_counts (u_hndshk s)" for q s
    using that no_counts_answered by (intro yields_mono [OF issuesD [OF assms(2)]]) (auto simp: sent_def)
  then show ?thesis
    unfolding boot_info_request_def Let_def by (rule yields_after [OF mem])
qed

lemma boot_info_validated:
  assumes "no_counts (u_hndshk st)" "issues issue"
  shows "yields (\<lambda>st'. validated (u_hndshk st')) (\<lambda>_. True) (boot_info_steps issue st)"
  unfolding boot_info_steps_def
  by (rule yields_after [OF boot_info_request_counts [OF assms]], erule boot_info_check_validated)

section \<open>Protocols\<close>

text \<open>An automaton over the commands, run over a log.\<close>

fun phase_after :: "('q \<Rightarrow> issued \<Rightarrow> 'q option) \<Rightarrow> 'q \<Rightarrow> issued list \<Rightarrow> 'q option" where
  "phase_after nxt q [] = Some q"
| "phase_after nxt q (c # cs) = (case nxt q c of None \<Rightarrow> None | Some q \<Rightarrow> phase_after nxt q cs)"

lemma phase_after_append: "phase_after nxt q (cs @ [c]) =
  (case phase_after nxt q cs of None \<Rightarrow> None | Some q \<Rightarrow> nxt q c)"
  by (induction cs arbitrary: q) (auto split: option.splits)

text \<open>The message a command sends, zero if none, and the bank it flashes or reads.\<close>

definition command :: "issued \<Rightarrow> u32" where
  "command c = (case c of Request q \<Rightarrow> request_id q | Write_gpt _ \<Rightarrow> RTSS_UPD_MSG_WRITE_GPT | Load_file _ \<Rightarrow> 0)"

definition read_bank :: "issued \<Rightarrow> u32 option" where
  "read_bank c = (case c of Request (Readimg _ part _ _ _) \<Rightarrow> Some part | _ \<Rightarrow> None)"

definition flash_bank :: "issued \<Rightarrow> u32 option" where
  "flash_bank c = (case c of Request (Flashimg _ _ part _ _ _ _ _ _) \<Rightarrow> Some part | _ \<Rightarrow> None)"

text \<open>The image that is read or flashed, and the table that is read or fixed.\<close>

definition command_image :: "issued \<Rightarrow> u8 list option" where
  "command_image c = (case c of Request (Readimg i _ _ _ _) \<Rightarrow> i
     | Request (Flashimg i _ _ _ _ _ _ _ _) \<Rightarrow> i | _ \<Rightarrow> None)"

definition command_table :: "issued \<Rightarrow> u32 option" where
  "command_table c = (case c of Request (Readgpt g _ _ _) \<Rightarrow> Some g | Request (Fixgpt g _ _ _) \<Rightarrow> Some g
     | Write_gpt g \<Rightarrow> Some (ucast g) | _ \<Rightarrow> None)"

lemma command_args_simps [simp]:
  "command_image (Request (Flashimg i j part sv l c f a rs)) = i"
  "command_image (Request (Readimg i part j sv l)) = i"
  "command_table (Request (Readgpt j sv l a)) = Some j" "command_table (Request (Fixgpt j sv l f)) = Some j"
  "command_table (Write_gpt b) = Some (ucast b)"
  by (simp_all add: command_image_def command_table_def)

lemma command_simps [simp]:
  "command (Request q) = request_id q" "command (Write_gpt g) = RTSS_UPD_MSG_WRITE_GPT" "command (Load_file path) = 0"
  "flash_bank (Request (Flashimg i j part sv l c f a rs)) = Some part" "flash_bank (Load_file path) = None"
  "read_bank (Request (Readimg i part j sv l)) = Some part"
  by (simp_all add: command_def flash_bank_def read_bank_def)

text \<open>A phase may require something of the options and the handshake; a response must not break
  it.\<close>

locale protocol =
  fixes nxt :: "'q \<Rightarrow> issued \<Rightarrow> 'q option" and start :: 'q
    and inv :: "'q \<Rightarrow> rtss_updater_argopt_t \<Rightarrow> rtss_updater_handshake_t \<Rightarrow> bool"
  assumes inv_response: "inv q a hs \<Longrightarrow> inv q a (accept_response x hs)"
begin

definition at :: "'q \<Rightarrow> updater \<Rightarrow> bool" where
  "at q st \<longleftrightarrow> phase_after nxt start (u_log st) = Some q \<and> inv q (u_args st) (u_hndshk st)"

definition accepted :: "updater \<Rightarrow> bool" where
  "accepted st \<longleftrightarrow> (\<exists>q. at q st)"

lemma at_accepted: "at q st \<Longrightarrow> accepted st"
  by (auto simp: accepted_def)

lemma at_cong: "u_args st' = u_args st \<Longrightarrow> u_hndshk st' = u_hndshk st \<Longrightarrow> u_log st' = u_log st \<Longrightarrow> at q st' = at q st"
  by (simp add: at_def)

lemma at_issue:
  assumes "at q st" "nxt q c = Some q'" "inv q' (u_args st) (u_hndshk st)" "answered st st'" "u_log st' = u_log st @ [c]"
  shows "at q' st'"
  using assms inv_response by (auto simp: at_def phase_after_append answered_def)

lemma at_answered: "at q st \<Longrightarrow> answered st st' \<Longrightarrow> u_log st' = u_log st \<Longrightarrow> at q st'"
  using inv_response by (auto simp: at_def answered_def)

lemma issue_at:
  assumes "at q st" "nxt q (Request r) = Some q'" "inv q' (u_args st) (u_hndshk st)" "issues issue"
  shows "yields (\<lambda>st'. at q' st' \<and> answered st st') accepted (issue r st)"
  using at_issue [OF assms(1-3)] at_accepted by (intro yields_mono [OF issuesD [OF assms(4)]]) (auto simp: sent_def)

lemma issue_step:
  assumes "at q st" "nxt q (Request r) = Some q'" "inv q' (u_args st) (u_hndshk st)" "issues issue"
  shows "yields (at q') accepted (issue r st)"
  by (rule yields_mono [OF issue_at [OF assms]]) auto

lemma at_silent: "at q st \<Longrightarrow> silent st st' \<Longrightarrow> at q st'"
  by (simp add: at_def silent_def)

lemma silent_step: "at q st \<Longrightarrow> yields (silent st) (\<lambda>_. False) res \<Longrightarrow> yields (at q) accepted res"
  using at_silent by (elim yields_mono) auto

lemma on_mem_step: "at q st \<Longrightarrow> yields (\<lambda>st'. at q st' \<and> u_args st' = u_args st \<and> u_hndshk st' = u_hndshk st) accepted (on_mem f st)"
  using at_accepted by (auto simp: on_mem_def at_def accepted_def split: prod.splits)

lemma flash_file_step:
  assumes "at q st" "nxt q (Load_file path) = Some q0" "inv q0 (u_args st) (u_hndshk st)"
    "\<And>s l c a. nxt q0 (Request (Flashimg (Some img) 0 part s l c flashtype a rs)) = Some q'"
    "inv q' (u_args st) (u_hndshk st)" "\<And>i l. issues (issue i l)"
  shows "yields (\<lambda>st'. at q' st' \<and> answered st st') accepted (flash_file p issue img path part flashtype rs st)"
proof -
  let ?st = "\<lambda>w. st\<lparr>u_world := w, u_log := u_log st @ [Load_file path]\<rparr>"
  have "answered st st'" if "answered (?st w) st'" for st' w
    using that by (simp add: answered_def)
  moreover have "at q0 (?st w)" "accepted (?st w)" for w
    using assms(1-3) by (auto simp: at_def accepted_def phase_after_append)
  ultimately show ?thesis
    using assms(4-6)
    by (auto simp: flash_file_def Let_def EXIT_FAILURE_def EXIT_SUCCESS_def split: prod.splits
        intro!: yields_mono [OF issue_at])
qed

lemma metadata_step:
  assumes "at q st" "nxt q (Request Get_metadata_info) = Some q1" "\<And>hs. inv q (u_args st) hs \<Longrightarrow> inv q1 (u_args st) hs"
    "\<And>s l. nxt q1 (Request (Get_metadata s l)) = Some q2" "\<And>hs. inv q1 (u_args st) hs \<Longrightarrow> inv q2 (u_args st) hs"
    "issues info" "issues data"
  shows "yields (\<lambda>st'. at q2 st' \<and> u_args st' = u_args st) accepted (metadata_steps info data st)"
  unfolding metadata_steps_def
proof (rule yields_after)
  show "yields (\<lambda>st'. at q1 st' \<and> answered st st') accepted (info Get_metadata_info st)"
    using assms(1-3,6) by (intro issue_at) (auto simp: at_def)
  fix st1 assume st1: "at q1 st1 \<and> answered st st1"
  then have c: "at q1 (clear_buffer n st1)" "u_args (clear_buffer n st1) = u_args st"
      "u_hndshk (clear_buffer n st1) = u_hndshk st1" for n
    by (auto simp: at_def clear_buffer_def answered_def)
  have "inv q1 (u_args st) (u_hndshk st1)"
    using c(1,2,3) [of 0] unfolding at_def by metis
  then have "inv q2 (u_args (clear_buffer n st1)) (u_hndshk (clear_buffer n st1))" for n
    using assms(5) c(2,3) by metis
  then show "yields (\<lambda>st'. at q2 st' \<and> u_args st' = u_args st) accepted
      (let bufLen = rtss_updater_alignnum 1 16 (metadatapartitionsz (u_hndshk st1))
       in data (Get_metadata (mc_sVa (u_memhandle st1)) bufLen) (clear_buffer (unat bufLen) st1))"
    unfolding Let_def using assms(4,7) c
    by (intro yields_mono [OF issue_at]) (auto simp: answered_def)
qed

text \<open>The boot information as one step of a protocol whose next phase asks nothing of the handshake.\<close>

lemma boot_info_request_step:
  assumes "at q st" "\<And>n l c s a. nxt q (Request (Get_bl_info n l c s a)) = Some q'" "\<And>hs. inv q' (u_args st) hs" "issues issue"
  shows "yields (\<lambda>st'. at q' st' \<and> u_args st' = u_args st) accepted (boot_info_request issue st)"
proof -
  have mem: "yields (\<lambda>s. at q s \<and> u_args s = u_args st) accepted (on_mem f st)" for f
    using assms(1) by (intro yields_mono [OF on_mem_step]) auto
  have "yields (\<lambda>t. at q' t \<and> u_args t = u_args st) accepted (issue (Get_bl_info n l c a b) s)"
    if "at q s \<and> u_args s = u_args st" for n l c a b s
    using that assms(2-4) by (intro yields_mono [OF issue_at]) (auto simp: answered_def)
  then show ?thesis
    unfolding boot_info_request_def Let_def by (rule yields_after [OF mem])
qed

lemma boot_info_check_step:
  assumes "at q st" "\<And>hs. inv q (u_args st) hs"
  shows "yields (\<lambda>st'. at q st' \<and> u_args st' = u_args st) accepted (boot_info_check st)"
proof -
  let ?Q = "\<lambda>s. at q s \<and> u_args s = u_args st"
  have changed: "at q (s\<lparr>u_hndshk := hs\<rparr>)" "accepted (s\<lparr>u_hndshk := hs\<rparr>)" "accepted s" if "?Q s" for s hs
    using that assms(2) by (auto simp: at_def accepted_def)
  have fetch: "yields ?Q accepted
      (case rtss_updater_get_bl_info_context (Some (updImgEntryType (u_hndshk st))) pVa n m of
               Blocks \<Rightarrow> Blocks | Faults \<Rightarrow> Faults
             | Returns (ret, xs) \<Rightarrow> Returns (ret, st\<lparr>u_hndshk := (u_hndshk st)\<lparr>updImgEntryType := the xs\<rparr>\<rparr>))"
    for pVa n m
    using assms(1) changed by (auto split: run.splits prod.splits)
  have check: "yields ?Q accepted
      (after (case rtss_updater_get_bl_partition_status (u_hndshk s) of
               Blocks \<Rightarrow> Blocks | Faults \<Rightarrow> Faults
             | Returns (ret, hs) \<Rightarrow> Returns (ret, s\<lparr>u_hndshk := hs\<rparr>)) (\<lambda>st.
      Returns (rtss_updater_validate_boot_info (u_hndshk st), st)))" if "?Q s" for s
    using that changed
    by (intro yields_after [where Q = ?Q]) (auto split: run.splits prod.splits)
  show ?thesis
    unfolding boot_info_check_def Let_def by (rule yields_after [OF fetch], erule check)
qed

lemma boot_info_step:
  assumes "at q st" "\<And>n l c s a. nxt q (Request (Get_bl_info n l c s a)) = Some q'" "\<And>hs. inv q' (u_args st) hs"
    "issues issue" "no_counts (u_hndshk st)"
  shows "yields (\<lambda>st'. (at q' st' \<and> u_args st' = u_args st) \<and> validated (u_hndshk st')) accepted (boot_info_steps issue st)"
proof (rule yields_conj [OF _ boot_info_validated [OF assms(5,4)]])
  have "yields (\<lambda>t. at q' t \<and> u_args t = u_args st) accepted (boot_info_check s)" if "at q' s \<and> u_args s = u_args st" for s
    using that assms(3) by (intro yields_mono [OF boot_info_check_step]) auto
  then show "yields (\<lambda>t. at q' t \<and> u_args t = u_args st) accepted (boot_info_steps issue st)"
    unfolding boot_info_steps_def by (rule yields_after [OF boot_info_request_step [OF assms(1-4)]])
qed

end

section \<open>Before the restart\<close>

datatype preboot_phase = Pre_start | Pre_gpt | Pre_info | Pre_metadata | Pre_flash nat | Pre_loaded nat | Pre_done

text \<open>The order of the commands for a list of images, each with its name and its file: the files are
  loaded and flashed one after the other, each under its own name; the second bank is flashed, in
  the first one the program runs.\<close>

definition preboot_next :: "(u8 list \<times> u8 list) list \<Rightarrow> preboot_phase \<Rightarrow> issued \<Rightarrow> preboot_phase option" where
  "preboot_next fs q c = (case q of
       Pre_start \<Rightarrow> if command c = RTSS_UPD_MSG_CHECK_GPT then Some Pre_gpt else None
     | Pre_gpt \<Rightarrow> if command c = RTSS_UPD_MSG_GET_OTA_METADATAINFO then Some Pre_info else None
     | Pre_info \<Rightarrow> if command c = RTSS_UPD_MSG_GET_OTA_METADATA then Some Pre_metadata else None
     | Pre_metadata \<Rightarrow> if command c = RTSS_UPD_MSG_GET_BOOTINFO then Some (Pre_flash 0) else None
     | Pre_flash k \<Rightarrow>
         if k < length fs then if c = Load_file (snd (fs ! k)) then Some (Pre_loaded k) else None
         else if command c = RTSS_UPD_MSG_UPDATE_GPT then Some Pre_done else None
     | Pre_loaded k \<Rightarrow>
         if flash_bank c = Some 1 \<and> command_image c = Some (fst (fs ! k)) then Some (Pre_flash (Suc k)) else None
     | Pre_done \<Rightarrow> None)"

lemma preboot_next_simps:
  "preboot_next fs Pre_start c = (if command c = 1 then Some Pre_gpt else None)"
  "preboot_next fs Pre_gpt c = (if command c = 19 then Some Pre_info else None)"
  "preboot_next fs Pre_info c = (if command c = 12 then Some Pre_metadata else None)"
  "preboot_next fs Pre_metadata c = (if command c = 11 then Some (Pre_flash 0) else None)"
  "preboot_next fs (Pre_flash k) c = (if k < length fs then if c = Load_file (snd (fs ! k)) then Some (Pre_loaded k) else None
     else if command c = 5 then Some Pre_done else None)"
  "preboot_next fs (Pre_loaded k) c =
     (if flash_bank c = Some 1 \<and> command_image c = Some (fst (fs ! k)) then Some (Pre_flash (Suc k)) else None)"
  "preboot_next fs Pre_done c = None"
  by (simp_all add: preboot_next_def msg_id_defs)

fun preboot_inv :: "rtss_updater_argopt_t \<Rightarrow> preboot_phase \<Rightarrow> rtss_updater_argopt_t \<Rightarrow> rtss_updater_handshake_t \<Rightarrow> bool" where
  "preboot_inv args (Pre_flash k) a hs \<longleftrightarrow> a = args \<and> (0 < k \<longrightarrow> validated hs)"
| "preboot_inv args (Pre_loaded k) a hs \<longleftrightarrow> a = args \<and> validated hs"
| "preboot_inv args Pre_done a hs \<longleftrightarrow> a = args \<and> validated hs"
| "preboot_inv args q a hs \<longleftrightarrow> a = args \<and> no_counts hs"

lemma no_counts_response: "no_counts hs \<Longrightarrow> no_counts (accept_response x hs)"
  by (simp add: no_counts_def accept_response_kept)

interpretation preboot: protocol "preboot_next fs" Pre_start "preboot_inv args" for fs args
proof unfold_locales
  fix q a hs x
  show "preboot_inv args q a hs \<Longrightarrow> preboot_inv args q a (accept_response x hs)"
    by (cases q) (auto intro: validated_response no_counts_response)
qed

text \<open>The images before the restart: those with a path.\<close>

definition image_files :: "rtss_updater_imgconfig_t \<Rightarrow> (u8 list \<times> u8 list) list" where
  "image_files c = map (\<lambda>i. (name_str c i, path_str c i)) [0..<nat (numberOfPaths c)]"

lemma image_files_simps [simp]:
  "length (image_files c) = nat (numberOfPaths c)"
  "i < nat (numberOfPaths c) \<Longrightarrow> image_files c ! i = (name_str c i, path_str c i)"
  by (simp_all add: image_files_def)

lemma preboot_flash_files:
  assumes "preboot.at (image_files (ImgParseInf args)) args (Pre_flash i) st" "validated (u_hndshk st)"
    "i + k = nat (numberOfPaths (ImgParseInf args))"
  shows "yields (\<lambda>st'. preboot.at (image_files (ImgParseInf args)) args (Pre_flash (nat (numberOfPaths (ImgParseInf args)))) st'
      \<and> validated (u_hndshk st')) (preboot.accepted (image_files (ImgParseInf args)) args)
    (flash_files p (timed_flash p) 1 flashtype rs i k st)"
  using assms
proof (induction k arbitrary: i st)
  case (Suc k)
  let ?fs = "image_files (ImgParseInf args)"
  have img: "images st = ImgParseInf args" and args: "u_args st = args"
    using Suc.prems(1) by (simp_all add: preboot.at_def images_def)
  have i: "i < nat (numberOfPaths (ImgParseInf args))"
    using Suc.prems(3) by simp
  have "yields (\<lambda>st'. preboot.at ?fs args (Pre_flash (Suc i)) st' \<and> answered st st') (preboot.accepted ?fs args)
      (flash_file p (timed_flash p) (name_str (images st) i) (path_str (images st) i) 1 flashtype rs st)"
    using Suc.prems(2) args i
    by (intro preboot.flash_file_step [OF Suc.prems(1), where ?q0.0 = "Pre_loaded i"]) (auto simp: preboot_next_simps img)
  moreover have "validated (u_hndshk st')" if "answered st st'" for st'
    using that Suc.prems(2) validated_response by (auto simp: answered_def)
  ultimately show ?case
    using Suc.IH Suc.prems(3) by (auto intro!: yields_after)
qed simp

lemma preboot_yields:
  assumes "u_log st = []" "no_counts (u_hndshk st)"
  shows "yields (preboot.at (image_files (images st)) (u_args st) Pre_done)
    (preboot.accepted (image_files (images st)) (u_args st)) (rtss_updater_preboot_demosequence p st)"
proof -
  define args where "args = u_args st"
  define n where "n = nat (numberOfPaths (ImgParseInf args))"
  define fs where "fs = image_files (ImgParseInf args)"
  let ?at = "preboot.at fs args" and ?E = "preboot.accepted fs args"
  have st: "?at Pre_start st"
    using assms by (simp add: preboot.at_def args_def)
  have args: "u_args s = args" if "?at q s" for s q
    using that by (cases q) (auto simp: preboot.at_def)
  have check: "yields (?at Pre_metadata) ?E (preboot_check_steps p st)"
    unfolding preboot_check_steps_def
  proof (rule yields_after)
    show "yields (?at Pre_gpt) ?E (timed p a b Chkgpt st)" for a b
      using st by (intro preboot.issue_step) (auto simp: preboot.at_def preboot_next_simps)
    show "yields (?at Pre_metadata) ?E (metadata_steps (timed p a b) (timed p c d) s)" if "?at Pre_gpt s" for s a b c d
      using args [OF that] that by (intro yields_mono [OF preboot.metadata_step [where q = Pre_gpt and ?q1.0 = Pre_info]])
        (auto simp: preboot_next_simps)
  qed
  have boot: "yields (\<lambda>s. ?at (Pre_flash 0) s \<and> validated (u_hndshk s)) ?E (boot_info_steps (preboot_boot_info p) s)"
    if "?at Pre_metadata s" for s
    using that args [OF that]
    by (intro yields_mono [OF preboot.boot_info_step [where q = Pre_metadata]])
      (auto simp: preboot.at_def preboot_next_simps preboot_boot_info_def)
  have flash: "yields (\<lambda>s. ?at (Pre_flash n) s \<and> validated (u_hndshk s)) ?E
      (flash_files p (timed_flash p) 1 2 (restart (u_args s)) 0 (nat (numberOfPaths (images s))) s)"
    if "?at (Pre_flash 0) s \<and> validated (u_hndshk s)" for s
    using that args [of "Pre_flash 0" s] preboot_flash_files [of args 0 s n] by (simp add: images_def n_def fs_def)
  have update: "yields (?at Pre_done) ?E (update_gpt_steps p s)" if "?at (Pre_flash n) s \<and> validated (u_hndshk s)" for s
    unfolding update_gpt_steps_def Let_def
    using that by (auto intro!: yields_after [OF preboot.on_mem_step [where q = "Pre_flash n"]]
        preboot.issue_step [where q = "Pre_flash n"] simp: preboot.at_def preboot_next_simps fs_def n_def)
  have fin: "?at Pre_done (s\<lparr>u_world := w\<rparr>)" if "?at Pre_done s" for s w
    using that by (simp add: preboot.at_def)
  have "yields (?at Pre_done) ?E (rtss_updater_preboot_demosequence p st)"
    unfolding rtss_updater_preboot_demosequence_def Let_def
    by (rule yields_after [OF check], rule yields_after [OF boot], assumption,
        rule yields_after [OF flash], assumption, rule yields_after [OF update], assumption,
        rule yields_after [OF preboot.silent_step [OF _ report_silent]], assumption) (simp add: fin)
  then show ?thesis
    by (simp add: fs_def args_def images_def)
qed

section \<open>After the restart\<close>

datatype postboot_phase = Post_start | Post_confirmed | Post_boot | Post_copy nat | Post_read nat
  | Post_fixed | Post_redundant | Post_info | Post_metadata | Post_done

text \<open>Each of the named images is read from the first bank and then flashed to the second one, one image
  after the other, before the table is fixed.\<close>

definition postboot_next :: "u8 list list \<Rightarrow> postboot_phase \<Rightarrow> issued \<Rightarrow> postboot_phase option" where
  "postboot_next ns q c = (case q of
       Post_start \<Rightarrow> if command c = RTSS_UPD_MSG_OTA_DONE then Some Post_confirmed else None
     | Post_confirmed \<Rightarrow> if command c = RTSS_UPD_MSG_GET_BOOTINFO then Some Post_boot else None
     | Post_boot \<Rightarrow> if command c = RTSS_UPD_MSG_CHECK_GPT then Some (Post_copy 0) else None
     | Post_copy k \<Rightarrow>
         if k < length ns
         then if read_bank c = Some 0 \<and> command_image c = Some (ns ! k) then Some (Post_read k) else None
         else if command c = RTSS_UPD_MSG_FIX_GPT \<and> command_table c = Some 0 then Some Post_fixed else None
     | Post_read k \<Rightarrow>
         if flash_bank c = Some 1 \<and> command_image c = Some (ns ! k) then Some (Post_copy (Suc k)) else None
     | Post_fixed \<Rightarrow> if command c = RTSS_UPD_MSG_REDUNDANCY_ESTABLISHED then Some Post_redundant else None
     | Post_redundant \<Rightarrow> if command c = RTSS_UPD_MSG_GET_OTA_METADATAINFO then Some Post_info else None
     | Post_info \<Rightarrow> if command c = RTSS_UPD_MSG_SET_OTA_METADATA then Some Post_metadata else None
     | Post_metadata \<Rightarrow> if command c = RTSS_UPD_MSG_UPDATE_ARB then Some Post_done else None
     | Post_done \<Rightarrow> None)"

lemma postboot_next_simps:
  "postboot_next ns Post_start c = (if command c = 20 then Some Post_confirmed else None)"
  "postboot_next ns Post_confirmed c = (if command c = 11 then Some Post_boot else None)"
  "postboot_next ns Post_boot c = (if command c = 1 then Some (Post_copy 0) else None)"
  "postboot_next ns (Post_copy k) c = (if k < length ns
     then if read_bank c = Some 0 \<and> command_image c = Some (ns ! k) then Some (Post_read k) else None
     else if command c = 4 \<and> command_table c = Some 0 then Some Post_fixed else None)"
  "postboot_next ns (Post_read k) c =
     (if flash_bank c = Some 1 \<and> command_image c = Some (ns ! k) then Some (Post_copy (Suc k)) else None)"
  "postboot_next ns Post_fixed c = (if command c = 21 then Some Post_redundant else None)"
  "postboot_next ns Post_redundant c = (if command c = 19 then Some Post_info else None)"
  "postboot_next ns Post_info c = (if command c = 13 then Some Post_metadata else None)"
  "postboot_next ns Post_metadata c = (if command c = 14 then Some Post_done else None)"
  "postboot_next ns Post_done c = None"
  by (simp_all add: postboot_next_def msg_id_defs)

definition postboot_inv ::
  "rtss_updater_argopt_t \<Rightarrow> postboot_phase \<Rightarrow> rtss_updater_argopt_t \<Rightarrow> rtss_updater_handshake_t \<Rightarrow> bool" where
  "postboot_inv args q a hs \<longleftrightarrow> a = args
     \<and> (q = Post_start \<or> q = Post_confirmed \<longrightarrow> no_counts hs)
     \<and> (q \<noteq> Post_start \<and> q \<noteq> Post_confirmed \<and> q \<noteq> Post_boot \<longrightarrow> validated hs)"

lemma postboot_inv_simps:
  "postboot_inv args Post_start a hs \<longleftrightarrow> a = args \<and> no_counts hs"
  "postboot_inv args Post_confirmed a hs \<longleftrightarrow> a = args \<and> no_counts hs"
  "postboot_inv args Post_boot a hs \<longleftrightarrow> a = args"
  "postboot_inv args (Post_copy k) a hs \<longleftrightarrow> a = args \<and> validated hs"
  "postboot_inv args (Post_read k) a hs \<longleftrightarrow> a = args \<and> validated hs"
  "postboot_inv args Post_fixed a hs \<longleftrightarrow> a = args \<and> validated hs"
  "postboot_inv args Post_redundant a hs \<longleftrightarrow> a = args \<and> validated hs"
  "postboot_inv args Post_info a hs \<longleftrightarrow> a = args \<and> validated hs"
  "postboot_inv args Post_metadata a hs \<longleftrightarrow> a = args \<and> validated hs"
  "postboot_inv args Post_done a hs \<longleftrightarrow> a = args \<and> validated hs"
  by (auto simp: postboot_inv_def)

interpretation postboot: protocol "postboot_next ns" Post_start "postboot_inv args" for ns args
  by unfold_locales (auto simp: postboot_inv_def intro: validated_response no_counts_response)

lemma postboot_args: "postboot.at ns args q st \<Longrightarrow> u_args st = args"
  by (simp add: postboot.at_def postboot_inv_def)

text \<open>The images after the restart: all those with a name.\<close>

definition image_names :: "rtss_updater_imgconfig_t \<Rightarrow> u8 list list" where
  "image_names c = map (name_str c) [0..<nat (numberOfImages c)]"

lemma image_names_simps [simp]:
  "length (image_names c) = nat (numberOfImages c)" "i < nat (numberOfImages c) \<Longrightarrow> image_names c ! i = name_str c i"
  by (simp_all add: image_names_def)

lemma postboot_copy_image:
  assumes "postboot.at ns args (Post_copy i) st" "ns = image_names (ImgParseInf args)" "i < length ns"
  shows "yields (postboot.at ns args (Post_copy (Suc i))) (postboot.accepted ns args) (copy_image p i st)"
proof (cases "i < length (updImgEntryType (u_hndshk st))")
  case True
  let ?at = "postboot.at ns args" and ?E = "postboot.accepted ns args"
  note simps = postboot_next_simps postboot.at_def postboot_inv_simps
  have nm: "ns ! i = name_str (images s) i" if "?at q s" for q s
    using postboot_args [OF that] assms(2,3) by (simp add: images_def)
  have store: "yields (?at (Post_copy i)) ?E (store_image (name_str (images st) i) len st)" for len
    by (rule postboot.silent_step [OF assms(1) store_image_silent])
  have rd: "yields (?at (Post_read i)) ?E
      (timed p a b (Readimg (Some (name_str (images s) i)) 0 g sv l) s)" if "?at (Post_copy i) s" for g sv l a b s
    using that nm [OF that] assms(3) by (intro postboot.issue_step [where q = "Post_copy i"]) (auto simp: simps)
  have fl: "yields (?at (Post_copy (Suc i))) ?E
      (timed p a b (Flashimg (Some (name_str (images s) i)) g 1 sv l crc f d rs) s)"
    if "?at (Post_read i) s" for s g sv l crc f a b d rs
    using that nm [OF that] by (intro postboot.issue_step [where q = "Post_read i"]) (auto simp: simps)
  have fin: "?at (Post_copy (Suc i)) (next_image s)" if "?at (Post_copy (Suc i)) s" for s
    using postboot.at_silent [OF that next_image_silent] .
  show ?thesis
    using True unfolding copy_image_def Let_def
    by (simp only: linorder_not_less [symmetric] not_not not_True_eq_False if_False)
      (rule yields_after [OF store], rule yields_after [OF rd], assumption, rule yields_after [OF fl], assumption,
       simp add: fin)
qed (simp add: copy_image_def)

lemma postboot_copy_images:
  "postboot.at ns args (Post_copy i) st \<Longrightarrow> ns = image_names (ImgParseInf args) \<Longrightarrow> i + k = length ns \<Longrightarrow>
   yields (postboot.at ns args (Post_copy (length ns))) (postboot.accepted ns args) (copy_images p i k st)"
  by (induction k arbitrary: i st) (auto intro!: yields_after [OF postboot_copy_image])

text \<open>The sequence ends early, after the confirmation, if only that is asked for.\<close>

definition postboot_end :: "rtss_updater_argopt_t \<Rightarrow> postboot_phase" where
  "postboot_end a = (if ackstate a = 1 then Post_confirmed else Post_done)"

lemma postboot_yields:
  assumes "u_log st = []" "no_counts (u_hndshk st)"
  shows "yields (postboot.at (image_names (images st)) (u_args st) (postboot_end (u_args st)))
    (postboot.accepted (image_names (images st)) (u_args st)) (rtss_updater_postboot_demosequence p st)"
proof -
  define args where "args = u_args st"
  define ns where "ns = image_names (images st)"
  let ?at = "postboot.at ns args" and ?E = "postboot.accepted ns args"
  have st: "?at Post_start st"
    using assms by (simp add: postboot.at_def args_def postboot_inv_simps)
  note args = postboot_args [of ns args]
  note step = postboot.issue_step [where ns = ns and args = args]
  note simps = postboot_next_simps postboot.at_def postboot_inv_simps
  have ack: "yields (?at Post_confirmed) ?E (timed p t u (Ota_done a b c d) st)" for a b c d t u
    using st by (intro step [where q = Post_start]) (auto simp: simps)
  have boot: "yields (\<lambda>s. (?at Post_boot s) \<and> validated (u_hndshk s)) ?E (boot_info_steps (postboot_boot_info p) s)"
    if "?at Post_confirmed s" for s
    using that args [OF that]
    by (intro yields_mono [OF postboot.boot_info_step [where q = Post_confirmed]]) (auto simp: simps postboot_boot_info_def)
  have chk: "yields (?at (Post_copy 0)) ?E (timed p t u Chkgpt s)" if "?at Post_boot s \<and> validated (u_hndshk s)" for s t u
    using that by (intro step [where q = Post_boot]) (auto simp: simps)
  have copy: "yields (?at (Post_copy (length ns))) ?E (copy_images p 0 (nat (numberOfImages (images s))) s)" if "?at (Post_copy 0) s" for s
    using that args [OF that] postboot_copy_images [of ns args 0 s "length ns"] by (simp add: images_def ns_def args_def)
  have fx: "yields (?at Post_redundant) ?E (postboot_fix_steps p s)" if "?at (Post_copy (length ns)) s" for s
    unfolding postboot_fix_steps_def Let_def
  proof (rule yields_after)
    show "yields (?at Post_fixed) ?E (timed p t u (Fixgpt 0 sv l f) s)" for t u sv l f
      using that by (intro step [where q = "Post_copy (length ns)"]) (auto simp: simps)
    show "yields (?at Post_redundant) ?E (timed p t u (Redundancy_established a b c d) v)" if "?at Post_fixed v" for t u v a b c d
      using that by (intro step [where q = Post_fixed]) (auto simp: simps)
  qed
  have meta: "yields (?at Post_done) ?E (postboot_metadata_steps p s)" if "?at Post_redundant s" for s
  proof -
    have info: "yields (?at Post_info) ?E (timed p t u Get_metadata_info s)" for t u
      using that by (intro step [where q = Post_redundant]) (auto simp: simps)
    have set: "yields (?at Post_metadata) ?E (timed p t u (Set_metadata sv l c a) v)" if "?at Post_info v" for t u v sv l c a
      using that by (intro step [where q = Post_info]) (auto simp: simps)
    have arb: "yields (?at Post_done) ?E (timed p t u (Update_arb a b c d) v)" if "?at Post_metadata v" for t u v a b c d
      using that by (intro step [where q = Post_metadata]) (auto simp: simps)
    show ?thesis
      unfolding postboot_metadata_steps_def Let_def
      by (rule yields_after [OF info], rule yields_after [OF set], assumption, erule arb)
  qed
  have report: "yields (?at Post_done) ?E (report_step f p s)" if "?at Post_done s" for f s
    by (rule postboot.silent_step [OF that report_silent])
  show ?thesis
  proof (cases "ackstate args = 1")
    case True
    then show ?thesis
      unfolding rtss_updater_postboot_demosequence_def ns_def [symmetric] args_def [symmetric]
      using args by (intro yields_after [OF ack]) (simp add: postboot_end_def)
  next
    case False
    have not: "(ackstate (u_args s) = 1) = False" if "?at Post_confirmed s" for s
      using args [OF that] False by simp
    have "postboot_end args = Post_done"
      using False by (simp add: postboot_end_def)
    then show ?thesis
      unfolding rtss_updater_postboot_demosequence_def ns_def [symmetric] args_def [symmetric]
      by (simp only:) (rule yields_after [OF ack], simp only: not if_False, rule yields_after [OF boot], assumption,
          rule yields_after [OF chk], assumption, rule yields_after [OF copy], assumption,
          rule yields_after [OF fx], assumption, rule yields_after [OF meta], assumption, erule report)
  qed
qed

end
