(* ===== verification/Updater_Flash_Props.thy ===== *)
theory Updater_Flash_Props
  imports Updater_Seq_Props
begin

text \<open>
  The protocols of the flasher and of the update of the partition table, and the relations that
  every step of a sequence respects: what is held and the shape of the structures.
\<close>

section \<open>The flasher\<close>

datatype flasher_phase = Fl_start | Fl_gpt | Fl_info | Fl_metadata | Fl_flash bool

text \<open>The banks that an argument selects: both, or the one it names.\<close>

definition bank_selected :: "u32 \<Rightarrow> u32 \<Rightarrow> bool" where
  "bank_selected arg part \<longleftrightarrow> (if arg = RTSS_UPDATER_ERROR then part = 0 \<or> part = 1 else (arg = 0 \<or> arg = 1) \<and> part = arg)"

definition flasher_next :: "u32 \<Rightarrow> flasher_phase \<Rightarrow> issued \<Rightarrow> flasher_phase option" where
  "flasher_next arg q c = (case q of
       Fl_start \<Rightarrow> if command c = RTSS_UPD_MSG_CHECK_GPT then Some Fl_gpt else None
     | Fl_gpt \<Rightarrow> if command c = RTSS_UPD_MSG_GET_OTA_METADATAINFO then Some Fl_info else None
     | Fl_info \<Rightarrow> if command c = RTSS_UPD_MSG_GET_OTA_METADATA then Some Fl_metadata else None
     | Fl_metadata \<Rightarrow> if command c = RTSS_UPD_MSG_GET_BOOTINFO then Some (Fl_flash False) else None
     | Fl_flash b \<Rightarrow> (case c of Load_file _ \<Rightarrow> Some (Fl_flash b) | _ \<Rightarrow>
        (case flash_bank c of None \<Rightarrow> None
         | Some part \<Rightarrow> if bank_selected arg part then Some (Fl_flash True) else None)))"

lemma flasher_next_simps:
  "flasher_next arg Fl_start c = (if command c = 1 then Some Fl_gpt else None)"
  "flasher_next arg Fl_gpt c = (if command c = 19 then Some Fl_info else None)"
  "flasher_next arg Fl_info c = (if command c = 12 then Some Fl_metadata else None)"
  "flasher_next arg Fl_metadata c = (if command c = 11 then Some (Fl_flash False) else None)"
  "flasher_next arg (Fl_flash b) c = (if \<exists>f. c = Load_file f then Some (Fl_flash b) else case flash_bank c of None \<Rightarrow> None
     | Some part \<Rightarrow> if bank_selected arg part then Some (Fl_flash True) else None)"
  by (simp_all add: flasher_next_def msg_id_defs split: issued.split)

fun flasher_inv :: "u32 \<Rightarrow> flasher_phase \<Rightarrow> rtss_updater_argopt_t \<Rightarrow> rtss_updater_handshake_t \<Rightarrow> bool" where
  "flasher_inv arg (Fl_flash b) a hs \<longleftrightarrow> a_partition a = arg \<and> (b \<longrightarrow> validated hs)"
| "flasher_inv arg q a hs \<longleftrightarrow> a_partition a = arg \<and> no_counts hs"

interpretation flasher: protocol "flasher_next arg" Fl_start "flasher_inv arg" for arg
proof unfold_locales
  fix q a hs x
  show "flasher_inv arg q a hs \<Longrightarrow> flasher_inv arg q a (accept_response x hs)"
    by (cases q) (auto intro: validated_response no_counts_response)
qed

definition ready_to_flash :: "u32 \<Rightarrow> updater \<Rightarrow> bool" where
  "ready_to_flash arg st \<longleftrightarrow> (\<exists>b. flasher.at arg (Fl_flash b) st) \<and> validated (u_hndshk st)"

lemma ready_accepted: "ready_to_flash arg st \<Longrightarrow> flasher.accepted arg st"
  by (auto simp: ready_to_flash_def flasher.accepted_def)

lemma ready_partition: "ready_to_flash arg st \<Longrightarrow> a_partition (u_args st) = arg"
  by (auto simp: ready_to_flash_def flasher.at_def)

lemma flasher_use_images:
  "flasher.at arg q (use_images c st) = flasher.at arg q st" "flasher.at arg q (st\<lparr>u_world := w\<rparr>) = flasher.at arg q st"
  "ready_to_flash arg (use_images c st) = ready_to_flash arg st" "ready_to_flash arg (st\<lparr>u_world := w\<rparr>) = ready_to_flash arg st"
  "u_hndshk (use_images c st) = u_hndshk st"
proof -
  have "flasher_inv arg q (u_args st\<lparr>ImgParseInf := c\<rparr>) hs = flasher_inv arg q (u_args st) hs" for q hs
    by (cases q) simp_all
  then show a: "flasher.at arg q (use_images c st) = flasher.at arg q st" for q
    by (simp add: flasher.at_def use_images_def)
  show b: "flasher.at arg q (st\<lparr>u_world := w\<rparr>) = flasher.at arg q st" for q
    by (simp add: flasher.at_def)
  show h: "u_hndshk (use_images c st) = u_hndshk st"
    by (simp add: use_images_def)
  show "ready_to_flash arg (use_images c st) = ready_to_flash arg st" "ready_to_flash arg (st\<lparr>u_world := w\<rparr>) = ready_to_flash arg st"
    by (simp_all add: ready_to_flash_def a b h)
qed

lemma flasher_flash_file:
  assumes "ready_to_flash arg st" "bank_selected arg part"
  shows "yields (ready_to_flash arg) (flasher.accepted arg) (flash_file p (\<lambda>_ _. exchange p) img path part flashtype rs st)"
proof -
  obtain b where b: "flasher.at arg (Fl_flash b) st" and v: "validated (u_hndshk st)"
    using assms(1) by (auto simp: ready_to_flash_def)
  have "validated (u_hndshk st')" if "answered st st'" for st'
    using that v validated_response by (auto simp: answered_def)
  moreover have "yields (\<lambda>st'. flasher.at arg (Fl_flash True) st' \<and> answered st st') (flasher.accepted arg)
      (flash_file p (\<lambda>_ _. exchange p) img path part flashtype rs st)"
    using b v assms(2) ready_partition [OF assms(1)]
    by (intro flasher.flash_file_step [OF b, where ?q0.0 = "Fl_flash b"]) (simp_all add: flasher_next_simps)
  ultimately show ?thesis
    by (elim yields_mono) (auto simp: ready_to_flash_def)
qed

lemma flasher_flash_files:
  "ready_to_flash arg st \<Longrightarrow> bank_selected arg part \<Longrightarrow>
   yields (ready_to_flash arg) (flasher.accepted arg) (flash_files p (\<lambda>_ _. exchange p) part flashtype rs i n st)"
  by (induction n arbitrary: i st) (auto intro!: yields_after [OF flasher_flash_file])

text \<open>The banks between the two limits are the selected ones.\<close>

lemma flash_banks_selected:
  assumes "flash_banks arg = Some (b, e)"
  shows "\<forall>i < unat (e - b). b + of_nat i \<in> {part. bank_selected arg part}"
proof -
  consider "arg = RTSS_UPDATER_ERROR" "b = 0" "e = 2" | "arg = 0" "b = 0" "e = 1" | "arg = 1" "b = 1" "e = 2"
    using assms by (auto simp: flash_banks_def split: if_splits)
  then show ?thesis
    by cases (auto simp: bank_selected_def RTSS_UPDATER_ERROR_def less_2_cases_iff)
qed

lemma flasher_one_image:
  assumes "ready_to_flash arg st" "flash_banks arg = Some (b, e)"
  shows "yields (ready_to_flash arg) (flasher.accepted arg) (flash_one_image p b e st)"
  using assms ready_accepted flasher_flash_file flash_banks_selected [OF assms(2)]
  by (auto simp: flash_one_image_def EXIT_FAILURE_def EXIT_SUCCESS_def
      intro!: yields_each_bank [where banks = "{part. bank_selected arg part}"])

lemma flasher_config_images:
  assumes "ready_to_flash arg st" "flash_banks arg = Some (b, e)"
  shows "yields (ready_to_flash arg) (flasher.accepted arg) (flash_config_images p b e st)"
proof -
  obtain ret c w where i: "rtss_updater_get_img_parse_info p (Some (images st)) (Some (cstr (otaCfgPath (u_args st)))) (u_world st)
      = ((ret, c), w)" by (metis surj_pair)
  let ?st = "use_images (the c) (st\<lparr>u_world := w\<rparr>)"
  have r: "ready_to_flash arg ?st"
    using assms(1) by (simp add: flasher_use_images)
  have "yields (ready_to_flash arg) (flasher.accepted arg) (Returns (ret, ?st))"
    using r ready_accepted by simp
  moreover have "yields (ready_to_flash arg) (flasher.accepted arg)
      (each_bank (\<lambda>bank st. flash_files p (\<lambda>_ _. exchange p) bank 1 0 0 (nat (numberOfPaths (images st))) st) b (unat (e - b)) s)"
    if "ready_to_flash arg s" for s
    using that flasher_flash_files flash_banks_selected [OF assms(2)]
    by (intro yields_each_bank [where banks = "{part. bank_selected arg part}"]) auto
  ultimately show ?thesis
    by (simp add: flash_config_images_def i yields_after [where Q = "ready_to_flash arg"])
qed

lemma flasher_yields:
  assumes "u_log st = []" "no_counts (u_hndshk st)"
  shows "yields (ready_to_flash (a_partition (u_args st))) (flasher.accepted (a_partition (u_args st)))
    (rtss_updater_devprog_flasher p st)"
proof -
  define arg where "arg = a_partition (u_args st)"
  let ?at = "flasher.at arg" and ?E = "flasher.accepted arg"
  have st: "?at Fl_start st"
    using assms by (simp add: flasher.at_def arg_def)
  have chk: "yields (?at Fl_gpt) ?E (exchange p Chkgpt st)"
    using st by (intro flasher.issue_step [where q = Fl_start]) (auto simp: flasher.at_def flasher_next_simps)
  have meta: "yields (?at Fl_metadata) ?E (metadata_steps (exchange p) (exchange p) s)" if "?at Fl_gpt s" for s
    using that by (intro yields_mono [OF flasher.metadata_step [where q = Fl_gpt and ?q1.0 = Fl_info]])
      (auto simp: flasher_next_simps)
  have img: "yields (?at Fl_metadata) ?E (case rtss_updater_get_img_info_default (Some (images s)) of
              (ret, c) \<Rightarrow> Returns (ret, use_images (the c) s))" if "?at Fl_metadata s" for s
    using that flasher.at_accepted by (auto simp: flasher_use_images flasher.accepted_def split: prod.splits)
  have boot: "yields (ready_to_flash arg) ?E (boot_info_steps (exchange p) s)" if "?at Fl_metadata s" for s
    using that
    by (intro yields_mono [OF flasher.boot_info_step [where q = Fl_metadata and q' = "Fl_flash False"]])
      (auto simp: flasher.at_def flasher_next_simps ready_to_flash_def)
  have flash: "yields (ready_to_flash arg) ?E (case flash_banks (a_partition (u_args s)) of None \<Rightarrow> Returns (EXIT_FAILURE, s)
     | Some (startBank, stopBank) \<Rightarrow>
         if skipConfigFile (u_args s) = 1 then flash_one_image p startBank stopBank s
         else flash_config_images p startBank stopBank s)" if "ready_to_flash arg s" for s
    using that ready_accepted flasher_one_image [OF that] flasher_config_images [OF that]
    by (auto simp: ready_partition [OF that] EXIT_FAILURE_def EXIT_SUCCESS_def split: option.splits)
  show ?thesis
    unfolding rtss_updater_devprog_flasher_def Let_def arg_def [symmetric]
    by (rule yields_after [OF chk], rule yields_after [OF meta], assumption, rule yields_after [OF img], assumption,
        rule yields_after [OF boot], assumption, erule flash)
qed

end
