(* ===== verification/Updater_Util_Props.thy ===== *)
theory Updater_Util_Props
  imports Updater_Config Mailbox_Props
begin

text \<open>
  The byte loops are block operations, the entries of the shared buffer are laid out one after
  the other, and what is put there can be read back.
\<close>

section \<open>The byte loops\<close>

lemma mset_loop_block: "mset_loop m dst v c n = put_bytes m (dst + c) (replicate n v)"
proof (induction n arbitrary: m c)
  case (Suc n)
  have "m(dst + c := v) = put_bytes m (dst + c) [v]"
    by (rule ext) (auto simp: put_bytes_def)
  then show ?case
    using Suc [of "m(dst + c := v)" "Suc c"] put_bytes_append [of m "dst + c" "[v]" "replicate n v"]
    by simp
qed simp

lemma rtss_updater_mset_block: "dst \<noteq> NULL \<Longrightarrow> rtss_updater_mset m dst v n = put_bytes m dst (replicate n v)"
  by (simp add: rtss_updater_mset_def mset_loop_block)

lemma mcpy_loop_block:
  assumes "disjoint dst (c + n) src (c + n)"
  shows "mcpy_loop m dst src c n = put_bytes m (dst + c) (bytes_at m (src + c) n)"
  using assms
proof (induction n arbitrary: m c)
  case (Suc n)
  let ?m = "m(dst + c := m (src + c))"
  have m: "?m = put_bytes m (dst + c) [m (src + c)]"
    by (rule ext) (auto simp: put_bytes_def)
  have "bytes_at ?m (src + Suc c) n = bytes_at m (src + Suc c) n"
    using Suc.prems by (intro bytes_at_cong) (auto simp: same_on_def disjoint_def)
  moreover have "bytes_at m (src + c) (Suc n) = m (src + c) # bytes_at m (src + Suc c) n"
    using bytes_at_add [of m "src + c" 1 n] by (simp add: bytes_at_def)
  ultimately show ?case
    using Suc.IH [of "Suc c" ?m] Suc.prems put_bytes_append [of m "dst + c" "[m (src + c)]"]
    by (simp add: m)
qed simp

lemma rtss_updater_mcpy_block:
  "dst \<noteq> NULL \<Longrightarrow> src \<noteq> NULL \<Longrightarrow> disjoint dst (min n k) src (min n k) \<Longrightarrow>
   rtss_updater_mcpy m dst n src k = (min n k, put_bytes m dst (bytes_at m src (min n k)))"
proof -
  have "(if n < k then n else k) = min n k" by simp
  moreover assume "dst \<noteq> NULL" "src \<noteq> NULL" "disjoint dst (min n k) src (min n k)"
  ultimately show ?thesis
    by (simp add: rtss_updater_mcpy_def mcpy_loop_block Let_def)
qed

section \<open>Filling the buffer\<close>

definition entry_fill :: "nat \<Rightarrow> (mem \<Rightarrow> addr \<Rightarrow> mem) \<Rightarrow> (u8 list \<Rightarrow> u8 list) \<Rightarrow> bool" where
  "entry_fill sz fill E \<longleftrightarrow> (\<forall>s. length (E s) = sz)
     \<and> (\<forall>m a s. bytes_at m a sz = replicate sz 0 \<longrightarrow> fill (mcpy_out m a RTSS_UPD_IMG_NAME_LEN s) a = put_bytes m a (E s))"

lemma populate_loop_block:
  assumes "entry_fill sz fill E" "bytes_at m a (n * sz) = replicate (n * sz) 0"
    "\<forall>j \<in> {i..<i + n}. name_str c j \<noteq> []"
  shows "populate_loop sz fill c i n a m =
    (EXIT_SUCCESS, put_bytes m a (concat (map (\<lambda>j. E (name_str c j)) [i..<i + n])))"
  using assms(2,3)
proof (induction n arbitrary: i a m)
  case (Suc n)
  let ?E = "E (name_str c i)"
  let ?m = "put_bytes m a ?E"
  have len: "length ?E = sz" using assms(1) by (simp add: entry_fill_def)
  have z: "bytes_at m a sz = replicate sz 0" "bytes_at m (a + sz) (n * sz) = replicate (n * sz) 0"
    using Suc.prems(1) by (auto simp: bytes_at_add replicate_add)
  have "fill (mcpy_out m a RTSS_UPD_IMG_NAME_LEN (name_str c i)) a = ?m"
    using assms(1) z(1) by (simp add: entry_fill_def)
  moreover have "bytes_at ?m (a + sz) (n * sz) = replicate (n * sz) 0"
    using z(2) len by (simp add: bytes_at_put_other disjoint_def)
  ultimately show ?case
    using Suc.IH [of ?m "a + sz" "Suc i"] Suc.prems(2) put_bytes_append [of m a ?E]
    by (simp add: len upt_rec [of i])
qed simp

lemma populate_loop_fails:
  "\<exists>j \<in> {i..<i + n}. name_str c j = [] \<Longrightarrow> fst (populate_loop sz fill c i n a m) = EXIT_FAILURE"
proof (induction n arbitrary: i a m)
  case (Suc n)
  show ?case
  proof (cases "name_str c i = []")
    case False
    obtain j where j: "j \<in> {i..<i + Suc n}" "name_str c j = []"
      using Suc.prems by blast
    then have "j \<in> {Suc i..<Suc i + n}"
      using False by (cases "j = i") auto
    then show ?thesis
      using Suc.IH [OF bexI [of "\<lambda>j. name_str c j = []", OF j(2)]] False by simp
  qed simp
qed simp

text \<open>A list of images that fits the arrays.\<close>

definition count_ok :: "rtss_updater_imgconfig_t \<Rightarrow> bool" where
  "count_ok c \<longleftrightarrow> 0 \<le> numberOfImages c \<and> numberOfImages c \<le> int RTSS_UPDATER_CFG_MAX_IMAGES"

lemma entries_size_ok:
  "count_ok c \<Longrightarrow> unat sz < 2 ^ 16 \<Longrightarrow> entries_size sz c = nat (numberOfImages c) * unat sz"
proof -
  assume c: "count_ok c" and s: "unat sz < 2 ^ 16"
  define n where "n = nat (numberOfImages c)"
  have n: "numberOfImages c = int n" "n \<le> 5"
    using c by (simp_all add: count_ok_def n_def RTSS_UPDATER_CFG_MAX_IMAGES_def nat_le_iff)
  have "unat sz * n \<le> unat sz * 5" using n(2) by (rule mult_le_mono2)
  moreover have "unat sz * 5 < 2 ^ 64" using s by simp
  ultimately have "unat sz * n < 2 ^ 64" by (rule le_less_trans)
  then have "unat (ucast sz :: u64) * unat (of_nat n :: u64) < 2 ^ 64"
    using s n(2) by (simp add: unat_of_nat_small)
  then have "unat (ucast sz * of_nat n :: u64) = unat sz * n"
    using n(2) by (simp add: unat_mult_small unat_of_nat_small)
  then show ?thesis
    by (simp add: entries_size_def n n_def [symmetric] mult.commute)
qed

lemma populate_entries_block:
  assumes "entry_fill (unat sz) fill E" "count_ok c" "unat sz < 2 ^ 16" "pVa \<noteq> NULL"
  shows "if \<forall>j < nat (numberOfImages c). name_str c j \<noteq> []
    then populate_entries sz fill (Some c) pVa m =
      (EXIT_SUCCESS, put_bytes m pVa (concat (map (\<lambda>j. E (name_str c j)) [0..<nat (numberOfImages c)])))
    else fst (populate_entries sz fill (Some c) pVa m) = EXIT_FAILURE"
proof -
  let ?n = "nat (numberOfImages c)" and ?sz = "unat sz"
  let ?m = "put_bytes m pVa (replicate (?n * ?sz) 0)"
  have p: "populate_entries sz fill (Some c) pVa m = populate_loop ?sz fill c 0 ?n pVa ?m"
    using assms by (simp add: populate_entries_def rtss_updater_mset_block entries_size_ok)
  have z: "bytes_at ?m pVa (?n * ?sz) = replicate (?n * ?sz) 0"
    by (simp add: bytes_at_put_same)
  have over: "length ys = length xs \<Longrightarrow> put_bytes (put_bytes m a xs) a ys = put_bytes m a ys" for xs ys a
    by (rule ext) (simp add: put_bytes_def)
  have len: "length (concat (map (\<lambda>j. E (name_str c j)) [0..<?n])) = ?n * ?sz"
    using assms(1) by (simp add: length_concat comp_def entry_fill_def sum_list_triv)
  show ?thesis
  proof (cases "\<forall>j < ?n. name_str c j \<noteq> []")
    case True
    then show ?thesis
      using populate_loop_block [OF assms(1) z, of 0 c] by (simp add: p over len)
  next
    case False
    then show ?thesis
      using populate_loop_fails [of 0 ?n c ?sz fill pVa ?m] unfolding p by (auto simp: Bex_def)
  qed
qed

section \<open>Names and what is read back\<close>

definition plain_entry :: "nat \<Rightarrow> u8 list \<Rightarrow> u8 list" where
  "plain_entry sz s = pad_to 32 s @ replicate (sz - 32) 0"

definition digest_entry :: "u32 \<Rightarrow> u8 list \<Rightarrow> u8 list" where
  "digest_entry part s = pad_to 32 s @ bytes32 part @ bytes32 0 @ bytes32 128 @ replicate 128 0"

lemma put_bytes_zero_gap:
  assumes "bytes_at m a n = replicate n 0" "length xs \<le> n"
  shows "put_bytes m a (xs @ replicate (n - length xs) 0) = put_bytes m a xs"
proof
  fix x
  have "m (a + i) = 0" if "i < n" for i
    using assms(1) that bytes_at_nth [of i n m a] by simp
  then have "a \<le> x \<Longrightarrow> x < a + n \<Longrightarrow> m x = 0"
    by (metis add_less_cancel_left le_add_diff_inverse)
  then show "put_bytes m a (xs @ replicate (n - length xs) 0) x = put_bytes m a xs x"
    using assms(2) by (auto simp: put_bytes_def nth_append)
qed

lemma mcpy_out_pad:
  assumes "bytes_at m a sz = replicate sz 0" "32 \<le> sz"
  shows "mcpy_out m a RTSS_UPD_IMG_NAME_LEN s = put_bytes m a (pad_to 32 s)"
proof -
  have "bytes_at m a 32 = replicate 32 0"
    using arg_cong [OF assms(1), of "take 32"] assms(2) by (simp add: take_bytes_at min_def)
  moreover have "pad_to 32 s = take 32 s @ replicate (32 - length (take 32 s)) 0"
    by (simp add: pad_to_def min_def)
  ultimately show ?thesis
    using put_bytes_zero_gap [of m a 32 "take 32 s"] by (simp add: mcpy_out_def RTSS_UPD_IMG_NAME_LEN_def)
qed

lemma plain_entry_fill: "32 \<le> sz \<Longrightarrow> entry_fill sz (\<lambda>m a. m) (plain_entry sz)"
  using put_bytes_zero_gap [where xs = "pad_to 32 s" for s]
  by (simp add: entry_fill_def plain_entry_def mcpy_out_pad)

lemma digest_entry_fill:
  "entry_fill 172 (\<lambda>m a. store32 (store32 (store32 m (a + 32) part) (a + 36) 0) (a + 40)
     RTSS_UPD_IMAGE_DIGEST_MAX_LEN) (digest_entry part)"
proof -
  have "store32 (store32 (store32 (mcpy_out m a RTSS_UPD_IMG_NAME_LEN s) (a + 32) part) (a + 36) 0) (a + 40) 128
      = put_bytes m a (digest_entry part s)" if "bytes_at m a 172 = replicate 172 0" for m a s
  proof -
    let ?xs = "pad_to 32 s @ bytes32 part @ bytes32 0 @ bytes32 128"
    have "put_bytes m a (pad_to 32 s @ bytes32 part) = put_bytes (put_bytes m a (pad_to 32 s)) (a + 32) (bytes32 part)"
      using put_bytes_append [of m a "pad_to 32 s" "bytes32 part"] by simp
    moreover have "put_bytes m a (pad_to 32 s @ bytes32 part @ bytes32 0) =
        put_bytes (put_bytes m a (pad_to 32 s @ bytes32 part)) (a + 36) (bytes32 0)"
      using put_bytes_append [of m a "pad_to 32 s @ bytes32 part" "bytes32 0"] by simp
    moreover have "put_bytes m a ?xs = put_bytes (put_bytes m a (pad_to 32 s @ bytes32 part @ bytes32 0)) (a + 40) (bytes32 128)"
      using put_bytes_append [of m a "pad_to 32 s @ bytes32 part @ bytes32 0" "bytes32 128"] by simp
    moreover have "digest_entry part s = ?xs @ replicate (172 - length ?xs) 0"
      by (simp add: digest_entry_def)
    ultimately show ?thesis
      using put_bytes_zero_gap [OF that, of ?xs] mcpy_out_pad [OF that, of s] by (simp add: store32_def)
  qed
  then show ?thesis
    by (simp add: entry_fill_def digest_entry_def RTSS_UPD_IMAGE_DIGEST_MAX_LEN_def)
qed

text \<open>An entry of a block of equal entries.\<close>

lemma concat_entry:
  assumes "\<And>j. length (f j) = sz" "k < n"
  shows "take sz (drop (k * sz) (concat (map f [i..<i + n]))) = f (i + k)"
  using assms(2)
proof (induction k arbitrary: i n)
  case 0
  then show ?case using assms(1) by (simp add: upt_conv_Cons)
next
  case (Suc k)
  have "[i..<i + n] = i # [Suc i..<Suc i + (n - 1)]"
    using Suc.prems by (simp add: upt_conv_Cons)
  moreover have "drop (Suc k * sz) (f i @ xs) = drop (k * sz) xs" for xs
    using assms(1) [of i] by simp
  ultimately show ?case
    using Suc.IH [of "n - 1" "Suc i"] Suc.prems by (simp only: list.map concat.simps) simp
qed

lemma bytes_at_sub: "off + n \<le> k \<Longrightarrow> bytes_at m (a + off) n = take n (drop off (bytes_at m a k))"
  by (rule nth_equalityI) (simp_all add: add.assoc)

lemma bytes_at_inside:
  "off + n \<le> length bs \<Longrightarrow> bytes_at (put_bytes m a bs) (a + off) n = take n (drop off bs)"
  using bytes_at_sub [of off n "length bs" "put_bytes m a bs" a] by (simp add: bytes_at_put_same)

lemma load32_bytes:
  assumes "bytes_at m a 4 = bytes32 v"
  shows "load32 m a = v"
proof -
  have "[m a, m (a + 1), m (a + 2), m (a + 3)] = bytes32 v"
    using assms by (simp add: bytes_at_def upt_rec numeral_3_eq_3)
  then show ?thesis
    by (simp add: load32_def bytes32_def le32_bytes32)
qed

lemma digest_entry_read:
  assumes "bytes_at m a 172 = digest_entry part s"
  shows "digest_entry_at m a = \<lparr>de_imgName = pad_to 32 s, de_partitionType = part, de_digestType = 0,
    de_digestLen = 128, de_digest = replicate 128 0\<rparr>"
proof -
  note b = bytes_at_sub [of _ _ 172 m a, unfolded assms digest_entry_def]
  show ?thesis
    using b [of 0 32] b [of 44 128] b [of 32 4] b [of 36 4] b [of 40 4]
    by (simp add: digest_entry_at_def load32_bytes)
qed

lemma read_digest_loop_read:
  assumes "\<forall>j < n. digest_entry_at m (a + j * 172) = D (i + j) \<and> de_digestLen (D (i + j)) = 128" "i + n \<le> length buf"
  shows "read_digest_loop m a i n buf = Returns (EXIT_SUCCESS, take i buf @ map D [i..<i + n] @ drop (i + n) buf)"
  using assms
proof (induction n arbitrary: i a buf)
  case (Suc n)
  have d: "digest_entry_at m a = D i" "de_digestLen (D i) = 128" "i < length buf"
    using Suc.prems by auto
  have dig: "bytes_at m (a + 44) 128 = de_digest (D i)" "length (de_digest (D i)) = 128"
    by (simp_all add: d(1) [symmetric] digest_entry_at_def)
  have whole: "length xs = length ys \<Longrightarrow> mcpy_member xs ys = ys" for xs ys
    by (simp add: mcpy_member_def)
  have "read_digest_loop m a i (Suc n) buf = read_digest_loop m (a + 172) (Suc i) n (buf[i := D i])"
    using d dig whole [of "replicate 128 0" "de_digest (D i)"]
    by (simp add: Let_def RTSS_UPD_IMAGE_DIGEST_MAX_LEN_def sizeof_img_digest_entry_def)
  moreover have "\<forall>j < n. digest_entry_at m (a + 172 + j * 172) = D (Suc i + j) \<and> de_digestLen (D (Suc i + j)) = 128"
  proof (intro allI impI)
    fix j assume "j < n"
    then show "digest_entry_at m (a + 172 + j * 172) = D (Suc i + j) \<and> de_digestLen (D (Suc i + j)) = 128"
      using Suc.prems(1) [rule_format, of "Suc j"] by (simp add: algebra_simps)
  qed
  then have "read_digest_loop m (a + 172) (Suc i) n (buf[i := D i]) = Returns (EXIT_SUCCESS,
      take (Suc i) (buf[i := D i]) @ map D [Suc i..<Suc i + n] @ drop (Suc i + n) (buf[i := D i]))"
    using Suc.prems(2) by (intro Suc.IH) simp_all
  moreover have "take (Suc i) (buf[i := D i]) @ map D [Suc i..<Suc i + n] = take i buf @ map D [i..<i + Suc n]"
    using d(3) by (simp add: take_Suc_conv_app_nth upt_conv_Cons [of i] del: upt_Suc)
  moreover have "drop (Suc i + n) (buf[i := D i]) = drop (i + Suc n) buf"
    by (simp add: drop_update_cancel)
  ultimately show ?case
    by (metis append.assoc)
qed simp

section \<open>Strings in the rows\<close>

lemma cstr_row:
  "0 \<notin> set s \<Longrightarrow> length s < 128 \<Longrightarrow> cstr (mcpy_member blank_row s @ xs) = s"
proof -
  assume s: "0 \<notin> set s" "length s < 128"
  then have "mcpy_member blank_row s = s @ 0 # replicate (127 - length s) 0"
    by (simp add: mcpy_member_def blank_row_def RTSS_UPDATER_CFG_MAX_IMAGEPATH_LEN_def min_def
        Suc_diff_Suc [symmetric] flip: replicate_Suc)
  moreover have "takeWhile (\<lambda>c. c \<noteq> 0) (s @ 0 # ys) = s" for ys
    using s(1) by (induction s) auto
  ultimately show ?thesis
    by (simp add: cstr_def)
qed

lemma name_str_row:
  "imageNames c ! j = mcpy_member blank_row s \<Longrightarrow> j < length (imageNames c) \<Longrightarrow> 0 \<notin> set s \<Longrightarrow> length s < 128 \<Longrightarrow>
   name_str c j = s"
  by (simp add: name_str_def Cons_nth_drop_Suc [symmetric] cstr_row)

lemma path_str_row:
  "imagePaths c ! j = mcpy_member blank_row s \<Longrightarrow> j < length (imagePaths c) \<Longrightarrow> 0 \<notin> set s \<Longrightarrow> length s < 128 \<Longrightarrow>
   path_str c j = s"
  by (simp add: path_str_def Cons_nth_drop_Suc [symmetric] cstr_row)

end
