(* ===== verification/Updater_Init_Props.thy ===== *)
theory Updater_Init_Props
  imports Updater_Util_Props Ota_Buffer
begin

text \<open>
  Resources of the updater's set-up and of loading a file: what is acquired is given back on
  every path that fails, apart from the mappings that \<open>rtss_mb_close\<close> keeps.
\<close>

section \<open>Opening\<close>

text \<open>Where \<open>errno\<close> is read it is positive.\<close>

definition errno_pos :: "platform \<Rightarrow> bool" where
  "errno_pos p \<longleftrightarrow> (\<forall>k. 0 < a_err (answer p k))"

lemma sys_answer: "sys p c w = (a, w') \<Longrightarrow> a = answer p (w_now w)"
  by (simp add: sys_def Let_def)

lemma errno_sys: "errno_pos p \<Longrightarrow> sys p c w = (a, w') \<Longrightarrow> a_err a \<noteq> 0"
  using sys_answer [of p c w a w'] unfolding errno_pos_def by (metis less_irrefl)

lemma open_finish_ret:
  "errno_pos p \<Longrightarrow> open_finish p h mb sz nFd w = ((r, res), w') \<Longrightarrow> r = 0 \<longleftrightarrow> res \<noteq> None"
  by (auto simp: open_finish_def Let_def errno_defs RTSS_MB_RETURN_SUCCESS_def dest: errno_sys
      split: if_splits prod.splits)

lemma open_mapped_ret:
  "errno_pos p \<Longrightarrow> open_mapped p dev mb sz nFd w = ((r, res), w') \<Longrightarrow> r = 0 \<longleftrightarrow> res \<noteq> None"
  by (auto simp: open_mapped_def errno_defs RTSS_MB_RETURN_SUCCESS_def dest: open_finish_ret
      split: if_splits prod.splits)

lemma rtss_mb_open_ret:
  "errno_pos p \<Longrightarrow> rtss_mb_open p g dev w = ((r, res), w') \<Longrightarrow> r = 0 \<longleftrightarrow> res \<noteq> None"
  by (auto simp: rtss_mb_open_def Let_def errno_defs dest: errno_sys open_mapped_ret
      split: if_splits prod.splits option.splits)

text \<open>The descriptors of a handle are valid.\<close>

definition handle_fds :: "platform \<Rightarrow> rtss_mb_handle \<Rightarrow> bool" where
  "handle_fds p h \<longleftrightarrow> 0 \<le> h_fd h \<and> (h_mode h = RTSS_MB_MODE_RX p \<longrightarrow> 0 \<le> h_event_fd h)"

lemma sys_result_ge: "results_ok p \<Longrightarrow> sys p c w = (a, w') \<Longrightarrow> -1 \<le> a_ret a"
  using sys_answer [of p c w a w'] by (simp add: results_ok_def)

lemma open_finish_fds:
  "results_ok p \<Longrightarrow> 0 \<le> nFd \<Longrightarrow> open_finish p h mb sz nFd w = ((r, Some h'), w') \<Longrightarrow> handle_fds p h'"
  by (auto simp: open_finish_def Let_def handle_fds_def split: if_splits prod.splits) (fastforce dest: sys_result_ge)

lemma rtss_mb_open_fds:
  assumes "results_ok p" "rtss_mb_open p g (Some d) w = ((r, Some h), w')"
  shows "handle_fds p h"
proof -
  obtain a wa where a: "sys p Sys_calloc w = (a, wa)" by fastforce
  obtain b wb where b: "sys p Sys_open wa = (b, wb)" by fastforce
  obtain c wc where c: "sys p (Sys_ioctl (a_ret b) RTSS_MB_GET_MB_REGION None) wb = (c, wc)" by fastforce
  obtain e we where e: "sys p (Sys_mmap (a_size c) (a_ret b)) wc = (e, we)" by fastforce
  have "open_mapped p d (nat (a_ret e)) (a_size c) (a_ret b) we = ((r, Some h), w')" "a_ret b \<noteq> -1"
    using assms(2) by (auto simp: rtss_mb_open_def Let_def a b c e split: if_splits)
  moreover from this have "0 \<le> a_ret b"
    using sys_result_ge [OF assms(1) b] by simp
  ultimately show ?thesis
    using open_finish_fds [OF assms(1)] by (auto simp: open_mapped_def split: if_splits prod.splits)
qed

section \<open>Set-up\<close>

definition mappings_only :: "resource multiset \<Rightarrow> bool" where
  "mappings_only R \<longleftrightarrow> (\<forall>x. x \<in># R \<longrightarrow> (\<exists>a n. x = Mapping a n))"

lemma mappings_only_simps [simp]:
  "mappings_only {#}" "mappings_only (add_mset (Mapping a n) R) \<longleftrightarrow> mappings_only R"
  by (auto simp: mappings_only_def)

lemma mappings_only_plus [simp]: "mappings_only (R + S) \<longleftrightarrow> mappings_only R \<and> mappings_only S"
  by (auto simp: mappings_only_def)

lemma close_fds:
  "handle_fds p h \<Longrightarrow> wheld w = R + handle_resources p h \<Longrightarrow>
   wheld (snd (rtss_mb_close p (Some h) w)) = R + {#Mapping (h_p_mb_base_addr h) (h_mb_size h)#}"
  using rtss_mb_close_held [of h p w R] by (cases "rtss_mb_close p (Some h) w") (simp add: handle_fds_def)

lemma get_buffer_held:
  assumes "rtss_upd_get_ota_buffer p cl c w = ((r, cl', c'), w')" "results_ok p"
  shows "if base_addr c = NULL then wheld w' = wheld w + live_mapping c' \<and> (r \<noteq> RTSS_UPD_E_OK \<longrightarrow> c' = c)
    else wheld w' = wheld w \<and> r = RTSS_UPD_E_OK"
proof (cases "base_addr c = NULL")
  case True
  then obtain r1 where m: "map_ota_buffer_locked p cl c w = ((r1, cl', c'), w')"
    "r = (if r1 \<noteq> RTSS_UPD_E_OK then RTSS_UPD_E_ERR else RTSS_UPD_E_OK)"
    using assms(1) by (auto simp: rtss_upd_get_ota_buffer_def split: prod.splits)
  then show ?thesis
    using map_ota_held [OF m(1) assms(2) True] True by (auto split: if_splits)
next
  case False
  then show ?thesis
    using assms(1) by (simp add: rtss_upd_get_ota_buffer_def)
qed

lemma free_held: "wheld (snd (sys p Sys_free w)) = wheld w - {#Heap#}"
  by (simp add: wheld_snd_sys)

text \<open>What is held once both channels are open.\<close>

lemma mem_init_channels:
  assumes ok: "results_ok p" "errno_pos p"
    and tx: "rtss_mb_open p True (Some UPDATER_TX_CHANNEL) w = ((0, tx), w1)"
    and rx: "rtss_mb_open p True (Some UPDATER_RX_CHANNEL) w1 = ((r, rx), w2)"
  obtains h where "tx = Some h" "handle_fds p h" "wheld w1 = wheld w + handle_resources p h"
    "r \<noteq> 0 \<Longrightarrow> rx = None \<and> wheld w2 = wheld w + handle_resources p h"
    "r = 0 \<Longrightarrow> \<exists>k. rx = Some k \<and> handle_fds p k
       \<and> wheld w2 = wheld w + handle_resources p h + handle_resources p k"
proof -
  obtain h where h: "tx = Some h"
    using rtss_mb_open_ret [OF ok(2) tx] by auto
  have fds: "handle_fds p h" and held: "wheld w1 = wheld w + handle_resources p h"
    using rtss_mb_open_fds [OF ok(1) tx [unfolded h]] rtss_mb_open_held [OF tx] h by auto
  show ?thesis
    using that [OF h fds held] rtss_mb_open_ret [OF ok(2) rx] rtss_mb_open_held [OF rx] held
      rtss_mb_open_fds [OF ok(1), of True UPDATER_RX_CHANNEL w1 r _ w2] rx
    by (cases rx) auto
qed

lemma mem_init_held:
  assumes ok: "results_ok p" "errno_pos p"
    and run: "rtss_updater_mem_init p (Some c) g w = ((r, c', g'), w')"
  shows "if r = EXIT_SUCCESS
    then \<exists>tx rx. rtss_updater_tx_client_data g' = Some tx \<and> rtss_updater_rx_client_data g' = Some rx
      \<and> handle_fds p tx \<and> handle_fds p rx \<and> rtss_updater_mmap_data g' \<noteq> None
      \<and> wheld w' = wheld w + {#Heap#} + handle_resources p tx + handle_resources p rx +
        (if base_addr (rtss_ota_ctx g) = NULL then live_mapping (rtss_ota_ctx g') else {#})
    else r = EXIT_FAILURE \<and> (\<exists>R. mappings_only R \<and> wheld w' = wheld w + R)"
proof -
  note codes = EXIT_SUCCESS_def EXIT_FAILURE_def
  obtain a w1 where a: "sys p Sys_calloc w = (a, w1)" by fastforce
  obtain rt tx w2 where ot: "rtss_mb_open p True (Some UPDATER_TX_CHANNEL) w1 = ((rt, tx), w2)"
    by (metis surj_pair)
  obtain rr rx w3 where ox: "rtss_mb_open p True (Some UPDATER_RX_CHANNEL) w2 = ((rr, rx), w3)"
    by (metis surj_pair)
  obtain nr d ctx w4 where ob: "rtss_upd_get_ota_buffer p mmap_data_zero (rtss_ota_ctx g) w3 = ((nr, d, ctx), w4)"
    by (metis surj_pair)
  have w1: "wheld w1 = wheld w + (if a_ret a = 0 then {#} else {#Heap#})"
    using wheld_sys [OF a] by simp
  note def = run [unfolded rtss_updater_mem_init_def option.case a prod.case ot ox Let_def]
  note buf = get_buffer_held [OF ob ok(1)]
  consider (calloc) "a_ret a = 0" | (tx) "a_ret a \<noteq> 0" "rt \<noteq> 0" | (rx) "a_ret a \<noteq> 0" "rt = 0" "rr \<noteq> 0"
    | (both) "a_ret a \<noteq> 0" "rt = 0" "rr = 0" by blast
  then show ?thesis
  proof cases
    case calloc
    then show ?thesis
      using def w1 by (auto simp: codes intro!: exI [of _ "{#}"])
  next
    case tx
    then have "wheld w2 = wheld w1"
      using rtss_mb_open_ret [OF ok(2) ot] rtss_mb_open_held [OF ot] by (auto split: option.splits)
    then show ?thesis
      using def w1 tx by (auto simp: codes free_held intro!: exI [of _ "{#}"])
  next
    case rx
    obtain h where h: "tx = Some h" "handle_fds p h" "wheld w3 = wheld w1 + handle_resources p h"
      using mem_init_channels [OF ok, of w1 tx w2 rr rx w3] ot ox rx by metis
    then show ?thesis
      using def w1 rx close_fds [OF h(2,3)]
      by (auto simp: codes free_held stored_handle_def
          intro!: exI [of _ "{#Mapping (h_p_mb_base_addr h) (h_mb_size h)#}"])
  next
    case both
    obtain h k where h: "tx = Some h" "handle_fds p h" "rx = Some k" "handle_fds p k"
      "wheld w3 = wheld w1 + handle_resources p h + handle_resources p k"
      using mem_init_channels [OF ok, of w1 tx w2 rr rx w3] ot ox both by metis
    let ?c1 = "snd (rtss_mb_close p (Some h) w4)" and ?h = "Mapping (h_p_mb_base_addr h) (h_mb_size h)"
      and ?k = "Mapping (h_p_mb_base_addr k) (h_mb_size k)"
    show ?thesis
    proof (cases "nr = RTSS_UPD_E_OK")
      case True
      then show ?thesis
        using def w1 both h buf by (auto simp: ob codes stored_handle_def split: if_splits)
    next
      case False
      then have w4: "wheld w4 = (wheld w1 + handle_resources p k) + handle_resources p h"
        using buf h(5) by (auto simp: live_mapping_def split: if_splits)
      have "wheld ?c1 = (wheld w1 + {#?h#}) + handle_resources p k"
        using close_fds [OF h(2) w4] by simp
      then have "wheld (snd (rtss_mb_close p (Some k) ?c1)) = wheld w1 + {#?h#} + {#?k#}"
        using close_fds [OF h(4)] by blast
      then show ?thesis
        using def w1 both h False
        by (auto simp: ob codes free_held stored_handle_def intro!: exI [of _ "{#?h, ?k#}"])
    qed
  qed
qed

lemma release_last_held:
  assumes "refcount c = 1" "base_addr c \<noteq> NULL" "wheld w = R + live_mapping c"
  shows "\<exists>d' c'. rtss_upd_release_ota_buffer p (Some d) c w = ((RTSS_UPD_E_OK, d', c'),
      snd (sys p (Sys_munmap (base_addr c) (unat (csize c))) w)) \<and> base_addr c' = NULL \<and> refcount c' = 0"
    "wheld (snd (sys p (Sys_munmap (base_addr c) (unat (csize c))) w)) = R"
  using assms by (simp_all add: rtss_upd_release_ota_buffer_def release_locked_def Let_def wheld_snd_sys live_mapping_def)

lemma mem_deinit_held:
  assumes h: "rtss_updater_tx_client_data g = Some tx" "rtss_updater_rx_client_data g = Some rx"
      "handle_fds p tx" "handle_fds p rx" "rtss_updater_mmap_data g = Some d"
    and c: "refcount (rtss_ota_ctx g) = 1" "base_addr (rtss_ota_ctx g) \<noteq> NULL"
    and w: "wheld w = R + handle_resources p tx + handle_resources p rx + live_mapping (rtss_ota_ctx g)"
    and run: "rtss_updater_mem_deinit p (Some m) g w = ((EXIT_SUCCESS, g'), w')"
  shows "wheld w' = R + {#Mapping (h_p_mb_base_addr tx) (h_mb_size tx), Mapping (h_p_mb_base_addr rx) (h_mb_size rx)#}
    \<and> base_addr (rtss_ota_ctx g') = NULL \<and> refcount (rtss_ota_ctx g') = 0"
proof -
  let ?t = "Mapping (h_p_mb_base_addr tx) (h_mb_size tx)" and ?r = "Mapping (h_p_mb_base_addr rx) (h_mb_size rx)"
  let ?c = "rtss_ota_ctx g"
  obtain rt w1 where t: "rtss_mb_close p (Some tx) w = (rt, w1)" by fastforce
  obtain rr w2 where r: "rtss_mb_close p (Some rx) w1 = (rr, w2)" by fastforce
  have "wheld w1 = (R + handle_resources p rx + live_mapping ?c) + {#?t#}"
    using close_fds [OF h(3), of w "R + handle_resources p rx + live_mapping ?c"] w t by simp
  then have "wheld w2 = (R + live_mapping ?c + {#?t#}) + {#?r#}"
    using close_fds [OF h(4), of w1 "R + live_mapping ?c + {#?t#}"] r by simp
  then have "wheld w2 = (R + {#?t, ?r#}) + live_mapping ?c"
    by simp
  note rel = release_last_held(1) [OF c this, of p d] release_last_held(2) [OF c this, of p]
  show ?thesis
    using run rel h(1,2,5) t r by (auto simp: rtss_updater_mem_deinit_def EXIT_SUCCESS_def EXIT_FAILURE_def
        split: if_splits)
qed

section \<open>Loading a file\<close>

text \<open>A peer that leaves the memory alone.\<close>

definition quiet :: "platform \<Rightarrow> bool" where
  "quiet p \<longleftrightarrow> (\<forall>k m. a_peer (answer p k) m = m)"

definition load_succeeds :: "platform \<Rightarrow> nat \<Rightarrow> bool" where
  "load_succeeds p k \<longleftrightarrow> a_ret (answer p k) \<noteq> -1 \<and> a_mode (answer p k) AND 0x100 \<noteq> 0
     \<and> a_ret (answer p (k + 1)) \<noteq> -1 \<and> a_ret (answer p (k + 2)) = int (a_size (answer p k))"

lemma loadfile_held:
  "wheld (snd (rtss_updater_loadfile p path dst alignment w)) = wheld w"
  by (auto simp: rtss_updater_loadfile_def sys_def Let_def wheld_def split: option.splits)

lemma sint_small: "n < 2 ^ 31 \<Longrightarrow> sint (of_nat n :: u32) = int n"
  using i32_small [of "of_nat n"] by (simp add: i32_def unat_of_nat_small)

text \<open>The bytes that fill the last line of the cache.\<close>

definition padding :: "nat \<Rightarrow> nat \<Rightarrow> nat" where
  "padding alignment n = (let r = n mod alignment in if r = 0 then 0 else alignment - r)"

lemma padding_less: "0 < alignment \<Longrightarrow> padding alignment n < alignment"
  by (simp add: padding_def Let_def)

lemma padding_dvd: "0 < alignment \<Longrightarrow> alignment dvd n + padding alignment n"
proof -
  assume al: "0 < alignment"
  have "n = n div alignment * alignment + n mod alignment"
    by simp
  moreover have "n mod alignment < alignment"
    using al by simp
  ultimately have "n + padding alignment n = (if n mod alignment = 0 then n div alignment else n div alignment + 1) * alignment"
    unfolding padding_def Let_def by (smt (verit) add.right_neutral add_mult_distrib le_add_diff_inverse less_imp_le mult_1 add.assoc)
  then show ?thesis
    by (metis dvd_triv_right)
qed

lemma padded_bytes:
  "length d = n \<Longrightarrow> 0 < pad \<Longrightarrow>
   put_bytes ((put_bytes m dst d)(dst + n := 0)) (dst + n) (replicate pad 0) = put_bytes m dst (d @ replicate pad 0)"
  by (intro ext) (auto simp: put_bytes_def nth_append)

lemma loadfile_run:
  assumes q: "quiet p" and dst: "dst \<noteq> NULL" and ok: "load_succeeds p (w_now w)"
    and len: "length (a_data (answer p (w_now w + 2))) = nat (a_ret (answer p (w_now w + 2)))"
    and n: "n = a_size (answer p (w_now w))"
  shows "fst (rtss_updater_loadfile p (Some f) dst alignment w) = sint (of_nat (n + padding alignment n) :: u32)"
    "w_mem (snd (rtss_updater_loadfile p (Some f) dst alignment w)) =
       put_bytes (w_mem w) dst (a_data (answer p (w_now w + 2)) @ replicate (padding alignment n) 0)"
proof -
  let ?d = "a_data (answer p (w_now w + 2))"
  note ok = ok [unfolded load_succeeds_def] and q = q [unfolded quiet_def]
  have d: "length ?d = n" "take n ?d = ?d"
    using ok len n by simp_all
  show "fst (rtss_updater_loadfile p (Some f) dst alignment w) = sint (of_nat (n + padding alignment n) :: u32)"
    using ok dst n by (simp add: rtss_updater_loadfile_def sys_def Let_def padding_def)
  show "w_mem (snd (rtss_updater_loadfile p (Some f) dst alignment w)) = put_bytes (w_mem w) dst (?d @ replicate (padding alignment n) 0)"
  proof (cases "0 < padding alignment n")
    case True
    then have "dst + n \<noteq> NULL" using dst by simp
    then show ?thesis
      using ok dst n q d padded_bytes [OF d(1) True, of "w_mem w" dst] True
      by (simp add: rtss_updater_loadfile_def sys_def Let_def padding_def rtss_updater_mset_block split: if_splits)
  next
    case False
    then show ?thesis
      using ok dst n q d
      by (simp add: rtss_updater_loadfile_def sys_def Let_def padding_def split: if_splits)
  qed
qed

lemma loadfile_fails:
  "dst \<noteq> NULL \<Longrightarrow> \<not> load_succeeds p (w_now w) \<Longrightarrow> fst (rtss_updater_loadfile p (Some f) dst alignment w) = -1"
  by (auto simp: load_succeeds_def rtss_updater_loadfile_def sys_def Let_def)

end
