(* ===== verification/Updater_Config_Props.thy ===== *)
theory Updater_Config_Props
  imports Updater_Util_Props
begin

text \<open>
  The configuration file: a file written from a list of images is read back as that list, and
  whatever is accepted lists supported images, each at most once.
\<close>

section \<open>Lines and tokens\<close>

lemma getlines_line: "10 \<notin> set l \<Longrightarrow> getlines (l @ 10 # s) = (l @ [10]) # getlines s"
  by (induction l) simp_all

lemma strtok_Nil [simp]: "strtok [] = None"
  by (simp add: strtok_def)

lemma strtok_word: "t \<noteq> [] \<Longrightarrow> 32 \<notin> set t \<Longrightarrow> strtok t = Some (t, [])"
proof -
  assume t: "t \<noteq> []" "32 \<notin> set t"
  then have "dropWhile (\<lambda>c. c = 32) t = t" "takeWhile (\<lambda>c. c \<noteq> 32) t = t" "dropWhile (\<lambda>c. c \<noteq> 32) t = []"
    by (cases t; auto simp: takeWhile_eq_all_conv dropWhile_eq_Nil_conv)+
  then show ?thesis
    using t(1) by (simp add: strtok_def del: dropWhile_eq_Nil_conv takeWhile_eq_all_conv)
qed

lemma strtok_first: "t \<noteq> [] \<Longrightarrow> 32 \<notin> set t \<Longrightarrow> strtok (t @ 32 # s) = Some (t, s)"
proof -
  assume t: "t \<noteq> []" "32 \<notin> set t"
  then have "dropWhile (\<lambda>c. c = 32) (t @ 32 # s) = t @ 32 # s"
    by (cases t) auto
  moreover have "takeWhile (\<lambda>c. c \<noteq> 32) (t @ 32 # s) = t" "dropWhile (\<lambda>c. c \<noteq> 32) (t @ 32 # s) = 32 # s"
    using t(2) by (induction t) auto
  ultimately show ?thesis by (simp add: strtok_def)
qed

lemma strtok_SomeD:
  "strtok s = Some (t, r) \<Longrightarrow> t \<noteq> [] \<and> 32 \<notin> set t \<and> set t \<subseteq> set s \<and> set r \<subseteq> set s"
proof -
  assume a: "strtok s = Some (t, r)"
  define u where "u = dropWhile (\<lambda>c. c = 32) s"
  have u: "u \<noteq> []" "t = takeWhile (\<lambda>c. c \<noteq> 32) u" "r = drop 1 (dropWhile (\<lambda>c. c \<noteq> 32) u)"
    using a by (auto simp: strtok_def u_def [symmetric] Let_def split: if_splits)
  have "hd u \<noteq> 32"
    using u(1) hd_dropWhile [of "\<lambda>c. c = 32" s] by (simp add: u_def)
  then have "t \<noteq> []" using u(1,2) by (cases u) auto
  moreover have "set u \<subseteq> set s" by (auto simp: u_def dest: set_dropWhileD)
  ultimately show ?thesis
    using u(2,3) by (auto dest: set_takeWhileD set_dropWhileD in_set_dropD)
qed

lemma cstr_id: "0 \<notin> set s \<Longrightarrow> cstr s = s"
  unfolding cstr_def by (auto simp: takeWhile_eq_all_conv)

lemma cstr_no_zero: "0 \<notin> set (cstr s)"
  by (auto simp: cstr_def dest: set_takeWhileD)

section \<open>Reading back\<close>

lemma supported_names:
  "n \<in> set rtss_updater_supported_img_names \<Longrightarrow> length n = 8 \<and> 0 \<notin> set n \<and> 10 \<notin> set n \<and> 32 \<notin> set n"
  by (auto simp: rtss_updater_supported_img_names_def ascii_def)

definition entry_ok :: "u8 list \<times> u8 list \<Rightarrow> bool" where
  "entry_ok = (\<lambda>(n, p). n \<in> set rtss_updater_supported_img_names \<and> p \<noteq> [] \<and> length p < 128
     \<and> 0 \<notin> set p \<and> 10 \<notin> set p \<and> 32 \<notin> set p \<and> last p \<noteq> 13)"

definition cfg_render_line :: "u8 list \<times> u8 list \<Rightarrow> u8 list" where
  "cfg_render_line = (\<lambda>(n, p). n @ 32 # p @ [10])"

definition cfg_render :: "(u8 list \<times> u8 list) list \<Rightarrow> u8 list" where
  "cfg_render es = concat (map cfg_render_line es)"

lemma getlines_render: "\<forall>e \<in> set es. entry_ok e \<Longrightarrow> getlines (cfg_render es) = map cfg_render_line es"
proof (induction es)
  case (Cons e es)
  obtain n p where e: "e = (n, p)" by fastforce
  have "10 \<notin> set (n @ 32 # p)"
    using Cons.prems e supported_names by (auto simp: entry_ok_def)
  then show ?case
    using Cons getlines_line [of "n @ 32 # p" "cfg_render es"] by (simp add: e cfg_render_def cfg_render_line_def)
qed (simp add: cfg_render_def)

lemma path_len_line: "p \<noteq> [] \<Longrightarrow> last p \<noteq> 13 \<Longrightarrow> path_len (p @ [10]) = length p"
  by (cases p rule: rev_cases) (auto simp: path_len_def Let_def nth_append)

definition rows_ok :: "rtss_updater_imgconfig_t \<Rightarrow> bool" where
  "rows_ok c \<longleftrightarrow> length (imageNames c) = RTSS_UPDATER_CFG_MAX_IMAGES \<and> length (imagePaths c) = RTSS_UPDATER_CFG_MAX_IMAGES"

definition holds_entries :: "(u8 list \<times> u8 list) list \<Rightarrow> rtss_updater_imgconfig_t \<Rightarrow> bool" where
  "holds_entries es c \<longleftrightarrow> rows_ok c \<and> length es \<le> RTSS_UPDATER_CFG_MAX_IMAGES
     \<and> (\<forall>i < length es. imageNames c ! i = mcpy_member blank_row (fst (es ! i))
          \<and> imagePaths c ! i = mcpy_member blank_row (snd (es ! i)))"

lemma holds_entries_strs:
  assumes "holds_entries es c" "i < length es" "entry_ok (es ! i)"
  shows "name_str c i = fst (es ! i)" "path_str c i = snd (es ! i)"
  using assms supported_names [of "fst (es ! i)"]
  by (auto simp: holds_entries_def rows_ok_def entry_ok_def split: prod.splits intro!: name_str_row path_str_row)

lemma cfg_line_render:
  assumes h: "holds_entries es c" and ok: "\<forall>e \<in> set es. entry_ok e" "entry_ok (n, p)"
    and new: "n \<notin> fst ` set es" "length es < RTSS_UPDATER_CFG_MAX_IMAGES"
  shows "\<exists>c'. cfg_line (int RTSS_UPDATER_CFG_MAX_IMAGES) (cfg_render_line (n, p)) (length es) c = Inr c'
    \<and> holds_entries (es @ [(n, p)]) c'"
proof -
  have n: "n \<noteq> []" "0 \<notin> set n" "32 \<notin> set n" "length n = 8"
    using ok(2) supported_names [of n] by (auto simp: entry_ok_def)
  have p: "p \<noteq> []" "0 \<notin> set p" "32 \<notin> set p" "last p \<noteq> 13" "length p < 128"
    using ok(2) by (auto simp: entry_ok_def)
  have "\<not> list_ex (\<lambda>i. n = name_str c i) [0..<length es]"
    using holds_entries_strs(1) [OF h] ok(1) new(1) by (force simp: list_ex_iff)
  moreover have "strtok (cstr (cfg_render_line (n, p))) = Some (n, p @ [10])"
    using n p by (simp add: cfg_render_line_def cstr_id strtok_first)
  moreover have "strtok (p @ [10]) = Some (p @ [10], [])"
    using p by (simp add: strtok_word)
  ultimately show ?thesis
    using n p new(2) h path_len_line [OF p(1,4)]
    by (auto simp: cfg_line_def Let_def RTSS_UPDATER_CFG_MAX_IMAGEPATH_LEN_def holds_entries_def rows_ok_def
        nth_append nth_list_update less_Suc_eq)
qed

lemma cfg_lines_render:
  assumes "holds_entries ds c" "\<forall>e \<in> set (ds @ es). entry_ok e" "distinct (map fst (ds @ es))"
    "length (ds @ es) \<le> RTSS_UPDATER_CFG_MAX_IMAGES"
  shows "\<exists>c'. cfg_lines (int RTSS_UPDATER_CFG_MAX_IMAGES) (map cfg_render_line es) (length ds) c
      = Inr (length (ds @ es), c') \<and> holds_entries (ds @ es) c'"
  using assms
proof (induction es arbitrary: ds c)
  case (Cons e es)
  obtain n p where e: "e = (n, p)" by fastforce
  obtain c1 where "cfg_line (int RTSS_UPDATER_CFG_MAX_IMAGES) (cfg_render_line e) (length ds) c = Inr c1"
    "holds_entries (ds @ [e]) c1"
    using cfg_line_render [of ds c n p] Cons.prems by (auto simp: e)
  then show ?case
    using Cons.IH [of "ds @ [e]" c1] Cons.prems by simp
qed simp

lemma supported_once:
  "n \<in> set rtss_updater_supported_img_names \<Longrightarrow>
   length (filter (\<lambda>s. n = s) rtss_updater_supported_img_names) = 1"
  by (auto simp: rtss_updater_supported_img_names_def ascii_def)

lemma holds_entries_supported:
  assumes "holds_entries es c" "\<forall>e \<in> set es. entry_ok e"
  shows "cfg_supported rtss_updater_supported_img_names (length es) c"
proof -
  have "length (filter (\<lambda>s. name_str c i = s) rtss_updater_supported_img_names) = 1" if "i < length es" for i
  proof -
    have "entry_ok (es ! i)" using assms(2) that by simp
    then show ?thesis
      using holds_entries_strs(1) [OF assms(1) that] supported_once [of "fst (es ! i)"]
      by (auto simp: entry_ok_def split: prod.splits)
  qed
  then show ?thesis
    by (simp add: cfg_supported_def list_all_iff)
qed

section \<open>What is accepted\<close>

lemma cfg_line_accepts:
  assumes "cfg_line (int RTSS_UPDATER_CFG_MAX_IMAGES) l k c = Inr c'"
  obtains name path where "k < RTSS_UPDATER_CFG_MAX_IMAGES" "name \<noteq> []" "0 \<notin> set name" "length name \<le> 128"
    "\<forall>i < k. name \<noteq> name_str c i"
    "c' = c\<lparr>imageNames := (imageNames c)[k := mcpy_member blank_row name],
           imagePaths := (imagePaths c)[k := mcpy_member blank_row path]\<rparr>"
proof -
  obtain name rest where t: "strtok (cstr l) = Some (name, rest)"
    using assms by (auto simp: cfg_line_def split: option.splits)
  have name: "name \<noteq> []" "0 \<notin> set name"
    using strtok_SomeD [OF t] cstr_no_zero [of l] by auto
  note c = assms [unfolded cfg_line_def t, simplified, unfolded Let_def]
  have "k < RTSS_UPDATER_CFG_MAX_IMAGES" "length name \<le> 128" "\<forall>i < k. name \<noteq> name_str c i"
    using c by (auto simp: list_ex_iff RTSS_UPDATER_CFG_MAX_IMAGEPATH_LEN_def split: if_splits)
  moreover obtain path where "c' = c\<lparr>imageNames := (imageNames c)[k := mcpy_member blank_row name],
           imagePaths := (imagePaths c)[k := mcpy_member blank_row path]\<rparr>"
    using c by (auto split: if_splits option.splits)
  ultimately show ?thesis
    using name by (intro that)
qed

text \<open>The names accepted so far. A name that fills its row is not terminated and escapes the test for
  duplicates, but it is not supported.\<close>

definition holds_names :: "u8 list list \<Rightarrow> rtss_updater_imgconfig_t \<Rightarrow> bool" where
  "holds_names ns c \<longleftrightarrow> rows_ok c \<and> length ns \<le> RTSS_UPDATER_CFG_MAX_IMAGES
     \<and> (\<forall>i < length ns. imageNames c ! i = mcpy_member blank_row (ns ! i) \<and> ns ! i \<noteq> [] \<and> 0 \<notin> set (ns ! i)
          \<and> length (ns ! i) \<le> 128)
     \<and> (\<forall>i j. i < j \<and> j < length ns \<and> length (ns ! i) < 128 \<longrightarrow> ns ! j \<noteq> ns ! i)"

lemma holds_names_str: "holds_names ns c \<Longrightarrow> i < length ns \<Longrightarrow> length (ns ! i) < 128 \<Longrightarrow> name_str c i = ns ! i"
  by (simp add: holds_names_def rows_ok_def name_str_row)

lemma cfg_line_holds_names:
  assumes "cfg_line (int RTSS_UPDATER_CFG_MAX_IMAGES) l (length ns) c = Inr c'" "holds_names ns c"
  shows "\<exists>n. holds_names (ns @ [n]) c'"
proof -
  obtain name path where n: "length ns < RTSS_UPDATER_CFG_MAX_IMAGES" "name \<noteq> []" "0 \<notin> set name" "length name \<le> 128"
    "\<forall>i < length ns. name \<noteq> name_str c i"
    "c' = c\<lparr>imageNames := (imageNames c)[length ns := mcpy_member blank_row name],
           imagePaths := (imagePaths c)[length ns := mcpy_member blank_row path]\<rparr>"
    by (rule cfg_line_accepts [OF assms(1)])
  have "name \<noteq> ns ! i" if "i < length ns" "length (ns ! i) < 128" for i
    using n(5) holds_names_str [OF assms(2) that] that(1) by auto
  then have "holds_names (ns @ [name]) c'"
    using n assms(2) by (auto simp: holds_names_def rows_ok_def nth_append nth_list_update less_Suc_eq)
  then show ?thesis by blast
qed

lemma cfg_lines_holds_names:
  "cfg_lines (int RTSS_UPDATER_CFG_MAX_IMAGES) ls (length ns) c = Inr (k, c') \<Longrightarrow> holds_names ns c \<Longrightarrow>
   \<exists>ms. holds_names ms c' \<and> length ms = k \<and> k = length ns + length ls"
proof (induction ls arbitrary: ns c)
  case (Cons l ls)
  obtain c1 where c1: "cfg_line (int RTSS_UPDATER_CFG_MAX_IMAGES) l (length ns) c = Inr c1"
    "cfg_lines (int RTSS_UPDATER_CFG_MAX_IMAGES) ls (Suc (length ns)) c1 = Inr (k, c')"
    using Cons.prems(1) by (auto split: sum.splits)
  obtain n where "holds_names (ns @ [n]) c1"
    using cfg_line_holds_names [OF c1(1) Cons.prems(2)] by blast
  then show ?case
    using Cons.IH [of "ns @ [n]" c1] c1(2) by auto
qed auto

lemma holds_names_supported:
  assumes "holds_names ns c" "cfg_supported rtss_updater_supported_img_names (length ns) c"
  shows "\<forall>i < length ns. name_str c i \<in> set rtss_updater_supported_img_names"
    and "distinct (map (name_str c) [0..<length ns])"
proof -
  have sup: "name_str c i \<in> set rtss_updater_supported_img_names" if "i < length ns" for i
  proof -
    have "length (filter (\<lambda>s. name_str c i = s) rtss_updater_supported_img_names) = 1"
      using assms(2) that by (simp add: cfg_supported_def list_all_iff)
    then have "filter (\<lambda>s. name_str c i = s) rtss_updater_supported_img_names \<noteq> []"
      by (metis list.size(3) zero_neq_one)
    then show ?thesis by (auto simp: filter_empty_conv)
  qed
  then show "\<forall>i < length ns. name_str c i \<in> set rtss_updater_supported_img_names" by blast
  have short: "length (ns ! i) < 128" if i: "i < length ns" for i
  proof (rule ccontr)
    assume "\<not> length (ns ! i) < 128"
    then have l: "length (ns ! i) = 128" "0 \<notin> set (ns ! i)" "imageNames c ! i = mcpy_member blank_row (ns ! i)"
      "i < length (imageNames c)"
      using assms(1) i by (auto simp: holds_names_def rows_ok_def intro: order_antisym)
    then have "imageNames c ! i = ns ! i"
      by (simp add: mcpy_member_def blank_row_def RTSS_UPDATER_CFG_MAX_IMAGEPATH_LEN_def)
    then have "name_str c i = ns ! i @ cstr (concat (drop (Suc i) (imageNames c) @ imagePaths c))"
      using l by (auto simp: name_str_def Cons_nth_drop_Suc [symmetric] cstr_def intro!: takeWhile_append2)
    then show False
      using supported_names [OF sup [OF i]] l(1) by simp
  qed
  then have "name_str c i = ns ! i" if "i < length ns" for i
    using that holds_names_str [OF assms(1)] by blast
  then have "map (name_str c) [0..<length ns] = ns"
    by (intro nth_equalityI) simp_all
  moreover have "distinct ns"
    using assms(1) short by (auto simp: holds_names_def distinct_conv_nth nat_neq_iff) metis
  ultimately show "distinct (map (name_str c) [0..<length ns])" by simp
qed

end
