(* ===== verification/Mailbox_Held.thy ===== *)
theory Mailbox_Held
  imports Mailbox_Props
begin

text \<open>Reading, waiting, writing and resetting acquire and release nothing.\<close>

lemma wheld_mem [simp]: "wheld (w\<lparr>w_mem := m\<rparr>) = wheld w"
  by (simp add: wheld_def)

text \<open>What holds between the worlds before and after every call holds over a wait.\<close>

lemma read_wait_relates:
  assumes run: "read_wait p h ms n w = Some y" and id: "\<And>u. R u u" and tr: "\<And>u v x. R u v \<Longrightarrow> R v x \<Longrightarrow> R u x"
    and st: "\<And>h ms u a v. sys p (Sys_poll h ms) u = (a, v) \<Longrightarrow> R u v"
      "\<And>h u a v. sys p (Sys_eventfd_read h) u = (a, v) \<Longrightarrow> R u v"
  shows "R w (snd y)"
proof (rule read_wait.raw_induct [where P = "\<lambda>q h ms n w y. q = p \<longrightarrow> R w (snd y)", OF _ run, THEN mp, OF _ refl],
    rule impI)
  fix rec q h ms n w y
  assume IH: "\<And>q h ms n w y. rec q h ms n w = Some y \<Longrightarrow> q = p \<longrightarrow> R w (snd y)" and q: "q = p"
    and eq: "(if n \<noteq> 0 then Some (Inr n, w)
      else case sys q (Sys_poll (h_event_fd h) ms) w of (a, w) \<Rightarrow>
        if a_ret a = -1 then Some (Inl (if a_err a = EINTR then - EINTR else - a_err a), w)
        else if a_ret a = 0 then Some (Inl (- ETIMEDOUT), w)
        else case (if a_revents a AND POLLIN \<noteq> 0
                   then (case sys q (Sys_eventfd_read (h_event_fd h)) w of (b, w) \<Rightarrow>
                           (if a_ret b = -1 then Some (- a_err b) else None, w))
                   else if a_revents a AND (POLLNVAL OR POLLERR OR POLLHUP) \<noteq> 0
                   then (Some (- ECONNRESET), w)
                   else (None, w)) of
               (Some e, w) \<Rightarrow> Some (Inl e, w)
             | (None, w) \<Rightarrow>
                 let n = LibMB_Get_ValidItemNum (w_mem w) (h_p_mb_base_addr h) (h_subregion_index h)
                 in if n < 0 then Some (Inl (- EIO), w)
                    else rec q h ms n w) = Some y"
  show "R w (snd y)"
  proof (cases "n = 0")
    case True
    obtain a v where a: "sys p (Sys_poll (h_event_fd h) ms) w = (a, v)" by fastforce
    obtain b u where b: "sys p (Sys_eventfd_read (h_event_fd h)) v = (b, u)" by fastforce
    have "R w v" "R w u"
      using st(1) [OF a] tr [OF st(1) [OF a] st(2) [OF b]] .
    moreover have "snd y = v \<or> snd y = u \<or> (\<exists>k. rec p h ms k v = Some y) \<or> (\<exists>k. rec p h ms k u = Some y)"
      using eq True q a b by (auto simp: Let_def split: if_splits)
    moreover have "R x (snd y)" if "rec p h ms k x = Some y" for k x
      using IH [OF that] by simp
    ultimately show ?thesis
      using tr by metis
  qed (use eq id in auto)
qed

lemma read_wait_held: "read_wait p h ms n w = Some y \<Longrightarrow> wheld (snd y) = wheld w"
  by (rule read_wait_relates [where R = "\<lambda>w v. wheld v = wheld w"]) (auto dest!: wheld_sys)

lemma read_wait_now: "read_wait p h ms n w = Some y \<Longrightarrow> w_now w \<le> w_now (snd y)"
  by (rule read_wait_relates [where R = "\<lambda>w v. w_now w \<le> w_now v"]) (auto dest!: sys_now)

lemma rtss_mb_read_now: "rtss_mb_read p h buf sz w = Some (r, w') \<Longrightarrow> w_now w \<le> w_now w'"
  by (auto simp: rtss_mb_read_def rtss_mb_read_timed_def Let_def dest!: read_wait_now
      split: option.splits if_splits sum.splits prod.splits)

lemma rtss_mb_read_held: "rtss_mb_read p h buf sz w = Some (r, w') \<Longrightarrow> wheld w' = wheld w"
  by (auto simp: rtss_mb_read_def rtss_mb_read_timed_def Let_def dest!: read_wait_held
      split: option.splits if_splits sum.splits prod.splits)

lemma rtss_mb_write_held: "rtss_mb_write p h buf sz w = (r, w') \<Longrightarrow> wheld w' = wheld w"
  by (auto simp: rtss_mb_write_def Let_def rtssmb_trigger_ioctl_def wheld_snd_sys
      split: if_splits prod.splits dest!: wheld_sys)

end
