(* ===== verification/Updater_Steps.thy ===== *)
theory Updater_Steps
  imports Updater_Flash_Props Updater_Init_Props Updater_Config_Props Mailbox_Held
begin

text \<open>
  The protocol of the update of the partition table, and the relations that every step of a
  sequence respects: what is held from the operating system, and the shape of the structures.
\<close>

section \<open>Updating the partition table\<close>

datatype gpt_phase = Gpt_start | Gpt_checked | Gpt_read | Gpt_written | Gpt_fixed

definition gpt_next :: "gpt_phase \<Rightarrow> issued \<Rightarrow> gpt_phase option" where
  "gpt_next q c = (case q of
       Gpt_start \<Rightarrow> if command c = RTSS_UPD_MSG_CHECK_GPT then Some Gpt_checked else None
     | Gpt_checked \<Rightarrow> if command c = RTSS_UPD_MSG_READ_GPT \<and> command_table c = Some 0 then Some Gpt_read else None
     | Gpt_read \<Rightarrow> if command c = RTSS_UPD_MSG_WRITE_GPT \<and> command_table c = Some 0 then Some Gpt_written else None
     | Gpt_written \<Rightarrow> if command c = RTSS_UPD_MSG_FIX_GPT \<and> command_table c = Some 1 then Some Gpt_fixed else None
     | Gpt_fixed \<Rightarrow> None)"

interpretation table: protocol gpt_next Gpt_start "\<lambda>_ _ _. True"
  by unfold_locales simp

lemma gpt_next_simps:
  "gpt_next Gpt_start c = (if command c = 1 then Some Gpt_checked else None)"
  "gpt_next Gpt_checked c = (if command c = 2 \<and> command_table c = Some 0 then Some Gpt_read else None)"
  "gpt_next Gpt_read c = (if command c = RTSS_UPD_MSG_WRITE_GPT \<and> command_table c = Some 0 then Some Gpt_written else None)"
  "gpt_next Gpt_written c = (if command c = 4 \<and> command_table c = Some 1 then Some Gpt_fixed else None)"
  by (simp_all add: gpt_next_def msg_id_defs)

lemma table_cong: "u_log s' = u_log s \<Longrightarrow> table.at q s' = table.at q s"
  by (simp add: table.at_def)

lemma table_clear [simp]: "table.at q (clear_buffer n s) = table.at q s"
  by (rule table_cong) (simp add: clear_buffer_def)

lemma gpt_read_accepted:
  assumes "table.at Gpt_checked s"
  shows "yields (table.at Gpt_read) table.accepted (gpt_read_steps p s)"
proof -
  have rd: "yields (table.at Gpt_read) table.accepted (exchange p (Readgpt 0 sv l a) (clear_buffer n s))" for sv l a n
    using assms by (intro table.issue_step [where q = Gpt_checked]) (simp_all add: gpt_next_simps)
  have get: "yields (table.at Gpt_read) table.accepted (case rtss_updater_get_gpthdr (w_mem (u_world t)) a (Some (gpthdr (u_hndshk t))) of
           (ret, h) \<Rightarrow> Returns (ret, t\<lparr>u_hndshk := (u_hndshk t)\<lparr>gpthdr := the h\<rparr>\<rparr>))" if "table.at Gpt_read t" for t a
    using that table.at_accepted by (auto simp: table.at_def table.accepted_def split: prod.splits)
  show ?thesis
    unfolding gpt_read_steps_def Let_def by (rule yields_after [OF rd], erule get)
qed

lemma gpt_modify_accepted:
  "table.at q s \<Longrightarrow> yields (table.at q) table.accepted (gpt_modify_step p s)"
  by (auto simp: gpt_modify_step_def Let_def table.at_def table.accepted_def split: run.splits prod.splits)

lemma await_answered: "yields (\<lambda>st'. answered st st' \<and> u_log st' = u_log st) (\<lambda>st'. answered st st' \<and> u_log st' = u_log st)
    (await_response p st)"
  using handler_answered by (auto simp: await_response_def split: run.splits)

lemma gpt_write_accepted:
  assumes "table.at Gpt_read s"
  shows "yields (table.at Gpt_written) table.accepted (gpt_write_step p s)"
proof -
  have wr: "table.at Gpt_written (s\<lparr>u_world := w, u_log := u_log s @ [Write_gpt 0], u_hndshk := hs\<rparr>)" for w hs
    using assms by (simp add: table.at_def phase_after_append gpt_next_simps)
  have aw: "yields (table.at Gpt_written) table.accepted (await_response p t)" if "table.at Gpt_written t" for t
    using that table.at_answered table.at_accepted by (intro yields_mono [OF await_answered]) blast+
  show ?thesis
    using wr aw table.at_accepted [OF wr]
    by (auto simp: gpt_write_step_def clear_buffer_def Let_def split: run.splits prod.splits
        intro!: yields_after [where Q = "table.at Gpt_written"])
qed

lemma table_yields:
  assumes "u_log st = []"
  shows "yields (table.at Gpt_fixed) table.accepted (rtss_updater_image_update_gpt p st)"
proof -
  have chk: "yields (table.at Gpt_checked) table.accepted (exchange p Chkgpt st)"
    using assms by (intro table.issue_step [where q = Gpt_start]) (simp_all add: gpt_next_simps table.at_def)
  have fx: "yields (table.at Gpt_fixed) table.accepted (exchange p (Fixgpt 1 sv l f) s)" if "table.at Gpt_written s" for s sv l f
    using that by (intro table.issue_step [where q = Gpt_written]) (simp_all add: gpt_next_simps)
  show ?thesis
    unfolding rtss_updater_image_update_gpt_def Let_def
    by (rule yields_after [OF chk], rule yields_after [OF gpt_read_accepted], assumption,
        rule yields_after [OF gpt_modify_accepted], assumption, rule yields_after [OF gpt_write_accepted], assumption,
        erule fx)
qed

section \<open>What is held by the calls\<close>

lemma read_msg_held: "rtss_upd_read_msg p x frame h w = Some ((r, y), w') \<Longrightarrow> wheld w' = wheld w"
  by (auto simp: rtss_upd_read_msg_def Let_def dest!: rtss_mb_read_held split: option.splits if_splits prod.splits)

lemma send_msg_held: "wheld (snd (rtss_upd_send_msg p x frame h w)) = wheld w"
  by (auto simp: rtss_upd_send_msg_def Let_def dest!: rtss_mb_write_held split: option.splits prod.splits)

lemma seal_and_send_held: "seal_and_send p e x w = (r, w') \<Longrightarrow> wheld w' = wheld w"
  using send_msg_held [of p _ "e_txmsg e" "e_tx e" w]
  by (auto simp: seal_and_send_def split: prod.splits if_splits) (metis snd_conv)+

lemma run_request_held: "run_request p e q w = (r, w') \<Longrightarrow> wheld w' = wheld w"
  by (cases "request_rejected q") (auto simp: request_rejected_fails run_request_sends dest: seal_and_send_held)

text \<open>The block of a table is held as long as a pointer to it is kept.\<close>

definition block_of :: "u8 list option \<Rightarrow> resource multiset" where
  "block_of buf = (if buf = None then {#} else {#Heap#})"

lemma fread_loop_held:
  "fread_loop p n rest k buf w = Returns (res, w') \<Longrightarrow>
   wheld w' = (if res = None then wheld w - {#Heap#} else wheld w)"
proof (induction p n rest k buf w rule: fread_loop.induct)
  case (1 p n rest k buf w)
  obtain a w1 where sys: "sys p (Sys_fread n) w = (a, w1)" by fastforce
  have h: "wheld w1 = wheld w"
    using wheld_snd_sys [of p "Sys_fread n" w] by (simp add: sys)
  have f: "wheld (snd (sys p Sys_free v)) = wheld v - {#Heap#}" for v
    by (simp add: wheld_snd_sys)
  define j where "j = min (nat (a_ret a)) (min n (length rest))"
  note step = fread_loop.simps [of p n rest k buf w, unfolded sys prod.case j_def [symmetric] Let_def]
  show ?case
  proof (cases "j \<noteq> 0 \<and> k + j \<le> length buf \<and> j < n")
    case True
    then show ?thesis
      using step "1.prems" h "1.IH" [OF sys [symmetric] j_def] by simp
  next
    case False
    then show ?thesis
      using step "1.prems" h f [of w1] by (auto split: if_splits)
  qed
qed

lemma modifygpt_held:
  assumes "rtss_updater_modifygpt p f h w = Returns ((buf, sz), w')"
  shows "wheld w' = wheld w + block_of buf"
proof (cases "f = None \<or> h = None")
  case True
  then show ?thesis
    using assms by (auto simp: rtss_updater_modifygpt_def block_of_def split: option.splits)
next
  case False
  then obtain g d where fh: "f = Some g" "h = Some d" by auto
  obtain a w1 where a: "sys p (Sys_access g) w = (a, w1)" by fastforce
  obtain b w2 where b: "sys p (Sys_fopen g) w1 = (b, w2)" by fastforce
  obtain c w3 where c: "sys p Sys_ftell w2 = (c, w3)" by fastforce
  obtain e w4 where e: "sys p Sys_calloc w3 = (e, w4)" by fastforce
  note held = wheld_sys [OF a] wheld_sys [OF b] wheld_sys [OF c] wheld_sys [OF e]
  have close: "wheld (snd (sys p Sys_fclose v)) = wheld v - {#Stream#}" for v
    by (simp add: wheld_snd_sys)
  note run = assms [unfolded fh rtss_updater_modifygpt_def option.case prod.case a b c e Let_def]
  consider (early) "a_ret a \<noteq> 0 \<or> a_ret b = 0 \<or> a_err c \<noteq> 0 \<or> a_ret e = 0"
    | (load) "a_ret a = 0" "a_ret b \<noteq> 0" "a_err c = 0" "a_ret e \<noteq> 0" by blast
  then show ?thesis
  proof cases
    case early
    then show ?thesis
      using run held close by (auto simp: block_of_def split: if_splits)
  next
    case load
    have w4: "wheld w4 = wheld w + {#Heap, Stream#}"
      using held load by simp
    obtain res w5 where loop: "fread_loop p (nat (a_ret c)) (a_data b) 0 (replicate (cache_aligned (nat (a_ret c))) 0) w4
        = Returns (res, w5)"
      using run load by (cases "fread_loop p (nat (a_ret c)) (a_data b) 0 (replicate (cache_aligned (nat (a_ret c))) 0) w4")
        auto
    have w5: "wheld w5 = wheld w + {#Stream#} + block_of res"
      using fread_loop_held [OF loop] w4 by (simp add: block_of_def)
    have "w' = snd (sys p Sys_fclose w5) \<and> block_of buf = block_of res"
      using run load loop by (auto simp: block_of_def split: option.splits run.splits)
    then show ?thesis
      using w5 close by simp
  qed
qed

lemma writegpt_held:
  assumes "rtss_updater_writegpt p e g buf sv l c a w = Returns ((r, buf'), w')"
  shows "wheld w' = wheld w \<and> block_of buf' = block_of buf"
  using assms
  by (auto simp: rtss_updater_writegpt_def Let_def block_of_def split: option.splits if_splits prod.splits
      dest!: seal_and_send_held)

section \<open>The shape of the structures\<close>

text \<open>The arrays have their lengths, and the counts of the images stay inside them.\<close>

definition images_shape :: "rtss_updater_imgconfig_t \<Rightarrow> bool" where
  "images_shape c \<longleftrightarrow> rows_ok c \<and> list_all (\<lambda>r. length r = 128) (imageNames c)
     \<and> list_all (\<lambda>r. length r = 128) (imagePaths c)
     \<and> 0 \<le> numberOfImages c \<and> numberOfImages c \<le> 5 \<and> 0 \<le> numberOfPaths c \<and> numberOfPaths c \<le> 5"

definition updater_shape :: "updater \<Rightarrow> bool" where
  "updater_shape st \<longleftrightarrow> images_shape (images st) \<and> length (updImgEntryType (u_hndshk st)) = 5
     \<and> list_all (\<lambda>x. length (ie_imgName x) = 32) (updImgEntryType (u_hndshk st))
     \<and> length (gpthdr (u_hndshk st)) = sizeof_gpt_header
     \<and> length (flashImagetime (u_timers st)) = KPI_MAX_IMAGES"

lemma images_shape_update:
  "images_shape c \<Longrightarrow> images_shape (c\<lparr>imageNames := (imageNames c)[i := mcpy_member blank_row s]\<rparr>)"
  "images_shape c \<Longrightarrow> images_shape (c\<lparr>imageNames := (imageNames c)[i := mcpy_member blank_row s],
     imagePaths := (imagePaths c)[j := mcpy_member blank_row t]\<rparr>)"
  by (auto simp: images_shape_def rows_ok_def blank_row_def RTSS_UPDATER_CFG_MAX_IMAGEPATH_LEN_def
      list_all_iff dest!: set_update_subset_insert [THEN subsetD])

lemma cfg_line_shape:
  "images_shape c \<Longrightarrow> case cfg_line n l k c of Inl c' \<Rightarrow> images_shape c' | Inr c' \<Rightarrow> images_shape c' \<and> int k < n"
  by (auto simp: cfg_line_def Let_def images_shape_update split: option.splits prod.splits)

lemma cfg_lines_shape:
  "images_shape c \<Longrightarrow> int k \<le> n \<Longrightarrow> case cfg_lines n ls k c of Inl c' \<Rightarrow> images_shape c'
   | Inr (m, c') \<Rightarrow> images_shape c' \<and> int m \<le> n"
proof (induction ls arbitrary: k c)
  case (Cons l ls)
  show ?case
    using cfg_line_shape [OF Cons.prems(1), where n = n and l = l and k = k] Cons.IH [where k = "Suc k"]
    by (cases "cfg_line n l k c") (simp_all split: sum.splits)
qed simp

lemma cfgfile_read_keeps:
  assumes "rtss_updater_cfgfile_read p f (Some c) names 5 w = ((r, c'), w')"
  shows "wheld w' = wheld w \<and> c' \<noteq> None \<and> (images_shape c \<longrightarrow> images_shape (the c'))"
proof -
  have stop: "images_shape d \<Longrightarrow> 0 < n \<Longrightarrow> n \<le> 5 \<Longrightarrow> images_shape (d\<lparr>numberOfImages := n, numberOfPaths := n\<rparr>)" for d n
    by (simp add: images_shape_def rows_ok_def)
  have held: "wheld w' = wheld w" and some: "c' \<noteq> None"
    using assms by (auto simp: rtss_updater_cfgfile_read_def Let_def sys_def wheld_def split: if_splits sum.splits)
  have "images_shape (the c')" if shape: "images_shape c"
  proof -
    let ?lines = "getlines (a_data (answer p (w_now w)))"
    note lines = cfg_lines_shape [OF shape, where k = 0 and n = 5 and ls = ?lines]
    show ?thesis
    proof (cases "names = [] \<or> a_ret (answer p (w_now w)) = 0")
      case True
      then show ?thesis
        using assms shape by (auto simp: rtss_updater_cfgfile_read_def Let_def sys_def split: if_splits)
    next
      case ok: False
      show ?thesis
      proof (cases "cfg_lines 5 ?lines 0 c")
        case (Inl d)
        then show ?thesis
          using assms ok lines by (auto simp: rtss_updater_cfgfile_read_def Let_def sys_def split: if_splits)
      next
        case (Inr md)
        obtain m d where "md = (m, d)" by fastforce
        then show ?thesis
          using assms ok lines Inr stop [of d "int m"] stop [of d]
          by (auto simp: rtss_updater_cfgfile_read_def Let_def sys_def split: if_splits)
            (simp_all add: images_shape_def rows_ok_def)
      qed
    qed
  qed
  then show ?thesis
    using held some by simp
qed

lemma bl_info_entries:
  "bl_info_loop m a k n buf = Returns buf' \<Longrightarrow> length buf' = length buf
   \<and> (list_all (\<lambda>x. length (ie_imgName x) = 32) buf \<longrightarrow> list_all (\<lambda>x. length (ie_imgName x) = 32) buf')"
proof (induction n arbitrary: k a buf)
  case (Suc n)
  have "list_all (\<lambda>x. length (ie_imgName x) = 32) buf \<Longrightarrow>
      list_all (\<lambda>x. length (ie_imgName x) = 32) (buf[k := image_entry_at m a])"
    by (auto simp: list_all_iff image_entry_at_def dest!: set_update_subset_insert [THEN subsetD])
  then show ?case
    using Suc.prems Suc.IH [of "a + unat sizeof_image_entry" "Suc k" "buf[k := image_entry_at m a]"]
    by (auto split: if_splits)
qed simp

lemma partition_status_changes:
  "partition_status_loop k n hs = Returns (r, hs') \<Longrightarrow> \<exists>a b. hs' = hs\<lparr>bootPartitionPass := a, bootPartitionFail := b\<rparr>"
proof (induction n arbitrary: k hs)
  case 0
  then have "hs' = hs\<lparr>bootPartitionPass := bootPartitionPass hs, bootPartitionFail := bootPartitionFail hs\<rparr>"
    by simp
  then show ?case by blast
next
  case (Suc n)
  let ?b = "ie_bootPartition (updImgEntryType hs ! k)"
  consider (pass) "partition_status_loop (Suc k) n (hs\<lparr>bootPartitionPass := bootPartitionPass hs + 1\<rparr>) = Returns (r, hs')"
    | (fail) "partition_status_loop (Suc k) n (hs\<lparr>bootPartitionFail := bootPartitionFail hs + 1\<rparr>) = Returns (r, hs')"
    | (stop) "hs' = hs"
    using Suc.prems by (auto simp: Let_def split: if_splits)
  then show ?case
  proof cases
    case stop
    then have "hs' = hs\<lparr>bootPartitionPass := bootPartitionPass hs, bootPartitionFail := bootPartitionFail hs\<rparr>"
      by simp
    then show ?thesis by blast
  next
    case pass
    then obtain a b where "hs' = hs\<lparr>bootPartitionPass := a, bootPartitionFail := b\<rparr>"
      using Suc.IH by fastforce
    then show ?thesis by blast
  next
    case fail
    then obtain a b where "hs' = hs\<lparr>bootPartitionPass := a, bootPartitionFail := b\<rparr>"
      using Suc.IH by fastforce
    then show ?thesis by blast
  qed
qed

section \<open>What every step respects\<close>

text \<open>What a measurement may change: the times, but neither the number of the timers, nor the time of the
  last step, which no sequence records. Recording a time does not change the images either.\<close>

definition timed_images :: "updater_timers \<Rightarrow> u32 \<times> u8 list list" where
  "timed_images k = (count_timer k, map ft_image (flashImagetime k))"

definition times_only :: "updater_timers \<Rightarrow> updater_timers \<Rightarrow> bool" where
  "times_only k k' \<longleftrightarrow> length (flashImagetime k') = length (flashImagetime k)
     \<and> updateMRC_startTime (postboot_timer k') = updateMRC_startTime (postboot_timer k)
     \<and> updateMRC_endTime (postboot_timer k') = updateMRC_endTime (postboot_timer k)"

definition recording :: "((timespec \<Rightarrow> timespec) \<Rightarrow> updater_timers \<Rightarrow> updater_timers) \<Rightarrow> bool" where
  "recording tp \<longleftrightarrow> (\<forall>t k. times_only k (tp t k) \<and> timed_images (tp t k) = timed_images k)"

lemma recording_preboot [simp]: "recording (preboot_at f)"
  by (simp add: recording_def times_only_def timed_images_def preboot_at_def)

lemma recording_image:
  assumes "\<And>t x. ft_image (f t x) = ft_image x"
  shows "recording (image_at f)"
proof -
  have "map ft_image (xs[c := f t (xs ! c)]) = map ft_image xs" for xs c t
    using list_update_id [of "map ft_image xs" c]
    by (cases "c < length xs") (simp_all add: map_update assms list_update_beyond)
  then show ?thesis
    by (simp add: recording_def times_only_def timed_images_def image_at_def Let_def)
qed

lemma recording_image_simps [simp]:
  "recording (image_at flash_startTime_update)" "recording (image_at flash_EndTime_update)"
  "recording (image_at readImage_startTime_update)" "recording (image_at readImage_EndTime_update)"
  by (rule recording_image; simp)+

lemma recording_postboot [simp]:
  "recording (postboot_at setOTAdone_startTime_update)" "recording (postboot_at setOTAdone_endTime_update)"
  "recording (postboot_at post_getBootInfo_startTime_update)" "recording (postboot_at post_getBootInfo_endTime_update)"
  "recording (postboot_at post_checkGPT_startTime_update)" "recording (postboot_at post_checkGPT_endTime_update)"
  "recording (postboot_at fixGPT_startTime_update)" "recording (postboot_at fixGPT_endTime_update)"
  "recording (postboot_at redudnancy_startTime_update)" "recording (postboot_at redudnancy_endTime_update)"
  "recording (postboot_at post_getMetaData_startTime_update)" "recording (postboot_at post_getMetaData_endTime_update)"
  "recording (postboot_at setMetaData_startTime_update)" "recording (postboot_at setMetaData_endTime_update)"
  "recording (postboot_at updateARB_startTime_update)" "recording (postboot_at updateARB_endTime_update)"
  by (simp_all add: recording_def times_only_def timed_images_def postboot_at_def)

lemma write_report_held: "write_report p path ls w = (out, w') \<Longrightarrow> wheld w' = wheld w"
proof -
  have lines: "wheld (snd (snd (fold (rtss_updater_fprintf p) ls (s, out, v)))) = wheld v" for s out v
  proof (induction ls arbitrary: s out v)
    case (Cons l ls)
    obtain a v1 where v1: "sys p Sys_fprintf v = (a, v1)" by fastforce
    show ?case
      using wheld_sys [OF v1] by (simp add: Cons v1)
  qed simp
  assume run: "write_report p path ls w = (out, w')"
  obtain a w1 where a: "sys p (Sys_fopen path) w = (a, w1)" by fastforce
  obtain st o2 w2 where f: "fold (rtss_updater_fprintf p) ls (0, [], w1) = (st, o2, w2)"
    by (metis surj_pair)
  have "wheld w2 = wheld w1"
    using lines [of 0 "[]" w1] by (simp add: f)
  then show ?thesis
    using run wheld_sys [OF a] by (auto simp: write_report_def a f wheld_snd_sys split: if_splits)
qed

lemma report_held:
  "rtss_updater_record_preboot_kpi_values p b path k w = Returns (out, w') \<Longrightarrow> wheld w' = wheld w"
  "rtss_updater_record_postboot_kpi_values p b path k w = Returns (out, w') \<Longrightarrow> wheld w' = wheld w"
  by (auto simp: rtss_updater_record_preboot_kpi_values_def rtss_updater_record_postboot_kpi_values_def
      dest: write_report_held split: if_splits)

text \<open>The laws speak of the elementary changes of the state; a relation that obeys them is respected
  by the sequences.\<close>

locale updater_relation =
  fixes R :: "updater \<Rightarrow> updater \<Rightarrow> bool"
  assumes refl: "R st st"
    and trans: "R st s \<Longrightarrow> R s t \<Longrightarrow> R st t"
    and on_world: "wheld w = wheld (u_world st) \<Longrightarrow> R st (st\<lparr>u_world := w, u_log := l\<rparr>)"
    and on_response: "R st (st\<lparr>u_hndshk := accept_response x (u_hndshk st)\<rparr>)"
    and on_entries: "length xs = length (updImgEntryType (u_hndshk st)) \<Longrightarrow>
      (list_all (\<lambda>x. length (ie_imgName x) = 32) (updImgEntryType (u_hndshk st)) \<longrightarrow> list_all (\<lambda>x. length (ie_imgName x) = 32) xs) \<Longrightarrow>
      R st (st\<lparr>u_hndshk := (u_hndshk st)\<lparr>updImgEntryType := xs\<rparr>\<rparr>)"
    and on_counts: "R st (st\<lparr>u_hndshk := (u_hndshk st)\<lparr>bootPartitionPass := a, bootPartitionFail := b\<rparr>\<rparr>)"
    and on_images: "(images_shape (images st) \<longrightarrow> images_shape c) \<Longrightarrow> R st (use_images c st)"
    and on_header: "length h = sizeof_gpt_header \<Longrightarrow> R st (st\<lparr>u_hndshk := (u_hndshk st)\<lparr>gpthdr := h\<rparr>\<rparr>)"
    and on_block: "(\<And>H. wheld (u_world st) = H + block_of (gptbuf (u_hndshk st)) \<Longrightarrow> wheld w = H + block_of buf) \<Longrightarrow>
      R st (st\<lparr>u_world := w, u_log := l, u_hndshk := (u_hndshk st)\<lparr>gptbuf := buf, gptbufsz := n\<rparr>\<rparr>)"
    and on_times: "times_only (u_timers st) k \<Longrightarrow> timed_images k = timed_images (u_timers st) \<Longrightarrow>
      R st (st\<lparr>u_timers := k, u_readings := rs\<rparr>)"
begin

lemma world: "R st s \<Longrightarrow> wheld w = wheld (u_world s) \<Longrightarrow> R st (s\<lparr>u_world := w\<rparr>)"
  using trans on_world [of w s "u_log s"] by simp

lemma handler_kept: "R st s \<Longrightarrow> rtss_updater_cbk_notify_handler p s = Returns t \<Longrightarrow> R st t"
proof -
  assume st: "R st s" and run: "rtss_updater_cbk_notify_handler p s = Returns t"
  then obtain r x w where m: "rtss_upd_read_msg p (Some zero_msg) (e_rxmsg (env_of s)) (e_rx (env_of s)) (u_world s) = Some ((r, x), w)"
    by (auto simp: rtss_updater_cbk_notify_handler_def split: option.splits)
  then have "R st (s\<lparr>u_world := w\<rparr>)"
    using world [OF st] read_msg_held by blast
  moreover have "R (s\<lparr>u_world := w\<rparr>) (s\<lparr>u_world := w, u_hndshk := accept_response (the x) (u_hndshk s)\<rparr>)"
    using on_response [of "s\<lparr>u_world := w\<rparr>" "the x"] by simp
  ultimately show ?thesis
    using run m trans by (auto simp: rtss_updater_cbk_notify_handler_def Let_def split: if_splits)
qed

lemma await_kept: "R st s \<Longrightarrow> yields (R st) (R st) (await_response p s)"
  using handler_kept by (auto simp: await_response_def split: run.splits)

lemma exchange_kept:
  assumes "R st s"
  shows "yields (R st) (R st) (exchange p q s)"
proof -
  obtain ret w where run: "run_request p (env_of s) q (u_world s) = (ret, w)" by fastforce
  then have "R st (s\<lparr>u_world := w, u_log := u_log s @ [Request q]\<rparr>)"
    using trans [OF assms on_world] run_request_held by blast
  then show ?thesis
    using await_kept by (simp add: exchange_def run yields_after [where Q = "R st"])
qed

lemma clock_kept:
  assumes "R st s" "recording tp"
  shows "R st (rtss_updater_clock_get_time p tp s)"
proof (cases "kpiEnable (u_args s)")
  case True
  obtain a w where a: "sys p Sys_clock_gettime (u_world s) = (a, w)" by fastforce
  then have w: "R st (s\<lparr>u_world := w\<rparr>)"
    using world [OF assms(1)] wheld_sys [OF a] by simp
  have "R st (s\<lparr>u_world := w, u_timers := tp t (u_timers s), u_readings := l\<rparr>)" for t l
    using trans [OF w on_times] assms(2) by (simp add: recording_def)
  moreover have "R st (s\<lparr>u_world := w, u_readings := l\<rparr>)" for l
    using trans [OF w on_times [of _ "u_timers s"]] by (simp add: times_only_def)
  ultimately show ?thesis
    using True by (simp add: rtss_updater_clock_get_time_def a Let_def)
qed (simp add: rtss_updater_clock_get_time_def assms(1))

definition obeys :: "(request \<Rightarrow> steps) \<Rightarrow> bool" where
  "obeys f \<longleftrightarrow> (\<forall>q st s. R st s \<longrightarrow> yields (R st) (R st) (f q s))"

lemma obeysD: "obeys f \<Longrightarrow> R st s \<Longrightarrow> yields (R st) (R st) (f q s)"
  by (simp add: obeys_def)

lemma exchange_obeys [simp]: "obeys (exchange p)"
  using exchange_kept by (simp add: obeys_def)

lemma timed_kept:
  assumes "R st s" "recording a" "recording b"
  shows "yields (R st) (R st) (timed p a b q s)"
  unfolding timed_def
  by (rule yields_after [OF exchange_kept [OF clock_kept [OF assms(1,2)]]]) (simp add: clock_kept assms(3))

lemma timed_obeys [simp]: "recording a \<Longrightarrow> recording b \<Longrightarrow> obeys (timed p a b)"
  using timed_kept by (simp add: obeys_def)

lemma report_kept:
  assumes "R st s"
  shows "yields (R st) (R st) (report_step rtss_updater_record_preboot_kpi_values p s)"
    "yields (R st) (R st) (report_step rtss_updater_record_postboot_kpi_values p s)"
  using world [OF assms] report_held by (auto simp: report_step_def split: run.splits)

lemma on_mem_kept: "R st s \<Longrightarrow> yields (R st) (R st) (on_mem f s)"
  using world by (auto simp: on_mem_def split: prod.splits)

lemma clear_kept: "R st s \<Longrightarrow> R st (clear_buffer n s)"
  using world by (simp add: clear_buffer_def)

lemma entries_kept:
  assumes "R st s"
  shows "yields (R st) (R st) (case rtss_updater_get_bl_info_context (Some (updImgEntryType (u_hndshk s))) pVa n m of
       Blocks \<Rightarrow> Blocks | Faults \<Rightarrow> Faults
     | Returns (ret, xs) \<Rightarrow> Returns (ret, s\<lparr>u_hndshk := (u_hndshk s)\<lparr>updImgEntryType := the xs\<rparr>\<rparr>))"
proof -
  have "R st (s\<lparr>u_hndshk := (u_hndshk s)\<lparr>updImgEntryType := xs\<rparr>\<rparr>)"
    if "bl_info_loop m pVa 0 k (updImgEntryType (u_hndshk s)) = Returns xs" for xs k
    using trans [OF assms on_entries] bl_info_entries [OF that] by blast
  then show ?thesis
    using assms by (auto simp: rtss_updater_get_bl_info_context_def split: run.splits if_splits)
qed

lemma status_kept:
  assumes "R st s"
  shows "yields (R st) (R st) (case rtss_updater_get_bl_partition_status (u_hndshk s) of
       Blocks \<Rightarrow> Blocks | Faults \<Rightarrow> Faults | Returns (ret, hs) \<Rightarrow> Returns (ret, s\<lparr>u_hndshk := hs\<rparr>))"
proof -
  have "R st (s\<lparr>u_hndshk := hs\<rparr>)" if run: "partition_status_loop 0 k (u_hndshk s) = Returns (r, hs)" for k r hs
  proof -
    obtain a b where "hs = (u_hndshk s)\<lparr>bootPartitionPass := a, bootPartitionFail := b\<rparr>"
      using partition_status_changes [OF run] by blast
    then show ?thesis
      using trans [OF assms on_counts] by simp
  qed
  then show ?thesis
    using assms by (auto simp: rtss_updater_get_bl_partition_status_def split: run.splits if_splits)
qed

lemma boot_info_request_kept:
  assumes "R st s" "obeys issue"
  shows "yields (R st) (R st) (boot_info_request issue s)"
  unfolding boot_info_request_def Let_def
  by (rule yields_after [OF on_mem_kept [OF assms(1)]], erule obeysD [OF assms(2)])

lemma boot_info_check_kept:
  assumes "R st s"
  shows "yields (R st) (R st) (boot_info_check s)"
  unfolding boot_info_check_def Let_def
  by (rule yields_after [OF entries_kept [OF assms]], rule yields_after [OF status_kept], assumption) simp

lemma boot_info_kept:
  assumes "R st s" "obeys issue"
  shows "yields (R st) (R st) (boot_info_steps issue s)"
  unfolding boot_info_steps_def
  by (rule yields_after [OF boot_info_request_kept [OF assms]], erule boot_info_check_kept)

lemma metadata_kept:
  assumes "R st s" "obeys info" "obeys data"
  shows "yields (R st) (R st) (metadata_steps info data s)"
  unfolding metadata_steps_def Let_def
  by (rule yields_after [OF obeysD [OF assms(2,1)]], rule obeysD [OF assms(3)], erule clear_kept)

lemma flash_file_kept:
  assumes "R st s" "\<And>i l. obeys (issue i l)"
  shows "yields (R st) (R st) (flash_file p issue img path part flashtype rs s)"
proof -
  have "R st (s\<lparr>u_world := w, u_log := l\<rparr>)" if "rtss_updater_loadfile p f a n (u_world s) = (r, w)" for f a n r w l
    using trans [OF assms(1) on_world] loadfile_held [of p f a n "u_world s"] that by simp
  then show ?thesis
    using obeysD [OF assms(2)] by (auto simp: flash_file_def Let_def split: prod.splits)
qed

lemma flash_files_kept:
  assumes "\<And>i l. obeys (issue i l)"
  shows "R st s \<Longrightarrow> yields (R st) (R st) (flash_files p issue part flashtype rs i n s)"
  by (induction n arbitrary: i s) (auto intro!: yields_after [OF flash_file_kept [OF _ assms]])

lemma update_gpt_kept: "R st s \<Longrightarrow> yields (R st) (R st) (update_gpt_steps p s)"
  unfolding update_gpt_steps_def Let_def by (erule yields_after [OF on_mem_kept], rule timed_kept) simp_all

lemma preboot_check_kept: "R st s \<Longrightarrow> yields (R st) (R st) (preboot_check_steps p s)"
  unfolding preboot_check_steps_def by (rule yields_after [OF timed_kept]) (simp_all add: metadata_kept)

lemma preboot_boot_info_kept: "R st s \<Longrightarrow> yields (R st) (R st) (boot_info_steps (preboot_boot_info p) s)"
  by (simp add: preboot_boot_info_def boot_info_kept)

lemma postboot_boot_info_kept: "R st s \<Longrightarrow> yields (R st) (R st) (boot_info_steps (postboot_boot_info p) s)"
  by (simp add: postboot_boot_info_def boot_info_kept)

lemma postboot_fix_kept: "R st s \<Longrightarrow> yields (R st) (R st) (postboot_fix_steps p s)"
  unfolding postboot_fix_steps_def Let_def by (rule yields_after [OF timed_kept]) (simp_all add: timed_kept)

lemma postboot_metadata_kept: "R st s \<Longrightarrow> yields (R st) (R st) (postboot_metadata_steps p s)"
  unfolding postboot_metadata_steps_def Let_def
  by (intro yields_after [where Q = "R st"] timed_kept) (simp_all add: timed_kept)

lemma use_images_kept: "R st s \<Longrightarrow> (images_shape (images s) \<longrightarrow> images_shape c) \<Longrightarrow> R st (use_images c s)"
  using trans on_images by blast

lemma default_images_kept:
  assumes "R st s"
  shows "yields (R st) (R st) (case rtss_updater_get_img_info_default (Some (images s)) of
              (ret, c) \<Rightarrow> Returns (ret, use_images (the c) s))"
proof -
  obtain ret c where c: "rtss_updater_get_img_info_default (Some (images s)) = (ret, Some c)"
    "images_shape (images s) \<longrightarrow> images_shape c"
    by (auto simp: rtss_updater_get_img_info_default_def Let_def images_shape_def rows_ok_def
        rtss_updater_supported_img_names_def RTSS_UPDATER_CFG_MAX_IMAGES_def blank_row_def
        RTSS_UPDATER_CFG_MAX_IMAGEPATH_LEN_def)
  then show ?thesis
    using use_images_kept [OF assms] by simp
qed

lemma config_images_kept:
  assumes "R st s"
  shows "yields (R st) (R st) (flash_config_images p b e s)"
proof -
  obtain ret c w where i: "rtss_updater_get_img_parse_info p (Some (images s)) (Some (cstr (otaCfgPath (u_args s)))) (u_world s)
      = ((ret, c), w)" by (metis surj_pair)
  then obtain r where "rtss_updater_cfgfile_read p (cstr (otaCfgPath (u_args s))) (Some (images s))
      rtss_updater_supported_img_names 5 (u_world s) = ((r, c), w)"
    by (auto simp: rtss_updater_get_img_parse_info_def RTSS_UPDATER_CFG_MAX_IMAGES_def split: prod.splits)
  note k = cfgfile_read_keeps [OF this]
  have "R st (use_images (the c) (s\<lparr>u_world := w\<rparr>))"
    using world [OF assms, of w] k by (intro use_images_kept) (auto simp: images_def)
  then show ?thesis
    by (auto simp: flash_config_images_def i
        intro!: yields_after [where Q = "R st"] yields_each_bank [where banks = UNIV] flash_files_kept)
qed

lemma flasher_kept: "R st s \<Longrightarrow> yields (R st) (R st) (rtss_updater_devprog_flasher p s)"
proof -
  have "yields (R st) (R st) (case flash_banks (a_partition (u_args s)) of None \<Rightarrow> Returns (EXIT_FAILURE, s)
     | Some (startBank, stopBank) \<Rightarrow>
         if skipConfigFile (u_args s) = 1 then flash_one_image p startBank stopBank s
         else flash_config_images p startBank stopBank s)" if "R st s" for s
    using that
    by (auto simp: flash_one_image_def split: option.splits
        intro!: config_images_kept yields_each_bank [where banks = UNIV] flash_file_kept)
  moreover assume "R st s"
  ultimately show ?thesis
    unfolding rtss_updater_devprog_flasher_def
    by (intro yields_after [where Q = "R st"] exchange_kept metadata_kept default_images_kept boot_info_kept exchange_obeys)
qed

lemma gpt_read_kept:
  assumes "R st s"
  shows "yields (R st) (R st) (gpt_read_steps p s)"
proof -
  have "R st (t\<lparr>u_hndshk := (u_hndshk t)\<lparr>gpthdr := the h\<rparr>\<rparr>)"
    if "R st t" "rtss_updater_get_gpthdr m a (Some (gpthdr (u_hndshk t))) = (r, h)" for t m a r h
  proof -
    have "the h = gpthdr (u_hndshk t) \<or> length (the h) = sizeof_gpt_header"
      using that(2) by (auto simp: rtss_updater_get_gpthdr_def split: if_splits)
    then show ?thesis
      using that(1) trans [OF that(1) on_header] by auto
  qed
  then show ?thesis
    unfolding gpt_read_steps_def Let_def using assms
    by (auto intro!: yields_after [OF exchange_kept] clear_kept split: prod.splits)
qed

lemma gpt_modify_kept:
  assumes "R st s"
  shows "yields (R st) (R st) (gpt_modify_step p s)"
proof -
  define w0 where "w0 = (case gptbuf (u_hndshk s) of None \<Rightarrow> u_world s | Some _ \<Rightarrow> snd (sys p Sys_free (u_world s)))"
  have w0: "wheld w0 = H" if "wheld (u_world s) = H + block_of (gptbuf (u_hndshk s))" for H
    using that by (auto simp: w0_def block_of_def wheld_snd_sys split: option.splits)
  have "R st (s\<lparr>u_world := w, u_hndshk := (u_hndshk s)\<lparr>gptbuf := buf, gptbufsz := n\<rparr>\<rparr>)"
    if "rtss_updater_modifygpt p f h w0 = Returns ((buf, sz), w)" for f h buf sz w n
    using trans [OF assms on_block [of s w buf n "u_log s"]] w0 modifygpt_held [OF that] by simp
  then show ?thesis
    by (auto simp: gpt_modify_step_def w0_def [symmetric] Let_def split: run.splits prod.splits)
qed

lemma gpt_write_kept:
  assumes "R st s"
  shows "yields (R st) (R st) (gpt_write_step p s)"
proof -
  let ?s = "clear_buffer (unat (of_nat (gptbufsz (u_hndshk s)) :: u32)) s"
  have s: "R st ?s" using clear_kept [OF assms] .
  have "R st (?s\<lparr>u_world := w, u_log := l, u_hndshk := (u_hndshk ?s)\<lparr>gptbuf := buf\<rparr>\<rparr>)"
    if "rtss_updater_writegpt p e g (gptbuf (u_hndshk ?s)) sv n c a (u_world ?s) = Returns ((r, buf), w)" for e g sv n c a r buf w l
    using trans [OF s on_block [of ?s w buf "gptbufsz (u_hndshk ?s)" l]] writegpt_held [OF that] by simp
  then show ?thesis
    unfolding gpt_write_step_def Let_def
    by (auto split: run.splits prod.splits intro!: yields_after [where Q = "R st"] await_kept)
qed

lemma gpt_kept: "R st s \<Longrightarrow> yields (R st) (R st) (rtss_updater_image_update_gpt p s)"
  unfolding rtss_updater_image_update_gpt_def Let_def
  by (intro yields_after [where Q = "R st"] exchange_kept gpt_read_kept gpt_modify_kept gpt_write_kept)

end

text \<open>The two sequences with measurements also store the names of the images and count them.\<close>

locale counting_relation = updater_relation +
  assumes on_count: "times_only (u_timers st) k \<Longrightarrow> R st (st\<lparr>u_timers := k\<rparr>)"
begin

lemma store_kept: "R st s \<Longrightarrow> yields (R st) (R st) (store_image img len s)"
  by (auto simp: store_image_def Let_def times_only_def intro: trans [OF _ on_count])

lemma next_kept: "R st s \<Longrightarrow> R st (next_image s)"
  by (auto simp: next_image_def times_only_def intro: trans [OF _ on_count])

lemma timed_flash_obeys [simp]: "obeys (timed_flash p img len)"
proof -
  have "yields (R st) (R st) (timed_flash p img len q s)" if "R st s" for st s q
    unfolding timed_flash_def
    by (rule yields_after [OF store_kept [OF that]], rule yields_after [OF timed_kept]) (simp_all add: next_kept)
  then show ?thesis
    by (simp add: obeys_def)
qed

lemma copy_image_kept: "R st s \<Longrightarrow> yields (R st) (R st) (copy_image p i s)"
  unfolding copy_image_def Let_def
  by (auto intro!: yields_after [where Q = "R st"] store_kept timed_kept next_kept)

lemma copy_images_kept: "R st s \<Longrightarrow> yields (R st) (R st) (copy_images p i n s)"
  by (induction n arbitrary: i s) (auto intro!: yields_after [OF copy_image_kept])

lemma preboot_kept:
  assumes "R st s"
  shows "yields (R st) (R st) (rtss_updater_preboot_demosequence p s)"
proof -
  have "R st (t\<lparr>u_world := snd (sys p (Sys_system c) (u_world t))\<rparr>)" if "R st t" for t c
    using world [OF that] by (simp add: wheld_snd_sys)
  then show ?thesis
    unfolding rtss_updater_preboot_demosequence_def Let_def
    by (intro yields_after [where Q = "R st"] preboot_check_kept preboot_boot_info_kept flash_files_kept
        timed_flash_obeys update_gpt_kept report_kept assms) simp_all
qed

lemma postboot_kept: "R st s \<Longrightarrow> yields (R st) (R st) (rtss_updater_postboot_demosequence p s)"
  unfolding rtss_updater_postboot_demosequence_def
  by (rule yields_after [OF timed_kept], assumption)
    (auto intro!: yields_after [where Q = "R st"] timed_kept postboot_boot_info_kept copy_images_kept postboot_fix_kept
      postboot_metadata_kept report_kept)

lemma chosen_kept: "R st st' \<Longrightarrow> yields (R st) (R st) (chosen_sequence p a st')"
  by (simp add: chosen_sequence_def gpt_kept preboot_kept postboot_kept flasher_kept)

end

section \<open>Resources and shape\<close>

text \<open>What is held besides the block of a table does not change.\<close>

definition same_held :: "updater \<Rightarrow> updater \<Rightarrow> bool" where
  "same_held st st' \<longleftrightarrow> (\<forall>H. wheld (u_world st) = H + block_of (gptbuf (u_hndshk st)) \<longrightarrow>
     wheld (u_world st') = H + block_of (gptbuf (u_hndshk st')))"

interpretation resources: counting_relation same_held
  by unfold_locales (auto simp: same_held_def use_images_def accept_response_kept)

interpretation shape: counting_relation "\<lambda>st st'. updater_shape st \<longrightarrow> updater_shape st'"
  by unfold_locales (auto simp: updater_shape_def use_images_def images_def accept_response_kept times_only_def)

end
