(* ===== verification/Updater_Claims.thy ===== *)
theory Updater_Claims
  imports Updater_Cmd_Props Update_Claims
begin

text \<open>
  The properties of the updater's commands, with their witnesses.
\<close>

section \<open>Commands\<close>


definition demo_env :: upd_env where
  "demo_env = \<lparr>e_tx = Some demo_msg_tx, e_rx = None, e_txmsg = 1024, e_rxmsg = 2048\<rparr>"


text \<open>\<open>rtss_updater_alignnum\<close> with a power of two and no overflow is the least multiple of the
  alignment that is not below the product.\<close>

theorem alignnum_least_multiple:
  assumes "unat alignment = 2 ^ k" "unat item * unat num + 2 ^ k \<le> 2 ^ 32"
  shows "2 ^ k dvd unat (rtss_updater_alignnum item alignment num)
    \<and> unat item * unat num \<le> unat (rtss_updater_alignnum item alignment num)
    \<and> unat (rtss_updater_alignnum item alignment num) < unat item * unat num + 2 ^ k"
proof -
  let ?x = "unat item * unat num" and ?a = "2 ^ k :: nat"
  have pos: "1 \<le> ?a" by simp
  have "?x < 2 ^ 32"
    using assms(2) pos by linarith
  then have x: "unat (item * num) = ?x"
    by (intro unat_mult_small) simp
  have r: "unat (rtss_updater_alignnum item alignment num) = (?x + ?a - 1) div ?a * ?a"
    using align_word [OF assms(1), of "item * num"] assms pos by (simp add: rtss_updater_alignnum_def x)
  have "(?x + ?a - 1) div ?a * ?a + (?x + ?a - 1) mod ?a = ?x + ?a - 1"
    by (rule div_mult_mod_eq)
  moreover have "(?x + ?a - 1) mod ?a < ?a"
    by (rule mod_less_divisor) simp
  ultimately have "?x \<le> (?x + ?a - 1) div ?a * ?a" "(?x + ?a - 1) div ?a * ?a < ?x + ?a"
    using pos by linarith+
  then show ?thesis by (simp add: r)
qed

theorem alignnum_least_multiple_witness:
  "unat (rtss_updater_alignnum 2 16 5000) < 10016"
  using alignnum_least_multiple [of 16 4 2 5000] by simp

text \<open>The checksum a caller passes to \<open>rtss_updater_write_metadata\<close> is dropped: every nonzero one has
  the same effect, and the message announces zero.\<close>

theorem write_metadata_drops_crc:
  assumes "bufCrc \<noteq> 0" "c \<noteq> 0"
  shows "rtss_updater_write_metadata p e sVa bufLen bufCrc offset sz pVa w =
      rtss_updater_write_metadata p e sVa bufLen c offset sz pVa w
    \<and> get32 8 (body (request_msg m (Write_metadata sVa bufLen bufCrc offset sz pVa))) = 0"
  using new_msg_announces [of m "Write_metadata sVa bufLen bufCrc offset sz pVa"] assms
  by (simp add: rtss_updater_write_metadata_def announces_def announced_crc_def)

theorem write_metadata_drops_crc_witness:
  "rtss_updater_write_metadata p e 1 2 3 0 4 8192 w = rtss_updater_write_metadata p e 1 2 5 0 4 8192 w"
  using write_metadata_drops_crc [of 3 5 p e 1 2 0 4 8192 w] by simp

end
