(* ===== verification/Updater_Demo.thy ===== *)
theory Updater_Demo
  imports Updater_Steps Updater_Claims
begin

text \<open>
  Concrete states of the updater program for the witnesses: one without a channel, whose first
  command fails, and one that is answered at every command, with the run of the sequence before the
  restart for one image. Before it, how an exchange goes that is answered.
\<close>

section \<open>Receiving a response\<close>

lemma zero_msg_wf: "msg_wf zero_msg"
  by (simp add: msg_wf_def zero_msg_def sizeof_body_def)

text \<open>A read that finds an item waits for nothing.\<close>

lemma read_timed_now_kept:
  assumes "handle_ok (w_mem w) h" "h_items (w_mem w) h \<noteq> []" "rtss_mb_read_timed p (Some h) buf sz ms w = Some (r, w')"
  shows "w_now w' = w_now w"
proof -
  let ?c = "length (h_items (w_mem w) h)"
  have "read_wait p h ms (int ?c) w = Some (Inr (int ?c), w)"
    using assms(2) by (subst read_wait.simps) simp
  then show ?thesis
    using assms(3) handle_okD [OF assms(1)] LibMB_counts(1) [OF handle_okD(1) [OF assms(1)]]
    by (auto simp: rtss_mb_read_timed_def h_items_def Let_def split: if_splits prod.splits)
qed

lemma read_msg_now:
  assumes ch: "msg_channel (w_mem w) h frame" and mode: "h_mode h = RTSS_MB_MODE_RX p"
    and it: "h_items (w_mem w) h = msg_bytes x # rest" and wf: "msg_wf x"
  obtains w' where "rtss_upd_read_msg p (Some zero_msg) frame (Some h) w = Some ((RTSS_UPD_E_OK, Some x), w')"
    "h_items (w_mem w') h = rest" "w_now w' = w_now w"
proof -
  have ok: "handle_ok (w_mem w) h" and isz: "h_isz h = 72" and buf: "buf_ok (w_mem w) h frame 72"
    using ch by (simp_all add: msg_channel_def sizeof_msg_def)
  let ?w = "w\<lparr>w_mem := put_bytes (w_mem w) frame (msg_bytes zero_msg)\<rparr>"
  have len: "length (msg_bytes x) = 72" "length (msg_bytes zero_msg) \<le> 72"
    using length_msg_bytes [OF wf] length_msg_bytes [OF zero_msg_wf] by (simp_all add: sizeof_msg_def)
  note st = handle_stage [OF ok buf len(2)]
  have some: "h_items (w_mem ?w) h \<noteq> []"
    using st it by simp
  obtain w' where w': "rtss_mb_read_timed p (Some h) frame (of_nat sizeof_msg) (-1) ?w = Some (int (1 * 72), w')"
    "w_trace w' = w_trace ?w" "h_items (w_mem w') h = drop 1 (h_items (w_mem ?w) h)"
    "bytes_at (w_mem w') frame (1 * 72) = concat (take 1 (h_items (w_mem ?w) h))"
    using rtss_mb_read_timed_now [of ?w h p "-1" "of_nat sizeof_msg" frame] st mode it isz buf by auto
  have "w_now w' = w_now ?w"
    by (rule read_timed_now_kept [OF _ some w'(1)]) (simp add: st(1))
  with w' have "rtss_upd_read_msg p (Some zero_msg) frame (Some h) w = Some ((RTSS_UPD_E_OK, Some x), w')" "w_now w' = w_now w"
    using st it msg_of_bytes_msg_bytes [OF wf] by (simp_all add: rtss_upd_read_msg_def rtss_mb_read_def sizeof_msg_def Let_def)
  then show ?thesis
    using that w' st it by simp
qed

text \<open>An exchange that is answered.\<close>

lemma exchange_answered_at:
  assumes "rtss_updater_tx_client_data (u_globals st) = Some tx" "rtss_updater_rx_client_data (u_globals st) = Some rx"
    "h_mode tx = RTSS_MB_MODE_TX p" "h_mode rx = RTSS_MB_MODE_RX p" "u_frames st = (txframe, rxframe)"
    "msg_channel (w_mem (u_world st)) tx txframe" "0 < h_free (w_mem (u_world st)) tx"
    "a_ret (answer p (w_now (u_world st))) = 0" "\<not> request_rejected q" "msg_wf x"
    "\<forall>m. h_items m tx = h_items (w_mem (u_world st)) tx @ [msg_bytes (request_msg (w_mem (u_world st)) q)] \<longrightarrow>
       msg_channel (a_peer (answer p (w_now (u_world st))) m) rx rxframe
       \<and> h_items (a_peer (answer p (w_now (u_world st))) m) rx = [msg_bytes x]"
  shows "\<exists>w'. exchange p q st = Returns (if status x = 0 then EXIT_SUCCESS else EXIT_FAILURE,
       st\<lparr>u_world := w', u_log := u_log st @ [Request q], u_hndshk := accept_response x (u_hndshk st)\<rparr>)
    \<and> h_items (w_mem w') rx = [] \<and> w_now w' = Suc (w_now (u_world st))"
proof -
  let ?w = "u_world st"
  have env: "env_of st = \<lparr>e_tx = Some tx, e_rx = Some rx, e_txmsg = txframe, e_rxmsg = rxframe\<rparr>"
    using assms(1,2,5) by (simp add: env_of_def)
  obtain m2 where m2: "h_items m2 tx = h_items (w_mem ?w) tx @ [msg_bytes (request_msg (w_mem ?w) q)]"
    "run_request p (env_of st) q ?w = (EXIT_SUCCESS, triggered p tx m2 ?w)"
    using run_request_cases(2) [OF assms(9), of "env_of st" tx ?w p] assms(3,6-8) by (auto simp: env errno_set_def)
  let ?w1 = "triggered p tx m2 ?w"
  have w1: "w_mem ?w1 = a_peer (answer p (w_now ?w)) m2"
    by (simp add: triggered_def sys_def Let_def)
  have rx: "msg_channel (w_mem ?w1) rx rxframe" "h_items (w_mem ?w1) rx = [msg_bytes x]"
    using assms(11) m2(1) by (simp_all add: w1)
  obtain w2 where w2: "rtss_upd_read_msg p (Some zero_msg) rxframe (Some rx) ?w1 = Some ((RTSS_UPD_E_OK, Some x), w2)"
    "h_items (w_mem w2) rx = []" "w_now w2 = w_now ?w1"
    by (rule read_msg_now [OF rx(1) assms(4) rx(2) assms(10)])
  have st: "respStatus (accept_response x hs) = status x" for hs
    by (simp add: accept_response_def response_members_def metadata_members_def Let_def)
  let ?st = "st\<lparr>u_world := w2, u_log := u_log st @ [Request q], u_hndshk := accept_response x (u_hndshk st)\<rparr>"
  have "e_rx (env_of (st\<lparr>u_world := ?w1, u_log := l\<rparr>)) = Some rx" "e_rxmsg (env_of (st\<lparr>u_world := ?w1, u_log := l\<rparr>)) = rxframe" for l
    using assms(2,5) by (simp_all add: env_of_def)
  then have "exchange p q st = Returns (if status x \<noteq> 0 then EXIT_FAILURE else EXIT_SUCCESS, ?st)"
    using m2(2) w2(1) st
    by (simp add: exchange_def after_def await_response_def rtss_updater_cbk_notify_handler_def Let_def)
  moreover have "w_now w2 = Suc (w_now ?w)"
    using w2(3) by (simp add: triggered_def sys_def Let_def)
  ultimately show ?thesis
    using w2(2) by (intro exI [of _ w2]) simp
qed

section \<open>A program without a channel\<close>

text \<open>The program before its channels are open, for the witnesses: the first command fails.\<close>

definition demo_handshake :: rtss_updater_handshake_t where
  "demo_handshake = \<lparr>hs_msgId = 0, respStatus = 0, numImagesBoot = 0, numImagesDigest = 0, chkGptPrimSize = 0,
     chkGptSecSize = 0, rtssAddr = 0, primGptHeaderCrcStatus = 0, primGptEntryCrcStatus = 0, secGptHeaderCrcStatus = 0,
     secGptEntryCrcStatus = 0, primaryGptPartitionEntryCrc = 0, secondaryGptPartitionEntryCrc = 0, logicGuidASwapped = 0,
     rbtflsbufAddr = 0, rbtflsbufLen = 0, rbtflsbufCrc = 0, bootPartitionPass = 0, bootPartitionFail = 0,
     updImgEntryType = replicate 5 \<lparr>ie_imgName = replicate 32 0, ie_bootPartition = 0, ie_bootGptId = 0,
       ie_partitionSizeA = 0, ie_partitionSizeB = 0, ie_isTwoGptTableEntriesMatching = 0\<rparr>,
     gpthdr = replicate 92 0, gptbufsz = 0, gptbuf = None, metadatapartitionsz = 0\<rparr>"

definition demo_args :: rtss_updater_argopt_t where
  "demo_args = \<lparr>ImgParseInf = imgconfig_zero, imgPath = blank_row, otaCfgPath = blank_row, imgIdentifier = blank_row,
     kpipath = blank_row, restart = 0, a_partition = RTSS_UPDATER_ERROR, skipConfigFile = 0, gpt_update = blank_row, ackstate = 0, rstskip = 0,
     kpiEnable = False\<rparr>"

definition demo_updater :: "rtss_mb_handle option \<Rightarrow> rtss_mb_handle option \<Rightarrow> mem \<Rightarrow> updater" where
  "demo_updater tx rx m = \<lparr>u_args = demo_args, u_hndshk = demo_handshake, u_memhandle = \<lparr>mc_sVa = 0, mc_pVa = 8192\<rparr>,
     u_globals = \<lparr>rtss_updater_mmap_data = None, rtss_updater_tx_client_data = tx, rtss_updater_rx_client_data = rx,
       rtss_ota_ctx = rtss_ota_ctx_init\<rparr>,
     u_lib = rtss_upd_lib_init, u_frames = (1024, 2048), u_timers = timers_zero, u_world = demo_world m, u_log = [], u_readings = []\<rparr>"

lemma seal_and_send_no_channel: "e_tx e = None \<Longrightarrow> seal_and_send p e x w = (EXIT_FAILURE, w)"
  by (auto simp: seal_and_send_def rtss_upd_send_msg_def RTSS_UPD_E_ERR_def RTSS_UPD_E_OK_def split: prod.splits)

lemma exchange_no_channel:
  "rtss_updater_tx_client_data (u_globals st) = None \<Longrightarrow>
   exchange p q st = Returns (EXIT_FAILURE, st\<lparr>u_log := u_log st @ [Request q]\<rparr>)"
  by (cases "request_rejected q")
    (simp_all add: exchange_def request_rejected_fails run_request_sends seal_and_send_no_channel env_of_def after_def
      EXIT_FAILURE_def EXIT_SUCCESS_def)

lemma demo_updater_facts:
  "u_log (demo_updater tx rx m) = []" "no_counts (u_hndshk (demo_updater tx rx m))"
  "rtss_updater_tx_client_data (u_globals (demo_updater None rx m)) = None"
  "u_args (demo_updater tx rx m) = demo_args" "updater_shape (demo_updater tx rx m)"
  by (simp_all add: demo_updater_def no_counts_def demo_handshake_def updater_shape_def images_def demo_args_def
      images_shape_def imgconfig_zero_def rows_ok_def RTSS_UPDATER_CFG_MAX_IMAGES_def
      RTSS_UPDATER_CFG_MAX_IMAGEPATH_LEN_def sizeof_gpt_header_def list_all_iff timers_zero_def)

lemma after_failure: "after (Returns (EXIT_FAILURE, st)) k = Returns (EXIT_FAILURE, st)"
  by (simp add: after_def EXIT_FAILURE_def EXIT_SUCCESS_def)

lemma timed_no_channel:
  "rtss_updater_tx_client_data (u_globals st) = None \<Longrightarrow> \<not> kpiEnable (u_args st) \<Longrightarrow>
   timed p a b q st = Returns (EXIT_FAILURE, st\<lparr>u_log := u_log st @ [Request q]\<rparr>)"
  by (simp add: timed_def rtss_updater_clock_get_time_def exchange_no_channel after_failure)

lemma demo_runs:
  "rtss_updater_preboot_demosequence p (demo_updater None rx m) =
     Returns (EXIT_FAILURE, demo_updater None rx m\<lparr>u_log := [Request Chkgpt]\<rparr>)"
  "rtss_updater_postboot_demosequence p (demo_updater None rx m) =
     Returns (EXIT_FAILURE, demo_updater None rx m\<lparr>u_log := [Request (Ota_done 0 0 0 0)]\<rparr>)"
  "rtss_updater_devprog_flasher p (demo_updater None rx m) =
     Returns (EXIT_FAILURE, demo_updater None rx m\<lparr>u_log := [Request Chkgpt]\<rparr>)"
  "rtss_updater_image_update_gpt p (demo_updater None rx m) =
     Returns (EXIT_FAILURE, demo_updater None rx m\<lparr>u_log := [Request Chkgpt]\<rparr>)"
proof -
  have "\<not> kpiEnable demo_args"
    by (simp add: demo_args_def)
  then show
    "rtss_updater_preboot_demosequence p (demo_updater None rx m) =
       Returns (EXIT_FAILURE, demo_updater None rx m\<lparr>u_log := [Request Chkgpt]\<rparr>)"
    "rtss_updater_postboot_demosequence p (demo_updater None rx m) =
       Returns (EXIT_FAILURE, demo_updater None rx m\<lparr>u_log := [Request (Ota_done 0 0 0 0)]\<rparr>)"
    "rtss_updater_devprog_flasher p (demo_updater None rx m) =
       Returns (EXIT_FAILURE, demo_updater None rx m\<lparr>u_log := [Request Chkgpt]\<rparr>)"
    "rtss_updater_image_update_gpt p (demo_updater None rx m) =
       Returns (EXIT_FAILURE, demo_updater None rx m\<lparr>u_log := [Request Chkgpt]\<rparr>)"
    by (simp_all add: rtss_updater_preboot_demosequence_def rtss_updater_postboot_demosequence_def preboot_check_steps_def
        rtss_updater_devprog_flasher_def rtss_updater_image_update_gpt_def exchange_no_channel timed_no_channel
        demo_updater_facts after_failure Let_def)
qed

section \<open>A program that is answered\<close>

text \<open>The other processor answers every command with a boot information: one image, and tables whose
  checksums agree. Everything is answered at once; the clock shows the number of the call as seconds.
  The calls 12 to 15 load the file of the image, 64 bytes.\<close>

definition live_reply :: rtss_upd_msg_header_t where
  "live_reply = (let x = \<lparr>headerCrc = 0, headerSize = 72, msgId = RTSS_UPD_MSG_GET_BOOTINFO, direction = 0, status = 0,
     body = (replicate 52 0)[0 := 1, 4 := 1, 12 := 1, 16 := 1, 24 := 1]\<rparr> in x\<lparr>headerCrc := crc32 (msg_bytes x)\<rparr>)"

definition reply_mem :: "rtss_upd_msg_header_t \<Rightarrow> mem" where
  "reply_mem x = snd (rtss_mb_write_batch demo_platform (Some demo_msg_tx) 2048 (of_nat sizeof_msg)
     (put_bytes demo_msg_mem 2048 (msg_bytes x)))"

definition idle_mem :: mem where
  "idle_mem = put_bytes demo_msg_mem 8192 (replicate 64 0)"

definition demo_msg_rx :: rtss_mb_handle where
  "demo_msg_rx = demo_msg_tx\<lparr>h_mode := 0\<rparr>"

lemma reply_mem_ready:
  assumes "msg_wf x"
  shows "msg_channel (reply_mem x) demo_msg_rx 2048" "h_items (reply_mem x) demo_msg_rx = [msg_bytes x]"
proof -
  have "msg_channel demo_msg_mem demo_msg_tx 2048"
    by (simp add: msg_channel_def handle_ok_def h_isz_def sizeof_msg_def buf_ok_def demo_msg_tx_def demo_msg_chan
        disjoint_def chan_extent_alt)
  from write_msg(2) [OF this _ assms, of demo_platform]
  have "msg_channel (reply_mem x) demo_msg_tx 2048" "h_items (reply_mem x) demo_msg_tx = [msg_bytes x]"
    by (auto simp: demo_msg_free reply_mem_def)
  then show "msg_channel (reply_mem x) demo_msg_rx 2048" "h_items (reply_mem x) demo_msg_rx = [msg_bytes x]"
    by (auto simp: demo_msg_rx_def msg_channel_def handle_ok_def h_isz_def buf_ok_def h_items_def)
qed

lemma idle_mem_ready:
  "msg_channel idle_mem demo_msg_tx 1024" "h_free idle_mem demo_msg_tx = 3" "ie_bootPartition (image_entry_at idle_mem 8192) = 0"
proof -
  have buf: "handle_ok demo_msg_mem demo_msg_tx" "buf_ok demo_msg_mem demo_msg_tx 8192 64"
    by (simp_all add: handle_ok_def h_isz_def buf_ok_def demo_msg_tx_def demo_msg_chan disjoint_def chan_extent_alt)
  note st = handle_stage [OF buf, of "replicate 64 0", folded idle_mem_def]
  show "msg_channel idle_mem demo_msg_tx 1024" "h_free idle_mem demo_msg_tx = 3"
    using st demo_msg_channel by (simp_all add: msg_channel_def demo_msg_free)
  show "ie_bootPartition (image_entry_at idle_mem 8192) = 0"
    by (simp add: image_entry_at_def idle_mem_def load32_def put_bytes_def le32_def)
qed

definition tick :: "nat \<Rightarrow> timespec" where
  "tick k = \<lparr>tv_sec = int k, tv_nsec = 0\<rparr>"

definition live_platform :: platform where
  "live_platform = demo_platform\<lparr>answer := (\<lambda>k. \<lparr>a_ret = (if k = 14 then 64 else 0), a_err = 0,
     a_size = (if k = 12 then 64 else 0), a_addr = of_nat k, a_revents = 0, a_mode = (if k = 12 then 0x100 else 0),
     a_data = (if k = 14 then replicate 64 7 else []),
     a_peer = (\<lambda>_. if k \<in> {1, 4, 7, 10, 17, 20} then reply_mem live_reply else idle_mem)\<rparr>)\<rparr>"

definition live_args :: rtss_updater_argopt_t where
  "live_args = demo_args\<lparr>kpiEnable := True, rstskip := 1, ImgParseInf := imgconfig_zero\<lparr>
     imageNames := mcpy_member blank_row (ascii ''SAIL_HYP'') # replicate 4 blank_row,
     imagePaths := mcpy_member blank_row (ascii ''/h'') # replicate 4 blank_row,
     numberOfImages := 1, numberOfPaths := 1\<rparr>\<rparr>"

definition live_updater :: updater where
  "live_updater = demo_updater (Some demo_msg_tx) (Some demo_msg_rx) idle_mem\<lparr>u_args := live_args\<rparr>"

text \<open>The program at the \<open>n\<close>-th call, with its handshake, its timers and what is recorded of it.\<close>

definition live :: "nat \<Rightarrow> rtss_updater_handshake_t \<Rightarrow> updater_timers \<Rightarrow> issued list \<Rightarrow> (nat \<times> timespec option) list \<Rightarrow>
    updater \<Rightarrow> bool" where
  "live n hs k cs rd st \<longleftrightarrow> rtss_updater_tx_client_data (u_globals st) = Some demo_msg_tx
     \<and> rtss_updater_rx_client_data (u_globals st) = Some demo_msg_rx \<and> u_frames st = (1024, 2048)
     \<and> u_args st = live_args \<and> u_memhandle st = \<lparr>mc_sVa = 0, mc_pVa = 8192\<rparr> \<and> w_now (u_world st) = n
     \<and> u_hndshk st = hs \<and> u_timers st = k \<and> u_log st = cs \<and> u_readings st = rd"

text \<open>A run that succeeds in a state with a property.\<close>

definition reaches :: "(updater \<Rightarrow> bool) \<Rightarrow> (u32 \<times> updater) run \<Rightarrow> bool" where
  "reaches Q res \<longleftrightarrow> (\<exists>st. res = Returns (EXIT_SUCCESS, st) \<and> Q st)"

lemma reaches_Returns [simp]: "reaches Q (Returns (r, st)) \<longleftrightarrow> r = EXIT_SUCCESS \<and> Q st"
  by (auto simp: reaches_def)

lemma reaches_mono: "reaches Q res \<Longrightarrow> (\<And>st. Q st \<Longrightarrow> Q' st) \<Longrightarrow> reaches Q' res"
  by (auto simp: reaches_def)

lemma reaches_after: "reaches Q res \<Longrightarrow> (\<And>st. Q st \<Longrightarrow> reaches Q' (f st)) \<Longrightarrow> reaches Q' (after res f)"
  by (auto simp: reaches_def after_def)

lemma live_reply_facts: "msg_wf live_reply" "status live_reply = 0"
  by (simp_all add: live_reply_def Let_def msg_wf_def sizeof_body_def)

lemma live_answers:
  "a_ret (answer live_platform k) = (if k = 14 then 64 else 0)" "a_addr (answer live_platform k) = of_nat k"
  "a_size (answer live_platform k) = (if k = 12 then 64 else 0)" "a_mode (answer live_platform k) = (if k = 12 then 0x100 else 0)"
  "a_peer (answer live_platform k) m = (if k \<in> {1, 4, 7, 10, 17, 20} then reply_mem live_reply else idle_mem)"
  "h_mode demo_msg_tx = RTSS_MB_MODE_TX live_platform" "h_mode demo_msg_rx = RTSS_MB_MODE_RX live_platform"
  by (simp_all add: live_platform_def demo_msg_free demo_msg_rx_def)

lemma live_clock:
  assumes "live n hs k cs rd st" "n < 100" "n \<noteq> 12" "n \<noteq> 14" "n \<notin> {1, 4, 7, 10, 17, 20}"
  shows "live (Suc n) hs (a (\<lambda>_. tick n) k) cs (rd @ [(length cs, Some (tick n))])
      (rtss_updater_clock_get_time live_platform a st)
    \<and> w_mem (u_world (rtss_updater_clock_get_time live_platform a st)) = idle_mem"
proof -
  have "sint (of_nat n :: u64) = int n"
    using assms(2) by (simp add: signed_of_nat signed_take_bit_int_eq_self)
  then show ?thesis
    using assms by (simp add: live_def rtss_updater_clock_get_time_def live_args_def sys_def Let_def live_answers tick_def)
qed

lemma live_exchange:
  assumes "live n hs k cs rd st" "n \<in> {1, 4, 7, 10, 17, 20}" "\<not> request_rejected q" "w_mem (u_world st) = idle_mem"
  shows "reaches (live (Suc n) (accept_response live_reply hs) k (cs @ [Request q]) rd) (exchange live_platform q st)"
proof -
  have s: "rtss_updater_tx_client_data (u_globals st) = Some demo_msg_tx" "w_now (u_world st) = n"
    "rtss_updater_rx_client_data (u_globals st) = Some demo_msg_rx" "u_frames st = (1024, 2048)"
    "a_peer (answer live_platform n) m = reply_mem live_reply" "a_ret (answer live_platform n) = 0" for m
    using assms(1,2) by (auto simp: live_def live_answers)
  obtain w' where "exchange live_platform q st = Returns (EXIT_SUCCESS, st\<lparr>u_world := w', u_log := u_log st @ [Request q],
       u_hndshk := accept_response live_reply (u_hndshk st)\<rparr>)" "w_now w' = Suc n"
    using exchange_answered_at [OF s(1,3) live_answers(6,7) s(4) _ _ _ assms(3) live_reply_facts(1)]
      idle_mem_ready(1,2) reply_mem_ready [OF live_reply_facts(1)] assms(4)
    by (auto simp: s live_reply_facts)
  then show ?thesis
    using assms(1) by (simp add: live_def)
qed

lemma live_timed:
  assumes "live n hs k cs rd st" "n \<in> {0, 3, 6, 9, 16, 19}" "\<not> request_rejected q"
  shows "reaches (\<lambda>s. live (n + 3) (accept_response live_reply hs) (b (\<lambda>_. tick (n + 2)) (a (\<lambda>_. tick n) k)) (cs @ [Request q])
      (rd @ [(length cs, Some (tick n)), (Suc (length cs), Some (tick (n + 2)))]) s \<and> w_mem (u_world s) = idle_mem)
    (timed live_platform a b q st)"
  unfolding timed_def
proof (rule reaches_after)
  let ?s = "rtss_updater_clock_get_time live_platform a st"
  have s: "live (Suc n) hs (a (\<lambda>_. tick n) k) cs (rd @ [(length cs, Some (tick n))]) ?s \<and> w_mem (u_world ?s) = idle_mem"
    using assms(2) by (intro live_clock [OF assms(1)]) auto
  show "reaches (live (n + 2) (accept_response live_reply hs) (a (\<lambda>_. tick n) k) (cs @ [Request q])
      (rd @ [(length cs, Some (tick n))])) (exchange live_platform q ?s)"
    using live_exchange [OF conjunct1 [OF s] _ assms(3)] s assms(2) by auto
  fix t assume "live (n + 2) (accept_response live_reply hs) (a (\<lambda>_. tick n) k) (cs @ [Request q])
      (rd @ [(length cs, Some (tick n))]) t"
  from live_clock [OF this, of b] show "reaches (\<lambda>s. live (n + 3) (accept_response live_reply hs)
      (b (\<lambda>_. tick (n + 2)) (a (\<lambda>_. tick n) k)) (cs @ [Request q])
      (rd @ [(length cs, Some (tick n)), (Suc (length cs), Some (tick (n + 2)))]) s \<and> w_mem (u_world s) = idle_mem)
    (Returns (EXIT_SUCCESS, rtss_updater_clock_get_time live_platform b t))"
    using assms(2) by (auto simp: numeral_3_eq_3)
qed

text \<open>Memory does not matter before the clock is read.\<close>

lemma live_mem: "live n hs k cs rd (st\<lparr>u_world := (u_world st)\<lparr>w_mem := m\<rparr>\<rparr>) = live n hs k cs rd st"
  by (simp add: live_def)

lemma live_clear: "live n hs k cs rd (clear_buffer j st) = live n hs k cs rd st"
  by (simp add: clear_buffer_def live_mem)

lemma live_names: "name_str (ImgParseInf live_args) 0 = ascii ''SAIL_HYP''" "path_str (ImgParseInf live_args) 0 = ascii ''/h''"
  by (simp_all add: live_args_def name_str_def path_str_def ascii_def cstr_def mcpy_member_def blank_row_def
      RTSS_UPDATER_CFG_MAX_IMAGEPATH_LEN_def Let_def)

lemma live_options:
  "kpiEnable live_args" "rstskip live_args = 1" "restart live_args = 0" "numberOfImages (ImgParseInf live_args) = 1"
  "numberOfPaths (ImgParseInf live_args) = 1"
  by (simp_all add: live_args_def demo_args_def)

lemma live_images: "live n hs k cs rd st \<Longrightarrow> images st = ImgParseInf live_args"
  by (simp add: live_def images_def)

lemma live_populate:
  assumes "live n hs k cs rd st"
  shows "reaches (live n hs k cs rd) (on_mem (rtss_updater_populate_bl_info_context (Some (images st)) 8192) st)"
    "reaches (live n hs k cs rd) (on_mem (rtss_updater_populate_gpt_update_context (Some (images st)) 8192) st)"
proof -
  have c: "images st = ImgParseInf live_args" "numberOfImages (ImgParseInf live_args) = 1"
    "name_str (ImgParseInf live_args) 0 \<noteq> []"
    by (rule live_images [OF assms]) (simp add: live_args_def, simp add: live_names, simp add: ascii_def)
  show "reaches (live n hs k cs rd) (on_mem (rtss_updater_populate_bl_info_context (Some (images st)) 8192) st)"
    "reaches (live n hs k cs rd) (on_mem (rtss_updater_populate_gpt_update_context (Some (images st)) 8192) st)"
    using assms by (simp_all add: on_mem_def rtss_updater_populate_bl_info_context_def live_mem
        rtss_updater_populate_gpt_update_context_def populate_entries_def c)
qed

text \<open>The same with what is known of the handshake.\<close>

definition gives :: "(rtss_updater_handshake_t \<Rightarrow> bool) \<Rightarrow> (rtss_updater_handshake_t \<Rightarrow> bool) \<Rightarrow> bool" where
  "gives P P' \<longleftrightarrow> (\<forall>hs. P hs \<longrightarrow> P' (accept_response live_reply hs))"

definition at_call :: "(rtss_updater_handshake_t \<Rightarrow> bool) \<Rightarrow> nat \<Rightarrow> updater_timers \<Rightarrow> issued list \<Rightarrow> (nat \<times> timespec option) list \<Rightarrow>
    updater \<Rightarrow> bool" where
  "at_call P n k cs rd st \<longleftrightarrow> (\<exists>hs. P hs \<and> live n hs k cs rd st)"

lemma at_call_timed:
  assumes "at_call P n k cs rd st" "n \<in> {0, 3, 6, 9, 16, 19}" "\<not> request_rejected q"
    "gives P P'"
  shows "reaches (\<lambda>s. at_call P' (n + 3) (b (\<lambda>_. tick (n + 2)) (a (\<lambda>_. tick n) k)) (cs @ [Request q])
      (rd @ [(length cs, Some (tick n)), (Suc (length cs), Some (tick (n + 2)))]) s \<and> w_mem (u_world s) = idle_mem)
    (timed live_platform a b q st)"
proof -
  obtain hs where "P hs" "live n hs k cs rd st"
    using assms(1) by (auto simp: at_call_def)
  then show ?thesis
    using live_timed [OF _ assms(2,3), of hs k cs rd st b a] assms(4) by (auto simp: reaches_def at_call_def gives_def)
qed

definition starting :: "rtss_updater_handshake_t \<Rightarrow> bool" where
  "starting hs \<longleftrightarrow> no_counts hs \<and> length (updImgEntryType hs) = 5 \<and> metadatapartitionsz hs = 0"

definition agreed :: "rtss_updater_handshake_t \<Rightarrow> bool" where
  "agreed hs \<longleftrightarrow> starting hs \<and> numImagesBoot hs = 1 \<and> primGptEntryCrcStatus hs = 1 \<and> primGptHeaderCrcStatus hs = 1
     \<and> secGptEntryCrcStatus hs = 1 \<and> secGptHeaderCrcStatus hs = 1"

lemma live_accepts: "gives starting agreed" "gives agreed agreed" "gives (\<lambda>_. True) (\<lambda>_. True)"
proof -
  let ?b = "(replicate 52 0)[0 := 1, 4 := 1, 12 := 1, 16 := 1, 24 := 1]"
  have "rtss_upd_verify_crc32 (headerCrc live_reply) (Some (msg_bytes (live_reply\<lparr>headerCrc := 0\<rparr>))) = RTSS_UPD_E_OK"
    by (subst rtss_upd_verify_crc32_iff) (simp_all add: live_reply_def Let_def msg_bytes_def bytes32_def)
  then have "accept_response live_reply hs = response_members (live_reply\<lparr>headerCrc := 0\<rparr>) (hs\<lparr>respStatus := 0, hs_msgId := msgId live_reply\<rparr>)" for hs
    by (simp add: accept_response_def Let_def live_reply_facts)
  moreover have "get32 0 ?b = 1" "get32 4 ?b = 1" "get32 12 ?b = 1" "get32 16 ?b = 1" "get32 24 ?b = 1"
    by (simp_all add: get32_def le32_def nth_list_update)
  ultimately have "agreed (accept_response live_reply hs)" if "starting hs" for hs
    using that by (simp add: agreed_def starting_def no_counts_def response_members_def Let_def live_reply_def msg_id_defs)
  then show "gives starting agreed" "gives agreed agreed" "gives (\<lambda>_. True) (\<lambda>_. True)"
    by (simp_all add: gives_def agreed_def)
qed

lemma live_check:
  assumes "at_call agreed n k cs rd st" "w_mem (u_world st) = idle_mem"
  shows "reaches (at_call (\<lambda>_. True) n k cs rd) (boot_info_check st)"
proof -
  obtain hs where hs: "agreed hs" "live n hs k cs rd st"
    using assms(1) by (auto simp: at_call_def)
  let ?xs = "(updImgEntryType hs)[0 := image_entry_at idle_mem 8192]"
  let ?hs = "hs\<lparr>updImgEntryType := ?xs\<rparr>"
  have len: "length (updImgEntryType hs) = 5" "numImagesBoot hs = 1" and st: "u_hndshk st = hs" "mc_pVa (u_memhandle st) = 8192"
    using hs by (simp_all add: agreed_def starting_def live_def)
  then have info: "rtss_updater_get_bl_info_context (Some (updImgEntryType hs)) 8192 (numImagesBoot hs) idle_mem
      = Returns (EXIT_SUCCESS, Some ?xs)"
    by (simp add: rtss_updater_get_bl_info_context_def)
  have "?xs ! 0 = image_entry_at idle_mem 8192"
    using len by (cases "updImgEntryType hs") simp_all
  then have status: "rtss_updater_get_bl_partition_status ?hs = Returns (EXIT_SUCCESS, ?hs\<lparr>bootPartitionPass := 1\<rparr>)"
    using hs(1) len idle_mem_ready(3) by (simp add: rtss_updater_get_bl_partition_status_def agreed_def starting_def no_counts_def)
  have "rtss_updater_validate_boot_info (?hs\<lparr>bootPartitionPass := 1\<rparr>) = EXIT_SUCCESS"
    using hs(1) by (simp add: rtss_updater_validate_boot_info_def agreed_def starting_def no_counts_def)
  then show ?thesis
    using hs(2) by (simp add: boot_info_check_def st assms(2) info status after_def reaches_def at_call_def live_def)
qed

text \<open>Loading takes the calls 12 to 15 and finds 64 bytes.\<close>

lemma live_load:
  assumes "w_now w = 12"
  shows "\<exists>w'. rtss_updater_loadfile live_platform (Some f) 8192 (unat rtss_upd_get_cache_line_sz) w = (64, w') \<and> w_now w' = 16"
proof -
  have "unat rtss_upd_get_cache_line_sz = 64"
    by (simp add: rtss_upd_get_cache_line_sz_def RTSS_UPD_CACHE_LSZ_def)
  then show ?thesis
    using assms by (simp add: rtss_updater_loadfile_def sys_def Let_def live_answers)
qed

definition live_row :: rtss_updater_flash_image_timer_t where
  "live_row = \<lparr>ft_image = mcpy_member (take RTSS_UPD_IMG_NAME_LEN blank_row) (ascii ''SAIL_HYP'')
      @ drop RTSS_UPD_IMG_NAME_LEN blank_row, ft_Length = 64, flash_startTime = tick 16, flash_EndTime = tick 18,
     readImage_startTime = no_time, readImage_EndTime = no_time\<rparr>"

lemma live_flash:
  assumes "at_call P 12 k cs rd st" "gives P P" "count_timer k = 0"
    "flashImagetime k = flashImagetime timers_zero"
  shows "reaches (at_call P 19 (k\<lparr>flashImagetime := live_row # replicate 5 (hd (flashImagetime k)), count_timer := 1\<rparr>)
      (cs @ [Load_file (ascii ''/h''), Request (Flashimg (Some (ascii ''SAIL_HYP'')) 0 1 0 64 0 2 8192 0)])
      (rd @ [(Suc (length cs), Some (tick 16)), (Suc (Suc (length cs)), Some (tick 18))]))
    (flash_files live_platform (timed_flash live_platform) 1 2 0 0 1 st)"
proof -
  obtain hs where hs: "P hs" "live 12 hs k cs rd st"
    using assms(1) by (auto simp: at_call_def)
  obtain w where w: "rtss_updater_loadfile live_platform (Some (ascii ''/h'')) 8192 (unat rtss_upd_get_cache_line_sz) (u_world st) = (64, w)"
    "w_now w = 16"
    using live_load [of "u_world st"] hs(2) by (auto simp: live_def)
  let ?q = "Flashimg (Some (ascii ''SAIL_HYP'')) 0 1 0 64 0 2 8192 0" and ?cs = "cs @ [Load_file (ascii ''/h'')]"
  let ?row = "hd (flashImagetime timers_zero)"
  let ?k = "k\<lparr>flashImagetime := ?row\<lparr>ft_image := ft_image live_row, ft_Length := 64\<rparr> # replicate 5 ?row\<rparr>"
  let ?st = "st\<lparr>u_world := w, u_log := ?cs\<rparr>"
  have row: "flashImagetime k = ?row # replicate 5 ?row"
    using assms(4) by (simp add: timers_zero_def KPI_MAX_IMAGES_def numeral_eq_Suc)
  have a: "kpiEnable live_args" "images st = ImgParseInf live_args" "u_memhandle st = \<lparr>mc_sVa = 0, mc_pVa = 8192\<rparr>"
      "u_args st = live_args" "u_timers st = k" "u_log st = cs"
    using hs(2) live_images [OF hs(2)] live_options by (simp_all add: live_def)
  have store: "store_image (ascii ''SAIL_HYP'') 64 ?st = Returns (EXIT_SUCCESS, ?st\<lparr>u_timers := ?k\<rparr>)"
    by (simp add: store_image_def a assms(3) row Let_def live_row_def) (simp add: timers_zero_def KPI_MAX_IMAGES_def)
  have start: "at_call P 16 ?k ?cs rd (?st\<lparr>u_timers := ?k\<rparr>)"
    using hs w(2) by (auto simp: at_call_def live_def)
  have "\<not> request_rejected ?q"
    by (simp add: request_rejected_def)
  from at_call_timed [where P' = P and b = "image_at flash_EndTime_update" and a = "image_at flash_startTime_update",
      OF start _ this] assms(2)
  have flash: "reaches (at_call P 19 (image_at flash_EndTime_update (\<lambda>_. tick 18) (image_at flash_startTime_update (\<lambda>_. tick 16) ?k))
      (?cs @ [Request ?q]) (rd @ [(length ?cs, Some (tick 16)), (Suc (length ?cs), Some (tick 18))]))
      (timed live_platform (image_at flash_startTime_update) (image_at flash_EndTime_update) ?q (?st\<lparr>u_timers := ?k\<rparr>))"
    by (auto simp: reaches_def)
  have k: "image_at flash_EndTime_update (\<lambda>_. tick 18) (image_at flash_startTime_update (\<lambda>_. tick 16) ?k)
      = k\<lparr>flashImagetime := live_row # replicate 5 ?row\<rparr>"
    by (simp add: image_at_def Let_def assms(3) live_row_def) (simp add: timers_zero_def KPI_MAX_IMAGES_def)
  have "reaches (at_call P 19 (k\<lparr>flashImagetime := live_row # replicate 5 ?row, count_timer := 1\<rparr>) (?cs @ [Request ?q])
      (rd @ [(length ?cs, Some (tick 16)), (Suc (length ?cs), Some (tick 18))]))
      (timed_flash live_platform (ascii ''SAIL_HYP'') 64 ?q ?st)"
    unfolding timed_flash_def store
  proof (rule reaches_after [where Q = "\<lambda>s. s = ?st\<lparr>u_timers := ?k\<rparr>"])
    fix s assume "s = ?st\<lparr>u_timers := ?k\<rparr>"
    then show "reaches (at_call P 19 (k\<lparr>flashImagetime := live_row # replicate 5 ?row, count_timer := 1\<rparr>) (?cs @ [Request ?q])
        (rd @ [(length ?cs, Some (tick 16)), (Suc (length ?cs), Some (tick 18))]))
      (after (timed live_platform (image_at flash_startTime_update) (image_at flash_EndTime_update) ?q s)
        (\<lambda>st. Returns (EXIT_SUCCESS, next_image st)))"
      using reaches_after [OF flash [unfolded k]] a(1) assms(3)
      by (fastforce simp: at_call_def live_def next_image_def)
  qed simp
  note one = this
  show ?thesis
    unfolding One_nat_def flash_files.simps
    by (rule reaches_after [where Q = "at_call P 19 (k\<lparr>flashImagetime := live_row # replicate 5 ?row, count_timer := 1\<rparr>)
          (?cs @ [Request ?q]) (rd @ [(length ?cs, Some (tick 16)), (Suc (length ?cs), Some (tick 18))])"])
      (use one in \<open>simp_all add: flash_file_def a live_names w(1) row\<close>)
qed

definition at_rows :: "(rtss_updater_handshake_t \<Rightarrow> bool) \<Rightarrow> nat \<Rightarrow> rtss_updater_flash_image_timer_t list \<Rightarrow> u32 \<Rightarrow>
    issued list \<Rightarrow> (nat \<times> timespec option) list \<Rightarrow> updater \<Rightarrow> bool" where
  "at_rows P n fl c cs rd st \<longleftrightarrow> (\<exists>k. flashImagetime k = fl \<and> count_timer k = c \<and> at_call P n k cs rd st)"

lemma at_rowsI: "at_call P n k cs rd st \<Longrightarrow> flashImagetime k = fl \<Longrightarrow> count_timer k = c \<Longrightarrow> at_rows P n fl c cs rd st"
  by (auto simp: at_rows_def)

lemma at_rows_facts:
  "at_rows P n fl c cs rd st \<Longrightarrow> u_args st = live_args" "at_rows P n fl c cs rd st \<Longrightarrow> images st = ImgParseInf live_args"
  "at_rows P n fl c cs rd st \<Longrightarrow> u_memhandle st = \<lparr>mc_sVa = 0, mc_pVa = 8192\<rparr>"
  by (auto simp: at_rows_def at_call_def live_def images_def)

lemma live_timed_preboot:
  assumes "at_rows P n fl c cs rd st" "n \<in> {0, 3, 6, 9, 16, 19}" "\<not> request_rejected q"
    "gives P P'" "m = n + 3" "cs' = cs @ [Request q]"
    "rd' = rd @ [(length cs, Some (tick n)), (Suc (length cs), Some (tick (n + 2)))]"
  shows "reaches (\<lambda>s. at_rows P' m fl c cs' rd' s \<and> w_mem (u_world s) = idle_mem)
    (timed live_platform (preboot_at a) (preboot_at b) q st)" (is ?memory)
    "reaches (at_rows P' m fl c cs' rd') (timed live_platform (preboot_at a) (preboot_at b) q st)"
proof -
  obtain k where k: "flashImagetime k = fl" "count_timer k = c" "at_call P n k cs rd st"
    using assms(1) by (auto simp: at_rows_def)
  have "flashImagetime (preboot_at b x (preboot_at a y k)) = fl" "count_timer (preboot_at b x (preboot_at a y k)) = c" for x y
    using k by (simp_all add: preboot_at_def)
  then show ?memory
    unfolding assms(5-7)
    by (intro reaches_mono [OF at_call_timed [of P n k cs rd st q P' "preboot_at b" "preboot_at a", OF k(3) assms(2-4)]])
      (auto intro: at_rowsI simp del: add_2_eq_Suc' add_2_eq_Suc)
  then show "reaches (at_rows P' m fl c cs' rd') (timed live_platform (preboot_at a) (preboot_at b) q st)"
    by (rule reaches_mono) simp
qed

text \<open>The steps before the image and after it.\<close>

definition live_log :: "issued list" where
  "live_log = [Request Chkgpt, Request Get_metadata_info, Request (Get_metadata 0 0), Request (Get_bl_info 1 52 0 0 8192),
     Load_file (ascii ''/h''), Request (Flashimg (Some (ascii ''SAIL_HYP'')) 0 1 0 64 0 2 8192 0),
     Request (Updategpt 1 0 0 (sizeof_update_gpt_entry + RTSS_UPDATER_CFG_UPDATEGPT_WORKBUF_SZ) 0 8192)]"

definition live_readings :: "(nat \<times> timespec option) list" where
  "live_readings = map (\<lambda>(j, k). (j, Some (tick k)))
     [(0, 0), (1, 2), (1, 3), (2, 5), (2, 6), (3, 8), (3, 9), (4, 11), (5, 16), (6, 18), (6, 19), (7, 21)]"

lemma live_preboot_check:
  assumes "at_rows starting 0 fl c [] [] st"
  shows "reaches (at_rows agreed 9 fl c (take 3 live_log) (take 6 live_readings)) (preboot_check_steps live_platform st)"
proof -
  have q: "\<not> request_rejected Chkgpt" "\<not> request_rejected Get_metadata_info" "\<not> request_rejected (Get_metadata sv l)" for sv l
    by (simp_all add: request_rejected_def)
  have info: "metadatapartitionsz (u_hndshk s) = 0 \<and> mc_sVa (u_memhandle s) = 0" if "at_rows agreed n fl c cs rd s" for n cs rd s
    using that by (auto simp: at_rows_def at_call_def live_def agreed_def starting_def)
  have clear: "at_rows P n fl c cs rd (clear_buffer j s)" if "at_rows P n fl c cs rd s" for P n cs rd s j
    using that by (simp add: at_rows_def at_call_def live_clear)
  have l: "rtss_updater_alignnum 1 16 0 = 0"
    by (simp add: rtss_updater_alignnum_def)
  note live = live_log_def live_readings_def
  have data: "reaches (at_rows agreed 9 fl c (take 3 live_log) (take 6 live_readings)) (metadata_steps
      (timed live_platform (preboot_at a) (preboot_at b)) (timed live_platform (preboot_at a') (preboot_at b')) s)"
    if s: "at_rows agreed 3 fl c (take 1 live_log) (take 2 live_readings) s" for s a b a' b'
    unfolding metadata_steps_def
  proof (rule reaches_after)
    show "reaches (at_rows agreed 6 fl c (take 2 live_log) (take 4 live_readings))
        (timed live_platform (preboot_at a) (preboot_at b) Get_metadata_info s)"
      by (rule live_timed_preboot(2) [OF s _ q(2) live_accepts(2)]) (simp_all add: live)
    fix t assume t: "at_rows agreed 6 fl c (take 2 live_log) (take 4 live_readings) t"
    have "reaches (at_rows agreed 9 fl c (take 3 live_log) (take 6 live_readings))
        (timed live_platform (preboot_at a') (preboot_at b') (Get_metadata 0 0) (clear_buffer 0 t))"
      by (rule live_timed_preboot(2) [OF clear [OF t] _ q(3) live_accepts(2)]) (simp_all add: live)
    then show "reaches (at_rows agreed 9 fl c (take 3 live_log) (take 6 live_readings))
        (let bufLen = rtss_updater_alignnum 1 16 (metadatapartitionsz (u_hndshk t))
         in timed live_platform (preboot_at a') (preboot_at b') (Get_metadata (mc_sVa (u_memhandle t)) bufLen)
              (clear_buffer (unat bufLen) t))"
      by (simp add: info [OF t] l)
  qed
  have "reaches (at_rows agreed 3 fl c (take 1 live_log) (take 2 live_readings))
      (timed live_platform (preboot_at a) (preboot_at b) Chkgpt st)" for a b
    by (rule live_timed_preboot(2) [OF assms _ q(1) live_accepts(1)]) (simp_all add: live numeral_2_eq_2)
  then show ?thesis
    unfolding preboot_check_steps_def using data by (rule reaches_after)
qed

lemma live_boot_info:
  assumes "at_rows agreed 9 fl c (take 3 live_log) (take 6 live_readings) st"
  shows "reaches (at_rows (\<lambda>_. True) 12 fl c (take 4 live_log) (take 8 live_readings))
    (boot_info_steps (preboot_boot_info live_platform) st)"
proof -
  let ?Q = "\<lambda>s. at_rows agreed 12 fl c (take 4 live_log) (take 8 live_readings) s \<and> w_mem (u_world s) = idle_mem"
  let ?q = "Get_bl_info 1 52 0 0 8192"
  note st = at_rows_facts(2,3) [OF assms]
  have mem: "reaches (at_rows agreed 9 fl c (take 3 live_log) (take 6 live_readings))
      (on_mem (rtss_updater_populate_bl_info_context (Some (ImgParseInf live_args)) 8192) st)"
    using assms live_populate(1) st(1) by (auto simp: at_rows_def at_call_def reaches_def) metis
  have issue: "reaches ?Q (preboot_boot_info live_platform ?q s)"
    if "at_rows agreed 9 fl c (take 3 live_log) (take 6 live_readings) s" for s
    unfolding preboot_boot_info_def
    by (rule live_timed_preboot(1) [OF that _ _ live_accepts(2)])
      (simp_all add: request_rejected_def entries_len_def sizeof_image_entry_def live_log_def live_readings_def)
  have "reaches ?Q (boot_info_request (preboot_boot_info live_platform) st)"
    unfolding boot_info_request_def Let_def st rtss_updater_memctx_t.select_convs
    by (rule reaches_after [OF mem]) (simp add: at_rows_facts(2) issue live_options sizeof_image_entry_def)
  moreover have "reaches (at_rows (\<lambda>_. True) 12 fl c (take 4 live_log) (take 8 live_readings)) (boot_info_check s)" if "?Q s" for s
    using that live_check [of 12] by (auto simp: at_rows_def reaches_def) metis
  ultimately show ?thesis
    unfolding boot_info_steps_def by (rule reaches_after)
qed

lemma live_images_flashed:
  assumes "at_rows (\<lambda>_. True) 12 (flashImagetime timers_zero) 0 (take 4 live_log) (take 8 live_readings) st"
  shows "reaches (at_rows (\<lambda>_. True) 19 (live_row # replicate 5 (hd (flashImagetime timers_zero))) 1 (take 6 live_log) (take 10 live_readings))
    (flash_files live_platform (timed_flash live_platform) 1 2 (restart (u_args st)) 0 (nat (numberOfPaths (images st))) st)"
proof -
  have a: "restart (u_args st) = 0" "nat (numberOfPaths (images st)) = 1"
    by (simp_all add: at_rows_facts(1,2) [OF assms] live_options)
  obtain k where k: "flashImagetime k = flashImagetime timers_zero" "count_timer k = 0"
    "at_call (\<lambda>_. True) 12 k (take 4 live_log) (take 8 live_readings) st"
    using assms by (auto simp: at_rows_def)
  show ?thesis
    unfolding a
    by (rule reaches_mono [OF live_flash [OF k(3) live_accepts(3) k(2,1)]],
        rule at_rowsI [of _ _ "k\<lparr>flashImagetime := live_row # replicate 5 (hd (flashImagetime k)), count_timer := 1\<rparr>"])
      (simp_all add: live_log_def live_readings_def k(1) eval_nat_numeral)
qed

lemma live_update_gpt:
  assumes "at_rows P 19 fl c (take 6 live_log) (take 10 live_readings) st" "gives P P"
  shows "reaches (at_rows P 22 fl c live_log live_readings) (update_gpt_steps live_platform st)"
proof -
  let ?q = "Updategpt 1 0 0 (sizeof_update_gpt_entry + RTSS_UPDATER_CFG_UPDATEGPT_WORKBUF_SZ) 0 8192"
  note st = at_rows_facts(2,3) [OF assms(1)]
  have mem: "reaches (at_rows P 19 fl c (take 6 live_log) (take 10 live_readings))
      (on_mem (rtss_updater_populate_gpt_update_context (Some (ImgParseInf live_args)) 8192) st)"
    using assms(1) live_populate(2) st(1) by (auto simp: at_rows_def at_call_def reaches_def) metis
  have issue: "reaches (at_rows P 22 fl c live_log live_readings) (timed live_platform (preboot_at a) (preboot_at b) ?q s)"
    if "at_rows P 19 fl c (take 6 live_log) (take 10 live_readings) s" for s a b
    by (rule live_timed_preboot(2) [OF that _ _ assms(2)])
      (simp_all add: request_rejected_def sizeof_update_gpt_entry_def RTSS_UPDATER_CFG_UPDATEGPT_WORKBUF_SZ_def
        live_log_def live_readings_def)
  show ?thesis
    unfolding update_gpt_steps_def Let_def st rtss_updater_memctx_t.select_convs
    by (rule reaches_after [OF mem]) (simp add: issue live_options)
qed

lemma live_preboot:
  obtains st where "rtss_updater_preboot_demosequence live_platform live_updater = Returns (EXIT_SUCCESS, st)"
    "u_log st = live_log" "u_readings st = live_readings" "recorded (u_timers st) = [live_row]"
proof -
  let ?rows = "live_row # replicate 5 (hd (flashImagetime timers_zero))"
  let ?last = "at_rows (\<lambda>_. True) 22 ?rows 1 live_log live_readings"
  let ?ok = "\<lambda>s. u_log s = live_log \<and> u_readings s = live_readings \<and> recorded (u_timers s) = [live_row]"
  have "live 0 demo_handshake timers_zero [] [] live_updater" "starting demo_handshake"
    by (simp_all add: live_def live_updater_def demo_updater_def starting_def no_counts_def demo_handshake_def)
  then have start: "at_rows starting 0 (flashImagetime timers_zero) 0 [] [] live_updater"
    by (intro at_rowsI [of _ _ timers_zero]) (auto simp: at_call_def timers_zero_def)
  have args: "u_args s = live_args" and ok: "?ok s" if "?last s" for s
    using that by (auto simp: at_rows_def at_call_def live_def recorded_def)
  have report: "reaches (\<lambda>s. ?ok s \<and> u_args s = live_args) (report_step rtss_updater_record_preboot_kpi_values live_platform s)"
    if "?last s" for s
    using that ok [OF that] args [OF that]
    by (auto simp: report_step_def rtss_updater_record_preboot_kpi_values_def live_options at_rows_def at_call_def live_def
        KPI_MAX_IMAGES_def split: prod.splits)
  have "reaches ?ok (rtss_updater_preboot_demosequence live_platform live_updater)"
    unfolding rtss_updater_preboot_demosequence_def Let_def
    by (rule reaches_after [OF live_preboot_check [OF start]], rule reaches_after [OF live_boot_info], assumption,
        rule reaches_after [OF live_images_flashed], assumption, rule reaches_after [OF live_update_gpt [OF _ live_accepts(3)]], assumption,
        rule reaches_after [OF report], assumption) (simp add: live_options)
  then show ?thesis
    using that by (auto simp: reaches_def)
qed

end
