(* ===== verification/Updater_Seq_Claims.thy ===== *)
theory Updater_Seq_Claims
  imports Updater_Demo
begin

text \<open>
  The properties of the updater program: the order of its commands, what a response can change,
  what the sequences hold and keep, with their witnesses.
\<close>

section \<open>Counting in the protocols\<close>

definition flashes :: "issued list \<Rightarrow> issued list" where
  "flashes cs = filter (\<lambda>c. flash_bank c \<noteq> None) cs"

lemma flashes_append [simp]: "flashes (cs @ [c]) = flashes cs @ (if flash_bank c = None then [] else [c])"
  by (simp add: flashes_def)

lemma command_no_flash: "command c \<noteq> 8 \<Longrightarrow> flash_bank c = None"
proof (cases c)
  case (Request q)
  then show "command c \<noteq> 8 \<Longrightarrow> flash_bank c = None" by (cases q) (simp_all add: flash_bank_def)
qed (simp_all add: flash_bank_def)

text \<open>The number of images that have been flashed in a phase.\<close>

fun preboot_flashes :: "nat \<Rightarrow> preboot_phase \<Rightarrow> nat" where
  "preboot_flashes n (Pre_flash k) = k"
| "preboot_flashes n (Pre_loaded k) = k"
| "preboot_flashes n Pre_done = n"
| "preboot_flashes n _ = 0"

fun postboot_flashes :: "nat \<Rightarrow> postboot_phase \<Rightarrow> nat" where
  "postboot_flashes n Post_start = 0"
| "postboot_flashes n Post_confirmed = 0"
| "postboot_flashes n Post_boot = 0"
| "postboot_flashes n (Post_copy k) = k"
| "postboot_flashes n (Post_read k) = k"
| "postboot_flashes n _ = n"

text \<open>The flashes name the first \<open>k\<close> images, in their order, and go to the second bank.\<close>

definition flashed :: "u8 list list \<Rightarrow> nat \<Rightarrow> issued list \<Rightarrow> bool" where
  "flashed ns k cs \<longleftrightarrow> k \<le> length ns \<and> map command_image (flashes cs) = map Some (take k ns)
     \<and> list_all (\<lambda>c. flash_bank c = Some 1) (flashes cs)"

lemma flashed_Nil [simp]: "flashed ns 0 []"
  by (simp add: flashed_def flashes_def)

lemma flashed_other: "flashed ns k cs \<Longrightarrow> flash_bank c = None \<Longrightarrow> flashed ns k (cs @ [c])"
  by (simp add: flashed_def)

lemma flashed_next:
  "flashed ns k cs \<Longrightarrow> k < length ns \<Longrightarrow> flash_bank c = Some 1 \<Longrightarrow> command_image c = Some (ns ! k) \<Longrightarrow>
   flashed ns (Suc k) (cs @ [c])"
  by (simp add: flashed_def take_Suc_conv_app_nth)

lemma read_no_flash: "read_bank c = Some b \<Longrightarrow> flash_bank c = None"
  by (simp add: read_bank_def flash_bank_def split: issued.splits request.splits)

text \<open>How far the two automata have come is how much has been flashed.\<close>

lemma preboot_count:
  "phase_after (preboot_next fs) Pre_start cs = Some q \<Longrightarrow>
   flashed (map fst fs) (preboot_flashes (length fs) q) cs \<and> (\<forall>k. q = Pre_loaded k \<longrightarrow> k < length fs)"
proof (induction cs arbitrary: q rule: rev_induct)
  case (snoc c cs)
  then obtain q0 where q0: "phase_after (preboot_next fs) Pre_start cs = Some q0" "preboot_next fs q0 c = Some q"
    by (auto simp: phase_after_append split: option.splits)
  note prev = snoc.IH [OF q0(1)]
  show ?case
  proof (cases q0)
    case (Pre_loaded k)
    then show ?thesis
      using prev q0(2) by (auto simp: preboot_next_simps flashed_next split: if_splits)
  next
    case (Pre_flash k)
    then have "k \<le> length fs"
      using prev by (simp add: flashed_def)
    then show ?thesis
      using prev q0(2) Pre_flash command_no_flash [of c]
      by (auto simp: preboot_next_simps flashed_other split: if_splits)
  qed (use prev q0(2) command_no_flash [of c] in \<open>auto simp: preboot_next_simps flashed_other split: if_splits\<close>)
qed auto

lemma postboot_count:
  "phase_after (postboot_next ns) Post_start cs = Some q \<Longrightarrow>
   flashed ns (postboot_flashes (length ns) q) cs \<and> (\<forall>k. q = Post_read k \<longrightarrow> k < length ns)"
proof (induction cs arbitrary: q rule: rev_induct)
  case (snoc c cs)
  then obtain q0 where q0: "phase_after (postboot_next ns) Post_start cs = Some q0" "postboot_next ns q0 c = Some q"
    by (auto simp: phase_after_append split: option.splits)
  note prev = snoc.IH [OF q0(1)]
  show ?case
  proof (cases q0)
    case (Post_copy k)
    then have "k \<le> length ns"
      using prev by (simp add: flashed_def)
    then show ?thesis
      using prev q0(2) Post_copy command_no_flash [of c] read_no_flash [of c]
      by (auto simp: postboot_next_simps flashed_other split: if_splits)
  next
    case (Post_read k)
    then show ?thesis
      using prev q0(2) by (auto simp: postboot_next_simps flashed_next split: if_splits)
  qed (use prev q0(2) command_no_flash [of c] in \<open>auto simp: postboot_next_simps flashed_other split: if_splits\<close>)
qed auto

section \<open>The order of the commands\<close>

text \<open>C1: The sequence before the restart runs in the order of \<open>preboot_next\<close>: the check of the table, the
  metadata, the boot information, then for each image of the configuration, in its order, the
  loading of its file and one flash under its own name to the second bank, and the update of the
  table only after all of them. It ends with success only at the end of that order. What has been
  flashed at any end are the first \<open>k\<close> images, each once, and nothing is flashed before the boot
  information has been validated.\<close>

theorem preboot_protocol:
  assumes "u_log st = []" "no_counts (u_hndshk st)" "fs = image_files (images st)"
    "rtss_updater_preboot_demosequence p st = Returns (r, st')"
  shows "\<exists>q. phase_after (preboot_next fs) Pre_start (u_log st') = Some q \<and> (r = EXIT_SUCCESS \<longrightarrow> q = Pre_done)
    \<and> flashed (map fst fs) (preboot_flashes (length fs) q) (u_log st')
    \<and> (flashes (u_log st') \<noteq> [] \<longrightarrow> validated (u_hndshk st'))"
proof -
  obtain q where q: "preboot.at fs (u_args st) q st'" "r = EXIT_SUCCESS \<longrightarrow> q = Pre_done"
    using yieldsD [OF preboot_yields [OF assms(1,2)] assms(4)] assms(3)
    by (cases "r = EXIT_SUCCESS") (auto simp: preboot.accepted_def)
  then have run: "phase_after (preboot_next fs) Pre_start (u_log st') = Some q" "preboot_inv (u_args st) q (u_args st') (u_hndshk st')"
    by (simp_all add: preboot.at_def)
  have "flashes (u_log st') = [] \<or> validated (u_hndshk st')"
    using preboot_count [OF run(1)] run(2) by (cases q) (auto simp: flashed_def)
  then show ?thesis
    using preboot_count [OF run(1)] run(1) q(2) by auto
qed

text \<open>One image, every command answered.\<close>

theorem preboot_protocol_witness:
  "\<exists>st'. rtss_updater_preboot_demosequence live_platform live_updater = Returns (EXIT_SUCCESS, st')
    \<and> phase_after (preboot_next [(ascii ''SAIL_HYP'', ascii ''/h'')]) Pre_start (u_log st') = Some Pre_done
    \<and> flashed [ascii ''SAIL_HYP''] 1 (u_log st')"
proof -
  obtain st' where run: "rtss_updater_preboot_demosequence live_platform live_updater = Returns (EXIT_SUCCESS, st')"
    by (rule live_preboot)
  have fs: "[(ascii ''SAIL_HYP'', ascii ''/h'')] = image_files (images live_updater)"
    by (simp add: image_files_def images_def live_updater_def live_options live_names)
  have st: "u_log live_updater = []" "no_counts (u_hndshk live_updater)"
    by (simp_all add: live_updater_def demo_updater_def demo_handshake_def no_counts_def)
  show ?thesis
    using preboot_protocol [OF st fs run] run by simp
qed

text \<open>C3: The sequence after the restart runs in the order of \<open>postboot_next\<close>: it confirms the update, and
  unless only that is asked for it fetches the boot information, checks the table, and then, for
  each image of the configuration and in its order, reads that image from the first bank and flashes
  it under the same name to the second bank before it reads the next. It fixes the primary table
  after the last, and then establishes the redundancy, sets the metadata and updates the
  anti-rollback data. It ends with success only at the end of that order, and what has been flashed
  at any end are the first \<open>k\<close> images, each once.\<close>

theorem postboot_protocol:
  assumes "u_log st = []" "no_counts (u_hndshk st)" "ns = image_names (images st)"
    "rtss_updater_postboot_demosequence p st = Returns (r, st')"
  shows "\<exists>q. phase_after (postboot_next ns) Post_start (u_log st') = Some q
    \<and> (r = EXIT_SUCCESS \<longrightarrow> q = (if ackstate (u_args st) = 1 then Post_confirmed else Post_done))
    \<and> flashed ns (postboot_flashes (length ns) q) (u_log st')
    \<and> (q \<notin> {Post_start, Post_confirmed, Post_boot} \<longrightarrow> validated (u_hndshk st'))"
proof -
  obtain q where q: "postboot.at ns (u_args st) q st'" "r = EXIT_SUCCESS \<longrightarrow> q = postboot_end (u_args st)"
    using yieldsD [OF postboot_yields [OF assms(1,2)] assms(4)] assms(3)
    by (cases "r = EXIT_SUCCESS") (auto simp: postboot.accepted_def)
  then show ?thesis
    using postboot_count [of ns "u_log st'" q] by (auto simp: postboot.at_def postboot_inv_def postboot_end_def)
qed

theorem postboot_protocol_witness:
  "\<exists>q. phase_after (postboot_next []) Post_start [Request (Ota_done 0 0 0 0)] = Some q"
  using postboot_protocol [OF demo_updater_facts(1,2) refl demo_runs(2)]
  by (auto simp: demo_updater_facts images_def image_names_def demo_args_def imgconfig_zero_def)

text \<open>C7: The flasher issues commands in the order of \<open>flasher_next\<close> and flashes only the banks selected on
  the command line, both if none is named, and only after the boot information has been
  validated; another value of the option flashes nothing.\<close>

theorem flasher_protocol:
  assumes "u_log st = []" "no_counts (u_hndshk st)" "rtss_updater_devprog_flasher p st = Returns (r, st')"
  shows "\<exists>q. phase_after (flasher_next (a_partition (u_args st))) Fl_start (u_log st') = Some q
    \<and> (r = EXIT_SUCCESS \<longrightarrow> (\<exists>b. q = Fl_flash b))
    \<and> list_all (\<lambda>c. bank_selected (a_partition (u_args st)) (the (flash_bank c))) (flashes (u_log st'))
    \<and> (flashes (u_log st') \<noteq> [] \<longrightarrow> validated (u_hndshk st'))"
proof -
  let ?arg = "a_partition (u_args st)"
  have count: "phase_after (flasher_next ?arg) Fl_start cs = Some q \<Longrightarrow>
      list_all (\<lambda>c. bank_selected ?arg (the (flash_bank c))) (flashes cs) \<and> (q \<noteq> Fl_flash True \<longrightarrow> flashes cs = [])" for cs q
  proof (induction cs arbitrary: q rule: rev_induct)
    case Nil
    then show ?case by (simp add: flashes_def)
  next
    case (snoc c cs)
    then obtain q0 where q0: "phase_after (flasher_next ?arg) Fl_start cs = Some q0" "flasher_next ?arg q0 c = Some q"
      by (auto simp: phase_after_append split: option.splits)
    show ?case
      using snoc.IH [OF q0(1)] q0(2) command_no_flash [of c]
      by (cases q0) (auto simp: flasher_next_simps split: if_splits option.splits)
  qed
  obtain q where q: "flasher.at ?arg q st'" "r = EXIT_SUCCESS \<longrightarrow> (\<exists>b. q = Fl_flash b)"
    using yieldsD [OF flasher_yields [OF assms(1,2)] assms(3)]
    by (cases "r = EXIT_SUCCESS") (auto simp: flasher.accepted_def ready_to_flash_def)
  then have run: "phase_after (flasher_next ?arg) Fl_start (u_log st') = Some q" "flasher_inv ?arg q (u_args st') (u_hndshk st')"
    by (simp_all add: flasher.at_def)
  have "flashes (u_log st') = [] \<or> validated (u_hndshk st')"
    using count [OF run(1)] run(2) by (cases "q = Fl_flash True") auto
  then show ?thesis
    using count [OF run(1)] run(1) q(2) by auto
qed

theorem flasher_protocol_witness:
  "\<exists>q. phase_after (flasher_next RTSS_UPDATER_ERROR) Fl_start [Request Chkgpt] = Some q"
  using flasher_protocol [OF demo_updater_facts(1,2) demo_runs(3)]
  by (auto simp: demo_updater_facts demo_args_def)

text \<open>C22: The update of the partition table reads the primary table, writes the primary table and then has
  the secondary one fixed, in this order and nothing else.\<close>

theorem gpt_update_protocol:
  assumes "u_log st = []" "rtss_updater_image_update_gpt p st = Returns (r, st')"
  shows "\<exists>q. phase_after gpt_next Gpt_start (u_log st') = Some q \<and> (r = EXIT_SUCCESS \<longrightarrow> q = Gpt_fixed)"
  using yieldsD [OF table_yields [OF assms(1)] assms(2)]
  by (auto simp: table.at_def table.accepted_def split: if_splits)

theorem gpt_update_protocol_witness:
  "\<exists>q. phase_after gpt_next Gpt_start [Request Chkgpt] = Some q"
  using gpt_update_protocol [OF demo_updater_facts(1) demo_runs(4)] by auto

section \<open>What the sequences keep\<close>

text \<open>C9: Whatever sequence runs and however it ends, it holds afterwards what it held before, apart from
  the block of a partition table, which is held exactly as long as a pointer to it is kept.\<close>

theorem sequences_keep_resources:
  assumes "chosen_sequence p a st = Returns (r, st')" "wheld (u_world st) = H + block_of (gptbuf (u_hndshk st))"
  shows "wheld (u_world st') = H + block_of (gptbuf (u_hndshk st'))"
  using yieldsD [OF resources.chosen_kept [OF resources.refl] assms(1)] assms(2)
  by (simp add: same_held_def split: if_splits)

lemma demo_chosen: "chosen_sequence p (u_args (demo_updater None rx m)) (demo_updater None rx m) =
    Returns (EXIT_FAILURE, demo_updater None rx m\<lparr>u_log := [Request Chkgpt]\<rparr>)"
  by (simp add: chosen_sequence_def demo_runs demo_updater_facts demo_args_def blank_row_def
      RTSS_UPDATER_CFG_MAX_IMAGEPATH_LEN_def)

theorem sequences_keep_resources_witness:
  "\<exists>st'. chosen_sequence demo_platform demo_args (demo_updater None None demo_mem) = Returns (EXIT_FAILURE, st')
    \<and> wheld (u_world st') = {#}"
proof -
  let ?st = "demo_updater None None demo_mem"
  have "wheld (u_world ?st) = {#} + block_of (gptbuf (u_hndshk ?st))"
    by (simp add: demo_updater_def demo_world_def wheld_def demo_handshake_def block_of_def)
  from sequences_keep_resources [OF demo_chosen [of demo_platform] this] show ?thesis
    using demo_chosen [of demo_platform None demo_mem]
    by (simp add: demo_updater_facts) (simp add: demo_updater_def demo_handshake_def block_of_def)
qed

text \<open>C27: The sequences keep the shape of the program's structures: five rows of 128 bytes for names and
  paths, five entries of boot information with names of 32 bytes, a table header of 92 bytes, and
  counts of images within the arrays, six timers of images, whatever the responses and the configuration file contain.\<close>

theorem sequences_keep_shape:
  assumes "chosen_sequence p a st = Returns (r, st')" "updater_shape st"
  shows "updater_shape st'"
  using yieldsD [OF shape.chosen_kept [OF shape.refl] assms(1)] assms(2)
  by (simp split: if_splits)

theorem sequences_keep_shape_witness:
  "\<exists>st'. chosen_sequence demo_platform demo_args (demo_updater None None demo_mem) = Returns (EXIT_FAILURE, st')
    \<and> updater_shape st'"
  using sequences_keep_shape [OF demo_chosen demo_updater_facts(5)] demo_chosen [of demo_platform None demo_mem]
  by (auto simp: demo_updater_facts)

end
