(* ===== verification/Updater_Input_Claims.thy ===== *)
theory Updater_Input_Claims
  imports Updater_Config_Props Updater_Claims
begin

text \<open>
  The properties of the updater's input and of the entries it exchanges through the shared
  buffer, with their witnesses.
\<close>

section \<open>The configuration file\<close>

text \<open>C19: A configuration file written from a list of up to five distinct supported images with plain
  paths is read back as exactly that list, whatever the structure held before.\<close>

theorem cfgfile_read_roundtrip:
  assumes "\<forall>e \<in> set es. entry_ok e" "distinct (map fst es)" "es \<noteq> []" "length es \<le> 5" "rows_ok c"
    "a_ret (answer p (w_now w)) \<noteq> 0" "a_data (answer p (w_now w)) = cfg_render es"
  shows "\<exists>c' w'. rtss_updater_cfgfile_read p file (Some c) rtss_updater_supported_img_names
      (int RTSS_UPDATER_CFG_MAX_IMAGES) w = ((EXIT_SUCCESS, Some c'), w')
    \<and> numberOfImages c' = int (length es) \<and> numberOfPaths c' = int (length es)
    \<and> map (name_str c') [0..<length es] = map fst es \<and> map (path_str c') [0..<length es] = map snd es"
proof -
  obtain c1 where c1: "cfg_lines (int RTSS_UPDATER_CFG_MAX_IMAGES) (map cfg_render_line es) 0 c = Inr (length es, c1)"
    "holds_entries es c1"
    using cfg_lines_render [of "[]" c es] assms(1-5)
    by (auto simp: holds_entries_def RTSS_UPDATER_CFG_MAX_IMAGES_def)
  let ?c = "c1\<lparr>numberOfImages := int (length es), numberOfPaths := int (length es)\<rparr>"
  have h: "holds_entries es ?c"
    using c1(2) by (simp add: holds_entries_def rows_ok_def)
  have "rtss_updater_supported_img_names \<noteq> []" "0 < length es"
    using assms(3) by (simp_all add: rtss_updater_supported_img_names_def)
  then have "\<exists>w'. rtss_updater_cfgfile_read p file (Some c) rtss_updater_supported_img_names
      (int RTSS_UPDATER_CFG_MAX_IMAGES) w = ((EXIT_SUCCESS, Some ?c), w')"
    using assms(6,7) c1(1) holds_entries_supported [OF c1(2) assms(1)]
    by (simp add: rtss_updater_cfgfile_read_def sys_def Let_def getlines_render [OF assms(1)])
  moreover have "map (name_str ?c) [0..<length es] = map fst es" "map (path_str ?c) [0..<length es] = map snd es"
    using holds_entries_strs [OF h] assms(1) by (auto intro!: nth_equalityI)
  ultimately show ?thesis by fastforce
qed

definition demo_cfg_platform :: platform where
  "demo_cfg_platform = demo_platform\<lparr>answer := (\<lambda>k. \<lparr>a_ret = 1, a_err = 0, a_size = 0, a_addr = 0, a_revents = 0,
     a_mode = 0, a_data = ascii ''SAIL_HYP /h'' @ 10 # ascii ''SAIL_SW2 /s'' @ [10], a_peer = id\<rparr>)\<rparr>"

theorem cfgfile_read_roundtrip_witness:
  "\<exists>c' w'. rtss_updater_cfgfile_read demo_cfg_platform [] (Some imgconfig_zero) rtss_updater_supported_img_names
      (int RTSS_UPDATER_CFG_MAX_IMAGES) (demo_world demo_mem) = ((EXIT_SUCCESS, Some c'), w') \<and> numberOfImages c' = 2"
proof -
  let ?es = "[(ascii ''SAIL_HYP'', ascii ''/h''), (ascii ''SAIL_SW2'', ascii ''/s'')]"
  have "\<forall>e \<in> set ?es. entry_ok e" "distinct (map fst ?es)"
    by (simp_all add: entry_ok_def rtss_updater_supported_img_names_def ascii_def)
  moreover have "rows_ok imgconfig_zero"
    by (simp add: rows_ok_def imgconfig_zero_def)
  ultimately show ?thesis
    using cfgfile_read_roundtrip [of ?es imgconfig_zero demo_cfg_platform "demo_world demo_mem" "[]"]
    by (auto simp: demo_cfg_platform_def cfg_render_def cfg_render_line_def ascii_def)
qed

lemma cfgfile_read_Some: "\<exists>r c' w'. rtss_updater_cfgfile_read p f (Some c) ns k w = ((r, Some c'), w')"
  by (auto simp: rtss_updater_cfgfile_read_def Let_def split: prod.splits sum.splits)

text \<open>C28: A configuration file that is accepted names between one and five images, as many as it has
  lines, every one of them supported and none twice, whatever the file contains; whether it is
  accepted or not, the file is closed again.\<close>

theorem cfgfile_read_sound:
  assumes "rows_ok c" "rtss_updater_cfgfile_read p file (Some c) rtss_updater_supported_img_names
      (int RTSS_UPDATER_CFG_MAX_IMAGES) w = ((r, Some c'), w')"
  shows "wheld w' = wheld w \<and> (if r = EXIT_SUCCESS
    then 1 \<le> numberOfImages c' \<and> numberOfImages c' \<le> 5 \<and> numberOfPaths c' = numberOfImages c'
      \<and> numberOfImages c' = int (length (getlines (a_data (answer p (w_now w)))))
      \<and> set (map (name_str c') [0..<nat (numberOfImages c')]) \<subseteq> set rtss_updater_supported_img_names
      \<and> distinct (map (name_str c') [0..<nat (numberOfImages c')])
    else r = EXIT_FAILURE)"
proof -
  let ?lines = "getlines (a_data (answer p (w_now w)))"
  let ?cfg = "cfg_lines (int RTSS_UPDATER_CFG_MAX_IMAGES) ?lines 0 c"
  have ne: "rtss_updater_supported_img_names \<noteq> []" by (simp add: rtss_updater_supported_img_names_def)
  have held: "wheld w' = wheld w" and fail: "r \<noteq> EXIT_SUCCESS \<Longrightarrow> r = EXIT_FAILURE"
    using assms(2) ne by (auto simp: rtss_updater_cfgfile_read_def sys_def Let_def wheld_def
        split: if_splits sum.splits)
  have "1 \<le> numberOfImages c' \<and> numberOfImages c' \<le> 5 \<and> numberOfPaths c' = numberOfImages c'
      \<and> numberOfImages c' = int (length ?lines)
      \<and> set (map (name_str c') [0..<nat (numberOfImages c')]) \<subseteq> set rtss_updater_supported_img_names
      \<and> distinct (map (name_str c') [0..<nat (numberOfImages c')])" if succ: "r = EXIT_SUCCESS"
  proof -
    obtain k c1 where k: "?cfg = Inr (k, c1)" "cfg_supported rtss_updater_supported_img_names k c1" "0 < k"
      "c' = c1\<lparr>numberOfImages := int k, numberOfPaths := int k\<rparr>"
      using assms(2) succ ne by (auto simp: rtss_updater_cfgfile_read_def sys_def Let_def EXIT_SUCCESS_def
          EXIT_FAILURE_def split: if_splits sum.splits)
    have "holds_names [] c"
      using assms(1) by (simp add: holds_names_def)
    then obtain ns where ns: "holds_names ns c1" "length ns = k" "k = length ?lines"
      using cfg_lines_holds_names [of ?lines "[]" c k c1] k(1) by auto
    note sup = holds_names_supported [OF ns(1), unfolded ns(2), OF k(2)]
    have nm: "name_str c' = name_str c1"
      by (rule ext) (simp add: k(4) name_str_def)
    have num: "numberOfImages c' = int k" "numberOfPaths c' = int k" "k \<le> 5"
      using ns(1,2) by (simp_all add: k(4) holds_names_def RTSS_UPDATER_CFG_MAX_IMAGES_def)
    show ?thesis
      unfolding num(1,2) nm nat_int using sup num(3) k(3) ns(3) by (auto simp: Suc_le_eq)
  qed
  then show ?thesis
    using held fail by (cases "r = EXIT_SUCCESS"; simp only: if_True if_False simp_thms)
qed

theorem cfgfile_read_sound_witness:
  "\<exists>r c' w'. rtss_updater_cfgfile_read demo_cfg_platform [] (Some imgconfig_zero) rtss_updater_supported_img_names
      (int RTSS_UPDATER_CFG_MAX_IMAGES) (demo_world demo_mem) = ((r, Some c'), w') \<and> wheld w' = {#}"
proof -
  obtain r c' w' where c: "rtss_updater_cfgfile_read demo_cfg_platform [] (Some imgconfig_zero)
      rtss_updater_supported_img_names (int RTSS_UPDATER_CFG_MAX_IMAGES) (demo_world demo_mem) = ((r, Some c'), w')"
    using cfgfile_read_Some by blast
  then show ?thesis
    using cfgfile_read_sound [OF _ c]
    by (auto simp: rows_ok_def imgconfig_zero_def wheld_def demo_world_def)
qed

end
