(* ===== verification/Updater_Init_Claims.thy ===== *)
theory Updater_Init_Claims
  imports Updater_Init_Props Updater_Input_Claims
begin

text \<open>
  The properties of the updater's set-up, of loading a file and of the entries exchanged through
  the shared buffer, with their witnesses.
\<close>

section \<open>Set-up\<close>

text \<open>C33: Setting up the channels and the buffer either succeeds, with the two handles, the mapping of
  the buffer and one heap block held, or fails with everything given back that was acquired on
  the way, except for mappings: closing a channel leaves its region mapped.\<close>

theorem mem_init_resources:
  assumes "results_ok p" "errno_pos p" "rtss_updater_mem_init p (Some c) g w = ((r, c', g'), w')"
  shows "if r = EXIT_SUCCESS
    then \<exists>tx rx. rtss_updater_tx_client_data g' = Some tx \<and> rtss_updater_rx_client_data g' = Some rx
      \<and> handle_fds p tx \<and> handle_fds p rx \<and> rtss_updater_mmap_data g' \<noteq> None
      \<and> wheld w' = wheld w + {#Heap#} + handle_resources p tx + handle_resources p rx +
        (if base_addr (rtss_ota_ctx g) = NULL then live_mapping (rtss_ota_ctx g') else {#})
    else r = EXIT_FAILURE \<and> (\<exists>R. mappings_only R \<and> wheld w' = wheld w + R)"
  using assms by (rule mem_init_held)

definition demo_globals :: upd_globals where
  "demo_globals = \<lparr>rtss_updater_mmap_data = None, rtss_updater_tx_client_data = None,
     rtss_updater_rx_client_data = None, rtss_ota_ctx = rtss_ota_ctx_init\<rparr>"

definition demo_no_device :: platform where
  "demo_no_device = demo_platform\<lparr>answer := (\<lambda>k. \<lparr>a_ret = -1, a_err = 2, a_size = 0, a_addr = 0, a_revents = 0,
     a_mode = 0, a_data = [], a_peer = id\<rparr>)\<rparr>"

theorem mem_init_resources_witness:
  "\<exists>c' g' w'. rtss_updater_mem_init demo_no_device (Some \<lparr>mc_sVa = 0, mc_pVa = 0\<rparr>) demo_globals (demo_world demo_mem)
     = ((EXIT_FAILURE, c', g'), w') \<and> (\<exists>R. mappings_only R \<and> wheld w' = R)"
proof -
  have ok: "results_ok demo_no_device" "errno_pos demo_no_device"
    by (simp_all add: results_ok_def errno_pos_def demo_no_device_def)
  obtain c' g' w' where run: "rtss_updater_mem_init demo_no_device (Some \<lparr>mc_sVa = 0, mc_pVa = 0\<rparr>) demo_globals
      (demo_world demo_mem) = ((EXIT_FAILURE, c', g'), w')"
    by (simp add: rtss_updater_mem_init_def rtss_mb_open_def sys_def demo_no_device_def Let_def UPDATER_TX_CHANNEL_def
        errno_defs)
  have "EXIT_FAILURE \<noteq> EXIT_SUCCESS" "wheld (demo_world demo_mem) = {#}"
    by (simp_all add: EXIT_FAILURE_def EXIT_SUCCESS_def wheld_def demo_world_def)
  then show ?thesis
    using mem_init_resources [OF ok run] run by auto
qed

text \<open>Taking the set-up down again drops the buffer and closes both channels, but leaves the
  mappings of the two channels and the heap block of the buffer's description behind.\<close>

theorem mem_deinit_leaves:
  assumes "rtss_updater_tx_client_data g = Some tx" "rtss_updater_rx_client_data g = Some rx"
    "handle_fds p tx" "handle_fds p rx" "rtss_updater_mmap_data g = Some d"
    "refcount (rtss_ota_ctx g) = 1" "base_addr (rtss_ota_ctx g) \<noteq> NULL"
    "wheld w = R + {#Heap#} + handle_resources p tx + handle_resources p rx + live_mapping (rtss_ota_ctx g)"
    "rtss_updater_mem_deinit p (Some c) g w = ((EXIT_SUCCESS, g'), w')"
  shows "wheld w' = R + {#Heap, Mapping (h_p_mb_base_addr tx) (h_mb_size tx),
      Mapping (h_p_mb_base_addr rx) (h_mb_size rx)#}
    \<and> base_addr (rtss_ota_ctx g') = NULL \<and> refcount (rtss_ota_ctx g') = 0"
  using mem_deinit_held [OF assms(1-8,9)] by simp

definition demo_held_world :: world where
  "demo_held_world = \<lparr>w_mem = demo_mem, w_now = 0, w_trace = [(Sys_calloc, 1), (Sys_calloc, 1), (Sys_open, 3),
     (Sys_mmap 200 3, 4096), (Sys_calloc, 1), (Sys_open, 3), (Sys_mmap 200 3, 4096), (Sys_eventfd, 4),
     (Sys_mmap 64 5, 8192)]\<rparr>"

definition demo_held_globals :: upd_globals where
  "demo_held_globals = \<lparr>rtss_updater_mmap_data = Some mmap_data_zero, rtss_updater_tx_client_data = Some demo_tx,
     rtss_updater_rx_client_data = Some demo_rx,
     rtss_ota_ctx = \<lparr>base_addr = 8192, sVA = 0, refcount = 1, csize = 64\<rparr>\<rparr>"

theorem mem_deinit_leaves_witness:
  "\<exists>g' w'. rtss_updater_mem_deinit demo_platform (Some \<lparr>mc_sVa = 0, mc_pVa = 8192\<rparr>) demo_held_globals
      demo_held_world = ((EXIT_SUCCESS, g'), w') \<and> wheld w' = {#Heap, Mapping 4096 200, Mapping 4096 200#}"
proof -
  obtain g' w' where run: "rtss_updater_mem_deinit demo_platform (Some \<lparr>mc_sVa = 0, mc_pVa = 8192\<rparr>) demo_held_globals
      demo_held_world = ((EXIT_SUCCESS, g'), w')"
    by (simp add: rtss_updater_mem_deinit_def rtss_mb_close_def demo_held_globals_def sys_def Let_def
        RTSS_MB_RETURN_SUCCESS_def rtss_upd_release_ota_buffer_def release_locked_def demo_tx_def demo_rx_def)
  have "wheld demo_held_world = {#} + {#Heap#} + handle_resources demo_platform demo_tx
      + handle_resources demo_platform demo_rx + live_mapping (rtss_ota_ctx demo_held_globals)"
    by (simp add: demo_held_world_def wheld_def handle_resources_def demo_held_globals_def live_mapping_def
        demo_tx_def demo_rx_def)
  from mem_deinit_leaves [OF _ _ _ _ _ _ _ this run] run show ?thesis
    by (simp add: demo_held_globals_def handle_fds_def demo_tx_def demo_rx_def)
qed

section \<open>Loading a file\<close>

text \<open>C34: Loading a file that can be read as a whole puts its bytes at the destination, fills up the last
  cache line with zeros and returns the padded size, a multiple of the line; everything else is a
  failure. The descriptor is closed on every path. (The size has to fit an \<open>int\<close> with its padding.)\<close>

theorem loadfile_pads:
  assumes "quiet p" "dst \<noteq> NULL" "0 < alignment"
    "n = a_size (answer p (w_now w))" "n + alignment \<le> 2 ^ 31" "d = a_data (answer p (w_now w + 2))"
    "length d = nat (a_ret (answer p (w_now w + 2)))"
    "rtss_updater_loadfile p (Some f) dst alignment w = (r, w')"
  shows "wheld w' = wheld w \<and>
    (if load_succeeds p (w_now w)
     then \<exists>pad < alignment. r = int (n + pad) \<and> alignment dvd n + pad
       \<and> w_mem w' = put_bytes (w_mem w) dst (d @ replicate pad 0)
     else r = -1)"
proof -
  let ?pad = "padding alignment n"
  have held: "wheld w' = wheld w"
    using loadfile_held [of p "Some f" dst alignment w] assms(8) by simp
  have small: "n + ?pad < 2 ^ 31"
    using padding_less [OF assms(3), of n] assms(5) by simp
  show ?thesis
  proof (cases "load_succeeds p (w_now w)")
    case True
    have "r = int (n + ?pad) \<and> w_mem w' = put_bytes (w_mem w) dst (d @ replicate ?pad 0)"
      using loadfile_run [OF assms(1,2) True, of n f alignment] assms(4,6-8) sint_small [OF small] by simp
    then show ?thesis
      using True held padding_less [OF assms(3)] padding_dvd [OF assms(3)] by auto
  next
    case False
    then show ?thesis
      using loadfile_fails [OF assms(2) False, of f alignment] assms(8) held by simp
  qed
qed

definition demo_file :: platform where
  "demo_file = demo_platform\<lparr>answer := (\<lambda>k. \<lparr>a_ret = 3, a_err = 1, a_size = 3, a_addr = 0, a_revents = 0,
     a_mode = 0x1A4, a_data = [7, 8, 9], a_peer = id\<rparr>)\<rparr>"

theorem loadfile_pads_witness:
  "\<exists>w'. rtss_updater_loadfile demo_file (Some (ascii ''/h'')) 8192 4 (demo_world demo_mem) = (4, w')
     \<and> w_mem w' = put_bytes demo_mem 8192 [7, 8, 9, 0]"
proof -
  let ?w = "demo_world demo_mem"
  have p: "quiet demo_file" "load_succeeds demo_file (w_now ?w)"
    by (simp_all add: quiet_def demo_file_def load_succeeds_def demo_world_def)
  obtain r w' where run: "rtss_updater_loadfile demo_file (Some (ascii ''/h'')) 8192 4 ?w = (r, w')"
    by fastforce
  have one: "pad = 1" if "pad < 4" "4 dvd 3 + pad" for pad :: nat
    using that by presburger
  have "\<exists>pad < 4. r = int (3 + pad) \<and> 4 dvd 3 + pad
      \<and> w_mem w' = put_bytes (w_mem ?w) 8192 ([7, 8, 9] @ replicate pad 0)"
    using loadfile_pads [OF p(1) _ _ refl _ refl _ run] p(2) by (simp add: demo_file_def)
  then obtain pad where "pad < 4" "4 dvd 3 + pad" "r = int (3 + pad)"
    "w_mem w' = put_bytes (w_mem ?w) 8192 ([7, 8, 9] @ replicate pad 0)"
    by blast
  then show ?thesis
    using one [of pad] run by (simp add: demo_world_def)
qed

section \<open>Entries of the shared buffer\<close>

definition digest_row :: "u32 \<Rightarrow> u8 list \<Rightarrow> rtss_upd_img_digest_entry_t" where
  "digest_row part s = \<lparr>de_imgName = pad_to 32 s, de_partitionType = part, de_digestType = 0,
     de_digestLen = 128, de_digest = replicate 128 0\<rparr>"

text \<open>The entries written for a digest request are read back as one entry for each image of the list,
  in its order, with the name cut or padded to 32 bytes, the partition asked for and room for the
  longest digest; a list with an empty name is refused.\<close>

theorem digest_context_roundtrip:
  assumes "count_ok c" "pVa \<noteq> NULL" "nat (numberOfImages c) = n" "n \<le> length buf"
  shows "if \<forall>j < n. name_str c j \<noteq> []
    then \<exists>m'. rtss_updater_populate_digest_context (Some c) pVa part m = (EXIT_SUCCESS, m')
      \<and> rtss_updater_read_img_digest_context (Some buf) pVa (of_nat n) m' =
          Returns (EXIT_SUCCESS, Some (map (\<lambda>j. digest_row part (name_str c j)) [0..<n] @ drop n buf))
    else fst (rtss_updater_populate_digest_context (Some c) pVa part m) = EXIT_FAILURE"
proof -
  let ?E = "digest_entry part" and ?D = "\<lambda>j. digest_row part (name_str c j)"
  let ?m = "put_bytes m pVa (concat (map (\<lambda>j. ?E (name_str c j)) [0..<n]))"
  have sz: "unat sizeof_img_digest_entry = 172" by (simp add: sizeof_img_digest_entry_def)
  have n: "n \<le> 5"
    using assms(1,3) by (auto simp: count_ok_def RTSS_UPDATER_CFG_MAX_IMAGES_def)
  have "unat sizeof_img_digest_entry < 2 ^ 16" using sz by simp
  note pop = populate_entries_block [OF _ assms(1) this assms(2), of _ ?E m, unfolded sz assms(3), OF digest_entry_fill]
  have len: "length (?E s) = 172" for s by (simp add: digest_entry_def)
  have all: "length (concat (map (\<lambda>j. ?E (name_str c j)) [0..<n])) = n * 172"
    by (simp add: length_concat comp_def len sum_list_triv)
  have at: "digest_entry_at ?m (pVa + j * 172) = ?D j" if "j < n" for j
  proof -
    have "172 * j + 172 \<le> n * 172" using that by simp
    then have "bytes_at ?m (pVa + j * 172) 172 = ?E (name_str c j)"
      using bytes_at_inside [of "j * 172" 172 "concat (map (\<lambda>j. ?E (name_str c j)) [0..<n])" m pVa]
        concat_entry [where f = "\<lambda>j. ?E (name_str c j)" and sz = 172 and i = 0, OF len that] all by simp
    then show ?thesis
      by (simp add: digest_entry_read digest_row_def)
  qed
  have "read_digest_loop ?m pVa 0 n buf = Returns (EXIT_SUCCESS, map ?D [0..<n] @ drop n buf)"
    using read_digest_loop_read [of n ?m pVa ?D 0 buf] at assms(4) by (simp add: digest_row_def)
  moreover have "nat (min (i32 (of_nat n)) 5) = n"
    using n by (simp add: i32_small unat_of_nat_small)
  ultimately show ?thesis
    using pop assms(2) by (auto simp: rtss_updater_populate_digest_context_def rtss_updater_read_img_digest_context_def
        RTSS_UPDATER_CFG_MAX_IMAGES_def)
qed

theorem digest_context_roundtrip_witness:
  "\<exists>c m' xs. rtss_updater_get_img_info_default (Some imgconfig_zero) = (EXIT_SUCCESS, Some c)
    \<and> rtss_updater_populate_digest_context (Some c) 8192 1 demo_mem = (EXIT_SUCCESS, m')
    \<and> rtss_updater_read_img_digest_context (Some (replicate 5 (digest_row 0 []))) 8192 5 m' =
        Returns (EXIT_SUCCESS, Some (map (digest_row 1) rtss_updater_supported_img_names))"
proof -
  let ?names = rtss_updater_supported_img_names
  obtain c where c: "rtss_updater_get_img_info_default (Some imgconfig_zero) = (EXIT_SUCCESS, Some c)"
    "imageNames c = map (mcpy_member blank_row) ?names" "numberOfImages c = 5"
    by (simp add: rtss_updater_get_img_info_default_def rtss_updater_supported_img_names_def imgconfig_zero_def
        RTSS_UPDATER_CFG_MAX_IMAGES_def)
  have len: "length ?names = 5" by (simp add: rtss_updater_supported_img_names_def)
  have plain: "0 \<notin> set s \<and> length s < 128 \<and> s \<noteq> []" if "s \<in> set ?names" for s
    using that by (auto simp: rtss_updater_supported_img_names_def ascii_def)
  have nm: "name_str c j = ?names ! j" "?names ! j \<noteq> []" if "j < 5" for j
    using that plain [of "?names ! j"] len name_str_row [of c j "?names ! j"] by (simp_all add: c(2))
  have "map (\<lambda>j. digest_row 1 (name_str c j)) [0..<5] = map (digest_row 1) ?names"
    using nm(1) len by (intro nth_equalityI) simp_all
  moreover have "count_ok c" by (simp add: count_ok_def c(3) RTSS_UPDATER_CFG_MAX_IMAGES_def)
  ultimately show ?thesis
    using digest_context_roundtrip [of c 8192 5 "replicate 5 (digest_row 0 [])" 1 demo_mem] nm c(1,3) by simp
qed

end
