(* ===== verification/Updater_Gpt_Claims.thy ===== *)
theory Updater_Gpt_Claims
  imports Updater_Gpt Guidpt_Claims Updater_Init_Claims
begin

text \<open>
  The new partition table of the updater: the header that is fixed is accepted by the check of the
  partition table module, and what the file holds besides is kept.
\<close>

section \<open>The header inside the block\<close>

definition new_header :: "u8 list \<Rightarrow> u8 list" where
  "new_header buf = take sizeof_gpt_header (drop LBA_SIZE buf)"

lemma length_new_header: "LBA_SIZE + sizeof_gpt_header \<le> length buf \<Longrightarrow> length (new_header buf) = 92"
  by (simp add: new_header_def sizeof_gpt_header_def)

lemma new_header_overwrite:
  assumes "LBA_SIZE + sizeof_gpt_header \<le> length buf" "off + length xs \<le> 92"
  shows "new_header (overwrite (LBA_SIZE + off) xs buf) = overwrite off xs (new_header buf)"
  using assms
  by (intro nth_equalityI)
    (simp_all add: length_new_header, auto simp: new_header_def overwrite_nth sizeof_gpt_header_def)

lemma new_header_put32:
  "LBA_SIZE + sizeof_gpt_header \<le> length buf \<Longrightarrow> off + 4 \<le> 92 \<Longrightarrow>
   new_header (put32 (LBA_SIZE + off) v buf) = put32 off v (new_header buf)"
  by (simp add: put32_def new_header_overwrite)

lemma new_header_get32:
  "LBA_SIZE + sizeof_gpt_header \<le> length buf \<Longrightarrow> off + 4 \<le> 92 \<Longrightarrow>
   get32 (LBA_SIZE + off) buf = get32 off (new_header buf)"
  by (simp add: get32_def new_header_def sizeof_gpt_header_def add.assoc)

lemma new_header_take: "n \<le> 92 \<Longrightarrow> take n (drop LBA_SIZE buf) = take n (new_header buf)"
  by (simp add: new_header_def sizeof_gpt_header_def min_def)

text \<open>The members that are taken from the old header, with a zero checksum.\<close>

definition fixed_members :: "u8 list \<Rightarrow> u8 list \<Rightarrow> u8 list" where
  "fixed_members old hdr = put32 16 0 (overwrite 48 (hdr_member Last_usable_lba old)
     (overwrite 32 (hdr_member Alternate_lba old) hdr))"

definition sealed :: "u8 list \<Rightarrow> u8 list" where
  "sealed hdr = put32 16 (rtss_gpt_calc_crc32 (Some (take (unat (hdr32 Header_size hdr)) hdr)) 0) hdr"

lemma length_hdr_member: "length old = 92 \<Longrightarrow> length (hdr_member Alternate_lba old) = 8"
  "length old = 92 \<Longrightarrow> length (hdr_member Last_usable_lba old) = 8"
  by (simp_all add: hdr_member_def)

lemma fixed_members_size: "length old = 92 \<Longrightarrow> length hdr = 92 \<Longrightarrow>
  length (fixed_members old hdr) = 92 \<and> hdr32 Header_size (fixed_members old hdr) = hdr32 Header_size hdr"
  by (simp add: fixed_members_def length_hdr_member hdr32_def get32_put32_other get32_overwrite_other)

lemma sealed_verifies:
  assumes "length old = 92" "length hdr = 92" "unat (hdr32 Header_size hdr) \<le> 92"
  shows "rtss_gpt_verify_header_crc32 (sealed (fixed_members old hdr)) 0 = (True, sealed (fixed_members old hdr))"
proof -
  let ?f = "fixed_members old hdr"
  have f: "length ?f = 92" "hdr32 Header_size ?f = hdr32 Header_size hdr"
    using fixed_members_size [OF assms(1,2)] by simp_all
  have z: "put32 16 0 ?f = ?f"
    using assms(1,2) by (simp add: fixed_members_def put32_put32_same length_hdr_member)
  have "put32 16 0 (sealed ?f) = ?f"
    using f(1) by (simp add: sealed_def put32_put32_same z)
  moreover have "hdr32 Header_size (sealed ?f) = hdr32 Header_size hdr"
    using f by (simp add: sealed_def hdr32_def get32_put32_other)
  moreover have "hdr32 Header_crc32 (sealed ?f) = rtss_gpt_calc_crc32 (Some (take (unat (hdr32 Header_size ?f)) ?f)) 0"
    using f(1) by (simp add: sealed_def hdr32_def get32_put32_same)
  ultimately show ?thesis
    using assms(3) f by (simp add: rtss_gpt_verify_header_crc32_def Let_def sizeof_gpt_header_def)
      (simp add: sealed_def)
qed

text \<open>What the fixing of the header does to the whole block.\<close>

definition header_byte :: "nat \<Rightarrow> bool" where
  "header_byte i \<longleftrightarrow> i \<in> {LBA_SIZE + 16..<LBA_SIZE + 20} \<union> {LBA_SIZE + 32..<LBA_SIZE + 40} \<union> {LBA_SIZE + 48..<LBA_SIZE + 56}"

lemma fix_gpt_header_result:
  assumes "length old = 92" "LBA_SIZE + sizeof_gpt_header \<le> length buf"
    "unat (hdr32 Header_size (new_header buf)) \<le> 92"
  obtains buf' where "fix_gpt_header old buf = Returns buf'" "length buf' = length buf"
    "new_header buf' = sealed (fixed_members old (new_header buf))"
    "\<And>i. i < length buf \<Longrightarrow> \<not> header_byte i \<Longrightarrow> buf' ! i = buf ! i"
proof -
  let ?a = "hdr_member Alternate_lba old" and ?l = "hdr_member Last_usable_lba old"
  define b1 where "b1 = overwrite (LBA_SIZE + 32) ?a buf"
  define b2 where "b2 = overwrite (LBA_SIZE + 48) ?l b1"
  define b3 where "b3 = put32 (LBA_SIZE + 16) 0 b2"
  define n where "n = unat (get32 (LBA_SIZE + 12) b3)"
  define b4 where "b4 = put32 (LBA_SIZE + 16) (rtss_gpt_calc_crc32 (Some (take n (drop LBA_SIZE b3))) 0) b3"
  note mem = length_hdr_member [OF assms(1)]
  have room: "LBA_SIZE + 92 \<le> length buf"
    using assms(2) by (simp add: sizeof_gpt_header_def)
  have len: "length b1 = length buf" "length b2 = length buf" "length b3 = length buf" "length b4 = length buf"
    using room mem by (simp_all add: b1_def b2_def b3_def b4_def)
  have h1: "new_header b1 = overwrite 32 ?a (new_header buf)"
    using assms(2) mem by (simp add: b1_def new_header_overwrite)
  have h2: "new_header b2 = overwrite 48 ?l (new_header b1)"
    using assms(2) mem len by (simp add: b2_def new_header_overwrite)
  have h3: "new_header b3 = fixed_members old (new_header buf)"
    using assms(2) len h1 h2 by (simp add: b3_def new_header_put32 fixed_members_def)
  have "get32 (LBA_SIZE + 12) b3 = hdr32 Header_size (new_header buf)"
    using assms(2) len h3 fixed_members_size [OF assms(1) length_new_header [OF assms(2)]]
    by (simp add: new_header_get32 hdr32_def)
  then have n: "n = unat (hdr32 Header_size (new_header b3))" "n \<le> 92"
    using assms(3) h3 fixed_members_size [OF assms(1) length_new_header [OF assms(2)]] by (simp_all add: n_def)
  have h4: "new_header b4 = sealed (new_header b3)"
    using assms(2) len n by (simp add: b4_def new_header_put32 sealed_def new_header_take)
  have "fix_gpt_header old buf = Returns b4"
    using assms(2) n(2) len room by (simp add: fix_gpt_header_def Let_def RTSS_GPT_CRC32_SEED_DEFAULT_def b1_def [symmetric]
        b2_def [symmetric] b3_def [symmetric] n_def [symmetric] b4_def [symmetric])
  moreover have "b4 ! i = buf ! i" if "i < length buf" "\<not> header_byte i" for i
    using that room mem len
    by (auto simp: b4_def b3_def b2_def b1_def put32_def overwrite_nth header_byte_def)
  ultimately show ?thesis
    using that len(4) h3 h4 by simp
qed

lemma slice_overwrite:
  "off + length xs \<le> length bs \<Longrightarrow> o' + k \<le> off \<or> off + length xs \<le> o' \<Longrightarrow> o' + k \<le> length bs \<Longrightarrow>
   take k (drop o' (overwrite off xs bs)) = take k (drop o' bs)"
  "off + length xs \<le> length bs \<Longrightarrow> k = length xs \<Longrightarrow> take k (drop off (overwrite off xs bs)) = xs"
  by (rule nth_equalityI; auto simp: overwrite_nth)+

lemma sealed_members:
  assumes "length old = 92" "length hdr = 92"
  shows "hdr_member Alternate_lba (sealed (fixed_members old hdr)) = hdr_member Alternate_lba old"
    "hdr_member Last_usable_lba (sealed (fixed_members old hdr)) = hdr_member Last_usable_lba old"
  using assms fixed_members_size [OF assms] length_hdr_member [OF assms(1)]
  by (subst hdr_member_def, simp add: sealed_def fixed_members_def put32_def slice_overwrite)+

section \<open>Reading the file\<close>

declare fread_loop.simps [simp del]

lemma cache_aligned_ge: "n \<le> cache_aligned n"
  by (simp add: cache_aligned_def Let_def)

lemma fread_once:
  "a_ret (answer p (w_now w)) = int n \<Longrightarrow> length file = n \<Longrightarrow> 0 < n \<Longrightarrow> n \<le> length buf \<Longrightarrow>
   fread_loop p n file 0 buf w = Returns (Some (overwrite 0 file buf), snd (sys p (Sys_fread n) w))"
  by (simp add: fread_loop.simps [of p n] sys_def Let_def)

text \<open>After a short read the loop asks for the whole size again, so it ends only at the end of the file,
  with a failure.\<close>

lemma fread_short:
  "numBytes + length rest \<le> buf_size \<Longrightarrow> length rest < buf_size \<Longrightarrow> buf_size \<le> length buf \<Longrightarrow>
   \<exists>w'. fread_loop p buf_size rest numBytes buf w = Returns (None, snd (sys p Sys_free w')) \<and> wheld w' = wheld w"
proof (induction p buf_size rest numBytes buf w rule: fread_loop.induct)
  case (1 p buf_size rest numBytes buf w)
  obtain a w1 where sys: "sys p (Sys_fread buf_size) w = (a, w1)" by fastforce
  define n where "n = min (nat (a_ret a)) (min buf_size (length rest))"
  have h: "wheld w1 = wheld w"
    using wheld_snd_sys [of p "Sys_fread buf_size" w] by (simp add: sys)
  note step = fread_loop.simps [of p buf_size rest numBytes buf w, unfolded sys prod.case n_def [symmetric] Let_def]
  show ?case
  proof (cases "n = 0")
    case True
    then show ?thesis
      using h step by auto
  next
    case False
    have n: "n \<le> length rest" "n < buf_size" "numBytes + n \<le> length buf"
      using "1.prems" by (simp_all add: n_def)
    have "\<exists>w'. fread_loop p buf_size (drop n rest) n (overwrite numBytes (take n rest) buf) w1
        = Returns (None, snd (sys p Sys_free w')) \<and> wheld w' = wheld w1"
      using False n "1.prems" by (intro "1.IH" [OF sys [symmetric] n_def]) simp_all
    then show ?thesis
      using False n step h by simp
  qed
qed

lemma fread_short_first:
  assumes "length file \<le> n" "a_ret (answer p (w_now w)) < int n" "n \<le> length buf"
  shows "\<exists>w'. fread_loop p n file 0 buf w = Returns (None, snd (sys p Sys_free w')) \<and> wheld w' = wheld w"
proof (cases "length file < n")
  case True
  then show ?thesis using fread_short [of 0 "file"] assms(3) by simp
next
  case False
  obtain a w1 where sys: "sys p (Sys_fread n) w = (a, w1)" by fastforce
  have a: "a_ret a < int n"
    using assms(2) sys_answer [OF sys] by simp
  have h: "wheld w1 = wheld w"
    using wheld_snd_sys [of p "Sys_fread n" w] by (simp add: sys)
  define k where "k = min (nat (a_ret a)) (min n (length file))"
  have k: "k < n" if "0 < k"
    using a that False assms(1) by (simp add: k_def)
  note step = fread_loop.simps [of p n "file" 0 buf w, unfolded sys prod.case k_def [symmetric] Let_def]
  show ?thesis
  proof (cases "k = 0")
    case True
    then show ?thesis using h step by auto
  next
    case nz: False
    have "\<exists>w'. fread_loop p n (drop k file) k (overwrite 0 (take k file) buf) w1
        = Returns (None, snd (sys p Sys_free w')) \<and> wheld w' = wheld w1"
      using nz k assms False by (intro fread_short) simp_all
    then show ?thesis
      using nz k step h assms by simp
  qed
qed

text \<open>The answers up to the first read: the file is there, opened, has the size \<open>n\<close> and a block is
  allocated.\<close>

definition table_file :: "platform \<Rightarrow> world \<Rightarrow> nat \<Rightarrow> u8 list \<Rightarrow> bool" where
  "table_file p w n file \<longleftrightarrow> a_ret (answer p (w_now w)) = 0 \<and> a_ret (answer p (w_now w + 1)) \<noteq> 0
     \<and> a_data (answer p (w_now w + 1)) = file \<and> a_ret (answer p (w_now w + 2)) = int n
     \<and> a_err (answer p (w_now w + 2)) = 0 \<and> a_ret (answer p (w_now w + 3)) \<noteq> 0"

definition block_world :: "platform \<Rightarrow> u8 list \<Rightarrow> world \<Rightarrow> world" where
  "block_world p f w = snd (sys p Sys_calloc (snd (sys p Sys_ftell (snd (sys p (Sys_fopen f) (snd (sys p (Sys_access f) w)))))))"

lemma modifygpt_block:
  assumes "table_file p w n file"
  shows "rtss_updater_modifygpt p (Some f) (Some old) w =
    (case fread_loop p n file 0 (replicate (cache_aligned n) 0) (block_world p f w) of
       Faults \<Rightarrow> Faults | Blocks \<Rightarrow> Blocks
     | Returns (None, w) \<Rightarrow> Returns ((None, Some n), snd (sys p Sys_fclose w))
     | Returns (Some buf, w) \<Rightarrow> (case fix_gpt_header old buf of Faults \<Rightarrow> Faults | Blocks \<Rightarrow> Blocks
         | Returns buf \<Rightarrow> Returns ((Some buf, Some n), snd (sys p Sys_fclose w))))"
    "wheld (block_world p f w) = wheld w + {#Heap, Stream#}" "w_now (block_world p f w) = w_now w + 4"
  using assms
  by (simp_all add: rtss_updater_modifygpt_def table_file_def sys_def Let_def block_world_def wheld_def
      numeral_3_eq_3 split: run.split option.split prod.split)

text \<open>C25: A table that is read from a file in one piece is returned in a block of whole cache lines. Its
  header is accepted by the check of the partition table module and has the alternate and the
  last usable block of the present table; everything else is what the file holds. Only the block
  stays allocated.\<close>

theorem modifygpt_fixes_header:
  assumes "table_file p w n file" "a_ret (answer p (w_now w + 4)) = int n" "length file = n"
    "length old = 92" "LBA_SIZE + 92 \<le> n" "unat (hdr32 Header_size (new_header file)) \<le> 92"
  shows "\<exists>buf w'. rtss_updater_modifygpt p (Some f) (Some old) w = Returns ((Some buf, Some n), w')
    \<and> length buf = cache_aligned n \<and> wheld w' = wheld w + {#Heap#}
    \<and> rtss_gpt_verify_header_crc32 (new_header buf) RTSS_GPT_CRC32_SEED_DEFAULT = (True, new_header buf)
    \<and> hdr_member Alternate_lba (new_header buf) = hdr_member Alternate_lba old
    \<and> hdr_member Last_usable_lba (new_header buf) = hdr_member Last_usable_lba old
    \<and> (\<forall>i < n. \<not> header_byte i \<longrightarrow> buf ! i = file ! i)"
proof -
  let ?zero = "replicate (cache_aligned n) 0" and ?w = "block_world p f w"
  let ?buf0 = "overwrite 0 file ?zero"
  have len0: "length ?buf0 = cache_aligned n" and same: "\<forall>i < n. ?buf0 ! i = file ! i"
    using assms(3) cache_aligned_ge [of n] by (simp_all add: overwrite_nth)
  have room: "LBA_SIZE + sizeof_gpt_header \<le> length ?buf0"
    using assms(5) cache_aligned_ge [of n] len0 by (simp add: sizeof_gpt_header_def)
  have hdr: "new_header ?buf0 = new_header file"
    using same assms(3,5) len0 room by (intro nth_equalityI) (simp_all add: new_header_def sizeof_gpt_header_def)
  have size: "length (new_header file) = 92"
    using assms(3,5) by (simp add: length_new_header sizeof_gpt_header_def)
  have loop: "fread_loop p n file 0 ?zero ?w = Returns (Some ?buf0, snd (sys p (Sys_fread n) ?w))"
    using assms(2,3,5) cache_aligned_ge [of n] modifygpt_block(3) [OF assms(1), of f]
    by (intro fread_once) simp_all
  obtain buf where fx: "fix_gpt_header old ?buf0 = Returns buf" "length buf = length ?buf0"
      "new_header buf = sealed (fixed_members old (new_header ?buf0))"
      "\<And>i. i < length ?buf0 \<Longrightarrow> \<not> header_byte i \<Longrightarrow> buf ! i = ?buf0 ! i"
    using fix_gpt_header_result [OF assms(4) room] assms(6) hdr by metis
  have "rtss_updater_modifygpt p (Some f) (Some old) w =
      Returns ((Some buf, Some n), snd (sys p Sys_fclose (snd (sys p (Sys_fread n) ?w))))"
    using modifygpt_block(1) [OF assms(1), of f old] loop fx(1) by simp
  moreover have "wheld (snd (sys p Sys_fclose (snd (sys p (Sys_fread n) ?w)))) = wheld w + {#Heap#}"
    using modifygpt_block(2) [OF assms(1), of f] by (simp add: wheld_snd_sys)
  moreover have "buf ! i = file ! i" if "i < n" "\<not> header_byte i" for i
    using fx(4) [of i] that same len0 cache_aligned_ge [of n] by simp
  ultimately show ?thesis
    using fx(2,3) len0 hdr sealed_verifies [OF assms(4) size assms(6)] sealed_members [OF assms(4) size]
    by (simp add: RTSS_GPT_CRC32_SEED_DEFAULT_def)
qed

definition demo_gpt_file :: "u8 list" where
  "demo_gpt_file = replicate LBA_SIZE 0 @ demo_header @ replicate 36 7"

definition demo_gpt_platform :: "nat \<Rightarrow> platform" where
  "demo_gpt_platform got = demo_platform\<lparr>answer := (\<lambda>k. \<lparr>a_ret = (if k = 0 then 0 else if k < 4 then int (LBA_SIZE + 128) else int got),
     a_err = 0, a_size = 0, a_addr = 0, a_revents = 0, a_mode = 0, a_data = demo_gpt_file, a_peer = id\<rparr>)\<rparr>"

lemma demo_gpt_file: "table_file (demo_gpt_platform k) (demo_world demo_mem) (LBA_SIZE + 128) demo_gpt_file"
  "length demo_gpt_file = LBA_SIZE + 128" "new_header demo_gpt_file = demo_header"
proof -
  have "length demo_header = 92"
    by (simp add: demo_header_def)
  then show "length demo_gpt_file = LBA_SIZE + 128" "new_header demo_gpt_file = demo_header"
    by (simp_all add: demo_gpt_file_def new_header_def sizeof_gpt_header_def)
qed (simp add: table_file_def demo_gpt_platform_def demo_world_def LBA_SIZE_def)

theorem modifygpt_fixes_header_witness:
  "\<exists>buf w'. rtss_updater_modifygpt (demo_gpt_platform (LBA_SIZE + 128)) (Some []) (Some (replicate 92 1)) (demo_world demo_mem)
     = Returns ((Some buf, Some (LBA_SIZE + 128)), w')
    \<and> rtss_gpt_verify_header_crc32 (new_header buf) RTSS_GPT_CRC32_SEED_DEFAULT = (True, new_header buf)
    \<and> hdr_member Alternate_lba (new_header buf) = replicate 8 1"
  using modifygpt_fixes_header [OF demo_gpt_file(1) _ demo_gpt_file(2), of "LBA_SIZE + 128" "replicate 92 1" "[]"]
  by (auto simp: demo_gpt_file(3) demo_gpt_platform_def demo_world_def hdr_member_def demo_header_values)

text \<open>A file that is read in more than one piece is never accepted: after a short read the loop
  starts at the wrong place and ends only at the end of the file, as a failure. Nothing is leaked.\<close>

theorem modifygpt_short_read_fails:
  assumes "table_file p w n file" "length file \<le> n" "a_ret (answer p (w_now w + 4)) < int n"
  shows "\<exists>w'. rtss_updater_modifygpt p (Some f) (Some old) w = Returns ((None, Some n), w') \<and> wheld w' = wheld w"
proof -
  have "a_ret (answer p (w_now (block_world p f w))) < int n"
    using assms(3) modifygpt_block(3) [OF assms(1), of f] by simp
  from fread_short_first [OF assms(2) this, of "replicate (cache_aligned n) 0"]
  obtain w' where w': "fread_loop p n file 0 (replicate (cache_aligned n) 0) (block_world p f w) = Returns (None, snd (sys p Sys_free w'))"
      "wheld w' = wheld w + {#Heap, Stream#}"
    using cache_aligned_ge [of n] modifygpt_block(2) [OF assms(1), of f] by auto
  then have "rtss_updater_modifygpt p (Some f) (Some old) w =
      Returns ((None, Some n), snd (sys p Sys_fclose (snd (sys p Sys_free w'))))"
    using modifygpt_block(1) [OF assms(1), of f old] by simp
  moreover have "wheld (snd (sys p Sys_fclose (snd (sys p Sys_free w')))) = wheld w"
    using w'(2) by (simp add: wheld_snd_sys)
  ultimately show ?thesis by blast
qed

theorem modifygpt_short_read_fails_witness:
  "\<exists>w'. rtss_updater_modifygpt (demo_gpt_platform 4096) (Some []) (Some (replicate 92 1)) (demo_world demo_mem)
     = Returns ((None, Some (LBA_SIZE + 128)), w')"
  using modifygpt_short_read_fails [OF demo_gpt_file(1), of 4096 "[]" "replicate 92 1"]
  by (auto simp: demo_gpt_file(2) demo_gpt_platform_def demo_world_def LBA_SIZE_def)

section \<open>Writing the table\<close>

lemma cache_aligned_word:
  fixes n :: u32
  defines "c \<equiv> rtss_upd_get_cache_line_sz"
  shows "n mod c \<noteq> 0 \<Longrightarrow> unat n + unat (c - n mod c) = cache_aligned (unat n)"
    and "n mod c = 0 \<Longrightarrow> unat n = cache_aligned (unat n)"
proof -
  have c: "unat c = 64" by (simp add: c_def rtss_upd_get_cache_line_sz_def RTSS_UPD_CACHE_LSZ_def)
  have m: "unat (n mod c) = unat n mod 64" by (simp add: unat_mod c)
  then have z: "n mod c = 0 \<longleftrightarrow> unat n mod 64 = 0" by (simp flip: unat_eq_zero)
  have d: "unat (c - n mod c) = 64 - unat n mod 64"
    using m c by (simp add: unat_sub_le word_le_nat_alt)
  show "n mod c \<noteq> 0 \<Longrightarrow> unat n + unat (c - n mod c) = cache_aligned (unat n)"
    and "n mod c = 0 \<Longrightarrow> unat n = cache_aligned (unat n)"
    using z d by (simp_all add: cache_aligned_def c_def [symmetric] c)
qed

text \<open>The place of the entries in the block.\<close>

definition new_entries :: "u8 list \<Rightarrow> u8 list" where
  "new_entries buf = take (unat (gpt_entries_bytes (new_header buf))) (drop (2 * LBA_SIZE) buf)"

text \<open>C26: A table whose length passes the check is written with its header and its entries next to each
  other at the start of the shared buffer, and the message announces the aligned length and the
  checksum of as many bytes of that buffer. The check counts the entries from the start of the
  block, where the header is not: a block that ends before its entries passes, and is read
  past its end.\<close>

theorem writegpt_result:
  assumes "pVa \<noteq> NULL" "length buf = cache_aligned (unat bufLen)" "cache_aligned (unat bufLen) < 2 ^ 32"
    "LBA_SIZE + sizeof_gpt_header \<le> length buf" "writegpt_len_ok (new_header buf) bufLen"
    "gpt_entries_bytes (new_header buf) \<noteq> 0"
  shows "if 2 * LBA_SIZE + unat (gpt_entries_bytes (new_header buf)) \<le> length buf
    then \<exists>m buf' r w'. m = put_bytes (w_mem w) pVa (new_header buf @ new_entries buf)
      \<and> rtss_updater_writegpt p e gpt_id (Some buf) sVa bufLen 0 pVa w = Returns ((r, Some buf'), w')
      \<and> seal_and_send p e (new_msg RTSS_UPD_MSG_WRITE_GPT (rtss_upd_write_gpt_msg_t (ucast gpt_id) sVa
          (of_nat (length buf)) (crc32 (bytes_at m pVa (length buf))))) (w\<lparr>w_mem := m\<rparr>) = (r, w')
    else rtss_updater_writegpt p e gpt_id (Some buf) sVa bufLen 0 pVa w = Faults"
proof -
  define c where "c = rtss_upd_get_cache_line_sz"
  define aligned where "aligned = (if bufLen mod c \<noteq> 0 then bufLen + (c - bufLen mod c) else bufLen)"
  note word = cache_aligned_word [of bufLen, folded c_def]
  have al: "unat aligned = length buf"
    using word assms(2,3) unat_add_small [of bufLen "c - bufLen mod c"] by (auto simp: aligned_def)
  have len: "aligned = of_nat (length buf)"
    by (simp flip: al)
  have nz: "aligned \<noteq> 0"
    using al assms(4) by (auto simp: sizeof_gpt_header_def)
  have room: "\<not> (bufLen mod c \<noteq> 0 \<and> unat bufLen + unat (c - bufLen mod c) > length buf)"
    using word(1) assms(2) by auto
  have ne: "unat (gpt_entries_bytes (new_header buf)) \<noteq> 0"
    using assms(6) by (simp add: unat_eq_zero)
  let ?m = "put_bytes (w_mem w) pVa (new_header buf @ new_entries buf)"
  have put: "put_bytes (put_bytes (w_mem w) pVa (new_header buf)) (pVa + sizeof_gpt_header) (new_entries buf) = ?m"
    using put_bytes_append [of "w_mem w" pVa "new_header buf"] length_new_header [OF assms(4)]
    by (simp add: sizeof_gpt_header_def)
  have crc: "chosen_crc ?m pVa aligned 0 = Some (crc32 (bytes_at ?m pVa (length buf)))"
    using assms(1) nz al by (simp add: chosen_crc_eq)
  let ?send = "seal_and_send p e (new_msg RTSS_UPD_MSG_WRITE_GPT (rtss_upd_write_gpt_msg_t (ucast gpt_id) sVa aligned
      (crc32 (bytes_at ?m pVa (length buf))))) (w\<lparr>w_mem := ?m\<rparr>)"
  show ?thesis
  proof (cases "2 * LBA_SIZE + unat (gpt_entries_bytes (new_header buf)) \<le> length buf")
    case True
    have "\<exists>buf'. rtss_updater_writegpt p e gpt_id (Some buf) sVa bufLen 0 pVa w = Returns ((fst ?send, Some buf'), snd ?send)"
      using assms(1,4,5) ne room True crc
      by (simp add: rtss_updater_writegpt_def Let_def new_header_def [symmetric] new_entries_def [symmetric] put
          c_def [symmetric] aligned_def [symmetric] split: prod.split)
    then show ?thesis
      using True len by (auto simp: prod_eq_iff)
  next
    case False
    then show ?thesis
      using assms(1,4,5) ne by (simp add: rtss_updater_writegpt_def Let_def new_header_def [symmetric])
  qed
qed

definition demo_table_block :: "u8 list" where
  "demo_table_block = replicate LBA_SIZE 0 @ demo_header @ replicate (LBA_SIZE - 92) 0 @ replicate 128 7"

lemma demo_table_block: "length demo_table_block = 2 * LBA_SIZE + 128" "new_header demo_table_block = demo_header"
proof -
  have "length demo_header = 92"
    by (simp add: demo_header_def)
  then show "length demo_table_block = 2 * LBA_SIZE + 128" "new_header demo_table_block = demo_header"
    by (simp_all add: demo_table_block_def new_header_def sizeof_gpt_header_def LBA_SIZE_def)
qed

lemma demo_header_entries: "gpt_entries_bytes demo_header = 128" "writegpt_len_ok demo_header 4224"
    "writegpt_len_ok demo_header 8320"
  by (simp_all add: gpt_entries_bytes_def writegpt_len_ok_def demo_header_values)

lemma demo_block_lengths: "cache_aligned 4224 = 4224" "cache_aligned 8320 = 8320" "LBA_SIZE = 4096"
  by (simp_all add: cache_aligned_def rtss_upd_get_cache_line_sz_def RTSS_UPD_CACHE_LSZ_def LBA_SIZE_def)

theorem writegpt_result_witness:
  "(\<exists>r buf' w'. rtss_updater_writegpt demo_platform demo_env 0 (Some demo_table_block) 0 8320 0 8192 (demo_world demo_mem)
      = Returns ((r, Some buf'), w'))
   \<and> rtss_updater_writegpt demo_platform demo_env 0 (Some demo_gpt_file) 0 4224 0 8192 (demo_world demo_mem) = Faults"
  using writegpt_result [of 8192 demo_table_block 8320 "demo_world demo_mem" demo_platform demo_env 0 0]
    writegpt_result [of 8192 demo_gpt_file 4224 "demo_world demo_mem" demo_platform demo_env 0 0]
  by (auto simp: demo_table_block demo_gpt_file(2,3) demo_header_entries demo_block_lengths sizeof_gpt_header_def)

end
