(* ===== verification/Updater_Timer_Props.thy ===== *)
theory Updater_Timer_Props
  imports Updater_Steps
begin

text \<open>
  What the sequences leave alone, and where they can access memory outside an array: \<open>sound Q r\<close>
  says that a run does not fault and ends in \<open>Q\<close> if it succeeds. The measurement is sound as long as
  the images counted fit into the array of timers.
\<close>

section \<open>What is left alone\<close>

interpretation constants: counting_relation "\<lambda>st st'. u_memhandle st' = u_memhandle st
    \<and> kpiEnable (u_args st') = kpiEnable (u_args st)
    \<and> updateMRC_endTime (postboot_timer (u_timers st')) = updateMRC_endTime (postboot_timer (u_timers st))
    \<and> updateMRC_startTime (postboot_timer (u_timers st')) = updateMRC_startTime (postboot_timer (u_timers st))"
  by unfold_locales (auto simp: use_images_def times_only_def)

interpretation counts: updater_relation "\<lambda>st st'. timed_images (u_timers st') = timed_images (u_timers st)"
  by unfold_locales (auto simp: use_images_def)

section \<open>Sound runs\<close>

definition sound :: "(updater \<Rightarrow> bool) \<Rightarrow> (u32 \<times> updater) run \<Rightarrow> bool" where
  "sound Q res \<longleftrightarrow> (case res of Blocks \<Rightarrow> True | Faults \<Rightarrow> False | Returns (r, st) \<Rightarrow> r = EXIT_SUCCESS \<longrightarrow> Q st)"

lemma sound_simps [simp]:
  "sound Q Blocks" "\<not> sound Q Faults" "sound Q (Returns (r, st)) \<longleftrightarrow> (r = EXIT_SUCCESS \<longrightarrow> Q st)"
  by (simp_all add: sound_def)

lemma sound_after: "sound Q res \<Longrightarrow> (\<And>st. Q st \<Longrightarrow> sound Q' (k st)) \<Longrightarrow> sound Q' (after res k)"
  by (cases res) (auto simp: after_def EXIT_SUCCESS_def EXIT_FAILURE_def)

lemma sound_no_fault: "sound Q res \<Longrightarrow> res \<noteq> Faults"
  by auto

lemma sound_yields: "sound P res \<Longrightarrow> yields Q E res \<Longrightarrow> sound Q res"
  by (auto simp: sound_def yields_def split: run.splits if_splits)

lemma sound_mono: "sound P res \<Longrightarrow> (\<And>st. P st \<Longrightarrow> Q st) \<Longrightarrow> sound Q res"
  by (auto simp: sound_def split: run.splits)

text \<open>A run up to \<open>res\<close> that cannot fault, and what follows it.\<close>

lemma after_faults:
  "res \<noteq> Faults \<Longrightarrow> after res k = Faults \<longleftrightarrow> (\<exists>s. res = Returns (EXIT_SUCCESS, s) \<and> k s = Faults)"
  by (auto simp: after_def split: run.splits)

lemma after_same: "(\<And>s. res = Returns (EXIT_SUCCESS, s) \<Longrightarrow> k s = k' s) \<Longrightarrow> after res k = after res k'"
  by (auto simp: after_def split: run.splits)

lemma after_assoc: "after (after res f) g = after res (\<lambda>s. after (f s) g)"
  by (auto simp: after_def EXIT_SUCCESS_def EXIT_FAILURE_def split: run.splits prod.splits)

lemma exchange_sound [simp]: "sound (\<lambda>_. True) (exchange p q st)"
  by (auto simp: exchange_def after_def await_response_def rtss_updater_cbk_notify_handler_def Let_def
      split: prod.splits option.splits)

lemma on_mem_sound [simp]: "sound (\<lambda>_. True) (on_mem f st)"
  by (simp add: on_mem_def split: prod.splits)

definition harmless :: "(request \<Rightarrow> steps) \<Rightarrow> bool" where
  "harmless f \<longleftrightarrow> (\<forall>q st. sound (\<lambda>_. True) (f q st))"

lemma harmless_exchange [simp]: "harmless (exchange p)"
  by (simp add: harmless_def)

lemma harmless_timed [simp]: "harmless (timed p a b)"
  unfolding harmless_def timed_def by (intro allI sound_after [OF exchange_sound]) simp

lemma timed_sound [simp]: "sound (\<lambda>_. True) (timed p a b q st)"
  using harmless_timed by (simp add: harmless_def)

lemma metadata_sound: "harmless f \<Longrightarrow> harmless g \<Longrightarrow> sound (\<lambda>_. True) (metadata_steps f g st)"
  by (auto simp: metadata_steps_def harmless_def Let_def intro!: sound_after [where Q = "\<lambda>_. True"])

lemma boot_info_request_sound: "harmless f \<Longrightarrow> sound (\<lambda>_. True) (boot_info_request f st)"
  by (auto simp: boot_info_request_def harmless_def Let_def intro!: sound_after [where Q = "\<lambda>_. True"])

lemma preboot_check_sound: "sound (\<lambda>_. True) (preboot_check_steps p st)"
  unfolding preboot_check_steps_def by (intro sound_after [OF timed_sound] metadata_sound harmless_timed)

lemma update_gpt_sound: "sound (\<lambda>_. True) (update_gpt_steps p st)"
  unfolding update_gpt_steps_def Let_def by (intro sound_after [OF on_mem_sound] timed_sound)

lemma postboot_fix_sound: "sound (\<lambda>_. True) (postboot_fix_steps p st)"
  unfolding postboot_fix_steps_def Let_def by (intro sound_after [OF timed_sound] timed_sound)

lemma postboot_metadata_sound: "sound (\<lambda>_. True) (postboot_metadata_steps p st)"
  unfolding postboot_metadata_steps_def Let_def by (intro sound_after [OF timed_sound] timed_sound)

section \<open>Images and their timers\<close>

text \<open>At most \<open>c\<close> images have been counted.\<close>

definition counted :: "nat \<Rightarrow> updater \<Rightarrow> bool" where
  "counted c st \<longleftrightarrow> updater_shape st \<and> unat (count_timer (u_timers st)) \<le> c"

lemma countedD: "counted c st \<Longrightarrow> updater_shape st" "counted c st \<Longrightarrow> length (flashImagetime (u_timers st)) = 6"
  "counted c st \<Longrightarrow> unat (count_timer (u_timers st)) \<le> c"
  by (simp_all add: counted_def updater_shape_def KPI_MAX_IMAGES_def)

lemma counted_kept:
  assumes "counted c st" "sound (\<lambda>_. True) res"
    "yields (\<lambda>s. updater_shape st \<longrightarrow> updater_shape s) E res"
    "yields (\<lambda>s. timed_images (u_timers s) = timed_images (u_timers st)) E' res"
  shows "sound (counted c) res"
  using sound_yields [OF assms(2) yields_conj [OF assms(3,4)]] assms(1)
  by (elim sound_mono) (simp add: counted_def timed_images_def)

lemma timed_counted: "counted c st \<Longrightarrow> recording a \<Longrightarrow> recording b \<Longrightarrow> sound (counted c) (timed p a b q st)"
  by (rule counted_kept [OF _ timed_sound shape.timed_kept [OF shape.refl] counts.timed_kept [OF counts.refl]])

lemma exchange_counted: "counted c st \<Longrightarrow> sound (counted c) (exchange p q st)"
  by (rule counted_kept [OF _ exchange_sound shape.exchange_kept [OF shape.refl] counts.exchange_kept [OF counts.refl]])

lemma counted_timers:
  "counted c st \<Longrightarrow> length (flashImagetime k) = length (flashImagetime (u_timers st)) \<Longrightarrow> unat (count_timer k) \<le> d \<Longrightarrow>
   counted d (st\<lparr>u_timers := k\<rparr>)"
  by (simp add: counted_def updater_shape_def images_def)

lemma store_counted:
  assumes "counted c st" "c < 6"
  shows "sound (counted c) (store_image img len st)"
  using countedD(2,3) [OF assms(1)] assms counted_timers [OF assms(1)]
  by (simp add: store_image_def Let_def)

lemma next_counted:
  assumes "counted c st"
  shows "counted (Suc c) (next_image st)"
proof -
  have "unat (count_timer (u_timers st) + 1) \<le> Suc (unat (count_timer (u_timers st)))"
    by (simp add: unat_word_ariths)
  also have "\<dots> \<le> Suc c"
    using countedD(3) [OF assms] by simp
  finally show ?thesis
    using assms counted_timers [OF assms] by (auto simp: next_image_def counted_def)
qed

lemma timed_flash_counted:
  assumes "counted c st" "c < 6"
  shows "sound (counted (Suc c)) (timed_flash p img len q st)"
  unfolding timed_flash_def
  by (rule sound_after [OF store_counted [OF assms]], rule sound_after [OF timed_counted], assumption)
    (simp_all add: next_counted)

lemma flash_file_counted:
  assumes "counted c st" "c < 6"
  shows "sound (counted (Suc c)) (flash_file p (timed_flash p) img path part flashtype rs st)"
proof -
  have "counted c (st\<lparr>u_world := w, u_log := l\<rparr>)" for w l
    using assms(1) by (simp add: counted_def updater_shape_def images_def)
  then show ?thesis
    using timed_flash_counted [OF _ assms(2)]
    by (auto simp: flash_file_def Let_def EXIT_FAILURE_def EXIT_SUCCESS_def split: prod.splits)
qed

lemma flash_files_counted:
  "counted c st \<Longrightarrow> c + n \<le> 6 \<Longrightarrow>
   sound (counted (c + n)) (flash_files p (timed_flash p) part flashtype rs i n st)"
proof (induction n arbitrary: c i st)
  case (Suc n)
  have "sound (counted (Suc c + n)) (flash_files p (timed_flash p) part flashtype rs (Suc i) n s)" if "counted (Suc c) s" for s
    using Suc.IH [OF that] Suc.prems(2) by simp
  then show ?case
    using Suc.prems by (auto intro!: sound_after [OF flash_file_counted])
qed simp

lemma copy_image_counted:
  assumes "counted c st" "c < 6" "i < 5"
  shows "sound (counted (Suc c)) (copy_image p i st)"
proof -
  have "i < length (updImgEntryType (u_hndshk st))"
    using countedD(1) [OF assms(1)] assms(3) by (simp add: updater_shape_def)
  then show ?thesis
    unfolding copy_image_def Let_def
    by (simp only: linorder_not_less [symmetric] not_not not_True_eq_False if_False)
      (rule sound_after [OF store_counted [OF assms(1,2)]], rule sound_after [OF timed_counted], assumption,
       simp, simp, rule sound_after [OF timed_counted], assumption, simp_all add: next_counted)
qed

lemma copy_images_counted:
  "counted c st \<Longrightarrow> c + n \<le> 6 \<Longrightarrow> i + n \<le> 5 \<Longrightarrow> sound (counted (c + n)) (copy_images p i n st)"
proof (induction n arbitrary: c i st)
  case (Suc n)
  have "sound (counted (Suc c + n)) (copy_images p (Suc i) n s)" if "counted (Suc c) s" for s
    using Suc.IH [OF that] Suc.prems(2,3) by simp
  then show ?case
    using Suc.prems by (auto intro!: sound_after [OF copy_image_counted])
qed simp

lemma report_sound:
  assumes "counted 6 st"
  shows "sound (\<lambda>_. True) (report_step rtss_updater_record_preboot_kpi_values p st)"
    "sound (\<lambda>_. True) (report_step rtss_updater_record_postboot_kpi_values p st)"
  using countedD(3) [OF assms]
  by (auto simp: report_step_def rtss_updater_record_preboot_kpi_values_def rtss_updater_record_postboot_kpi_values_def
      KPI_MAX_IMAGES_def split: run.splits prod.splits)

section \<open>The boot information\<close>

lemma partition_status_sound: "k + n \<le> length (updImgEntryType hs) \<Longrightarrow> partition_status_loop k n hs \<noteq> Faults"
  by (induction n arbitrary: k hs) (auto simp: Let_def)

lemma partition_status_never_blocks: "partition_status_loop k n hs \<noteq> Blocks"
  by (induction n arbitrary: k hs) (auto simp: Let_def)

lemma bl_info_loop_faults: "bl_info_loop m a k n buf = Faults \<longleftrightarrow> 0 < n \<and> length buf < k + n"
proof (induction n arbitrary: a k buf)
  case (Suc n)
  show ?case
    by (cases "length buf \<le> k") (auto simp: Suc.IH)
qed simp

lemma bl_info_loop_never_blocks: "bl_info_loop m a k n buf \<noteq> Blocks"
  by (induction n arbitrary: a k buf) simp_all

text \<open>The check of the answer leaves the array exactly if the answer claims more images than it holds.\<close>

lemma boot_info_check_faults:
  assumes "length (updImgEntryType (u_hndshk st)) = 5" "mc_pVa (u_memhandle st) \<noteq> NULL"
  shows "boot_info_check st = Faults \<longleftrightarrow> 5 < unat (numImagesBoot (u_hndshk st))"
proof -
  define n where "n = unat (numImagesBoot (u_hndshk st))"
  let ?loop = "bl_info_loop (w_mem (u_world st)) (mc_pVa (u_memhandle st)) 0 n (updImgEntryType (u_hndshk st))"
  show ?thesis
  proof (cases "5 < n")
    case True
    then have "?loop = Faults"
      using assms(1) by (simp add: bl_info_loop_faults)
    then show ?thesis
      using assms(2) True by (simp add: boot_info_check_def Let_def rtss_updater_get_bl_info_context_def after_def n_def
          EXIT_SUCCESS_def EXIT_FAILURE_def)
        auto
  next
    case False
    have status: "rtss_updater_get_bl_partition_status (u_hndshk st\<lparr>updImgEntryType := xs\<rparr>) \<noteq> Faults"
      if "length xs = 5" for xs
      using that False partition_status_sound [of 0 n "u_hndshk st\<lparr>updImgEntryType := xs\<rparr>"]
      by (auto simp: rtss_updater_get_bl_partition_status_def n_def)
    have "?loop \<noteq> Faults"
      using assms(1) False by (simp add: bl_info_loop_faults)
    then obtain xs where xs: "?loop = Returns xs"
      using bl_info_loop_never_blocks by (cases ?loop) auto
    then have "length xs = 5"
      using bl_info_entries [OF xs] assms(1) by simp
    then show ?thesis
      using assms(2) False xs status
      by (auto simp: boot_info_check_def Let_def rtss_updater_get_bl_info_context_def after_def n_def split: run.splits prod.splits)
  qed
qed

end
