(* ===== verification/Updater_Run_Claims.thy ===== *)
theory Updater_Run_Claims
  imports Updater_Seq_Claims Updater_Gpt_Claims Updater_Timer_Props
begin

text \<open>
  The properties of the updater program: its exchanges, what it accepts as a response, and
  what it returns, with their witnesses.
\<close>

section \<open>Exchanges\<close>

text \<open>C4: A command completes when it is answered: if the ring to the other processor has room, the
  interrupt is accepted and the other processor has put its answer into the empty ring back, then
  the exchange returns, it has taken exactly that answer, and it succeeds if the answer's status
  is zero.\<close>

theorem exchange_completes:
  assumes "rtss_updater_tx_client_data (u_globals st) = Some tx" "rtss_updater_rx_client_data (u_globals st) = Some rx"
    "h_mode tx = RTSS_MB_MODE_TX p" "h_mode rx = RTSS_MB_MODE_RX p" "u_frames st = (txframe, rxframe)"
    "msg_channel (w_mem (u_world st)) tx txframe" "0 < h_free (w_mem (u_world st)) tx"
    "a_ret (answer p (w_now (u_world st))) = 0" "\<not> request_rejected q" "msg_wf x"
    "\<forall>m. h_items m tx = h_items (w_mem (u_world st)) tx @ [msg_bytes (request_msg (w_mem (u_world st)) q)] \<longrightarrow>
       msg_channel (a_peer (answer p (w_now (u_world st))) m) rx rxframe
       \<and> h_items (a_peer (answer p (w_now (u_world st))) m) rx = [msg_bytes x]"
  shows "\<exists>st'. exchange p q st = Returns (if status x = 0 then EXIT_SUCCESS else EXIT_FAILURE, st')
    \<and> u_hndshk st' = accept_response x (u_hndshk st) \<and> h_items (w_mem (u_world st')) rx = []
    \<and> u_log st' = u_log st @ [Request q]"
proof -
  obtain w' where "exchange p q st = Returns (if status x = 0 then EXIT_SUCCESS else EXIT_FAILURE,
      st\<lparr>u_world := w', u_log := u_log st @ [Request q], u_hndshk := accept_response x (u_hndshk st)\<rparr>)"
    "h_items (w_mem w') rx = []"
    using exchange_answered_at [OF assms] by (elim exE conjE)
  then show ?thesis
    by (intro exI [where x = "st\<lparr>u_world := w', u_log := u_log st @ [Request q],
      u_hndshk := accept_response x (u_hndshk st)\<rparr>"]) simp
qed

definition demo_reply :: rtss_upd_msg_header_t where
  "demo_reply = request_msg demo_mem Get_metadata_info"

definition demo_reply_mem :: mem where
  "demo_reply_mem = reply_mem demo_reply"

definition demo_answering :: platform where
  "demo_answering = demo_platform\<lparr>answer := (\<lambda>k. answer demo_platform k\<lparr>a_peer := (\<lambda>_. demo_reply_mem)\<rparr>)\<rparr>"

lemma demo_reply_ready: "msg_wf demo_reply" "status demo_reply = 0"
    "msg_channel demo_reply_mem demo_msg_rx 2048" "h_items demo_reply_mem demo_msg_rx = [msg_bytes demo_reply]"
proof -
  show wf: "msg_wf demo_reply" and "status demo_reply = 0"
    using new_msg_announces [of demo_mem Get_metadata_info]
    by (simp_all add: demo_reply_def announces_def RTSS_UPD_S_SUCCESS_def)
  show "msg_channel demo_reply_mem demo_msg_rx 2048" "h_items demo_reply_mem demo_msg_rx = [msg_bytes demo_reply]"
    unfolding demo_reply_mem_def by (rule reply_mem_ready [OF wf])+
qed

theorem exchange_completes_witness:
  "\<exists>st'. exchange demo_answering Chkgpt (demo_updater (Some demo_msg_tx) (Some demo_msg_rx) demo_msg_mem)
      = Returns (EXIT_SUCCESS, st') \<and> u_hndshk st' = accept_response demo_reply demo_handshake"
proof -
  let ?st = "demo_updater (Some demo_msg_tx) (Some demo_msg_rx) demo_msg_mem"
  have st: "rtss_updater_tx_client_data (u_globals ?st) = Some demo_msg_tx" "u_hndshk ?st = demo_handshake"
    "rtss_updater_rx_client_data (u_globals ?st) = Some demo_msg_rx" "u_frames ?st = (1024, 2048)"
    "w_mem (u_world ?st) = demo_msg_mem"
    by (simp_all add: demo_updater_def demo_world_def)
  have p: "h_mode demo_msg_tx = RTSS_MB_MODE_TX demo_answering" "h_mode demo_msg_rx = RTSS_MB_MODE_RX demo_answering"
    "a_ret (answer demo_answering k) = 0" "a_peer (answer demo_answering k) m = demo_reply_mem" for k m
    by (simp_all add: demo_answering_def demo_msg_free demo_msg_rx_def)
  have "\<not> request_rejected Chkgpt"
    by (simp add: request_rejected_def)
  then show ?thesis
    using exchange_completes [OF st(1,3) p(1,2) st(4), of Chkgpt demo_reply]
    by (simp only: st p demo_msg_channel demo_msg_free demo_reply_ready) auto
qed

text \<open>The checksum is the first member, and is computed with that member cleared.\<close>

lemma cleared_msg_bytes:
  "take 4 (msg_bytes z) = bytes32 (headerCrc z)"
  "msg_bytes (z\<lparr>headerCrc := 0\<rparr>) = bytes32 0 @ drop 4 (msg_bytes z)" "msg_bytes (z\<lparr>headerCrc := 0\<rparr>) \<noteq> []"
  by (simp_all add: msg_bytes_def bytes32_def)

lemma corrupted_msg_crc:
  assumes x: "msg_wf x" "headerCrc x = crc32 (msg_bytes (x\<lparr>headerCrc := 0\<rparr>))"
    and i: "i < sizeof_msg" "b \<noteq> msg_bytes x ! i" and yb: "msg_bytes y = (msg_bytes x)[i := b]"
  shows "headerCrc y \<noteq> crc32 (msg_bytes (y\<lparr>headerCrc := 0\<rparr>))"
proof (cases "i < 4")
  case True
  then have "msg_bytes (y\<lparr>headerCrc := 0\<rparr>) = msg_bytes (x\<lparr>headerCrc := 0\<rparr>)"
    by (simp add: cleared_msg_bytes(2) yb)
  moreover have "((msg_bytes x)[i := b]) ! i = msg_bytes x ! i" if "headerCrc y = headerCrc x"
    using True cleared_msg_bytes(1) [of y] cleared_msg_bytes(1) [of x] that by (metis nth_take yb)
  ultimately show ?thesis
    using x i length_msg_bytes [OF x(1)] by auto
next
  case False
  then have "take 4 (msg_bytes y) = take 4 (msg_bytes x)"
    by (simp add: yb)
  then have crc: "headerCrc y = headerCrc x"
    by (metis cleared_msg_bytes(1) get32_bytes32_end)
  note len = length_msg_bytes [OF x(1), unfolded sizeof_msg_def]
  have "msg_bytes (y\<lparr>headerCrc := 0\<rparr>) = (msg_bytes (x\<lparr>headerCrc := 0\<rparr>))[i := b]"
    using False len i(1) by (simp add: cleared_msg_bytes(2) yb drop_update_swap list_update_append sizeof_msg_def)
  moreover have "msg_bytes (x\<lparr>headerCrc := 0\<rparr>) ! i = msg_bytes x ! i"
    using False len i(1) by (simp add: cleared_msg_bytes(2) nth_append sizeof_msg_def)
  ultimately show ?thesis
    using crc x(2) i len crc32_list_update [of i "msg_bytes (x\<lparr>headerCrc := 0\<rparr>)" b]
    by (auto simp: cleared_msg_bytes(2) sizeof_msg_def)
qed

text \<open>C13: A verified response whose bytes are altered in one place is noticed, wherever that is: none of
  its members is taken over. Its status and identifier are, though, since they are stored before
  the checksum is verified, and the caller looks at the status only.\<close>

theorem corrupted_response_only_status:
  assumes "msg_wf x" "headerCrc x = crc32 (msg_bytes (x\<lparr>headerCrc := 0\<rparr>))" "i < sizeof_msg" "b \<noteq> msg_bytes x ! i"
    "y = msg_of_bytes ((msg_bytes x)[i := b])"
  shows "accept_response y hs = hs\<lparr>respStatus := status y, hs_msgId := msgId y\<rparr>
    \<and> accept_response x hs = response_members (x\<lparr>headerCrc := 0\<rparr>) (hs\<lparr>respStatus := status x, hs_msgId := msgId x\<rparr>)"
proof -
  have "msg_bytes y = (msg_bytes x)[i := b]"
    using msg_bytes_msg_of_bytes length_msg_bytes [OF assms(1)] assms(5) by (simp add: sizeof_msg_def)
  from corrupted_msg_crc [OF assms(1-4) this] show ?thesis
    using assms(2) by (simp add: accept_response_def Let_def rtss_upd_verify_crc32_iff [OF cleared_msg_bytes(3)])
qed

theorem corrupted_response_only_status_witness:
  "accept_response (msg_of_bytes ((msg_bytes (request_msg demo_mem Get_metadata_info))[16 := 1])) demo_handshake =
     demo_handshake\<lparr>respStatus := 1, hs_msgId := 19\<rparr>"
proof -
  let ?x = "request_msg demo_mem Get_metadata_info"
  have wf: "msg_wf ?x" and v: "rtss_upd_verify_crc32 (headerCrc ?x) (Some (msg_bytes (?x\<lparr>headerCrc := 0\<rparr>))) = RTSS_UPD_E_OK"
    using new_msg_announces [of demo_mem Get_metadata_info] by (simp_all add: announces_def)
  have "msg_bytes (?x\<lparr>headerCrc := 0\<rparr>) \<noteq> []"
    by (simp add: msg_bytes_def bytes32_def)
  with v have crc: "headerCrc ?x = crc32 (msg_bytes (?x\<lparr>headerCrc := 0\<rparr>))"
    by (simp add: rtss_upd_verify_crc32_iff)
  have b: "msg_bytes ?x = bytes32 (headerCrc ?x) @ bytes32 72 @ bytes32 19 @ bytes32 (direction ?x) @ bytes32 0 @ body ?x"
    using new_msg_announces [of demo_mem Get_metadata_info]
    by (simp add: announces_def msg_bytes_def RTSS_UPD_S_SUCCESS_def)
  let ?y = "msg_of_bytes ((msg_bytes ?x)[16 := 1])"
  have "status ?y = 1" "msgId ?y = 19" "1 \<noteq> msg_bytes ?x ! 16"
    unfolding b by (simp_all add: msg_of_bytes_def list_update_append nth_append get32_def bytes32_def le32_def)
  then show ?thesis
    using corrupted_response_only_status [OF wf crc, of 16 1 ?y demo_handshake] by (simp add: sizeof_msg_def)
qed

section \<open>The program\<close>

text \<open>The entries of the boot information are copied for as many images as the response claims: the
  copy leaves the array exactly when that number is larger than the array.\<close>

theorem bl_info_copy_bound:
  "rtss_updater_get_bl_info_context (Some buf) pVa n m = Faults \<longleftrightarrow> pVa \<noteq> NULL \<and> length buf < unat n"
proof (cases "bl_info_loop m pVa 0 (unat n) buf")
  case (Returns x)
  then show ?thesis
    using bl_info_loop_faults [of m pVa 0 "unat n" buf] by (auto simp: rtss_updater_get_bl_info_context_def)
next
  case Faults
  then show ?thesis
    using bl_info_loop_faults [of m pVa 0 "unat n" buf] by (auto simp: rtss_updater_get_bl_info_context_def)
qed (simp add: bl_info_loop_never_blocks)

lemma after_Returns:
  "after res k = Returns (r, t) \<Longrightarrow> (r = EXIT_FAILURE \<and> (\<exists>c. res = Returns (c, t))) \<or> (\<exists>s. res = Returns (EXIT_SUCCESS, s) \<and> k s = Returns (r, t))"
  by (auto simp: after_def split: run.splits prod.splits if_splits)

lemma setup_log:
  "read_config p st = Returns (r, s) \<Longrightarrow> u_log s = u_log st"
  "rtss_updater_mem_ctx_init p st = Returns (r, s) \<Longrightarrow> u_log s = u_log st"
  by (auto simp: read_config_def rtss_updater_mem_ctx_init_def use_images_def Let_def dest!: after_Returns
      split: if_splits prod.splits option.splits)

text \<open>C40: The program returns a failure only if it has issued no command: the options, the configuration
  or the set-up failed. Once a sequence has started the program returns success, whatever the
  sequence returned.\<close>

theorem main_failure_before_commands:
  assumes "updater_main p argc opts st = Returns (r, st')"
  shows "r = EXIT_SUCCESS \<or> r = EXIT_FAILURE \<and> u_log st' = u_log st"
proof -
  obtain c a w where o: "rtss_updater_getopt_parser p argc opts (u_args st) (u_world st) = ((c, a), w)"
    by (metis surj_pair)
  show ?thesis
    using assms
    by (auto simp: updater_main_def o dest!: after_Returns setup_log split: run.splits prod.splits)
qed

theorem main_failure_before_commands_witness:
  "\<exists>st'. updater_main demo_platform 1 [] (demo_updater None None demo_mem) = Returns (EXIT_FAILURE, st') \<and> u_log st' = []"
proof -
  obtain a where "rtss_updater_getopt_parser demo_platform 1 [] (u_args (demo_updater None None demo_mem)) w = ((EXIT_FAILURE, a), w)" for w
    by (simp add: rtss_updater_getopt_parser_def Let_def)
  then obtain st' where run: "updater_main demo_platform 1 [] (demo_updater None None demo_mem) = Returns (EXIT_FAILURE, st')"
    by (simp add: updater_main_def after_failure)
  have "EXIT_FAILURE \<noteq> EXIT_SUCCESS"
    by (simp add: EXIT_FAILURE_def EXIT_SUCCESS_def)
  then show ?thesis
    using main_failure_before_commands [OF run] run by (simp add: demo_updater_facts)
qed

lemma cstr_terminated: "0 \<notin> set t \<Longrightarrow> cstr (t @ 0 # ys) = t"
  unfolding cstr_def by (induction t) auto

text \<open>A path given with \<open>-c\<close> or \<open>-g\<close> is stored with its first 127 bytes and a terminating zero. The option
  is refused exactly when the path is one character long, since the number of bytes copied is compared with
  the code for failure, which is one.\<close>

theorem path_argument_stored:
  "\<exists>row. cstr row = take 127 (cstr arg) \<and> length row = 128
    \<and> plain_opt (Opt_c (Some arg)) a = (length (cstr arg) \<noteq> 1, a\<lparr>otaCfgPath := row\<rparr>)
    \<and> plain_opt (Opt_g (Some arg)) a = (length (cstr arg) \<noteq> 1, a\<lparr>gpt_update := row\<rparr>)"
proof -
  define n where "n = min 127 (length (cstr arg))"
  let ?row = "take n (cstr arg) @ drop n blank_row"
  have "128 - n = Suc (127 - n)"
    by (simp add: n_def)
  then have "drop n blank_row = 0 # replicate (127 - n) 0"
    by (simp add: blank_row_def RTSS_UPDATER_CFG_MAX_IMAGEPATH_LEN_def)
  moreover have "0 \<notin> set (take n (cstr arg))"
    using cstr_no_zero [of arg] by (auto dest: in_set_takeD)
  ultimately have "cstr ?row = take n (cstr arg)"
    using cstr_terminated by metis
  moreover have "take n (cstr arg) = take 127 (cstr arg)"
    by (simp add: n_def min_def)
  moreover have "length ?row = 128"
    by (simp add: n_def blank_row_def RTSS_UPDATER_CFG_MAX_IMAGEPATH_LEN_def)
  moreover have "copy_arg (RTSS_UPDATER_CFG_MAX_IMAGEPATH_LEN - 1) arg = (length (cstr arg) \<noteq> 1, ?row)"
  proof -
    have "RTSS_UPDATER_CFG_MAX_IMAGEPATH_LEN - 1 = 127" "uint EXIT_FAILURE = 1"
      by (simp_all add: RTSS_UPDATER_CFG_MAX_IMAGEPATH_LEN_def EXIT_FAILURE_def)
    moreover have "int n \<noteq> 1 \<longleftrightarrow> length (cstr arg) \<noteq> 1"
      by (auto simp: n_def min_def)
    ultimately show ?thesis
      by (simp only: copy_arg_def Let_def n_def [symmetric])
  qed
  ultimately show ?thesis
    by (intro exI [of _ ?row]) (simp only: plain_opt_def opt.case option.case prod.case simp_thms)
qed

end
