(* ===== verification/Updater_Measured.thy ===== *)
theory Updater_Measured
  imports Updater_Run_Claims "HOL-Library.Sublist"
begin

text \<open>
  The timers of the images: what a timer says of the flash that it measures, and that the sequence
  before the restart leaves one such timer for every image it has flashed.
\<close>

section \<open>Measurements\<close>

text \<open>What is left at the place of a time by a reading of the clock: zero if it could not be read.\<close>

definition time_stored :: "timespec option \<Rightarrow> timespec" where
  "time_stored x = (case x of None \<Rightarrow> no_time | Some t \<Rightarrow> t)"

text \<open>The timer \<open>t\<close> measures the flash at place \<open>j\<close> of the commands: that flash is of the image \<open>img\<close>, of
  the length in the timer, and to the second bank; the clock was read right before it was issued and
  next when it had been answered, and these two readings are the times in the timer. The name in the
  timer is that of the image, cut to the member.\<close>

definition measured :: "updater \<Rightarrow> nat \<Rightarrow> u8 list \<Rightarrow> rtss_updater_flash_image_timer_t \<Rightarrow> bool" where
  "measured st j img t \<longleftrightarrow> j < length (u_log st)
     \<and> (\<exists>sv crc f a rs. u_log st ! j = Request (Flashimg (Some img) 0 1 sv (ft_Length t) crc f a rs))
     \<and> (\<exists>x y. sublist [(j, x), (Suc j, y)] (u_readings st) \<and> flash_startTime t = time_stored x \<and> flash_EndTime t = time_stored y)
     \<and> cstr (ft_image t) = take RTSS_UPD_IMG_NAME_LEN img"

definition blank_timer :: rtss_updater_flash_image_timer_t where
  "blank_timer = \<lparr>ft_image = blank_row, ft_Length = 0, flash_startTime = no_time,
     flash_EndTime = no_time, readImage_startTime = no_time, readImage_EndTime = no_time\<rparr>"

text \<open>The first timers measure the flashes at the places \<open>js\<close>, one after the other.\<close>

definition timers_of :: "rtss_updater_argopt_t \<Rightarrow> nat list \<Rightarrow> updater \<Rightarrow> bool" where
  "timers_of a js st \<longleftrightarrow> u_args st = a \<and> length (flashImagetime (u_timers st)) = 6 \<and> length js \<le> 6
     \<and> count_timer (u_timers st) = of_nat (length js) \<and> sorted_wrt (<) js
     \<and> (\<forall>i < length js. measured st (js ! i) (name_str (ImgParseInf a) i) (flashImagetime (u_timers st) ! i))"

text \<open>The timers after them are as they were at the start.\<close>

definition timers_ahead :: "rtss_updater_argopt_t \<Rightarrow> nat list \<Rightarrow> updater \<Rightarrow> bool" where
  "timers_ahead a js st \<longleftrightarrow> timers_of a js st
     \<and> drop (length js) (flashImagetime (u_timers st)) = replicate (6 - length js) blank_timer"

section \<open>Steps that measure no image\<close>

definition grown :: "updater \<Rightarrow> updater \<Rightarrow> bool" where
  "grown st st' \<longleftrightarrow> u_args st' = u_args st \<and> count_timer (u_timers st') = count_timer (u_timers st)
     \<and> flashImagetime (u_timers st') = flashImagetime (u_timers st)
     \<and> prefix (u_log st) (u_log st') \<and> prefix (u_readings st) (u_readings st')"

lemma grown_refl: "grown st st"
  by (simp add: grown_def)

lemma grown_trans: "grown st s \<Longrightarrow> grown s t \<Longrightarrow> grown st t"
  by (auto simp: grown_def)

lemma measured_mono:
  assumes "measured st j img t" "prefix (u_log st) (u_log s)" "prefix (u_readings st) (u_readings s)"
  shows "measured s j img t"
proof -
  have "sublist xs (u_readings st) \<Longrightarrow> sublist xs (u_readings s)" for xs
    using sublist_order.order.trans [OF _ prefix_imp_sublist [OF assms(3)]] .
  moreover have "j < length (u_log s) \<and> u_log s ! j = u_log st ! j" if "j < length (u_log st)"
    using assms(2) that by (auto simp: prefix_def nth_append)
  ultimately show ?thesis
    using assms(1) by (fastforce simp: measured_def)
qed

lemma timers_of_grown: "timers_of a js st \<Longrightarrow> grown st s \<Longrightarrow> timers_of a js s"
  using measured_mono [of st _ _ _ s] by (auto simp: timers_of_def grown_def)

lemma timers_ahead_grown: "timers_ahead a js st \<Longrightarrow> grown st s \<Longrightarrow> timers_ahead a js s"
  using timers_of_grown [of a js st s] by (auto simp: timers_ahead_def grown_def)

text \<open>An exchange leaves everything of the measurement alone.\<close>

definition exchanged :: "request \<Rightarrow> updater \<Rightarrow> updater \<Rightarrow> bool" where
  "exchanged q st st' \<longleftrightarrow> u_args st' = u_args st \<and> u_timers st' = u_timers st \<and> u_readings st' = u_readings st
     \<and> u_log st' = u_log st @ [Request q]"

lemma exchange_exchanged: "yields (exchanged q st) (exchanged q st) (exchange p q st)"
  by (auto simp: exchange_def after_def await_response_def rtss_updater_cbk_notify_handler_def exchanged_def Let_def
      split: prod.splits option.splits)

lemma exchanged_grown: "exchanged q st s \<Longrightarrow> grown st s"
  by (simp add: exchanged_def grown_def)

lemma clock_reads:
  assumes "kpiEnable (u_args st)"
  obtains x w where "rtss_updater_clock_get_time p tp st = st\<lparr>u_world := w,
    u_timers := (case x of None \<Rightarrow> u_timers st | Some t \<Rightarrow> tp (\<lambda>_. t) (u_timers st)),
    u_readings := u_readings st @ [(length (u_log st), x)]\<rparr>"
proof -
  obtain a w where "sys p Sys_clock_gettime (u_world st) = (a, w)" by fastforce
  then show ?thesis
    using assms that [of None w] that [of "Some \<lparr>tv_sec = sint (a_addr a), tv_nsec = int (a_size a)\<rparr>" w]
    by (cases "a_ret a = -1") (simp_all add: rtss_updater_clock_get_time_def Let_def)
qed

lemma clock_grown: "grown st (rtss_updater_clock_get_time p (preboot_at f) st)"
proof (cases "kpiEnable (u_args st)")
  case True
  then show ?thesis
    by (rule clock_reads [of st p "preboot_at f"]) (simp add: grown_def preboot_at_def split: option.splits)
qed (simp add: rtss_updater_clock_get_time_def grown_refl)

definition growing :: "steps \<Rightarrow> bool" where
  "growing f \<longleftrightarrow> (\<forall>st. yields (grown st) (grown st) (f st))"

lemma growingD: "growing f \<Longrightarrow> grown st s \<Longrightarrow> yields (grown st) (grown st) (f s)"
  by (rule yields_mono [of "grown s" "grown s"]) (auto simp: growing_def intro: grown_trans)

lemma growing_steps:
  "growing (exchange p q)" "growing (timed p (preboot_at b) (preboot_at e) q)" "growing (on_mem m)" "growing (report_step rep p)"
proof -
  show ex: "growing (exchange p q)"
    unfolding growing_def by (intro allI yields_mono [OF exchange_exchanged] exchanged_grown)
  show "growing (timed p (preboot_at b) (preboot_at e) q)"
    unfolding growing_def timed_def
    by (intro allI yields_after [OF growingD [OF ex]] clock_grown) (simp add: grown_trans [OF _ clock_grown])
  show "growing (on_mem m)" "growing (report_step rep p)"
    by (auto simp: growing_def on_mem_def report_step_def grown_def split: prod.splits run.splits)
qed

lemma grown_clear: "grown st s \<Longrightarrow> grown st (clear_buffer n s)"
  by (simp add: grown_def clear_buffer_def)

lemma boot_info_check_growing: "growing boot_info_check"
proof -
  have hs: "grown st (s\<lparr>u_hndshk := hs\<rparr>) = grown st s" for st s hs
    by (simp add: grown_def)
  have entries: "yields (grown st) (grown st) (case rtss_updater_get_bl_info_context buf pVa n m of
       Blocks \<Rightarrow> Blocks | Faults \<Rightarrow> Faults | Returns (ret, xs) \<Rightarrow> Returns (ret, s\<lparr>u_hndshk := f xs\<rparr>))"
    and status: "yields (grown st) (grown st) (case rtss_updater_get_bl_partition_status h of
       Blocks \<Rightarrow> Blocks | Faults \<Rightarrow> Faults | Returns (ret, hs) \<Rightarrow> Returns (ret, s\<lparr>u_hndshk := hs\<rparr>))"
    if "grown st s" for st s buf pVa n m f h
    using that by (simp_all add: hs split: run.splits prod.splits)
  show ?thesis
    unfolding growing_def boot_info_check_def Let_def
    by (intro allI yields_after [OF entries] grown_refl, rule yields_after [OF status]) simp_all
qed

lemma preboot_steps_growing:
  "growing (preboot_check_steps p)" "growing (boot_info_steps (preboot_boot_info p))" "growing (update_gpt_steps p)"
proof -
  note step = growingD [OF growing_steps(2)] growingD [OF growing_steps(3)]
  show "growing (preboot_check_steps p)"
    unfolding growing_def preboot_check_steps_def metadata_steps_def Let_def
    by (intro allI yields_after [OF step(1)] grown_refl) (auto intro!: yields_after [OF step(1)] step(1) grown_clear)
  show "growing (update_gpt_steps p)"
    unfolding growing_def update_gpt_steps_def Let_def
    by (intro allI yields_after [OF step(2)] grown_refl) (auto intro!: step(1))
  have "yields (grown st) (grown st) (boot_info_request (preboot_boot_info p) st)" for st
    unfolding boot_info_request_def preboot_boot_info_def Let_def
    by (rule yields_after [OF step(2)]) (simp_all add: grown_refl step(1))
  then show "growing (boot_info_steps (preboot_boot_info p))"
    unfolding growing_def boot_info_steps_def
    by (blast intro: yields_after growingD [OF boot_info_check_growing])
qed

section \<open>Steps that measure an image\<close>

text \<open>The first 32 bytes of the name, and the zeros of the rest of the member.\<close>

lemma stored_name:
  assumes "0 \<notin> set s"
  shows "cstr (mcpy_member (take RTSS_UPD_IMG_NAME_LEN blank_row) s @ drop RTSS_UPD_IMG_NAME_LEN blank_row)
    = take RTSS_UPD_IMG_NAME_LEN s"
proof -
  define n where "n = min 32 (length s)"
  have "drop n (replicate 32 (0::u8)) @ replicate 96 0 = 0 # replicate (127 - n) 0"
  proof -
    have "128 - n = Suc (127 - n)"
      by (simp add: n_def)
    then show ?thesis
      by (simp add: n_def replicate_add [symmetric])
  qed
  then have "mcpy_member (take RTSS_UPD_IMG_NAME_LEN blank_row) s @ drop RTSS_UPD_IMG_NAME_LEN blank_row
      = take n s @ 0 # replicate (127 - n) 0"
    by (simp add: mcpy_member_def blank_row_def RTSS_UPDATER_CFG_MAX_IMAGEPATH_LEN_def
        n_def [symmetric] RTSS_UPD_IMG_NAME_LEN_def Let_def)
  moreover have "0 \<notin> set (take n s)"
    using assms by (auto dest: in_set_takeD)
  ultimately show ?thesis
    using cstr_terminated [of "take n s"] by (simp add: n_def RTSS_UPD_IMG_NAME_LEN_def min_def)
qed

lemma name_str_no_zero: "0 \<notin> set (name_str c i)"
  using cstr_no_zero by (simp add: name_str_def)

text \<open>A row that is not in use yet may change.\<close>

lemma timers_of_other_row:
  assumes "timers_of a js st" "length js < 6" "u_args s = a"
    "u_timers s = (u_timers st)\<lparr>flashImagetime := (flashImagetime (u_timers st))[length js := t]\<rparr>"
    "prefix (u_log st) (u_log s)" "prefix (u_readings st) (u_readings s)"
  shows "timers_of a js s"
  using assms measured_mono [OF _ assms(5,6)] by (auto simp: timers_of_def)

lemma timers_next_row:
  assumes "timers_ahead a js st" "length js < 6" "u_args s = a"
    "u_timers s = (u_timers st)\<lparr>flashImagetime := (flashImagetime (u_timers st))[length js := t],
       count_timer := count_timer (u_timers st) + 1\<rparr>"
    "prefix (u_log st) (u_log s)" "prefix (u_readings st) (u_readings s)"
    "measured s (length (u_log st)) (name_str (ImgParseInf a) (length js)) t"
  shows "timers_ahead a (js @ [length (u_log st)]) s"
proof -
  let ?r = "flashImagetime (u_timers st)" and ?js = "js @ [length (u_log st)]"
  have st: "timers_of a js st" "drop (length js) ?r = replicate (6 - length js) blank_timer"
    using assms(1) by (simp_all add: timers_ahead_def)
  have row: "measured s (js ! i) (name_str (ImgParseInf a) i) (?r ! i)" if "i < length js" for i
    using st(1) that measured_mono [OF _ assms(5,6)] by (simp add: timers_of_def)
  then have rows: "measured s (?js ! i) (name_str (ImgParseInf a) i) (?r[length js := t] ! i)" if "i < length ?js" for i
    using that assms(2,7) st(1) by (cases "i < length js") (auto simp: nth_append timers_of_def less_Suc_eq)
  have below: "j < length (u_log st)" if "j \<in> set js" for j
    using st(1) that by (auto simp: timers_of_def measured_def in_set_conv_nth)
  have "drop (Suc (length js)) ?r = replicate (6 - Suc (length js)) blank_timer"
    using arg_cong [OF st(2), of "drop 1"] assms(2) by (simp add: drop_Suc)
  then have "drop (length ?js) (?r[length js := t]) = replicate (6 - length ?js) blank_timer"
    by (simp add: drop_update_cancel)
  moreover have "timers_of a ?js s"
    using rows below st(1) assms(2,3,4) by (simp add: timers_of_def sorted_wrt_append)
  ultimately show ?thesis
    by (simp add: timers_ahead_def assms(4))
qed

text \<open>A time that is still zero, in the row at hand.\<close>

lemma clock_at_row:
  assumes "kpiEnable (u_args s)" "u_timers s = k\<lparr>flashImagetime := (flashImagetime k)[c := t]\<rparr>"
    "unat (count_timer k) = c" "c < length (flashImagetime k)" "f (\<lambda>_. no_time) t = t"
  obtains x w where "rtss_updater_clock_get_time p (image_at f) s = s\<lparr>u_world := w,
    u_timers := k\<lparr>flashImagetime := (flashImagetime k)[c := f (\<lambda>_. time_stored x) t]\<rparr>,
    u_readings := u_readings s @ [(length (u_log s), x)]\<rparr>"
proof -
  obtain x w where "rtss_updater_clock_get_time p (image_at f) s = s\<lparr>u_world := w,
      u_timers := (case x of None \<Rightarrow> u_timers s | Some v \<Rightarrow> image_at f (\<lambda>_. v) (u_timers s)),
      u_readings := u_readings s @ [(length (u_log s), x)]\<rparr>"
    by (rule clock_reads [OF assms(1)])
  then show ?thesis
    using that [of x w] assms(2-5) by (cases x) (simp_all add: image_at_def Let_def time_stored_def)
qed

lemma timed_flash_measures:
  assumes "timers_ahead a js st" "kpiEnable a" "length js < 6" "img = name_str (ImgParseInf a) (length js)"
    "q = Flashimg (Some img) 0 1 sv len crc f adr rs"
  shows "yields (timers_ahead a (js @ [length (u_log st)])) (timers_of a js) (timed_flash p img len q st)"
proof -
  let ?k = "u_timers st" and ?c = "length js" and ?n = "length (u_log st)"
  define t where "t = blank_timer\<lparr>ft_image := mcpy_member (take RTSS_UPD_IMG_NAME_LEN blank_row) img
    @ drop RTSS_UPD_IMG_NAME_LEN blank_row, ft_Length := len\<rparr>"
  let ?put = "\<lambda>t. ?k\<lparr>flashImagetime := (flashImagetime ?k)[?c := t]\<rparr>"
  have st: "timers_of a js st" and args: "u_args st = a" and c: "unat (count_timer ?k) = ?c"
    and len: "length (flashImagetime ?k) = 6" "?c < length (flashImagetime ?k)"
    using assms(1,3) by (simp_all add: timers_ahead_def timers_of_def unat_of_nat_small)
  have "flashImagetime ?k ! ?c = blank_timer"
    using assms(1) hd_drop_conv_nth [OF len(2)] len by (simp add: timers_ahead_def)
  then have store: "store_image img len st = Returns (EXIT_SUCCESS, st\<lparr>u_timers := ?put t\<rparr>)"
    using assms(2) len by (simp add: store_image_def Let_def args c t_def blank_timer_def)
  have blank: "t\<lparr>flash_startTime := no_time\<rparr> = t" "t\<lparr>flash_startTime := v, flash_EndTime := no_time\<rparr> = t\<lparr>flash_startTime := v\<rparr>" for v
    by (simp_all add: t_def blank_timer_def)
  let ?s1 = "st\<lparr>u_timers := ?put t\<rparr>" and ?clock = "\<lambda>f. rtss_updater_clock_get_time p (image_at f)"
  let ?s2 = "?clock flash_startTime_update ?s1"
  obtain x w where "?s2 = ?s1\<lparr>u_world := w, u_timers := ?put (t\<lparr>flash_startTime := time_stored x\<rparr>),
      u_readings := u_readings ?s1 @ [(length (u_log ?s1), x)]\<rparr>"
    using clock_at_row [of ?s1 ?k ?c t flash_startTime_update p] assms(2) args c len blank(1) by auto
  then have s2: "u_timers ?s2 = ?put (t\<lparr>flash_startTime := time_stored x\<rparr>)" "u_args ?s2 = a" "u_log ?s2 = u_log st"
    "u_readings ?s2 = u_readings st @ [(?n, x)]"
    by (simp_all add: args)
  have failed: "timers_of a js s" if "exchanged q ?s2 s" for s
    using that s2 by (intro timers_of_other_row [OF st assms(3)]) (simp_all add: exchanged_def)
  have finished: "timers_ahead a (js @ [?n]) (next_image (?clock flash_EndTime_update s))" if ex: "exchanged q ?s2 s" for s
  proof -
    let ?t = "\<lambda>y. t\<lparr>flash_startTime := time_stored x, flash_EndTime := time_stored y\<rparr>" and ?s4 = "next_image (?clock flash_EndTime_update s)"
    obtain y w' where "?clock flash_EndTime_update s = s\<lparr>u_world := w', u_timers := ?put (?t y),
        u_readings := u_readings s @ [(length (u_log s), y)]\<rparr>"
      using clock_at_row [of s ?k ?c "t\<lparr>flash_startTime := time_stored x\<rparr>" flash_EndTime_update p] assms(2) ex s2 c len(2) blank(2)
      by (auto simp: exchanged_def)
    then have s4: "u_timers ?s4 = ?put (?t y)\<lparr>count_timer := count_timer ?k + 1\<rparr>" "u_args ?s4 = a"
      "u_log ?s4 = u_log st @ [Request q]" "u_readings ?s4 = u_readings st @ [(?n, x), (Suc ?n, y)]"
      using ex s2 assms(2) by (simp_all add: exchanged_def next_image_def)
    moreover have "cstr (ft_image (?t y)) = take RTSS_UPD_IMG_NAME_LEN img" "ft_Length (?t y) = len"
      using stored_name [OF name_str_no_zero] assms(4) by (simp_all add: t_def)
    moreover have "sublist [(?n, x), (Suc ?n, y)] (u_readings ?s4)"
      by (simp add: s4)
    ultimately have "measured ?s4 ?n img (?t y)"
      unfolding measured_def by (intro conjI) (auto simp: assms(5))
    then show ?thesis
      using assms(4) s4 by (intro timers_next_row [OF assms(1,3), where t = "?t y"]) simp_all
  qed
  have "yields (exchanged q ?s2) (timers_of a js) (exchange p q ?s2)"
    using failed by (intro yields_mono [OF exchange_exchanged])
  then show ?thesis
    using finished unfolding timed_flash_def store timed_def
    by (auto simp: after_def yields_def EXIT_SUCCESS_def EXIT_FAILURE_def split: run.splits)
qed

lemma flash_file_measures:
  assumes "timers_ahead a js st" "kpiEnable a" "length js < 6"
  shows "yields (\<lambda>s. \<exists>j. timers_ahead a (js @ [j]) s) (timers_of a js)
    (flash_file p (timed_flash p) (name_str (images st) (length js)) path 1 flashtype rs st)"
proof -
  have img: "images st = ImgParseInf a"
    using assms(1) by (simp add: timers_ahead_def timers_of_def images_def)
  have w: "timers_ahead a js (st\<lparr>u_world := w, u_log := u_log st @ [c]\<rparr>)" for w c
    by (rule timers_ahead_grown [OF assms(1)]) (simp add: grown_def)
  then have "timers_of a js (st\<lparr>u_world := w, u_log := u_log st @ [c]\<rparr>)" for w c
    by (simp add: timers_ahead_def)
  moreover have "yields (\<lambda>s. \<exists>j. timers_ahead a (js @ [j]) s) (timers_of a js) (timed_flash p (name_str (ImgParseInf a) (length js)) len
      (Flashimg (Some (name_str (ImgParseInf a) (length js))) 0 1 sv len crc flashtype adr rs)
      (st\<lparr>u_world := w, u_log := u_log st @ [c]\<rparr>))" for len sv crc adr w c
    by (rule yields_mono [OF timed_flash_measures [OF w assms(2,3) refl refl]]) auto
  ultimately show ?thesis
    by (auto simp: flash_file_def img Let_def EXIT_FAILURE_def EXIT_SUCCESS_def split: prod.splits)
qed

text \<open>What is measured at any end of the sequence, of \<open>n\<close> images.\<close>

definition timers_within :: "rtss_updater_argopt_t \<Rightarrow> nat \<Rightarrow> updater \<Rightarrow> bool" where
  "timers_within a n st \<longleftrightarrow> (\<exists>js. length js \<le> n \<and> timers_of a js st)"

lemma flash_files_measure:
  "timers_ahead a js st \<Longrightarrow> kpiEnable a \<Longrightarrow> i = length js \<Longrightarrow> i + k = n \<Longrightarrow> n \<le> 6 \<Longrightarrow>
   yields (\<lambda>s. \<exists>js. length js = n \<and> timers_of a js s) (timers_within a n)
     (flash_files p (timed_flash p) 1 flashtype rs i k st)"
proof (induction k arbitrary: i js st)
  case 0
  then show ?case by (auto simp: timers_ahead_def)
next
  case (Suc k)
  have "yields (\<lambda>s. \<exists>j. timers_ahead a (js @ [j]) s) (timers_within a n)
      (flash_file p (timed_flash p) (name_str (images st) i) path 1 flashtype rs st)" for path
    unfolding Suc.prems(3) using Suc.prems
    by (intro yields_mono [OF flash_file_measures [OF Suc.prems(1,2)]]) (auto simp: timers_within_def intro!: exI [of _ js])
  then show ?case
    using Suc.prems Suc.IH by (fastforce intro!: yields_after)
qed

text \<open>The whole sequence.\<close>

lemma timers_zero_ahead: "u_timers st = timers_zero \<Longrightarrow> timers_ahead (u_args st) [] st"
  by (simp add: timers_ahead_def timers_of_def timers_zero_def KPI_MAX_IMAGES_def blank_timer_def)

lemma timers_within_grown: "timers_within a n st \<Longrightarrow> grown st s \<Longrightarrow> timers_within a n s"
  using timers_of_grown by (auto simp: timers_within_def)

lemma growing_keeps:
  assumes "growing f" "\<And>s. grown st s \<Longrightarrow> Q s" "\<And>s. grown st s \<Longrightarrow> E s"
  shows "yields Q E (f st)"
proof (rule yields_mono)
  show "yields (grown st) (grown st) (f st)"
    using assms(1) by (simp add: growing_def)
qed (rule assms(2,3), assumption)+

lemma preboot_measures:
  assumes "u_timers st = timers_zero" "kpiEnable (u_args st)" "n = nat (numberOfPaths (images st))" "n \<le> 6"
  shows "yields (\<lambda>s. \<exists>js. length js = n \<and> timers_of (u_args st) js s) (timers_within (u_args st) n)
    (rtss_updater_preboot_demosequence p st)"
proof -
  let ?a = "u_args st"
  let ?A = "timers_ahead ?a []" and ?Q = "\<lambda>s. \<exists>js. length js = n \<and> timers_of ?a js s" and ?E = "timers_within ?a n"
  have AE: "?E s" if "?A s" for s
    using that by (auto simp: timers_ahead_def timers_within_def intro!: exI [of _ "[]"])
  have QE: "?E s" if "?Q s" for s
    using that by (auto simp: timers_within_def)
  have first: "yields ?A ?E (f s)" if "growing f" "?A s" for f s
    using that(2) AE timers_ahead_grown by (intro growing_keeps [OF that(1)]) blast+
  have last: "yields ?Q ?E (f s)" if "growing f" "?Q s" for f s
    using timers_of_grown that(2) QE by (intro growing_keeps [OF that(1)]) blast+
  have flash: "yields ?Q ?E (flash_files p (timed_flash p) 1 2 (restart (u_args s)) 0 (nat (numberOfPaths (images s))) s)"
    if "?A s" for s
    using that assms(2-4) by (intro flash_files_measure [OF that]) (simp_all add: timers_ahead_def timers_of_def images_def)
  have reboot: "?Q (if rstskip (u_args s) = 0 then s\<lparr>u_world := w\<rparr> else s)" if "?Q s" for s w
    using that timers_of_grown [of ?a _ s "s\<lparr>u_world := w\<rparr>"] by (auto simp: grown_def)
  show ?thesis
    unfolding rtss_updater_preboot_demosequence_def Let_def
    by (rule yields_after [OF first [OF preboot_steps_growing(1) timers_zero_ahead [OF assms(1)]]],
        rule yields_after [OF first [OF preboot_steps_growing(2)]], assumption,
        rule yields_after [OF flash], assumption,
        rule yields_after [OF last [OF preboot_steps_growing(3)]], assumption,
        rule yields_after [OF last [OF growing_steps(4)]], assumption)
      (simp add: reboot)
qed

end
