(* ===== verification/Updater_Kpi_Claims.thy ===== *)
theory Updater_Kpi_Claims
  imports Updater_Measured
begin

text \<open>
  The properties of the time measurement, and of what the sequences do to the arrays of the
  program, with their witnesses.
\<close>

section \<open>Accesses outside an array\<close>

text \<open>The sequences up to the answer with the boot information.\<close>

definition preboot_until_boot_info :: "platform \<Rightarrow> steps" where
  "preboot_until_boot_info p st = after (preboot_check_steps p st) (boot_info_request (preboot_boot_info p))"

definition postboot_until_boot_info :: "platform \<Rightarrow> steps" where
  "postboot_until_boot_info p st =
     after (timed p (postboot_at setOTAdone_startTime_update) (postboot_at setOTAdone_endTime_update) (Ota_done 0 0 0 0) st)
       (boot_info_request (postboot_boot_info p))"

definition flasher_until_boot_info :: "platform \<Rightarrow> steps" where
  "flasher_until_boot_info p st =
     after (exchange p Chkgpt st) (\<lambda>st.
     after (metadata_steps (exchange p) (exchange p) st) (\<lambda>st.
     after (case rtss_updater_get_img_info_default (Some (images st)) of
              (ret, c) \<Rightarrow> Returns (ret, use_images (the c) st))
       (boot_info_request (exchange p))))"

context updater_relation
begin

lemma until_boot_info_kept:
  assumes "R st s"
  shows "yields (R st) (R st) (preboot_until_boot_info p s)" "yields (R st) (R st) (postboot_until_boot_info p s)"
    "yields (R st) (R st) (flasher_until_boot_info p s)"
proof -
  show "yields (R st) (R st) (preboot_until_boot_info p s)"
    unfolding preboot_until_boot_info_def
    by (rule yields_after [OF preboot_check_kept [OF assms]]) (simp add: boot_info_request_kept preboot_boot_info_def)
  show "yields (R st) (R st) (postboot_until_boot_info p s)"
    unfolding postboot_until_boot_info_def
    by (rule yields_after [OF timed_kept [OF assms]]) (simp_all add: boot_info_request_kept postboot_boot_info_def)
  show "yields (R st) (R st) (flasher_until_boot_info p s)"
    unfolding flasher_until_boot_info_def
    by (rule yields_after [OF exchange_kept [OF assms]], rule yields_after [OF metadata_kept], assumption, simp, simp,
        rule yields_after [OF default_images_kept], assumption) (simp add: boot_info_request_kept)
qed

end

definition claims_too_many :: "(u32 \<times> updater) run \<Rightarrow> bool" where
  "claims_too_many res \<longleftrightarrow> (\<exists>s. res = Returns (EXIT_SUCCESS, s) \<and> 5 < unat (numImagesBoot (u_hndshk s)))"

lemma check_counted:
  assumes "counted 0 s" "boot_info_check s \<noteq> Faults"
  shows "sound (counted 0) (boot_info_check s)"
proof (rule counted_kept [OF assms(1) _ shape.boot_info_check_kept [OF shape.refl] counts.boot_info_check_kept [OF counts.refl]])
  show "sound (\<lambda>_. True) (boot_info_check s)"
    using assms(2) by (auto simp: sound_def split: run.splits)
qed

lemma after_check_faults:
  assumes "counted 0 s" "mc_pVa (u_memhandle s) \<noteq> NULL" "\<And>t. counted 0 t \<Longrightarrow> sound (\<lambda>_. True) (rest t)"
  shows "after (boot_info_check s) rest = Faults \<longleftrightarrow> 5 < unat (numImagesBoot (u_hndshk s))"
proof (cases "boot_info_check s = Faults")
  case True
  then show ?thesis
    using boot_info_check_faults [of s] countedD(1) [OF assms(1)] assms(2) by (simp add: after_def updater_shape_def)
next
  case False
  have "sound (\<lambda>_. True) (after (boot_info_check s) rest)"
    by (rule sound_after [OF check_counted [OF assms(1) False] assms(3)])
  then show ?thesis
    using False boot_info_check_faults [of s] countedD(1) [OF assms(1)] assms(2)
    by (auto simp: updater_shape_def dest: sound_no_fault)
qed

text \<open>A state with a buffer in which no image has been counted.\<close>

definition fresh :: "updater \<Rightarrow> bool" where
  "fresh st \<longleftrightarrow> counted 0 st \<and> mc_pVa (u_memhandle st) \<noteq> NULL"

text \<open>A sequence of a first part that keeps the count and the buffer, the check, and a rest.\<close>

lemma sequence_faults:
  assumes "sound fresh res" "\<And>t. counted 0 t \<Longrightarrow> sound (\<lambda>_. True) (rest t)"
  shows "after res (\<lambda>s. after (boot_info_check s) rest) = Faults \<longleftrightarrow> claims_too_many res"
proof -
  have "after (boot_info_check s) rest = Faults \<longleftrightarrow> 5 < unat (numImagesBoot (u_hndshk s))"
    if "res = Returns (EXIT_SUCCESS, s)" for s
    using assms(1) that by (intro after_check_faults assms(2)) (auto simp: fresh_def)
  then show ?thesis
    using after_faults [OF sound_no_fault [OF assms(1)]] by (auto simp: claims_too_many_def)
qed

lemma fresh_kept:
  assumes "fresh st" "sound (\<lambda>_. True) res" "yields (\<lambda>s. updater_shape st \<longrightarrow> updater_shape s) E res"
    "yields (\<lambda>s. timed_images (u_timers s) = timed_images (u_timers st)) E' res"
    "yields (\<lambda>s. u_memhandle s = u_memhandle st \<and> P s) E'' res"
  shows "sound fresh res"
  using sound_yields [OF assms(2) yields_conj [OF yields_conj [OF assms(3,4)] assms(5)]] assms(1)
  by (elim sound_mono) (simp add: fresh_def counted_def timed_images_def)

lemma until_boot_info_sound:
  "sound (\<lambda>_. True) (preboot_until_boot_info p st)" "sound (\<lambda>_. True) (postboot_until_boot_info p st)"
  "sound (\<lambda>_. True) (flasher_until_boot_info p st)"
  by (auto simp: preboot_until_boot_info_def postboot_until_boot_info_def flasher_until_boot_info_def preboot_check_sound
      boot_info_request_sound preboot_boot_info_def postboot_boot_info_def metadata_sound split: prod.splits
      intro!: sound_after [where Q = "\<lambda>_. True"])

lemmas until_shape = shape.until_boot_info_kept [OF shape.refl]
lemmas until_counts = counts.until_boot_info_kept [OF counts.refl]
lemmas until_constants = constants.until_boot_info_kept [OF constants.refl]

lemma until_boot_info_fresh:
  assumes "fresh st"
  shows "sound fresh (preboot_until_boot_info p st)" "sound fresh (postboot_until_boot_info p st)"
    "sound fresh (flasher_until_boot_info p st)"
  by (rule fresh_kept [OF assms until_boot_info_sound(1) until_shape(1) until_counts(1) until_constants(1)],
      rule fresh_kept [OF assms until_boot_info_sound(2) until_shape(2) until_counts(2) until_constants(2)],
      rule fresh_kept [OF assms until_boot_info_sound(3) until_shape(3) until_counts(3) until_constants(3)])

lemma images_bounds: "counted c s \<Longrightarrow> nat (numberOfPaths (images s)) \<le> 5 \<and> nat (numberOfImages (images s)) \<le> 5"
  using countedD(1) [of c s] by (auto simp: updater_shape_def images_shape_def)

lemma update_gpt_counted: "counted c s \<Longrightarrow> sound (counted c) (update_gpt_steps p s)"
  by (rule counted_kept [OF _ update_gpt_sound shape.update_gpt_kept [OF shape.refl] counts.update_gpt_kept [OF counts.refl]])

lemma preboot_rest_sound:
  assumes "counted 0 s"
  shows "sound (\<lambda>_. True) (after (flash_files p (timed_flash p) 1 2 rs 0 (nat (numberOfPaths (images s))) s) (\<lambda>st.
      after (update_gpt_steps p st) (\<lambda>st. after (report_step rtss_updater_record_preboot_kpi_values p st) (\<lambda>st.
      Returns (EXIT_SUCCESS, g st)))))"
proof (rule sound_after)
  show "sound (counted 6) (flash_files p (timed_flash p) 1 2 rs 0 (nat (numberOfPaths (images s))) s)"
    using flash_files_counted [OF assms, of "nat (numberOfPaths (images s))"] images_bounds [OF assms]
    by (fastforce elim!: sound_mono simp: counted_def)
  show "sound (\<lambda>_. True) (after (update_gpt_steps p t) (\<lambda>st. after (report_step rtss_updater_record_preboot_kpi_values p st)
      (\<lambda>st. Returns (EXIT_SUCCESS, g st))))" if "counted 6 t" for t
    by (rule sound_after [OF update_gpt_counted [OF that]], rule sound_after [OF report_sound(1)], assumption) simp
qed

lemma postboot_rest_sound:
  assumes "counted 0 s" "recording a" "recording b"
  shows "sound (\<lambda>_. True) (after (timed p a b Chkgpt s) (\<lambda>st.
     after (copy_images p 0 (nat (numberOfImages (images st))) st) (\<lambda>st. after (postboot_fix_steps p st) (\<lambda>st.
     after (postboot_metadata_steps p st) (report_step rtss_updater_record_postboot_kpi_values p)))))"
proof (rule sound_after [OF timed_counted [OF assms]], rule sound_after)
  show "sound (counted 6) (copy_images p 0 (nat (numberOfImages (images t))) t)" if "counted 0 t" for t
    using copy_images_counted [OF that, of "nat (numberOfImages (images t))" 0] images_bounds [OF that]
    by (fastforce elim!: sound_mono simp: counted_def)
  have fx: "sound (counted 6) (postboot_fix_steps p t)" "sound (counted 6) (postboot_metadata_steps p t)" if "counted 6 t" for t
    by (rule counted_kept [OF that postboot_fix_sound shape.postboot_fix_kept [OF shape.refl]
          counts.postboot_fix_kept [OF counts.refl]],
        rule counted_kept [OF that postboot_metadata_sound shape.postboot_metadata_kept [OF shape.refl]
          counts.postboot_metadata_kept [OF counts.refl]])
  show "sound (\<lambda>_. True) (after (postboot_fix_steps p t) (\<lambda>st.
     after (postboot_metadata_steps p st) (report_step rtss_updater_record_postboot_kpi_values p)))" if "counted 6 t" for t
    by (rule sound_after [OF fx(1) [OF that]], rule sound_after [OF fx(2)], assumption, erule report_sound(2))
qed

lemma each_bank_sound: "(\<And>b s. sound (\<lambda>_. True) (f b s)) \<Longrightarrow> sound (\<lambda>_. True) (each_bank f bank n st)"
  by (induction n arbitrary: bank st) (auto intro!: sound_after [where Q = "\<lambda>_. True"])

lemma flash_file_sound: "sound (\<lambda>_. True) (flash_file p (\<lambda>_ _. exchange p) img path part flashtype rs st)"
  by (simp add: flash_file_def Let_def split: prod.splits)

lemma flash_files_sound: "sound (\<lambda>_. True) (flash_files p (\<lambda>_ _. exchange p) part flashtype rs i n st)"
  by (induction n arbitrary: i st) (auto intro!: sound_after [OF flash_file_sound])

lemma flasher_rest_sound:
  "sound (\<lambda>_. True) (case flash_banks (a_partition (u_args s)) of None \<Rightarrow> Returns (EXIT_FAILURE, s)
     | Some (startBank, stopBank) \<Rightarrow>
         if skipConfigFile (u_args s) = 1 then flash_one_image p startBank stopBank s
         else flash_config_images p startBank stopBank s)"
  by (auto simp: flash_one_image_def flash_config_images_def flash_file_sound flash_files_sound
      split: option.splits prod.splits intro!: each_bank_sound sound_after [where Q = "\<lambda>_. True"])

text \<open>Where a run of the model leaves an array.\<close>

lemma sequences_fault:
  assumes "updater_shape st" "count_timer (u_timers st) = 0" "mc_pVa (u_memhandle st) \<noteq> NULL"
  shows "rtss_updater_preboot_demosequence p st = Faults \<longleftrightarrow> claims_too_many (preboot_until_boot_info p st)"
    "rtss_updater_postboot_demosequence p st = Faults \<longleftrightarrow>
       ackstate (u_args st) \<noteq> 1 \<and> claims_too_many (postboot_until_boot_info p st)"
    "rtss_updater_devprog_flasher p st = Faults \<longleftrightarrow> claims_too_many (flasher_until_boot_info p st)"
proof -
  have fresh: "fresh st"
    using assms by (simp add: fresh_def counted_def)
  note part = until_boot_info_fresh [OF fresh]
  show "rtss_updater_preboot_demosequence p st = Faults \<longleftrightarrow> claims_too_many (preboot_until_boot_info p st)"
    using sequence_faults [OF part(1) preboot_rest_sound]
    by (simp add: rtss_updater_preboot_demosequence_def preboot_until_boot_info_def boot_info_steps_def after_assoc Let_def)
  show "rtss_updater_devprog_flasher p st = Faults \<longleftrightarrow> claims_too_many (flasher_until_boot_info p st)"
    using sequence_faults [OF part(3) flasher_rest_sound]
    by (simp add: rtss_updater_devprog_flasher_def flasher_until_boot_info_def boot_info_steps_def after_assoc)
  show "rtss_updater_postboot_demosequence p st = Faults \<longleftrightarrow>
      ackstate (u_args st) \<noteq> 1 \<and> claims_too_many (postboot_until_boot_info p st)"
  proof -
    let ?first = "timed p (postboot_at setOTAdone_startTime_update) (postboot_at setOTAdone_endTime_update) (Ota_done 0 0 0 0) st"
    have same: "ackstate (u_args s) = ackstate (u_args st)" if "?first = Returns (r, s)" for r s
      using yieldsD [OF issuesD [OF issues_timed] that] by (auto simp: sent_def answered_def split: if_splits)
    have ne: "?first \<noteq> Faults"
      by (rule sound_no_fault [OF timed_sound])
    let ?rest = "\<lambda>s. after (timed p (postboot_at post_checkGPT_startTime_update) (postboot_at post_checkGPT_endTime_update) Chkgpt s)
      (\<lambda>st. after (copy_images p 0 (nat (numberOfImages (images st))) st) (\<lambda>st. after (postboot_fix_steps p st) (\<lambda>st.
       after (postboot_metadata_steps p st) (report_step rtss_updater_record_postboot_kpi_values p))))"
    show ?thesis
    proof (cases "ackstate (u_args st) = 1")
      case True
      then show ?thesis
        using same by (auto simp: rtss_updater_postboot_demosequence_def after_faults [OF ne])
    next
      case False
      have "rtss_updater_postboot_demosequence p st = after (postboot_until_boot_info p st) (\<lambda>s. after (boot_info_check s) ?rest)"
        unfolding rtss_updater_postboot_demosequence_def postboot_until_boot_info_def boot_info_steps_def after_assoc
        using same False by (intro after_same) simp
      then show ?thesis
        using False sequence_faults [OF part(2), of ?rest] postboot_rest_sound by simp
    qed
  qed
qed

text \<open>C8: No sequence accesses an element outside the two arrays that it indexes, the entries of the boot
  information and the timers of the images, unless the answer with the boot information claims more
  than five images: the check of that answer, which trusts the number, is the step that leaves the
  array of the entries, and exactly then. The accesses to the mapped buffer are not meant: the model does not know
  where that buffer ends.\<close>

theorem sequences_stay_in_arrays:
  assumes "updater_shape st" "count_timer (u_timers st) = 0" "mc_pVa (u_memhandle st) \<noteq> NULL"
  shows "(rtss_updater_preboot_demosequence p st = Faults \<longrightarrow> claims_too_many (preboot_until_boot_info p st))
    \<and> (rtss_updater_postboot_demosequence p st = Faults \<longrightarrow>
         ackstate (u_args st) \<noteq> 1 \<and> claims_too_many (postboot_until_boot_info p st))
    \<and> (rtss_updater_devprog_flasher p st = Faults \<longrightarrow> claims_too_many (flasher_until_boot_info p st))
    \<and> (\<forall>s. updater_shape s \<and> mc_pVa (u_memhandle s) \<noteq> NULL \<longrightarrow>
         (boot_info_check s = Faults \<longleftrightarrow> 5 < unat (numImagesBoot (u_hndshk s))))"
  using sequences_fault [OF assms] boot_info_check_faults by (simp add: updater_shape_def)

text \<open>Five images are taken, of six the last has no place.\<close>

theorem sequences_stay_in_arrays_witness:
  "\<not> claims_too_many (preboot_until_boot_info demo_platform (demo_updater None None demo_mem))
    \<and> rtss_updater_preboot_demosequence demo_platform (demo_updater None None demo_mem) \<noteq> Faults
    \<and> boot_info_check (demo_updater None None demo_mem\<lparr>u_hndshk := demo_handshake\<lparr>numImagesBoot := 5\<rparr>\<rparr>) \<noteq> Faults
    \<and> boot_info_check (demo_updater None None demo_mem\<lparr>u_hndshk := demo_handshake\<lparr>numImagesBoot := 6\<rparr>\<rparr>) = Faults"
proof -
  let ?st = "demo_updater None None demo_mem"
  let ?claiming = "\<lambda>n. ?st\<lparr>u_hndshk := demo_handshake\<lparr>numImagesBoot := n\<rparr>\<rparr>"
  have st: "count_timer (u_timers ?st) = 0" "mc_pVa (u_memhandle ?st) \<noteq> NULL" "\<not> kpiEnable (u_args ?st)"
    by (simp_all add: demo_updater_def timers_zero_def demo_args_def)
  have "updater_shape (?claiming n) \<and> mc_pVa (u_memhandle (?claiming n)) \<noteq> NULL" for n
    using demo_updater_facts(5) [of None None demo_mem] st(2)
    by (simp add: updater_shape_def images_def) (simp add: demo_updater_def)
  moreover have "\<not> claims_too_many (preboot_until_boot_info demo_platform ?st)"
    by (simp add: claims_too_many_def preboot_until_boot_info_def preboot_check_steps_def
        timed_no_channel [OF demo_updater_facts(3) st(3)] after_failure) (simp add: EXIT_FAILURE_def EXIT_SUCCESS_def)
  ultimately show ?thesis
    using sequences_stay_in_arrays [OF demo_updater_facts(5) st(1,2), of demo_platform] by auto
qed

section \<open>The reports\<close>

text \<open>The number of calls of \<open>fprintf\<close> that succeed before the first that fails, of \<open>n\<close> from the \<open>i\<close>-th
  call of the run on.\<close>

definition writes_before_failure :: "platform \<Rightarrow> nat \<Rightarrow> nat \<Rightarrow> nat" where
  "writes_before_failure p i n = length (takeWhile (\<lambda>j. 0 \<le> a_ret (answer p j)) [i..<i + n])"

lemma fprintf_failed: "s < 0 \<Longrightarrow> fold (rtss_updater_fprintf p) ls (s, out, w) = (s, out, w)"
  by (induction ls) simp_all

lemma fprintf_lines:
  "\<exists>s w'. fold (rtss_updater_fprintf p) ls (0, out, w)
     = (s, out @ take (writes_before_failure p (w_now w) (length ls)) ls, w')"
proof (induction ls arbitrary: out w)
  case Nil
  show ?case by simp
next
  case (Cons l ls)
  obtain a w1 where a: "sys p Sys_fprintf w = (a, w1)" by fastforce
  then have w1: "a = answer p (w_now w)" "w_now w1 = Suc (w_now w)"
    by (auto simp: sys_def Let_def)
  have "[w_now w..<w_now w + length (l # ls)] = w_now w # [Suc (w_now w)..<Suc (w_now w) + length ls]"
    using upt_conv_Cons [of "w_now w" "w_now w + length (l # ls)"] by simp
  then have n: "writes_before_failure p (w_now w) (length (l # ls)) =
      (if 0 \<le> a_ret a then Suc (writes_before_failure p (w_now w1) (length ls)) else 0)"
    by (simp add: writes_before_failure_def w1)
  show ?case
  proof (cases "a_ret a < 0")
    case True
    then show ?thesis
      unfolding n by (simp add: a fprintf_failed)
  next
    case False
    then show ?thesis
      unfolding n using Cons.IH [of "out @ [l]" w1] by (simp add: a)
  qed
qed

lemma write_report_lines:
  assumes "a_ret (answer p (w_now w)) \<noteq> 0" "write_report p path ls w = (out, w')"
  shows "out = take (writes_before_failure p (Suc (w_now w)) (length ls)) ls"
proof -
  obtain a w1 where a: "sys p (Sys_fopen path) w = (a, w1)" by fastforce
  then have w1: "a = answer p (w_now w)" "w_now w1 = Suc (w_now w)"
    by (auto simp: sys_def Let_def)
  show ?thesis
    using fprintf_lines [of p ls "[]" w1] assms by (auto simp: write_report_def a w1)
qed

text \<open>C37: A report that can be opened receives its lines in order up to the first one that cannot be
  written, and nothing after it; whatever fails, its stream is closed again.\<close>

theorem kpi_report_prefix:
  assumes "(record, report) \<in> {(rtss_updater_record_preboot_kpi_values, preboot_report),
      (rtss_updater_record_postboot_kpi_values, postboot_report)}"
    "record p True path k w = Returns (out, w')"
  shows "wheld w' = wheld w \<and> out = (if a_ret (answer p (w_now w)) = 0 then []
    else take (writes_before_failure p (Suc (w_now w)) (length (report k))) (report k))"
proof -
  have run: "write_report p path (report k) w = (out, w')"
    using assms by (auto simp: rtss_updater_record_preboot_kpi_values_def rtss_updater_record_postboot_kpi_values_def
        split: if_splits)
  show ?thesis
  proof (cases "a_ret (answer p (w_now w)) = 0")
    case True
    then have "out = []"
      using run by (auto simp: write_report_def sys_def Let_def)
    then show ?thesis
      using True write_report_held [OF run] by simp
  next
    case False
    then show ?thesis
      using write_report_held [OF run] write_report_lines [OF False run] by simp
  qed
qed

text \<open>The file opens, three lines are written, the fourth fails.\<close>

definition demo_full_disk :: platform where
  "demo_full_disk = demo_platform\<lparr>answer := (\<lambda>k. \<lparr>a_ret = (if k = 4 then -1 else 1), a_err = 28, a_size = 0, a_addr = 0,
     a_revents = 0, a_mode = 0, a_data = [], a_peer = id\<rparr>)\<rparr>"

theorem kpi_report_prefix_witness:
  "\<exists>w'. rtss_updater_record_preboot_kpi_values demo_full_disk True [] timers_zero (demo_world demo_mem) =
      Returns ([Heading ''Pre Boot KPI Value MeasureMent'', Heading ''Preboot Sequence'', Elapsed ''Total Preboot'' 0], w')"
proof -
  obtain out w' where run: "rtss_updater_record_preboot_kpi_values demo_full_disk True [] timers_zero (demo_world demo_mem)
      = Returns (out, w')"
    by (cases "write_report demo_full_disk [] (preboot_report timers_zero) (demo_world demo_mem)")
      (simp add: rtss_updater_record_preboot_kpi_values_def timers_zero_def)
  have l: "preboot_report timers_zero = [Heading ''Pre Boot KPI Value MeasureMent'', Heading ''Preboot Sequence'',
      Elapsed ''Total Preboot'' 0, Elapsed ''Check GPT'' 0, Elapsed ''Get Meta Partition Info'' 0, Elapsed ''Get Meta Data'' 0,
      Elapsed ''Get Boot Info'' 0, Elapsed ''Update GPT'' 0, Heading ''Image'']"
    by (simp add: preboot_report_def timers_zero_def Total_elapsedtime_def no_time_def recorded_def)
  have "writes_before_failure demo_full_disk 1 (length (preboot_report timers_zero)) = 3"
    by (simp add: l writes_before_failure_def demo_full_disk_def upt_rec)
  moreover have "w_now (demo_world demo_mem) = 0" "a_ret (answer demo_full_disk 0) \<noteq> 0"
    by (simp_all add: demo_full_disk_def demo_world_def)
  moreover have "out = (if a_ret (answer demo_full_disk (w_now (demo_world demo_mem))) = 0 then []
      else take (writes_before_failure demo_full_disk (Suc (w_now (demo_world demo_mem))) (length (preboot_report timers_zero)))
        (preboot_report timers_zero))"
    using kpi_report_prefix [of rtss_updater_record_preboot_kpi_values preboot_report, OF _ run] by blast
  ultimately show ?thesis
    using run l by simp
qed

section \<open>What is measured\<close>

text \<open>Five seconds after the start of the system, with the measurement on.\<close>

definition demo_clock :: platform where
  "demo_clock = demo_platform\<lparr>answer := (\<lambda>k. \<lparr>a_ret = 0, a_err = 0, a_size = 7000000, a_addr = 5, a_revents = 0,
     a_mode = 0, a_data = [], a_peer = id\<rparr>)\<rparr>"



text \<open>C36: The last step of the sequence after the restart is never timed, so that its time is reported as
  zero, and the total, taken up to its end, as the negative of the time at which the sequence
  started.\<close>

theorem postboot_total_negative:
  assumes "rtss_updater_postboot_demosequence p st = Returns (r, st')" "u_timers st = timers_zero"
    "start = setOTAdone_startTime (postboot_timer (u_timers st'))"
  shows "Elapsed ''Total Postboot'' (- (tv_sec start * 1000 + tv_nsec start sdiv 1000000)) \<in> set (postboot_report (u_timers st'))
    \<and> Elapsed ''Update MRC'' 0 \<in> set (postboot_report (u_timers st'))"
proof -
  have "updateMRC_startTime (postboot_timer (u_timers st')) = no_time" "updateMRC_endTime (postboot_timer (u_timers st')) = no_time"
    using yieldsD [OF constants.postboot_kept [OF constants.refl] assms(1)] assms(2)
    by (simp_all add: timers_zero_def split: if_splits)
  then show ?thesis
    by (simp add: postboot_report_def Let_def Total_elapsedtime_def no_time_def assms(3))
qed

theorem postboot_total_negative_witness:
  "\<exists>st'. rtss_updater_postboot_demosequence demo_clock
      (demo_updater None None demo_mem\<lparr>u_args := demo_args\<lparr>kpiEnable := True\<rparr>\<rparr>) = Returns (EXIT_FAILURE, st')
    \<and> Elapsed ''Total Postboot'' (-5007) \<in> set (postboot_report (u_timers st'))"
proof -
  let ?st = "demo_updater None None demo_mem\<lparr>u_args := demo_args\<lparr>kpiEnable := True\<rparr>\<rparr>"
  let ?s = "rtss_updater_clock_get_time demo_clock (postboot_at setOTAdone_startTime_update) ?st"
  have "rtss_updater_tx_client_data (u_globals ?s) = None"
    by (simp add: rtss_updater_clock_get_time_def demo_updater_def Let_def split: prod.splits)
  then have run: "rtss_updater_postboot_demosequence demo_clock ?st
      = Returns (EXIT_FAILURE, ?s\<lparr>u_log := u_log ?s @ [Request (Ota_done 0 0 0 0)]\<rparr>)"
    by (simp add: rtss_updater_postboot_demosequence_def timed_def exchange_no_channel after_failure)
  have z: "u_timers ?st = timers_zero"
    by (simp add: demo_updater_def)
  have "setOTAdone_startTime (postboot_timer (u_timers ?s)) = \<lparr>tv_sec = 5, tv_nsec = 7000000\<rparr>"
    by (simp add: rtss_updater_clock_get_time_def sys_def Let_def demo_clock_def postboot_at_def)
  then show ?thesis
    using postboot_total_negative [OF run z refl] run by simp
qed

end
