(* ===== verification/Std_Functions.thy ===== *)
theory Std_Functions
  imports OS_World
begin

text \<open>
  The functions of the C library that the small programs use on strings: \<open>strtol\<close> with a \<open>long\<close> of 64
  bits, the conversion of its result to \<open>int\<close>, decimal output and \<open>snprintf\<close> with a string.
\<close>

section \<open>Reading numbers\<close>

definition is_space :: "u8 \<Rightarrow> bool" where
  "is_space c \<longleftrightarrow> c = 32 \<or> (9 \<le> c \<and> c \<le> 13)"

definition digit_value :: "u8 \<Rightarrow> nat" where
  "digit_value c = (if 48 \<le> c \<and> c \<le> 57 then unat (c - 48)
     else if 97 \<le> c \<and> c \<le> 122 then unat (c - 87)
     else if 65 \<le> c \<and> c \<le> 90 then unat (c - 55) else 99)"

text \<open>The digits at the start: their value and what follows them.\<close>

fun read_digits :: "nat \<Rightarrow> int \<Rightarrow> u8 list \<Rightarrow> int \<times> u8 list" where
  "read_digits b n [] = (n, [])"
| "read_digits b n (c # s) = (if digit_value c < b then read_digits b (int b * n + int (digit_value c)) s else (n, c # s))"

definition has_digit :: "nat \<Rightarrow> u8 list \<Rightarrow> bool" where
  "has_digit b s \<longleftrightarrow> s \<noteq> [] \<and> digit_value (hd s) < b"

text \<open>The base of a number written with a prefix, and its digits.\<close>

definition number_base :: "nat \<Rightarrow> u8 list \<Rightarrow> nat \<times> u8 list" where
  "number_base b s =
     (if b \<noteq> 0 then (b, s)
      else case s of
        c # x # t \<Rightarrow> if c = 48 \<and> (x = 120 \<or> x = 88) \<and> has_digit 16 t then (16, t)
                     else if c = 48 then (8, s) else (10, s)
      | _ \<Rightarrow> (10, s))"

text \<open>The value, what \<open>endptr\<close> points to, and whether \<open>errno\<close> is set to \<open>ERANGE\<close>.\<close>

definition strtol :: "nat \<Rightarrow> u8 list \<Rightarrow> int \<times> u8 list \<times> bool" where
  "strtol b s =
     (let t = dropWhile is_space s;
          neg = (t \<noteq> [] \<and> hd t = 45);
          t = (if t \<noteq> [] \<and> (hd t = 45 \<or> hd t = 43) then tl t else t)
      in case number_base b t of (b, t) \<Rightarrow>
        if \<not> has_digit b t then (0, s, False)
        else case read_digits b 0 t of (n, rest) \<Rightarrow>
          let v = (if neg then - n else n)
          in if v > 2 ^ 63 - 1 then (2 ^ 63 - 1, rest, True)
             else if v < - (2 ^ 63) then (- (2 ^ 63), rest, True)
             else (v, rest, False))"

definition int_of_long :: "int \<Rightarrow> int" where
  "int_of_long v = sint (word_of_int v :: u32)"

section \<open>Writing text\<close>

fun decimal :: "nat \<Rightarrow> u8 list" where
  "decimal n = (if n < 10 then [48 + of_nat n] else decimal (n div 10) @ [48 + of_nat (n mod 10)])"

declare decimal.simps [simp del]

text \<open>\<open>snprintf\<close> of a string into an array of \<open>n\<close> bytes: the result and the text stored.\<close>

definition snprintf_str :: "nat \<Rightarrow> u8 list \<Rightarrow> int \<times> u8 list" where
  "snprintf_str n s = (int (length s), take (n - 1) s)"

definition exit_success :: int where "exit_success = 0"
definition exit_failure :: int where "exit_failure = 1"

end
