(* ===== verification/Console.thy ===== *)
theory Console
  imports Std_Functions Mailbox
begin

text \<open>
  The console, \<^verbatim>\<open>apps/rtss-console/src/rtss_console.c\<close>: it copies what arrives on the log channel to
  standard output. The flag that the signal handler clears may change at any time; it is the
  parameter \<open>g_running\<close>, a function of the number of calls made so far.
\<close>

definition RTSS_CONSOLE_CHANNEL :: "u8 list" where "RTSS_CONSOLE_CHANNEL = ascii ''/dev/sail/log''"
definition RTSS_CONSOLE_BUF_SIZE :: nat where "RTSS_CONSOLE_BUF_SIZE = 24576"

text \<open>The loop; the result of \<open>write\<close> is only tested for failure.\<close>

partial_function (option) console_loop ::
  "platform \<Rightarrow> (nat \<Rightarrow> bool) \<Rightarrow> rtss_mb_handle option \<Rightarrow> addr \<Rightarrow> world \<Rightarrow> world option" where
  "console_loop p g_running client buf w =
     (if \<not> g_running (w_now w) then Some w
      else case rtss_mb_read p client buf (of_nat RTSS_CONSOLE_BUF_SIZE) w of
        None \<Rightarrow> None
      | Some (ret, w) \<Rightarrow>
          if ret = - EINTR then Some w
          else if ret \<le> 0 then Some w
          else case sys p (Sys_write 1 (bytes_at (w_mem w) buf (nat ret))) w of (a, w) \<Rightarrow>
            if a_ret a < 0 then Some w else console_loop p g_running client buf w)"

definition console_main :: "platform \<Rightarrow> (nat \<Rightarrow> bool) \<Rightarrow> world \<Rightarrow> (int \<times> world) option" where
  "console_main p g_running w =
     (case sys p (Sys_malloc RTSS_CONSOLE_BUF_SIZE) w of (b, w) \<Rightarrow>
        if a_ret b = 0 then Some (exit_failure, w)
        else case rtss_mb_open p True (Some RTSS_CONSOLE_CHANNEL) w of ((ret, client), w) \<Rightarrow>
          if ret \<noteq> RTSS_MB_RETURN_SUCCESS then Some (exit_failure, snd (sys p Sys_free w))
          else case console_loop p g_running client (nat (a_ret b)) w of
            None \<Rightarrow> None
          | Some w \<Rightarrow> Some (exit_success, snd (sys p Sys_free (snd (rtss_mb_close p client w)))))"

end
