(* ===== verification/Peer_Reads.thy ===== *)
theory Peer_Reads
  imports Updater_Init_Props Mailbox_Held
begin

text \<open>
  Reading while the other processor writes: if all it does to a channel is to put items behind those
  that wait, then a read that may wait any number of times delivers a first part of the items that
  have been put there, and the rest waits.
\<close>

text \<open>What is known of the other processor: the blocks it uses, which lie outside the channel, and
  which items it may add while the \<open>k\<close>-th call of the program is made.\<close>

record peer =
  blocks :: "(addr \<times> nat) set"
  may_add :: "nat \<Rightarrow> u8 list list \<Rightarrow> bool"

definition anyone :: peer where
  "anyone = \<lparr>blocks = {}, may_add = (\<lambda>_ _. True)\<rparr>"

text \<open>\<open>n\<close> bytes at \<open>buf\<close> are the caller's buffer.\<close>

definition reader_ok :: "peer \<Rightarrow> rtss_mb_handle \<Rightarrow> addr \<Rightarrow> nat \<Rightarrow> mem \<Rightarrow> bool" where
  "reader_ok q h buf n m \<longleftrightarrow> handle_ok m h \<and> buf_ok m h buf n \<and> h_isz h \<le> n \<and> (\<forall>(a, k) \<in> blocks q. buf_ok m h a k)"

definition peer_adds :: "platform \<Rightarrow> peer \<Rightarrow> rtss_mb_handle \<Rightarrow> addr \<Rightarrow> nat \<Rightarrow> bool" where
  "peer_adds p q h buf n \<longleftrightarrow> (\<forall>k m. reader_ok q h buf n m \<longrightarrow>
     reader_ok q h buf n (a_peer (answer p k) m)
     \<and> (\<exists>ys. may_add q k ys \<and> h_items (a_peer (answer p k) m) h = h_items m h @ ys))"

abbreviation peer_appends :: "platform \<Rightarrow> rtss_mb_handle \<Rightarrow> addr \<Rightarrow> nat \<Rightarrow> bool" where
  "peer_appends p \<equiv> peer_adds p anyone"

text \<open>From \<open>w\<close> to \<open>w'\<close> the items \<open>taken\<close> were delivered, while \<open>f k\<close> was added at the \<open>k\<close>-th call.\<close>

definition delivered :: "peer \<Rightarrow> rtss_mb_handle \<Rightarrow> addr \<Rightarrow> nat \<Rightarrow> u8 list list \<Rightarrow> world \<Rightarrow> world \<Rightarrow> bool" where
  "delivered q h buf n taken w w' \<longleftrightarrow> reader_ok q h buf n (w_mem w') \<and> w_now w \<le> w_now w' \<and>
     (\<exists>f. (\<forall>k \<in> {w_now w..<w_now w'}. may_add q k (f k)) \<and>
        h_items (w_mem w) h @ concat (map f [w_now w..<w_now w']) = taken @ h_items (w_mem w') h)"

lemma delivered_refl: "reader_ok q h buf n (w_mem w) \<Longrightarrow> delivered q h buf n [] w w"
  by (simp add: delivered_def)

lemma delivered_trans:
  assumes "delivered q h buf n xs w1 w2" "delivered q h buf n ys w2 w3"
  shows "delivered q h buf n (xs @ ys) w1 w3"
proof -
  obtain f g where f: "\<forall>k \<in> {w_now w1..<w_now w2}. may_add q k (f k)"
      "h_items (w_mem w1) h @ concat (map f [w_now w1..<w_now w2]) = xs @ h_items (w_mem w2) h"
    and g: "\<forall>k \<in> {w_now w2..<w_now w3}. may_add q k (g k)"
      "h_items (w_mem w2) h @ concat (map g [w_now w2..<w_now w3]) = ys @ h_items (w_mem w3) h"
    using assms unfolding delivered_def by blast
  have le: "w_now w1 \<le> w_now w2" "w_now w2 \<le> w_now w3"
    using assms by (simp_all add: delivered_def)
  let ?f = "\<lambda>k. if k < w_now w2 then f k else g k"
  have "[w_now w1..<w_now w3] = [w_now w1..<w_now w2] @ [w_now w2..<w_now w3]"
    using upt_add_eq_append [OF le(1), of "w_now w3 - w_now w2"] le by simp
  moreover have "map ?f [w_now w1..<w_now w2] = map f [w_now w1..<w_now w2]"
    "map ?f [w_now w2..<w_now w3] = map g [w_now w2..<w_now w3]"
    by auto
  ultimately have "concat (map ?f [w_now w1..<w_now w3]) = concat (map f [w_now w1..<w_now w2]) @ concat (map g [w_now w2..<w_now w3])"
    by (simp only: map_append concat_append)
  then have "h_items (w_mem w1) h @ concat (map ?f [w_now w1..<w_now w3]) = (xs @ ys) @ h_items (w_mem w3) h"
    using f(2) g(2) by (metis append_assoc)
  moreover have "\<forall>k \<in> {w_now w1..<w_now w3}. may_add q k (?f k)"
    using f(1) g(1) by auto
  ultimately show ?thesis
    using assms(2) le by (auto simp: delivered_def intro!: exI [of _ ?f])
qed

lemma delivered_sys:
  assumes "peer_adds p q h buf n" "reader_ok q h buf n (w_mem w)" "sys p c w = (a, w')"
  shows "delivered q h buf n [] w w'"
proof -
  have w': "w_mem w' = a_peer (answer p (w_now w)) (w_mem w)" "w_now w' = Suc (w_now w)"
    using assms(3) by (auto simp: sys_def Let_def)
  moreover obtain ys where "h_items (a_peer (answer p (w_now w)) (w_mem w)) h = h_items (w_mem w) h @ ys"
    "reader_ok q h buf n (a_peer (answer p (w_now w)) (w_mem w))" "may_add q (w_now w) ys"
    using assms(1,2) unfolding peer_adds_def by blast
  ultimately show ?thesis
    by (auto simp: delivered_def intro!: exI [of _ "\<lambda>_. ys"])
qed

lemma delivered_ok: "delivered q h buf n xs w w' \<Longrightarrow> reader_ok q h buf n (w_mem w')"
  by (simp add: delivered_def)

text \<open>What a program writes: the calls in a trace that put bytes into a stream.\<close>

fun written_by :: "syscall \<times> int \<Rightarrow> u8 list" where
  "written_by (Sys_write fd bs, r) = bs"
| "written_by (Sys_fwrite bs, r) = bs"
| "written_by _ = []"

definition written :: "world \<Rightarrow> u8 list" where
  "written w = concat (map written_by (w_trace w))"

lemma written_sys: "sys p c w = (a, w') \<Longrightarrow> written w' = written w @ written_by (c, a_ret a)"
  by (auto simp: written_def sys_def Let_def)

section \<open>Waiting\<close>

definition wait_post ::
  "peer \<Rightarrow> rtss_mb_handle \<Rightarrow> addr \<Rightarrow> nat \<Rightarrow> world \<Rightarrow> (int + int) \<times> world \<Rightarrow> bool" where
  "wait_post q h buf sz w r \<longleftrightarrow> delivered q h buf sz [] w (snd r) \<and> written (snd r) = written w \<and>
     (case fst r of Inl e \<Rightarrow> e < 0 | Inr k \<Rightarrow> k = int (length (h_items (w_mem (snd r)) h)) \<and> 0 < k)"

lemma wait_post_trans:
  "delivered q h buf sz [] w v \<Longrightarrow> written v = written w \<Longrightarrow> wait_post q h buf sz v r \<Longrightarrow> wait_post q h buf sz w r"
  using delivered_trans [of q h buf sz "[]" w v "[]"] by (simp add: wait_post_def)

definition wait_pre ::
  "platform \<Rightarrow> peer \<Rightarrow> rtss_mb_handle \<Rightarrow> addr \<Rightarrow> nat \<Rightarrow> int \<Rightarrow> world \<Rightarrow> bool" where
  "wait_pre p q h buf sz n w \<longleftrightarrow> peer_adds p q h buf sz \<and> errno_pos p \<and> reader_ok q h buf sz (w_mem w) \<and>
     n = int (length (h_items (w_mem w) h))"

lemma Get_ValidItemNum_items:
  "handle_ok m h \<Longrightarrow>
   LibMB_Get_ValidItemNum m (h_p_mb_base_addr h) (h_subregion_index h) = int (length (h_items m h))"
  using LibMB_counts(1) [OF handle_okD(1)] by (simp add: h_items_def)

lemma reader_ok_handle: "reader_ok q h buf n m \<Longrightarrow> handle_ok m h"
  by (simp add: reader_ok_def)

lemma read_wait_step:
  assumes IH: "\<And>n w r. rec n w = Some r \<Longrightarrow> wait_pre p q h buf sz n w \<Longrightarrow> wait_post q h buf sz w r"
    and d: "delivered q h buf sz [] w v" "written v = written w"
    and pre: "peer_adds p q h buf sz" "errno_pos p"
    and run: "(let n = LibMB_Get_ValidItemNum (w_mem v) (h_p_mb_base_addr h) (h_subregion_index h)
      in if n < 0 then Some (Inl (- EIO), v) else rec n v) = Some r"
  shows "wait_post q h buf sz w r"
proof -
  have ok: "reader_ok q h buf sz (w_mem v)"
    by (rule delivered_ok [OF d(1)])
  then have "rec (int (length (h_items (w_mem v) h))) v = Some r"
    using run by (simp add: Let_def Get_ValidItemNum_items reader_ok_handle)
  then have "wait_post q h buf sz v r"
    by (rule IH) (simp add: wait_pre_def ok pre)
  then show ?thesis
    by (rule wait_post_trans [OF d])
qed

lemma wait_post_error:
  "delivered q h buf sz [] w v \<Longrightarrow> written v = written w \<Longrightarrow> e < 0 \<Longrightarrow> wait_post q h buf sz w (Inl e, v)"
  by (simp add: wait_post_def)

lemma wait_sys:
  assumes "wait_pre p q h buf sz n w" "delivered q h buf sz [] w v" "written v = written w"
    "sys p c v = (a, u)" "written_by (c, a_ret a) = []"
  shows "delivered q h buf sz [] w u" "written u = written w" "0 < a_err a"
  using delivered_trans [OF assms(2) delivered_sys [OF _ delivered_ok [OF assms(2)] assms(4)]] assms(1,3)
    written_sys [OF assms(4)] assms(5) sys_answer [OF assms(4)]
  by (simp_all add: wait_pre_def errno_pos_def)

lemma read_wait_delivers:
  "read_wait p h ms n w = Some r \<Longrightarrow> wait_pre p q h buf sz n w \<longrightarrow> wait_post q h buf sz w r"
proof (rule read_wait.raw_induct [where P = "\<lambda>p h ms n w r. wait_pre p q h buf sz n w \<longrightarrow> wait_post q h buf sz w r"],
    rule impI)
  fix rec p h ms n w r
  assume IH: "\<And>p h ms n w r. rec p h ms n w = Some r \<Longrightarrow> wait_pre p q h buf sz n w \<longrightarrow> wait_post q h buf sz w r"
    and run: "(if n \<noteq> 0 then Some (Inr n, w)
      else case sys p (Sys_poll (h_event_fd h) ms) w of (a, w) \<Rightarrow>
        if a_ret a = -1 then Some (Inl (if a_err a = EINTR then - EINTR else - a_err a), w)
        else if a_ret a = 0 then Some (Inl (- ETIMEDOUT), w)
        else case (if a_revents a AND POLLIN \<noteq> 0
                   then (case sys p (Sys_eventfd_read (h_event_fd h)) w of (b, w) \<Rightarrow>
                           (if a_ret b = -1 then Some (- a_err b) else None, w))
                   else if a_revents a AND (POLLNVAL OR POLLERR OR POLLHUP) \<noteq> 0
                   then (Some (- ECONNRESET), w)
                   else (None, w)) of
               (Some e, w) \<Rightarrow> Some (Inl e, w)
             | (None, w) \<Rightarrow>
                 let n = LibMB_Get_ValidItemNum (w_mem w) (h_p_mb_base_addr h) (h_subregion_index h)
                 in if n < 0 then Some (Inl (- EIO), w)
                    else rec p h ms n w) = Some r"
    and pre: "wait_pre p q h buf sz n w"
  obtain a w1 where poll: "sys p (Sys_poll (h_event_fd h) ms) w = (a, w1)"
    by fastforce
  obtain b w2 where rd: "sys p (Sys_eventfd_read (h_event_fd h)) w1 = (b, w2)"
    by fastforce
  have d0: "delivered q h buf sz [] w w"
    using pre by (simp add: wait_pre_def delivered_refl)
  note d1 = wait_sys [OF pre d0 refl poll, simplified]
  note d2 = wait_sys [OF pre d1(1,2) rd, simplified]
  have again: "wait_post q h buf sz w r" if "delivered q h buf sz [] w v" "written v = written w"
    "(let n = LibMB_Get_ValidItemNum (w_mem v) (h_p_mb_base_addr h) (h_subregion_index h)
      in if n < 0 then Some (Inl (- EIO), v) else rec p h ms n v) = Some r" for v
    by (rule read_wait_step [where rec = "rec p h ms" and p = p, OF _ that(1,2) _ _ that(3)])
      (use IH pre in \<open>auto simp: wait_pre_def\<close>)
  show "wait_post q h buf sz w r"
  proof (cases "n = 0 \<and> a_ret a \<noteq> -1 \<and> a_ret a \<noteq> 0")
    case False
    then show ?thesis
      using run pre poll d0 d1 by (auto simp: wait_post_def wait_pre_def errno_defs split: if_splits)
  next
    case True
    consider (read) "a_revents a AND POLLIN \<noteq> 0" "a_ret b \<noteq> -1" | (fail) "a_revents a AND POLLIN \<noteq> 0" "a_ret b = -1"
      | (hup) "\<not> a_revents a AND POLLIN \<noteq> 0" "a_revents a AND (POLLNVAL OR POLLERR OR POLLHUP) \<noteq> 0"
      | (none) "\<not> a_revents a AND POLLIN \<noteq> 0" "\<not> a_revents a AND (POLLNVAL OR POLLERR OR POLLHUP) \<noteq> 0"
      by blast
    then show ?thesis
    proof cases
      case read
      then show ?thesis
        using run True by (intro again [OF d2(1,2)]) (simp add: poll rd)
    next
      case fail
      then show ?thesis
        using run True wait_post_error [OF d2(1,2), of "- a_err b"] d2(3) by (simp add: poll rd)
    next
      case hup
      then show ?thesis
        using run True wait_post_error [OF d1(1,2), of "- ECONNRESET"] by (simp add: poll errno_defs)
    next
      case none
      then show ?thesis
        using run True by (intro again [OF d1(1,2)]) (simp add: poll)
    qed
  qed
qed assumption

section \<open>Reading\<close>

lemma h_items_length:
  assumes "handle_ok m h" "x \<in> set (h_items m h)"
  shows "length x = h_isz h"
proof -
  have "chan_sz m (h_p_mb_base_addr h) (h_subregion_index h) = h_isz h"
    using assms(1) by (simp add: handle_ok_def h_isz_def)
  then show ?thesis
    using assms(2) by (auto simp: h_items_def chan_items_def chan_sz_def ring_items_def ring_slot_def slot_at_def)
qed

text \<open>What a read delivers, in a world \<open>w'\<close> after it.\<close>

lemma rtss_mb_read_delivers:
  assumes run: "rtss_mb_read p (Some h) buf sz w = Some (r, w')"
    and pre: "peer_adds p q h buf (unat sz)" "errno_pos p" "reader_ok q h buf (unat sz) (w_mem w)"
      "h_mode h = RTSS_MB_MODE_RX p"
  obtains taken where "delivered q h buf (unat sz) taken w w'" "written w' = written w"
    "r \<le> 0 \<Longrightarrow> taken = []" "0 < r \<Longrightarrow> bytes_at (w_mem w') buf (nat r) = concat taken"
    "\<forall>x \<in> set taken. length x = h_isz h"
proof -
  note ok = pre(3) [unfolded reader_ok_def]
  note hd = handle_okD [OF conjunct1 [OF ok]]
  define c where "c = int (length (h_items (w_mem w) h))"
  have "unat sz \<noteq> 0"
    using ok hd(4) by linarith
  then have nz: "sz \<noteq> 0" "\<not> sz < ucast (h_subchan_item_size h)" "buf \<noteq> NULL"
    using ok by (auto simp: word_less_nat_alt h_isz_def buf_ok_def)
  have "rtss_mb_read p (Some h) buf sz w = (case read_wait p h (-1) c w of None \<Rightarrow> None
      | Some (Inl e, v) \<Rightarrow> Some (e, v)
      | Some (Inr k, v) \<Rightarrow> (case read_items h buf sz k (w_mem v) of (r, m') \<Rightarrow> Some (r, v\<lparr>w_mem := m'\<rparr>)))"
    unfolding rtss_mb_read_def rtss_mb_read_timed_def
    using nz hd(2,3) pre(4) by (simp add: Let_def Get_ValidItemNum_items [OF conjunct1 [OF ok]] c_def)
  then obtain x v where wt: "read_wait p h (-1) c w = Some (x, v)"
    and res: "(case x of Inl e \<Rightarrow> Some (e, v)
      | Inr k \<Rightarrow> (case read_items h buf sz k (w_mem v) of (r, m') \<Rightarrow> Some (r, v\<lparr>w_mem := m'\<rparr>))) = Some (r, w')"
    using run by (cases "read_wait p h (-1) c w") (simp_all split: prod.splits sum.splits)
  have post: "wait_post q h buf (unat sz) w (x, v)"
    using read_wait_delivers [OF wt] pre(1-3) by (simp add: wait_pre_def c_def)
  show ?thesis
  proof (cases x)
    case (Inl e)
    then show ?thesis
      using post res by (intro that [of "[]"]) (auto simp: wait_post_def)
  next
    case (Inr k)
    have k: "k = int (length (h_items (w_mem v) h))" "0 < k"
      and d: "delivered q h buf (unat sz) [] w v" "written v = written w"
      using post Inr by (auto simp: wait_post_def)
    note okv = delivered_ok [OF d(1), unfolded reader_ok_def]
    define n where "n = min (unat sz div h_isz h) (length (h_items (w_mem v) h))"
    obtain m' where m': "read_items h buf sz k (w_mem v) = (int (n * h_isz h), m')"
      "h_items m' h = drop n (h_items (w_mem v) h)" "bytes_at m' buf (n * h_isz h) = concat (take n (h_items (w_mem v) h))"
      "handle_ok m' h" "\<And>a n. buf_ok m' h a n = buf_ok (w_mem v) h a n"
      using read_items_ok [of "w_mem v" h sz buf] okv unfolding n_def k(1) by metis
    have "delivered q h buf (unat sz) (take n (h_items (w_mem v) h)) v (v\<lparr>w_mem := m'\<rparr>)"
      using okv m' by (simp add: delivered_def reader_ok_def)
    note all = delivered_trans [OF d(1) this]
    have "0 < n"
      using k hd(4) okv by (auto simp: n_def reader_ok_def div_greater_zero_iff)
    then have "0 < n * h_isz h"
      using hd(4) by simp
    moreover have "r = int (n * h_isz h)" "w' = v\<lparr>w_mem := m'\<rparr>"
      using res Inr m'(1) by simp_all
    moreover have "\<forall>x \<in> set (take n (h_items (w_mem v) h)). length x = h_isz h"
      using h_items_length okv by (blast dest: in_set_takeD)
    ultimately show ?thesis
      using all m'(3) d(2) that [of "take n (h_items (w_mem v) h)"] by (simp add: written_def del: of_nat_mult)
  qed
qed

end
