(* ===== verification/Peer_Writes.thy ===== *)
theory Peer_Writes
  imports Peer_Reads Update_Lib_Props "HOL-Library.Sublist"
begin

text \<open>
  The other end of a channel when it is the same library: a sender that stages its batches in a
  buffer of its own and writes them with \<open>rtss_mb_write_batch\<close> while the reader makes its calls. It
  keeps the promise of \<open>peer_adds\<close>, and what it adds are whole batches in the order of its writes.
\<close>

section \<open>A batch\<close>

definition send_batch :: "platform \<Rightarrow> rtss_mb_handle \<Rightarrow> addr \<Rightarrow> u8 list list \<Rightarrow> mem \<Rightarrow> mem" where
  "send_batch p tx src xs m =
     snd (rtss_mb_write_batch p (Some tx) src (of_nat (length (concat xs))) (put_bytes m src (concat xs)))"

text \<open>Two handles on the same channel.\<close>

definition same_channel :: "rtss_mb_handle \<Rightarrow> rtss_mb_handle \<Rightarrow> bool" where
  "same_channel tx rx \<longleftrightarrow> h_p_mb_base_addr tx = h_p_mb_base_addr rx \<and> h_subregion_index tx = h_subregion_index rx
     \<and> h_subchan_item_size tx = h_subchan_item_size rx \<and> 0 \<le> h_fd tx \<and> 0 \<le> h_fd rx"

lemma same_channelD:
  assumes "same_channel tx rx"
  shows "handle_ok m tx = handle_ok m rx" "h_items m tx = h_items m rx" "buf_ok m tx a n = buf_ok m rx a n"
    "h_isz tx = h_isz rx" "h_free m tx = h_free m rx"
  using assms by (simp_all add: same_channel_def handle_ok_def h_items_def buf_ok_def h_isz_def h_free_def)

definition batch_ok :: "nat \<Rightarrow> nat \<Rightarrow> u8 list list \<Rightarrow> bool" where
  "batch_ok sz room xs \<longleftrightarrow> xs \<noteq> [] \<and> (\<forall>x \<in> set xs. length x = sz) \<and> length xs * sz \<le> room"

lemma send_batch_appends:
  assumes ch: "same_channel tx rx" and mode: "h_mode tx = RTSS_MB_MODE_TX p" and ok: "handle_ok m rx"
    and src: "buf_ok m rx src room" "room < 2 ^ 32" and xs: "batch_ok (h_isz rx) room xs"
  defines "m' \<equiv> send_batch p tx src xs m"
  shows "handle_ok m' rx" "\<And>a n. buf_ok m' rx a n = buf_ok m rx a n"
    "h_items m' rx = h_items m rx @ (if length xs \<le> h_free m rx then xs else [])"
proof -
  note same = same_channelD [OF ch]
  let ?m1 = "put_bytes m src (concat xs)" and ?s = "h_isz rx" and ?sz = "of_nat (length (concat xs)) :: u64"
  have pos: "0 < ?s"
    by (rule handle_okD(4) [OF ok])
  have len: "length (concat xs) = length xs * ?s" and items: "\<forall>x \<in> set xs. length x = ?s"
    using xs length_concat_const [of xs ?s] by (simp_all add: batch_ok_def)
  have room: "length xs * ?s \<le> room" "xs \<noteq> []"
    using xs by (simp_all add: batch_ok_def)
  have sz: "unat ?sz = length xs * ?s"
    unfolding len using room(1) src(2) by (intro unat_of_nat_small) simp
  then have nz: "?sz \<noteq> 0" and n: "unat ?sz div ?s = length xs"
    using room(2) pos by (auto simp: unat_eq_zero [symmetric] simp del: unat_eq_zero)
  note st = handle_stage [OF ok src(1), of "concat xs", unfolded len, OF room(1)]
  have ok1: "handle_ok ?m1 tx"
    using st(1) by (simp add: same)
  have "buf_ok m rx src (length xs * ?s)"
    using src(1) room(1) by (auto simp: buf_ok_def disjoint_def)
  then have src1: "buf_ok ?m1 tx src (unat ?sz)"
    by (simp add: same sz st)
  have "handle_ok m' rx \<and> (\<forall>a n. buf_ok m' rx a n = buf_ok m rx a n)
    \<and> h_items m' rx = h_items m rx @ (if length xs \<le> h_free m rx then xs else [])"
  proof (cases "length xs \<le> h_free m rx")
    case True
    then have "unat ?sz \<le> h_free ?m1 tx * h_isz tx"
      using pos by (simp add: sz st same)
    from rtss_mb_write_batch_ok [OF ok1 mode nz this src1] obtain m2 where
      w: "snd (rtss_mb_write_batch p (Some tx) src ?sz ?m1) = m2" and
      it: "h_items m2 tx = h_items ?m1 tx @ map (\<lambda>j. bytes_at ?m1 (src + j * ?s) ?s) [0..<length xs]" and
      ok2: "handle_ok m2 tx" and
      ext: "chan_extent m2 (h_p_mb_base_addr tx) (h_subregion_index tx) = chan_extent ?m1 (h_p_mb_base_addr tx) (h_subregion_index tx)"
      unfolding same n by (metis snd_conv)
    have "buf_ok m2 tx a k = buf_ok ?m1 tx a k" for a k
      by (simp add: buf_ok_def ext)
    then show ?thesis
      using True w it ok2 put_bytes_items [OF items, of m src] st by (simp add: m'_def send_batch_def same)
  next
    case False
    then have "h_free ?m1 tx * h_isz tx < unat ?sz"
      using pos by (simp add: sz st same)
    moreover have "src \<noteq> 0"
      using src(1) by (simp add: buf_ok_def)
    ultimately have "rtss_mb_write_batch p (Some tx) src ?sz ?m1 = (- ENOBUFS, ?m1)"
      by (intro rtss_mb_write_batch_full [OF ok1 mode _ nz])
    then show ?thesis
      using False st by (simp add: m'_def send_batch_def)
  qed
  then show "handle_ok m' rx" "\<And>a n. buf_ok m' rx a n = buf_ok m rx a n"
    "h_items m' rx = h_items m rx @ (if length xs \<le> h_free m rx then xs else [])"
    by simp_all
qed

section \<open>A sender\<close>

text \<open>The batches that are written during the \<open>k\<close>-th call of the reader, one after the other.\<close>

record sender =
  s_handle :: rtss_mb_handle
  s_buf :: addr
  s_room :: nat
  s_batches :: "nat \<Rightarrow> u8 list list list"

definition sends :: "platform \<Rightarrow> sender \<Rightarrow> nat \<Rightarrow> mem \<Rightarrow> mem" where
  "sends p s k = fold (send_batch p (s_handle s) (s_buf s)) (s_batches s k)"

definition sender_on :: "platform \<Rightarrow> rtss_mb_handle \<Rightarrow> sender \<Rightarrow> bool" where
  "sender_on p rx s \<longleftrightarrow> same_channel (s_handle s) rx \<and> h_mode (s_handle s) = RTSS_MB_MODE_TX p \<and> s_room s < 2 ^ 32
     \<and> (\<forall>k. \<forall>xs \<in> set (s_batches s k). batch_ok (h_isz rx) (s_room s) xs)"

definition sender_peer :: "sender \<Rightarrow> peer" where
  "sender_peer s = \<lparr>blocks = {(s_buf s, s_room s)}, may_add = (\<lambda>k ys. \<exists>acc. subseq acc (s_batches s k) \<and> ys = concat acc)\<rparr>"

lemma batches_append:
  assumes "sender_on p rx s" "\<forall>xs \<in> set bs. batch_ok (h_isz rx) (s_room s) xs" "handle_ok m rx" "buf_ok m rx (s_buf s) (s_room s)"
  defines "m' \<equiv> fold (send_batch p (s_handle s) (s_buf s)) bs m"
  shows "handle_ok m' rx \<and> (\<forall>a n. buf_ok m' rx a n = buf_ok m rx a n)
    \<and> (\<exists>acc. subseq acc bs \<and> h_items m' rx = h_items m rx @ concat acc)"
  unfolding m'_def using assms(2-4)
proof (induction bs arbitrary: m)
  case (Cons xs bs)
  let ?m1 = "send_batch p (s_handle s) (s_buf s) xs m"
  have "batch_ok (h_isz rx) (s_room s) xs"
    using Cons.prems(1) by simp
  then have one: "handle_ok ?m1 rx" "\<And>a n. buf_ok ?m1 rx a n = buf_ok m rx a n"
    "h_items ?m1 rx = h_items m rx @ (if length xs \<le> h_free m rx then xs else [])"
    using assms(1) Cons.prems(2,3) by (simp_all add: sender_on_def send_batch_appends [where room = "s_room s"])
  then obtain acc where acc: "subseq acc bs"
    "h_items (fold (send_batch p (s_handle s) (s_buf s)) bs ?m1) rx = h_items ?m1 rx @ concat acc"
    "handle_ok (fold (send_batch p (s_handle s) (s_buf s)) bs ?m1) rx"
    "\<forall>a n. buf_ok (fold (send_batch p (s_handle s) (s_buf s)) bs ?m1) rx a n = buf_ok m rx a n"
    using Cons.IH [of ?m1] Cons.prems(1,3) by auto
  show ?case
    using acc one(3) by (cases "length xs \<le> h_free m rx")
      (auto intro: exI [of _ "xs # acc"] exI [of _ acc] list_emb_Cons)
qed (auto intro: exI [of _ "[]"])

lemma sender_adds:
  assumes "sender_on p rx s" "\<forall>k. a_peer (answer p k) = sends p s k"
  shows "peer_adds p (sender_peer s) rx buf n"
proof -
  have "handle_ok (sends p s k m) rx \<and> (\<forall>a n. buf_ok (sends p s k m) rx a n = buf_ok m rx a n)
      \<and> (\<exists>acc. subseq acc (s_batches s k) \<and> h_items (sends p s k m) rx = h_items m rx @ concat acc)"
    if "reader_ok (sender_peer s) rx buf n m" for k m
    unfolding sends_def using that assms(1)
    by (intro batches_append) (auto simp: reader_ok_def sender_peer_def sender_on_def)
  then show ?thesis
    using assms(2) by (fastforce simp: peer_adds_def reader_ok_def sender_peer_def)
qed

text \<open>What was added during several calls are whole batches in the order of the writes.\<close>

lemma subseq_concat_map:
  "\<forall>k \<in> set ks. subseq (f k) (g k) \<Longrightarrow> subseq (concat (map f ks)) (concat (map g ks))"
  by (induction ks) (auto intro: list_emb_append_mono)

lemma concat_map_maps: "\<forall>k \<in> set ks. f k = concat (g k) \<Longrightarrow> concat (map f ks) = concat (concat (map g ks))"
  by (induction ks) simp_all

lemma sender_delivered:
  assumes "delivered (sender_peer s) h buf n taken w w'"
  obtains acc where "subseq acc (concat (map (s_batches s) [w_now w..<w_now w']))"
    "h_items (w_mem w) h @ concat acc = taken @ h_items (w_mem w') h"
proof -
  obtain f where f: "\<forall>k \<in> {w_now w..<w_now w'}. \<exists>acc. subseq acc (s_batches s k) \<and> f k = concat acc"
    "h_items (w_mem w) h @ concat (map f [w_now w..<w_now w']) = taken @ h_items (w_mem w') h"
    using assms by (auto simp: delivered_def sender_peer_def)
  then obtain acc where acc: "\<forall>k \<in> {w_now w..<w_now w'}. subseq (acc k) (s_batches s k) \<and> f k = concat (acc k)"
    by metis
  have "concat (map f [w_now w..<w_now w']) = concat (concat (map acc [w_now w..<w_now w']))"
    using acc by (intro concat_map_maps) simp
  moreover have "subseq (concat (map acc [w_now w..<w_now w'])) (concat (map (s_batches s) [w_now w..<w_now w']))"
    using acc by (intro subseq_concat_map) simp
  ultimately show ?thesis
    using f(2) that by simp
qed

end
