(* ===== verification/Console_Claims.thy ===== *)
theory Console_Claims
  imports Console Peer_Writes Demo_Mailbox
begin

text \<open>The console: what it copies, that it ends, and what it still holds then.\<close>

section \<open>Copying\<close>

text \<open>The channel's receiving end is open, and the other processor only adds items, as \<open>q\<close> allows.\<close>

definition log_channel :: "platform \<Rightarrow> peer \<Rightarrow> rtss_mb_handle \<Rightarrow> addr \<Rightarrow> world \<Rightarrow> bool" where
  "log_channel p q h buf w \<longleftrightarrow> peer_adds p q h buf RTSS_CONSOLE_BUF_SIZE \<and> errno_pos p
     \<and> reader_ok q h buf RTSS_CONSOLE_BUF_SIZE (w_mem w) \<and> h_mode h = RTSS_MB_MODE_RX p"

definition copied :: "peer \<Rightarrow> rtss_mb_handle \<Rightarrow> addr \<Rightarrow> world \<Rightarrow> world \<Rightarrow> bool" where
  "copied q h buf w w' \<longleftrightarrow> (\<exists>taken. delivered q h buf RTSS_CONSOLE_BUF_SIZE taken w w' \<and> written w' = written w @ concat taken)"

lemma copied_trans: "copied q h buf u v \<Longrightarrow> copied q h buf v w \<Longrightarrow> copied q h buf u w"
  unfolding copied_def by (metis delivered_trans append_assoc concat_append)

lemma buf_size: "unat (of_nat RTSS_CONSOLE_BUF_SIZE :: u64) = RTSS_CONSOLE_BUF_SIZE"
  by (simp add: RTSS_CONSOLE_BUF_SIZE_def)

lemma log_channel_read:
  assumes "rtss_mb_read p (Some h) buf (of_nat RTSS_CONSOLE_BUF_SIZE) w = Some (ret, v)" "log_channel p q h buf w"
  obtains taken where "delivered q h buf RTSS_CONSOLE_BUF_SIZE taken w v" "written v = written w"
    "ret \<le> 0 \<Longrightarrow> taken = []" "0 < ret \<Longrightarrow> bytes_at (w_mem v) buf (nat ret) = concat taken" "log_channel p q h buf v"
  using rtss_mb_read_delivers [OF assms(1), unfolded buf_size] assms(2) delivered_ok
  unfolding log_channel_def by metis

lemma log_channel_write:
  assumes "sys p (Sys_write 1 bs) v = (a, u)" "log_channel p q h buf v"
  shows "delivered q h buf RTSS_CONSOLE_BUF_SIZE [] v u" "written u = written v @ bs" "log_channel p q h buf u"
proof -
  show d: "delivered q h buf RTSS_CONSOLE_BUF_SIZE [] v u"
    using assms by (auto simp: log_channel_def intro: delivered_sys)
  show "written u = written v @ bs"
    using written_sys [OF assms(1)] by simp
  show "log_channel p q h buf u"
    using assms(2) delivered_ok [OF d] by (simp add: log_channel_def)
qed

lemma console_pass:
  assumes rd: "rtss_mb_read p (Some h) buf (of_nat RTSS_CONSOLE_BUF_SIZE) w = Some (ret, v)" and ok: "log_channel p q h buf w"
  shows "ret \<le> 0 \<Longrightarrow> copied q h buf w v"
    "0 < ret \<Longrightarrow> sys p (Sys_write 1 (bytes_at (w_mem v) buf (nat ret))) v = (a, u) \<Longrightarrow>
      copied q h buf w u \<and> log_channel p q h buf u"
proof -
  obtain taken where t: "delivered q h buf RTSS_CONSOLE_BUF_SIZE taken w v" "written v = written w"
    "ret \<le> 0 \<Longrightarrow> taken = []" "0 < ret \<Longrightarrow> bytes_at (w_mem v) buf (nat ret) = concat taken" "log_channel p q h buf v"
    using log_channel_read [OF rd ok] by metis
  show "copied q h buf w v" if "ret \<le> 0"
    using t that unfolding copied_def by (intro exI [of _ "[]"]) simp
  show "copied q h buf w u \<and> log_channel p q h buf u"
    if "0 < ret" "sys p (Sys_write 1 (bytes_at (w_mem v) buf (nat ret))) v = (a, u)"
    using delivered_trans [OF t(1) log_channel_write(1) [OF that(2) t(5)]] log_channel_write(2,3) [OF that(2) t(5)] t that
    unfolding copied_def by auto
qed

lemma console_loop_copies:
  "console_loop p g (Some h) buf w = Some w' \<Longrightarrow> log_channel p q h buf w \<longrightarrow> copied q h buf w w'"
proof (rule console_loop.raw_induct
    [where P = "\<lambda>p g c buf w w'. c = Some h \<longrightarrow> log_channel p q h buf w \<longrightarrow> copied q h buf w w'", THEN mp, OF _ _ refl],
    intro impI)
  fix rec p g client buf w w'
  assume IH: "\<And>p g c buf w w'. rec p g c buf w = Some w' \<Longrightarrow> c = Some h \<longrightarrow> log_channel p q h buf w \<longrightarrow> copied q h buf w w'"
    and run: "(if \<not> g (w_now w) then Some w
      else case rtss_mb_read p client buf (of_nat RTSS_CONSOLE_BUF_SIZE) w of
        None \<Rightarrow> None
      | Some (ret, w) \<Rightarrow>
          if ret = - EINTR then Some w
          else if ret \<le> 0 then Some w
          else case sys p (Sys_write 1 (bytes_at (w_mem w) buf (nat ret))) w of (a, w) \<Rightarrow>
            if a_ret a < 0 then Some w else rec p g client buf w) = Some w'"
    and c: "client = Some h" and ok: "log_channel p q h buf w"
  have "copied q h buf w w"
    using ok unfolding copied_def log_channel_def by (intro exI [of _ "[]"]) (simp add: delivered_refl)
  show "copied q h buf w w'"
  proof (cases "g (w_now w)")
    case False
    then show ?thesis using run \<open>copied q h buf w w\<close> by simp
  next
    case True
    then obtain ret v where rd: "rtss_mb_read p (Some h) buf (of_nat RTSS_CONSOLE_BUF_SIZE) w = Some (ret, v)"
      using run c by (auto split: option.splits)
    obtain a u where wr: "sys p (Sys_write 1 (bytes_at (w_mem v) buf (nat ret))) v = (a, u)"
      by fastforce
    note pass = console_pass [OF rd ok]
    show ?thesis
    proof (cases "0 < ret")
      case False
      then show ?thesis using run True c rd pass(1) by (simp split: if_splits)
    next
      case pos: True
      then have "if a_ret a < 0 then w' = u else rec p g (Some h) buf u = Some w'"
        using run True c rd wr by (auto simp: errno_defs split: if_splits)
      then show ?thesis
        using pass(2) [OF pos wr] IH copied_trans by (metis (full_types))
    qed
  qed
qed assumption

section \<open>Ending\<close>

lemma console_loop_returns:
  assumes "\<forall>k \<ge> K. \<not> g k \<and> a_ret (answer p k) \<in> {0, -1}"
  shows "\<exists>w'. console_loop p g c buf w = Some w' \<and> wheld w' = wheld w"
proof (induction "K - w_now w" arbitrary: w rule: less_induct)
  case less
  have "\<exists>r. rtss_mb_read p c buf (of_nat RTSS_CONSOLE_BUF_SIZE) w = Some r"
    unfolding rtss_mb_read_def using assms by (intro rtss_mb_read_timed_returns [where K = K]) simp
  then obtain ret v where rd: "rtss_mb_read p c buf (of_nat RTSS_CONSOLE_BUF_SIZE) w = Some (ret, v)"
    by fastforce
  obtain a u where wr: "sys p (Sys_write 1 (bytes_at (w_mem v) buf (nat ret))) v = (a, u)"
    by fastforce
  note held = rtss_mb_read_held [OF rd] wheld_sys [OF wr, simplified]
  have now: "w_now w < w_now u"
    using rtss_mb_read_now [OF rd] sys_now [OF wr] by simp
  show ?case
  proof (cases "g (w_now w)")
    case True
    then have "w_now w < K"
      using assms by (meson not_le)
    with now have "\<exists>w'. console_loop p g c buf u = Some w' \<and> wheld w' = wheld u"
      by (intro less) linarith
    then show ?thesis
      using True rd wr held by (subst console_loop.simps) (auto simp: split: if_splits)
  qed (subst console_loop.simps, simp)
qed

section \<open>Properties\<close>

text \<open>C17: The console copies faithfully: when its loop ends, what it has handed to standard output
  is the bytes of the items that the other processor put into the log channel, from the oldest on,
  each once and in order; what it has not taken still waits.\<close>

theorem console_copies:
  assumes "console_loop p g_running (Some h) buf w = Some w'" "log_channel p anyone h buf w"
  shows "\<exists>taken more. h_items (w_mem w) h @ more = taken @ h_items (w_mem w') h
    \<and> written w' = written w @ concat taken"
  using console_loop_copies [OF assms(1)] assms(2) unfolding copied_def delivered_def by blast

definition console_platform :: platform where
  "console_platform = \<lparr>answer = (\<lambda>k. \<lparr>a_ret = 0, a_err = 4, a_size = 0, a_addr = 0, a_revents = 0, a_mode = 0,
     a_data = [], a_peer = id\<rparr>), RTSS_MB_MODE_RX = 0, RTSS_MB_MODE_TX = 1\<rparr>"

theorem console_copies_witness:
  "\<exists>w' taken more. console_loop console_platform (\<lambda>k. k < 5) (Some demo_rx) 8192 (demo_world demo_mem1) = Some w'
    \<and> [[7, 8]] @ more = taken @ h_items (w_mem w') demo_rx \<and> written w' = concat taken"
proof -
  have "log_channel console_platform anyone demo_rx 8192 (demo_world demo_mem1)"
    by (simp add: log_channel_def peer_adds_def anyone_def errno_pos_def reader_ok_def console_platform_def
        demo_handle_ok buf_ok_def demo_extent1 disjoint_def RTSS_CONSOLE_BUF_SIZE_def h_isz_def)
  moreover obtain w' where "console_loop console_platform (\<lambda>k. k < 5) (Some demo_rx) 8192 (demo_world demo_mem1) = Some w'"
    using console_loop_returns [of 5 "\<lambda>k. k < 5" console_platform] by (force simp: console_platform_def)
  ultimately show ?thesis
    using console_copies [of console_platform "\<lambda>k. k < 5" demo_rx 8192 "demo_world demo_mem1" w']
    by (auto simp: h_items_def demo_items1 written_def)
qed

text \<open>C5: From one end of the log channel to the other: when the other processor writes its batches with
  the same library while the console runs, what the console has handed to standard output is the
  bytes of the items that waited and of whole batches, in the order in which they were written; a
  batch is missing only as a whole, when the ring had no room for it.\<close>

theorem console_shows_what_is_sent:
  assumes "console_loop p g_running (Some h) buf w = Some w'" "sender_on p h s"
    "\<forall>k. a_peer (answer p k) = sends p s k" "errno_pos p" "h_mode h = RTSS_MB_MODE_RX p"
    "reader_ok (sender_peer s) h buf RTSS_CONSOLE_BUF_SIZE (w_mem w)"
  shows "\<exists>acc taken. subseq acc (concat (map (s_batches s) [w_now w..<w_now w']))
    \<and> h_items (w_mem w) h @ concat acc = taken @ h_items (w_mem w') h \<and> written w' = written w @ concat taken"
proof -
  have "log_channel p (sender_peer s) h buf w"
    using assms sender_adds [OF assms(2,3)] by (simp add: log_channel_def)
  then obtain taken where t: "delivered (sender_peer s) h buf RTSS_CONSOLE_BUF_SIZE taken w w'" "written w' = written w @ concat taken"
    using console_loop_copies [OF assms(1)] unfolding copied_def by blast
  from sender_delivered [OF t(1)] show ?thesis
    using t(2) by metis
qed

text \<open>The first call finds one batch that fits and one that does not.\<close>

definition demo_sender :: sender where
  "demo_sender = \<lparr>s_handle = demo_tx, s_buf = 1024, s_room = 8,
     s_batches = (\<lambda>k. if k = 0 then [[[1, 2]], [[3, 4], [5, 6], [7, 8]]] else [])\<rparr>"

definition sending_platform :: platform where
  "sending_platform = console_platform\<lparr>answer := (\<lambda>k. answer console_platform k\<lparr>a_peer := sends console_platform demo_sender k\<rparr>)\<rparr>"

lemma sends_modes: "sends sending_platform s = sends console_platform s"
proof -
  have "RTSS_MB_MODE_TX sending_platform = RTSS_MB_MODE_TX console_platform"
    by (simp add: sending_platform_def)
  then have "send_batch sending_platform = send_batch console_platform"
    by (intro ext) (simp add: send_batch_def rtss_mb_write_batch_def cong: option.case_cong)
  then show ?thesis
    by (intro ext) (simp only: sends_def)
qed

theorem console_shows_what_is_sent_witness:
  "\<exists>w' acc taken. console_loop sending_platform (\<lambda>k. k < 5) (Some demo_rx) 8192 (demo_world demo_mem1) = Some w'
    \<and> subseq acc (concat (map (s_batches demo_sender) [0..<w_now w']))
    \<and> [[7, 8]] @ concat acc = taken @ h_items (w_mem w') demo_rx \<and> written w' = concat taken"
proof -
  have on: "sender_on sending_platform demo_rx demo_sender"
    by (auto simp: sender_on_def same_channel_def demo_sender_def batch_ok_def sending_platform_def console_platform_def)
  have peer: "\<forall>k. a_peer (answer sending_platform k) = sends sending_platform demo_sender k"
    unfolding sends_modes by (simp add: sending_platform_def)
  have ok: "errno_pos sending_platform" "h_mode demo_rx = RTSS_MB_MODE_RX sending_platform"
    "reader_ok (sender_peer demo_sender) demo_rx 8192 RTSS_CONSOLE_BUF_SIZE (w_mem (demo_world demo_mem1))"
    by (simp_all add: errno_pos_def sending_platform_def console_platform_def reader_ok_def demo_handle_ok buf_ok_def
        demo_extent1 disjoint_def RTSS_CONSOLE_BUF_SIZE_def h_isz_def sender_peer_def demo_sender_def)
  obtain w' where run: "console_loop sending_platform (\<lambda>k. k < 5) (Some demo_rx) 8192 (demo_world demo_mem1) = Some w'"
    using console_loop_returns [of 5 "\<lambda>k. k < 5" sending_platform]
    by (force simp: sending_platform_def console_platform_def)
  show ?thesis
    using console_shows_what_is_sent [OF run on peer ok] run by (auto simp: h_items_def demo_items1 written_def)
qed

text \<open>C30: The console ends once the signal handler has cleared its flag and the calls report a time-out
  or a failure, and then it holds what it held before, apart from the mapping of the mailbox.\<close>

theorem console_main_ends:
  assumes "\<forall>k \<ge> K. \<not> g_running k \<and> a_ret (answer p k) \<in> {0, -1}" "results_ok p" "errno_pos p"
  shows "\<exists>r w' R. console_main p g_running w = Some (r, w') \<and> mappings_only R \<and> wheld w' = wheld w + R"
proof -
  obtain b w1 where b: "sys p (Sys_malloc RTSS_CONSOLE_BUF_SIZE) w = (b, w1)" by fastforce
  obtain ret c w2 where o: "rtss_mb_open p True (Some RTSS_CONSOLE_CHANNEL) w1 = ((ret, c), w2)"
    by (metis surj_pair)
  obtain w3 where l: "console_loop p g_running c (nat (a_ret b)) w2 = Some w3" "wheld w3 = wheld w2"
    using console_loop_returns [OF assms(1)] by blast
  note w1 = wheld_sys [OF b, simplified]
  show ?thesis
  proof (cases c)
    case None
    then show ?thesis
      using w1 rtss_mb_open_held [OF o] rtss_mb_open_ret [OF assms(3) o]
      by (auto simp: console_main_def b o errno_defs free_held intro!: exI [of _ "{#}"])
  next
    case (Some h)
    have "handle_fds p h" "wheld w3 = wheld w1 + handle_resources p h"
      using rtss_mb_open_fds [OF assms(2) o [unfolded Some]] rtss_mb_open_held [OF o] l(2) Some by auto
    from close_fds [OF this] show ?thesis
      using w1 l(1) Some rtss_mb_open_ret [OF assms(3) o]
      by (auto simp: console_main_def b o errno_defs free_held
          intro!: exI [of _ "{#Mapping (h_p_mb_base_addr h) (h_mb_size h)#}"] exI [of _ "{#}"])
  qed
qed

theorem console_main_ends_witness:
  "\<exists>r w' R. console_main console_platform (\<lambda>k. False) (demo_world demo_mem1) = Some (r, w') \<and> mappings_only R \<and> wheld w' = R"
  using console_main_ends [of 0 "\<lambda>k. False" console_platform "demo_world demo_mem1"]
  by (simp add: console_platform_def results_ok_def errno_pos_def) (simp add: wheld_def)

end
