(* ===== verification/Mb_Demo.thy ===== *)
theory Mb_Demo
  imports Std_Functions Mailbox
begin

text \<open>
  The demonstration program, \<^verbatim>\<open>apps/rtss-mbdemo/rtss_mbdemo.c\<close>: for each selected core it opens a
  pair of channels, and in each iteration sends a text and waits for an answer. The file-scope
  variables are the members of \<open>mbdemo\<close>; the two message buffers of \<open>main\<close> are at the addresses
  \<open>frames\<close>. \<open>g_signal_received\<close> is a function of the number of calls made so far; what \<open>getopt\<close> returns
  is a list of options.
\<close>

section \<open>State\<close>

definition DEMO_CHANNEL_NAME_SIZE :: nat where "DEMO_CHANNEL_NAME_SIZE = 16"
definition DEMO_MSG_SZ :: nat where "DEMO_MSG_SZ = 64"
definition DEMO_MAX_CORE :: nat where "DEMO_MAX_CORE = 3"
definition DEMO_ALL_CORES_MASKED :: int where "DEMO_ALL_CORES_MASKED = 15"
definition DEMO_DELAY_US :: nat where "DEMO_DELAY_US = 100000"
definition DEMO_HELP_CMD :: int where "DEMO_HELP_CMD = 2"

record DemoAppConfig_t =
  core_masked :: int
  message :: "u8 list option"
  msg_allocated :: bool
  iterations :: u32
  tx_channel :: "u8 list"
  rx_channel :: "u8 list"

definition demo_config :: DemoAppConfig_t where
  "demo_config = \<lparr>core_masked = DEMO_ALL_CORES_MASKED, message = Some (ascii ''Hello From MD!''),
     msg_allocated = False, iterations = 1, tx_channel = [], rx_channel = []\<rparr>"

record mbdemo =
  dm_config :: DemoAppConfig_t
  g_tx_channel_open_status :: "bool list"
  g_rx_channel_open_status :: "bool list"
  pTxChannelData :: "rtss_mb_handle option list"
  pRxChannelData :: "rtss_mb_handle option list"
  dm_world :: world

definition DEMO_CHECK_CORE_MASK :: "nat \<Rightarrow> int \<Rightarrow> bool" where
  "DEMO_CHECK_CORE_MASK core cores \<longleftrightarrow> bit cores core"

section \<open>The command line\<close>

datatype mbdemo_opt = Mo_h | Mo_c "u8 list" | Mo_s "u8 list" | Mo_n "u8 list" | Mo_other

fun rtss_mb_command_parser ::
  "platform \<Rightarrow> mbdemo_opt list \<Rightarrow> DemoAppConfig_t \<Rightarrow> world \<Rightarrow> (int \<times> DemoAppConfig_t) \<times> world" where
  "rtss_mb_command_parser p [] config w = ((exit_success, config), w)"
| "rtss_mb_command_parser p (opt # opts) config w =
     (case opt of
        Mo_h \<Rightarrow> ((DEMO_HELP_CMD, config), w)
      | Mo_c optarg \<Rightarrow>
          (case strtol 0 (cstr optarg) of (v, endptr, erange) \<Rightarrow>
             let config = config\<lparr>core_masked := int_of_long v\<rparr>
             in if erange \<or> endptr \<noteq> [] then ((exit_failure, config), w)
                else if core_masked config \<le> 0 \<or> core_masked config > DEMO_ALL_CORES_MASKED
                then ((exit_failure, config), w)
                else rtss_mb_command_parser p opts config w)
      | Mo_s optarg \<Rightarrow>
          (let len = length (cstr optarg) + 1
           in if len > DEMO_MSG_SZ then ((exit_failure, config), w)
              else let w = (if msg_allocated config then snd (sys p Sys_free w) else w)
              in case sys p Sys_calloc w of (a, w) \<Rightarrow>
                if a_ret a = 0 then ((exit_failure, config\<lparr>message := None, msg_allocated := False\<rparr>), w)
                else rtss_mb_command_parser p opts
                       (config\<lparr>message := Some (cstr optarg), msg_allocated := True\<rparr>) w)
      | Mo_n optarg \<Rightarrow>
          (case strtol 10 (cstr optarg) of (v, endptr, erange) \<Rightarrow>
             if erange \<or> endptr \<noteq> [] then ((exit_failure, config), w)
             else if v < 0 \<or> v > 2 ^ 32 - 1 then ((exit_failure, config), w)
             else rtss_mb_command_parser p opts (config\<lparr>iterations := word_of_int v\<rparr>) w)
      | Mo_other \<Rightarrow> ((exit_failure, config), w))"

section \<open>Channels\<close>

definition tx_channels :: "u8 list list" where
  "tx_channels = [ascii ''/dev/sail/cz0'', ascii ''/dev/sail/co0'', ascii ''/dev/sail/ct0'', ascii ''/dev/sail/cth0'']"

definition rx_channels :: "u8 list list" where
  "rx_channels = [ascii ''/dev/sail/cz1'', ascii ''/dev/sail/co1'', ascii ''/dev/sail/ct1'', ascii ''/dev/sail/cth1'']"

definition rtss_mb_select_channels :: "DemoAppConfig_t \<Rightarrow> int \<Rightarrow> int \<times> DemoAppConfig_t" where
  "rtss_mb_select_channels config core =
     (if core < 0 \<or> core > int DEMO_MAX_CORE then (exit_failure, config)
      else case snprintf_str DEMO_CHANNEL_NAME_SIZE (tx_channels ! nat core) of (ret, s) \<Rightarrow>
        let config = config\<lparr>tx_channel := s\<rparr>
        in if ret < 0 \<or> nat ret \<ge> DEMO_CHANNEL_NAME_SIZE then (exit_failure, config)
        else case snprintf_str DEMO_CHANNEL_NAME_SIZE (rx_channels ! nat core) of (ret, s) \<Rightarrow>
          let config = config\<lparr>rx_channel := s\<rparr>
          in if ret < 0 \<or> nat ret \<ge> DEMO_CHANNEL_NAME_SIZE then (exit_failure, config)
             else (exit_success, config))"

text \<open>The handle is stored where the open stores it, which it does on success only.\<close>

definition stored_at :: "nat \<Rightarrow> rtss_mb_handle option \<Rightarrow> rtss_mb_handle option list \<Rightarrow> rtss_mb_handle option list" where
  "stored_at i h xs = (case h of None \<Rightarrow> xs | Some _ \<Rightarrow> xs[i := h])"

fun open_channels :: "platform \<Rightarrow> nat list \<Rightarrow> mbdemo \<Rightarrow> int \<times> mbdemo" where
  "open_channels p [] st = (exit_success, st)"
| "open_channels p (index # is) st =
     (if \<not> DEMO_CHECK_CORE_MASK index (core_masked (dm_config st)) then open_channels p is st
      else case rtss_mb_select_channels (dm_config st) (int index) of (ret, config) \<Rightarrow>
        let st = st\<lparr>dm_config := config\<rparr>
        in if ret \<noteq> exit_success then (exit_failure, st)
        else case rtss_mb_open p True (Some (tx_channel config)) (dm_world st) of ((ret, h), w) \<Rightarrow>
          let st = st\<lparr>pTxChannelData := stored_at index h (pTxChannelData st), dm_world := w\<rparr>
          in if ret \<noteq> RTSS_MB_RETURN_SUCCESS then (exit_failure, st)
          else let st = st\<lparr>g_tx_channel_open_status := (g_tx_channel_open_status st)[index := True]\<rparr>
          in case rtss_mb_open p True (Some (rx_channel config)) (dm_world st) of ((ret, h), w) \<Rightarrow>
            let st = st\<lparr>pRxChannelData := stored_at index h (pRxChannelData st), dm_world := w\<rparr>
            in if ret \<noteq> RTSS_MB_RETURN_SUCCESS then (exit_failure, st)
            else open_channels p is
                   (st\<lparr>g_rx_channel_open_status := (g_rx_channel_open_status st)[index := True]\<rparr>))"

definition rtss_mb_open_channel :: "platform \<Rightarrow> mbdemo \<Rightarrow> int \<times> mbdemo" where
  "rtss_mb_open_channel p st = open_channels p [0..<DEMO_MAX_CORE + 1] st"

text \<open>A channel that cannot be closed stays marked as open; the others are closed all the same.\<close>

fun close_channels :: "platform \<Rightarrow> nat list \<Rightarrow> int \<Rightarrow> mbdemo \<Rightarrow> int \<times> mbdemo" where
  "close_channels p [] ret st = (ret, st)"
| "close_channels p (index # is) ret st =
     (case (if g_tx_channel_open_status st ! index
            then case rtss_mb_close p (pTxChannelData st ! index) (dm_world st) of (close_ret, w) \<Rightarrow>
              if close_ret \<noteq> RTSS_MB_RETURN_SUCCESS then (exit_failure, st\<lparr>dm_world := w\<rparr>)
              else (ret, st\<lparr>dm_world := w, g_tx_channel_open_status := (g_tx_channel_open_status st)[index := False]\<rparr>)
            else (ret, st)) of (ret, st) \<Rightarrow>
      case (if g_rx_channel_open_status st ! index
            then case rtss_mb_close p (pRxChannelData st ! index) (dm_world st) of (close_ret, w) \<Rightarrow>
              if close_ret \<noteq> RTSS_MB_RETURN_SUCCESS then (exit_failure, st\<lparr>dm_world := w\<rparr>)
              else (ret, st\<lparr>dm_world := w, g_rx_channel_open_status := (g_rx_channel_open_status st)[index := False]\<rparr>)
            else (ret, st)) of (ret, st) \<Rightarrow>
      close_channels p is ret st)"

definition rtss_mb_close_channels :: "platform \<Rightarrow> mbdemo \<Rightarrow> int \<times> mbdemo" where
  "rtss_mb_close_channels p st = close_channels p [0..<DEMO_MAX_CORE + 1] exit_success st"

definition rtss_mb_cleanup_resources :: "platform \<Rightarrow> mbdemo \<Rightarrow> mbdemo" where
  "rtss_mb_cleanup_resources p st =
     (let st = (if msg_allocated (dm_config st)
                then st\<lparr>dm_world := snd (sys p Sys_free (dm_world st)),
                        dm_config := (dm_config st)\<lparr>message := None, msg_allocated := False\<rparr>\<rparr>
                else st)
      in snd (rtss_mb_close_channels p st))"

section \<open>The program\<close>

text \<open>The text of one message, in an array that was cleared.\<close>

definition demo_payload :: "u8 list option \<Rightarrow> nat \<Rightarrow> u8 list" where
  "demo_payload msg n =
     (let s = snd (snprintf_str DEMO_MSG_SZ ((case msg of None \<Rightarrow> ascii ''(null)'' | Some s \<Rightarrow> s)
                @ ascii '' ('' @ decimal n @ ascii '')''))
      in s @ replicate (DEMO_MSG_SZ - length s) 0)"

text \<open>One iteration over the cores: \<open>Inl\<close> is the jump to the exit.\<close>

fun demo_cores ::
  "platform \<Rightarrow> addr \<times> addr \<Rightarrow> nat \<Rightarrow> nat list \<Rightarrow> int \<Rightarrow> mbdemo \<Rightarrow> ((int \<times> mbdemo) + (int \<times> mbdemo)) option" where
  "demo_cores p frames cnt [] ret st = Some (Inr (ret, st))"
| "demo_cores p frames cnt (core # cores) ret st =
     (if \<not> DEMO_CHECK_CORE_MASK core (core_masked (dm_config st)) then demo_cores p frames cnt cores ret st
      else let w = dm_world st;
               w = w\<lparr>w_mem := put_bytes (w_mem w) (fst frames) (demo_payload (message (dm_config st)) (cnt + 1))\<rparr>
      in case rtss_mb_write p (pTxChannelData st ! core) (fst frames) (of_nat DEMO_MSG_SZ) w of (ret, w) \<Rightarrow>
        if ret < 0 then Some (Inl (exit_failure, st\<lparr>dm_world := w\<rparr>))
        else let w = snd (sys p (Sys_usleep DEMO_DELAY_US) w);
                 w = w\<lparr>w_mem := put_bytes (w_mem w) (snd frames) (replicate DEMO_MSG_SZ 0)\<rparr>
        in case rtss_mb_read p (pRxChannelData st ! core) (snd frames) (of_nat DEMO_MSG_SZ) w of
          None \<Rightarrow> None
        | Some (ret, w) \<Rightarrow>
            if ret < 0 then Some (Inl (exit_failure, st\<lparr>dm_world := w\<rparr>))
            else demo_cores p frames cnt cores ret
                   (st\<lparr>dm_world := snd (sys p (Sys_usleep DEMO_DELAY_US) w)\<rparr>))"

fun demo_iterations ::
  "platform \<Rightarrow> (nat \<Rightarrow> bool) \<Rightarrow> addr \<times> addr \<Rightarrow> nat \<Rightarrow> nat \<Rightarrow> int \<Rightarrow> mbdemo \<Rightarrow> (int \<times> mbdemo) option" where
  "demo_iterations p g_signal_received frames cnt 0 ret st = Some (ret, st)"
| "demo_iterations p g_signal_received frames cnt (Suc n) ret st =
     (if g_signal_received (w_now (dm_world st)) then Some (exit_success, st)
      else case demo_cores p frames cnt [0..<DEMO_MAX_CORE + 1] ret st of
        None \<Rightarrow> None
      | Some (Inl r) \<Rightarrow> Some r
      | Some (Inr (ret, st)) \<Rightarrow> demo_iterations p g_signal_received frames (cnt + 1) n ret st)"

text \<open>The code returned after the last iteration is the result of the last read.\<close>

definition mbdemo_main ::
  "platform \<Rightarrow> (nat \<Rightarrow> bool) \<Rightarrow> addr \<times> addr \<Rightarrow> mbdemo_opt list \<Rightarrow> mbdemo \<Rightarrow> (int \<times> mbdemo) option" where
  "mbdemo_main p g_signal_received frames opts st =
     (case rtss_mb_command_parser p opts (dm_config st) (dm_world st) of ((ret, config), w) \<Rightarrow>
        let st = st\<lparr>dm_config := config, dm_world := w\<rparr>
        in if ret = DEMO_HELP_CMD then Some (exit_success, rtss_mb_cleanup_resources p st)
        else if ret \<noteq> exit_success then Some (ret, rtss_mb_cleanup_resources p st)
        else case rtss_mb_open_channel p st of (ret, st) \<Rightarrow>
          if ret \<noteq> exit_success then Some (exit_failure, rtss_mb_cleanup_resources p st)
          else case demo_iterations p g_signal_received frames 0 (unat (iterations config)) ret st of
            None \<Rightarrow> None
          | Some (ret, st) \<Rightarrow> Some (ret, rtss_mb_cleanup_resources p st))"

definition mbdemo_init :: "world \<Rightarrow> mbdemo" where
  "mbdemo_init w = \<lparr>dm_config = demo_config, g_tx_channel_open_status = replicate 4 False,
     g_rx_channel_open_status = replicate 4 False, pTxChannelData = replicate 4 None,
     pRxChannelData = replicate 4 None, dm_world = w\<rparr>"

end
