(* ===== verification/Mb_Demo_Claims.thy ===== *)
theory Mb_Demo_Claims
  imports Mb_Demo Updater_Init_Props Mailbox_Held Demo_Mailbox
begin

text \<open>The demonstration program: what its command line accepts and what it holds at the end.\<close>

section \<open>Resources of the channels\<close>

definition chan_res :: "platform \<Rightarrow> bool \<Rightarrow> rtss_mb_handle option \<Rightarrow> resource multiset" where
  "chan_res p is_open h = (if is_open then (case h of None \<Rightarrow> {#} | Some k \<Rightarrow> handle_resources p k) else {#})"

definition chan_fine :: "platform \<Rightarrow> bool \<Rightarrow> rtss_mb_handle option \<Rightarrow> bool" where
  "chan_fine p is_open h \<longleftrightarrow> (is_open \<longrightarrow> (\<exists>k. h = Some k \<and> handle_fds p k))"

definition core_res :: "platform \<Rightarrow> mbdemo \<Rightarrow> nat \<Rightarrow> resource multiset" where
  "core_res p st i = chan_res p (g_tx_channel_open_status st ! i) (pTxChannelData st ! i)
     + chan_res p (g_rx_channel_open_status st ! i) (pRxChannelData st ! i)"

definition core_fine :: "platform \<Rightarrow> mbdemo \<Rightarrow> nat \<Rightarrow> bool" where
  "core_fine p st i \<longleftrightarrow> chan_fine p (g_tx_channel_open_status st ! i) (pTxChannelData st ! i)
     \<and> chan_fine p (g_rx_channel_open_status st ! i) (pRxChannelData st ! i)"

definition four :: "mbdemo \<Rightarrow> bool" where
  "four st \<longleftrightarrow> length (g_tx_channel_open_status st) = 4 \<and> length (g_rx_channel_open_status st) = 4
     \<and> length (pTxChannelData st) = 4 \<and> length (pRxChannelData st) = 4"

definition msg_block :: "DemoAppConfig_t \<Rightarrow> resource multiset" where
  "msg_block config = (if msg_allocated config then {#Heap#} else {#})"

lemma close_one:
  assumes "chan_fine p b h" "b" "wheld w = H + chan_res p b h" "rtss_mb_close p h w = (r, w')"
  obtains R where "mappings_only R" "wheld w' = H + R"
proof -
  obtain k where k: "h = Some k" "handle_fds p k"
    using assms(1,2) by (auto simp: chan_fine_def)
  have "wheld (snd (rtss_mb_close p (Some k) w)) = H + {#Mapping (h_p_mb_base_addr k) (h_mb_size k)#}"
    using assms(2,3) k by (intro close_fds) (simp_all add: chan_res_def)
  then show ?thesis
    using assms(4) k by (intro that [of "{#Mapping (h_p_mb_base_addr k) (h_mb_size k)#}"]) simp_all
qed

text \<open>The two halves of a pass of the loop that closes.\<close>

definition close_tx :: "platform \<Rightarrow> nat \<Rightarrow> int \<Rightarrow> mbdemo \<Rightarrow> int \<times> mbdemo" where
  "close_tx p index ret st = (if g_tx_channel_open_status st ! index
     then case rtss_mb_close p (pTxChannelData st ! index) (dm_world st) of (close_ret, w) \<Rightarrow>
       if close_ret \<noteq> RTSS_MB_RETURN_SUCCESS then (exit_failure, st\<lparr>dm_world := w\<rparr>)
       else (ret, st\<lparr>dm_world := w, g_tx_channel_open_status := (g_tx_channel_open_status st)[index := False]\<rparr>)
     else (ret, st))"

definition close_rx :: "platform \<Rightarrow> nat \<Rightarrow> int \<Rightarrow> mbdemo \<Rightarrow> int \<times> mbdemo" where
  "close_rx p index ret st = (if g_rx_channel_open_status st ! index
     then case rtss_mb_close p (pRxChannelData st ! index) (dm_world st) of (close_ret, w) \<Rightarrow>
       if close_ret \<noteq> RTSS_MB_RETURN_SUCCESS then (exit_failure, st\<lparr>dm_world := w\<rparr>)
       else (ret, st\<lparr>dm_world := w, g_rx_channel_open_status := (g_rx_channel_open_status st)[index := False]\<rparr>)
     else (ret, st))"

lemma close_channels_Cons:
  "close_channels p (index # is) ret st =
     (case close_tx p index ret st of (ret, st) \<Rightarrow> case close_rx p index ret st of (ret, st) \<Rightarrow> close_channels p is ret st)"
  by (simp add: close_tx_def close_rx_def)

lemma close_tx_held:
  assumes "close_tx p i ret st = (r, st')" "core_fine p st i" "wheld (dm_world st) = H + core_res p st i"
  obtains R where "mappings_only R"
    "wheld (dm_world st') = H + chan_res p (g_rx_channel_open_status st' ! i) (pRxChannelData st' ! i) + R"
    "chan_fine p (g_rx_channel_open_status st' ! i) (pRxChannelData st' ! i)"
    "\<And>j. j \<noteq> i \<Longrightarrow> core_res p st' j = core_res p st j \<and> core_fine p st' j = core_fine p st j"
    "dm_config st' = dm_config st"
proof (cases "g_tx_channel_open_status st ! i")
  case True
  obtain c w where c: "rtss_mb_close p (pTxChannelData st ! i) (dm_world st) = (c, w)" by fastforce
  have "wheld (dm_world st) = (H + chan_res p (g_rx_channel_open_status st ! i) (pRxChannelData st ! i))
      + chan_res p (g_tx_channel_open_status st ! i) (pTxChannelData st ! i)"
    using assms(3) by (simp add: core_res_def)
  then obtain R where R: "mappings_only R"
      "wheld w = H + chan_res p (g_rx_channel_open_status st ! i) (pRxChannelData st ! i) + R"
    using close_one [OF _ True _ c] assms(2) unfolding core_fine_def by metis
  show ?thesis
    using assms(1,2) True c R by (intro that [of R])
      (auto simp: close_tx_def core_fine_def core_res_def split: if_splits)
next
  case False
  then show ?thesis
    using assms by (intro that [of "{#}"]) (auto simp: close_tx_def core_res_def core_fine_def chan_res_def)
qed

lemma close_rx_held:
  assumes "close_rx p i ret st = (r, st')" "chan_fine p (g_rx_channel_open_status st ! i) (pRxChannelData st ! i)"
    "wheld (dm_world st) = H + chan_res p (g_rx_channel_open_status st ! i) (pRxChannelData st ! i)"
  obtains R where "mappings_only R" "wheld (dm_world st') = H + R"
    "\<And>j. j \<noteq> i \<Longrightarrow> core_res p st' j = core_res p st j \<and> core_fine p st' j = core_fine p st j"
    "dm_config st' = dm_config st"
proof (cases "g_rx_channel_open_status st ! i")
  case True
  obtain c w where c: "rtss_mb_close p (pRxChannelData st ! i) (dm_world st) = (c, w)" by fastforce
  obtain R where R: "mappings_only R" "wheld w = H + R"
    using close_one [OF assms(2) True assms(3) c] .
  show ?thesis
    using assms(1) True c R by (intro that [of R])
      (auto simp: close_rx_def core_fine_def core_res_def split: if_splits)
next
  case False
  then show ?thesis
    using assms by (intro that [of "{#}"]) (auto simp: close_rx_def chan_res_def)
qed

lemma close_channels_held:
  assumes "distinct is" "\<forall>i \<in> set is. core_fine p st i" "wheld (dm_world st) = H + (\<Sum>i \<in> set is. core_res p st i)"
  shows "\<exists>R. mappings_only R \<and> wheld (dm_world (snd (close_channels p is ret st))) = H + R
    \<and> dm_config (snd (close_channels p is ret st)) = dm_config st"
  using assms
proof (induction "is" arbitrary: ret st H)
  case (Cons i "is")
  obtain r1 s1 where t: "close_tx p i ret st = (r1, s1)" by fastforce
  obtain r2 s2 where r: "close_rx p i r1 s1 = (r2, s2)" by fastforce
  let ?S = "\<Sum>j \<in> set is. core_res p st j"
  have st: "core_fine p st i" "wheld (dm_world st) = (H + ?S) + core_res p st i"
    using Cons.prems by simp_all
  obtain R1 where R1: "mappings_only R1"
      "wheld (dm_world s1) = H + ?S + chan_res p (g_rx_channel_open_status s1 ! i) (pRxChannelData s1 ! i) + R1"
      "chan_fine p (g_rx_channel_open_status s1 ! i) (pRxChannelData s1 ! i)"
      "\<And>j. j \<noteq> i \<Longrightarrow> core_res p s1 j = core_res p st j \<and> core_fine p s1 j = core_fine p st j"
      "dm_config s1 = dm_config st"
    using close_tx_held [OF t st] by blast
  have "wheld (dm_world s1) = (H + ?S + R1) + chan_res p (g_rx_channel_open_status s1 ! i) (pRxChannelData s1 ! i)"
    using R1(2) by simp
  then obtain R2 where R2: "mappings_only R2" "wheld (dm_world s2) = H + ?S + R1 + R2"
      "\<And>j. j \<noteq> i \<Longrightarrow> core_res p s2 j = core_res p s1 j \<and> core_fine p s2 j = core_fine p s1 j"
      "dm_config s2 = dm_config s1"
    using close_rx_held [OF r R1(3)] by blast
  have rest: "core_res p s2 j = core_res p st j \<and> core_fine p s2 j = core_fine p st j" if "j \<in> set is" for j
  proof -
    have "j \<noteq> i"
      using that Cons.prems(1) by auto
    then show ?thesis
      using R1(4) R2(3) by simp
  qed
  then have "?S = (\<Sum>j \<in> set is. core_res p s2 j)"
    by (intro sum.cong) simp_all
  then have "wheld (dm_world s2) = (H + (R1 + R2)) + (\<Sum>j \<in> set is. core_res p s2 j)"
    using R2(2) by simp
  moreover have "\<forall>j \<in> set is. core_fine p s2 j"
    using rest Cons.prems(2) by simp
  ultimately obtain R3 where "mappings_only R3"
      "wheld (dm_world (snd (close_channels p is r2 s2))) = (H + (R1 + R2)) + R3"
      "dm_config (snd (close_channels p is r2 s2)) = dm_config s2"
    using Cons.IH [of s2 "H + (R1 + R2)" r2] Cons.prems(1) by auto
  then show ?case
    using R1(1,5) R2(1,4) by (intro exI [of _ "R1 + R2 + R3"]) (simp add: close_channels_Cons t r del: close_channels.simps)
qed simp

section \<open>Opening\<close>

definition demo_inv :: "platform \<Rightarrow> resource multiset \<Rightarrow> mbdemo \<Rightarrow> bool" where
  "demo_inv p H st \<longleftrightarrow> four st \<and> (\<forall>i < 4. core_fine p st i) \<and>
     wheld (dm_world st) = H + msg_block (dm_config st) + (\<Sum>i<4. core_res p st i)"

lemma cleanup_held:
  assumes "demo_inv p H st"
  shows "\<exists>R. mappings_only R \<and> wheld (dm_world (rtss_mb_cleanup_resources p st)) = H + R
    \<and> msg_block (dm_config (rtss_mb_cleanup_resources p st)) = {#}"
proof -
  define s where "s = (if msg_allocated (dm_config st)
    then st\<lparr>dm_world := snd (sys p Sys_free (dm_world st)), dm_config := (dm_config st)\<lparr>message := None, msg_allocated := False\<rparr>\<rparr>
    else st)"
  have range: "set [0..<DEMO_MAX_CORE + 1] = {..<4}"
    by (auto simp: DEMO_MAX_CORE_def)
  have core: "core_res p s i = core_res p st i" "core_fine p s i = core_fine p st i" for i
    by (simp_all add: s_def core_res_def core_fine_def)
  have "wheld (dm_world s) = H + (\<Sum>i \<in> set [0..<DEMO_MAX_CORE + 1]. core_res p s i)"
    using assms unfolding range core by (simp add: demo_inv_def s_def msg_block_def free_held)
  moreover have "\<forall>i \<in> set [0..<DEMO_MAX_CORE + 1]. core_fine p s i"
    using assms unfolding range core by (simp add: demo_inv_def)
  moreover have "msg_block (dm_config s) = {#}"
    by (simp add: s_def msg_block_def)
  ultimately show ?thesis
    using close_channels_held [of "[0..<DEMO_MAX_CORE + 1]" p s H exit_success]
    by (auto simp: rtss_mb_cleanup_resources_def Let_def s_def [symmetric] rtss_mb_close_channels_def)
qed

lemma sum_change: "i < (4::nat) \<Longrightarrow> (\<And>j. j \<noteq> i \<Longrightarrow> f j = g j) \<Longrightarrow> g i = f i + h \<Longrightarrow> (\<Sum>j<4. g j) = (\<Sum>j<4. f j) + h"
  for f g :: "nat \<Rightarrow> resource multiset"
  by (subst (1 2) sum.remove [of _ i]) (auto intro!: sum.cong)

lemma demo_inv_opened:
  assumes inv: "demo_inv p H st" and i: "i < 4" and "four st'"
    and other: "\<And>j. j \<noteq> i \<Longrightarrow> core_res p st' j = core_res p st j \<and> core_fine p st' j = core_fine p st j"
    and new: "core_fine p st' i" "core_res p st' i = core_res p st i + handle_resources p h"
    and w: "wheld (dm_world st') = wheld (dm_world st) + handle_resources p h"
    and cfg: "msg_block (dm_config st') = msg_block (dm_config st)"
  shows "demo_inv p H st'"
proof -
  have "(\<Sum>j<4. core_res p st' j) = (\<Sum>j<4. core_res p st j) + handle_resources p h"
    using other new(2) by (intro sum_change [OF i]) simp_all
  moreover have "core_fine p st' j" if "j < 4" for j
    using inv other new(1) that by (cases "j = i") (simp_all add: demo_inv_def)
  ultimately show ?thesis
    using inv w cfg assms(3) by (simp add: demo_inv_def)
qed

text \<open>A failed open changes nothing that is held; a successful one adds the handle, on either side.\<close>

lemma open_demo:
  assumes ok: "results_ok p" "errno_pos p" and o: "rtss_mb_open p True (Some c) w = ((ret, h), w')"
  obtains (fail) "ret \<noteq> RTSS_MB_RETURN_SUCCESS" "h = None" "wheld w' = wheld w"
  | (opened) k where "ret = RTSS_MB_RETURN_SUCCESS" "h = Some k" "handle_fds p k" "wheld w' = wheld w + handle_resources p k"
proof (cases h)
  case None
  then show ?thesis
    using fail rtss_mb_open_ret [OF ok(2) o] rtss_mb_open_held [OF o] by (simp add: RTSS_MB_RETURN_SUCCESS_def)
next
  case (Some k)
  then show ?thesis
    using opened rtss_mb_open_ret [OF ok(2) o] rtss_mb_open_held [OF o] rtss_mb_open_fds [OF ok(1) o [unfolded Some]]
    by (simp add: RTSS_MB_RETURN_SUCCESS_def)
qed

lemma demo_inv_cong:
  "demo_inv p H st \<Longrightarrow> wheld w = wheld (dm_world st) \<Longrightarrow> msg_block c = msg_block (dm_config st) \<Longrightarrow>
   demo_inv p H (st\<lparr>dm_config := c, dm_world := w\<rparr>)"
  by (simp add: demo_inv_def four_def core_fine_def core_res_def)

definition tx_opened :: "nat \<Rightarrow> rtss_mb_handle option \<Rightarrow> world \<Rightarrow> mbdemo \<Rightarrow> mbdemo" where
  "tx_opened i h w st = st\<lparr>pTxChannelData := stored_at i h (pTxChannelData st), dm_world := w,
     g_tx_channel_open_status := (g_tx_channel_open_status st)[i := True]\<rparr>"

definition rx_opened :: "nat \<Rightarrow> rtss_mb_handle option \<Rightarrow> world \<Rightarrow> mbdemo \<Rightarrow> mbdemo" where
  "rx_opened i h w st = st\<lparr>pRxChannelData := stored_at i h (pRxChannelData st), dm_world := w,
     g_rx_channel_open_status := (g_rx_channel_open_status st)[i := True]\<rparr>"

lemma opened_inv:
  assumes "demo_inv p H st" "i < 4" "handle_fds p k" "wheld w = wheld (dm_world st) + handle_resources p k"
  shows "\<not> g_tx_channel_open_status st ! i \<Longrightarrow> demo_inv p H (tx_opened i (Some k) w st)"
    "\<not> g_rx_channel_open_status st ! i \<Longrightarrow> demo_inv p H (rx_opened i (Some k) w st)"
proof -
  have four: "four st" "core_fine p st i"
    using assms(1,2) by (simp_all add: demo_inv_def)
  show "demo_inv p H (tx_opened i (Some k) w st)" if "\<not> g_tx_channel_open_status st ! i"
    using that four assms by (intro demo_inv_opened [OF assms(1,2), where h = k])
      (auto simp: tx_opened_def stored_at_def four_def core_res_def core_fine_def chan_res_def chan_fine_def)
  show "demo_inv p H (rx_opened i (Some k) w st)" if "\<not> g_rx_channel_open_status st ! i"
    using that four assms by (intro demo_inv_opened [OF assms(1,2), where h = k])
      (auto simp: rx_opened_def stored_at_def four_def core_res_def core_fine_def chan_res_def chan_fine_def)
qed

lemma select_msg: "rtss_mb_select_channels c i = (r, c') \<Longrightarrow> msg_block c' = msg_block c"
  by (auto simp: rtss_mb_select_channels_def msg_block_def Let_def split: if_splits prod.splits)

text \<open>One pass of the loop that opens: it ends the loop or goes on with both channels open.\<close>

definition open_pass :: "platform \<Rightarrow> nat \<Rightarrow> mbdemo \<Rightarrow> mbdemo + mbdemo" where
  "open_pass p i st =
     (case rtss_mb_select_channels (dm_config st) (int i) of (ret, config) \<Rightarrow>
        let st = st\<lparr>dm_config := config\<rparr>
        in if ret \<noteq> exit_success then Inl st
        else case rtss_mb_open p True (Some (tx_channel config)) (dm_world st) of ((ret, h), w) \<Rightarrow>
          if ret \<noteq> RTSS_MB_RETURN_SUCCESS then Inl (st\<lparr>pTxChannelData := stored_at i h (pTxChannelData st), dm_world := w\<rparr>)
          else let st = tx_opened i h w st
          in case rtss_mb_open p True (Some (rx_channel config)) (dm_world st) of ((ret, h), w) \<Rightarrow>
            if ret \<noteq> RTSS_MB_RETURN_SUCCESS then Inl (st\<lparr>pRxChannelData := stored_at i h (pRxChannelData st), dm_world := w\<rparr>)
            else Inr (rx_opened i h w st))"

lemma open_channels_Cons:
  "open_channels p (i # is) st =
     (if \<not> DEMO_CHECK_CORE_MASK i (core_masked (dm_config st)) then open_channels p is st
      else case open_pass p i st of Inl s \<Rightarrow> (exit_failure, s) | Inr s \<Rightarrow> open_channels p is s)"
  by (simp add: open_pass_def tx_opened_def rx_opened_def Let_def split: prod.splits)

definition fresh :: "nat \<Rightarrow> mbdemo \<Rightarrow> bool" where
  "fresh i st \<longleftrightarrow> \<not> g_tx_channel_open_status st ! i \<and> \<not> g_rx_channel_open_status st ! i"

lemma open_pass_inv:
  assumes ok: "results_ok p" "errno_pos p" and inv: "demo_inv p H st" "i < 4" "fresh i st"
  shows "case open_pass p i st of Inl s \<Rightarrow> demo_inv p H s
    | Inr s \<Rightarrow> demo_inv p H s \<and> (\<forall>j. j \<noteq> i \<longrightarrow> fresh j s = fresh j st)"
proof -
  obtain rs config where sel: "rtss_mb_select_channels (dm_config st) (int i) = (rs, config)" by fastforce
  define s0 where "s0 = st\<lparr>dm_config := config\<rparr>"
  have s0: "demo_inv p H s0" "fresh i s0" "\<And>j. fresh j s0 = fresh j st"
    using demo_inv_cong [OF inv(1) refl select_msg [OF sel]] inv(3) by (simp_all add: s0_def fresh_def)
  obtain rt ht wt where tx: "rtss_mb_open p True (Some (tx_channel config)) (dm_world s0) = ((rt, ht), wt)"
    by (metis surj_pair)
  show ?thesis
  proof (cases rule: open_demo [OF ok tx])
    case 1
    then have "demo_inv p H (s0\<lparr>pTxChannelData := stored_at i ht (pTxChannelData s0), dm_world := wt\<rparr>)"
      using demo_inv_cong [OF s0(1), of wt "dm_config s0"] by (simp add: stored_at_def)
    then show ?thesis
      using 1 s0(1) tx by (auto simp: open_pass_def sel s0_def [symmetric] Let_def)
  next
    case (2 k)
    define s1 where "s1 = tx_opened i ht wt s0"
    have s1: "demo_inv p H s1" "\<not> g_rx_channel_open_status s1 ! i" "\<And>j. j \<noteq> i \<Longrightarrow> fresh j s1 = fresh j s0"
      using opened_inv(1) [OF s0(1) inv(2) 2(3,4)] s0(2) 2(2) by (simp_all add: s1_def tx_opened_def fresh_def)
    obtain rr hr wr where rx: "rtss_mb_open p True (Some (rx_channel config)) (dm_world s1) = ((rr, hr), wr)"
      by (metis surj_pair)
    show ?thesis
    proof (cases rule: open_demo [OF ok rx])
      case 1
      then have "demo_inv p H (s1\<lparr>pRxChannelData := stored_at i hr (pRxChannelData s1), dm_world := wr\<rparr>)"
        using demo_inv_cong [OF s1(1), of wr "dm_config s1"] by (simp add: stored_at_def)
      then show ?thesis
        using 1 2 s0(1) tx rx by (auto simp: open_pass_def sel s0_def [symmetric] s1_def [unfolded 2(2), symmetric] Let_def)
    next
      case inner: (2 k')
      have "demo_inv p H (rx_opened i hr wr s1)" "\<And>j. j \<noteq> i \<Longrightarrow> fresh j (rx_opened i hr wr s1) = fresh j st"
        using opened_inv(2) [OF s1(1) inv(2) inner(3,4) s1(2)] inner(2) s1(3) s0(3)
        by (simp_all add: rx_opened_def fresh_def)
      then show ?thesis
        using inner 2 s0(1) tx rx by (auto simp: open_pass_def sel s0_def [symmetric] s1_def [unfolded 2(2), symmetric] Let_def)
    qed
  qed
qed

lemma open_channels_inv:
  assumes "results_ok p" "errno_pos p"
  shows "demo_inv p H st \<Longrightarrow> distinct is \<Longrightarrow> set is \<subseteq> {..<4} \<Longrightarrow> \<forall>i \<in> set is. fresh i st \<Longrightarrow>
    demo_inv p H (snd (open_channels p is st))"
proof (induction "is" arbitrary: st)
  case (Cons i "is")
  have "case open_pass p i st of Inl s \<Rightarrow> demo_inv p H s
    | Inr s \<Rightarrow> demo_inv p H s \<and> (\<forall>j. j \<noteq> i \<longrightarrow> fresh j s = fresh j st)"
    using Cons.prems by (intro open_pass_inv [OF assms]) simp_all
  moreover have "j \<noteq> i" if "j \<in> set is" for j
    using that Cons.prems(2) by auto
  ultimately show ?case
    using Cons.IH Cons.prems by (auto simp: open_channels_Cons simp del: open_channels.simps split: sum.splits)
qed simp

section \<open>Running\<close>

lemma parser_held:
  "rtss_mb_command_parser p opts c w = ((r, c'), w') \<Longrightarrow> wheld w = H + msg_block c \<Longrightarrow> wheld w' = H + msg_block c'"
proof (induction p opts c w arbitrary: r c' w' rule: rtss_mb_command_parser.induct)
  case (2 p opt opts config w)
  then show ?case
    by (auto simp: msg_block_def Let_def free_held split: mbdemo_opt.splits prod.splits if_splits dest!: wheld_sys)
qed simp

definition same_but_world :: "mbdemo \<Rightarrow> mbdemo \<Rightarrow> bool" where
  "same_but_world st st' \<longleftrightarrow> (\<exists>w. st' = st\<lparr>dm_world := w\<rparr> \<and> wheld w = wheld (dm_world st))"

lemma same_but_world_refl [simp]: "same_but_world st st"
  unfolding same_but_world_def by (intro exI [of _ "dm_world st"]) simp

lemma same_but_world_trans: "same_but_world a b \<Longrightarrow> same_but_world b c \<Longrightarrow> same_but_world a c"
  by (auto simp: same_but_world_def)

lemma same_but_world_inv: "same_but_world st st' \<Longrightarrow> demo_inv p H st \<Longrightarrow> demo_inv p H st'"
  using demo_inv_cong [of p H st _ "dm_config st"] by (auto simp: same_but_world_def)

lemma demo_cores_held:
  "demo_cores p frames cnt cores ret st = Some r \<Longrightarrow>
     (case r of Inl (c, st') \<Rightarrow> same_but_world st st' | Inr (c, st') \<Rightarrow> same_but_world st st')"
proof (induction cores arbitrary: ret st r)
  case Nil
  then show ?case by auto
next
  case (Cons core cores)
  show ?case
  proof (cases "DEMO_CHECK_CORE_MASK core (core_masked (dm_config st))")
    case False
    then show ?thesis
      using Cons by simp
  next
    case True
    define w where "w = (dm_world st)\<lparr>w_mem := put_bytes (w_mem (dm_world st)) (fst frames) (demo_payload (message (dm_config st)) (Suc cnt))\<rparr>"
    obtain n w1 where wr: "rtss_mb_write p (pTxChannelData st ! core) (fst frames) (of_nat DEMO_MSG_SZ) w = (n, w1)"
      by fastforce
    define w2 where "w2 = (snd (sys p (Sys_usleep DEMO_DELAY_US) w1))\<lparr>w_mem :=
      put_bytes (w_mem (snd (sys p (Sys_usleep DEMO_DELAY_US) w1))) (snd frames) (replicate DEMO_MSG_SZ 0)\<rparr>"
    have h: "wheld w1 = wheld (dm_world st)" "wheld w2 = wheld (dm_world st)"
      using rtss_mb_write_held [OF wr] by (simp_all add: w_def w2_def wheld_snd_sys)
    show ?thesis
    proof (cases "n < 0")
      case True
      then show ?thesis
        using Cons.prems \<open>DEMO_CHECK_CORE_MASK _ _\<close> wr h by (auto simp: w_def [symmetric] Let_def same_but_world_def)
    next
      case False
      then obtain k w3 where rd: "rtss_mb_read p (pRxChannelData st ! core) (snd frames) (of_nat DEMO_MSG_SZ) w2 = Some (k, w3)"
        and go: "(if k < 0 then Some (Inl (exit_failure, st\<lparr>dm_world := w3\<rparr>))
            else demo_cores p frames cnt cores k (st\<lparr>dm_world := snd (sys p (Sys_usleep DEMO_DELAY_US) w3)\<rparr>)) = Some r"
        using Cons.prems True wr by (auto simp: w_def [symmetric] w2_def [symmetric] Let_def split: option.splits)
      have st: "same_but_world st (st\<lparr>dm_world := w3\<rparr>)"
          "same_but_world st (st\<lparr>dm_world := snd (sys p (Sys_usleep DEMO_DELAY_US) w3)\<rparr>)"
        using rtss_mb_read_held [OF rd] h by (auto simp: same_but_world_def wheld_snd_sys)
      show ?thesis
      proof (cases "k < 0")
        case True
        then show ?thesis using go st(1) by auto
      next
        case False
        then have "demo_cores p frames cnt cores k (st\<lparr>dm_world := snd (sys p (Sys_usleep DEMO_DELAY_US) w3)\<rparr>) = Some r"
          using go by simp
        from Cons.IH [OF this] show ?thesis
          using same_but_world_trans [OF st(2)] by (cases r) auto
      qed
    qed
  qed
qed

lemma demo_iterations_held:
  "demo_iterations p g frames cnt n ret st = Some (r, st') \<Longrightarrow> same_but_world st st'"
proof (induction n arbitrary: cnt ret st)
  case 0
  then show ?case by auto
next
  case (Suc n)
  show ?case
  proof (cases "g (w_now (dm_world st))")
    case True
    then show ?thesis using Suc.prems by auto
  next
    case False
    then obtain y where y: "demo_cores p frames cnt [0..<DEMO_MAX_CORE + 1] ret st = Some y"
      using Suc.prems by (auto split: option.splits)
    have "case y of Inl (c, s) \<Rightarrow> y = Inl (r, st') | Inr (c, s) \<Rightarrow> demo_iterations p g frames (Suc cnt) n c s = Some (r, st')"
      using Suc.prems False y by (auto split: sum.splits)
    then show ?thesis
      using demo_cores_held [OF y] Suc.IH same_but_world_trans by (auto split: sum.splits)
  qed
qed

section \<open>Properties\<close>

text \<open>C18: However the demonstration program ends, with help, a bad argument, a failed open, a failed transfer, a
  signal or all iterations, it has given back every handle, descriptor and block; only mappings of the
  mailbox stay.\<close>

theorem mbdemo_main_releases:
  assumes "mbdemo_main p g_signal frames opts (mbdemo_init w) = Some (r, st')" "results_ok p" "errno_pos p"
  shows "\<exists>R. mappings_only R \<and> wheld (dm_world st') = wheld w + R \<and> \<not> msg_allocated (dm_config st')"
proof -
  let ?H = "wheld w"
  obtain r1 c w1 where parse: "rtss_mb_command_parser p opts demo_config w = ((r1, c), w1)"
    by (metis surj_pair)
  define s1 where "s1 = (mbdemo_init w)\<lparr>dm_config := c, dm_world := w1\<rparr>"
  have "wheld w1 = ?H + msg_block c"
    using parser_held [OF parse, of ?H] by (simp add: msg_block_def demo_config_def)
  then have inv: "demo_inv p ?H s1"
    by (simp add: demo_inv_def s1_def mbdemo_init_def four_def core_fine_def core_res_def chan_res_def chan_fine_def)
  have fresh: "fresh i s1" if "i < 4" for i
    using that by (simp add: fresh_def s1_def mbdemo_init_def)
  obtain r2 s2 where op: "rtss_mb_open_channel p s1 = (r2, s2)" by fastforce
  have inv2: "demo_inv p ?H s2"
    using open_channels_inv [OF assms(2,3) inv, of "[0..<DEMO_MAX_CORE + 1]"] fresh op
    by (auto simp: rtss_mb_open_channel_def DEMO_MAX_CORE_def atLeast0LessThan)
  have init: "dm_config (mbdemo_init w) = demo_config" "dm_world (mbdemo_init w) = w"
    by (simp_all add: mbdemo_init_def)
  have "st' = rtss_mb_cleanup_resources p s1 \<or> st' = rtss_mb_cleanup_resources p s2
    \<or> (\<exists>n s. demo_iterations p g_signal frames 0 n r2 s2 = Some (r, s) \<and> st' = rtss_mb_cleanup_resources p s)"
    using assms(1) parse op
    by (auto simp: mbdemo_main_def init s1_def [symmetric] Let_def simp del: demo_iterations.simps
        split: if_splits option.splits prod.splits)
  then have "\<exists>s. demo_inv p ?H s \<and> st' = rtss_mb_cleanup_resources p s"
    using inv inv2 same_but_world_inv [OF demo_iterations_held] by metis
  then obtain s where "demo_inv p ?H s" "st' = rtss_mb_cleanup_resources p s"
    by blast
  then show ?thesis
    using cleanup_held by (force simp: msg_block_def split: if_splits)
qed

definition mbdemo_platform :: platform where
  "mbdemo_platform = demo_platform\<lparr>answer := (\<lambda>k. \<lparr>a_ret = (if k = 0 then 8192 else 0), a_err = 4, a_size = 0, a_addr = 0,
     a_revents = 0, a_mode = 0, a_data = [], a_peer = id\<rparr>)\<rparr>"

text \<open>A text is copied to a block; then the first channel cannot be opened.\<close>

theorem mbdemo_main_releases_witness:
  "\<exists>r st' R. mbdemo_main mbdemo_platform (\<lambda>k. False) (1024, 2048) [Mo_s [104, 105]] (mbdemo_init (demo_world demo_mem1)) = Some (r, st')
    \<and> r = exit_failure \<and> mappings_only R \<and> wheld (dm_world st') = R"
proof -
  have "\<exists>st'. mbdemo_main mbdemo_platform (\<lambda>k. False) (1024, 2048) [Mo_s [104, 105]] (mbdemo_init (demo_world demo_mem1)) = Some (exit_failure, st')"
    by (simp add: mbdemo_main_def mbdemo_init_def demo_config_def sys_def Let_def DEMO_MSG_SZ_def mbdemo_platform_def
        DEMO_HELP_CMD_def exit_success_def exit_failure_def rtss_mb_open_channel_def DEMO_MAX_CORE_def upt_rec
        DEMO_CHECK_CORE_MASK_def DEMO_ALL_CORES_MASKED_def rtss_mb_select_channels_def snprintf_str_def
        DEMO_CHANNEL_NAME_SIZE_def tx_channels_def rx_channels_def ascii_def rtss_mb_open_def errno_defs)
  then show ?thesis
    using mbdemo_main_releases [of mbdemo_platform "\<lambda>k. False" "(1024, 2048)" "[Mo_s [104, 105]]" "demo_world demo_mem1"]
    by (fastforce simp: mbdemo_platform_def results_ok_def errno_pos_def wheld_def)
qed

text \<open>A command line that the demonstration program accepts selects at least one and at most four cores,
  and a text and a number of iterations that fit; every message then is 64 bytes long with a terminated text.\<close>

theorem mbdemo_parser_accepts:
  assumes "rtss_mb_command_parser p opts demo_config w = ((exit_success, config), w')"
  shows "1 \<le> core_masked config \<and> core_masked config \<le> 15 \<and> (\<exists>s. message config = Some s \<and> length s < DEMO_MSG_SZ)
    \<and> length (demo_payload (message config) n) = DEMO_MSG_SZ \<and> last (demo_payload (message config) n) = 0"
proof -
  have "rtss_mb_command_parser p opts c w = ((exit_success, config), w') \<Longrightarrow>
      1 \<le> core_masked c \<and> core_masked c \<le> 15 \<and> (\<exists>s. message c = Some s \<and> length s < DEMO_MSG_SZ) \<Longrightarrow>
      1 \<le> core_masked config \<and> core_masked config \<le> 15 \<and> (\<exists>s. message config = Some s \<and> length s < DEMO_MSG_SZ)" for c w
    by (induction p opts c w rule: rtss_mb_command_parser.induct)
      (auto simp: Let_def exit_success_def exit_failure_def DEMO_HELP_CMD_def DEMO_ALL_CORES_MASKED_def
        split: mbdemo_opt.splits prod.splits if_splits)
  moreover have "1 \<le> core_masked demo_config \<and> core_masked demo_config \<le> 15 \<and> (\<exists>s. message demo_config = Some s \<and> length s < DEMO_MSG_SZ)"
    by (simp add: demo_config_def DEMO_ALL_CORES_MASKED_def ascii_def DEMO_MSG_SZ_def)
  moreover have "length (demo_payload msg n) = DEMO_MSG_SZ \<and> last (demo_payload msg n) = 0" for msg
  proof -
    define s where "s = snd (snprintf_str 64 ((case msg of None \<Rightarrow> ascii ''(null)'' | Some s \<Rightarrow> s)
      @ ascii '' ('' @ decimal n @ ascii '')''))"
    have "length s \<le> 63"
      by (simp only: s_def snprintf_str_def snd_conv length_take)
    then have "length (s @ replicate (64 - length s) 0) = 64 \<and> last (s @ replicate (64 - length s) (0 :: u8)) = 0"
      by simp
    then show ?thesis
      by (simp only: demo_payload_def DEMO_MSG_SZ_def Let_def s_def [symmetric])
  qed
  ultimately show ?thesis
    using assms by blast
qed

theorem mbdemo_parser_accepts_witness:
  "let c = demo_config\<lparr>core_masked := 5, iterations := 2\<rparr> in
   rtss_mb_command_parser demo_platform [Mo_c (ascii ''0x5''), Mo_n (ascii ''2'')] demo_config (demo_world demo_mem1)
     = ((exit_success, c), demo_world demo_mem1) \<and> length (demo_payload (message c) 7) = 64"
proof -
  let ?c = "demo_config\<lparr>core_masked := 5, iterations := 2\<rparr>"
  have "rtss_mb_command_parser demo_platform [Mo_c (ascii ''0x5''), Mo_n (ascii ''2'')] demo_config (demo_world demo_mem1)
     = ((exit_success, ?c), demo_world demo_mem1)"
    by (simp add: ascii_def strtol_def number_base_def has_digit_def digit_value_def is_space_def int_of_long_def
        DEMO_ALL_CORES_MASKED_def Let_def)
  then show ?thesis
    using mbdemo_parser_accepts [of demo_platform _ "demo_world demo_mem1" ?c "demo_world demo_mem1" 7]
    by (auto simp: DEMO_MSG_SZ_def Let_def simp del: rtss_mb_command_parser.simps)
qed

end
