(* ===== verification/Dbg_Args.thy ===== *)
theory Dbg_Args
  imports Std_Functions
begin

text \<open>
  The command line of the debug program, \<^verbatim>\<open>apps/rtss-dbg/rtss_dbg.c\<close>. An event is what one call of
  \<open>getopt_long\<close> returns: the option, \<open>optarg\<close> and the new \<open>optind\<close>. Numbers are not taken from \<open>optarg\<close>
  but from the element of \<open>argv\<close> before \<open>optind\<close>. Members that are never read and the index kept for the
  error message are left out.
\<close>

section \<open>State\<close>

definition RTSSDBG_E_OK :: int where "RTSSDBG_E_OK = 0"
definition RTSSDBG_E_WR :: int where "RTSSDBG_E_WR = 0x01"
definition RTSSDBG_E_RD :: int where "RTSSDBG_E_RD = 0x02"
definition RTSSDBG_E_CMD :: int where "RTSSDBG_E_CMD = 0x03"
definition RTSSDBG_E_PL :: int where "RTSSDBG_E_PL = 0x04"
definition RTSSDBG_E_UG :: int where "RTSSDBG_E_UG = 0x05"
definition RTSSDBG_E_DLY :: int where "RTSSDBG_E_DLY = 0x06"
definition RTSSDBG_E_LEN :: int where "RTSSDBG_E_LEN = 0x07"
definition RTSSDBG_E_ITER :: int where "RTSSDBG_E_ITER = 0x08"
definition RTSSDBG_E_STR :: int where "RTSSDBG_E_STR = 0x09"
definition RTSSDBG_E_NR :: int where "RTSSDBG_E_NR = 0x0A"
definition RTSSDBG_E_AID :: int where "RTSSDBG_E_AID = 0x0B"
definition RTSSDBG_E_DCTL :: int where "RTSSDBG_E_DCTL = 0x0C"
definition RTSSDBG_E_HELP :: int where "RTSSDBG_E_HELP = 0x0D"
definition RTSSDBG_E_PTR :: int where "RTSSDBG_E_PTR = 0x0E"
definition RTSSDBG_E_FILE :: int where "RTSSDBG_E_FILE = 0x0F"
definition RTSSDBG_E_QSAR :: int where "RTSSDBG_E_QSAR = 0x10"
definition RTSSDBG_E_RESDMZ :: int where "RTSSDBG_E_RESDMZ = 0x11"
definition RTSSDBG_E_KPIRNODE :: int where "RTSSDBG_E_KPIRNODE = 0x12"
definition RTSSDBG_E_KPIWNODE :: int where "RTSSDBG_E_KPIWNODE = 0x13"
definition RTSSDBG_E_KPIMAZSZ :: int where "RTSSDBG_E_KPIMAZSZ = 0x14"
definition RTSSDBG_E_KPIMCONT :: int where "RTSSDBG_E_KPIMCONT = 0x16"
definition RTSSDBG_E_OPT :: int where "RTSSDBG_E_OPT = 0x17"

definition RTSSDBG_RD_MODE :: int where "RTSSDBG_RD_MODE = 0"
definition RTSSDBG_WR_MODE :: int where "RTSSDBG_WR_MODE = 1"
definition RTSSDBG_NBRD_MODE :: int where "RTSSDBG_NBRD_MODE = 0x80"
definition RTSSDBG_NBWR_MODE :: int where "RTSSDBG_NBWR_MODE = 0x81"
definition RTSSDBG_ND_SZ :: nat where "RTSSDBG_ND_SZ = 32"
definition RTSSDBG_FNM_SZ :: nat where "RTSSDBG_FNM_SZ = 64"
definition RTSSDBG_PLOAD_MAX :: nat where "RTSSDBG_PLOAD_MAX = 256"
definition RTSSDBG_MBTF_PLOAD_MAX :: nat where "RTSSDBG_MBTF_PLOAD_MAX = 58"
definition RTSSDBG_WR_OPT :: int where "RTSSDBG_WR_OPT = 1"
definition RTSSDBG_RD_OPT :: int where "RTSSDBG_RD_OPT = 2"
definition RTSSDBG_STR_OPT :: int where "RTSSDBG_STR_OPT = 3"
definition RTSSDBG_DCTL_OPT :: int where "RTSSDBG_DCTL_OPT = 5"
definition RTSSDBG_IFILE_OPT :: int where "RTSSDBG_IFILE_OPT = 6"
definition RTSSDBG_OFILE_OPT :: int where "RTSSDBG_OFILE_OPT = 7"
definition RTSSDBG_PLOAD_OPT :: int where "RTSSDBG_PLOAD_OPT = 8"
definition RTSSDBG_QSAR_OPT :: int where "RTSSDBG_QSAR_OPT = 9"
definition RTSSDBG_RESDMNZ_OPT :: int where "RTSSDBG_RESDMNZ_OPT = 10"
definition RTSSDBG_KPIRND_OPT :: int where "RTSSDBG_KPIRND_OPT = 11"
definition RTSSDBG_KPIWND_OPT :: int where "RTSSDBG_KPIWND_OPT = 12"
definition RTSSDBG_KPIFILE_OPT :: int where "RTSSDBG_KPIFILE_OPT = 13"
definition RTSSDBG_MCONT_OPT :: int where "RTSSDBG_MCONT_OPT = 14"

record rtssdbg_argopt_t =
  rnode :: "u8 list"
  wnode :: "u8 list"
  ug :: "u8 list option"
  rmode :: int
  wmode :: int
  err :: int
  optind :: nat
  act :: int
  iter :: int
  dly :: u32
  cmd :: int
  len :: int
  str :: int
  nr :: int
  aid :: int
  dctl :: int
  ifctl :: int
  ofctl :: int
  ploadctl :: int
  qsar :: int
  resdmnz :: int
  kpimaxsz :: int
  kpifctl :: int
  kpiract :: int
  kpiwact :: int
  kpimcont :: int
  kpirnode :: "u8 list"
  kpiwnode :: "u8 list"
  kpifname :: "u8 list"
  ifname :: "u8 list"
  ofname :: "u8 list"
  d :: "u8 list"

text \<open>\<open>rtssdbg_mcpy\<close> into an array of the program, from index \<open>i\<close> of it.\<close>

definition rtssdbg_mcpy :: "u8 list \<Rightarrow> nat \<Rightarrow> nat \<Rightarrow> u8 list \<Rightarrow> nat \<Rightarrow> nat \<times> u8 list" where
  "rtssdbg_mcpy dst i dst_size src src_size =
     (let copy_size = min dst_size src_size
      in (copy_size, take i dst @ take copy_size src @ drop (i + copy_size) dst))"

definition row_of :: "u8 list \<Rightarrow> nat \<Rightarrow> u8 list \<Rightarrow> u8 list" where
  "row_of dst n s = snd (rtssdbg_mcpy dst 0 n (s @ [0]) (length s + 1))"

section \<open>Arguments\<close>

text \<open>The number and the error, if there is one; a null pointer gives \<open>EXIT_FAILURE\<close>.\<close>

definition rtssdbg_getopt_atoi :: "u8 list option \<Rightarrow> int \<times> int option" where
  "rtssdbg_getopt_atoi argv =
     (case argv of None \<Rightarrow> (exit_failure, Some RTSSDBG_E_PTR)
      | Some s \<Rightarrow>
          (case strtol 0 (cstr s) of (v, endptr, erange) \<Rightarrow>
             (int_of_long v, if erange \<or> endptr = cstr s \<or> endptr \<noteq> [] then Some RTSSDBG_E_OPT else None)))"

definition note_err :: "int option \<Rightarrow> rtssdbg_argopt_t \<Rightarrow> rtssdbg_argopt_t" where
  "note_err e a = (case e of None \<Rightarrow> a | Some x \<Rightarrow> a\<lparr>err := x\<rparr>)"

text \<open>The three macros: an option is accepted once, as long as its member is zero.\<close>

definition RTSSDBG_GETOPT_USR_RESULT ::
  "int \<Rightarrow> (int \<Rightarrow> rtssdbg_argopt_t \<Rightarrow> rtssdbg_argopt_t) \<Rightarrow> int \<Rightarrow> int \<Rightarrow> rtssdbg_argopt_t \<Rightarrow> rtssdbg_argopt_t" where
  "RTSSDBG_GETOPT_USR_RESULT cur put v e a = (if cur = 0 then put v a else a\<lparr>err := e\<rparr>)"

definition argv_at :: "u8 list list \<Rightarrow> nat \<Rightarrow> u8 list option" where
  "argv_at argv i = (if i < length argv then Some (argv ! i) else None)"

definition RTSSDBG_GETOPT_A2I_RESULT ::
  "u8 list list \<Rightarrow> int \<Rightarrow> (int \<Rightarrow> rtssdbg_argopt_t \<Rightarrow> rtssdbg_argopt_t) \<Rightarrow> int \<Rightarrow> rtssdbg_argopt_t \<Rightarrow> rtssdbg_argopt_t" where
  "RTSSDBG_GETOPT_A2I_RESULT argv cur put e a =
     (if cur = 0 then (case rtssdbg_getopt_atoi (argv_at argv (optind a)) of (v, er) \<Rightarrow> put v (note_err er a))
      else a\<lparr>err := e\<rparr>)"

definition rtssdbg_getopt_node :: "u8 list option \<Rightarrow> int \<Rightarrow> int \<Rightarrow> rtssdbg_argopt_t \<Rightarrow> rtssdbg_argopt_t" where
  "rtssdbg_getopt_node unode e node_opt a =
     (case unode of None \<Rightarrow> a\<lparr>err := RTSSDBG_E_PTR\<rparr>
      | Some s \<Rightarrow>
          let s = cstr s; n = length s + 1
          in if s = ascii ''/dev/sail/log'' then a\<lparr>rnode := row_of (rnode a) RTSSDBG_ND_SZ s\<rparr>
             else if 10 < n \<and> n \<le> RTSSDBG_ND_SZ
             then if node_opt = RTSSDBG_KPIRND_OPT then a\<lparr>kpirnode := row_of (kpirnode a) RTSSDBG_ND_SZ s\<rparr>
                  else if node_opt = RTSSDBG_KPIWND_OPT then a\<lparr>kpiwnode := row_of (kpiwnode a) RTSSDBG_ND_SZ s\<rparr>
                  else if node_opt = RTSSDBG_WR_OPT \<or> node_opt = RTSSDBG_RD_OPT
                  then a\<lparr>rnode := (row_of (rnode a) RTSSDBG_ND_SZ s)[n - 2 := 49],
                         wnode := (row_of (wnode a) RTSSDBG_ND_SZ s)[n - 2 := 48]\<rparr>
                  else a\<lparr>err := e\<rparr>
             else a\<lparr>err := e\<rparr>)"

definition rtssdbg_getopt_fname :: "u8 list option \<Rightarrow> int \<Rightarrow> int \<Rightarrow> rtssdbg_argopt_t \<Rightarrow> rtssdbg_argopt_t" where
  "rtssdbg_getopt_fname fname e opt a =
     (case fname of None \<Rightarrow> a\<lparr>err := RTSSDBG_E_PTR\<rparr>
      | Some s \<Rightarrow>
          let s = cstr s; n = length s + 1
          in if opt = RTSSDBG_IFILE_OPT
             then if 1 < n \<and> 0 < len a \<and> len a < int RTSSDBG_MBTF_PLOAD_MAX
                  then a\<lparr>ifname := row_of (ifname a) RTSSDBG_FNM_SZ s,
                         d := snd (rtssdbg_mcpy (d a) (nat (len a)) (RTSSDBG_MBTF_PLOAD_MAX - nat (len a)) (s @ [0]) n)\<rparr>
                  else a\<lparr>err := e\<rparr>
             else if opt = RTSSDBG_OFILE_OPT
             then if 1 < n \<and> n < RTSSDBG_FNM_SZ then a\<lparr>ofname := row_of (ofname a) RTSSDBG_FNM_SZ s\<rparr> else a\<lparr>err := e\<rparr>
             else if opt = RTSSDBG_KPIFILE_OPT
             then if 1 < n \<and> n < RTSSDBG_FNM_SZ then a\<lparr>kpifname := row_of (kpifname a) RTSSDBG_FNM_SZ s\<rparr> else a\<lparr>err := e\<rparr>
             else a\<lparr>err := e\<rparr>)"

section \<open>Payload\<close>

text \<open>Bytes: the elements of \<open>argv\<close> from \<open>optind\<close> on, as many as the length says. The loop takes the
  elements that are left.\<close>

fun payload_loop :: "u8 list list \<Rightarrow> nat \<Rightarrow> rtssdbg_argopt_t \<Rightarrow> rtssdbg_argopt_t" where
  "payload_loop [] rind a = a"
| "payload_loop (s # ss) rind a =
     (let a = (if rind < RTSSDBG_PLOAD_MAX
               then case rtssdbg_getopt_atoi (Some s) of (ret, er) \<Rightarrow>
                 note_err er (a\<lparr>d := (d a)[rind := word_of_int (if 0xFF < ret then 0 else ret)]\<rparr>)
               else a)
      in payload_loop ss (rind + 1) (a\<lparr>ploadctl := RTSSDBG_PLOAD_OPT\<rparr>))"

definition rtssdbg_getopt_payload :: "u8 list list \<Rightarrow> rtssdbg_argopt_t \<Rightarrow> rtssdbg_argopt_t" where
  "rtssdbg_getopt_payload argv a =
     (if len a = 0 then a\<lparr>err := RTSSDBG_E_LEN\<rparr>
      else payload_loop (take (nat (len a)) (drop (optind a) argv)) 0 a)"

text \<open>Words: they are put next to each other with a blank after each. The result is the array, the
  next index and the number of words taken.\<close>

fun words_loop :: "u8 list list \<Rightarrow> u8 list \<Rightarrow> nat \<Rightarrow> nat \<Rightarrow> u8 list \<times> nat \<times> nat" where
  "words_loop [] buf rind n = (buf, rind, n)"
| "words_loop (s # ss) buf rind n =
     (if rind < RTSSDBG_MBTF_PLOAD_MAX - 1
      then case rtssdbg_mcpy buf rind (RTSSDBG_MBTF_PLOAD_MAX - 1 - rind) (cstr s) (length (cstr s)) of
        (wind, buf) \<Rightarrow> words_loop ss (buf[rind + wind := 32]) (rind + wind + 1) (n + 1)
      else (buf, rind, n))"

definition rtssdbg_getopt_qsarpayload :: "u8 list list \<Rightarrow> rtssdbg_argopt_t \<Rightarrow> rtssdbg_argopt_t" where
  "rtssdbg_getopt_qsarpayload argv a =
     (if len a = 0 then a\<lparr>err := RTSSDBG_E_LEN\<rparr>
      else let nword = int (optind a) + len a
      in case words_loop (take (nat (len a)) (drop (optind a) argv)) (d a) 0 0 of (d', rind, n) \<Rightarrow>
        let a = a\<lparr>d := d', len := int rind - 1\<rparr>;
            cnt = optind a + n
        in if len a \<ge> int RTSSDBG_MBTF_PLOAD_MAX then a\<lparr>err := RTSSDBG_E_LEN\<rparr>
           else if int (length argv) = nword \<and> cnt = length argv
           then a\<lparr>d := (d a)[nat (len a) := 0], len := len a + 1, ploadctl := RTSSDBG_PLOAD_OPT\<rparr>
           else a\<lparr>err := RTSSDBG_E_QSAR, d := (d a)[RTSSDBG_PLOAD_MAX - 1 := 0]\<rparr>)"

section \<open>The parser\<close>

datatype dbg_opt = Dw | Dr | Dc | Dp | DU | Dd | Dl | Di | Ds | Dn | Da | Db | Dm | DI | DO | Dq
  | De | Dk | DK | Dx | Df | Dt | Dh | Dother

definition option_char :: "u8 list list \<Rightarrow> dbg_opt \<Rightarrow> u8 list option \<Rightarrow> rtssdbg_argopt_t \<Rightarrow> rtssdbg_argopt_t" where
  "option_char argv uch optarg a =
     (case uch of
        Dw \<Rightarrow> (rtssdbg_getopt_node optarg RTSSDBG_E_WR RTSSDBG_WR_OPT
                (RTSSDBG_GETOPT_USR_RESULT (act a) (\<lambda>v. act_update (\<lambda>_. v)) RTSSDBG_WR_OPT RTSSDBG_E_WR a))
              \<lparr>rmode := RTSSDBG_NBRD_MODE, wmode := RTSSDBG_NBWR_MODE\<rparr>
      | Dr \<Rightarrow> (rtssdbg_getopt_node optarg RTSSDBG_E_RD RTSSDBG_RD_OPT
                (RTSSDBG_GETOPT_USR_RESULT (act a) (\<lambda>v. act_update (\<lambda>_. v)) RTSSDBG_RD_OPT RTSSDBG_E_RD a))
              \<lparr>rmode := RTSSDBG_NBRD_MODE, wmode := RTSSDBG_NBWR_MODE\<rparr>
      | Dc \<Rightarrow> RTSSDBG_GETOPT_A2I_RESULT argv (cmd a) (\<lambda>v. cmd_update (\<lambda>_. v)) RTSSDBG_E_CMD a
      | Dp \<Rightarrow> if qsar a = RTSSDBG_QSAR_OPT then rtssdbg_getopt_qsarpayload argv a else rtssdbg_getopt_payload argv a
      | DU \<Rightarrow> if ug a = None then a\<lparr>ug := optarg\<rparr> else a\<lparr>err := RTSSDBG_E_UG\<rparr>
      | Dd \<Rightarrow> RTSSDBG_GETOPT_A2I_RESULT argv (uint (dly a)) (\<lambda>v. dly_update (\<lambda>_. word_of_int v)) RTSSDBG_E_DLY a
      | Dl \<Rightarrow> (let a = RTSSDBG_GETOPT_A2I_RESULT argv (len a) (\<lambda>v. len_update (\<lambda>_. v)) RTSSDBG_E_LEN a
               in if len a < 0 \<or> len a \<ge> int RTSSDBG_MBTF_PLOAD_MAX then a\<lparr>err := RTSSDBG_E_LEN\<rparr> else a)
      | Di \<Rightarrow> RTSSDBG_GETOPT_A2I_RESULT argv (iter a) (\<lambda>v. iter_update (\<lambda>_. v)) RTSSDBG_E_ITER a
      | Ds \<Rightarrow> RTSSDBG_GETOPT_USR_RESULT (str a) (\<lambda>v. str_update (\<lambda>_. v)) RTSSDBG_STR_OPT RTSSDBG_E_STR a
      | Dn \<Rightarrow> RTSSDBG_GETOPT_A2I_RESULT argv (nr a) (\<lambda>v. nr_update (\<lambda>_. v)) RTSSDBG_E_NR a
      | Da \<Rightarrow> RTSSDBG_GETOPT_A2I_RESULT argv (aid a) (\<lambda>v. aid_update (\<lambda>_. v)) RTSSDBG_E_AID a
      | Db \<Rightarrow> if act a = RTSSDBG_RD_OPT then a\<lparr>rmode := RTSSDBG_RD_MODE\<rparr>
              else if act a = RTSSDBG_WR_OPT then a\<lparr>wmode := RTSSDBG_WR_MODE\<rparr> else a
      | Dm \<Rightarrow> RTSSDBG_GETOPT_USR_RESULT (dctl a) (\<lambda>v. dctl_update (\<lambda>_. v)) RTSSDBG_DCTL_OPT RTSSDBG_E_DCTL a
      | DI \<Rightarrow> (let a = rtssdbg_getopt_fname optarg RTSSDBG_E_FILE RTSSDBG_IFILE_OPT
                 (RTSSDBG_GETOPT_USR_RESULT (ifctl a) (\<lambda>v. ifctl_update (\<lambda>_. v)) RTSSDBG_IFILE_OPT RTSSDBG_E_FILE a)
               in if ploadctl a \<noteq> RTSSDBG_PLOAD_OPT then a\<lparr>err := RTSSDBG_E_PL\<rparr> else a)
      | DO \<Rightarrow> (let a = rtssdbg_getopt_fname optarg RTSSDBG_E_FILE RTSSDBG_OFILE_OPT
                 (RTSSDBG_GETOPT_USR_RESULT (ofctl a) (\<lambda>v. ofctl_update (\<lambda>_. v)) RTSSDBG_OFILE_OPT RTSSDBG_E_FILE a)
               in if ifctl a \<noteq> RTSSDBG_IFILE_OPT then a\<lparr>err := RTSSDBG_E_FILE\<rparr> else a)
      | Dq \<Rightarrow> if ploadctl a \<noteq> 0 then a\<lparr>err := RTSSDBG_E_PL\<rparr> else if len a \<noteq> 0 then a\<lparr>err := RTSSDBG_E_LEN\<rparr>
              else a\<lparr>qsar := RTSSDBG_QSAR_OPT\<rparr>
      | De \<Rightarrow> RTSSDBG_GETOPT_USR_RESULT (resdmnz a) (\<lambda>v. resdmnz_update (\<lambda>_. v)) RTSSDBG_RESDMNZ_OPT RTSSDBG_E_RESDMZ a
      | Dk \<Rightarrow> rtssdbg_getopt_node optarg RTSSDBG_E_KPIRNODE RTSSDBG_KPIRND_OPT
                (RTSSDBG_GETOPT_USR_RESULT (kpiract a) (\<lambda>v. kpiract_update (\<lambda>_. v)) RTSSDBG_KPIRND_OPT RTSSDBG_E_KPIRNODE a)
      | DK \<Rightarrow> rtssdbg_getopt_node optarg RTSSDBG_E_KPIWNODE RTSSDBG_KPIWND_OPT
                (RTSSDBG_GETOPT_USR_RESULT (kpiwact a) (\<lambda>v. kpiwact_update (\<lambda>_. v)) RTSSDBG_KPIWND_OPT RTSSDBG_E_KPIWNODE a)
      | Dx \<Rightarrow> RTSSDBG_GETOPT_A2I_RESULT argv (kpimaxsz a) (\<lambda>v. kpimaxsz_update (\<lambda>_. v)) RTSSDBG_E_KPIMAZSZ a
      | Df \<Rightarrow> rtssdbg_getopt_fname optarg RTSSDBG_E_FILE RTSSDBG_KPIFILE_OPT
                (RTSSDBG_GETOPT_USR_RESULT (kpifctl a) (\<lambda>v. kpifctl_update (\<lambda>_. v)) RTSSDBG_KPIFILE_OPT RTSSDBG_E_FILE a)
      | Dt \<Rightarrow> RTSSDBG_GETOPT_USR_RESULT (kpimcont a) (\<lambda>v. kpimcont_update (\<lambda>_. v)) RTSSDBG_MCONT_OPT RTSSDBG_E_KPIMCONT a
      | Dh \<Rightarrow> a
      | Dother \<Rightarrow> a\<lparr>err := RTSSDBG_E_HELP\<rparr>)"

text \<open>The loop over the options; \<open>Inl\<close> is an exit with this status.\<close>

type_synonym dbg_event = "dbg_opt \<times> u8 list option \<times> nat"

fun options_loop :: "u8 list list \<Rightarrow> dbg_event list \<Rightarrow> rtssdbg_argopt_t \<Rightarrow> int + rtssdbg_argopt_t" where
  "options_loop argv [] a = Inr a"
| "options_loop argv ((uch, optarg, ind) # es) a =
     (if ind \<le> 1 \<or> length argv = 1 then Inr a
      else if uch = Dh then Inl exit_success
      else let a = option_char argv uch optarg (a\<lparr>optind := ind - 1\<rparr>)
           in if err a \<noteq> RTSSDBG_E_OK then Inr a else options_loop argv es a)"

definition args_init :: rtssdbg_argopt_t where
  "args_init = \<lparr>rnode = row_of (replicate RTSSDBG_ND_SZ 0) RTSSDBG_ND_SZ (ascii ''/dev/dummy''),
     wnode = row_of (replicate RTSSDBG_ND_SZ 0) RTSSDBG_ND_SZ (ascii ''/dev/dummy''), ug = None,
     rmode = 0, wmode = 0, err = 0, optind = 0, act = 0, iter = 0, dly = 0, cmd = 0, len = 0, str = 0, nr = 0,
     aid = 0, dctl = 0, ifctl = 0, ofctl = 0, ploadctl = 0, qsar = 0, resdmnz = 0, kpimaxsz = 0, kpifctl = 0,
     kpiract = 0, kpiwact = 0, kpimcont = 0,
     kpirnode = row_of (replicate RTSSDBG_ND_SZ 0) RTSSDBG_ND_SZ (ascii ''/dev/dummy''),
     kpiwnode = row_of (replicate RTSSDBG_ND_SZ 0) RTSSDBG_ND_SZ (ascii ''/dev/dummy''),
     kpifname = row_of (replicate RTSSDBG_FNM_SZ 0) RTSSDBG_FNM_SZ (ascii ''nil''),
     ifname = row_of (replicate RTSSDBG_FNM_SZ 0) RTSSDBG_FNM_SZ (ascii ''nil''),
     ofname = row_of (replicate RTSSDBG_FNM_SZ 0) RTSSDBG_FNM_SZ (ascii ''nil''),
     d = replicate RTSSDBG_PLOAD_MAX 0\<rparr>"

text \<open>The name of the input file is packed behind the payload once more at the end.\<close>

definition pack_ifname :: "rtssdbg_argopt_t \<Rightarrow> rtssdbg_argopt_t" where
  "pack_ifname a =
     (if err a = RTSSDBG_E_OK \<and> ifctl a = RTSSDBG_IFILE_OPT \<and> ploadctl a = RTSSDBG_PLOAD_OPT
      then let n = length (cstr (ifname a @ ofname a @ d a)) + 1
           in if 1 < n \<and> 0 < len a \<and> len a < int RTSSDBG_MBTF_PLOAD_MAX
              then a\<lparr>d := snd (rtssdbg_mcpy (d a) (nat (len a)) (RTSSDBG_MBTF_PLOAD_MAX - nat (len a))
                        (ifname a @ ofname a @ d a) n)\<rparr>
              else a\<lparr>err := RTSSDBG_E_FILE\<rparr>
      else a)"

definition rtssdbg_getopt_parser :: "u8 list list \<Rightarrow> dbg_event list \<Rightarrow> int + rtssdbg_argopt_t" where
  "rtssdbg_getopt_parser argv events =
     (case options_loop argv events args_init of Inl r \<Rightarrow> Inl r
      | Inr a \<Rightarrow> let a = pack_ifname a in if err a \<noteq> RTSSDBG_E_OK then Inl 0xFF else Inr a)"

end
