(* ===== verification/Dbg_Exec.thy ===== *)
theory Dbg_Exec
  imports Dbg_Args Mailbox
begin

text \<open>
  The commands of the debug program, \<^verbatim>\<open>apps/rtss-dbg/rtss_dbg.c\<close>, apart from the throughput test: a
  message is built from the arguments, sent on the test channel and answered. A function that ends
  the process through \<open>rtssdbg_exit\<close> returns \<open>False\<close>. The bytes that a dump prints are not kept, but
  which ones it accesses is.
\<close>

section \<open>State\<close>

definition RTSSDBG_MBTF_PROTOCOL_VER :: u8 where "RTSSDBG_MBTF_PROTOCOL_VER = 0x10"
definition TEST_RX_CHANNEL :: "u8 list" where "TEST_RX_CHANNEL = ascii ''/dev/sail/tst1''"
definition TEST_TX_CHANNEL :: "u8 list" where "TEST_TX_CHANNEL = ascii ''/dev/sail/tst0''"
definition RTSSDBG_CMD_MBTF :: int where "RTSSDBG_CMD_MBTF = 0x30"
definition RTSSDBG_CMD_LPBK :: int where "RTSSDBG_CMD_LPBK = 0x31"
definition RTSSDBG_CMD_QSAR_MBTF :: int where "RTSSDBG_CMD_QSAR_MBTF = 0x29"
definition RTSSDBG_CMD_KPI_TEST :: int where "RTSSDBG_CMD_KPI_TEST = 0x28"
definition RTSSDBG_CMD_DEFAULT :: int where "RTSSDBG_CMD_DEFAULT = 0xFF"

record xMBCmdMsgType =
  x_crc :: u8
  x_cmd :: u8
  x_ver :: u8
  x_len :: u8
  x_seq :: u8
  x_msg :: u8
  x_d :: "u8 list"

definition sizeof_xmsg :: nat where "sizeof_xmsg = 64"

definition xmsg_bytes :: "xMBCmdMsgType \<Rightarrow> u8 list" where
  "xmsg_bytes x = [x_crc x, x_cmd x, x_ver x, x_len x, x_seq x, x_msg x] @ x_d x"

definition xmsg_at :: "mem \<Rightarrow> addr \<Rightarrow> xMBCmdMsgType" where
  "xmsg_at m a = \<lparr>x_crc = m a, x_cmd = m (a + 1), x_ver = m (a + 2), x_len = m (a + 3), x_seq = m (a + 4),
     x_msg = m (a + 5), x_d = bytes_at m (a + 6) RTSSDBG_MBTF_PLOAD_MAX\<rparr>"

text \<open>The file-scope variables; the two messages are at the addresses \<open>xTx\<close> and \<open>xRx\<close> of the memory.\<close>

record dbg =
  g_args :: rtssdbg_argopt_t
  g_tx :: "rtss_mb_handle option"
  g_rx :: "rtss_mb_handle option"
  xTx :: addr
  xRx :: addr
  g_world :: world

section \<open>Dumps\<close>

text \<open>The loop that prints one row of a dump: the indices from \<open>i\<close> to the end of row \<open>m\<close>, counted
  from one, and the next index.\<close>

function hex_row :: "nat \<Rightarrow> nat \<Rightarrow> nat \<Rightarrow> nat list \<times> nat" where
  "hex_row m n i =
     (if i \<le> RTSSDBG_PLOAD_MAX \<and> i \<le> n
      then if i = m * 10 then ([i], i + 1) else case hex_row m n (i + 1) of (is, j) \<Rightarrow> (i # is, j)
      else ([], i))"
  by pat_completeness auto
termination
  by (relation "measure (\<lambda>(m, n, i). Suc n - i)") auto

declare hex_row.simps [simp del]

text \<open>The rows, each a row of indices and a row of bytes.\<close>

fun hex_rows :: "nat \<Rightarrow> nat \<Rightarrow> nat \<Rightarrow> nat \<Rightarrow> nat \<Rightarrow> nat \<Rightarrow> (nat list \<times> nat list) list" where
  "hex_rows 0 r m i b n = []"
| "hex_rows (Suc k) r m i b n =
     (if \<not> r < n then []
      else case hex_row m n i of (is, i) \<Rightarrow> case hex_row m n b of (bs, b) \<Rightarrow>
        (map (\<lambda>j. j - 1) is, map (\<lambda>j. j - 1) bs) #
        (if n < b then [] else hex_rows k (r + 1) (m + 1) i b n))"

definition rtssdbg_getopt_dump_hex :: "nat \<Rightarrow> nat list" where
  "rtssdbg_getopt_dump_hex n = concat (map snd (hex_rows (RTSSDBG_PLOAD_MAX div 10 + 1) 0 1 1 1 n))"

definition rtssdbg_getopt_dump_str :: "nat \<Rightarrow> nat list" where
  "rtssdbg_getopt_dump_str n = [0..<n]"

definition rtssdbg_mbtfcmd_dump :: "rtssdbg_argopt_t \<Rightarrow> xMBCmdMsgType \<Rightarrow> unit run" where
  "rtssdbg_mbtfcmd_dump a x =
     (let is = (if qsar a = RTSSDBG_QSAR_OPT then rtssdbg_getopt_dump_str (unat (x_len x))
                else rtssdbg_getopt_dump_hex (unat (x_len x)))
      in if list_ex (\<lambda>i. i \<ge> length (x_d x)) is then Faults else Returns ())"

section \<open>Messages\<close>

definition rtssdbg_mbtfcmd_construct :: "rtssdbg_argopt_t \<Rightarrow> xMBCmdMsgType" where
  "rtssdbg_mbtfcmd_construct a =
     \<lparr>x_crc = 0, x_cmd = word_of_int (cmd a), x_ver = RTSSDBG_MBTF_PROTOCOL_VER, x_len = word_of_int (len a),
      x_seq = word_of_int (nr a), x_msg = word_of_int (aid a),
      x_d = snd (rtssdbg_mcpy (replicate RTSSDBG_MBTF_PLOAD_MAX 0) 0 RTSSDBG_MBTF_PLOAD_MAX (d a) RTSSDBG_PLOAD_MAX)\<rparr>"

definition put_tx :: "xMBCmdMsgType \<Rightarrow> dbg \<Rightarrow> dbg" where
  "put_tx x st = st\<lparr>g_world := (g_world st)\<lparr>w_mem := put_bytes (w_mem (g_world st)) (xTx st) (xmsg_bytes x)\<rparr>\<rparr>"

definition rtssdbg_exit :: "platform \<Rightarrow> dbg \<Rightarrow> dbg" where
  "rtssdbg_exit p st =
     (let w = (if g_rx st \<noteq> None then snd (rtss_mb_close p (g_rx st) (g_world st)) else g_world st);
          w = (if g_tx st \<noteq> None then snd (rtss_mb_close p (g_tx st) w) else w)
      in st\<lparr>g_world := w\<rparr>)"

definition exit_with :: "platform \<Rightarrow> dbg \<Rightarrow> (bool \<times> dbg) run" where
  "exit_with p st = Returns (False, rtssdbg_exit p st)"

definition write_msg :: "platform \<Rightarrow> dbg \<Rightarrow> bool \<times> dbg" where
  "write_msg p st =
     (case rtss_mb_write p (g_tx st) (xTx st) (of_nat sizeof_xmsg) (g_world st) of (nRet, w) \<Rightarrow>
        (nRet = int sizeof_xmsg, st\<lparr>g_world := w\<rparr>))"

definition read_msg :: "platform \<Rightarrow> dbg \<Rightarrow> (bool \<times> dbg) option" where
  "read_msg p st =
     (case rtss_mb_read p (g_rx st) (xRx st) (of_nat sizeof_xmsg) (g_world st) of None \<Rightarrow> None
      | Some (nRet, w) \<Rightarrow> Some (nRet = int sizeof_xmsg, st\<lparr>g_world := w\<rparr>))"

section \<open>Commands\<close>

text \<open>The loop of \<open>rtssdbg_evpolltp_mbtfcmd_exec\<close> and, with the same body, of
  \<open>rtssdbg_qsar_mbtfcmd_exec\<close>: \<open>n\<close> passes.\<close>

fun exec_passes :: "platform \<Rightarrow> nat \<Rightarrow> dbg \<Rightarrow> (bool \<times> dbg) run" where
  "exec_passes p 0 st = Returns (True, st)"
| "exec_passes p (Suc n) st =
     (case rtssdbg_mbtfcmd_dump (g_args st) (xmsg_at (w_mem (g_world st)) (xTx st)) of
        Faults \<Rightarrow> Faults | Blocks \<Rightarrow> Blocks
      | Returns _ \<Rightarrow>
          (case write_msg p st of (ok, st) \<Rightarrow>
             if \<not> ok then exit_with p st
             else case read_msg p st of None \<Rightarrow> Blocks
               | Some (ok, st) \<Rightarrow>
                   if \<not> ok then exit_with p st
                   else case rtssdbg_mbtfcmd_dump (g_args st) (xmsg_at (w_mem (g_world st)) (xRx st)) of
                     Faults \<Rightarrow> Faults | Blocks \<Rightarrow> Blocks
                   | Returns _ \<Rightarrow> exec_passes p n st))"

definition rtssdbg_evpolltp_mbtfcmd_exec :: "platform \<Rightarrow> dbg \<Rightarrow> (bool \<times> dbg) run" where
  "rtssdbg_evpolltp_mbtfcmd_exec p st =
     (if g_tx st = None \<or> g_rx st = None then exit_with p st
      else exec_passes p (nat (iter (g_args st) + 1)) st)"

definition rtssdbg_qsar_mbtfcmd_exec :: "platform \<Rightarrow> dbg \<Rightarrow> (bool \<times> dbg) run" where
  "rtssdbg_qsar_mbtfcmd_exec p st =
     (if g_tx st = None \<or> g_rx st = None then exit_with p st
      else exec_passes p (nat (iter (g_args st) + 1)) st)"

definition rtssdbg_mbtfcmd_loopback :: "platform \<Rightarrow> dbg \<Rightarrow> (bool \<times> dbg) run" where
  "rtssdbg_mbtfcmd_loopback p st =
     (if d (g_args st) ! 0 = 0 then rtssdbg_evpolltp_mbtfcmd_exec p st else exit_with p st)"

text \<open>The bytes of an answer go to the output file or to standard output; an answer of length zero
  is the last one. More bytes than the message has are read from behind it.\<close>

partial_function (option) receive_loop :: "platform \<Rightarrow> dbg \<Rightarrow> (bool \<times> dbg) run option" where
  "receive_loop p st =
     (case read_msg p st of None \<Rightarrow> None
      | Some (ok, st) \<Rightarrow>
          if \<not> ok then Some (exit_with p st)
          else let x = xmsg_at (w_mem (g_world st)) (xRx st); n = unat (x_len x)
          in if n > length (x_d x) then Some Faults
             else if n = 0 then Some (Returns (True, st))
             else receive_loop p (st\<lparr>g_world := snd (sys p (Sys_fwrite (take n (x_d x))) (g_world st))\<rparr>))"

definition rtssdbg_fops_mbtfcmd_exec :: "platform \<Rightarrow> dbg \<Rightarrow> (bool \<times> dbg) run" where
  "rtssdbg_fops_mbtfcmd_exec p st =
     (if g_tx st = None \<or> g_rx st = None then exit_with p st
      else let a = g_args st; to_file = (ofctl a = RTSSDBG_OFILE_OPT)
      in case (if to_file then (case sys p (Sys_fopen (cstr (ofname a))) (g_world st) of (b, w) \<Rightarrow> (a_ret b \<noteq> 0, w))
               else (True, g_world st)) of (opened, w) \<Rightarrow>
        let st = st\<lparr>g_world := w\<rparr>
        in if \<not> opened then exit_with p st
        else case rtssdbg_mbtfcmd_dump a (xmsg_at (w_mem (g_world st)) (xTx st)) of
          Faults \<Rightarrow> Faults | Blocks \<Rightarrow> Blocks
        | Returns _ \<Rightarrow>
            (case write_msg p st of (ok, st) \<Rightarrow>
               if \<not> ok then exit_with p st
               else case receive_loop p st of None \<Rightarrow> Blocks
               | Some (Returns (True, st)) \<Rightarrow>
                   Returns (True, if to_file then st\<lparr>g_world := snd (sys p Sys_fclose (g_world st))\<rparr> else st)
               | Some r \<Rightarrow> r))"

definition rtssdbg_cmd_exec :: "platform \<Rightarrow> dbg \<Rightarrow> (bool \<times> dbg) run" where
  "rtssdbg_cmd_exec p st = exit_with p st"

end
