(* ===== verification/Dbg_Kpi.thy ===== *)
theory Dbg_Kpi
  imports Dbg_Exec "HOL-Library.Signed_Division"
begin

text \<open>
  The throughput test of the debug program and its \<open>main\<close>. The times that are measured are only
  printed: the calls that measure them are kept, their values are not. \<open>getRTSSTS\<close> looks at the
  channel again and again without a system call; what the other processor does between two looks is
  the parameter \<open>spin\<close>. The block for the messages has \<open>k_alloc\<close> bytes; an access behind it is
  \<open>Faults\<close>.
\<close>

section \<open>State\<close>

definition RTSSDBG_KPI_CMD_CFG :: u8 where "RTSSDBG_KPI_CMD_CFG = 0x52"
definition RTSSDBG_KPI_CMD_END :: u8 where "RTSSDBG_KPI_CMD_END = 0x53"
definition RTSSDBG_KPI_RESULT_SEL_IDX :: nat where "RTSSDBG_KPI_RESULT_SEL_IDX = 6"
definition RTSSDBG_KPI_TEST_PASSED :: u8 where "RTSSDBG_KPI_TEST_PASSED = 1"
definition RTSSDBG_KPI_CLK_CYCLES :: u8 where "RTSSDBG_KPI_CLK_CYCLES = 1"
definition RTSSDBG_KPI_CLK_GETIME :: u8 where "RTSSDBG_KPI_CLK_GETIME = 2"
definition RTSSDBG_KPI_CFGERR_NONE :: int where "RTSSDBG_KPI_CFGERR_NONE = 0"
definition RTSSDBG_KPI_CFGERR_INV :: int where "RTSSDBG_KPI_CFGERR_INV = -11"
definition RTSSDBG_KPI_CFGERR_WRF :: int where "RTSSDBG_KPI_CFGERR_WRF = -22"
definition RTSSDBG_KPI_CFGERR_RDF :: int where "RTSSDBG_KPI_CFGERR_RDF = -33"

record rtssdbg_kpidata_t =
  tbytes :: int
  minbytes :: int
  kpi_header :: int
  calc_mean :: int
  rdcd :: "rtss_mb_handle option"
  wrcd :: "rtss_mb_handle option"
  prtssTS :: addr
  k_alloc :: nat

section \<open>Configuration\<close>

definition rtssdbg_kpitst_cmd_construct :: "rtssdbg_argopt_t \<Rightarrow> u8 \<Rightarrow> xMBCmdMsgType" where
  "rtssdbg_kpitst_cmd_construct a msg_id =
     \<lparr>x_crc = 0, x_cmd = word_of_int (cmd a), x_ver = RTSSDBG_MBTF_PROTOCOL_VER, x_len = word_of_int (len a) + 1,
      x_seq = word_of_int (nr a), x_msg = msg_id,
      x_d = snd (rtssdbg_mcpy (replicate RTSSDBG_MBTF_PLOAD_MAX 0) 0 RTSSDBG_MBTF_PLOAD_MAX (d a) RTSSDBG_PLOAD_MAX)\<rparr>"

definition rtssdbg_kpitst_cfg_exec :: "platform \<Rightarrow> u8 \<Rightarrow> dbg \<Rightarrow> (int \<times> dbg) option" where
  "rtssdbg_kpitst_cfg_exec p msg_id st =
     (let st = put_tx (rtssdbg_kpitst_cmd_construct (g_args st) msg_id) st
      in case rtss_mb_chan_reset (g_rx st) (w_mem (g_world st)) of (r, m) \<Rightarrow>
        let st = st\<lparr>g_world := (g_world st)\<lparr>w_mem := m\<rparr>\<rparr>
        in if r \<noteq> RTSS_MB_RETURN_SUCCESS then Some (RTSSDBG_KPI_CFGERR_INV, st)
        else case write_msg p st of (ok, st) \<Rightarrow>
          if \<not> ok then Some (RTSSDBG_KPI_CFGERR_WRF, st)
          else case read_msg p st of None \<Rightarrow> None
          | Some (ok, st) \<Rightarrow>
              if \<not> ok \<or> x_d (xmsg_at (w_mem (g_world st)) (xRx st)) ! RTSSDBG_KPI_RESULT_SEL_IDX \<noteq> RTSSDBG_KPI_TEST_PASSED
              then Some (RTSSDBG_KPI_CFGERR_RDF, st) else Some (RTSSDBG_KPI_CFGERR_NONE, st))"

section \<open>Measuring\<close>

text \<open>With \<open>CLOCKS_PER_SEC\<close> a million.\<close>

definition rtssdbg_kpitst_getdiff_usec :: "u64 \<Rightarrow> u64 \<Rightarrow> u8 \<Rightarrow> u32" where
  "rtssdbg_kpitst_getdiff_usec lower higher clockType =
     (if clockType = RTSSDBG_KPI_CLK_CYCLES
      then if lower > higher then ucast (((NOT 0 - lower + higher) * 1000000) div 1000000)
           else ucast (((higher - lower) * 1000000) div 1000000)
      else if clockType = RTSSDBG_KPI_CLK_GETIME
      then if lower > higher then ucast (NOT 0 - lower + higher) else ucast (higher - lower)
      else 0)"

definition rtssdbg_kpilog :: "platform \<Rightarrow> bool \<Rightarrow> int \<times> world \<Rightarrow> int \<times> world" where
  "rtssdbg_kpilog p to_file s =
     (case s of (sts, w) \<Rightarrow>
        if to_file then case sys p Sys_fprintf w of (a, w) \<Rightarrow> (if a_ret a < 0 then a_ret a else sts, w)
        else (sts, w))"

definition kpi_lines :: "platform \<Rightarrow> bool \<Rightarrow> nat \<Rightarrow> world \<Rightarrow> int \<times> world" where
  "kpi_lines p to_file n w = (rtssdbg_kpilog p to_file ^^ n) (0, w)"

definition rtssdbg_kpitst_table_output ::
  "platform \<Rightarrow> rtssdbg_kpidata_t \<Rightarrow> int \<Rightarrow> bool \<Rightarrow> world \<Rightarrow> ((int \<times> rtssdbg_kpidata_t) \<times> world) run" where
  "rtssdbg_kpitst_table_output p k it to_file w =
     (if k_alloc k < 12 then Faults
      else case kpi_lines p to_file ((if kpi_header k = 0 then 5 else 0) + 2) w of (ret, w) \<Rightarrow>
        Returns ((ret, if kpi_header k = it then k else k\<lparr>kpi_header := kpi_header k + 1\<rparr>), w))"

definition rtssdbg_kpitst_avg_output :: "platform \<Rightarrow> rtssdbg_kpidata_t \<Rightarrow> bool \<Rightarrow> world \<Rightarrow> world" where
  "rtssdbg_kpitst_avg_output p k to_file w =
     snd (kpi_lines p to_file ((if calc_mean k = 1 then 2 else 0) + 1) w)"

definition chan_info_zero :: rtss_mb_chan_info where
  "chan_info_zero = \<lparr>isz = 0, tsz = 0, icnt = 0, evcnt = 0\<rparr>"

text \<open>The size of a transfer: whole items, at most what is asked for and what both channels hold.\<close>

definition transfer_size :: "rtss_mb_chan_info \<Rightarrow> rtss_mb_chan_info \<Rightarrow> int \<Rightarrow> int" where
  "transfer_size wr rd maxsz =
     (let t = (if tsz wr - isz wr < maxsz \<or> tsz rd < maxsz
               then if tsz rd > tsz wr - isz wr then tsz wr - isz wr else tsz rd
               else maxsz)
      in if t smod isz wr \<noteq> 0 then t sdiv isz wr * isz wr else t)"

definition rtssdbg_kpitst_getMaxSz ::
  "platform \<Rightarrow> rtssdbg_kpidata_t \<Rightarrow> rtssdbg_argopt_t \<Rightarrow> mem \<Rightarrow>
   (int \<times> rtssdbg_kpidata_t \<times> rtssdbg_argopt_t) \<times> mem" where
  "rtssdbg_kpitst_getMaxSz p k a m =
     (case rtss_mb_chan_reset (rdcd k) m of (r, m) \<Rightarrow>
        if r \<noteq> RTSS_MB_RETURN_SUCCESS then ((RTSSDBG_KPI_CFGERR_INV, k, a), m)
        else case rtss_mb_chan_reset (wrcd k) m of (r, m) \<Rightarrow>
          if r \<noteq> RTSS_MB_RETURN_SUCCESS then ((RTSSDBG_KPI_CFGERR_INV, k, a), m)
          else case rtss_mb_get_chan_stat p (rdcd k) (Some chan_info_zero) m of (r, rd) \<Rightarrow>
            if r \<noteq> RTSS_MB_RETURN_SUCCESS then ((RTSSDBG_KPI_CFGERR_INV, k, a), m)
            else case rtss_mb_get_chan_stat p (wrcd k) (Some chan_info_zero) m of (r, wr) \<Rightarrow>
              if r \<noteq> RTSS_MB_RETURN_SUCCESS then ((RTSSDBG_KPI_CFGERR_INV, k, a), m)
              else if isz (the wr) \<noteq> isz (the rd) \<or> tsz (the wr) \<noteq> tsz (the rd)
              then ((RTSSDBG_KPI_CFGERR_INV, k, a), m)
              else let k = k\<lparr>minbytes := isz (the wr), tbytes := transfer_size (the wr) (the rd) (kpimaxsz a)\<rparr>
                   in if iter a \<noteq> 0
                      then ((0, if kpimcont a \<noteq> RTSSDBG_MCONT_OPT then k\<lparr>calc_mean := 1\<rparr> else k,
                             a\<lparr>iter := iter a - 1\<rparr>), m)
                      else ((0, k, a), m))"

text \<open>The other processor's times: waiting until the channel holds something, then reading it. The
  loop returns the code of the look that ended it.\<close>

partial_function (option) rtssts_wait ::
  "platform \<Rightarrow> (nat \<Rightarrow> mem \<Rightarrow> mem) \<Rightarrow> nat \<Rightarrow> rtss_mb_handle option \<Rightarrow> mem \<Rightarrow>
   ((int \<times> rtss_mb_chan_info) \<times> mem) option" where
  "rtssts_wait p spin n h m =
     (case rtss_mb_get_chan_stat p h (Some chan_info_zero) m of (r, info) \<Rightarrow>
        if r \<noteq> RTSS_MB_RETURN_SUCCESS then Some ((r, the info), m)
        else if icnt (the info) \<le> 0 then rtssts_wait p spin (n + 1) h (spin n m)
        else Some ((r, the info), m))"

definition rtssdbg_kpitst_getRTSSTS ::
  "platform \<Rightarrow> (nat \<Rightarrow> mem \<Rightarrow> mem) \<Rightarrow> rtssdbg_kpidata_t \<Rightarrow> world \<Rightarrow> (int \<times> world) run option" where
  "rtssdbg_kpitst_getRTSSTS p spin k w =
     (case rtssts_wait p spin 0 (rdcd k) (w_mem w) of None \<Rightarrow> None
      | Some ((r, info), m) \<Rightarrow>
          let w = w\<lparr>w_mem := m\<rparr>; ret = (if r \<noteq> RTSS_MB_RETURN_SUCCESS then RTSSDBG_KPI_CFGERR_INV else 0)
          in if ret = 0 \<or> 0 < icnt info
             then if nat (isz info) > k_alloc k \<or> k_alloc k < 4 then Some Faults
                  else case rtss_mb_read p (rdcd k) (prtssTS k) (word_of_int (isz info)) w of None \<Rightarrow> None
                  | Some (_, w) \<Rightarrow> Some (Returns (ret, w))
             else Some (Returns (RTSSDBG_KPI_CFGERR_INV, w)))"

definition clocks :: "platform \<Rightarrow> world \<Rightarrow> world" where
  "clocks p w = snd (sys p Sys_clock (snd (sys p Sys_clock_gettime w)))"

definition clocks_after :: "platform \<Rightarrow> world \<Rightarrow> world" where
  "clocks_after p w = snd (sys p Sys_clock_gettime (snd (sys p Sys_clock w)))"

text \<open>The transfers of one iteration, of decreasing size if that is asked for.\<close>

partial_function (option) kpi_transfers ::
  "platform \<Rightarrow> (nat \<Rightarrow> mem \<Rightarrow> mem) \<Rightarrow> bool \<Rightarrow> bool \<Rightarrow> int \<Rightarrow> rtssdbg_kpidata_t \<Rightarrow> world \<Rightarrow>
   ((int \<times> rtssdbg_kpidata_t) \<times> world) run option" where
  "kpi_transfers p spin to_file mcont it k w =
     (case rtss_mb_write p (wrcd k) (prtssTS k) (word_of_int (tbytes k)) (clocks p w) of (n, w) \<Rightarrow>
        let w = clocks_after p w
        in if n \<noteq> tbytes k then Some (Returns ((RTSSDBG_KPI_CFGERR_INV, k), w))
        else case rtss_mb_read p (rdcd k) (prtssTS k) (word_of_int (tbytes k)) (clocks p w) of None \<Rightarrow> None
        | Some (n, w) \<Rightarrow>
            let w = clocks_after p w
            in if n \<noteq> tbytes k then Some (Returns ((RTSSDBG_KPI_CFGERR_INV, k), w))
            else case rtssdbg_kpitst_getRTSSTS p spin k w of None \<Rightarrow> None
            | Some Faults \<Rightarrow> Some Faults | Some Blocks \<Rightarrow> Some Blocks
            | Some (Returns (ret, w)) \<Rightarrow>
                if ret = RTSSDBG_KPI_CFGERR_INV then Some (Returns ((ret, k), w))
                else case rtssdbg_kpitst_table_output p k it to_file w of
                  Faults \<Rightarrow> Some Faults | Blocks \<Rightarrow> Some Blocks
                | Returns ((n, k), w) \<Rightarrow>
                    if n \<noteq> 0 then Some (Returns ((RTSSDBG_KPI_CFGERR_INV, k), w))
                    else let k = k\<lparr>tbytes := (if mcont then tbytes k - minbytes k else 0)\<rparr>
                    in if tbytes k \<ge> minbytes k then kpi_transfers p spin to_file mcont it k w
                       else Some (Returns ((ret, k), w)))"

fun kpi_iterations ::
  "platform \<Rightarrow> (nat \<Rightarrow> mem \<Rightarrow> mem) \<Rightarrow> bool \<Rightarrow> bool \<Rightarrow> int \<Rightarrow> int \<Rightarrow> nat \<Rightarrow> rtssdbg_kpidata_t \<Rightarrow> world \<Rightarrow>
   ((int \<times> rtssdbg_kpidata_t) \<times> world) run option" where
  "kpi_iterations p spin to_file mcont maxsz it 0 k w = Some (Returns ((0, k), w))"
| "kpi_iterations p spin to_file mcont maxsz it (Suc n) k w =
     (case kpi_transfers p spin to_file mcont it (k\<lparr>tbytes := maxsz\<rparr>) w of None \<Rightarrow> None
      | Some Faults \<Rightarrow> Some Faults | Some Blocks \<Rightarrow> Some Blocks
      | Some (Returns ((ret, k), w)) \<Rightarrow>
          if ret = RTSSDBG_KPI_CFGERR_INV then Some (Returns ((ret, k), w))
          else kpi_iterations p spin to_file mcont maxsz (it + 1) n k w)"

definition close_both :: "platform \<Rightarrow> rtssdbg_kpidata_t \<Rightarrow> world \<Rightarrow> world" where
  "close_both p k w = snd (rtss_mb_close p (wrcd k) (snd (rtss_mb_close p (rdcd k) w)))"

text \<open>The test once the sizes are known: the output file, the block and the iterations.\<close>

definition kpi_measure ::
  "platform \<Rightarrow> (nat \<Rightarrow> mem \<Rightarrow> mem) \<Rightarrow> rtssdbg_argopt_t \<Rightarrow> rtssdbg_kpidata_t \<Rightarrow> world \<Rightarrow> world run option" where
  "kpi_measure p spin a k w =
     (let with_file = (kpifctl a = RTSSDBG_KPIFILE_OPT)
      in case (if with_file then (case sys p (Sys_fopen (cstr (kpifname a))) w of (f, w) \<Rightarrow> (a_ret f \<noteq> 0, w))
               else (False, w)) of (to_file, w) \<Rightarrow>
        let ret = (if with_file \<and> \<not> to_file then RTSSDBG_KPI_CFGERR_INV else 0)
        in case sys p Sys_calloc w of (b, w) \<Rightarrow>
          if a_ret b = 0
          then Some (Returns (if with_file \<and> to_file then snd (sys p Sys_fclose w) else w))
          else if ret = 0
          then (let k = k\<lparr>prtssTS := nat (a_ret b), k_alloc := nat (tbytes k)\<rparr>
                in case kpi_iterations p spin to_file (kpimcont a = RTSSDBG_MCONT_OPT) (tbytes k) 1
                          (nat (iter a + 1)) k w of None \<Rightarrow> None
                | Some Faults \<Rightarrow> Some Faults | Some Blocks \<Rightarrow> Some Blocks
                | Some (Returns ((ret, k), w)) \<Rightarrow>
                    let w = (if ret = 0 then rtssdbg_kpitst_avg_output p k to_file w else w);
                        w = (if with_file \<and> to_file then snd (sys p Sys_fclose w) else w)
                    in Some (Returns (snd (sys p Sys_free w))))
          else Some (Returns (snd (sys p Sys_free w))))"

definition kpidata_zero :: rtssdbg_kpidata_t where
  "kpidata_zero = \<lparr>tbytes = 0, minbytes = 0, kpi_header = 0, calc_mean = 0, rdcd = None, wrcd = None,
     prtssTS = NULL, k_alloc = 0\<rparr>"

definition rtssdbg_kpitst ::
  "platform \<Rightarrow> (nat \<Rightarrow> mem \<Rightarrow> mem) \<Rightarrow> rtssdbg_argopt_t \<Rightarrow> world \<Rightarrow> (rtssdbg_argopt_t \<times> world) run option" where
  "rtssdbg_kpitst p spin a w =
     (case rtss_mb_open p True (Some (cstr (kpirnode a))) w of ((r, rd), w) \<Rightarrow>
        if r \<noteq> RTSS_MB_RETURN_SUCCESS then Some (Returns (a, w))
        else case rtss_mb_open p True (Some (cstr (kpiwnode a))) w of ((r, wr), w) \<Rightarrow>
          if r \<noteq> RTSS_MB_RETURN_SUCCESS then Some (Returns (a, snd (rtss_mb_close p rd w)))
          else let k = kpidata_zero\<lparr>rdcd := rd, wrcd := wr\<rparr>
          in case rtssdbg_kpitst_getMaxSz p k a (w_mem w) of ((r, k, a), m) \<Rightarrow>
            let w = w\<lparr>w_mem := m\<rparr>
            in if r \<noteq> 0 then Some (Returns (a, close_both p k w))
               else case kpi_measure p spin a k w of None \<Rightarrow> None
               | Some Faults \<Rightarrow> Some Faults | Some Blocks \<Rightarrow> Some Blocks
               | Some (Returns w) \<Rightarrow> Some (Returns (a, close_both p k w)))"

definition rtssdbg_kpitst_exec ::
  "platform \<Rightarrow> (nat \<Rightarrow> mem \<Rightarrow> mem) \<Rightarrow> dbg \<Rightarrow> dbg run option" where
  "rtssdbg_kpitst_exec p spin st =
     (case rtssdbg_kpitst_cfg_exec p RTSSDBG_KPI_CMD_CFG st of None \<Rightarrow> None
      | Some (ret, st) \<Rightarrow>
          (case (if ret = RTSSDBG_KPI_CFGERR_NONE
                 then case rtssdbg_kpitst p spin (g_args st) (g_world st) of None \<Rightarrow> None
                   | Some Faults \<Rightarrow> Some Faults | Some Blocks \<Rightarrow> Some Blocks
                   | Some (Returns (a, w)) \<Rightarrow> Some (Returns (st\<lparr>g_args := a, g_world := w\<rparr>))
                 else Some (Returns st)) of
             Some (Returns st) \<Rightarrow>
               if ret = RTSSDBG_KPI_CFGERR_NONE \<or> ret = RTSSDBG_KPI_CFGERR_RDF
               then map_option (\<lambda>(_, st). Returns st) (rtssdbg_kpitst_cfg_exec p RTSSDBG_KPI_CMD_END st)
               else Some (Returns st)
           | r \<Rightarrow> r))"

section \<open>The program\<close>

definition stored :: "rtss_mb_handle option \<Rightarrow> rtss_mb_handle option \<Rightarrow> rtss_mb_handle option" where
  "stored old new = (case new of None \<Rightarrow> old | Some h \<Rightarrow> Some h)"

definition dbg_command :: "platform \<Rightarrow> (nat \<Rightarrow> mem \<Rightarrow> mem) \<Rightarrow> dbg \<Rightarrow> (bool \<times> dbg) run" where
  "dbg_command p spin st =
     (let a = g_args st in
      if cmd a = RTSSDBG_CMD_MBTF
      then (let st = put_tx (rtssdbg_mbtfcmd_construct a) st
            in if ifctl a = RTSSDBG_IFILE_OPT then rtssdbg_fops_mbtfcmd_exec p st
               else if ifctl a = 0 \<or> ofctl a = 0 then rtssdbg_evpolltp_mbtfcmd_exec p st
               else exit_with p st)
      else if cmd a = RTSSDBG_CMD_LPBK
      then (let a = a\<lparr>d := (d a)[0 := 0]\<rparr>
            in rtssdbg_mbtfcmd_loopback p (put_tx (rtssdbg_mbtfcmd_construct a) (st\<lparr>g_args := a\<rparr>)))
      else if cmd a = RTSSDBG_CMD_QSAR_MBTF
      then (let st = put_tx (rtssdbg_mbtfcmd_construct a) st
            in if ifctl a = RTSSDBG_IFILE_OPT then rtssdbg_fops_mbtfcmd_exec p st
               else if ifctl a = 0 \<or> ofctl a = 0 then rtssdbg_qsar_mbtfcmd_exec p st
               else exit_with p st)
      else if cmd a = RTSSDBG_CMD_KPI_TEST
      then (case rtssdbg_kpitst_exec p spin st of None \<Rightarrow> Blocks | Some Blocks \<Rightarrow> Blocks | Some Faults \<Rightarrow> Faults
            | Some (Returns st) \<Rightarrow> Returns (True, st))
      else if cmd a = RTSSDBG_CMD_DEFAULT then rtssdbg_cmd_exec p st
      else exit_with p st)"

text \<open>The program with its exit code.\<close>

definition dbg_main ::
  "platform \<Rightarrow> (nat \<Rightarrow> mem \<Rightarrow> mem) \<Rightarrow> u8 list list \<Rightarrow> dbg_event list \<Rightarrow> dbg \<Rightarrow> (int \<times> dbg) run" where
  "dbg_main p spin argv events st =
     (case rtssdbg_getopt_parser argv events of Inl r \<Rightarrow> Returns (r, st)
      | Inr a \<Rightarrow>
        let st = st\<lparr>g_args := a\<rparr>
        in case rtss_mb_open p True (Some TEST_TX_CHANNEL) (g_world st) of ((r, h), w) \<Rightarrow>
          let st = st\<lparr>g_tx := stored (g_tx st) h, g_world := w\<rparr>
          in if r \<noteq> RTSS_MB_RETURN_SUCCESS then Returns (exit_failure, rtssdbg_exit p st)
          else case rtss_mb_open p True (Some TEST_RX_CHANNEL) (g_world st) of ((r, h), w) \<Rightarrow>
            let st = st\<lparr>g_rx := stored (g_rx st) h, g_world := w\<rparr>
            in if r \<noteq> RTSS_MB_RETURN_SUCCESS then Returns (exit_failure, rtssdbg_exit p st)
            else case dbg_command p spin st of Faults \<Rightarrow> Faults | Blocks \<Rightarrow> Blocks
            | Returns (normal, st) \<Rightarrow>
                if \<not> normal then Returns (exit_failure, st)
                else Returns (exit_success, st\<lparr>g_world :=
                       snd (rtss_mb_close p (g_rx st) (snd (rtss_mb_close p (g_tx st) (g_world st))))\<rparr>))"

end
