(* ===== verification/Dbg_Held.thy ===== *)
theory Dbg_Held
  imports Dbg_Kpi Updater_Init_Props Mailbox_Held
begin

text \<open>What the debug program holds while it runs its commands and after it has ended.\<close>

section \<open>The two channels\<close>

definition opt_res :: "platform \<Rightarrow> rtss_mb_handle option \<Rightarrow> resource multiset" where
  "opt_res p h = (case h of None \<Rightarrow> {#} | Some k \<Rightarrow> handle_resources p k)"

definition opt_fds :: "platform \<Rightarrow> rtss_mb_handle option \<Rightarrow> bool" where
  "opt_fds p h \<longleftrightarrow> (\<forall>k. h = Some k \<longrightarrow> handle_fds p k)"

definition dbg_inv :: "platform \<Rightarrow> resource multiset \<Rightarrow> dbg \<Rightarrow> bool" where
  "dbg_inv p H st \<longleftrightarrow> opt_fds p (g_tx st) \<and> opt_fds p (g_rx st) \<and>
     wheld (g_world st) = H + opt_res p (g_tx st) + opt_res p (g_rx st)"

definition closed_down :: "resource multiset \<Rightarrow> dbg \<Rightarrow> bool" where
  "closed_down H st \<longleftrightarrow> (\<exists>R. mappings_only R \<and> wheld (g_world st) = H + R)"

text \<open>How a command ends: with both channels open, or the process has closed them.\<close>

fun ends :: "platform \<Rightarrow> resource multiset \<Rightarrow> (bool \<times> dbg) run \<Rightarrow> bool" where
  "ends p H (Returns (True, st)) = dbg_inv p H st"
| "ends p H (Returns (False, st)) = closed_down H st"
| "ends p H _ = True"

lemma outcome_cases:
  obtains st where "r = Returns (True, st)" | st where "r = Returns (False, st)" | "r = Blocks" | "r = Faults"
  by (metis run.exhaust surj_pair)

lemma close_opt:
  assumes "opt_fds p h" "wheld w = H + opt_res p h"
  obtains R where "mappings_only R" "wheld (snd (rtss_mb_close p h w)) = H + R"
proof (cases h)
  case None
  then show ?thesis
    using assms by (intro that [of "{#}"]) (simp_all add: rtss_mb_close_def opt_res_def)
next
  case (Some k)
  then show ?thesis
    using assms close_fds [of p k w H]
    by (intro that [of "{#Mapping (h_p_mb_base_addr k) (h_mb_size k)#}"]) (simp_all add: opt_res_def opt_fds_def)
qed

lemma close_two:
  assumes "opt_fds p h" "opt_fds p k" "wheld w = H + opt_res p h + opt_res p k"
  obtains R where "mappings_only R" "wheld (snd (rtss_mb_close p k (snd (rtss_mb_close p h w)))) = H + R"
proof -
  have "wheld w = (H + opt_res p k) + opt_res p h"
    using assms(3) by simp
  then obtain R where R: "mappings_only R" "wheld (snd (rtss_mb_close p h w)) = H + opt_res p k + R"
    using close_opt [OF assms(1)] by blast
  then have "wheld (snd (rtss_mb_close p h w)) = (H + R) + opt_res p k"
    by simp
  then obtain S where "mappings_only S" "wheld (snd (rtss_mb_close p k (snd (rtss_mb_close p h w)))) = H + R + S"
    using close_opt [OF assms(2)] by blast
  then show ?thesis
    using R by (intro that [of "R + S"]) simp_all
qed

lemma exit_closes:
  assumes "dbg_inv p H st"
  shows "closed_down H (rtssdbg_exit p st)"
proof -
  have null: "snd (rtss_mb_close p None w) = w" for w
    by (simp add: rtss_mb_close_def)
  have "rtssdbg_exit p st = st\<lparr>g_world := snd (rtss_mb_close p (g_tx st) (snd (rtss_mb_close p (g_rx st) (g_world st))))\<rparr>"
    by (cases "g_rx st"; cases "g_tx st") (simp_all add: rtssdbg_exit_def null)
  moreover have "wheld (g_world st) = H + opt_res p (g_rx st) + opt_res p (g_tx st)"
    using assms by (simp add: dbg_inv_def)
  ultimately show ?thesis
    using assms close_two [of p "g_rx st" "g_tx st" "g_world st" H] unfolding dbg_inv_def closed_down_def by force
qed

lemma exit_ends: "dbg_inv p H st \<Longrightarrow> ends p H (exit_with p st)"
  by (simp add: exit_with_def exit_closes)

section \<open>Messages\<close>

lemma dbg_inv_world [simp]:
  "wheld w = wheld (g_world st) \<Longrightarrow> dbg_inv p H (st\<lparr>g_world := w\<rparr>) = dbg_inv p H st"
  by (simp add: dbg_inv_def)

lemma dbg_inv_args [simp]: "dbg_inv p H (st\<lparr>g_args := a\<rparr>) = dbg_inv p H st"
  by (simp add: dbg_inv_def)

lemma put_tx_inv [simp]: "dbg_inv p H (put_tx x st) = dbg_inv p H st"
  by (simp add: put_tx_def)

lemma write_msg_inv: "write_msg p st = (ok, st') \<Longrightarrow> dbg_inv p H st' = dbg_inv p H st"
  by (auto simp: write_msg_def split: prod.splits dest!: rtss_mb_write_held)

lemma read_msg_inv: "read_msg p st = Some (ok, st') \<Longrightarrow> dbg_inv p H st' = dbg_inv p H st"
  by (auto simp: read_msg_def split: option.splits prod.splits dest!: rtss_mb_read_held)

lemma exec_passes_ends: "dbg_inv p H st \<Longrightarrow> ends p H (exec_passes p n st)"
proof (induction n arbitrary: st)
  case (Suc n)
  then show ?case
    by (auto simp: exit_ends write_msg_inv dest!: read_msg_inv write_msg_inv [of p st]
        split: run.splits prod.splits option.splits)
qed simp

lemma evpolltp_ends: "dbg_inv p H st \<Longrightarrow> ends p H (rtssdbg_evpolltp_mbtfcmd_exec p st)"
  by (auto simp: rtssdbg_evpolltp_mbtfcmd_exec_def intro: exit_ends exec_passes_ends)

lemma qsar_ends: "dbg_inv p H st \<Longrightarrow> ends p H (rtssdbg_qsar_mbtfcmd_exec p st)"
  by (auto simp: rtssdbg_qsar_mbtfcmd_exec_def intro: exit_ends exec_passes_ends)

lemma loopback_ends: "dbg_inv p H st \<Longrightarrow> ends p H (rtssdbg_mbtfcmd_loopback p st)"
  by (simp add: rtssdbg_mbtfcmd_loopback_def exit_ends evpolltp_ends)

lemma receive_loop_ends: "receive_loop p st = Some r \<Longrightarrow> dbg_inv p H st \<longrightarrow> ends p H r"
proof (rule receive_loop.raw_induct [where P = "\<lambda>p st r. dbg_inv p H st \<longrightarrow> ends p H r"], rule impI)
  fix rec p st r
  assume IH: "\<And>p st r. rec p st = Some r \<Longrightarrow> dbg_inv p H st \<longrightarrow> ends p H r"
    and run: "(case read_msg p st of None \<Rightarrow> None
      | Some (ok, st) \<Rightarrow>
          if \<not> ok then Some (exit_with p st)
          else let x = xmsg_at (w_mem (g_world st)) (xRx st); n = unat (x_len x)
          in if n > length (x_d x) then Some Faults
             else if n = 0 then Some (Returns (True, st))
             else rec p (st\<lparr>g_world := snd (sys p (Sys_fwrite (take n (x_d x))) (g_world st))\<rparr>)) = Some r"
    and inv: "dbg_inv p H st"
  obtain ok s where rd: "read_msg p st = Some (ok, s)"
    using run by (auto split: option.splits)
  have s: "dbg_inv p H s"
    using read_msg_inv [OF rd] inv by simp
  define x where "x = xmsg_at (w_mem (g_world s)) (xRx s)"
  let ?s = "s\<lparr>g_world := snd (sys p (Sys_fwrite (take (unat (x_len x)) (x_d x))) (g_world s))\<rparr>"
  have "dbg_inv p H ?s"
    using s by (simp add: wheld_snd_sys)
  then have "rec p ?s = Some r \<Longrightarrow> ends p H r"
    using IH by blast
  then show "ends p H r"
    using run rd s exit_ends [OF s] by (auto simp: x_def [symmetric] Let_def split: if_splits)
qed assumption

text \<open>A transfer to a file that fails leaves the output file open.\<close>

definition exits :: "platform \<Rightarrow> resource multiset \<Rightarrow> (bool \<times> dbg) run \<Rightarrow> bool" where
  "exits p H r \<longleftrightarrow> ends p H r \<or> (\<exists>st. r = Returns (False, st) \<and> closed_down (H + {#Stream#}) st)"

lemma fops_exits:
  assumes inv: "dbg_inv p H st"
  shows "exits p H (rtssdbg_fops_mbtfcmd_exec p st)"
proof (cases "g_tx st = None \<or> g_rx st = None")
  case True
  then show ?thesis
    using exit_ends [OF inv] by (simp add: rtssdbg_fops_mbtfcmd_exec_def exits_def)
next
  case False
  define to_file where "to_file = (ofctl (g_args st) = RTSSDBG_OFILE_OPT)"
  define G where "G = (if to_file then H + {#Stream#} else H)"
  obtain b w where f: "sys p (Sys_fopen (cstr (ofname (g_args st)))) (g_world st) = (b, w)" by fastforce
  define s where "s = (if to_file then st\<lparr>g_world := w\<rparr> else st)"
  define fine where "fine = (to_file \<longrightarrow> a_ret b \<noteq> 0)"
  have s: "dbg_inv p (if fine then G else H) s"
    using inv wheld_sys [OF f] by (simp add: s_def dbg_inv_def G_def fine_def)
  have exec: "rtssdbg_fops_mbtfcmd_exec p st =
      (if \<not> fine then exit_with p s
       else case rtssdbg_mbtfcmd_dump (g_args st) (xmsg_at (w_mem (g_world s)) (xTx s)) of
          Faults \<Rightarrow> Faults | Blocks \<Rightarrow> Blocks
        | Returns _ \<Rightarrow>
            (case write_msg p s of (ok, st) \<Rightarrow>
               if \<not> ok then exit_with p st
               else case receive_loop p st of None \<Rightarrow> Blocks
               | Some (Returns (True, st)) \<Rightarrow>
                   Returns (True, if to_file then st\<lparr>g_world := snd (sys p Sys_fclose (g_world st))\<rparr> else st)
               | Some r \<Rightarrow> r))"
    unfolding rtssdbg_fops_mbtfcmd_exec_def if_not_P [OF False] Let_def to_file_def [symmetric]
    by (cases to_file) (simp_all add: s_def fine_def f cong del: run.case_cong_weak)
  have out: "ends p G r \<Longrightarrow> \<nexists>st. r = Returns (True, st) \<Longrightarrow> exits p H r" for r
    by (cases r rule: outcome_cases) (auto simp: exits_def G_def split: if_splits)
  show ?thesis
  proof (cases fine)
    case False
    then show ?thesis
      using exit_ends s by (simp add: exec exits_def)
  next
    case True
    obtain ok t where wr: "write_msg p s = (ok, t)" by fastforce
    have t: "dbg_inv p G t"
      using write_msg_inv [OF wr] s True by simp
    have close: "exits p H (Returns (True, if to_file then u\<lparr>g_world := snd (sys p Sys_fclose (g_world u))\<rparr> else u))"
      if "dbg_inv p G u" for u
      using that by (simp add: exits_def dbg_inv_def G_def wheld_snd_sys)
    have recv: "exits p H (case r of Returns (True, st) \<Rightarrow>
        Returns (True, if to_file then st\<lparr>g_world := snd (sys p Sys_fclose (g_world st))\<rparr> else st) | r \<Rightarrow> r)"
      if "receive_loop p t = Some r" for r
      using receive_loop_ends [OF that, of G] t close out [of r]
      by (cases r rule: outcome_cases) (simp_all split: if_splits)
    have ex: "exits p H (exit_with p t)"
      using out [OF exit_ends [OF t]] by (simp add: exit_with_def)
    show ?thesis
      using True wr recv ex by (simp add: exec) (auto simp: exits_def split: run.splits option.splits)
  qed
qed

section \<open>The throughput test\<close>

lemma cfg_exec_inv: "rtssdbg_kpitst_cfg_exec p i st = Some (r, st') \<Longrightarrow> dbg_inv p H st' = dbg_inv p H st"
  by (auto simp: rtssdbg_kpitst_cfg_exec_def Let_def write_msg_inv
      split: if_splits prod.splits option.splits dest!: read_msg_inv)

lemma kpi_lines_held: "wheld (snd (kpi_lines p b n w)) = wheld w"
proof -
  have "wheld (snd ((rtssdbg_kpilog p b ^^ n) x)) = wheld (snd x)" for x
    by (induction n) (auto simp: rtssdbg_kpilog_def split: prod.splits dest!: wheld_sys)
  then show ?thesis
    by (simp add: kpi_lines_def)
qed

lemma table_held: "rtssdbg_kpitst_table_output p k it b w = Returns ((r, k'), w') \<Longrightarrow> wheld w' = wheld w"
  using kpi_lines_held [of p b "(if kpi_header k = 0 then 5 else 0) + 2" w]
  by (auto simp: rtssdbg_kpitst_table_output_def split: if_splits prod.splits)

lemma clocks_held [simp]: "wheld (clocks p w) = wheld w" "wheld (clocks_after p w) = wheld w"
  by (simp_all add: clocks_def clocks_after_def wheld_snd_sys)

lemma getRTSSTS_held: "rtssdbg_kpitst_getRTSSTS p spin k w = Some (Returns (r, w')) \<Longrightarrow> wheld w' = wheld w"
  by (auto simp: rtssdbg_kpitst_getRTSSTS_def Let_def split: option.splits prod.splits if_splits dest!: rtss_mb_read_held)

definition keeps :: "((int \<times> rtssdbg_kpidata_t) \<times> world) run \<Rightarrow> world \<Rightarrow> bool" where
  "keeps r w \<longleftrightarrow> (\<forall>x w'. r = Returns (x, w') \<longrightarrow> wheld w' = wheld w)"

lemma keeps_simps [simp]: "keeps (Returns (x, v)) w \<longleftrightarrow> wheld v = wheld w" "keeps Faults w" "keeps Blocks w"
  by (auto simp: keeps_def)

text \<open>The rest of a transfer, after the message has been sent.\<close>

lemma kpi_transfers_held: "kpi_transfers p spin b mcont it k w = Some r \<Longrightarrow> keeps r w"
proof (rule kpi_transfers.raw_induct [where P = "\<lambda>p spin b mcont it k w r. keeps r w"])
  fix rec p spin b mcont it k w r
  assume IH: "\<And>p spin b mcont it k w r. rec p spin b mcont it k w = Some r \<Longrightarrow> keeps r w"
    and run: "(case rtss_mb_write p (wrcd k) (prtssTS k) (word_of_int (tbytes k)) (clocks p w) of (n, w) \<Rightarrow>
        let w = clocks_after p w
        in if n \<noteq> tbytes k then Some (Returns ((RTSSDBG_KPI_CFGERR_INV, k), w))
        else case rtss_mb_read p (rdcd k) (prtssTS k) (word_of_int (tbytes k)) (clocks p w) of None \<Rightarrow> None
        | Some (n, w) \<Rightarrow>
            let w = clocks_after p w
            in if n \<noteq> tbytes k then Some (Returns ((RTSSDBG_KPI_CFGERR_INV, k), w))
            else case rtssdbg_kpitst_getRTSSTS p spin k w of None \<Rightarrow> None
            | Some Faults \<Rightarrow> Some Faults | Some Blocks \<Rightarrow> Some Blocks
            | Some (Returns (ret, w)) \<Rightarrow>
                if ret = RTSSDBG_KPI_CFGERR_INV then Some (Returns ((ret, k), w))
                else case rtssdbg_kpitst_table_output p k it b w of
                  Faults \<Rightarrow> Some Faults | Blocks \<Rightarrow> Some Blocks
                | Returns ((n, k), w) \<Rightarrow>
                    if n \<noteq> 0 then Some (Returns ((RTSSDBG_KPI_CFGERR_INV, k), w))
                    else let k = k\<lparr>tbytes := (if mcont then tbytes k - minbytes k else 0)\<rparr>
                    in if tbytes k \<ge> minbytes k then rec p spin b mcont it k w
                       else Some (Returns ((ret, k), w))) = Some r"
  obtain n w1 where wr: "rtss_mb_write p (wrcd k) (prtssTS k) (word_of_int (tbytes k)) (clocks p w) = (n, w1)"
    by fastforce
  have h1: "wheld w1 = wheld w"
    using rtss_mb_write_held [OF wr] by simp
  have step: "rec p spin b mc it k' v = Some r \<Longrightarrow> wheld v = wheld w \<Longrightarrow> keeps r w" for mc k' v
    using IH [of p spin b mc it k' v r] by (simp add: keeps_def)
  show "keeps r w"
  proof (cases "n = tbytes k")
    case False
    then show ?thesis using run wr h1 by auto
  next
    case True
    then obtain m w2 where rd: "rtss_mb_read p (rdcd k) (prtssTS k) (word_of_int (tbytes k)) (clocks p (clocks_after p w1)) = Some (m, w2)"
      using run wr by (auto simp: Let_def split: option.splits)
    have h2: "wheld w2 = wheld w"
      using rtss_mb_read_held [OF rd] h1 by simp
    show ?thesis
    proof (cases "m = tbytes k")
      case False
      then show ?thesis using run wr rd True h2 by auto
    next
      case m: True
      then obtain g where g: "rtssdbg_kpitst_getRTSSTS p spin k (clocks_after p w2) = Some g"
        using run wr rd True by (auto simp: Let_def split: option.splits)
      show ?thesis
      proof (cases g)
        case (Returns x)
        then obtain ret w3 where x: "g = Returns (ret, w3)" by (cases x) simp
        have h3: "wheld w3 = wheld w"
          using getRTSSTS_held [OF g [unfolded x]] h2 by simp
        show ?thesis
        proof (cases "ret = RTSSDBG_KPI_CFGERR_INV")
          case True
          then show ?thesis using run wr rd \<open>n = tbytes k\<close> m g x h3 by auto
        next
          case False
          then show ?thesis
            using run wr rd True m g x h3
            by (auto simp: Let_def split: run.splits if_splits dest!: table_held intro: step)
        qed
      qed (use run wr rd True m g in auto)
    qed
  qed
qed assumption

lemma kpi_iterations_held: "kpi_iterations p spin b mcont maxsz it n k w = Some r \<Longrightarrow> keeps r w"
proof (induction n arbitrary: it k w)
  case (Suc n)
  obtain y where y: "kpi_transfers p spin b mcont it (k\<lparr>tbytes := maxsz\<rparr>) w = Some y"
    using Suc.prems by (auto split: option.splits)
  note kpi_transfers_held [OF y]
  then show ?case
    using Suc y by (cases y) (fastforce simp: keeps_def split: if_splits)+
qed auto

lemma getMaxSz_handles: "rtssdbg_kpitst_getMaxSz p k a m = ((r, k', a'), m') \<Longrightarrow> rdcd k' = rdcd k \<and> wrcd k' = wrcd k"
  by (auto simp: rtssdbg_kpitst_getMaxSz_def Let_def split: prod.splits if_splits)

lemma kpi_measure_held: "kpi_measure p spin a k w = Some (Returns w') \<Longrightarrow> wheld w' = wheld w"
proof -
  assume run: "kpi_measure p spin a k w = Some (Returns w')"
  define with_file where "with_file = (kpifctl a = RTSSDBG_KPIFILE_OPT)"
  obtain f w0 where f: "sys p (Sys_fopen (cstr (kpifname a))) w = (f, w0)" by fastforce
  define to_file where "to_file = (with_file \<and> a_ret f \<noteq> 0)"
  define w1 where "w1 = (if with_file then w0 else w)"
  define F where "F = (if to_file then {#Stream#} else {#})"
  have w1: "wheld w1 = wheld w + F"
    using wheld_sys [OF f] by (simp add: w1_def F_def to_file_def)
  obtain b w2 where b: "sys p Sys_calloc w1 = (b, w2)" by fastforce
  have w2: "a_ret b \<noteq> 0 \<Longrightarrow> wheld w2 = wheld w + F + {#Heap#}" "a_ret b = 0 \<Longrightarrow> wheld w2 = wheld w + F"
    using wheld_sys [OF b] w1 by simp_all
  define K where "K = k\<lparr>prtssTS := nat (a_ret b), k_alloc := nat (tbytes k)\<rparr>"
  have unf: "kpi_measure p spin a k w =
      (if a_ret b = 0 then Some (Returns (if to_file then snd (sys p Sys_fclose w2) else w2))
       else if with_file \<longrightarrow> to_file
       then (case kpi_iterations p spin to_file (kpimcont a = RTSSDBG_MCONT_OPT) (tbytes k) 1 (nat (iter a + 1)) K w2 of None \<Rightarrow> None
         | Some Faults \<Rightarrow> Some Faults | Some Blocks \<Rightarrow> Some Blocks
         | Some (Returns ((ret, k), w)) \<Rightarrow>
             let w = (if ret = 0 then rtssdbg_kpitst_avg_output p k to_file w else w);
                 w = (if to_file then snd (sys p Sys_fclose w) else w)
             in Some (Returns (snd (sys p Sys_free w))))
       else Some (Returns (snd (sys p Sys_free w2))))"
    using b by (cases with_file; cases "a_ret f = 0")
      (simp_all add: kpi_measure_def Let_def with_file_def [symmetric] to_file_def f w1_def K_def
        RTSSDBG_KPI_CFGERR_INV_def cong: if_cong cong del: option.case_cong_weak run.case_cong_weak prod.case_cong_weak)
  have closed: "wheld (snd (sys p Sys_free (if to_file then snd (sys p Sys_fclose v) else v))) = wheld w"
    if "wheld v = wheld w + F + {#Heap#}" for v
    using that by (simp add: wheld_snd_sys F_def)
  show "wheld w' = wheld w"
  proof (cases "a_ret b = 0")
    case True
    then show ?thesis using run w2(2) by (auto simp: unf wheld_snd_sys F_def split: if_splits)
  next
    case ok: False
    show ?thesis
    proof (cases "with_file \<longrightarrow> to_file")
      case False
      then show ?thesis using run w2(1) ok by (auto simp: unf wheld_snd_sys F_def)
    next
      case True
      then obtain r where r: "kpi_iterations p spin to_file (kpimcont a = RTSSDBG_MCONT_OPT) (tbytes k) 1 (nat (iter a + 1)) K w2 = Some r"
        using run ok by (auto simp: unf split: option.splits)
      then obtain ret k' v where x: "r = Returns ((ret, k'), v)"
        using run ok True by (cases r) (auto simp: unf)
      have "wheld v = wheld w + F + {#Heap#}"
        using kpi_iterations_held [OF r] w2(1) ok by (simp add: x)
      moreover have "wheld (rtssdbg_kpitst_avg_output p k' to_file v) = wheld v"
        by (simp add: rtssdbg_kpitst_avg_output_def kpi_lines_held)
      ultimately show ?thesis
        using run ok True r x closed by (auto simp: unf Let_def simp del: wheld_undo split: if_splits)
    qed
  qed
qed

lemma handle_opt:
  assumes ok: "results_ok p" "errno_pos p" and o: "rtss_mb_open p True (Some c) w = ((r, h), w')"
  shows "opt_fds p h" "wheld w' = wheld w + opt_res p h" "r \<noteq> RTSS_MB_RETURN_SUCCESS \<longleftrightarrow> h = None"
  using rtss_mb_open_held [OF o] rtss_mb_open_ret [OF ok(2) o] rtss_mb_open_fds [OF ok(1)] o
  by (auto simp: opt_fds_def opt_res_def RTSS_MB_RETURN_SUCCESS_def split: option.splits)

lemma kpitst_held:
  assumes ok: "results_ok p" "errno_pos p" and run: "rtssdbg_kpitst p spin a w = Some (Returns (a', w'))"
  shows "\<exists>R. mappings_only R \<and> wheld w' = wheld w + R"
proof -
  obtain r1 rd w1 where o1: "rtss_mb_open p True (Some (cstr (kpirnode a))) w = ((r1, rd), w1)"
    by (metis surj_pair)
  obtain r2 wr w2 where o2: "rtss_mb_open p True (Some (cstr (kpiwnode a))) w1 = ((r2, wr), w2)"
    by (metis surj_pair)
  note h1 = handle_opt [OF ok o1] and h2 = handle_opt [OF ok o2]
  obtain r k a2 m where mx: "rtssdbg_kpitst_getMaxSz p (kpidata_zero\<lparr>rdcd := rd, wrcd := wr\<rparr>) a (w_mem w2) = ((r, k, a2), m)"
    by (metis surj_pair)
  have k: "rdcd k = rd" "wrcd k = wr"
    using getMaxSz_handles [OF mx] by simp_all
  have both: "\<exists>R. mappings_only R \<and> wheld (close_both p k v) = wheld w + R"
    if "wheld v = wheld w + opt_res p rd + opt_res p wr" for v
    using close_two [OF h1(1) h2(1) that] k by (metis close_both_def)
  consider (first) "r1 \<noteq> RTSS_MB_RETURN_SUCCESS" "w' = w1"
    | (second) "r1 = RTSS_MB_RETURN_SUCCESS" "r2 \<noteq> RTSS_MB_RETURN_SUCCESS" "w' = snd (rtss_mb_close p rd w2)"
    | (both) v where "r1 = RTSS_MB_RETURN_SUCCESS" "r2 = RTSS_MB_RETURN_SUCCESS" "w' = close_both p k v" "wheld v = wheld w2"
    using run
    by (auto simp: rtssdbg_kpitst_def o1 o2 mx Let_def split: if_splits option.splits run.splits dest!: kpi_measure_held)
  then show ?thesis
  proof cases
    case first
    then show ?thesis
      using h1 by (intro exI [of _ "{#}"]) (auto simp: opt_res_def)
  next
    case second
    then have "wheld w2 = wheld w + opt_res p rd"
      using h1 h2 by (simp add: opt_res_def)
    then show ?thesis
      using close_opt [OF h1(1)] second(3) by metis
  next
    case (both v)
    then show ?thesis
      using \<open>\<And>v. wheld v = _ \<Longrightarrow> _\<close> [of v] h1(2) h2(2) by simp
  qed
qed

text \<open>Mappings may be added to what is held.\<close>

definition dbg_more :: "platform \<Rightarrow> resource multiset \<Rightarrow> dbg \<Rightarrow> bool" where
  "dbg_more p H st \<longleftrightarrow> (\<exists>R. mappings_only R \<and> dbg_inv p (H + R) st)"

lemma kpitst_exec_more:
  assumes ok: "results_ok p" "errno_pos p" and inv: "dbg_inv p H st"
    and run: "rtssdbg_kpitst_exec p spin st = Some (Returns st')"
  shows "dbg_more p H st'"
proof -
  obtain ret s where c: "rtssdbg_kpitst_cfg_exec p RTSSDBG_KPI_CMD_CFG st = Some (ret, s)"
    using run by (auto simp: rtssdbg_kpitst_exec_def split: option.splits)
  have s: "dbg_inv p H s"
    using cfg_exec_inv [OF c] inv by simp
  have "\<exists>t. dbg_more p H t \<and> (st' = t \<or> (\<exists>n. rtssdbg_kpitst_cfg_exec p RTSSDBG_KPI_CMD_END t = Some (n, st')))"
  proof (cases "ret = RTSSDBG_KPI_CFGERR_NONE")
    case True
    then obtain a w where k: "rtssdbg_kpitst p spin (g_args s) (g_world s) = Some (Returns (a, w))"
        and e: "\<exists>n. rtssdbg_kpitst_cfg_exec p RTSSDBG_KPI_CMD_END (s\<lparr>g_args := a, g_world := w\<rparr>) = Some (n, st')"
      using run c by (auto simp: rtssdbg_kpitst_exec_def split: option.splits run.splits)
    obtain R where R: "mappings_only R" "wheld w = wheld (g_world s) + R"
      using kpitst_held [OF ok k] by blast
    have "dbg_inv p (H + R) (s\<lparr>g_args := a, g_world := w\<rparr>)"
      using s R(2) by (simp add: dbg_inv_def)
    then show ?thesis
      using e R(1) unfolding dbg_more_def by blast
  next
    case False
    have "dbg_more p H s"
      using s unfolding dbg_more_def by (intro exI [of _ "{#}"]) simp
    then show ?thesis
      using run c False by (auto simp: rtssdbg_kpitst_exec_def split: if_splits option.splits)
  qed
  then show ?thesis
    unfolding dbg_more_def using cfg_exec_inv by blast
qed

section \<open>The program\<close>

definition command_ends :: "platform \<Rightarrow> resource multiset \<Rightarrow> (bool \<times> dbg) run \<Rightarrow> bool" where
  "command_ends p H r \<longleftrightarrow> (\<forall>st. r = Returns (True, st) \<longrightarrow> dbg_more p H st) \<and>
     (\<forall>st. r = Returns (False, st) \<longrightarrow> closed_down H st \<or> closed_down (H + {#Stream#}) st)"

lemma ends_command: "ends p H r \<Longrightarrow> command_ends p H r"
  by (cases r rule: outcome_cases) (auto simp: command_ends_def dbg_more_def intro: exI [of _ "{#}"])

lemma exits_command: "exits p H r \<Longrightarrow> command_ends p H r"
  using ends_command by (auto simp: exits_def command_ends_def)

lemma dbg_command_ends:
  assumes ok: "results_ok p" "errno_pos p" and inv: "dbg_inv p H st"
  shows "command_ends p H (dbg_command p spin st)"
proof -
  have a: "command_ends p H (exit_with p s)" "command_ends p H (rtssdbg_evpolltp_mbtfcmd_exec p s)"
      "command_ends p H (rtssdbg_qsar_mbtfcmd_exec p s)" "command_ends p H (rtssdbg_mbtfcmd_loopback p s)"
      "command_ends p H (rtssdbg_fops_mbtfcmd_exec p s)" if "dbg_inv p H s" for s
    using that by (intro ends_command exits_command exit_ends evpolltp_ends qsar_ends loopback_ends fops_exits; simp)+
  have k: "command_ends p H (case rtssdbg_kpitst_exec p spin st of None \<Rightarrow> Blocks | Some Blocks \<Rightarrow> Blocks | Some Faults \<Rightarrow> Faults
            | Some (Returns st) \<Rightarrow> Returns (True, st))"
    using kpitst_exec_more [OF ok inv] by (auto simp: command_ends_def split: option.splits run.splits)
  show ?thesis
    unfolding dbg_command_def Let_def rtssdbg_cmd_exec_def
    using inv k by (simp add: a)
qed

lemma dbg_main_held:
  assumes ok: "results_ok p" "errno_pos p" and none: "g_tx st = None" "g_rx st = None"
    and run: "dbg_main p spin argv events st = Returns (r, st')"
  shows "closed_down (wheld (g_world st)) st' \<or> r = exit_failure \<and> closed_down (wheld (g_world st) + {#Stream#}) st'"
proof (cases "rtssdbg_getopt_parser argv events")
  case (Inl e)
  then show ?thesis
    using run unfolding closed_down_def by (auto simp: dbg_main_def intro: exI [of _ "{#}"])
next
  case (Inr a)
  let ?H = "wheld (g_world st)"
  obtain r1 tx w1 where o1: "rtss_mb_open p True (Some TEST_TX_CHANNEL) (g_world st) = ((r1, tx), w1)"
    by (metis surj_pair)
  obtain r2 rx w2 where o2: "rtss_mb_open p True (Some TEST_RX_CHANNEL) w1 = ((r2, rx), w2)"
    by (metis surj_pair)
  note h1 = handle_opt [OF ok o1] and h2 = handle_opt [OF ok o2]
  define s1 where "s1 = st\<lparr>g_args := a, g_tx := tx, g_world := w1\<rparr>"
  define s2 where "s2 = s1\<lparr>g_rx := rx, g_world := w2\<rparr>"
  have st: "stored None h = h" for h
    by (cases h) (simp_all add: stored_def)
  have inv1: "dbg_inv p ?H s1"
    using h1 none by (simp add: dbg_inv_def s1_def opt_res_def opt_fds_def)
  have inv2: "dbg_inv p ?H s2"
    using h1 h2 by (simp add: dbg_inv_def s1_def s2_def)
  have main: "dbg_main p spin argv events st =
      (if r1 \<noteq> RTSS_MB_RETURN_SUCCESS then Returns (exit_failure, rtssdbg_exit p s1)
       else if r2 \<noteq> RTSS_MB_RETURN_SUCCESS then Returns (exit_failure, rtssdbg_exit p s2)
       else case dbg_command p spin s2 of Faults \<Rightarrow> Faults | Blocks \<Rightarrow> Blocks
         | Returns (normal, st) \<Rightarrow>
             if \<not> normal then Returns (exit_failure, st)
             else Returns (exit_success, st\<lparr>g_world := snd (rtss_mb_close p (g_rx st) (snd (rtss_mb_close p (g_tx st) (g_world st))))\<rparr>))"
    using none by (simp add: dbg_main_def Inr Let_def o1 o2 st s1_def s2_def)
  have close: "closed_down ?H (s\<lparr>g_world := snd (rtss_mb_close p (g_rx s) (snd (rtss_mb_close p (g_tx s) (g_world s))))\<rparr>)"
    if more: "dbg_more p ?H s" for s
  proof -
    obtain R where R: "mappings_only R" "dbg_inv p (?H + R) s"
      using more unfolding dbg_more_def by blast
    then obtain S where "mappings_only S" "wheld (snd (rtss_mb_close p (g_rx s) (snd (rtss_mb_close p (g_tx s) (g_world s))))) = ?H + R + S"
      using close_two [of p "g_tx s" "g_rx s" "g_world s" "?H + R"] unfolding dbg_inv_def by metis
    then show ?thesis
      unfolding closed_down_def using R(1) by (intro exI [of _ "R + S"]) simp
  qed
  show ?thesis
    using run exit_closes [OF inv1] exit_closes [OF inv2] dbg_command_ends [OF ok inv2, of spin] close
    by (auto simp: main command_ends_def split: if_splits run.splits)
qed

end
