(* ===== verification/Dbg_Claims.thy ===== *)
theory Dbg_Claims
  imports Dbg_Held Peer_Reads Demo_Mailbox
begin

text \<open>The debug program: its dumps, its command line, the sizes of its transfers, what it receives and
  what it holds at the end.\<close>

section \<open>Dumps\<close>

lemma hex_row_end: "n < i \<Longrightarrow> hex_row m n i = ([], i)"
  by (subst hex_row.simps) simp

lemma hex_row_range:
  "n \<le> RTSSDBG_PLOAD_MAX \<Longrightarrow> i \<le> min (m * 10) n \<Longrightarrow>
   hex_row m n i = ([i..<Suc (min (m * 10) n)], Suc (min (m * 10) n))"
proof (induction m n i rule: hex_row.induct)
  case (1 m n i)
  show ?case
  proof (cases "i = min (m * 10) n")
    case True
    then show ?thesis
      using 1 by (subst hex_row.simps) (simp add: hex_row_end min_def split: if_splits)
  next
    case False
    define e where "e = min (m * 10) n"
    have lt: "i < e" "i \<noteq> m * 10" "i \<le> RTSSDBG_PLOAD_MAX" "i \<le> n"
      using False 1(2,3) unfolding e_def by linarith+
    then have "hex_row m n (Suc i) = ([Suc i..<Suc e], Suc e)"
      using 1 by (simp add: e_def)
    then show ?thesis
      unfolding e_def [symmetric] using lt by (subst hex_row.simps) (simp add: upt_rec [of i] del: upt_Suc)
  qed
qed

lemma upt_join: "i \<le> j \<Longrightarrow> j \<le> k \<Longrightarrow> [i..<j] @ [j..<k] = [i..<k]"
  using upt_add_eq_append [of i j "k - j"] by simp

lemma hex_rows_bytes:
  "n \<le> RTSSDBG_PLOAD_MAX \<Longrightarrow> r * 10 < n \<Longrightarrow>
   concat (map snd (hex_rows k r (Suc r) (Suc (r * 10)) (Suc (r * 10)) n)) = [r * 10..<min n ((r + k) * 10)]"
proof (induction k arbitrary: r)
  case 0
  then show ?case by simp
next
  case (Suc k)
  define e where "e = min (Suc r * 10) n"
  have row: "hex_row (Suc r) n (Suc (r * 10)) = ([Suc (r * 10)..<Suc e], Suc e)"
    using Suc.prems unfolding e_def by (intro hex_row_range) simp_all
  have bytes: "map (\<lambda>j. j - Suc 0) [Suc a..<Suc e] = [a..<e]" for a
    by (simp add: map_Suc_upt [symmetric] comp_def del: upt_Suc)
  show ?case
  proof (cases "n < Suc e")
    case True
    then have "min n ((r + Suc k) * 10) = e"
      by (simp add: e_def min_def split: if_splits)
    moreover have "concat (map snd (hex_rows (Suc k) r (Suc r) (Suc (r * 10)) (Suc (r * 10)) n)) = [r * 10..<e]"
      using Suc.prems row True by (simp add: bytes del: upt_Suc)
    ultimately show ?thesis
      by (simp only:)
  next
    case False
    then have e: "e = Suc r * 10" "Suc r * 10 < n"
      by (simp_all add: e_def min_def split: if_splits)
    have "concat (map snd (hex_rows k (Suc r) (Suc (Suc r)) (Suc e) (Suc e) n)) = [e..<min n ((Suc r + k) * 10)]"
      using Suc.IH [OF Suc.prems(1) e(2)] by (simp add: e(1))
    moreover have "[r * 10..<e] @ [e..<min n ((Suc r + k) * 10)] = [r * 10..<min n ((Suc r + k) * 10)]"
      using e by (intro upt_join) auto
    ultimately show ?thesis
      using False Suc.prems row by (simp add: bytes del: upt_Suc)
  qed
qed

lemma dump_hex_all: "n \<le> 255 \<Longrightarrow> rtssdbg_getopt_dump_hex n = [0..<n]"
proof (cases "n = 0")
  case True
  moreover have "hex_rows k r m i b 0 = []" for k r m i b
    by (cases k) simp_all
  ultimately show ?thesis
    by (simp add: rtssdbg_getopt_dump_hex_def)
next
  case False
  then show "n \<le> 255 \<Longrightarrow> ?thesis"
    using hex_rows_bytes [of n 0 26] by (simp add: rtssdbg_getopt_dump_hex_def RTSSDBG_PLOAD_MAX_def)
qed

lemma dump_result:
  assumes "length (x_d x) = RTSSDBG_MBTF_PLOAD_MAX"
  shows "rtssdbg_mbtfcmd_dump a x = (if 58 < unat (x_len x) then Faults else Returns ())"
proof -
  have "unat (x_len x) < 2 ^ LENGTH(8)"
    by (rule unsigned_less)
  then have "unat (x_len x) \<le> 255"
    by simp
  then have "rtssdbg_mbtfcmd_dump a x =
      (if list_ex (\<lambda>i. i \<ge> 58) [0..<unat (x_len x)] then Faults else Returns ())"
    using assms dump_hex_all by (simp add: rtssdbg_mbtfcmd_dump_def rtssdbg_getopt_dump_str_def RTSSDBG_MBTF_PLOAD_MAX_def)
  moreover have "list_ex (\<lambda>i. i \<ge> 58) [0..<k] \<longleftrightarrow> 58 < k" for k :: nat
    by (auto simp: list_ex_iff intro: bexI [of _ 58])
  ultimately show ?thesis
    by simp
qed

section \<open>The command line\<close>

lemma length_mcpy:
  "i + min n k \<le> length dst \<Longrightarrow> min n k \<le> length src \<Longrightarrow> length (snd (rtssdbg_mcpy dst i n src k)) = length dst"
  by (simp add: rtssdbg_mcpy_def Let_def)

text \<open>What every accepted option keeps.\<close>

definition args_fine :: "rtssdbg_argopt_t \<Rightarrow> bool" where
  "args_fine a \<longleftrightarrow> length (d a) = RTSSDBG_PLOAD_MAX \<and> (err a = RTSSDBG_E_OK \<longrightarrow> 0 \<le> len a \<and> len a \<le> 58)"

named_theorems args_defs

lemmas [args_defs] = RTSSDBG_GETOPT_USR_RESULT_def RTSSDBG_GETOPT_A2I_RESULT_def rtssdbg_getopt_node_def
  RTSSDBG_MBTF_PLOAD_MAX_def RTSSDBG_PLOAD_MAX_def RTSSDBG_E_OK_def RTSSDBG_E_LEN_def RTSSDBG_E_QSAR_def
  RTSSDBG_E_PL_def RTSSDBG_E_FILE_def note_err_def

lemma words_loop_length:
  "length buf = RTSSDBG_PLOAD_MAX \<Longrightarrow> words_loop ss buf rind n = (buf', rind', n') \<Longrightarrow> length buf' = RTSSDBG_PLOAD_MAX"
proof (induction ss buf rind n rule: words_loop.induct)
  case (2 s ss buf rind n)
  show ?case
  proof (cases "rind < RTSSDBG_MBTF_PLOAD_MAX - 1")
    case True
    obtain w b where m: "rtssdbg_mcpy buf rind (RTSSDBG_MBTF_PLOAD_MAX - 1 - rind) (cstr s) (length (cstr s)) = (w, b)"
      by fastforce
    have "length b = RTSSDBG_PLOAD_MAX"
      using length_mcpy [of rind "RTSSDBG_MBTF_PLOAD_MAX - 1 - rind" "length (cstr s)" buf "cstr s"] True 2(2) m
      by (simp add: RTSSDBG_MBTF_PLOAD_MAX_def RTSSDBG_PLOAD_MAX_def)
    then show ?thesis
      using 2(1) [OF True m [symmetric]] 2(3) True m by simp
  next
    case False
    then show ?thesis using 2 by simp
  qed
qed simp

lemma payload_loop_keeps:
  "length (d (payload_loop ss rind a)) = length (d a) \<and> len (payload_loop ss rind a) = len a"
proof (induction ss arbitrary: rind a)
  case (Cons s ss)
  show ?case
    by (simp add: Let_def Cons.IH note_err_def split: prod.split option.split)
qed simp

lemma atoi_err: "rtssdbg_getopt_atoi x = (v, er) \<Longrightarrow> err (note_err er a) = RTSSDBG_E_OK \<Longrightarrow> err a = RTSSDBG_E_OK"
  by (auto simp: rtssdbg_getopt_atoi_def note_err_def RTSSDBG_E_OK_def RTSSDBG_E_OPT_def RTSSDBG_E_PTR_def
      split: if_splits prod.splits option.splits)

lemma note_err_keeps [simp]: "d (note_err er a) = d a" "len (note_err er a) = len a"
  by (simp_all add: note_err_def split: option.split)

lemma payload_loop_err: "err (payload_loop ss rind a) = RTSSDBG_E_OK \<Longrightarrow> err a = RTSSDBG_E_OK"
proof (induction ss arbitrary: rind a)
  case (Cons s ss)
  obtain v er where at: "rtssdbg_getopt_atoi (Some s) = (v, er)" by fastforce
  define b where "b = (if rind < RTSSDBG_PLOAD_MAX
    then note_err er (a\<lparr>d := (d a)[rind := word_of_int (if 0xFF < v then 0 else v)]\<rparr>) else a)"
  have "payload_loop (s # ss) rind a = payload_loop ss (rind + 1) (b\<lparr>ploadctl := RTSSDBG_PLOAD_OPT\<rparr>)"
    by (simp add: b_def at Let_def)
  then have "err b = RTSSDBG_E_OK"
    using Cons.IH [of "rind + 1" "b\<lparr>ploadctl := RTSSDBG_PLOAD_OPT\<rparr>"] Cons.prems by simp
  then show ?case
    using atoi_err [OF at, of "a\<lparr>d := (d a)[rind := word_of_int (if 0xFF < v then 0 else v)]\<rparr>"]
    by (simp add: b_def split: if_splits)
qed simp

lemma payload_fine: "args_fine a \<Longrightarrow> args_fine (rtssdbg_getopt_payload argv a)"
  using payload_loop_keeps payload_loop_err
  by (auto simp: rtssdbg_getopt_payload_def args_fine_def args_defs)

lemma qsarpayload_fine:
  assumes "args_fine a"
  shows "args_fine (rtssdbg_getopt_qsarpayload argv a)"
proof -
  obtain b r n where w: "words_loop (take (nat (len a)) (drop (optind a) argv)) (d a) 0 0 = (b, r, n)"
    by (metis surj_pair)
  then have "length b = RTSSDBG_PLOAD_MAX"
    using assms words_loop_length by (auto simp: args_fine_def)
  then show ?thesis
    using assms by (auto simp: rtssdbg_getopt_qsarpayload_def w Let_def args_fine_def args_defs)
qed

lemma fname_fine: "args_fine a \<Longrightarrow> e \<noteq> RTSSDBG_E_OK \<Longrightarrow> args_fine (rtssdbg_getopt_fname f e opt a)"
  by (auto simp: rtssdbg_getopt_fname_def Let_def args_fine_def args_defs RTSSDBG_E_PTR_def length_mcpy split: option.splits)

lemma node_fine: "args_fine a \<Longrightarrow> e \<noteq> RTSSDBG_E_OK \<Longrightarrow> args_fine (rtssdbg_getopt_node u e opt a)"
  by (auto simp: args_fine_def rtssdbg_getopt_node_def Let_def RTSSDBG_E_PTR_def RTSSDBG_E_OK_def split: option.split)

lemma usr_fine:
  "args_fine a \<Longrightarrow> e \<noteq> RTSSDBG_E_OK \<Longrightarrow> args_fine (put v a) \<Longrightarrow> args_fine (RTSSDBG_GETOPT_USR_RESULT cur put v e a)"
  by (auto simp: args_fine_def RTSSDBG_GETOPT_USR_RESULT_def)

lemma a2i_fine:
  assumes "args_fine a" "e \<noteq> RTSSDBG_E_OK"
    and put: "\<And>v b. d (put v b) = d b" "\<And>v b. len (put v b) = len b" "\<And>v b. err (put v b) = err b"
  shows "args_fine (RTSSDBG_GETOPT_A2I_RESULT argv cur put e a)"
  using assms atoi_err by (fastforce simp: args_fine_def RTSSDBG_GETOPT_A2I_RESULT_def split: prod.split)

lemmas err_codes = RTSSDBG_E_OK_def RTSSDBG_E_WR_def RTSSDBG_E_RD_def RTSSDBG_E_CMD_def RTSSDBG_E_PL_def RTSSDBG_E_UG_def
  RTSSDBG_E_DLY_def RTSSDBG_E_LEN_def RTSSDBG_E_ITER_def RTSSDBG_E_STR_def RTSSDBG_E_NR_def RTSSDBG_E_AID_def
  RTSSDBG_E_DCTL_def RTSSDBG_E_HELP_def RTSSDBG_E_FILE_def RTSSDBG_E_RESDMZ_def RTSSDBG_E_KPIRNODE_def
  RTSSDBG_E_KPIWNODE_def RTSSDBG_E_KPIMAZSZ_def RTSSDBG_E_KPIMCONT_def

text \<open>Members that do not matter.\<close>

lemma args_fine_other [simp]:
  "args_fine (a\<lparr>rmode := x\<rparr>) = args_fine a" "args_fine (a\<lparr>wmode := x\<rparr>) = args_fine a" "args_fine (a\<lparr>act := x\<rparr>) = args_fine a"
  "args_fine (a\<lparr>str := x\<rparr>) = args_fine a" "args_fine (a\<lparr>dctl := x\<rparr>) = args_fine a" "args_fine (a\<lparr>ifctl := x\<rparr>) = args_fine a"
  "args_fine (a\<lparr>ofctl := x\<rparr>) = args_fine a" "args_fine (a\<lparr>resdmnz := x\<rparr>) = args_fine a" "args_fine (a\<lparr>kpiract := x\<rparr>) = args_fine a"
  "args_fine (a\<lparr>kpiwact := x\<rparr>) = args_fine a" "args_fine (a\<lparr>kpifctl := x\<rparr>) = args_fine a" "args_fine (a\<lparr>kpimcont := x\<rparr>) = args_fine a"
  "args_fine (a\<lparr>qsar := x\<rparr>) = args_fine a" "args_fine (a\<lparr>ug := u\<rparr>) = args_fine a" "args_fine (a\<lparr>optind := n\<rparr>) = args_fine a"
  by (simp_all add: args_fine_def)

lemma args_fine_err: "args_fine a \<Longrightarrow> e \<noteq> RTSSDBG_E_OK \<Longrightarrow> args_fine (a\<lparr>err := e\<rparr>)"
  by (simp add: args_fine_def)

lemma length_option_fine:
  assumes "args_fine a"
  shows "args_fine (let a = RTSSDBG_GETOPT_A2I_RESULT argv (len a) (\<lambda>v. len_update (\<lambda>_. v)) RTSSDBG_E_LEN a
    in if len a < 0 \<or> len a \<ge> int RTSSDBG_MBTF_PLOAD_MAX then a\<lparr>err := RTSSDBG_E_LEN\<rparr> else a)"
proof -
  have "length (d (RTSSDBG_GETOPT_A2I_RESULT argv (len a) (\<lambda>v. len_update (\<lambda>_. v)) RTSSDBG_E_LEN a)) = RTSSDBG_PLOAD_MAX"
    using assms by (simp add: RTSSDBG_GETOPT_A2I_RESULT_def args_fine_def split: prod.split)
  then show ?thesis
    by (auto simp: args_fine_def Let_def err_codes RTSSDBG_MBTF_PLOAD_MAX_def)
qed

lemma option_char_fine:
  assumes "args_fine a"
  shows "args_fine (option_char argv uch optarg a)"
proof (cases "uch = Dl")
  case True
  then show ?thesis
    using length_option_fine [OF assms] by (simp add: option_char_def)
next
  case False
  with assms show ?thesis
    by (cases uch)
      (simp_all only: option_char_def dbg_opt.case simp_thms,
       auto simp: err_codes Let_def intro!: payload_fine qsarpayload_fine fname_fine node_fine usr_fine a2i_fine args_fine_err)
qed

lemma options_loop_fine: "args_fine a \<Longrightarrow> options_loop argv es a = Inr b \<Longrightarrow> args_fine b"
proof (induction argv es a arbitrary: b rule: options_loop.induct)
  case (2 argv uch optarg ind es a)
  define c where "c = option_char argv uch optarg (a\<lparr>optind := ind - Suc 0\<rparr>)"
  have "args_fine c"
    unfolding c_def using 2(2) by (intro option_char_fine) simp
  then show ?case
    using 2 by (auto simp: c_def [symmetric] Let_def split: if_splits)
qed simp

lemma pack_fine: "args_fine a \<Longrightarrow> args_fine (pack_ifname a)"
  by (auto simp: pack_ifname_def args_fine_def Let_def err_codes RTSSDBG_PLOAD_MAX_def RTSSDBG_MBTF_PLOAD_MAX_def length_mcpy)

lemma parser_fine:
  assumes "rtssdbg_getopt_parser argv events = Inr a"
  shows "length (d a) = RTSSDBG_PLOAD_MAX" "0 \<le> len a" "len a \<le> 58"
proof -
  have init: "args_fine args_init"
    by (simp add: args_fine_def args_init_def)
  obtain b where b: "options_loop argv events args_init = Inr b" "a = pack_ifname b" "err a = RTSSDBG_E_OK"
    using assms by (auto simp: rtssdbg_getopt_parser_def Let_def split: sum.splits if_splits)
  then show "length (d a) = RTSSDBG_PLOAD_MAX" "0 \<le> len a" "len a \<le> 58"
    using pack_fine [OF options_loop_fine [OF init b(1)]] by (simp_all add: args_fine_def)
qed

lemma construct_length: "length (d a) = RTSSDBG_PLOAD_MAX \<Longrightarrow> length (x_d (rtssdbg_mbtfcmd_construct a)) = RTSSDBG_MBTF_PLOAD_MAX"
  by (simp add: rtssdbg_mbtfcmd_construct_def rtssdbg_mcpy_def Let_def RTSSDBG_PLOAD_MAX_def RTSSDBG_MBTF_PLOAD_MAX_def)

section \<open>Transfers\<close>

lemma transfer_size_alt:
  assumes "0 < isz wr" "isz wr \<le> tsz wr" "0 \<le> tsz rd" "0 \<le> maxsz"
  shows "transfer_size wr rd maxsz = min maxsz (min (tsz rd) (tsz wr - isz wr)) div isz wr * isz wr"
proof -
  define t where "t = min maxsz (min (tsz rd) (tsz wr - isz wr))"
  have t: "0 \<le> t"
    using assms by (simp add: t_def)
  have "transfer_size wr rd maxsz = (if t smod isz wr \<noteq> 0 then t sdiv isz wr * isz wr else t)"
    by (simp add: transfer_size_def t_def min_def Let_def)
  also have "\<dots> = (if t mod isz wr \<noteq> 0 then t div isz wr * isz wr else t)"
    using t assms(1) by (simp add: signed_divide_int_def signed_modulo_int_def sgn_if)
  also have "\<dots> = t div isz wr * isz wr"
    by (metis div_mult_mod_eq add.right_neutral)
  finally show ?thesis
    by (simp add: t_def)
qed

section \<open>Receiving a file\<close>

text \<open>The receiving end of the test channel, whose items are messages.\<close>

definition test_channel :: "platform \<Rightarrow> rtss_mb_handle \<Rightarrow> addr \<Rightarrow> world \<Rightarrow> bool" where
  "test_channel p h buf w \<longleftrightarrow> peer_appends p h buf sizeof_xmsg \<and> errno_pos p \<and> reader_ok anyone h buf sizeof_xmsg (w_mem w)
     \<and> h_mode h = RTSS_MB_MODE_RX p \<and> h_isz h = sizeof_xmsg"

definition msg_payload :: "u8 list \<Rightarrow> u8 list" where
  "msg_payload item = take (unat (item ! 3)) (drop 6 item)"

definition received :: "rtss_mb_handle \<Rightarrow> addr \<Rightarrow> world \<Rightarrow> world \<Rightarrow> bool" where
  "received h buf w w' \<longleftrightarrow> (\<exists>taken. delivered anyone h buf sizeof_xmsg taken w w' \<and> taken \<noteq> [] \<and> last taken ! 3 = 0
     \<and> (\<forall>x \<in> set (butlast taken). x ! 3 \<noteq> 0) \<and> written w' = written w @ concat (map msg_payload taken))"

lemma xmsg_item: "x_len (xmsg_at m a) = bytes_at m a 64 ! 3" "x_d (xmsg_at m a) = drop 6 (bytes_at m a 64)"
  by (simp_all add: xmsg_at_def bytes_at_def RTSSDBG_MBTF_PLOAD_MAX_def list_eq_iff_nth_eq add.assoc)

lemma one_item:
  assumes "concat xs = b" "length b = n" "\<forall>x \<in> set xs. length x = n" "0 < n"
  shows "xs = [b]"
proof (cases xs)
  case (Cons x ys)
  then have "concat ys = []"
    using assms by (metis append_Nil2 append_eq_append_conv concat.simps(2) list.set_intros(1))
  moreover have "length y \<noteq> 0" if "y \<in> set ys" for y
    using assms(3,4) Cons that by simp
  ultimately have "ys = []"
    by (cases ys) auto
  then show ?thesis using assms(1) Cons by simp
qed (use assms in auto)

lemma read_msg_item:
  assumes rd: "read_msg p st = Some (True, st')" and h: "g_rx st = Some h" "xRx st = buf"
    and ok: "test_channel p h buf (g_world st)"
  shows "delivered anyone h buf sizeof_xmsg [bytes_at (w_mem (g_world st')) buf 64] (g_world st) (g_world st')"
    "written (g_world st') = written (g_world st)" "test_channel p h buf (g_world st')"
    "g_rx st' = Some h" "xRx st' = buf"
proof -
  obtain w where r: "rtss_mb_read p (Some h) buf (of_nat sizeof_xmsg) (g_world st) = Some (64, w)" "st' = st\<lparr>g_world := w\<rparr>"
    using rd h by (auto simp: read_msg_def sizeof_xmsg_def split: option.splits prod.splits)
  have sz: "unat (of_nat sizeof_xmsg :: u64) = sizeof_xmsg"
    by (simp add: sizeof_xmsg_def)
  obtain taken where t: "delivered anyone h buf sizeof_xmsg taken (g_world st) w" "written w = written (g_world st)"
    "bytes_at (w_mem w) buf 64 = concat taken" "\<forall>x \<in> set taken. length x = h_isz h"
    using rtss_mb_read_delivers [OF r(1), unfolded sz] ok unfolding test_channel_def by (metis nat_numeral zero_less_numeral)
  have "taken = [bytes_at (w_mem w) buf 64]"
    using t(4) ok by (intro one_item [OF t(3) [symmetric], where n = 64]) (simp_all add: test_channel_def sizeof_xmsg_def)
  then show "delivered anyone h buf sizeof_xmsg [bytes_at (w_mem (g_world st')) buf 64] (g_world st) (g_world st')"
    "written (g_world st') = written (g_world st)" "test_channel p h buf (g_world st')" "g_rx st' = Some h" "xRx st' = buf"
    using t(1,2) ok h r(2) delivered_ok [OF t(1)] by (simp_all add: test_channel_def)
qed

lemma test_channel_fwrite:
  assumes "test_channel p h buf w"
  shows "delivered anyone h buf sizeof_xmsg [] w (snd (sys p (Sys_fwrite bs) w))"
    "written (snd (sys p (Sys_fwrite bs) w)) = written w @ bs" "test_channel p h buf (snd (sys p (Sys_fwrite bs) w))"
proof -
  obtain a u where s: "sys p (Sys_fwrite bs) w = (a, u)" by fastforce
  have d: "delivered anyone h buf sizeof_xmsg [] w u"
    using assms s by (auto simp: test_channel_def intro: delivered_sys)
  then show "delivered anyone h buf sizeof_xmsg [] w (snd (sys p (Sys_fwrite bs) w))"
    "written (snd (sys p (Sys_fwrite bs) w)) = written w @ bs" "test_channel p h buf (snd (sys p (Sys_fwrite bs) w))"
    using written_sys [OF s] assms delivered_ok [OF d] by (simp_all add: s test_channel_def)
qed

lemma received_step:
  assumes "delivered anyone h buf sizeof_xmsg [x] w v" "written v = written w @ msg_payload x" "received h buf v u" "x ! 3 \<noteq> 0"
  shows "received h buf w u"
proof -
  obtain taken where t: "delivered anyone h buf sizeof_xmsg taken v u" "taken \<noteq> []" "last taken ! 3 = 0"
    "\<forall>x \<in> set (butlast taken). x ! 3 \<noteq> 0" "written u = written v @ concat (map msg_payload taken)"
    using assms(3) unfolding received_def by blast
  then show ?thesis
    using delivered_trans [OF assms(1) t(1)] assms(2,4) unfolding received_def
    by (intro exI [of _ "x # taken"]) simp
qed

lemma receive_loop_receives:
  "receive_loop p st = Some r \<Longrightarrow> g_rx st = Some h \<and> xRx st = buf \<and> test_channel p h buf (g_world st) \<longrightarrow>
   (\<forall>st'. r = Returns (True, st') \<longrightarrow> received h buf (g_world st) (g_world st'))"
proof (rule receive_loop.raw_induct [where P = "\<lambda>p st r. g_rx st = Some h \<and> xRx st = buf \<and> test_channel p h buf (g_world st) \<longrightarrow>
      (\<forall>st'. r = Returns (True, st') \<longrightarrow> received h buf (g_world st) (g_world st'))"], intro impI allI)
  fix rec p st r st'
  assume IH: "\<And>p st r. rec p st = Some r \<Longrightarrow> g_rx st = Some h \<and> xRx st = buf \<and> test_channel p h buf (g_world st) \<longrightarrow>
      (\<forall>st'. r = Returns (True, st') \<longrightarrow> received h buf (g_world st) (g_world st'))"
    and run: "(case read_msg p st of None \<Rightarrow> None
      | Some (ok, st) \<Rightarrow>
          if \<not> ok then Some (exit_with p st)
          else let x = xmsg_at (w_mem (g_world st)) (xRx st); n = unat (x_len x)
          in if n > length (x_d x) then Some Faults
             else if n = 0 then Some (Returns (True, st))
             else rec p (st\<lparr>g_world := snd (sys p (Sys_fwrite (take n (x_d x))) (g_world st))\<rparr>)) = Some r"
    and pre: "g_rx st = Some h \<and> xRx st = buf \<and> test_channel p h buf (g_world st)" and r: "r = Returns (True, st')"
  obtain s where rd: "read_msg p st = Some (True, s)"
    using run r by (auto simp: exit_with_def split: option.splits if_splits)
  note m = read_msg_item [OF rd, of h buf] pre
  have s: "delivered anyone h buf sizeof_xmsg [bytes_at (w_mem (g_world s)) buf 64] (g_world st) (g_world s)"
    "written (g_world s) = written (g_world st)" "test_channel p h buf (g_world s)" "g_rx s = Some h" "xRx s = buf"
    using m by simp_all
  define i where "i = bytes_at (w_mem (g_world s)) buf 64"
  have x: "x_len (xmsg_at (w_mem (g_world s)) (xRx s)) = i ! 3" "x_d (xmsg_at (w_mem (g_world s)) (xRx s)) = drop 6 i"
    using s(5) by (simp_all add: xmsg_item i_def)
  show "received h buf (g_world st) (g_world st')"
  proof (cases "i ! 3 = 0")
    case True
    then have "st' = s" "msg_payload i = []"
      using run rd r x by (simp_all add: Let_def msg_payload_def)
    then show ?thesis
      using s(1,2) True unfolding received_def i_def [symmetric] by (intro exI [of _ "[i]"]) simp
  next
    case False
    define v where "v = snd (sys p (Sys_fwrite (msg_payload i)) (g_world s))"
    have "rec p (s\<lparr>g_world := v\<rparr>) = Some r"
      using run rd r x False by (simp add: Let_def v_def msg_payload_def unsigned_eq_0_iff split: if_splits)
    then have "received h buf v (g_world st')"
      using IH [of p "s\<lparr>g_world := v\<rparr>" r] s(4,5) test_channel_fwrite(3) [OF s(3)] r by (simp add: v_def)
    then show ?thesis
      using received_step [of h buf i "g_world st" v] delivered_trans [OF s(1) test_channel_fwrite(1) [OF s(3)]]
        test_channel_fwrite(2) [OF s(3)] s(2) False by (simp add: v_def i_def)
  qed
qed assumption

text \<open>What is waiting is received.\<close>

lemma read_msg_first:
  assumes h: "g_rx st = Some h" "xRx st = buf" and ok: "test_channel p h buf (g_world st)"
    and items: "h_items (w_mem (g_world st)) h = x # xs"
  obtains st' where "read_msg p st = Some (True, st')" "bytes_at (w_mem (g_world st')) buf 64 = x"
    "h_items (w_mem (g_world st')) h = xs"
proof -
  let ?w = "g_world st"
  have "h_isz h = 64" "unat (of_nat sizeof_xmsg :: u64) = 64" "length x = 64"
    using ok h_items_length [of "w_mem ?w" h x] items
    by (simp_all add: test_channel_def sizeof_xmsg_def reader_ok_def)
  then obtain w' where "rtss_mb_read p (Some h) buf (of_nat sizeof_xmsg) ?w = Some (64, w')"
    "h_items (w_mem w') h = xs" "bytes_at (w_mem w') buf 64 = x"
    using rtss_mb_read_timed_now [of ?w h p "-1" "of_nat sizeof_xmsg" buf] ok items
    by (auto simp: test_channel_def sizeof_xmsg_def reader_ok_def rtss_mb_read_def)
  then show ?thesis
    using h by (intro that [of "st\<lparr>g_world := w'\<rparr>"]) (simp_all add: read_msg_def sizeof_xmsg_def)
qed

lemma receive_loop_now:
  assumes "quiet p" "\<forall>x \<in> set xs. 0 < unat (x ! 3) \<and> unat (x ! 3) \<le> 58" "z ! 3 = 0"
  shows "g_rx st = Some h \<Longrightarrow> xRx st = buf \<Longrightarrow> test_channel p h buf (g_world st) \<Longrightarrow>
    h_items (w_mem (g_world st)) h = xs @ z # zs \<Longrightarrow>
    \<exists>st'. receive_loop p st = Some (Returns (True, st')) \<and> h_items (w_mem (g_world st')) h = zs"
  using assms(2)
proof (induction xs arbitrary: st)
  case Nil
  then have "h_items (w_mem (g_world st)) h = z # zs"
    by simp
  then obtain s where s: "read_msg p st = Some (True, s)" "bytes_at (w_mem (g_world s)) buf 64 = z"
    "h_items (w_mem (g_world s)) h = zs"
    using read_msg_first [OF Nil(1-3)] by blast
  note m = read_msg_item [OF s(1) Nil(1-3)]
  have "x_len (xmsg_at (w_mem (g_world s)) (xRx s)) = 0"
    using s(2) m(5) assms(3) by (simp only: xmsg_item)
  then show ?case
    using s(1,3) by (subst receive_loop.simps) (simp add: Let_def)
next
  case (Cons x xs)
  then have "h_items (w_mem (g_world st)) h = x # xs @ z # zs"
    by simp
  then obtain s where s: "read_msg p st = Some (True, s)" "bytes_at (w_mem (g_world s)) buf 64 = x"
    "h_items (w_mem (g_world s)) h = xs @ z # zs"
    using read_msg_first [OF Cons.prems(1-3)] by blast
  note m = read_msg_item [OF s(1) Cons.prems(1-3)]
  let ?v = "snd (sys p (Sys_fwrite (take (unat (x ! 3)) (drop 6 x))) (g_world s))"
  have "w_mem ?v = w_mem (g_world s)"
    using assms(1) by (simp add: sys_def Let_def quiet_def)
  then have "\<exists>st'. receive_loop p (s\<lparr>g_world := ?v\<rparr>) = Some (Returns (True, st')) \<and> h_items (w_mem (g_world st')) h = zs"
    using m test_channel_fwrite(3) [OF m(3)] s(3) Cons.prems(5) by (intro Cons.IH) simp_all
  moreover have "x_len (xmsg_at (w_mem (g_world s)) (xRx s)) = x ! 3" "x_d (xmsg_at (w_mem (g_world s)) (xRx s)) = drop 6 x"
    using s(2) m(5) by (simp_all only: xmsg_item)
  moreover have "length x = 64" "x ! 3 \<noteq> 0" "unat (x ! 3) \<le> 58"
    using s(2) Cons.prems(5) by auto
  ultimately show ?case
    using s(1) by (subst receive_loop.simps) (simp add: unsigned_eq_0_iff Let_def)
qed

section \<open>Properties\<close>

text \<open>C31: A dump of a message prints the bytes of its payload in order, each once, as many as its length says. It stays
  inside the array for every message that the program builds from an accepted command line, but not for a
  received one: it leaves the array exactly when the length that the other side sent is more than 58.\<close>

theorem dump_stays_inside:
  assumes "rtssdbg_getopt_parser argv events = Inr a"
  shows "rtssdbg_getopt_dump_hex (nat (len a)) = [0..<nat (len a)]
    \<and> rtssdbg_mbtfcmd_dump a (rtssdbg_mbtfcmd_construct a) = Returns ()
    \<and> (rtssdbg_mbtfcmd_dump a (xmsg_at m r) = Faults \<longleftrightarrow> 58 < unat (m (r + 3)))"
proof -
  note fine = parser_fine [OF assms]
  have "unat (x_len (rtssdbg_mbtfcmd_construct a)) = nat (len a)"
  proof -
    obtain n where n: "len a = int n"
      using fine(2) by (rule nonneg_int_cases)
    have "unat (of_nat n :: u8) = n"
      using fine(3) n by (intro unat_of_nat_small) simp
    then show ?thesis
      by (simp add: rtssdbg_mbtfcmd_construct_def n)
  qed
  moreover have "length (x_d (xmsg_at m r)) = RTSSDBG_MBTF_PLOAD_MAX" "x_len (xmsg_at m r) = m (r + 3)"
    by (simp_all add: xmsg_at_def)
  ultimately show ?thesis
    using fine dump_result [OF construct_length [OF fine(1)], of a] dump_result [of "xmsg_at m r" a] dump_hex_all
    by simp
qed

theorem dump_stays_inside_witness:
  "\<exists>a. rtssdbg_getopt_parser (map ascii [''dbg'', ''-l'', ''2'', ''-p'', ''7'', ''8'']) [(Dl, Some (ascii ''2''), 3), (Dp, Some (ascii ''7''), 5)]
      = Inr a \<and> take 2 (d a) = [7, 8] \<and> rtssdbg_getopt_dump_hex (nat (len a)) = [0..<nat (len a)]"
proof -
  have "case rtssdbg_getopt_parser (map ascii [''dbg'', ''-l'', ''2'', ''-p'', ''7'', ''8'']) [(Dl, Some (ascii ''2''), 3), (Dp, Some (ascii ''7''), 5)]
      of Inl r \<Rightarrow> False | Inr a \<Rightarrow> take 2 (d a) = [7, 8]"
    by code_simp
  then obtain a where "rtssdbg_getopt_parser (map ascii [''dbg'', ''-l'', ''2'', ''-p'', ''7'', ''8''])
      [(Dl, Some (ascii ''2''), 3), (Dp, Some (ascii ''7''), 5)] = Inr a" "take 2 (d a) = [7, 8]"
    by (simp split: sum.splits)
  then show ?thesis
    using dump_stays_inside by blast
qed

text \<open>C32: The throughput test moves as much at a time as it can: the greatest whole number of items that is
  not more than what was asked for, what the receiving channel holds and what the sending channel takes.\<close>

theorem transfer_size_greatest:
  assumes "0 < isz wr" "isz wr \<le> tsz wr" "0 \<le> tsz rd" "0 \<le> maxsz"
  shows "transfer_size wr rd maxsz = (GREATEST n. isz wr dvd n \<and> n \<le> maxsz \<and> n \<le> tsz rd \<and> n \<le> tsz wr - isz wr)"
proof -
  define t where "t = min maxsz (min (tsz rd) (tsz wr - isz wr))"
  have "n \<le> t div isz wr * isz wr" if "isz wr dvd n" "n \<le> t" for n
    using that zdiv_mono1 [OF that(2) assms(1)] assms(1) by (auto elim!: dvdE simp: mult.commute)
  moreover have "t div isz wr * isz wr \<le> t"
    using div_mult_mod_eq [of t "isz wr"] pos_mod_sign [OF assms(1), of t] by linarith
  ultimately have "(GREATEST n. isz wr dvd n \<and> n \<le> maxsz \<and> n \<le> tsz rd \<and> n \<le> tsz wr - isz wr) = t div isz wr * isz wr"
    by (intro Greatest_equality) (auto simp: t_def)
  then show ?thesis
    using transfer_size_alt [OF assms] by (simp add: t_def)
qed

theorem transfer_size_greatest_witness:
  "transfer_size \<lparr>isz = 64, tsz = 1024, icnt = 0, evcnt = 0\<rparr> \<lparr>isz = 64, tsz = 1024, icnt = 0, evcnt = 0\<rparr> 4000 = 960
   \<and> (GREATEST n. (64 :: int) dvd n \<and> n \<le> 4000 \<and> n \<le> 1024 \<and> n \<le> 960) = 960"
  using transfer_size_greatest [of "\<lparr>isz = 64, tsz = 1024, icnt = 0, evcnt = 0\<rparr>" "\<lparr>isz = 64, tsz = 1024, icnt = 0, evcnt = 0\<rparr>" 4000]
  by (simp add: transfer_size_def)

text \<open>C24: Receiving a file ends with the first message of length zero; by then the program has written the
  payloads of the messages that the other side has put into the channel, each once and in order. If such
  messages wait, it does end.\<close>

theorem file_receives:
  assumes "g_rx st = Some h" "test_channel p h (xRx st) (g_world st)"
  shows "(\<forall>st'. receive_loop p st = Some (Returns (True, st')) \<longrightarrow> (\<exists>taken more.
      h_items (w_mem (g_world st)) h @ more = taken @ h_items (w_mem (g_world st')) h
      \<and> taken \<noteq> [] \<and> last taken ! 3 = 0 \<and> (\<forall>x \<in> set (butlast taken). x ! 3 \<noteq> 0)
      \<and> written (g_world st') = written (g_world st) @ concat (map msg_payload taken)))
    \<and> (quiet p \<longrightarrow> (\<forall>xs z zs. h_items (w_mem (g_world st)) h = xs @ z # zs \<longrightarrow> z ! 3 = 0 \<longrightarrow>
      (\<forall>x \<in> set xs. 0 < unat (x ! 3) \<and> unat (x ! 3) \<le> 58) \<longrightarrow>
      (\<exists>st'. receive_loop p st = Some (Returns (True, st')) \<and> h_items (w_mem (g_world st')) h = zs)))"
proof (intro conjI allI impI)
  fix st' assume "receive_loop p st = Some (Returns (True, st'))"
  then have "received h (xRx st) (g_world st) (g_world st')"
    using receive_loop_receives assms by blast
  then show "\<exists>taken more. h_items (w_mem (g_world st)) h @ more = taken @ h_items (w_mem (g_world st')) h
      \<and> taken \<noteq> [] \<and> last taken ! 3 = 0 \<and> (\<forall>x \<in> set (butlast taken). x ! 3 \<noteq> 0)
      \<and> written (g_world st') = written (g_world st) @ concat (map msg_payload taken)"
    unfolding received_def delivered_def by blast
qed (use receive_loop_now assms in blast)

text \<open>A channel in which the messages \<open>hi\<close> and the empty one wait.\<close>

definition file_cfg :: mbconfig_t where
  "file_cfg = demo_cfg\<lparr>mbc_mb_size := 500\<rparr>"

definition file_sub :: mbsub_rgn_config_t where
  "file_sub = demo_sub\<lparr>sc_end_addr_offset := 355, sc_item_max_size := 64\<rparr>"

definition file_items :: "u8 list list" where
  "file_items = [[0, 48, 16, 2, 0, 0, 104, 105] @ replicate 56 0, replicate 64 0]"

definition file_empty :: mem where
  "file_empty = snd (LibMB_Create (\<lambda>_. 0) 4096 (Some file_cfg) (Some (\<lambda>_. file_sub)))"

definition file_mem :: mem where
  "file_mem = snd (chan_put 4096 0 1024 file_items file_empty)"

definition file_rx :: rtss_mb_handle where
  "file_rx = demo_rx\<lparr>h_mb_size := 500, h_subchan_item_size := 64\<rparr>"

lemma file_chan: "chan_st 4096 0 1024 2048 4 64 4140 file_empty" "chan_items file_empty 4096 0 = []"
proof -
  have layout: "layout_ok file_cfg (\<lambda>_. file_sub)"
    by (simp add: layout_ok_def cfg_n_def cfg_start_def cfg_end_def cfg_bytes_def file_cfg_def file_sub_def
        demo_cfg_def demo_sub_def)
  obtain m' where "LibMB_Create (\<lambda>_. 0) 4096 (Some file_cfg) (Some (\<lambda>_. file_sub)) = (MB_E_SUCCESS, m')"
    "created m' 4096 file_cfg (\<lambda>_. file_sub)"
    by (rule LibMB_Create_spec [OF layout, of 4096 "\<lambda>_. 0"])
      (simp_all add: file_cfg_def file_sub_def demo_cfg_def demo_sub_def)
  then have "created file_empty 4096 file_cfg (\<lambda>_. file_sub)"
    by (simp add: file_empty_def)
  note c = created_channel [OF this layout, of 0]
  then show "chan_st 4096 0 1024 2048 4 64 4140 file_empty" "chan_items file_empty 4096 0 = []"
    by (simp_all add: chan_st_def cfg_n_def file_cfg_def file_sub_def demo_cfg_def demo_sub_def MB_MAX_SIZE_def
        cfg_start_def disjoint_def)
qed

lemma file_waits: "chan_st 4096 0 1024 2048 4 64 4140 file_mem" "chan_items file_mem 4096 0 = file_items"
proof -
  obtain b m' where p: "chan_put 4096 0 1024 file_items file_empty = (b, m')"
    by fastforce
  have "chan_batch_ok 4 64 file_items"
    by (simp add: chan_batch_ok_def file_items_def)
  moreover have "length file_items = 2"
    by (simp add: file_items_def)
  ultimately have "b \<and> chan_items m' 4096 0 = file_items \<and> chan_st 4096 0 1024 2048 4 64 4140 m'"
    using chan_put_spec(1) [OF file_chan(1) _ p] by (simp add: file_chan)
  then show "chan_st 4096 0 1024 2048 4 64 4140 file_mem" "chan_items file_mem 4096 0 = file_items"
    by (simp_all add: file_mem_def p)
qed

definition file_platform :: platform where
  "file_platform = demo_platform\<lparr>answer := (\<lambda>k. answer demo_platform k\<lparr>a_err := 5\<rparr>)\<rparr>"

theorem file_receives_witness:
  "\<exists>st'. receive_loop file_platform \<lparr>g_args = args_init, g_tx = None, g_rx = Some file_rx, xTx = 1024, xRx = 2048,
       g_world = demo_world file_mem\<rparr> = Some (Returns (True, st'))
     \<and> (\<exists>taken more. file_items @ more = taken \<and> written (g_world st') = concat (map msg_payload taken))"
proof -
  let ?st = "\<lparr>g_args = args_init, g_tx = None, g_rx = Some file_rx, xTx = 1024, xRx = 2048, g_world = demo_world file_mem\<rparr>"
  have "handle_ok file_mem file_rx" "h_isz file_rx = 64"
    using file_waits(1) by (simp_all add: handle_ok_def chan_st_def file_rx_def h_isz_def)
  then have ok: "test_channel file_platform file_rx (xRx ?st) (g_world ?st)" and q: "quiet file_platform"
    using file_waits(1)
    by (simp_all add: test_channel_def peer_adds_def anyone_def errno_pos_def file_platform_def reader_ok_def sizeof_xmsg_def
        buf_ok_def chan_st_def file_rx_def chan_extent_alt disjoint_def quiet_def)
  have items: "h_items (w_mem (g_world ?st)) file_rx = [hd file_items] @ last file_items # []"
    using file_waits(2) by (simp add: h_items_def file_rx_def file_items_def)
  have rx: "g_rx ?st = Some file_rx"
    by simp
  note all = file_receives [OF rx ok]
  obtain st' where st': "receive_loop file_platform ?st = Some (Returns (True, st'))"
      "h_items (w_mem (g_world st')) file_rx = []"
    using conjunct2 [OF all, rule_format, OF q items] by (auto simp: file_items_def)
  have "file_items = [hd file_items] @ last file_items # []"
    by (simp add: file_items_def)
  moreover have "written (g_world ?st) = []"
    by (simp add: written_def)
  moreover obtain taken more where "h_items (w_mem (g_world ?st)) file_rx @ more = taken @ h_items (w_mem (g_world st')) file_rx"
    "written (g_world st') = written (g_world ?st) @ concat (map msg_payload taken)"
    using conjunct1 [OF all, rule_format, OF st'(1)] by blast
  ultimately show ?thesis
    using st' items by (intro exI [of _ st']) auto
qed

text \<open>C23: Whatever the debug program is asked to do, when it ends it has closed its channels and freed its
  blocks; only mappings of the mailbox stay, and, if it fails while it receives a file, the stream of that file.\<close>

theorem dbg_main_releases:
  assumes "dbg_main p spin argv events st = Returns (r, st')" "g_tx st = None" "g_rx st = None"
    "results_ok p" "errno_pos p"
  shows "\<exists>R. mappings_only R \<and> (wheld (g_world st') = wheld (g_world st) + R
    \<or> r = exit_failure \<and> wheld (g_world st') = wheld (g_world st) + {#Stream#} + R)"
  using dbg_main_held [OF assms(4,5,2,3,1)] unfolding closed_down_def by blast

theorem dbg_main_releases_witness:
  "\<exists>r st' R. dbg_main file_platform (\<lambda>k m. m) [] [] \<lparr>g_args = args_init, g_tx = None, g_rx = None, xTx = 1024, xRx = 2048,
       g_world = demo_world file_mem\<rparr> = Returns (r, st') \<and> mappings_only R
     \<and> (wheld (g_world st') = R \<or> wheld (g_world st') = {#Stream#} + R)"
proof -
  let ?st = "\<lparr>g_args = args_init, g_tx = None, g_rx = None, xTx = 1024, xRx = 2048, g_world = demo_world file_mem\<rparr>"
  have "\<exists>r st'. dbg_main file_platform (\<lambda>k m. m) [] [] ?st = Returns (r, st')"
    by (simp add: dbg_main_def rtssdbg_getopt_parser_def pack_ifname_def args_init_def RTSSDBG_E_OK_def RTSSDBG_IFILE_OPT_def
        rtss_mb_open_def sys_def Let_def file_platform_def errno_defs)
  then obtain r st' where run: "dbg_main file_platform (\<lambda>k m. m) [] [] ?st = Returns (r, st')"
    by blast
  have "\<exists>R. mappings_only R \<and> (wheld (g_world st') = wheld (g_world ?st) + R
      \<or> r = exit_failure \<and> wheld (g_world st') = wheld (g_world ?st) + {#Stream#} + R)"
    by (rule dbg_main_releases [OF run]) (simp_all add: file_platform_def results_ok_def errno_pos_def)
  moreover have "wheld (g_world ?st) = {#}"
    by (simp add: wheld_def)
  ultimately show ?thesis
    using run by auto
qed

end
