(* ===== verification/Spec2Isabelle.thy ===== *)
theory Spec2Isabelle
  imports Mailbox_Claims Guidpt_Claims Update_Claims Updater_Run_Claims Updater_Input_Claims
    Updater_Kpi_Claims Console_Claims Mb_Demo_Claims Dbg_Claims
begin

text \<open>
  A model of the mailbox clients of the RTSS (the safety processor) and of the programs built on
  them. The sources, under \<^verbatim>\<open>src/\<close>, are four layers and three small programs.

  \<^bold>\<open>The safe mailbox library\<close>, \<^verbatim>\<open>middleware/safemlib\<close>: ring buffers in a memory shared with the
  other processor, one ring for each channel. Modelled in \<open>Copy_Bytes\<close> (the copy routine),
  \<open>Ring_Buffer\<close> (registers, counters, reading and writing items), \<open>Safe_MB\<close> (the exported operations
  on a ring) and \<open>Mailbox_Setup\<close> (the layout check, the channel map, creation and validation).
  A write of items is the list of its stores, done in their order; \<open>Ring_Publish\<close> shows what another processor
  can see between them.
  The shared memory is a function from addresses to bytes; the members of a descriptor in shared
  memory are accessed at their offsets, structures private to a client are records. \<open>Fifo_Channel\<close>
  states what a channel promises to its two ends as the locale \<open>fifo_channel\<close> and interprets it on the
  operations of the library; \<open>Copy_Bytes\<close> does so for the locale \<open>block_copy\<close>.

  \<^bold>\<open>The client interface\<close>, \<^verbatim>\<open>middleware/mailbox\<close>: opening a channel by name, reading with a time
  limit, writing with a trigger of the other processor. Modelled in \<open>Mailbox\<close>, with its laws in
  \<open>Mailbox_Props\<close>. The operating system is the parameter \<open>platform\<close> of \<open>OS_World\<close>: the answer to the
  \<open>k\<close>-th system call, with what the other processor did to the shared memory meanwhile, is
  arbitrary; \<open>world\<close> holds the memory, the number of calls so far and what is held from the
  operating system. A read that waits is a \<open>partial_function (option)\<close>, since polls that are always
  interrupted never end it; that it returns when a poll ends is proved.

  \<^bold>\<open>The update library\<close>, \<^verbatim>\<open>apps/rtss-updater/lib\<close>: the messages of the update protocol and their
  layout (\<open>Update_Msg\<close>), both checksum routines (\<open>Crc\<close>, \<open>Crc_Props\<close>), the handshake and the buffer that
  the clients of a process share (\<open>Update_Lib\<close>, \<open>Ota_Buffer\<close>, \<open>Update_Lib_Props\<close>), and the partition
  table module (\<open>Guidpt\<close>, \<open>Guidpt_Props\<close>, over the byte lists of \<open>Byte_Lists\<close>), whose storage is reached
  through the callback that its caller passes.

  \<^bold>\<open>The updater program\<close>, \<^verbatim>\<open>apps/rtss-updater/demo\<close>: \<open>Updater_Cmd\<close> holds one definition for each command
  (\<^verbatim>\<open>rtss_updater_cmd.c\<close>), \<open>Updater_Cmd_Props\<close> what each announces; \<open>Updater_Util\<close> and \<open>Updater_Config\<close> hold
  the list of images, the entries of the shared buffer, the configuration file, the loading of an
  image and the set-up; \<open>Updater_Gpt\<close> the handling of a table file. \<open>Updater_Seq\<close> is \<^verbatim>\<open>rtss_updater.c\<close>:
  the handler of responses, the checks of the boot information, the four command sequences, the
  command line and \<open>main\<close>. Its file-scope variables are the record \<open>updater\<close>, to which two records of a run are
  added that nothing reads: \<open>u_log\<close>, the commands that were issued and the files that were loaded, and
  \<open>u_readings\<close>, what each reading of the clock gave and how long the log was then. \<open>Updater_Kpi\<close> is the measurement of times that the option \<^verbatim>\<open>-j\<close> switches on:
  the timers, read by the sequences before and after their steps, and the two reports, each a list
  of lines that goes to the file the option names.

  \<^bold>\<open>The small programs\<close> use the client interface directly: the console (\<^verbatim>\<open>apps/rtss-console\<close>, \<open>Console\<close>), the
  demonstration (\<^verbatim>\<open>apps/rtss-mbdemo\<close>, \<open>Mb_Demo\<close>) and the debug program (\<^verbatim>\<open>apps/rtss-dbg\<close>: \<open>Dbg_Args\<close> is the
  command line, \<open>Dbg_Exec\<close> the messages and commands, \<open>Dbg_Kpi\<close> the throughput test and \<open>main\<close>). A flag that a
  signal handler sets is a function of the number of calls made so far. \<open>Std_Functions\<close> holds the
  functions of the C library on numbers and text that they use.
\<close>

text \<open>
  \<^bold>\<open>What the lemmas show.\<close> For a ring: nothing is lost, duplicated or reordered over any run, a
  reader never sees a half-written item, writes are all or nothing, and the layout check accepts
  exactly the well laid out configurations as long as no 32-bit sum wraps. For the client
  interface: an open that fails gives everything back, reads return when polls end. For the
  update library: the two checksum routines agree and detect every change of one byte; the table
  module accepts exactly the devices with a valid table; the shared buffer is mapped while in use;
  the handshake is bounded. For the program: the order of the commands in every sequence, as an
  automaton over the named images that the run of the sequence follows (locale \<open>protocol\<close> of \<open>Updater_Seq_Props\<close>, interpreted
  for the four sequences as \<open>preboot\<close>, \<open>postboot\<close>, \<open>flasher\<close> and \<open>table\<close>); relations that every step
  respects (locale \<open>updater_relation\<close> of \<open>Updater_Steps\<close>, interpreted for what is held and for the
  shape of the structures as \<open>resources\<close> and \<open>shape\<close>, and its extension \<open>counting_relation\<close>, interpreted as
  \<open>constants\<close> and \<open>counts\<close> in \<open>Updater_Timer_Props\<close>: from these follows when a sequence can leave one of
  the arrays that it indexes); which flash each timer measures and with which readings of the clock
  (\<open>Updater_Measured\<close>), and what a report holds; that an answered command completes; what a
  corrupted response can change; and the round trips of the configuration file and of the entries
  in the shared buffer. For the small programs: \<open>Peer_Reads\<close> shows what a reader sees while the other
  processor only appends to a channel, from which it follows that the console and the transfer of a
  file copy faithfully; \<open>Peer_Writes\<close> shows that a sender that uses this library is such a processor, so that
  writer, ring and console compose; \<open>Mailbox_Held\<close> and \<open>Dbg_Held\<close> count what is held, to the end that every exit of a
  program gives back all but mappings; further which command lines are accepted, which bytes a dump
  accesses, and how large a transfer is. The properties are in the theories named \<open>Claims\<close>, each with a witness; \<open>Demo_Mailbox\<close> and \<open>Updater_Demo\<close> hold the concrete
  states for these, among them a whole run of the sequence before the restart for one image.

  \<^bold>\<open>Outcomes.\<close> Codes of the source are kept as numbers at their width. An access outside an array of
  the program is the outcome \<open>Faults\<close> of the type \<open>run\<close>, a response that never comes is \<open>Blocks\<close>. Loops
  over counters are structural recursions, \<open>fread_loop\<close> ends because each pass takes bytes off the
  file, \<open>ping_loop\<close> because of its error count. The loops of the small programs that the other side may keep
  going for ever are \<open>partial_function (option)\<close>; when the console's ends is proved. The rows of a dump are counted
  by a bound, which is that of the loop. No fuel is used.

  \<^bold>\<open>Not modelled.\<close> The extent of the mapped update buffer: memory is a total function of the address, so that running off
  the mapping (the checksum over a length of 0xFFFFFFFF after a file could not be loaded, a metadata
  partition or a file larger than the buffer) is no fault here; \<open>Faults\<close> means the arrays of the program only.
  Log output and help texts; the characters that \<^verbatim>\<open>vfprintf\<close> makes of a line of a report, and the rounding
  of its throughput to a float (it is kept as a fraction); the times that the debug program prints and its signal handler, which leaves at once;
  memory barriers (accesses are in program order) and mutexes (the sections they
  protect are atomic); allocation inside \<open>getline\<close>. \<open>getopt\<close> and \<open>getopt_long\<close> are represented by
  the list of options they return.
\<close>

end
